(* ===== verification/Prelude.thy ===== *)
theory Prelude
  imports Main "HOL-Library.AList" "HOL-Library.List_Lexorder" "HOL-Library.Char_ord"
begin

section \<open>Prelude\<close>

text \<open>
  Vocabulary shared by every theory of the development.

  \<^item> A Python function that may raise is a HOL function into a sum: \<open>Inl e\<close> is the raised
    error, \<open>Inr v\<close> the returned value. \<open>and_then\<close> sequences two such calls, \<open>raise_if\<close> is the
    statement \<^verbatim>\<open>if b: raise e\<close>, and \<open>for_each\<close> is a \<^verbatim>\<open>for\<close> loop whose body may raise.
  \<^item> A Python \<^verbatim>\<open>dict\<close> is an association list in insertion order. \<open>dict_set\<close> overwrites in place
    or appends, \<open>map_of\<close> reads.
  \<^item> \<^verbatim>\<open>list(dict.fromkeys(xs))\<close> is \<open>from_keys\<close>; \<^verbatim>\<open>len(xs) != len(set(xs))\<close> is \<open>\<not> distinct xs\<close>.
  \<^item> Text and bytes are both \<open>string\<close>: a character stands for a code point below 256 in text and
    for a byte in binary data. Instants (aware UTC datetimes) are \<open>int\<close> microseconds since the epoch.
    A field that may be absent (the \<^verbatim>\<open>MISSING\<close> sentinel or \<^verbatim>\<open>None\<close>) is an \<open>option\<close>.
\<close>

named_theorems result_simps "characterisations of computations that may raise"
named_theorems contract_simps "what an accepted record or document satisfies"

type_synonym instant = int
type_synonym bytes = string
type_synonym ('k, 'v) dict = "('k \<times> 'v) list"

subsection \<open>Computations that may raise\<close>

definition and_then :: "'e + 'a \<Rightarrow> ('a \<Rightarrow> 'e + 'b) \<Rightarrow> 'e + 'b" where
  "and_then m f = (case m of Inl e \<Rightarrow> Inl e | Inr x \<Rightarrow> f x)"

definition raise_if :: "bool \<Rightarrow> 'e \<Rightarrow> 'e + unit" where
  "raise_if b e = (if b then Inl e else Inr ())"

fun for_each :: "('a \<Rightarrow> 'e + unit) \<Rightarrow> 'a list \<Rightarrow> 'e + unit" where
  "for_each f [] = Inr ()"
| "for_each f (x # xs) = and_then (f x) (\<lambda>_. for_each f xs)"

fun fold_result :: "('s \<Rightarrow> 'a \<Rightarrow> 'e + 's) \<Rightarrow> 's \<Rightarrow> 'a list \<Rightarrow> 'e + 's" where
  "fold_result f s [] = Inr s"
| "fold_result f s (x # xs) = and_then (f s x) (\<lambda>s'. fold_result f s' xs)"

fun map_result :: "('a \<Rightarrow> 'e + 'b) \<Rightarrow> 'a list \<Rightarrow> 'e + 'b list" where
  "map_result f [] = Inr []"
| "map_result f (x # xs) = and_then (f x) (\<lambda>y. and_then (map_result f xs) (\<lambda>ys. Inr (y # ys)))"

definition then_check :: "'e + unit \<Rightarrow> 'e + unit \<Rightarrow> 'e + unit" where
  "then_check m n = and_then m (\<lambda>_. n)"

fun all_checks :: "('e + unit) list \<Rightarrow> 'e + unit" where
  "all_checks [] = Inr ()"
| "all_checks (c # cs) = then_check c (all_checks cs)"

definition is_ok :: "'e + 'a \<Rightarrow> bool" where
  "is_ok r \<longleftrightarrow> (case r of Inl _ \<Rightarrow> False | Inr _ \<Rightarrow> True)"

lemma is_ok_simps [simp]: "is_ok (Inr x)" "\<not> is_ok (Inl e)"
  by (simp_all add: is_ok_def)

lemma is_ok_unit [simp]: "is_ok (r :: 'e + unit) \<longleftrightarrow> r = Inr ()"
  by (cases r) (auto simp: is_ok_def)

lemma and_then_simps [simp]: "and_then (Inl e) f = Inl e" "and_then (Inr x) f = f x"
  by (simp_all add: and_then_def)

lemma and_then_Inr [result_simps]:
  "and_then m f = Inr y \<longleftrightarrow> (\<exists>x. m = Inr x \<and> f x = Inr y)"
  by (cases m) auto

lemma and_then_Inl [result_simps]:
  "and_then m f = Inl e \<longleftrightarrow> m = Inl e \<or> (\<exists>x. m = Inr x \<and> f x = Inl e)"
  by (cases m) auto

lemma raise_if_Inr [result_simps]: "raise_if b e = Inr u \<longleftrightarrow> \<not> b"
  by (auto simp: raise_if_def)

lemma raise_if_Inl [result_simps]: "raise_if b e = Inl e' \<longleftrightarrow> b \<and> e' = e"
  by (auto simp: raise_if_def)

lemma raise_if_eval [simp]: "raise_if True e = Inl e" "raise_if False e = Inr ()"
  by (simp_all add: raise_if_def)

lemma for_each_Inr [result_simps]:
  "for_each f xs = Inr u \<longleftrightarrow> (\<forall>x \<in> set xs. f x = Inr ())"
  by (induction xs) (auto simp: result_simps)

lemma then_check_Inr [result_simps]:
  "then_check m n = Inr u \<longleftrightarrow> m = Inr () \<and> n = Inr ()"
  by (auto simp: then_check_def result_simps)

lemma then_check_simps [simp]: "then_check (Inl e) n = Inl e" "then_check (Inr ()) n = n"
  by (simp_all add: then_check_def)

lemma all_checks_Inr [result_simps]:
  "all_checks cs = Inr u \<longleftrightarrow> (\<forall>c \<in> set cs. c = Inr ())"
  by (induction cs) (auto simp: result_simps)

text \<open>
  Loops that carry a state: an invariant of the body is an invariant of the loop, and the error a
  loop raises is raised by its body in a state the invariant allows.
\<close>

lemma fold_result_invariant:
  assumes "fold_result f s xs = Inr s'" and "I s"
    and step: "\<And>s x s'. I s \<Longrightarrow> x \<in> set xs \<Longrightarrow> f s x = Inr s' \<Longrightarrow> I s'"
  shows "I s'"
  using assms
proof (induction xs arbitrary: s)
  case Nil
  then show ?case by simp
next
  case (Cons x xs)
  from Cons.prems(1) obtain t where t: "f s x = Inr t" and rest: "fold_result f t xs = Inr s'"
    by (auto simp: and_then_Inr)
  have "I t" by (rule Cons.prems(3) [OF Cons.prems(2) _ t]) simp
  with rest show ?case
  proof (rule Cons.IH)
    fix s x s'
    assume "I s" and "x \<in> set xs" and "f s x = Inr s'"
    then show "I s'" using Cons.prems(3) [of s x s'] by simp
  qed
qed

lemma fold_result_error:
  assumes "fold_result f s xs = Inl e" and "I s"
    and step: "\<And>s x s'. I s \<Longrightarrow> x \<in> set xs \<Longrightarrow> f s x = Inr s' \<Longrightarrow> I s'"
  shows "\<exists>t x. I t \<and> x \<in> set xs \<and> f t x = Inl e"
  using assms
proof (induction xs arbitrary: s)
  case Nil
  then show ?case by simp
next
  case (Cons x xs)
  show ?case
  proof (cases "f s x")
    case (Inl e')
    with Cons.prems(1,2) show ?thesis by auto
  next
    case (Inr t)
    have "I t" by (rule Cons.prems(3) [OF Cons.prems(2) _ Inr]) simp
    moreover from Inr Cons.prems(1) have "fold_result f t xs = Inl e" by simp
    moreover have "\<And>s y s'. I s \<Longrightarrow> y \<in> set xs \<Longrightarrow> f s y = Inr s' \<Longrightarrow> I s'"
      by (rule Cons.prems(3)) simp_all
    ultimately have "\<exists>u y. I u \<and> y \<in> set xs \<and> f u y = Inl e" using Cons.IH by blast
    then show ?thesis by auto
  qed
qed

lemma fold_result_raises:
  "fold_result f s xs = Inl e \<Longrightarrow> \<exists>t x. x \<in> set xs \<and> f t x = Inl e"
  using fold_result_error [of f s xs e "\<lambda>_. True"] by auto

lemma fold_result_append:
  "fold_result f s (xs @ ys) = and_then (fold_result f s xs) (\<lambda>t. fold_result f t ys)"
  by (induction xs arbitrary: s) (auto simp: and_then_def split: sum.splits)

lemma map_result_total: "map_result (\<lambda>r. Inr (f r)) xs = Inr (map f xs)"
  by (induction xs) simp_all

lemma map_result_Inr: "map_result f xs = Inr ys \<longleftrightarrow> list_all2 (\<lambda>x y. f x = Inr y) xs ys"
  by (induction xs arbitrary: ys) (auto simp: result_simps list_all2_Cons1)

lemma map_result_raises: "map_result f xs = Inl e \<Longrightarrow> \<exists>x \<in> set xs. f x = Inl e"
  by (induction xs) (auto simp: result_simps)

lemma fold_result_map: "fold_result f s (map g xs) = fold_result (\<lambda>s x. f s (g x)) s xs"
  by (induction xs arbitrary: s) (auto simp: and_then_def split: sum.splits)

text \<open>A check that is accepted stays accepted when a later input is checked the same way.\<close>

lemma for_each_append:
  "for_each f (xs @ ys) = Inr u \<longleftrightarrow> for_each f xs = Inr u \<and> for_each f ys = Inr u"
  by (auto simp: result_simps)

lemma for_each_cong_Inr:
  "(\<And>x. x \<in> set xs \<Longrightarrow> f x = Inr () \<Longrightarrow> g x = Inr ()) \<Longrightarrow> for_each f xs = Inr u
    \<Longrightarrow> for_each g xs = Inr u"
  by (auto simp: result_simps)

subsection \<open>Dictionaries and ordered sets\<close>

definition dict_set :: "'k \<Rightarrow> 'v \<Rightarrow> ('k, 'v) dict \<Rightarrow> ('k, 'v) dict" where
  "dict_set k v d = AList.update k v d"

definition dict_get :: "('k, 'v) dict \<Rightarrow> 'k \<Rightarrow> 'v \<Rightarrow> 'v" where
  "dict_get d k dflt = (case map_of d k of None \<Rightarrow> dflt | Some v \<Rightarrow> v)"

lemma map_of_dict_set [simp]: "map_of (dict_set k v d) = (map_of d)(k \<mapsto> v)"
  by (simp add: dict_set_def update_conv')

lemma dict_get_set [simp]:
  "dict_get (dict_set k v d) k' z = (if k' = k then v else dict_get d k' z)"
  by (simp add: dict_get_def)

lemma distinct_dict_set [simp]:
  "distinct (map fst d) \<Longrightarrow> distinct (map fst (dict_set k v d))"
  by (simp add: dict_set_def distinct_update)

lemma keys_dict_set: "set (map fst (dict_set k v d)) = insert k (set (map fst d))"
  by (simp add: dict_set_def dom_update)

lemma dict_set_eval [simp]:
  "dict_set k v [] = [(k, v)]"
  "dict_set k v ((k', v') # d) = (if k' = k then (k, v) # d else (k', v') # dict_set k v d)"
  by (simp_all add: dict_set_def)

fun from_keys_acc :: "'a list \<Rightarrow> 'a list \<Rightarrow> 'a list" where
  "from_keys_acc seen [] = rev seen"
| "from_keys_acc seen (x # xs) =
     (if x \<in> set seen then from_keys_acc seen xs else from_keys_acc (x # seen) xs)"

definition from_keys :: "'a list \<Rightarrow> 'a list" where
  "from_keys xs = from_keys_acc [] xs"

lemma set_from_keys_acc: "set (from_keys_acc seen xs) = set seen \<union> set xs"
  by (induction seen xs rule: from_keys_acc.induct) auto

lemma distinct_from_keys_acc: "distinct seen \<Longrightarrow> distinct (from_keys_acc seen xs)"
  by (induction seen xs rule: from_keys_acc.induct) auto

lemma set_from_keys [simp]: "set (from_keys xs) = set xs"
  by (simp add: from_keys_def set_from_keys_acc)

lemma distinct_from_keys [simp]: "distinct (from_keys xs)"
  by (simp add: from_keys_def distinct_from_keys_acc)

lemma from_keys_Nil [simp]: "from_keys [] = []"
  by (simp add: from_keys_def)

lemma from_keys_eq_Nil [simp]: "from_keys xs = [] \<longleftrightarrow> xs = []"
  by (metis set_empty set_from_keys)

text \<open>
  Each item of a list with distinct keys is what its own key finds: the fact behind every
  \<^verbatim>\<open>{item.key: item for item in items}\<close> of the code (which keeps the last of two items with
  one key; where the keys have not been checked to be distinct the items are reversed first).
\<close>

definition index_by :: "('a \<Rightarrow> 'k) \<Rightarrow> 'a list \<Rightarrow> ('k \<rightharpoonup> 'a)" where
  "index_by key items = map_of (map (\<lambda>x. (key x, x)) items)"

lemma index_by_Nil [simp]: "index_by key [] = Map.empty"
  by (simp add: index_by_def)

lemma index_by_Cons [simp]: "index_by key (x # xs) = (index_by key xs)(key x \<mapsto> x)"
  by (simp add: index_by_def)

lemma index_by_SomeD: "index_by key items k = Some x \<Longrightarrow> x \<in> set items \<and> key x = k"
  by (auto simp: index_by_def dest: map_of_SomeD)

lemma index_by_distinct:
  "distinct (map key items) \<Longrightarrow> x \<in> set items \<Longrightarrow> index_by key items (key x) = Some x"
  by (auto simp: index_by_def o_def)

lemma index_by_iff:
  "distinct (map key items) \<Longrightarrow>
     index_by key items k = Some x \<longleftrightarrow> x \<in> set items \<and> key x = k"
  using index_by_SomeD index_by_distinct by metis

lemma index_by_None: "index_by key items k = None \<longleftrightarrow> k \<notin> key ` set items"
  by (auto simp: index_by_def map_of_eq_None_iff image_iff)

lemma dom_index_by: "dom (index_by key items) = key ` set items"
  by (simp add: index_by_def dom_map_of_conv_image_fst image_image)

lemma index_by_map:
  assumes "\<And>x. x \<in> set xs \<Longrightarrow> key (f x) = key x"
  shows "index_by key (map f xs) k = map_option f (index_by key xs k)"
  using assms by (induction xs) auto

lemma distinct_map_keep:
  assumes "\<And>x. x \<in> set xs \<Longrightarrow> key (f x) = key x"
  shows "distinct (map key (map f xs)) \<longleftrightarrow> distinct (map key xs)"
proof -
  have "map key (map f xs) = map key xs" using assms by simp
  then show ?thesis by (rule arg_cong)
qed

lemma same_key_iff:
  "distinct (map key xs) \<Longrightarrow> x \<in> set xs \<Longrightarrow> y \<in> set xs \<Longrightarrow> key x = key y \<longleftrightarrow> x = y"
  by (auto simp: distinct_map dest: inj_onD)

lemma index_by_append:
  "index_by key (xs @ ys) = index_by key ys ++ index_by key xs" if "distinct (map key (xs @ ys))"
  using that by (induction xs) (auto simp: map_add_def fun_eq_iff index_by_None split: option.splits)

subsection \<open>Counting\<close>

definition count_if :: "('a \<Rightarrow> bool) \<Rightarrow> 'a list \<Rightarrow> nat" where
  "count_if P xs = length (filter P xs)"

lemma count_if_simps [simp]:
  "count_if P [] = 0"
  "count_if P (x # xs) = (if P x then Suc (count_if P xs) else count_if P xs)"
  "count_if P (xs @ ys) = count_if P xs + count_if P ys"
  by (simp_all add: count_if_def)

lemma count_if_remove1:
  "x \<in> set xs \<Longrightarrow> count_if P xs = count_if P (remove1 x xs) + (if P x then 1 else 0)"
  by (induction xs) (auto simp: count_if_def)

lemma count_if_le_length: "count_if P xs \<le> length xs"
  by (simp add: count_if_def)

lemma sum_list_map_le:
  "(\<And>x. x \<in> set xs \<Longrightarrow> f x \<le> g x) \<Longrightarrow> sum_list (map f xs) \<le> sum_list (map g xs)"
  for f g :: "'a \<Rightarrow> nat"
  by (rule sum_list_mono)

lemma sum_list_map_less:
  fixes f g :: "'a \<Rightarrow> nat"
  assumes "\<And>x. x \<in> set xs \<Longrightarrow> f x \<le> g x" and "y \<in> set xs" and "f y < g y"
  shows "sum_list (map f xs) < sum_list (map g xs)"
  using assms
proof (induction xs)
  case Nil
  then show ?case by simp
next
  case (Cons a xs)
  have le: "sum_list (map f xs) \<le> sum_list (map g xs)"
    by (rule sum_list_mono) (use Cons.prems(1) in simp)
  show ?case
  proof (cases "y = a")
    case True
    with Cons.prems(3) le show ?thesis by simp
  next
    case False
    with Cons have "sum_list (map f xs) < sum_list (map g xs)" by simp
    moreover have "f a \<le> g a" using Cons.prems(1) by simp
    ultimately show ?thesis by simp
  qed
qed

subsection \<open>Folds over items that each step uses up\<close>

text \<open>
  A loop over distinct items keeps an invariant \<open>I\<close> when each item satisfies a side condition \<open>Q\<close>
  that the steps for the other items do not disturb.
\<close>

lemma fold_keeps:
  assumes "distinct xs" and "I s" and "\<And>x. x \<in> set xs \<Longrightarrow> Q x s"
    and step: "\<And>x s. x \<in> set xs \<Longrightarrow> I s \<Longrightarrow> Q x s \<Longrightarrow> I (f x s)"
    and frame: "\<And>x y s. x \<in> set xs \<Longrightarrow> y \<in> set xs \<Longrightarrow> x \<noteq> y \<Longrightarrow> I s \<Longrightarrow> Q x s \<Longrightarrow> Q y s \<Longrightarrow> Q y (f x s)"
  shows "I (fold f xs s)"
  using assms
proof (induction xs arbitrary: s)
  case Nil
  then show ?case by simp
next
  case (Cons x xs)
  have "I (fold f xs (f x s))"
  proof (rule Cons.IH)
    show "distinct xs" using Cons.prems(1) by simp
    show "I (f x s)" using Cons.prems(2-4) by simp
    show "Q y (f x s)" if "y \<in> set xs" for y
      using Cons.prems(1-3) Cons.prems(5) [of x y s] that by auto
    show "I (f y t)" if "y \<in> set xs" "I t" "Q y t" for y t
      using Cons.prems(4) that by simp
    show "Q z (f y t)" if "y \<in> set xs" "z \<in> set xs" "y \<noteq> z" "I t" "Q y t" "Q z t" for y z t
      using Cons.prems(5) that by simp
  qed
  then show ?case by simp
qed

lemma fold_decreases:
  fixes m :: "'s \<Rightarrow> nat"
  assumes "distinct xs" and "I s" and "\<And>x. x \<in> set xs \<Longrightarrow> Q x s"
    and step: "\<And>x s. x \<in> set xs \<Longrightarrow> I s \<Longrightarrow> Q x s \<Longrightarrow> I (f x s) \<and> m (f x s) < m s"
    and frame: "\<And>x y s. x \<in> set xs \<Longrightarrow> y \<in> set xs \<Longrightarrow> x \<noteq> y \<Longrightarrow> I s \<Longrightarrow> Q x s \<Longrightarrow> Q y s \<Longrightarrow> Q y (f x s)"
  shows "m (fold f xs s) + length xs \<le> m s"
  using assms
proof (induction xs arbitrary: s)
  case Nil
  then show ?case by simp
next
  case (Cons x xs)
  have "m (fold f xs (f x s)) + length xs \<le> m (f x s)"
  proof (rule Cons.IH)
    show "distinct xs" using Cons.prems(1) by simp
    show "I (f x s)" using Cons.prems(2-4) by simp
    show "Q y (f x s)" if "y \<in> set xs" for y
      using Cons.prems(1-3) Cons.prems(5) [of x y s] that by auto
    show "I (f y t) \<and> m (f y t) < m t" if "y \<in> set xs" "I t" "Q y t" for y t
      using Cons.prems(4) that by simp
    show "Q z (f y t)" if "y \<in> set xs" "z \<in> set xs" "y \<noteq> z" "I t" "Q y t" "Q z t" for y z t
      using Cons.prems(5) that by simp
  qed
  moreover have "m (f x s) < m s" using Cons.prems(2-4) by simp
  ultimately show ?case by simp
qed

lemma distinct_remove1_notin [simp]: "distinct xs \<Longrightarrow> x \<notin> set (remove1 x xs)"
  by simp

lemma set_remove1_distinct: "distinct xs \<Longrightarrow> set (remove1 x xs) = set xs - {x}"
  by (rule set_remove1_eq)

lemma sum_list_remove1:
  "x \<in> set xs \<Longrightarrow> sum_list (map f xs) = f x + sum_list (map f (remove1 x xs))"
  for f :: "'a \<Rightarrow> nat"
  by (rule sum_list_map_remove1)

end
