(* ===== verification/Contract_Types.thy ===== *)
theory Contract_Types
  imports Prelude
begin

section \<open>Contract types: identifiers, JSON values and the sensitive-data guard\<close>

text \<open>
  Models \<^verbatim>\<open>src/scan_tool/domain/_types.py\<close> (identifier patterns, list and JSON validators),
  \<^verbatim>\<open>_safe_json\<close> of \<^verbatim>\<open>domain/operations.py\<close>, \<^verbatim>\<open>application/security.py\<close> and the compact, key-sorted
  \<^verbatim>\<open>json.dumps\<close> the application uses as canonical text. A validation failure carries the type and
  the message of the \<^verbatim>\<open>PydanticCustomError\<close> the code raises.
\<close>

datatype contract_error = Pydantic_Error (error_type: string) (error_message: string)

abbreviation schema_invalid :: "string \<Rightarrow> contract_error" where
  "schema_invalid m \<equiv> Pydantic_Error ''schema_invalid'' m"

abbreviation invalid_input :: "string \<Rightarrow> contract_error" where
  "invalid_input m \<equiv> Pydantic_Error ''invalid_input'' m"

subsection \<open>Character classes\<close>

definition upper_letters :: string where
  "upper_letters = ''ABCDEFGHIJKLMNOPQRSTUVWXYZ''"

definition lower_letters :: string where
  "lower_letters = ''abcdefghijklmnopqrstuvwxyz''"

definition decimal_digits :: string where
  "decimal_digits = ''0123456789''"

definition hex_digits :: string where
  "hex_digits = ''0123456789abcdef''"

definition is_upper_alnum :: "char \<Rightarrow> bool" where
  "is_upper_alnum c \<longleftrightarrow> c \<in> set upper_letters \<or> c \<in> set decimal_digits"

definition is_lower_alnum :: "char \<Rightarrow> bool" where
  "is_lower_alnum c \<longleftrightarrow> c \<in> set lower_letters \<or> c \<in> set decimal_digits"

definition is_letter :: "char \<Rightarrow> bool" where
  "is_letter c \<longleftrightarrow> c \<in> set upper_letters \<or> c \<in> set lower_letters"

definition is_space :: "char \<Rightarrow> bool" where
  "is_space c \<longleftrightarrow> c \<in> {CHR '' '', CHR 0x09, CHR 0x0A, CHR 0x0B, CHR 0x0C, CHR 0x0D}"

lemmas char_class_defs =
  is_upper_alnum_def is_lower_alnum_def is_letter_def is_space_def
  upper_letters_def lower_letters_def decimal_digits_def hex_digits_def

definition to_lower :: "char \<Rightarrow> char" where
  "to_lower c = (case map_of (zip upper_letters lower_letters) c of None \<Rightarrow> c | Some l \<Rightarrow> l)"

definition to_upper :: "char \<Rightarrow> char" where
  "to_upper c = (case map_of (zip lower_letters upper_letters) c of None \<Rightarrow> c | Some u \<Rightarrow> u)"

definition starts_with :: "string \<Rightarrow> string \<Rightarrow> bool" where
  "starts_with p s \<longleftrightarrow> take (length p) s = p"

definition ends_with :: "string \<Rightarrow> string \<Rightarrow> bool" where
  "ends_with p s \<longleftrightarrow> length p \<le> length s \<and> drop (length s - length p) s = p"

fun contains_text :: "string \<Rightarrow> string \<Rightarrow> bool" where
  "contains_text p [] = starts_with p []"
| "contains_text p (c # cs) = (starts_with p (c # cs) \<or> contains_text p cs)"

lemma starts_with_append [simp]: "starts_with p (p @ s)"
  by (simp add: starts_with_def)

subsection \<open>Identifier patterns\<close>

text \<open>\<^verbatim>\<open>^<prefix>[A-Z0-9][A-Z0-9-]{lo,hi}$\<close>, the shape of every record identifier.\<close>

definition id_pattern :: "string \<Rightarrow> nat \<Rightarrow> nat \<Rightarrow> string \<Rightarrow> bool" where
  "id_pattern prefix lo hi s \<longleftrightarrow>
     starts_with prefix s \<and>
     (case drop (length prefix) s of
        [] \<Rightarrow> False
      | c # cs \<Rightarrow> is_upper_alnum c \<and> list_all (\<lambda>d. is_upper_alnum d \<or> d = CHR ''-'') cs
                \<and> lo \<le> length cs \<and> length cs \<le> hi)"

lemma id_patternI:
  assumes "is_upper_alnum c" and "list_all is_upper_alnum cs"
    and "lo \<le> length cs" and "length cs \<le> hi"
  shows "id_pattern prefix lo hi (prefix @ c # cs)"
  using assms by (auto simp: id_pattern_def list_all_iff)

definition is_hex :: "string \<Rightarrow> bool" where
  "is_hex s \<longleftrightarrow> list_all (\<lambda>c. c \<in> set hex_digits) s"

definition sha256_pattern :: "string \<Rightarrow> bool" where
  "sha256_pattern s \<longleftrightarrow> length s = 64 \<and> is_hex s"

definition artifact_uri_pattern :: "string \<Rightarrow> bool" where
  "artifact_uri_pattern s \<longleftrightarrow>
     starts_with ''artifact://sha256/'' s \<and> sha256_pattern (drop (length ''artifact://sha256/'') s)"

definition snake_pattern :: "string \<Rightarrow> bool" where
  "snake_pattern s \<longleftrightarrow>
     (case s of
        [] \<Rightarrow> False
      | c # cs \<Rightarrow> c \<in> set lower_letters \<and> list_all (\<lambda>d. is_lower_alnum d \<or> d = CHR ''_'') cs
                \<and> 1 \<le> length cs \<and> length cs \<le> 63)"

definition provider_pattern :: "string \<Rightarrow> bool" where
  "provider_pattern s \<longleftrightarrow>
     (case s of
        [] \<Rightarrow> False
      | c # cs \<Rightarrow> is_lower_alnum c
                \<and> list_all (\<lambda>d. is_lower_alnum d \<or> d \<in> set ''._-'') cs
                \<and> 1 \<le> length cs \<and> length cs \<le> 63)"

definition rule_pattern :: "string \<Rightarrow> bool" where
  "rule_pattern s \<longleftrightarrow>
     starts_with ''RULE-'' s \<and> 5 < length s
     \<and> list_all (\<lambda>d. is_upper_alnum d \<or> d = CHR ''-'') (drop 5 s)"

subsection \<open>List validators\<close>

definition ensure_unique :: "'a list \<Rightarrow> contract_error + 'a list" where
  "ensure_unique items =
     (if list_all (\<lambda>i. items ! i \<notin> set (take i items)) [0..<length items] then Inr items
      else Inl (invalid_input ''array items must be unique''))"

definition non_empty_unique :: "'a list \<Rightarrow> contract_error + 'a list" where
  "non_empty_unique items =
     (if items = [] then Inl (schema_invalid ''array must contain at least one item'')
      else ensure_unique items)"

definition exactly_two_unique :: "'a list \<Rightarrow> contract_error + 'a list" where
  "exactly_two_unique items =
     (if length items \<noteq> 2 then Inl (invalid_input ''array must contain exactly two items'')
      else ensure_unique items)"

lemma ensure_unique_distinct: "ensure_unique items = Inr ys \<longleftrightarrow> distinct items \<and> ys = items"
proof -
  have "list_all (\<lambda>i. items ! i \<notin> set (take i items)) [0..<length items] \<longleftrightarrow> distinct items"
    by (auto simp: list_all_iff distinct_conv_nth in_set_conv_nth)
      (metis atLeastLessThan_iff linorder_neqE_nat zero_le)
  then show ?thesis by (auto simp: ensure_unique_def)
qed

definition missing_references :: "string list \<Rightarrow> string set \<Rightarrow> string set" where
  "missing_references refs known = set refs - known"

lemma missing_references_empty [simp]: "missing_references refs known = {} \<longleftrightarrow> set refs \<subseteq> known"
  by (auto simp: missing_references_def)

subsection \<open>JSON values\<close>

text \<open>
  A JSON document as the standard library decodes it: an object keeps its fields in order, an
  integer is unbounded, and a float is its printed form, which no operation of the code inspects.
\<close>

datatype json =
    JNull | JBool bool | JInt int | JFloat string | JStr string
  | JArr "json list" | JObj "(string \<times> json) list"

definition sensitive_detail_keys :: "string list" where
  "sensitive_detail_keys =
     [''access_token'', ''api_key'', ''auth_token'', ''authorization'', ''bearer'', ''cookie'',
      ''credential'', ''password'', ''private_key'', ''seed_phrase'', ''session'']"

text \<open>\<^verbatim>\<open>item.startswith("/") or re.match(r"^[A-Za-z]:[\\/]", item)\<close>\<close>

definition is_absolute_path :: "string \<Rightarrow> bool" where
  "is_absolute_path s \<longleftrightarrow>
     starts_with ''/'' s
     \<or> (case s of a # b # c # _ \<Rightarrow> is_letter a \<and> b = CHR '':'' \<and> c \<in> {CHR 0x5C, CHR ''/''} | _ \<Rightarrow> False)"

fun safe_json :: "json \<Rightarrow> contract_error + unit"
  and safe_json_items :: "json list \<Rightarrow> contract_error + unit"
  and safe_json_fields :: "(string \<times> json) list \<Rightarrow> contract_error + unit" where
  "safe_json (JObj fields) = safe_json_fields fields"
| "safe_json (JArr items) = safe_json_items items"
| "safe_json (JStr s) =
     raise_if (is_absolute_path s)
       (schema_invalid ''operations JSON contains a prohibited local absolute path'')"
| "safe_json JNull = Inr ()"
| "safe_json (JBool _) = Inr ()"
| "safe_json (JInt _) = Inr ()"
| "safe_json (JFloat _) = Inr ()"
| "safe_json_items [] = Inr ()"
| "safe_json_items (x # xs) = then_check (safe_json x) (safe_json_items xs)"
| "safe_json_fields [] = Inr ()"
| "safe_json_fields ((k, v) # fs) =
     then_check
       (raise_if (map to_lower k \<in> set sensitive_detail_keys)
         (schema_invalid ''operations JSON contains a prohibited sensitive field''))
       (then_check (safe_json v) (safe_json_fields fs))"

text \<open>Every field of every object nested in a document, in document order.\<close>

fun json_fields :: "json \<Rightarrow> (string \<times> json) list"
  and json_fields_items :: "json list \<Rightarrow> (string \<times> json) list"
  and json_fields_fields :: "(string \<times> json) list \<Rightarrow> (string \<times> json) list" where
  "json_fields (JObj fields) = json_fields_fields fields"
| "json_fields (JArr items) = json_fields_items items"
| "json_fields (JStr _) = []"
| "json_fields JNull = []"
| "json_fields (JBool _) = []"
| "json_fields (JInt _) = []"
| "json_fields (JFloat _) = []"
| "json_fields_items [] = []"
| "json_fields_items (x # xs) = json_fields x @ json_fields_items xs"
| "json_fields_fields [] = []"
| "json_fields_fields ((k, v) # fs) = (k, v) # json_fields v @ json_fields_fields fs"

lemma id_pattern_nonempty: "id_pattern prefix lo hi s \<Longrightarrow> s \<noteq> []"
  by (auto simp: id_pattern_def)

lemma starts_with_relative:
  "starts_with (a # b # p) s \<Longrightarrow> a \<noteq> CHR ''/'' \<Longrightarrow> b \<noteq> CHR '':'' \<Longrightarrow> \<not> is_absolute_path s"
  by (cases s rule: list.exhaust; cases "tl s" rule: list.exhaust)
    (auto simp: is_absolute_path_def starts_with_def split: list.splits)

lemma id_pattern_relative:
  "id_pattern (a # b # p) lo hi s \<Longrightarrow> a \<noteq> CHR ''/'' \<Longrightarrow> b \<noteq> CHR '':'' \<Longrightarrow> \<not> is_absolute_path s"
  using starts_with_relative [of a b p s] by (simp add: id_pattern_def)

definition plain_key :: "string \<Rightarrow> bool" where
  "plain_key k \<longleftrightarrow> map to_lower k \<notin> set sensitive_detail_keys"

lemma safe_json_object_iff:
  "safe_json (JObj fs) = Inr u \<longleftrightarrow>
     list_all plain_key (map fst fs) \<and> (\<forall>v \<in> set (map snd fs). safe_json v = Inr ())"
  by (induction fs) (auto simp: plain_key_def result_simps)

lemma safe_json_sound:
  "safe_json j = Inr () \<Longrightarrow> (k, v) \<in> set (json_fields j) \<Longrightarrow>
     map to_lower k \<notin> set sensitive_detail_keys \<and> (\<forall>s. v = JStr s \<longrightarrow> \<not> is_absolute_path s)"
  "safe_json_items js = Inr () \<Longrightarrow> (k, v) \<in> set (json_fields_items js) \<Longrightarrow>
     map to_lower k \<notin> set sensitive_detail_keys \<and> (\<forall>s. v = JStr s \<longrightarrow> \<not> is_absolute_path s)"
  "safe_json_fields fs = Inr () \<Longrightarrow> (k, v) \<in> set (json_fields_fields fs) \<Longrightarrow>
     map to_lower k \<notin> set sensitive_detail_keys \<and> (\<forall>s. v = JStr s \<longrightarrow> \<not> is_absolute_path s)"
proof (induction j and js and fs rule: safe_json_safe_json_items_safe_json_fields.induct)
  case (11 k' v' fs)
  then show ?case by (auto simp: result_simps)
qed (auto simp: result_simps)

text \<open>\<^verbatim>\<open>raw_values_are_uint256\<close>: every field whose name ends in \<^verbatim>\<open>_raw\<close> holds a canonical uint256.\<close>

definition uint256_max :: nat where
  "uint256_max = 2 ^ 256 - 1"

definition digit_value :: "char \<Rightarrow> nat" where
  "digit_value c = (case map_of (zip decimal_digits [0..<10]) c of None \<Rightarrow> 0 | Some d \<Rightarrow> d)"

definition decimal_value :: "string \<Rightarrow> nat" where
  "decimal_value s = foldl (\<lambda>n c. 10 * n + digit_value c) 0 s"

definition canonical_decimal :: "string \<Rightarrow> bool" where
  "canonical_decimal s \<longleftrightarrow>
     s = ''0''
     \<or> (case s of [] \<Rightarrow> False
         | c # cs \<Rightarrow> c \<in> set (tl decimal_digits) \<and> list_all (\<lambda>d. d \<in> set decimal_digits) cs)"

definition is_canonical_uint256 :: "json \<Rightarrow> bool" where
  "is_canonical_uint256 v =
     (case v of JStr s \<Rightarrow> canonical_decimal s \<and> decimal_value s \<le> uint256_max | _ \<Rightarrow> False)"

definition raw_field_ok :: "json \<Rightarrow> bool" where
  "raw_field_ok v =
     (case v of JArr items \<Rightarrow> list_all is_canonical_uint256 items | _ \<Rightarrow> is_canonical_uint256 v)"

fun raw_values_are_uint256 :: "json \<Rightarrow> contract_error + unit"
  and raw_values_items :: "json list \<Rightarrow> contract_error + unit"
  and raw_values_fields :: "(string \<times> json) list \<Rightarrow> contract_error + unit" where
  "raw_values_are_uint256 (JObj fields) = raw_values_fields fields"
| "raw_values_are_uint256 (JArr items) = raw_values_items items"
| "raw_values_are_uint256 (JStr _) = Inr ()"
| "raw_values_are_uint256 JNull = Inr ()"
| "raw_values_are_uint256 (JBool _) = Inr ()"
| "raw_values_are_uint256 (JInt _) = Inr ()"
| "raw_values_are_uint256 (JFloat _) = Inr ()"
| "raw_values_items [] = Inr ()"
| "raw_values_items (x # xs) = then_check (raw_values_are_uint256 x) (raw_values_items xs)"
| "raw_values_fields [] = Inr ()"
| "raw_values_fields ((k, v) # fs) =
     then_check
       (raise_if (ends_with ''_raw'' k \<and> \<not> raw_field_ok v)
         (schema_invalid ''raw values must be canonical uint256 decimal strings''))
       (then_check (raw_values_are_uint256 v) (raw_values_fields fs))"

lemma raw_values_iff:
  "raw_values_are_uint256 j = Inr u \<longleftrightarrow>
     (\<forall>(k, v) \<in> set (json_fields j). ends_with ''_raw'' k \<longrightarrow> raw_field_ok v)"
  "raw_values_items js = Inr u \<longleftrightarrow>
     (\<forall>(k, v) \<in> set (json_fields_items js). ends_with ''_raw'' k \<longrightarrow> raw_field_ok v)"
  "raw_values_fields fs = Inr u \<longleftrightarrow>
     (\<forall>(k, v) \<in> set (json_fields_fields fs). ends_with ''_raw'' k \<longrightarrow> raw_field_ok v)"
  by (induction j and js and fs
      rule: raw_values_are_uint256_raw_values_items_raw_values_fields.induct)
    (auto simp: result_simps)

subsection \<open>Sensitive-data guard\<close>

text \<open>
  \<open>path_segment stop b s\<close>: the regular expression \<^verbatim>\<open>[^<stop>\s]+<stop>\<close> matches a prefix of \<open>s\<close>
  (\<open>b\<close> records that a character of the segment has been read).
\<close>

fun path_segment :: "char \<Rightarrow> bool \<Rightarrow> string \<Rightarrow> bool" where
  "path_segment stop b [] = False"
| "path_segment stop b (c # cs) =
     (if c = stop then b else if is_space c then False else path_segment stop True cs)"

definition local_path_at :: "bytes \<Rightarrow> bool" where
  "local_path_at s \<longleftrightarrow>
     (starts_with ''/Users/'' s \<and> path_segment (CHR ''/'') False (drop 7 s))
     \<or> (starts_with ''/home/'' s \<and> path_segment (CHR ''/'') False (drop 6 s))
     \<or> (case s of [] \<Rightarrow> False
         | c # cs \<Rightarrow> is_letter c
             \<and> starts_with ([CHR '':'', CHR 0x5C] @ ''Users'' @ [CHR 0x5C]) cs
             \<and> path_segment (CHR 0x5C) False (drop 8 cs))"

fun has_local_path :: "bytes \<Rightarrow> bool" where
  "has_local_path [] = local_path_at []"
| "has_local_path (c # cs) = (local_path_at (c # cs) \<or> has_local_path cs)"

datatype guard_error = Local_Path | Forbidden_Value

definition utf8_char :: "char \<Rightarrow> bytes" where
  "utf8_char c =
     (let n = of_char c :: nat in
      if n < 128 then [c] else [char_of (192 + n div 64), char_of (128 + n mod 64)])"

definition encode :: "string \<Rightarrow> bytes" where
  "encode s = concat (map utf8_char s)"

definition guard_values :: "string list \<Rightarrow> string list" where
  "guard_values forbidden = filter (\<lambda>v. v \<noteq> []) forbidden"

definition check_bytes :: "string list \<Rightarrow> bytes \<Rightarrow> guard_error + unit" where
  "check_bytes forbidden value =
     then_check (raise_if (has_local_path value) Local_Path)
       (for_each (\<lambda>f. raise_if (contains_text (encode f) value) Forbidden_Value)
         (guard_values forbidden))"

definition check_text :: "string list \<Rightarrow> string \<Rightarrow> guard_error + unit" where
  "check_text forbidden value = check_bytes forbidden (encode value)"

lemma check_bytes_Inr [result_simps]:
  "check_bytes forbidden value = Inr u \<longleftrightarrow>
     \<not> has_local_path value
     \<and> (\<forall>f \<in> set forbidden. f \<noteq> [] \<longrightarrow> \<not> contains_text (encode f) value)"
  by (auto simp: check_bytes_def guard_values_def result_simps)

lemma has_local_path_append: "local_path_at s \<Longrightarrow> has_local_path (p @ s)"
  by (induction p) (cases s, simp_all)

subsection \<open>Canonical JSON text\<close>

text \<open>\<^verbatim>\<open>json.dumps(value, sort_keys=True, separators=(",", ":"))\<close> with ASCII escapes.\<close>

fun show_nat :: "nat \<Rightarrow> string" where
  "show_nat n = (if n < 10 then [decimal_digits ! n] else show_nat (n div 10) @ [decimal_digits ! (n mod 10)])"

declare show_nat.simps [simp del]

definition show_int :: "int \<Rightarrow> string" where
  "show_int i = (if i < 0 then CHR ''-'' # show_nat (nat (- i)) else show_nat (nat i))"

definition escape_char :: "char \<Rightarrow> string" where
  "escape_char c =
     (if c = CHR 0x22 then [CHR 0x5C, CHR 0x22]
      else if c = CHR 0x5C then [CHR 0x5C, CHR 0x5C]
      else if c = CHR 0x0A then [CHR 0x5C, CHR ''n'']
      else if c = CHR 0x0D then [CHR 0x5C, CHR ''r'']
      else if c = CHR 0x09 then [CHR 0x5C, CHR ''t'']
      else if c = CHR 0x08 then [CHR 0x5C, CHR ''b'']
      else if c = CHR 0x0C then [CHR 0x5C, CHR ''f'']
      else let n = of_char c :: nat in
        if 32 \<le> n \<and> n \<le> 126 then [c]
        else [CHR 0x5C] @ ''u00'' @ [hex_digits ! (n div 16), hex_digits ! (n mod 16)])"

definition dumps_string :: "string \<Rightarrow> string" where
  "dumps_string s = CHR 0x22 # concat (map escape_char s) @ [CHR 0x22]"

fun join_with :: "string \<Rightarrow> string list \<Rightarrow> string" where
  "join_with sep [] = []"
| "join_with sep [x] = x"
| "join_with sep (x # xs) = x @ sep @ join_with sep xs"

definition render_fields :: "(string \<times> string) list \<Rightarrow> string" where
  "render_fields fs =
     ''{'' @ join_with '','' (map (\<lambda>(k, t). dumps_string k @ '':'' @ t) (sort_key fst fs)) @ ''}''"

fun dumps :: "json \<Rightarrow> string"
  and dumps_items :: "json list \<Rightarrow> string list"
  and dumps_fields :: "(string \<times> json) list \<Rightarrow> (string \<times> string) list" where
  "dumps JNull = ''null''"
| "dumps (JBool b) = (if b then ''true'' else ''false'')"
| "dumps (JInt i) = show_int i"
| "dumps (JFloat t) = t"
| "dumps (JStr s) = dumps_string s"
| "dumps (JArr items) = ''['' @ join_with '','' (dumps_items items) @ '']''"
| "dumps (JObj fields) = render_fields (dumps_fields fields)"
| "dumps_items [] = []"
| "dumps_items (x # xs) = dumps x # dumps_items xs"
| "dumps_fields [] = []"
| "dumps_fields ((k, v) # fs) = (k, dumps v) # dumps_fields fs"

subsection \<open>Decimal text\<close>

lemma digit_value_nth: "d < 10 \<Longrightarrow> digit_value (decimal_digits ! d) = d"
proof -
  assume "d < 10"
  then have "d \<in> set [0..<10]" by simp
  moreover have "\<forall>d \<in> set [0..<10]. digit_value (decimal_digits ! d) = d" by code_simp
  ultimately show ?thesis by blast
qed

lemma length_decimal_digits: "length decimal_digits = 10"
  by (simp add: decimal_digits_def)

lemma decimal_digit_nth: "d < 10 \<Longrightarrow> decimal_digits ! d \<in> set decimal_digits"
  using length_decimal_digits by (intro nth_mem) simp

lemma decimal_digit_pos_nth: "0 < d \<Longrightarrow> d < 10 \<Longrightarrow> decimal_digits ! d \<in> set (tl decimal_digits)"
proof -
  assume d: "0 < d" "d < 10"
  then have "decimal_digits ! d = tl decimal_digits ! (d - 1)"
    using length_decimal_digits by (simp add: nth_tl)
  moreover have "d - 1 < length (tl decimal_digits)" using d length_decimal_digits by simp
  ultimately show ?thesis by simp
qed

lemma decimal_value_snoc: "decimal_value (s @ [c]) = 10 * decimal_value s + digit_value c"
  by (simp add: decimal_value_def)

lemma show_nat_value: "decimal_value (show_nat n) = n"
proof (induction n rule: show_nat.induct)
  case (1 n)
  then show ?case
    by (cases "n < 10")
      (simp_all add: show_nat.simps [of n] decimal_value_snoc digit_value_nth,
        simp add: decimal_value_def digit_value_nth)
qed

lemma show_nat_digits: "set (show_nat n) \<subseteq> set decimal_digits"
proof (induction n rule: show_nat.induct)
  case (1 n)
  then show ?case
    by (cases "n < 10") (auto simp: show_nat.simps [of n] decimal_digit_nth)
qed

lemma show_nat_head: "0 < n \<Longrightarrow> \<exists>c cs. show_nat n = c # cs \<and> c \<in> set (tl decimal_digits)"
proof (induction n rule: show_nat.induct)
  case (1 n)
  show ?case
  proof (cases "n < 10")
    case True
    with 1 show ?thesis by (simp add: show_nat.simps [of n] decimal_digit_pos_nth)
  next
    case False
    then have "0 < n div 10" by simp
    then obtain c cs where "show_nat (n div 10) = c # cs" "c \<in> set (tl decimal_digits)"
      using 1(1) [OF False] by blast
    with False show ?thesis by (simp add: show_nat.simps [of n])
  qed
qed

lemma show_nat_canonical: "canonical_decimal (show_nat n)"
proof (cases "n = 0")
  case True
  then show ?thesis by (simp add: show_nat.simps canonical_decimal_def decimal_digits_def)
next
  case False
  then obtain c cs where "show_nat n = c # cs" "c \<in> set (tl decimal_digits)"
    using show_nat_head by blast
  with show_nat_digits [of n] show ?thesis by (auto simp: canonical_decimal_def list_all_iff)
qed

end
