(* ===== verification/Operations.thy ===== *)
theory Operations
  imports Contract_Types
begin

section \<open>The operations contract\<close>

text \<open>
  Models \<^verbatim>\<open>src/scan_tool/domain/operations.py\<close>: the enumerations, one record per contract model,
  the validator each model runs after its fields have been parsed, and the cross-record validator
  of \<^verbatim>\<open>OperationsContractBundle\<close>. A record's validator returns \<open>Inr ()\<close> or the first error the
  code raises; \<open>Field_Errors\<close> of the field constraints stand before it, as in pydantic, where an
  after-validator only sees records whose fields have been accepted. Status values of the
  enumerations are written with the entity in front (\<^verbatim>\<open>JobStatus.COMPLETE\<close> is \<open>JOB_COMPLETE\<close>).
  URLs (\<^verbatim>\<open>AnyUrl\<close>, parsed by pydantic) are plain strings.
\<close>

subsection \<open>Enumerations\<close>

datatype competition_phase = QUALIFIER | FINAL

datatype competition_status = COMP_SETUP | COMP_ACTIVE | COMP_PAUSED | COMP_CLOSED

datatype competition_environment = ENV_LIVE | ENV_SYNTHETIC_TEST

datatype problem_priority = PRIO_CRITICAL | PRIO_HIGH | PRIO_NORMAL | PRIO_DEFERRED

datatype priority_source = PRIO_HUMAN | PRIO_DERIVED

datatype problem_status =
    PROB_CAPTURED | PROB_TRIAGED | PROB_QUEUED | PROB_RUNNING | PROB_PARTIAL | PROB_VERIFYING
  | PROB_REVIEW_REQUIRED | PROB_SUBMISSION_READY | PROB_SUBMITTED

datatype adapter_kind = FAKE_QA | LOCAL_ADAPTER | EXTERNAL_ADAPTER

datatype data_boundary =
    SYNTHETIC_ONLY | LOCAL_ONLY | REDACTED_EXTERNAL | APPROVED_PROBLEM_DATA

datatype ai_tool_mode = PLANNING_ONLY | PLANNING_AND_APPROVED_TOOLS

datatype ai_rule_state = AI_ALLOWED | AI_RULES_GATED | AI_RULE_RESTRICTED

datatype plan_status =
    PLAN_RULES_GATED | PLAN_PROPOSED | PLAN_APPROVED | PLAN_REJECTED | PLAN_SUPERSEDED

datatype job_role = PLANNER | EVIDENCE | VERIFIER | REPORTER

datatype job_status =
    JOB_QUEUED | JOB_RUNNING | JOB_WAITING | JOB_COMPLETE | JOB_PARTIAL | JOB_FAILED
  | JOB_CANCELLED

datatype verification_status =
    VER_QUEUED | VER_RUNNING | VER_PASS | VER_FAIL | VER_CONFLICT | VER_INCOMPLETE

datatype candidate_status =
    CAND_DRAFT | CAND_REVIEW_REQUIRED | CAND_SUBMISSION_READY | CAND_SUBMITTED | CAND_REJECTED

datatype recommendation = HOLD | INVESTIGATE | SUBMIT

datatype submission_response = RESP_CORRECT | RESP_INCORRECT | RESP_UNKNOWN

datatype actor_type = OPERATOR | AI_ACTOR | WORKER | SYSTEM

datatype operation_error_stage =
    STAGE_OPERATIONS_INPUT | STAGE_AI_MODE_POLICY | STAGE_PLANNER | STAGE_SCHEDULER
  | STAGE_EVIDENCE_WORKER | STAGE_VERIFICATION | STAGE_SUBMISSION_RECORD

datatype operation_error_code =
    INVALID_OPERATIONS_INPUT | RULES_GATED | RULE_RESTRICTED | PLANNER_FAILED | DEPENDENCY_CYCLE
  | BUDGET_EXHAUSTED | EVIDENCE_WORKER_FAILED | VERIFICATION_FAILED | SUBMISSION_RECORD_FAILED

text \<open>The wire values of the enumerations (\<^verbatim>\<open>StrEnum.value\<close>) that the code prints or compares.\<close>

fun problem_status_value :: "problem_status \<Rightarrow> string" where
  "problem_status_value PROB_CAPTURED = ''captured''"
| "problem_status_value PROB_TRIAGED = ''triaged''"
| "problem_status_value PROB_QUEUED = ''queued''"
| "problem_status_value PROB_RUNNING = ''running''"
| "problem_status_value PROB_PARTIAL = ''partial''"
| "problem_status_value PROB_VERIFYING = ''verifying''"
| "problem_status_value PROB_REVIEW_REQUIRED = ''review_required''"
| "problem_status_value PROB_SUBMISSION_READY = ''submission_ready''"
| "problem_status_value PROB_SUBMITTED = ''submitted''"

fun plan_status_value :: "plan_status \<Rightarrow> string" where
  "plan_status_value PLAN_RULES_GATED = ''rules_gated''"
| "plan_status_value PLAN_PROPOSED = ''proposed''"
| "plan_status_value PLAN_APPROVED = ''approved''"
| "plan_status_value PLAN_REJECTED = ''rejected''"
| "plan_status_value PLAN_SUPERSEDED = ''superseded''"

fun job_role_value :: "job_role \<Rightarrow> string" where
  "job_role_value PLANNER = ''planner''"
| "job_role_value EVIDENCE = ''evidence''"
| "job_role_value VERIFIER = ''verifier''"
| "job_role_value REPORTER = ''reporter''"

fun job_status_value :: "job_status \<Rightarrow> string" where
  "job_status_value JOB_QUEUED = ''queued''"
| "job_status_value JOB_RUNNING = ''running''"
| "job_status_value JOB_WAITING = ''waiting''"
| "job_status_value JOB_COMPLETE = ''complete''"
| "job_status_value JOB_PARTIAL = ''partial''"
| "job_status_value JOB_FAILED = ''failed''"
| "job_status_value JOB_CANCELLED = ''cancelled''"

fun verification_status_value :: "verification_status \<Rightarrow> string" where
  "verification_status_value VER_QUEUED = ''queued''"
| "verification_status_value VER_RUNNING = ''running''"
| "verification_status_value VER_PASS = ''pass''"
| "verification_status_value VER_FAIL = ''fail''"
| "verification_status_value VER_CONFLICT = ''conflict''"
| "verification_status_value VER_INCOMPLETE = ''incomplete''"

fun candidate_status_value :: "candidate_status \<Rightarrow> string" where
  "candidate_status_value CAND_DRAFT = ''draft''"
| "candidate_status_value CAND_REVIEW_REQUIRED = ''review_required''"
| "candidate_status_value CAND_SUBMISSION_READY = ''submission_ready''"
| "candidate_status_value CAND_SUBMITTED = ''submitted''"
| "candidate_status_value CAND_REJECTED = ''rejected''"

fun submission_response_value :: "submission_response \<Rightarrow> string" where
  "submission_response_value RESP_CORRECT = ''correct''"
| "submission_response_value RESP_INCORRECT = ''incorrect''"
| "submission_response_value RESP_UNKNOWN = ''unknown''"

fun operation_error_code_value :: "operation_error_code \<Rightarrow> string" where
  "operation_error_code_value INVALID_OPERATIONS_INPUT = ''invalid_operations_input''"
| "operation_error_code_value RULES_GATED = ''rules_gated''"
| "operation_error_code_value RULE_RESTRICTED = ''rule_restricted''"
| "operation_error_code_value PLANNER_FAILED = ''planner_failed''"
| "operation_error_code_value DEPENDENCY_CYCLE = ''dependency_cycle''"
| "operation_error_code_value BUDGET_EXHAUSTED = ''budget_exhausted''"
| "operation_error_code_value EVIDENCE_WORKER_FAILED = ''evidence_worker_failed''"
| "operation_error_code_value VERIFICATION_FAILED = ''verification_failed''"
| "operation_error_code_value SUBMISSION_RECORD_FAILED = ''submission_record_failed''"

text \<open>Roles are ordered by their wire value, as \<^verbatim>\<open>sorted\<close> orders a \<^verbatim>\<open>StrEnum\<close>.\<close>

lemma job_role_value_inj: "job_role_value a = job_role_value b \<longleftrightarrow> a = b"
  by (cases a; cases b; simp)

instantiation job_role :: linorder
begin

definition less_eq_job_role :: "job_role \<Rightarrow> job_role \<Rightarrow> bool" where
  "less_eq_job_role a b \<longleftrightarrow> job_role_value a \<le> job_role_value b"

definition less_job_role :: "job_role \<Rightarrow> job_role \<Rightarrow> bool" where
  "less_job_role a b \<longleftrightarrow> job_role_value a < job_role_value b"

instance
proof
  fix a b c :: job_role
  show "a < b \<longleftrightarrow> a \<le> b \<and> \<not> b \<le> a"
    by (simp add: less_eq_job_role_def less_job_role_def less_le_not_le)
  show "a \<le> a" by (simp add: less_eq_job_role_def)
  show "a \<le> b \<Longrightarrow> b \<le> c \<Longrightarrow> a \<le> c" by (simp add: less_eq_job_role_def)
  show "a \<le> b \<Longrightarrow> b \<le> a \<Longrightarrow> a = b"
    by (metis less_eq_job_role_def order.antisym job_role_value_inj)
  show "a \<le> b \<or> b \<le> a" by (simp add: less_eq_job_role_def linear)
qed

end

subsection \<open>Identifier types\<close>

abbreviation "competition_id_ok \<equiv> id_pattern ''COMP-'' 2 63"
abbreviation "problem_id_ok \<equiv> id_pattern ''PROB-'' 1 63"
abbreviation "mode_id_ok \<equiv> id_pattern ''MODE-'' 2 63"
abbreviation "plan_id_ok \<equiv> id_pattern ''PLAN-'' 2 63"
abbreviation "job_id_ok \<equiv> id_pattern ''JOB-'' 2 63"
abbreviation "verification_id_ok \<equiv> id_pattern ''VER-'' 2 63"
abbreviation "candidate_id_ok \<equiv> id_pattern ''CAND-'' 2 63"
abbreviation "submission_id_ok \<equiv> id_pattern ''SUB-'' 2 63"
abbreviation "operation_event_id_ok \<equiv> id_pattern ''OEV-'' 2 63"
abbreviation "operation_error_id_ok \<equiv> id_pattern ''OERR-'' 2 63"
abbreviation "worker_id_ok \<equiv> id_pattern ''WORKER-'' 1 63"
abbreviation "analysis_id_ok \<equiv> id_pattern ''AN-'' 2 63"
abbreviation "result_id_ok \<equiv> id_pattern ''RES-'' 2 127"
abbreviation "evidence_id_ok \<equiv> id_pattern ''EV-'' 2 127"

abbreviation field_errors :: contract_error where
  "field_errors \<equiv> Pydantic_Error ''field_errors'' ''one or more fields are invalid''"

definition optional_ok :: "('a \<Rightarrow> bool) \<Rightarrow> 'a option \<Rightarrow> bool" where
  "optional_ok P v = (case v of None \<Rightarrow> True | Some x \<Rightarrow> P x)"

lemma optional_ok_simps [simp]: "optional_ok P None" "optional_ok P (Some x) = P x"
  by (simp_all add: optional_ok_def)

definition require_ordered :: "instant \<Rightarrow> instant \<Rightarrow> contract_error + unit" where
  "require_ordered start finish =
     raise_if (finish < start) (schema_invalid ''timestamps are out of order'')"

lemma require_ordered_Inr [result_simps]: "require_ordered s f = Inr u \<longleftrightarrow> s \<le> f"
  by (auto simp: require_ordered_def result_simps)


subsection \<open>Records\<close>

datatype analysis_type =
    DEX_SWAP | AUTH_CONSUMPTION | ADDRESS_FREEZE | EVM_CORE | EVM_SPECIAL | FLOW_PATH
  | INTEL_CONTEXT | BRIDGE_TRANSFER | BITCOIN_UTXO | CEX_CLUSTER | MIXER_FLOW | DEFI_LENDING
  | CASE_RECONCILIATION

definition operations_leaf_types :: "analysis_type list" where
  "operations_leaf_types =
     [DEX_SWAP, AUTH_CONSUMPTION, ADDRESS_FREEZE, EVM_CORE, EVM_SPECIAL, FLOW_PATH, INTEL_CONTEXT,
      BRIDGE_TRANSFER, BITCOIN_UTXO, CEX_CLUSTER]"

record provided_file_artifact =
  pf_filename :: string
  pf_sha256 :: string
  pf_media_type :: string

record competition_manifest =
  mf_competition_id :: string
  mf_operations_schema_version :: string
  mf_name :: string
  mf_phase :: competition_phase
  mf_environment :: competition_environment
  mf_rules_snapshot_ref :: string
  mf_status :: competition_status
  mf_created_at :: instant
  mf_updated_at :: instant

record problem_record =
  pr_problem_id :: string
  pr_competition_id :: string
  pr_title :: string
  pr_original_text_artifact :: string
  pr_provided_urls :: "string list"
  pr_provided_file_artifacts :: "provided_file_artifact list"
  pr_score :: int
  pr_answer_format :: string
  pr_priority :: problem_priority
  pr_priority_source :: priority_source
  pr_status :: problem_status
  pr_active_plan_id :: "string option"
  pr_created_at :: instant
  pr_updated_at :: instant

record ai_execution_mode =
  am_mode_id :: string
  am_competition_id :: string
  am_provider_id :: "string option"
  am_model_id :: "string option"
  am_adapter_kind :: adapter_kind
  am_data_boundary :: data_boundary
  am_tool_mode :: ai_tool_mode
  am_rule_state :: ai_rule_state
  am_affected_rule_ids :: "string list"
  am_rules_snapshot_ref :: string
  am_created_at :: instant

record leaf_job_spec =
  lf_leaf_job_id :: string
  lf_role :: job_role
  lf_purpose :: string
  lf_analysis_type :: analysis_type
  lf_inputs_projection :: json
  lf_depends_on :: "string list"
  lf_required_capabilities :: "string list"
  lf_expected_output :: string

record plan_hypothesis =
  pl_plan_id :: string
  pl_problem_id :: string
  pl_mode_id :: string
  pl_planner_job_id :: string
  pl_status :: plan_status
  pl_problem_type_hypothesis :: string
  pl_method_hypothesis :: string
  pl_assumptions :: "string list"
  pl_missing_inputs :: "string list"
  pl_leaf_job_specs :: "leaf_job_spec list"
  pl_raw_output_artifact :: "string option"
  pl_created_at :: instant
  pl_decided_at :: "instant option"

record job_record =
  jb_job_id :: string
  jb_problem_id :: string
  jb_plan_id :: string
  jb_role :: job_role
  jb_job_type :: string
  jb_status :: job_status
  jb_priority :: problem_priority
  jb_idempotency_key :: string
  jb_analysis_id :: "string option"
  jb_attempt :: int
  jb_max_attempts :: int
  jb_assigned_worker_id :: "string option"
  jb_error_code :: "string option"
  jb_checkpoint_ref :: "string option"
  jb_queued_at :: instant
  jb_started_at :: "instant option"
  jb_finished_at :: "instant option"

record verification_check =
  vc_check :: string
  vc_passed :: bool
  vc_result_refs :: "string list"
  vc_evidence_refs :: "string list"

record verification_record =
  vr_verification_id :: string
  vr_problem_id :: string
  vr_candidate_id :: string
  vr_verifier_job_id :: string
  vr_status :: verification_status
  vr_required_checks :: "string list"
  vr_check_results :: "verification_check list"
  vr_independent_from_job_ids :: "string list"
  vr_conflicts :: "string list"
  vr_missing_evidence :: "string list"
  vr_created_at :: instant
  vr_finished_at :: "instant option"

record candidate_record =
  cd_candidate_id :: string
  cd_problem_id :: string
  cd_answer_format :: string
  cd_answer_value :: string
  cd_status :: candidate_status
  cd_result_refs :: "string list"
  cd_evidence_refs :: "string list"
  cd_verification_refs :: "string list"
  cd_confidence :: int
  cd_confidence_basis :: string
  cd_uncertainties :: "string list"
  cd_recommendation :: recommendation
  cd_created_by_job_id :: string
  cd_created_at :: instant
  cd_updated_at :: instant

record submission_record =
  sb_submission_id :: string
  sb_candidate_id :: string
  sb_operator_confirmed :: bool
  sb_response :: submission_response
  sb_submitted_at :: instant
  sb_note_artifact :: "string option"

record operation_event =
  ev_event_id :: string
  ev_competition_id :: string
  ev_problem_id :: "string option"
  ev_entity_type :: string
  ev_entity_id :: string
  ev_event_type :: string
  ev_actor_type :: actor_type
  ev_actor_id :: string
  ev_from_status :: "string option"
  ev_to_status :: "string option"
  ev_safe_details_json :: json
  ev_created_at :: instant

record operation_error =
  oe_error_id :: string
  oe_code :: operation_error_code
  oe_message :: string
  oe_stage :: operation_error_stage
  oe_retryable :: bool
  oe_problem_id :: "string option"
  oe_job_id :: "string option"
  oe_details :: json

record operations_bundle =
  ob_schema_uri :: string
  ob_operations_schema_version :: string
  ob_manifest :: competition_manifest
  ob_problems :: "problem_record list"
  ob_ai_modes :: "ai_execution_mode list"
  ob_plans :: "plan_hypothesis list"
  ob_jobs :: "job_record list"
  ob_verifications :: "verification_record list"
  ob_candidates :: "candidate_record list"
  ob_submissions :: "submission_record list"
  ob_events :: "operation_event list"
  ob_errors :: "operation_error list"

end
