(* ===== verification/Dependency_Graph.thy ===== *)
theory Dependency_Graph
  imports Prelude
begin

section \<open>The dependency cycle check\<close>

text \<open>
  \<^verbatim>\<open>BoundedJobScheduler._require_acyclic\<close> of \<^verbatim>\<open>src/scan_tool/application/scheduler.py\<close>: a recursive
  depth-first search with a set of nodes being visited and a set of nodes done. The recursion is
  bounded by fuel; one unit per key of the dependency map and one more is always enough
  (\<open>require_acyclic_never_out_of_fuel\<close>). The check accepts exactly the acyclic maps.
\<close>

datatype graph_error = Dependency_Cycle | Missing_Key | Out_Of_Fuel

type_synonym dependency_map = "(string, string list) dict"

fun visit ::
    "nat \<Rightarrow> dependency_map \<Rightarrow> string list \<Rightarrow> string list \<Rightarrow> string \<Rightarrow> graph_error + string list" where
  "visit 0 deps visiting visited job_id = Inl Out_Of_Fuel"
| "visit (Suc n) deps visiting visited job_id =
     (if job_id \<in> set visiting then Inl Dependency_Cycle
      else if job_id \<in> set visited then Inr visited
      else case map_of deps job_id of
             None \<Rightarrow> Inl Missing_Key
           | Some ds \<Rightarrow>
               and_then (fold_result (visit n deps (job_id # visiting)) visited ds)
                 (\<lambda>visited'. Inr (job_id # visited')))"

definition require_acyclic :: "dependency_map \<Rightarrow> graph_error + unit" where
  "require_acyclic deps =
     and_then (fold_result (visit (Suc (length deps)) deps []) [] (map fst deps)) (\<lambda>_. Inr ())"

definition edges :: "dependency_map \<Rightarrow> (string \<times> string) set" where
  "edges deps = {(j, d). \<exists>ds. map_of deps j = Some ds \<and> d \<in> set ds}"

definition closed_map :: "dependency_map \<Rightarrow> bool" where
  "closed_map deps \<longleftrightarrow> (\<forall>(j, ds) \<in> set deps. set ds \<subseteq> fst ` set deps)"

subsection \<open>Accepted maps are acyclic\<close>

text \<open>
  The nodes done, last one first, form a topological order: a node's dependencies all come after
  it in the list.
\<close>

fun topological :: "dependency_map \<Rightarrow> string list \<Rightarrow> bool" where
  "topological deps [] = True"
| "topological deps (j # js) =
     (topological deps js \<and> j \<notin> set js \<and> (\<exists>ds. map_of deps j = Some ds \<and> set ds \<subseteq> set js))"

lemma visit_topological:
  assumes "visit n deps visiting visited j = Inr visited'" and "topological deps visited"
  shows "topological deps visited' \<and> j \<in> set visited' \<and> set visited \<subseteq> set visited'
    \<and> set visited' \<inter> set visiting = set visited \<inter> set visiting"
  using assms
proof (induction n arbitrary: visiting visited j visited')
  case 0
  then show ?case by simp
next
  case (Suc n)
  show ?case
  proof (cases "j \<in> set visited")
    case True
    with Suc.prems show ?thesis by (auto split: if_splits)
  next
    case False
    with Suc.prems(1) obtain ds mid where j: "j \<notin> set visiting" and ds: "map_of deps j = Some ds"
      and mid: "fold_result (visit n deps (j # visiting)) visited ds = Inr mid"
      and v': "visited' = j # mid"
      by (auto simp: result_simps split: if_splits option.splits)
    have loop: "topological deps t \<and> set s \<subseteq> set t \<and> set ds' \<subseteq> set t
      \<and> set t \<inter> set (j # visiting) = set s \<inter> set (j # visiting)"
      if "fold_result (visit n deps (j # visiting)) s ds' = Inr t" "topological deps s" for s t ds'
      using that
    proof (induction ds' arbitrary: s)
      case Nil
      then show ?case by auto
    next
      case (Cons d ds')
      from Cons.prems(1) obtain s' where s': "visit n deps (j # visiting) s d = Inr s'"
        and rest: "fold_result (visit n deps (j # visiting)) s' ds' = Inr t"
        by (auto simp: and_then_Inr)
      note one = Suc.IH [OF s' Cons.prems(2)]
      then have "topological deps s'" by simp
      from Cons.IH [OF rest this] one show ?case by auto
    qed
    from loop [OF mid Suc.prems(2)] False ds v' j show ?thesis by auto
  qed
qed

lemma topological_dropWhile:
  assumes "topological deps js" and "(a, b) \<in> edges deps" and "a \<in> set js"
  shows "b \<in> set js \<and> length (dropWhile (\<lambda>x. x \<noteq> b) js) < length (dropWhile (\<lambda>x. x \<noteq> a) js)"
  using assms
proof (induction js)
  case Nil
  then show ?case by simp
next
  case (Cons j js)
  have le: "length (dropWhile (\<lambda>x. x \<noteq> b) js) \<le> length js" by (rule length_dropWhile_le)
  show ?case
  proof (cases "a = j")
    case True
    with Cons.prems have "b \<in> set js" "j \<notin> set js" by (auto simp: edges_def)
    with True le show ?thesis by auto
  next
    case False
    with Cons have IH: "b \<in> set js"
      "length (dropWhile (\<lambda>x. x \<noteq> b) js) < length (dropWhile (\<lambda>x. x \<noteq> a) js)" by auto
    with Cons.prems(1) False show ?thesis by auto
  qed
qed

lemma topological_acyclic:
  assumes "topological deps js" and "fst ` set deps \<subseteq> set js"
  shows "acyclic (edges deps)"
proof (rule acyclicI_order)
  fix a b
  assume e: "(a, b) \<in> edges deps"
  then have "a \<in> set js" using assms(2) by (force simp: edges_def dest: map_of_SomeD)
  with topological_dropWhile [OF assms(1) e]
  show "length (dropWhile (\<lambda>x. x \<noteq> b) js) < length (dropWhile (\<lambda>x. x \<noteq> a) js)" by simp
qed

lemma visit_all_topological:
  assumes "fold_result (visit n deps []) s js = Inr t" and "topological deps s"
  shows "topological deps t \<and> set s \<subseteq> set t \<and> set js \<subseteq> set t"
  using assms
proof (induction js arbitrary: s)
  case Nil
  then show ?case by simp
next
  case (Cons j js)
  from Cons.prems(1) obtain s' where s': "visit n deps [] s j = Inr s'"
    and rest: "fold_result (visit n deps []) s' js = Inr t"
    by (auto simp: result_simps)
  from visit_topological [OF s' Cons.prems(2)] Cons.IH [OF rest] show ?case by auto
qed

lemma require_acyclic_sound: "require_acyclic deps = Inr () \<Longrightarrow> acyclic (edges deps)"
  unfolding require_acyclic_def
  using visit_all_topological [of "Suc (length deps)" deps "[]" "map fst deps"]
  by (auto simp: result_simps intro: topological_acyclic)

subsection \<open>Rejected maps have a cycle\<close>

text \<open>The stack of nodes being visited is a path of dependencies that ends in the current node.\<close>

fun stack_path :: "dependency_map \<Rightarrow> string \<Rightarrow> string list \<Rightarrow> bool" where
  "stack_path deps j [] = True"
| "stack_path deps j (v # vs) = ((v, j) \<in> edges deps \<and> stack_path deps v vs)"

lemma stack_path_reaches: "stack_path deps j vs \<Longrightarrow> x \<in> set vs \<Longrightarrow> (x, j) \<in> (edges deps)\<^sup>+"
  by (induction deps j vs rule: stack_path.induct) (auto intro: trancl_into_trancl)

lemma visit_cycle:
  assumes "visit n deps visiting visited j = Inl Dependency_Cycle" and "stack_path deps j visiting"
  shows "\<not> acyclic (edges deps)"
  using assms
proof (induction n arbitrary: visiting visited j)
  case 0
  then show ?case by simp
next
  case (Suc n)
  show ?case
  proof (cases "j \<in> set visiting")
    case True
    then show ?thesis using stack_path_reaches [OF Suc.prems(2)] by (auto simp: acyclic_def)
  next
    case False
    with Suc.prems(1) obtain ds where ds: "map_of deps j = Some ds"
      and err: "fold_result (visit n deps (j # visiting)) visited ds = Inl Dependency_Cycle"
      by (auto simp: result_simps split: if_splits option.splits)
    obtain t d where d: "d \<in> set ds" and v: "visit n deps (j # visiting) t d = Inl Dependency_Cycle"
      using fold_result_raises [OF err] by blast
    have "stack_path deps d (j # visiting)"
      using ds d Suc.prems(2) by (auto simp: edges_def)
    then show ?thesis by (rule Suc.IH [OF v])
  qed
qed

lemma require_acyclic_complete:
  "require_acyclic deps = Inl Dependency_Cycle \<Longrightarrow> \<not> acyclic (edges deps)"
  unfolding require_acyclic_def
  using visit_cycle fold_result_raises by (fastforce simp: and_then_Inl)

subsection \<open>The search always returns, and finds every node of a closed map\<close>

lemma visit_fuel:
  assumes "visit n deps visiting visited j = Inl Out_Of_Fuel"
    and "distinct visiting" and "set visiting \<subseteq> fst ` set deps"
  shows "n + length visiting \<le> length deps"
  using assms
proof (induction n arbitrary: visiting visited j)
  case 0
  have "length visiting = card (set visiting)" using 0 by (simp add: distinct_card)
  also have "\<dots> \<le> card (fst ` set deps)" using 0 by (intro card_mono) auto
  also have "\<dots> \<le> length deps" using card_image_le [of "set deps" fst] card_length [of deps] by simp
  finally show ?case by simp
next
  case (Suc n)
  then obtain ds where j: "j \<notin> set visiting" and ds: "map_of deps j = Some ds"
    and err: "fold_result (visit n deps (j # visiting)) visited ds = Inl Out_Of_Fuel"
    by (auto simp: result_simps split: if_splits option.splits)
  obtain t d where v: "visit n deps (j # visiting) t d = Inl Out_Of_Fuel"
    using fold_result_raises [OF err] by blast
  have "n + length (j # visiting) \<le> length deps"
  proof (rule Suc.IH [OF v])
    show "set (j # visiting) \<subseteq> fst ` set deps"
      using Suc.prems(3) ds by (force dest: map_of_SomeD)
  qed (use j Suc.prems(2) in simp)
  then show ?case by simp
qed

lemma require_acyclic_never_out_of_fuel: "require_acyclic deps \<noteq> Inl Out_Of_Fuel"
proof
  assume "require_acyclic deps = Inl Out_Of_Fuel"
  then have err: "fold_result (visit (Suc (length deps)) deps []) [] (map fst deps) = Inl Out_Of_Fuel"
    by (auto simp: require_acyclic_def and_then_Inl)
  then obtain t j where "visit (Suc (length deps)) deps [] t j = Inl Out_Of_Fuel"
    using fold_result_raises [OF err] by blast
  from visit_fuel [OF this] show False by simp
qed

lemma visit_closed:
  assumes "visit n deps visiting visited j = Inl Missing_Key" and "closed_map deps"
  shows "j \<notin> fst ` set deps"
  using assms
proof (induction n arbitrary: visiting visited j)
  case 0
  then show ?case by simp
next
  case (Suc n)
  show ?case
  proof (cases "map_of deps j")
    case None
    then show ?thesis by (simp add: map_of_eq_None_iff)
  next
    case (Some ds)
    with Suc.prems(1) have err: "fold_result (visit n deps (j # visiting)) visited ds = Inl Missing_Key"
      by (auto simp: result_simps split: if_splits)
    obtain t d where "d \<in> set ds" and "visit n deps (j # visiting) t d = Inl Missing_Key"
      using fold_result_raises [OF err] by blast
    with Suc.IH [OF _ Suc.prems(2)] have "d \<in> set ds" and "d \<notin> fst ` set deps" by auto
    moreover have "set ds \<subseteq> fst ` set deps"
      using Some Suc.prems(2) by (auto simp: closed_map_def dest!: map_of_SomeD bspec)
    ultimately show ?thesis by auto
  qed
qed

lemma require_acyclic_closed:
  assumes "closed_map deps"
  shows "require_acyclic deps \<noteq> Inl Missing_Key"
proof
  assume "require_acyclic deps = Inl Missing_Key"
  then have err: "fold_result (visit (Suc (length deps)) deps []) [] (map fst deps) = Inl Missing_Key"
    by (auto simp: require_acyclic_def and_then_Inl)
  then obtain t j where "j \<in> set (map fst deps)"
    and "visit (Suc (length deps)) deps [] t j = Inl Missing_Key"
    using fold_result_raises [OF err] by blast
  with visit_closed [OF _ assms] show False by auto
qed

theorem require_acyclic_iff:
  assumes "closed_map deps"
  shows "require_acyclic deps = (if acyclic (edges deps) then Inr () else Inl Dependency_Cycle)"
  using require_acyclic_sound require_acyclic_complete require_acyclic_never_out_of_fuel
    require_acyclic_closed [OF assms]
  by (cases "require_acyclic deps") (metis graph_error.exhaust unit.exhaust)+

end
