(* ===== verification/Scheduler.thy ===== *)
theory Scheduler
  imports Operations Dependency_Graph "HOL-Library.Product_Lexorder" "HOL-Library.Multiset"
begin

section \<open>The bounded job scheduler\<close>

text \<open>
  \<^verbatim>\<open>src/scan_tool/application/scheduler.py\<close>: \<^verbatim>\<open>QueueLimits\<close>, \<^verbatim>\<open>WorkerOutcome\<close> and
  \<^verbatim>\<open>BoundedJobScheduler\<close>. The asynchronous run is a loop over rounds: dispatch every ready job
  there is capacity for, wait, and process the tasks that completed. What the event loop decides is
  an argument, the environment: in which order a Python set is enumerated, which of the active
  tasks complete in a round, what awaiting the executor for a job and an attempt number did (a run
  awaits it at most once for each such pair), and what the clock reads. A set of job
  ids with the jobs it stands for is the list of those jobs. The loop takes fuel;
  \<open>Scheduler_Run\<close> proves that the fuel \<open>run_fuel\<close> is always enough.
\<close>

datatype scheduler_error =
    Value_Error string | Key_Error | Runtime_Error string | Recursion_Fuel | Loop_Fuel

definition priority_order :: "problem_priority \<Rightarrow> nat" where
  "priority_order p =
     (case p of PRIO_CRITICAL \<Rightarrow> 0 | PRIO_HIGH \<Rightarrow> 1 | PRIO_NORMAL \<Rightarrow> 2 | PRIO_DEFERRED \<Rightarrow> 3)"

definition terminal_worker_statuses :: "job_status set" where
  "terminal_worker_statuses = {JOB_COMPLETE, JOB_PARTIAL, JOB_FAILED, JOB_CANCELLED}"

subsection \<open>Limits and outcomes\<close>

record queue_limits =
  max_active_problems :: int
  max_active_jobs :: int
  max_active_jobs_per_problem :: int
  max_planner_jobs :: int
  max_verifier_jobs :: int

definition default_limits :: queue_limits where
  "default_limits = \<lparr>max_active_problems = 4, max_active_jobs = 6, max_active_jobs_per_problem = 3,
     max_planner_jobs = 1, max_verifier_jobs = 2\<rparr>"

definition validate_limits :: "queue_limits \<Rightarrow> scheduler_error + unit" where
  "validate_limits l =
     raise_if
       (list_ex (\<lambda>v. v < 1)
         [max_active_problems l, max_active_jobs l, max_active_jobs_per_problem l,
          max_planner_jobs l, max_verifier_jobs l])
       (Value_Error ''queue limits must be positive'')"

definition role_limit :: "queue_limits \<Rightarrow> job_role \<Rightarrow> int" where
  "role_limit l role =
     (if role = PLANNER then max_planner_jobs l
      else if role = VERIFIER then max_verifier_jobs l
      else max_active_jobs l)"

record worker_outcome =
  wo_status :: job_status
  wo_error_code :: "string option"
  wo_checkpoint_ref :: "string option"
  wo_retryable :: bool

definition worker_outcome_init :: "worker_outcome \<Rightarrow> scheduler_error + worker_outcome" where
  "worker_outcome_init w =
     and_then
       (then_check
         (raise_if (wo_status w \<notin> terminal_worker_statuses)
           (Value_Error ''worker outcome must be terminal''))
         (raise_if (wo_retryable w \<and> wo_status w \<noteq> JOB_FAILED)
           (Value_Error ''only a failed worker outcome can be retryable'')))
       (\<lambda>_. Inr w)"

text \<open>What awaiting the executor can do, and what \<^verbatim>\<open>_run_worker\<close> makes of it.\<close>

datatype executor_outcome = Returned worker_outcome | Task_Cancelled | Executor_Raised

definition run_worker :: "executor_outcome \<Rightarrow> worker_outcome" where
  "run_worker r =
     (case r of
        Returned w \<Rightarrow> w
      | Task_Cancelled \<Rightarrow> \<lparr>wo_status = JOB_CANCELLED, wo_error_code = Some ''cancelled'',
          wo_checkpoint_ref = None, wo_retryable = False\<rparr>
      | Executor_Raised \<Rightarrow> \<lparr>wo_status = JOB_FAILED, wo_error_code = Some ''worker_failed'',
          wo_checkpoint_ref = None, wo_retryable = False\<rparr>)"

record scheduled_job_result =
  sr_job_id :: string
  sr_problem_id :: string
  sr_status :: job_status
  sr_attempts :: nat
  sr_started_at :: "instant option"
  sr_finished_at :: "instant option"
  sr_error_code :: "string option"
  sr_checkpoint_ref :: "string option"
  sr_deduplicated_from_job_id :: "string option"

record scheduler_execution =
  se_results :: "scheduled_job_result list"
  se_dispatch_order :: "string list"
  se_max_observed_active_jobs :: int
  se_max_observed_active_problems :: int
  se_max_observed_jobs_per_problem :: int
  se_max_observed_jobs_by_role :: "(job_role, int) dict"

fun result_for :: "scheduled_job_result list \<Rightarrow> string \<Rightarrow> scheduler_error + scheduled_job_result" where
  "result_for [] job_id = Inl Key_Error"
| "result_for (r # rs) job_id = (if sr_job_id r = job_id then Inr r else result_for rs job_id)"

record active_counters =
  ac_total :: int
  ac_by_problem :: "(string, int) dict"
  ac_by_role :: "(job_role, int) dict"

subsection \<open>Validation of the queue\<close>

definition job_sort_key :: "job_record \<Rightarrow> nat \<times> instant \<times> string" where
  "job_sort_key j = (priority_order (jb_priority j), jb_queued_at j, jb_job_id j)"

definition validate_jobs :: "job_record list \<Rightarrow> scheduler_error + (string, job_record) dict" where
  "validate_jobs jobs =
     and_then
       (then_check
         (raise_if (\<not> distinct (map jb_job_id jobs)) (Value_Error ''job_id values must be unique''))
         (raise_if (list_ex (\<lambda>j. jb_status j \<noteq> JOB_QUEUED) jobs)
           (Value_Error ''scheduler accepts only queued jobs'')))
       (\<lambda>_. Inr (map (\<lambda>j. (jb_job_id j, j)) jobs))"

definition graph_check :: "dependency_map \<Rightarrow> scheduler_error + unit" where
  "graph_check deps =
     (case require_acyclic deps of
        Inr _ \<Rightarrow> Inr ()
      | Inl Dependency_Cycle \<Rightarrow> Inl (Value_Error ''job dependency cycle'')
      | Inl Missing_Key \<Rightarrow> Inl Key_Error
      | Inl Out_Of_Fuel \<Rightarrow> Inl Recursion_Fuel)"

definition check_dependency ::
    "(string, job_record) dict \<Rightarrow> string \<Rightarrow> job_record \<Rightarrow> string \<Rightarrow> scheduler_error + unit" where
  "check_dependency jobs_by_id job_id job dependency_id =
     (case map_of jobs_by_id dependency_id of
        None \<Rightarrow> Inl (Value_Error ''job dependency references an unknown job'')
      | Some dependency \<Rightarrow>
          then_check
            (raise_if (jb_problem_id dependency \<noteq> jb_problem_id job)
              (Value_Error ''cross-problem job dependency is forbidden''))
            (raise_if (dependency_id = job_id) (Value_Error ''job cannot depend on itself'')))"

definition validate_dependencies ::
    "(string, job_record) dict \<Rightarrow> dependency_map \<Rightarrow> scheduler_error + dependency_map" where
  "validate_dependencies jobs_by_id dependencies =
     and_then
       (raise_if (\<not> fst ` set dependencies \<subseteq> fst ` set jobs_by_id)
         (Value_Error ''dependency map contains an unknown job'')) (\<lambda>_.
     and_then
       (for_each
         (\<lambda>(job_id, job).
            let items = dict_get dependencies job_id [] in
            then_check
              (raise_if (\<not> distinct items) (Value_Error ''job dependency values must be unique''))
              (for_each (check_dependency jobs_by_id job_id job) items))
         jobs_by_id) (\<lambda>_.
     let normalized = map (\<lambda>(job_id, job). (job_id, dict_get dependencies job_id [])) jobs_by_id in
     and_then (graph_check normalized) (\<lambda>_. Inr normalized)))"

definition deduplication_step ::
    "(string \<rightharpoonup> job_record) \<times> (string, string) dict \<Rightarrow> job_record
      \<Rightarrow> scheduler_error + (string \<rightharpoonup> job_record) \<times> (string, string) dict" where
  "deduplication_step acc job =
     (let (canonical_by_key, result) = acc in
      case canonical_by_key (jb_idempotency_key job) of
        None \<Rightarrow>
          Inr (canonical_by_key(jb_idempotency_key job \<mapsto> job),
               dict_set (jb_job_id job) (jb_job_id job) result)
      | Some canonical \<Rightarrow>
          if jb_problem_id canonical \<noteq> jb_problem_id job
             \<or> jb_job_type canonical \<noteq> jb_job_type job
             \<or> jb_role canonical \<noteq> jb_role job
          then Inl (Value_Error ''idempotency key collides across different job scopes'')
          else Inr (canonical_by_key, dict_set (jb_job_id job) (jb_job_id canonical) result))"

definition deduplication_map :: "job_record list \<Rightarrow> scheduler_error + (string, string) dict" where
  "deduplication_map jobs =
     and_then (fold_result deduplication_step (Map.empty, []) (sort_key job_sort_key jobs))
       (\<lambda>(_, result). Inr result)"

subsection \<open>Rounds\<close>

record sched_context =
  sx_limits :: queue_limits
  sx_jobs :: "job_record list" \<comment> \<open>the canonical jobs\<close>
  sx_deps :: dependency_map \<comment> \<open>their canonical dependencies\<close>

record sched_env =
  en_order :: "nat \<Rightarrow> job_record list \<Rightarrow> job_record list"
  en_completed :: "nat \<Rightarrow> job_record list \<Rightarrow> job_record list"
  en_executor :: "job_record \<Rightarrow> nat \<Rightarrow> executor_outcome"
  en_clock :: "nat \<Rightarrow> instant"

record sched_state =
  ss_pending :: "job_record list"
  ss_results :: "(string, scheduled_job_result) dict"
  ss_attempts :: "string \<Rightarrow> nat"
  ss_started :: "string \<rightharpoonup> instant"
  ss_active :: "job_record list"
  ss_counters :: active_counters
  ss_dispatch_order :: "string list"
  ss_max_jobs :: int
  ss_max_problems :: int
  ss_max_per_problem :: int
  ss_role_maxima :: "(job_role, int) dict"
  ss_ticks :: nat \<comment> \<open>readings of the clock so far\<close>
  ss_round :: nat

definition job_deps :: "sched_context \<Rightarrow> job_record \<Rightarrow> string list" where
  "job_deps ctx j = dict_get (sx_deps ctx) (jb_job_id j) []"

definition not_run :: "job_record \<Rightarrow> job_status \<Rightarrow> string \<Rightarrow> scheduled_job_result" where
  "not_run job status error_code =
     \<lparr>sr_job_id = jb_job_id job, sr_problem_id = jb_problem_id job, sr_status = status,
      sr_attempts = 0, sr_started_at = None, sr_finished_at = None,
      sr_error_code = Some error_code, sr_checkpoint_ref = jb_checkpoint_ref job,
      sr_deduplicated_from_job_id = None\<rparr>"

text \<open>Take a job out of the pending set with a result that says why it did not run.\<close>

definition settle :: "job_record \<Rightarrow> job_status \<Rightarrow> string \<Rightarrow> sched_state \<Rightarrow> sched_state" where
  "settle job status error_code st =
     st\<lparr>ss_results := dict_set (jb_job_id job) (not_run job status error_code) (ss_results st),
        ss_pending := remove1 job (ss_pending st)\<rparr>"

definition initial_state :: "sched_context \<Rightarrow> sched_state" where
  "initial_state ctx =
     \<lparr>ss_pending = sx_jobs ctx, ss_results = [], ss_attempts = (\<lambda>_. 0), ss_started = Map.empty,
      ss_active = [], ss_counters = \<lparr>ac_total = 0, ac_by_problem = [], ac_by_role = []\<rparr>,
      ss_dispatch_order = [], ss_max_jobs = 0, ss_max_problems = 0, ss_max_per_problem = 0,
      ss_role_maxima = [], ss_ticks = 0, ss_round = 0\<rparr>"

definition withhold_one :: "string set \<Rightarrow> string set \<Rightarrow> job_record \<Rightarrow> sched_state \<Rightarrow> sched_state" where
  "withhold_one paused cancelled job st =
     (if jb_job_id job \<in> cancelled then settle job JOB_CANCELLED ''cancelled'' st
      else if jb_problem_id job \<in> paused then settle job JOB_WAITING ''problem_paused'' st
      else st)"

definition withhold ::
    "sched_env \<Rightarrow> string set \<Rightarrow> string set \<Rightarrow> sched_state \<Rightarrow> sched_state" where
  "withhold env paused cancelled st =
     fold (withhold_one paused cancelled) (en_order env (ss_round st) (ss_pending st)) st"

definition blocking_statuses :: "job_status set" where
  "blocking_statuses = {JOB_WAITING, JOB_PARTIAL, JOB_FAILED, JOB_CANCELLED}"

definition dep_status_in ::
    "(string, scheduled_job_result) dict \<Rightarrow> job_status set \<Rightarrow> string \<Rightarrow> bool" where
  "dep_status_in results statuses d =
     (case map_of results d of None \<Rightarrow> False | Some r \<Rightarrow> sr_status r \<in> statuses)"

definition resolve_one :: "sched_context \<Rightarrow> job_record \<Rightarrow> sched_state \<Rightarrow> sched_state" where
  "resolve_one ctx job st =
     (if list_ex (dep_status_in (ss_results st) blocking_statuses) (job_deps ctx job)
      then settle job JOB_WAITING ''dependency_incomplete'' st else st)"

definition resolve_blocked_dependencies ::
    "sched_env \<Rightarrow> sched_context \<Rightarrow> sched_state \<Rightarrow> sched_state" where
  "resolve_blocked_dependencies env ctx st =
     fold (resolve_one ctx) (en_order env (ss_round st) (ss_pending st)) st"

definition is_ready :: "sched_context \<Rightarrow> sched_state \<Rightarrow> job_record \<Rightarrow> bool" where
  "is_ready ctx st job \<longleftrightarrow> list_all (dep_status_in (ss_results st) {JOB_COMPLETE}) (job_deps ctx job)"

definition ready_jobs :: "sched_context \<Rightarrow> sched_state \<Rightarrow> job_record list" where
  "ready_jobs ctx st = sort_key job_sort_key (filter (is_ready ctx st) (ss_pending st))"

definition active_problems :: "active_counters \<Rightarrow> int" where
  "active_problems c = int (length (filter (\<lambda>(_, n). n \<noteq> 0) (ac_by_problem c)))"

definition has_capacity :: "queue_limits \<Rightarrow> job_record \<Rightarrow> active_counters \<Rightarrow> bool" where
  "has_capacity l job c \<longleftrightarrow>
     ac_total c < max_active_jobs l
     \<and> dict_get (ac_by_problem c) (jb_problem_id job) 0 < max_active_jobs_per_problem l
     \<and> dict_get (ac_by_role c) (jb_role job) 0 < role_limit l (jb_role job)
     \<and> (0 < dict_get (ac_by_problem c) (jb_problem_id job) 0
        \<or> active_problems c < max_active_problems l)"

definition increment :: "job_record \<Rightarrow> active_counters \<Rightarrow> active_counters" where
  "increment job c =
     c\<lparr>ac_total := ac_total c + 1,
       ac_by_problem := dict_set (jb_problem_id job)
         (dict_get (ac_by_problem c) (jb_problem_id job) 0 + 1) (ac_by_problem c),
       ac_by_role := dict_set (jb_role job)
         (dict_get (ac_by_role c) (jb_role job) 0 + 1) (ac_by_role c)\<rparr>"

definition decrement :: "job_record \<Rightarrow> active_counters \<Rightarrow> active_counters" where
  "decrement job c =
     c\<lparr>ac_total := ac_total c - 1,
       ac_by_problem := dict_set (jb_problem_id job)
         (dict_get (ac_by_problem c) (jb_problem_id job) 0 - 1) (ac_by_problem c),
       ac_by_role := dict_set (jb_role job)
         (dict_get (ac_by_role c) (jb_role job) 0 - 1) (ac_by_role c)\<rparr>"

definition dispatch_one :: "sched_env \<Rightarrow> sched_context \<Rightarrow> job_record \<Rightarrow> sched_state \<Rightarrow> sched_state" where
  "dispatch_one env ctx job st =
     (if \<not> has_capacity (sx_limits ctx) job (ss_counters st) then st
      else
        let counters = increment job (ss_counters st) in
        st\<lparr>ss_pending := remove1 job (ss_pending st),
           ss_attempts := (ss_attempts st)(jb_job_id job := Suc (ss_attempts st (jb_job_id job))),
           ss_started :=
             (case ss_started st (jb_job_id job) of
                None \<Rightarrow> (ss_started st)(jb_job_id job \<mapsto> en_clock env (ss_ticks st))
              | Some _ \<Rightarrow> ss_started st),
           ss_ticks := Suc (ss_ticks st),
           ss_dispatch_order := ss_dispatch_order st @ [jb_job_id job],
           ss_counters := counters,
           ss_active := ss_active st @ [job],
           ss_max_jobs := max (ss_max_jobs st) (ac_total counters),
           ss_max_problems := max (ss_max_problems st) (active_problems counters),
           ss_max_per_problem :=
             max (ss_max_per_problem st) (dict_get (ac_by_problem counters) (jb_problem_id job) 0),
           ss_role_maxima :=
             dict_set (jb_role job)
               (max (dict_get (ss_role_maxima st) (jb_role job) 0)
                    (dict_get (ac_by_role counters) (jb_role job) 0))
               (ss_role_maxima st)\<rparr>)"

definition dispatch_ready :: "sched_env \<Rightarrow> sched_context \<Rightarrow> sched_state \<Rightarrow> sched_state" where
  "dispatch_ready env ctx st = fold (dispatch_one env ctx) (ready_jobs ctx st) st"

definition attempt_outcome :: "sched_env \<Rightarrow> job_record \<Rightarrow> nat \<Rightarrow> worker_outcome" where
  "attempt_outcome env job attempt = run_worker (en_executor env job attempt)"

definition complete_one :: "sched_env \<Rightarrow> job_record \<Rightarrow> sched_state \<Rightarrow> sched_state" where
  "complete_one env job st =
     (let job_id = jb_job_id job; outcome = attempt_outcome env job (ss_attempts st job_id);
          st' = st\<lparr>ss_active := remove1 job (ss_active st),
                   ss_counters := decrement job (ss_counters st)\<rparr> in
      if wo_status outcome = JOB_FAILED \<and> wo_retryable outcome
         \<and> int (ss_attempts st job_id) < jb_max_attempts job
      then st'\<lparr>ss_pending := job # ss_pending st\<rparr>
      else
        st'\<lparr>ss_results := dict_set job_id
              \<lparr>sr_job_id = job_id, sr_problem_id = jb_problem_id job,
               sr_status = wo_status outcome, sr_attempts = ss_attempts st job_id,
               sr_started_at = ss_started st job_id,
               sr_finished_at = Some (en_clock env (ss_ticks st)),
               sr_error_code = wo_error_code outcome,
               sr_checkpoint_ref =
                 (case wo_checkpoint_ref outcome of
                    None \<Rightarrow> jb_checkpoint_ref job
                  | Some c \<Rightarrow> if c = [] then jb_checkpoint_ref job else Some c),
               sr_deduplicated_from_job_id = None\<rparr>
              (ss_results st),
            ss_ticks := Suc (ss_ticks st)\<rparr>)"

definition process_completed :: "sched_env \<Rightarrow> sched_state \<Rightarrow> sched_state" where
  "process_completed env st =
     (fold (complete_one env)
       (sort_key jb_job_id (en_completed env (ss_round st) (ss_active st))) st)
     \<lparr>ss_round := Suc (ss_round st)\<rparr>"

definition flush_pending :: "sched_env \<Rightarrow> sched_state \<Rightarrow> sched_state" where
  "flush_pending env st =
     fold (\<lambda>job. settle job JOB_WAITING ''dependency_incomplete'')
       (en_order env (ss_round st) (ss_pending st)) st"

definition dispatch_round :: "sched_env \<Rightarrow> sched_context \<Rightarrow> sched_state \<Rightarrow> sched_state" where
  "dispatch_round env ctx st = dispatch_ready env ctx (resolve_blocked_dependencies env ctx st)"

fun run_loop :: "nat \<Rightarrow> sched_env \<Rightarrow> sched_context \<Rightarrow> sched_state \<Rightarrow> sched_state option" where
  "run_loop 0 env ctx st = None"
| "run_loop (Suc n) env ctx st =
     (if ss_pending st = [] \<and> ss_active st = [] then Some st
      else
        let st1 = dispatch_round env ctx st in
        if ss_active st1 = [] then Some (flush_pending env st1)
        else run_loop n env ctx (process_completed env st1))"

subsection \<open>A whole execution\<close>

definition run_fuel :: "sched_context \<Rightarrow> nat" where
  "run_fuel ctx = Suc (sum_list (map (\<lambda>j. 2 * nat (jb_max_attempts j)) (sx_jobs ctx)))"

definition canonical_context ::
    "queue_limits \<Rightarrow> (string, job_record) dict \<Rightarrow> dependency_map \<Rightarrow> (string, string) dict
      \<Rightarrow> sched_context" where
  "canonical_context limits jobs_by_id dependency_map canonical_by_job =
     (let canonical = filter (\<lambda>(job_id, job). dict_get canonical_by_job job_id [] = job_id) jobs_by_id in
      \<lparr>sx_limits = limits, sx_jobs = map snd canonical,
       sx_deps =
         map (\<lambda>(job_id, job).
           (job_id,
            map (\<lambda>item. dict_get canonical_by_job item []) (dict_get dependency_map job_id [])))
           canonical\<rparr>)"

definition check_duplicate ::
    "(string, string) dict \<Rightarrow> dependency_map \<Rightarrow> sched_context \<Rightarrow> job_record
      \<Rightarrow> scheduler_error + unit" where
  "check_duplicate canonical_by_job dependency_map ctx job =
     (let canonical_id = dict_get canonical_by_job (jb_job_id job) [] in
      if canonical_id = jb_job_id job then Inr ()
      else
        raise_if
          ((\<lambda>item. dict_get canonical_by_job item []) ` set (dict_get dependency_map (jb_job_id job) [])
           \<noteq> set (dict_get (sx_deps ctx) canonical_id []))
          (Value_Error ''deduplicated jobs must have equivalent dependencies''))"

definition plan_queue ::
    "queue_limits \<Rightarrow> job_record list \<Rightarrow> dependency_map
      \<Rightarrow> scheduler_error + ((string, string) dict \<times> sched_context)" where
  "plan_queue limits jobs dependencies =
     and_then (validate_jobs jobs) (\<lambda>jobs_by_id.
     and_then (validate_dependencies jobs_by_id dependencies) (\<lambda>dependency_map.
     and_then (deduplication_map jobs) (\<lambda>canonical_by_job.
     let ctx = canonical_context limits jobs_by_id dependency_map canonical_by_job in
     and_then (for_each (check_duplicate canonical_by_job dependency_map ctx) jobs) (\<lambda>_.
     and_then (graph_check (sx_deps ctx)) (\<lambda>_. Inr (canonical_by_job, ctx))))))"

definition duplicate_result ::
    "job_record \<Rightarrow> string \<Rightarrow> scheduled_job_result \<Rightarrow> scheduled_job_result" where
  "duplicate_result job canonical_id canonical =
     \<lparr>sr_job_id = jb_job_id job, sr_problem_id = jb_problem_id job,
      sr_status = sr_status canonical, sr_attempts = 0, sr_started_at = None,
      sr_finished_at = sr_finished_at canonical, sr_error_code = sr_error_code canonical,
      sr_checkpoint_ref = sr_checkpoint_ref canonical,
      sr_deduplicated_from_job_id = Some canonical_id\<rparr>"

definition job_result ::
    "(string, string) dict \<Rightarrow> (string, scheduled_job_result) dict \<Rightarrow> job_record
      \<Rightarrow> scheduler_error + scheduled_job_result" where
  "job_result canonical_by_job results job =
     (let canonical_id = dict_get canonical_by_job (jb_job_id job) [] in
      case map_of results canonical_id of
        None \<Rightarrow> Inl Key_Error
      | Some canonical \<Rightarrow>
          if canonical_id = jb_job_id job then Inr canonical
          else Inr (duplicate_result job canonical_id canonical))"

fun collect_results ::
    "(string, string) dict \<Rightarrow> (string, scheduled_job_result) dict \<Rightarrow> job_record list
      \<Rightarrow> scheduler_error + scheduled_job_result list" where
  "collect_results canonical_by_job results [] = Inr []"
| "collect_results canonical_by_job results (job # jobs) =
     and_then (job_result canonical_by_job results job) (\<lambda>r.
     and_then (collect_results canonical_by_job results jobs) (\<lambda>rs. Inr (r # rs)))"

definition execution_of :: "sched_state \<Rightarrow> scheduled_job_result list \<Rightarrow> scheduler_execution" where
  "execution_of st results =
     \<lparr>se_results = results, se_dispatch_order = ss_dispatch_order st,
      se_max_observed_active_jobs = ss_max_jobs st,
      se_max_observed_active_problems = ss_max_problems st,
      se_max_observed_jobs_per_problem = ss_max_per_problem st,
      se_max_observed_jobs_by_role = sort_key fst (ss_role_maxima st)\<rparr>"

definition execute_jobs ::
    "sched_env \<Rightarrow> queue_limits \<Rightarrow> job_record list \<Rightarrow> dependency_map \<Rightarrow> string set \<Rightarrow> string set
      \<Rightarrow> scheduler_error + scheduler_execution" where
  "execute_jobs env limits jobs dependencies paused cancelled =
     and_then (plan_queue limits jobs dependencies) (\<lambda>(canonical_by_job, ctx).
       case run_loop (run_fuel ctx) env ctx (withhold env paused cancelled (initial_state ctx)) of
         None \<Rightarrow> Inl Loop_Fuel
       | Some st \<Rightarrow>
           and_then (collect_results canonical_by_job (ss_results st) jobs)
             (\<lambda>results. Inr (execution_of st results)))"

definition execute ::
    "bool \<Rightarrow> sched_env \<Rightarrow> queue_limits \<Rightarrow> job_record list \<Rightarrow> dependency_map \<Rightarrow> string set
      \<Rightarrow> string set \<Rightarrow> scheduler_error + scheduler_execution" where
  "execute is_running env limits jobs dependencies paused cancelled =
     (if is_running
      then Inl (Runtime_Error ''one scheduler instance cannot execute two queues concurrently'')
      else execute_jobs env limits jobs dependencies paused cancelled)"

end
