(* ===== verification/Scheduler_Invariant.thy ===== *)
theory Scheduler_Invariant
  imports Scheduler
begin

section \<open>Invariant of the scheduler's rounds\<close>

text \<open>
  The state every round of \<open>run_loop\<close> starts from: pending, active and finished jobs partition the
  canonical jobs, the counters count the active jobs, the limits hold, no job has used up more
  attempts than it has, a job is dispatched after all its dependencies completed, and the recorded
  maxima stay within the limits. Each operation of the loop keeps it.
\<close>

definition partition_ok :: "sched_context \<Rightarrow> sched_state \<Rightarrow> bool" where
  "partition_ok ctx st \<longleftrightarrow>
     distinct (map jb_job_id (sx_jobs ctx))
     \<and> set (ss_pending st) \<subseteq> set (sx_jobs ctx) \<and> set (ss_active st) \<subseteq> set (sx_jobs ctx)
     \<and> mset (map jb_job_id (ss_pending st)) + mset (map jb_job_id (ss_active st))
         + mset (map fst (ss_results st)) = mset (map jb_job_id (sx_jobs ctx))"

definition problem_count :: "job_record list \<Rightarrow> string \<Rightarrow> int" where
  "problem_count active p = int (count_if (\<lambda>j. jb_problem_id j = p) active)"

definition role_count :: "job_record list \<Rightarrow> job_role \<Rightarrow> int" where
  "role_count active r = int (count_if (\<lambda>j. jb_role j = r) active)"

definition counters_ok :: "active_counters \<Rightarrow> job_record list \<Rightarrow> bool" where
  "counters_ok c active \<longleftrightarrow>
     ac_total c = int (length active)
     \<and> distinct (map fst (ac_by_problem c))
     \<and> (\<forall>p. dict_get (ac_by_problem c) p 0 = problem_count active p)
     \<and> (\<forall>r. dict_get (ac_by_role c) r 0 = role_count active r)"

definition within_limits :: "queue_limits \<Rightarrow> job_record list \<Rightarrow> bool" where
  "within_limits l active \<longleftrightarrow>
     int (length active) \<le> max_active_jobs l
     \<and> (\<forall>p. problem_count active p \<le> max_active_jobs_per_problem l)
     \<and> (\<forall>r. role_count active r \<le> role_limit l r)
     \<and> int (card (jb_problem_id ` set active)) \<le> max_active_problems l"

definition attempts_ok :: "sched_state \<Rightarrow> bool" where
  "attempts_ok st \<longleftrightarrow>
     (\<forall>j \<in> set (ss_pending st). int (ss_attempts st (jb_job_id j)) < jb_max_attempts j)
     \<and> (\<forall>j \<in> set (ss_active st). int (ss_attempts st (jb_job_id j)) \<le> jb_max_attempts j
          \<and> jb_job_id j \<in> set (ss_dispatch_order st))
     \<and> (\<forall>i. ss_attempts st i = count_list (ss_dispatch_order st) i)"

definition result_ok :: "sched_context \<Rightarrow> string list \<Rightarrow> string \<Rightarrow> scheduled_job_result \<Rightarrow> bool" where
  "result_ok ctx order i r \<longleftrightarrow>
     sr_job_id r = i \<and> (sr_status r = JOB_COMPLETE \<longrightarrow> i \<in> set order)
     \<and> (\<forall>j \<in> set (sx_jobs ctx). jb_job_id j = i \<longrightarrow>
          sr_problem_id r = jb_problem_id j \<and> int (sr_attempts r) \<le> jb_max_attempts j)"

definition results_ok :: "sched_context \<Rightarrow> sched_state \<Rightarrow> bool" where
  "results_ok ctx st \<longleftrightarrow>
     (\<forall>i r. map_of (ss_results st) i = Some r \<longrightarrow> result_ok ctx (ss_dispatch_order st) i r)"

definition dispatch_ok :: "sched_context \<Rightarrow> string list \<Rightarrow> bool" where
  "dispatch_ok ctx order \<longleftrightarrow>
     (\<forall>pre i post. order = pre @ i # post \<longrightarrow> set (dict_get (sx_deps ctx) i []) \<subseteq> set pre)"

definition maxima_ok :: "queue_limits \<Rightarrow> sched_state \<Rightarrow> bool" where
  "maxima_ok l st \<longleftrightarrow>
     ss_max_jobs st \<le> max_active_jobs l \<and> ss_max_problems st \<le> max_active_problems l
     \<and> ss_max_per_problem st \<le> max_active_jobs_per_problem l
     \<and> distinct (map fst (ss_role_maxima st))
     \<and> (\<forall>r. dict_get (ss_role_maxima st) r 0 \<le> role_limit l r)"

definition sched_inv :: "sched_context \<Rightarrow> sched_state \<Rightarrow> bool" where
  "sched_inv ctx st \<longleftrightarrow>
     partition_ok ctx st \<and> counters_ok (ss_counters st) (ss_active st)
     \<and> within_limits (sx_limits ctx) (ss_active st) \<and> attempts_ok st \<and> results_ok ctx st
     \<and> dispatch_ok ctx (ss_dispatch_order st) \<and> maxima_ok (sx_limits ctx) st"

lemmas sched_inv_defs = partition_ok_def attempts_ok_def results_ok_def maxima_ok_def

lemma partition_distinct:
  assumes "partition_ok ctx st"
  shows "distinct (map jb_job_id (ss_pending st) @ map jb_job_id (ss_active st) @ map fst (ss_results st))"
proof -
  have "mset (map jb_job_id (ss_pending st) @ map jb_job_id (ss_active st) @ map fst (ss_results st))
    = mset (map jb_job_id (sx_jobs ctx))"
    using assms by (simp add: partition_ok_def add.assoc)
  from mset_eq_imp_distinct_iff [OF this] assms show ?thesis by (simp only: partition_ok_def)
qed

lemma partition_ids_cover:
  assumes "partition_ok ctx st"
  shows "jb_job_id ` set (ss_pending st) \<union> jb_job_id ` set (ss_active st) \<union> fst ` set (ss_results st)
    = jb_job_id ` set (sx_jobs ctx)"
proof -
  have "set_mset (mset (map jb_job_id (ss_pending st)) + mset (map jb_job_id (ss_active st))
         + mset (map fst (ss_results st))) = set_mset (mset (map jb_job_id (sx_jobs ctx)))"
    using assms by (simp only: partition_ok_def)
  then show ?thesis by simp
qed

lemma sched_inv_distinct:
  assumes "sched_inv ctx st"
  shows "distinct (ss_pending st)" "distinct (ss_active st)"
    "set (ss_pending st) \<inter> set (ss_active st) = {}"
  using partition_distinct [of ctx st] assms by (auto simp: sched_inv_def distinct_map)

subsection \<open>Counters\<close>

lemma problem_count_simps [simp]:
  "problem_count [] p = 0"
  "problem_count (xs @ [j]) p = problem_count xs p + (if jb_problem_id j = p then 1 else 0)"
  by (simp_all add: problem_count_def)

lemma role_count_simps [simp]:
  "role_count [] r = 0"
  "role_count (xs @ [j]) r = role_count xs r + (if jb_role j = r then 1 else 0)"
  by (simp_all add: role_count_def)

lemma problem_count_pos: "0 < problem_count active p \<longleftrightarrow> p \<in> jb_problem_id ` set active"
  by (induction active) (auto simp: problem_count_def)

lemma count_nonneg [simp]: "0 \<le> problem_count active p" "0 \<le> role_count active r"
  by (simp_all add: problem_count_def role_count_def)

lemma problem_count_remove1:
  "j \<in> set xs \<Longrightarrow>
     problem_count (remove1 j xs) p = problem_count xs p - (if jb_problem_id j = p then 1 else 0)"
  using count_if_remove1 [of j xs "\<lambda>j. jb_problem_id j = p"] by (simp add: problem_count_def)

lemma role_count_remove1:
  "j \<in> set xs \<Longrightarrow>
     role_count (remove1 j xs) r = role_count xs r - (if jb_role j = r then 1 else 0)"
  using count_if_remove1 [of j xs "\<lambda>j. jb_role j = r"] by (simp add: role_count_def)

lemma counters_ok_increment:
  "counters_ok c active \<Longrightarrow> counters_ok (increment job c) (active @ [job])"
  by (auto simp: counters_ok_def increment_def)

lemma counters_ok_decrement:
  assumes "counters_ok c active" and "job \<in> set active"
  shows "counters_ok (decrement job c) (remove1 job active)"
proof -
  have "Suc 0 \<le> length active" using assms(2) by (cases active) auto
  then have "int (length (remove1 job active)) = int (length active) - 1"
    using assms(2) by (simp add: length_remove1)
  with assms show ?thesis
    by (auto simp: counters_ok_def decrement_def problem_count_remove1 role_count_remove1)
qed

lemma active_problems_card:
  assumes "counters_ok c active"
  shows "active_problems c = int (card (jb_problem_id ` set active))"
proof -
  let ?d = "ac_by_problem c"
  have dist: "distinct (map fst ?d)" using assms by (simp add: counters_ok_def)
  have "length (filter (\<lambda>(_, n). n \<noteq> 0) ?d) = card (fst ` set (filter (\<lambda>(_, n). n \<noteq> 0) ?d))"
    using dist distinct_map_filter [OF dist] distinct_card [of "map fst (filter (\<lambda>(_, n). n \<noteq> 0) ?d)"]
    by (simp add: case_prod_beta')
  also have "fst ` set (filter (\<lambda>(_, n). n \<noteq> 0) ?d) = {p. dict_get ?d p 0 \<noteq> 0}"
  proof -
    have "p \<in> fst ` set (filter (\<lambda>(_, n). n \<noteq> 0) ?d) \<longleftrightarrow> (\<exists>n. map_of ?d p = Some n \<and> n \<noteq> 0)" for p
      using map_of_eq_Some_iff [OF dist] by force
    also have "\<dots> p \<longleftrightarrow> dict_get ?d p 0 \<noteq> 0" for p
      by (auto simp: dict_get_def split: option.splits)
    finally show ?thesis by blast
  qed
  also have "\<dots> = jb_problem_id ` set active"
  proof -
    have "dict_get ?d p 0 \<noteq> 0 \<longleftrightarrow> p \<in> jb_problem_id ` set active" for p
      using assms problem_count_pos [of active p] count_nonneg(1) [of active p]
      by (metis counters_ok_def order_less_le)
    then show ?thesis by auto
  qed
  finally show ?thesis by (simp add: active_problems_def)
qed

lemma within_limits_dispatch:
  assumes "counters_ok c active" and "within_limits l active" and "has_capacity l job c"
  shows "within_limits l (active @ [job])"
proof -
  have "int (card (insert (jb_problem_id job) (jb_problem_id ` set active))) \<le> max_active_problems l"
  proof (cases "jb_problem_id job \<in> jb_problem_id ` set active")
    case True
    with assms(2) show ?thesis by (simp add: within_limits_def insert_absorb)
  next
    case False
    then have "dict_get (ac_by_problem c) (jb_problem_id job) 0 = 0"
      using assms(1) problem_count_pos [of active "jb_problem_id job"]
        count_nonneg(1) [of active "jb_problem_id job"] by (auto simp: counters_ok_def)
    with assms(3) active_problems_card [OF assms(1)] False show ?thesis
      by (auto simp: has_capacity_def)
  qed
  with assms show ?thesis
    by (auto simp: within_limits_def has_capacity_def counters_ok_def)
qed

lemma within_limits_remove1:
  assumes "within_limits l active" and "job \<in> set active"
  shows "within_limits l (remove1 job active)"
proof -
  have "card (jb_problem_id ` set (remove1 job active)) \<le> card (jb_problem_id ` set active)"
    by (rule card_mono) (use set_remove1_subset [of job active] in auto)
  moreover have "length (remove1 job active) \<le> length active" by (simp add: length_remove1)
  moreover have "problem_count (remove1 job active) p \<le> problem_count active p" for p
    using problem_count_remove1 [OF assms(2), of p] by simp
  moreover have "role_count (remove1 job active) r \<le> role_count active r" for r
    using role_count_remove1 [OF assms(2), of r] by simp
  ultimately show ?thesis
    using assms(1) unfolding within_limits_def by (meson of_nat_mono order_trans)
qed

subsection \<open>Every operation keeps the invariant\<close>

lemma partition_ids:
  assumes "partition_ok ctx st"
  shows "j \<in> set (ss_pending st) \<Longrightarrow> jb_job_id j \<notin> fst ` set (ss_results st)"
    and "j \<in> set (ss_active st) \<Longrightarrow> jb_job_id j \<notin> fst ` set (ss_results st)"
    and "j \<in> set (ss_pending st) \<Longrightarrow> k \<in> set (ss_active st) \<Longrightarrow> jb_job_id j \<noteq> jb_job_id k"
    and "j \<in> set (ss_pending st) \<Longrightarrow> k \<in> set (ss_pending st) \<Longrightarrow> jb_job_id j = jb_job_id k \<Longrightarrow> j = k"
    and "j \<in> set (ss_active st) \<Longrightarrow> k \<in> set (ss_active st) \<Longrightarrow> jb_job_id j = jb_job_id k \<Longrightarrow> j = k"
  using partition_distinct [OF assms] by (auto simp: distinct_map inj_on_def)

lemma mset_map_remove1:
  "j \<in> set xs \<Longrightarrow> mset (map f xs) = add_mset (f j) (mset (map f (remove1 j xs)))"
  by (induction xs) auto

lemma mset_keys_dict_set:
  "i \<notin> fst ` set d \<Longrightarrow> mset (map fst (dict_set i r d)) = add_mset i (mset (map fst d))"
  by (induction d) auto

lemma set_remove1D: "x \<in> set (remove1 j xs) \<Longrightarrow> x \<in> set xs"
  by (metis notin_set_remove1)

lemma dispatch_ok_snoc:
  assumes "dispatch_ok ctx order" and "set (dict_get (sx_deps ctx) i []) \<subseteq> set order"
  shows "dispatch_ok ctx (order @ [i])"
proof (unfold dispatch_ok_def, intro allI impI)
  fix pre x post
  assume eq: "order @ [i] = pre @ x # post"
  show "set (dict_get (sx_deps ctx) x []) \<subseteq> set pre"
  proof (cases post rule: rev_cases)
    case Nil
    with eq assms(2) show ?thesis by simp
  next
    case (snoc ys y)
    with eq have "order = pre @ x # ys" by simp
    with assms(1) show ?thesis by (simp add: dispatch_ok_def)
  qed
qed

lemma job_by_id:
  assumes "partition_ok ctx st" and "j \<in> set (sx_jobs ctx)" and "k \<in> set (sx_jobs ctx)"
    and "jb_job_id j = jb_job_id k"
  shows "j = k"
  using assms by (auto simp: partition_ok_def distinct_map inj_on_def)

lemma results_ok_set:
  assumes "results_ok ctx st" and "result_ok ctx (ss_dispatch_order st) i r"
  shows "results_ok ctx (st\<lparr>ss_results := dict_set i r (ss_results st)\<rparr>)"
  using assms by (simp add: results_ok_def)

lemma settle_inv:
  assumes inv: "sched_inv ctx st" and j: "job \<in> set (ss_pending st)" and s: "status \<noteq> JOB_COMPLETE"
  shows "sched_inv ctx (settle job status code st)"
proof -
  have part: "partition_ok ctx st" and att: "attempts_ok st" and res: "results_ok ctx st"
    using inv by (simp_all add: sched_inv_def)
  have "partition_ok ctx (settle job status code st)"
    using part mset_map_remove1 [OF j, of jb_job_id] mset_keys_dict_set [OF partition_ids(1) [OF part j]]
    by (auto simp: partition_ok_def settle_def dest: set_remove1D)
  moreover have "attempts_ok (settle job status code st)"
    using att by (auto simp: attempts_ok_def settle_def dest: set_remove1D)
  moreover have "results_ok ctx (settle job status code st)"
  proof -
    have "job \<in> set (sx_jobs ctx)" and "0 \<le> jb_max_attempts job"
      using part att j by (force simp: partition_ok_def attempts_ok_def)+
    then have "result_ok ctx (ss_dispatch_order st) (jb_job_id job) (not_run job status code)"
      using s job_by_id [OF part] by (auto simp: result_ok_def not_run_def)
    from results_ok_set [OF res this] show ?thesis by (simp add: settle_def results_ok_def)
  qed
  ultimately show ?thesis
    using inv by (simp add: sched_inv_def settle_def maxima_ok_def)
qed

lemma is_ready_deps:
  assumes "results_ok ctx st" and "is_ready ctx st job"
  shows "set (dict_get (sx_deps ctx) (jb_job_id job) []) \<subseteq> set (ss_dispatch_order st)"
  using assms
  by (auto simp: is_ready_def job_deps_def list_all_iff dep_status_in_def results_ok_def
      result_ok_def split: option.splits dest!: bspec)

lemma dispatch_one_inv:
  assumes inv: "sched_inv ctx st" and j: "job \<in> set (ss_pending st)" and ready: "is_ready ctx st job"
  shows "sched_inv ctx (dispatch_one env ctx job st)"
proof (cases "has_capacity (sx_limits ctx) job (ss_counters st)")
  case False
  with inv show ?thesis by (simp add: dispatch_one_def)
next
  case True
  let ?st = "dispatch_one env ctx job st"
  let ?c = "increment job (ss_counters st)"
  have part: "partition_ok ctx st" and cnt: "counters_ok (ss_counters st) (ss_active st)"
    and lim: "within_limits (sx_limits ctx) (ss_active st)" and att: "attempts_ok st"
    and res: "results_ok ctx st" and mx: "maxima_ok (sx_limits ctx) st"
    using inv by (simp_all add: sched_inv_def)
  have cnt': "counters_ok ?c (ss_active st @ [job])" using cnt by (rule counters_ok_increment)
  have lim': "within_limits (sx_limits ctx) (ss_active st @ [job])"
    using cnt lim True by (rule within_limits_dispatch)
  have dp: "distinct (ss_pending st)" using sched_inv_distinct(1) [OF inv] .
  have "partition_ok ctx ?st"
    using part True j mset_map_remove1 [OF j, of jb_job_id]
    by (auto simp: partition_ok_def dispatch_one_def Let_def dest: set_remove1D)
  moreover have "attempts_ok ?st"
  proof -
    have "jb_job_id k \<noteq> jb_job_id job" if "k \<in> set (remove1 job (ss_pending st))" for k
      using that j dp partition_ids(4) [OF part, of k job] by (auto dest: set_remove1D)
    moreover have "jb_job_id k \<noteq> jb_job_id job" if "k \<in> set (ss_active st)" for k
      using partition_ids(3) [OF part j that] by simp
    ultimately show ?thesis
      using att j True by (auto simp: attempts_ok_def dispatch_one_def Let_def dest: set_remove1D)
  qed
  moreover have "results_ok ctx ?st"
    using res True by (auto simp: results_ok_def result_ok_def dispatch_one_def Let_def)
  moreover have "dispatch_ok ctx (ss_dispatch_order ?st)"
    using inv True dispatch_ok_snoc [OF _ is_ready_deps [OF res ready]]
    by (simp add: dispatch_one_def Let_def sched_inv_def)
  moreover have "maxima_ok (sx_limits ctx) ?st"
    using mx lim' cnt' active_problems_card [OF cnt'] True
    by (auto simp: maxima_ok_def dispatch_one_def Let_def counters_ok_def within_limits_def
        simp del: problem_count_simps role_count_simps)
  ultimately show ?thesis
    using cnt' lim' True by (simp add: sched_inv_def dispatch_one_def Let_def)
qed

lemma complete_one_inv:
  assumes inv: "sched_inv ctx st" and j: "job \<in> set (ss_active st)"
  shows "sched_inv ctx (complete_one env job st)"
proof -
  let ?st = "complete_one env job st"
  have part: "partition_ok ctx st" and cnt: "counters_ok (ss_counters st) (ss_active st)"
    and lim: "within_limits (sx_limits ctx) (ss_active st)" and att: "attempts_ok st"
    and res: "results_ok ctx st"
    using inv by (simp_all add: sched_inv_def)
  have job: "job \<in> set (sx_jobs ctx)" using part j by (auto simp: partition_ok_def)
  have "partition_ok ctx ?st"
    using part job mset_map_remove1 [OF j, of jb_job_id]
      mset_keys_dict_set [OF partition_ids(2) [OF part j]]
    by (auto simp: partition_ok_def complete_one_def Let_def dest: set_remove1D)
  moreover have "attempts_ok ?st"
    using att j by (auto simp: attempts_ok_def complete_one_def Let_def dest: set_remove1D)
  moreover have "results_ok ctx ?st"
  proof -
    have only: "k = job" if "k \<in> set (sx_jobs ctx)" "jb_job_id k = jb_job_id job" for k
      using job_by_id [OF part that(1) job that(2)] .
    have "int (ss_attempts st (jb_job_id job)) \<le> jb_max_attempts job"
      and "jb_job_id job \<in> set (ss_dispatch_order st)"
      using att j unfolding attempts_ok_def by blast+
    then show ?thesis
      using res by (auto simp: results_ok_def result_ok_def complete_one_def Let_def dest: only)
  qed
  moreover have "counters_ok (ss_counters ?st) (ss_active ?st)"
    using counters_ok_decrement [OF cnt j] by (simp add: complete_one_def Let_def)
  moreover have "within_limits (sx_limits ctx) (ss_active ?st)"
    using within_limits_remove1 [OF lim j] by (simp add: complete_one_def Let_def)
  ultimately show ?thesis
    using inv by (simp add: sched_inv_def complete_one_def Let_def maxima_ok_def)
qed

subsection \<open>The weight every operation lowers\<close>

definition job_weight :: "sched_state \<Rightarrow> job_record \<Rightarrow> nat" where
  "job_weight st j = 2 * (nat (jb_max_attempts j) - ss_attempts st (jb_job_id j))"

definition weight :: "sched_state \<Rightarrow> nat" where
  "weight st =
     sum_list (map (job_weight st) (ss_pending st))
     + sum_list (map (\<lambda>j. Suc (job_weight st j)) (ss_active st))"

lemma job_weight_cong:
  "ss_attempts st' = ss_attempts st \<Longrightarrow> job_weight st' = job_weight st"
  by (simp add: fun_eq_iff job_weight_def)

lemma settle_weight:
  assumes "job \<in> set (ss_pending st)"
  shows "weight (settle job status code st) \<le> weight st"
proof -
  have "job_weight (settle job status code st) = job_weight st"
    by (rule job_weight_cong) (simp add: settle_def)
  then show ?thesis
    using sum_list_remove1 [OF assms, of "job_weight st"] by (simp add: weight_def settle_def)
qed

lemma complete_one_weight:
  assumes "job \<in> set (ss_active st)"
  shows "weight (complete_one env job st) < weight st"
proof -
  have "job_weight (complete_one env job st) = job_weight st"
    by (rule job_weight_cong) (simp add: complete_one_def Let_def)
  then show ?thesis
    using sum_list_remove1 [OF assms, of "\<lambda>j. Suc (job_weight st j)"]
    by (simp add: weight_def complete_one_def Let_def)
qed

lemma dispatch_one_weight:
  assumes inv: "sched_inv ctx st" and j: "job \<in> set (ss_pending st)"
  shows "weight (dispatch_one env ctx job st) \<le> weight st"
proof (cases "has_capacity (sx_limits ctx) job (ss_counters st)")
  case False
  then show ?thesis by (simp add: dispatch_one_def)
next
  case True
  let ?st = "dispatch_one env ctx job st" and ?i = "jb_job_id job"
  have part: "partition_ok ctx st" and att: "attempts_ok st"
    using inv by (simp_all add: sched_inv_def)
  have dp: "distinct (ss_pending st)" using sched_inv_distinct(1) [OF inv] .
  have same: "job_weight ?st k = job_weight st k" if "jb_job_id k \<noteq> ?i" for k
    using that True by (simp add: job_weight_def dispatch_one_def Let_def)
  have pend: "map (job_weight ?st) (remove1 job (ss_pending st))
      = map (job_weight st) (remove1 job (ss_pending st))"
    using dp partition_ids(4) [OF part _ j] by (auto intro!: same dest: set_remove1D)
  have act: "map (\<lambda>k. Suc (job_weight ?st k)) (ss_active st)
      = map (\<lambda>k. Suc (job_weight st k)) (ss_active st)"
    using partition_ids(3) [OF part j] by (metis (no_types, lifting) map_eq_conv same)
  have "int (ss_attempts st ?i) < jb_max_attempts job"
    using att j unfolding attempts_ok_def by blast
  then have less: "Suc (job_weight ?st job) < job_weight st job"
    using True by (simp add: job_weight_def dispatch_one_def Let_def)
  have "ss_pending ?st = remove1 job (ss_pending st)" and "ss_active ?st = ss_active st @ [job]"
    using True by (simp_all add: dispatch_one_def Let_def)
  then have "weight ?st = sum_list (map (job_weight ?st) (remove1 job (ss_pending st)))
      + (sum_list (map (\<lambda>k. Suc (job_weight ?st k)) (ss_active st)) + Suc (job_weight ?st job))"
    by (simp only: weight_def map_append sum_list.append list.map sum_list.Cons sum_list.Nil add_0_right)
  moreover have "weight st = job_weight st job
      + sum_list (map (job_weight st) (remove1 job (ss_pending st)))
      + sum_list (map (\<lambda>k. Suc (job_weight st k)) (ss_active st))"
    using sum_list_remove1 [OF j, of "job_weight st"] by (simp only: weight_def)
  ultimately show ?thesis using less unfolding pend act by linarith
qed

end
