(* ===== verification/Scheduler_Run.thy ===== *)
theory Scheduler_Run
  imports Scheduler_Invariant
begin

section \<open>Runs of the scheduler\<close>

text \<open>
  The rounds lifted to whole runs: the loop always ends within \<open>run_fuel\<close> rounds with a result for
  every canonical job, and the queue plan gives every job of the queue a canonical job that
  stands for it. \<open>env_ok\<close> says what asyncio guarantees: a set enumeration is a permutation, a wait
  returns at least one of the active tasks, and only those; and what an executor returns is a
  \<^verbatim>\<open>WorkerOutcome\<close>, so it passed that class's own check.
\<close>

definition env_ok :: "sched_env \<Rightarrow> bool" where
  "env_ok env \<longleftrightarrow>
     (\<forall>n xs. mset (en_order env n xs) = mset xs)
     \<and> (\<forall>n active. active \<noteq> [] \<longrightarrow> en_completed env n active \<noteq> [])
     \<and> (\<forall>n active. distinct active \<longrightarrow>
          distinct (en_completed env n active) \<and> set (en_completed env n active) \<subseteq> set active)
     \<and> (\<forall>job attempt w. en_executor env job attempt = Returned w \<longrightarrow> worker_outcome_init w = Inr w)"

lemma env_order:
  assumes "env_ok env"
  shows "set (en_order env n xs) = set xs" "distinct (en_order env n xs) \<longleftrightarrow> distinct xs"
proof -
  have m: "mset (en_order env n xs) = mset xs" using assms by (simp add: env_ok_def)
  show "set (en_order env n xs) = set xs" using mset_eq_setD [OF m] .
  show "distinct (en_order env n xs) \<longleftrightarrow> distinct xs" using mset_eq_imp_distinct_iff [OF m] .
qed

subsection \<open>One round\<close>

lemma withhold_inv:
  assumes env: "env_ok env" and inv: "sched_inv ctx st"
  shows "sched_inv ctx (withhold env paused cancelled st)
    \<and> weight (withhold env paused cancelled st) \<le> weight st"
proof -
  let ?xs = "en_order env (ss_round st) (ss_pending st)"
  have "sched_inv ctx (fold (withhold_one paused cancelled) ?xs st)
    \<and> weight (fold (withhold_one paused cancelled) ?xs st) \<le> weight st"
  proof (rule fold_keeps [where I = "\<lambda>s. sched_inv ctx s \<and> weight s \<le> weight st"
        and Q = "\<lambda>j s. j \<in> set (ss_pending s)"])
    show "distinct ?xs" using env_order(2) [OF env] sched_inv_distinct(1) [OF inv] by simp
    show "x \<in> set (ss_pending st)" if "x \<in> set ?xs" for x
      using that env_order(1) [OF env] by simp
    show "sched_inv ctx (withhold_one paused cancelled x s)
        \<and> weight (withhold_one paused cancelled x s) \<le> weight st"
      if "sched_inv ctx s \<and> weight s \<le> weight st" "x \<in> set (ss_pending s)" for x s
      using that settle_weight [OF that(2)]
      by (auto simp: withhold_one_def intro!: settle_inv intro: order_trans)
    show "y \<in> set (ss_pending (withhold_one paused cancelled x s))"
      if "x \<noteq> y" "y \<in> set (ss_pending s)" for x y s
      using that by (simp add: withhold_one_def settle_def in_set_remove1)
  qed (use inv in simp)
  then show ?thesis by (simp add: withhold_def)
qed

lemma resolve_inv:
  assumes env: "env_ok env" and inv: "sched_inv ctx st"
  shows "sched_inv ctx (resolve_blocked_dependencies env ctx st)
    \<and> weight (resolve_blocked_dependencies env ctx st) \<le> weight st"
proof -
  let ?xs = "en_order env (ss_round st) (ss_pending st)"
  have "sched_inv ctx (fold (resolve_one ctx) ?xs st) \<and> weight (fold (resolve_one ctx) ?xs st) \<le> weight st"
  proof (rule fold_keeps [where I = "\<lambda>s. sched_inv ctx s \<and> weight s \<le> weight st"
        and Q = "\<lambda>j s. j \<in> set (ss_pending s)"])
    show "distinct ?xs" using env_order(2) [OF env] sched_inv_distinct(1) [OF inv] by simp
    show "x \<in> set (ss_pending st)" if "x \<in> set ?xs" for x
      using that env_order(1) [OF env] by simp
    show "sched_inv ctx (resolve_one ctx x s) \<and> weight (resolve_one ctx x s) \<le> weight st"
      if "sched_inv ctx s \<and> weight s \<le> weight st" "x \<in> set (ss_pending s)" for x s
      using that settle_weight [OF that(2)]
      by (auto simp: resolve_one_def intro!: settle_inv intro: order_trans)
    show "y \<in> set (ss_pending (resolve_one ctx x s))" if "x \<noteq> y" "y \<in> set (ss_pending s)" for x y s
      using that by (simp add: resolve_one_def settle_def in_set_remove1)
  qed (use inv in simp)
  then show ?thesis by (simp add: resolve_blocked_dependencies_def)
qed

lemma ready_jobs_pending:
  assumes "sched_inv ctx st"
  shows "distinct (ready_jobs ctx st)"
    and "x \<in> set (ready_jobs ctx st) \<Longrightarrow> x \<in> set (ss_pending st) \<and> is_ready ctx st x"
  using sched_inv_distinct(1) [OF assms] by (auto simp: ready_jobs_def)

lemma dispatch_frame:
  assumes "x \<noteq> y" and "y \<in> set (ss_pending s)" and "is_ready ctx s y"
  shows "y \<in> set (ss_pending (dispatch_one env ctx x s)) \<and> is_ready ctx (dispatch_one env ctx x s) y"
  using assms by (simp add: dispatch_one_def Let_def is_ready_def in_set_remove1)

lemma dispatch_ready_inv:
  assumes inv: "sched_inv ctx st"
  shows "sched_inv ctx (dispatch_ready env ctx st) \<and> weight (dispatch_ready env ctx st) \<le> weight st"
  unfolding dispatch_ready_def
proof (rule fold_keeps [where I = "\<lambda>s. sched_inv ctx s \<and> weight s \<le> weight st"
      and Q = "\<lambda>j s. j \<in> set (ss_pending s) \<and> is_ready ctx s j"])
  show "sched_inv ctx (dispatch_one env ctx x s) \<and> weight (dispatch_one env ctx x s) \<le> weight st"
    if "sched_inv ctx s \<and> weight s \<le> weight st" "x \<in> set (ss_pending s) \<and> is_ready ctx s x" for x s
    using that dispatch_one_inv dispatch_one_weight order_trans by blast
  show "y \<in> set (ss_pending (dispatch_one env ctx x s)) \<and> is_ready ctx (dispatch_one env ctx x s) y"
    if "x \<noteq> y" "y \<in> set (ss_pending s) \<and> is_ready ctx s y" for x y s
    using that dispatch_frame by blast
qed (use inv ready_jobs_pending [OF inv] in auto)

lemma dispatch_round_inv:
  assumes "env_ok env" and "sched_inv ctx st"
  shows "sched_inv ctx (dispatch_round env ctx st) \<and> weight (dispatch_round env ctx st) \<le> weight st"
  using resolve_inv [OF assms] dispatch_ready_inv unfolding dispatch_round_def
  by (meson order_trans)

lemma sched_inv_round [simp]: "sched_inv ctx (st\<lparr>ss_round := n\<rparr>) = sched_inv ctx st"
  by (simp add: sched_inv_def partition_ok_def attempts_ok_def results_ok_def maxima_ok_def)

lemma weight_round [simp]: "weight (st\<lparr>ss_round := n\<rparr>) = weight st"
  by (simp add: weight_def job_weight_def [abs_def])

lemma process_completed_inv:
  assumes env: "env_ok env" and inv: "sched_inv ctx st" and act: "ss_active st \<noteq> []"
  shows "sched_inv ctx (process_completed env st) \<and> weight (process_completed env st) < weight st"
proof -
  let ?xs = "sort_key jb_job_id (en_completed env (ss_round st) (ss_active st))"
  have d: "distinct (ss_active st)" using sched_inv_distinct(2) [OF inv] .
  then have dist: "distinct ?xs" and sub: "set ?xs \<subseteq> set (ss_active st)"
    using env unfolding env_ok_def by auto
  have ne: "0 < length ?xs" using env act unfolding env_ok_def by simp
  have frame: "y \<in> set (ss_active (complete_one env x s))"
    if "x \<noteq> y" "y \<in> set (ss_active s)" for x y s
    using that by (simp add: complete_one_def Let_def in_set_remove1)
  have "sched_inv ctx (fold (complete_one env) ?xs st)"
  proof (rule fold_keeps [where I = "sched_inv ctx" and Q = "\<lambda>j s. j \<in> set (ss_active s)"])
    show "sched_inv ctx (complete_one env x s)" if "sched_inv ctx s" "x \<in> set (ss_active s)" for x s
      using that by (rule complete_one_inv)
  qed (use inv dist frame sub in blast)+
  moreover have "weight (fold (complete_one env) ?xs st) + length ?xs \<le> weight st"
  proof (rule fold_decreases [where I = "\<lambda>_. True" and Q = "\<lambda>j s. j \<in> set (ss_active s)"])
    show "True \<and> weight (complete_one env x s) < weight s" if "x \<in> set (ss_active s)" for x s
      using complete_one_weight [OF that] by simp
  qed (use dist frame sub in blast)+
  moreover from this ne have "weight (fold (complete_one env) ?xs st) < weight st" by linarith
  ultimately show ?thesis by (simp add: process_completed_def)
qed

lemma flush_pending_eq:
  "ss_pending (fold (\<lambda>job. settle job s c) xs st) = fold remove1 xs (ss_pending st)"
  "ss_active (fold (\<lambda>job. settle job s c) xs st) = ss_active st"
  by (induction xs arbitrary: st) (simp_all add: settle_def)

lemma fold_remove1_mset: "mset (fold remove1 xs ys) = mset ys - mset xs"
  by (induction xs arbitrary: ys) simp_all

lemma flush_pending_inv:
  assumes env: "env_ok env" and inv: "sched_inv ctx st"
  shows "sched_inv ctx (flush_pending env st) \<and> ss_pending (flush_pending env st) = []
    \<and> ss_active (flush_pending env st) = ss_active st"
proof -
  let ?xs = "en_order env (ss_round st) (ss_pending st)"
  let ?f = "\<lambda>job. settle job JOB_WAITING ''dependency_incomplete''"
  have "sched_inv ctx (fold ?f ?xs st)"
  proof (rule fold_keeps [where I = "sched_inv ctx" and Q = "\<lambda>j s. j \<in> set (ss_pending s)"])
    show "distinct ?xs" using env_order(2) [OF env] sched_inv_distinct(1) [OF inv] by simp
    show "x \<in> set (ss_pending st)" if "x \<in> set ?xs" for x
      using that env_order(1) [OF env] by simp
    show "y \<in> set (ss_pending (?f x s))" if "x \<noteq> y" "y \<in> set (ss_pending s)" for x y s
      using that by (simp add: settle_def in_set_remove1)
  qed (use inv settle_inv in auto)
  moreover have "mset (fold remove1 ?xs (ss_pending st)) = {#}"
    using env by (simp add: fold_remove1_mset env_ok_def)
  ultimately show ?thesis by (simp add: flush_pending_def flush_pending_eq)
qed

subsection \<open>The loop always returns\<close>

theorem run_loop_total:
  assumes "env_ok env" and "sched_inv ctx st" and "weight st < n"
  shows "\<exists>st'. run_loop n env ctx st = Some st' \<and> sched_inv ctx st'
    \<and> ss_pending st' = [] \<and> ss_active st' = []"
  using assms
proof (induction n arbitrary: st)
  case 0
  then show ?case by simp
next
  case (Suc n)
  let ?st1 = "dispatch_round env ctx st"
  have r: "sched_inv ctx ?st1" "weight ?st1 \<le> weight st"
    using dispatch_round_inv [OF Suc.prems(1,2)] by auto
  show ?case
  proof (cases "ss_pending st = [] \<and> ss_active st = []")
    case True
    with Suc.prems(2) show ?thesis by simp
  next
    case False
    show ?thesis
    proof (cases "ss_active ?st1 = []")
      case True
      have "run_loop (Suc n) env ctx st = Some (flush_pending env ?st1)"
        using False True by (auto simp: Let_def)
      with True flush_pending_inv [OF Suc.prems(1) r(1)] show ?thesis by simp
    next
      case act: False
      have p: "sched_inv ctx (process_completed env ?st1)" "weight (process_completed env ?st1) < n"
        using process_completed_inv [OF Suc.prems(1) r(1) act] r(2) Suc.prems(3) by auto
      have "run_loop (Suc n) env ctx st = run_loop n env ctx (process_completed env ?st1)"
        using False act by (auto simp: Let_def)
      with Suc.IH [OF Suc.prems(1) p] show ?thesis by simp
    qed
  qed
qed

lemma initial_state_inv:
  assumes "distinct (map jb_job_id (sx_jobs ctx))" and "validate_limits (sx_limits ctx) = Inr ()"
    and "\<And>j. j \<in> set (sx_jobs ctx) \<Longrightarrow> 1 \<le> jb_max_attempts j"
  shows "sched_inv ctx (initial_state ctx)" and "weight (initial_state ctx) < run_fuel ctx"
proof -
  have "0 \<le> max_active_problems (sx_limits ctx)" "0 \<le> max_active_jobs (sx_limits ctx)"
    "0 \<le> max_active_jobs_per_problem (sx_limits ctx)" "\<forall>r. 0 \<le> role_limit (sx_limits ctx) r"
    using assms(2) by (auto simp: validate_limits_def result_simps role_limit_def)
  with assms(1,3) show "sched_inv ctx (initial_state ctx)"
    by (auto simp: sched_inv_def partition_ok_def counters_ok_def within_limits_def attempts_ok_def
        results_ok_def dispatch_ok_def maxima_ok_def initial_state_def dict_get_def
        dest: assms(3))
  show "weight (initial_state ctx) < run_fuel ctx"
    by (simp add: weight_def run_fuel_def initial_state_def job_weight_def [abs_def])
qed

end
