(* ===== verification/Scheduler_Plan.thy ===== *)
theory Scheduler_Plan
  imports Scheduler_Run
begin

section \<open>The queue plan\<close>

text \<open>
  What \<open>plan_queue\<close>, the part of \<^verbatim>\<open>BoundedJobScheduler._execute\<close> before the first round, gives the
  rounds: job ids are unique, every job is represented by a canonical job of the same scope with
  the same idempotency key that sorts no later, and the canonical dependency map is closed and
  acyclic. A plan raises only the documented value errors.
\<close>

subsection \<open>Deduplication\<close>

definition same_scope :: "job_record \<Rightarrow> job_record \<Rightarrow> bool" where
  "same_scope c j \<longleftrightarrow>
     jb_problem_id c = jb_problem_id j \<and> jb_job_type c = jb_job_type j \<and> jb_role c = jb_role j"

definition represents :: "job_record \<Rightarrow> job_record \<Rightarrow> bool" where
  "represents c j \<longleftrightarrow>
     jb_idempotency_key c = jb_idempotency_key j \<and> same_scope c j \<and> job_sort_key c \<le> job_sort_key j"

definition dedup_ok ::
    "job_record list \<Rightarrow> (string \<rightharpoonup> job_record) \<times> (string, string) dict \<Rightarrow> bool" where
  "dedup_ok processed s \<longleftrightarrow>
     (\<forall>j \<in> set processed. \<exists>c \<in> set processed. fst s (jb_idempotency_key j) = Some c
        \<and> map_of (snd s) (jb_job_id j) = Some (jb_job_id c) \<and> represents c j)
     \<and> (\<forall>k c. fst s k = Some c \<longrightarrow> c \<in> set processed \<and> jb_idempotency_key c = k)"

lemma represents_refl [simp]: "represents j j"
  by (simp add: represents_def same_scope_def)

lemma dedup_okD:
  assumes "dedup_ok processed s" and "j \<in> set processed"
  obtains c where "c \<in> set processed" "fst s (jb_idempotency_key j) = Some c"
    "map_of (snd s) (jb_job_id j) = Some (jb_job_id c)" "represents c j"
  using assms unfolding dedup_ok_def by blast

lemma dedup_okI:
  assumes "\<And>j. j \<in> set processed \<Longrightarrow> \<exists>c \<in> set processed. fst s (jb_idempotency_key j) = Some c
      \<and> map_of (snd s) (jb_job_id j) = Some (jb_job_id c) \<and> represents c j"
    and "\<And>k c. fst s k = Some c \<Longrightarrow> c \<in> set processed \<and> jb_idempotency_key c = k"
  shows "dedup_ok processed s"
  using assms unfolding dedup_ok_def by blast

lemma deduplication_step_ok:
  assumes ok: "dedup_ok processed s" and step: "deduplication_step s job = Inr t"
    and new: "jb_job_id job \<notin> jb_job_id ` set processed"
    and sorted: "\<And>j. j \<in> set processed \<Longrightarrow> job_sort_key j \<le> job_sort_key job"
  shows "dedup_ok (processed @ [job]) t"
proof (cases "fst s (jb_idempotency_key job)")
  case None
  then have t: "t = ((fst s)(jb_idempotency_key job \<mapsto> job),
      dict_set (jb_job_id job) (jb_job_id job) (snd s))"
    using step by (simp add: deduplication_step_def case_prod_beta)
  have old: "fst t (jb_idempotency_key j) = fst s (jb_idempotency_key j)
      \<and> map_of (snd t) (jb_job_id j) = map_of (snd s) (jb_job_id j)" if j: "j \<in> set processed" for j
  proof -
    obtain c where "fst s (jb_idempotency_key j) = Some c" using dedup_okD [OF ok j] by metis
    then have "jb_idempotency_key j \<noteq> jb_idempotency_key job" using None by auto
    moreover have "jb_job_id j \<noteq> jb_job_id job" using new j by (metis imageI)
    ultimately show ?thesis by (simp add: t)
  qed
  show ?thesis
  proof (rule dedup_okI)
    fix j assume "j \<in> set (processed @ [job])"
    then consider "j = job" | "j \<in> set processed" by auto
    then show "\<exists>c \<in> set (processed @ [job]). fst t (jb_idempotency_key j) = Some c
        \<and> map_of (snd t) (jb_job_id j) = Some (jb_job_id c) \<and> represents c j"
    proof cases
      case 1
      then show ?thesis by (simp add: t)
    next
      case 2
      obtain d where "d \<in> set processed" "fst s (jb_idempotency_key j) = Some d"
        "map_of (snd s) (jb_job_id j) = Some (jb_job_id d)" "represents d j"
        using dedup_okD [OF ok 2] .
      with old [OF 2] show ?thesis by auto
    qed
  next
    show "c \<in> set (processed @ [job]) \<and> jb_idempotency_key c = k" if "fst t k = Some c" for k c
      using that ok by (auto simp: t dedup_ok_def split: if_splits)
  qed
next
  case (Some c)
  then have t: "t = (fst s, dict_set (jb_job_id job) (jb_job_id c) (snd s))" and sc: "same_scope c job"
    using step by (auto simp: deduplication_step_def case_prod_beta same_scope_def split: if_splits)
  have c: "c \<in> set processed" "jb_idempotency_key c = jb_idempotency_key job"
    using ok Some by (auto simp: dedup_ok_def)
  then have rep: "represents c job" using sc sorted by (simp add: represents_def)
  have old: "map_of (snd t) (jb_job_id j) = map_of (snd s) (jb_job_id j)"
    if "j \<in> set processed" for j using imageI [OF that, of jb_job_id] new by (auto simp: t)
  show ?thesis
  proof (rule dedup_okI)
    fix j assume "j \<in> set (processed @ [job])"
    then consider "j = job" | "j \<in> set processed" by auto
    then show "\<exists>c \<in> set (processed @ [job]). fst t (jb_idempotency_key j) = Some c
        \<and> map_of (snd t) (jb_job_id j) = Some (jb_job_id c) \<and> represents c j"
    proof cases
      case 1
      then show ?thesis using Some c rep by (auto simp: t)
    next
      case 2
      obtain d where "d \<in> set processed" "fst s (jb_idempotency_key j) = Some d"
        "map_of (snd s) (jb_job_id j) = Some (jb_job_id d)" "represents d j"
        using dedup_okD [OF ok 2] .
      with old [OF 2] show ?thesis by (auto simp: t)
    qed
  next
    show "c \<in> set (processed @ [job]) \<and> jb_idempotency_key c = k" if "fst t k = Some c" for k c
      using that ok by (auto simp: t dedup_ok_def)
  qed
qed

lemma deduplication_fold_ok:
  assumes "fold_result deduplication_step s xs = Inr t" and "dedup_ok processed s"
    and "distinct (map jb_job_id (processed @ xs))" and "sorted (map job_sort_key (processed @ xs))"
  shows "dedup_ok (processed @ xs) t"
  using assms
proof (induction xs arbitrary: s processed)
  case Nil
  then show ?case by simp
next
  case (Cons x xs)
  from Cons.prems(1) obtain u where u: "deduplication_step s x = Inr u"
    and rest: "fold_result deduplication_step u xs = Inr t" by (auto simp: result_simps)
  have "dedup_ok (processed @ [x]) u"
    by (rule deduplication_step_ok [OF Cons.prems(2) u])
      (use Cons.prems(3,4) in \<open>auto simp: sorted_append\<close>)
  from Cons.IH [OF rest this] Cons.prems(3,4) show ?case by simp
qed

lemma deduplication_map_state:
  assumes "deduplication_map jobs = Inr canon" and "distinct (map jb_job_id jobs)"
  obtains ck where "dedup_ok (sort_key job_sort_key jobs) (ck, canon)"
proof -
  obtain ck where f: "fold_result deduplication_step (Map.empty, []) (sort_key job_sort_key jobs)
      = Inr (ck, canon)"
    using assms(1) by (auto simp: deduplication_map_def result_simps)
  have "distinct (map jb_job_id (sort_key job_sort_key jobs))"
    using assms(2) by (simp add: distinct_map)
  then have "dedup_ok (sort_key job_sort_key jobs) (ck, canon)"
    using deduplication_fold_ok [OF f, of "[]"] by (simp add: dedup_ok_def)
  with that show thesis by blast
qed

text \<open>The canonical job of each job is canonical itself, and represents it.\<close>

lemma deduplication_map_ok:
  assumes "deduplication_map jobs = Inr canon" and "distinct (map jb_job_id jobs)" and "j \<in> set jobs"
  shows "\<exists>c \<in> set jobs. map_of canon (jb_job_id j) = Some (jb_job_id c)
    \<and> map_of canon (jb_job_id c) = Some (jb_job_id c) \<and> represents c j"
proof -
  obtain ck where ok: "dedup_ok (sort_key job_sort_key jobs) (ck, canon)"
    using deduplication_map_state [OF assms(1,2)] .
  with assms(3) obtain c where c: "c \<in> set jobs" "ck (jb_idempotency_key j) = Some c"
    "map_of canon (jb_job_id j) = Some (jb_job_id c)" "represents c j"
    using dedup_okD [OF ok, of j] by auto
  moreover have "map_of canon (jb_job_id c) = Some (jb_job_id c)"
  proof -
    obtain c' where "ck (jb_idempotency_key c) = Some c'" "map_of canon (jb_job_id c) = Some (jb_job_id c')"
      using ok c(1) unfolding dedup_ok_def by auto
    moreover have "jb_idempotency_key c = jb_idempotency_key j" using c(4) by (simp add: represents_def)
    ultimately show ?thesis using c(2) by simp
  qed
  ultimately show ?thesis by blast
qed

lemma deduplication_map_same_key:
  assumes "deduplication_map jobs = Inr canon" and "distinct (map jb_job_id jobs)"
    and "j \<in> set jobs" and "k \<in> set jobs"
  shows "map_of canon (jb_job_id j) = map_of canon (jb_job_id k)
    \<longleftrightarrow> jb_idempotency_key j = jb_idempotency_key k"
proof -
  obtain ck where ok: "dedup_ok (sort_key job_sort_key jobs) (ck, canon)"
    using deduplication_map_state [OF assms(1,2)] .
  obtain c where c: "c \<in> set jobs" "ck (jb_idempotency_key j) = Some c"
    "map_of canon (jb_job_id j) = Some (jb_job_id c)" "represents c j"
    using dedup_okD [OF ok, of j] assms(3) by auto
  obtain d where d: "d \<in> set jobs" "ck (jb_idempotency_key k) = Some d"
    "map_of canon (jb_job_id k) = Some (jb_job_id d)" "represents d k"
    using dedup_okD [OF ok, of k] assms(4) by auto
  show ?thesis
  proof
    assume "map_of canon (jb_job_id j) = map_of canon (jb_job_id k)"
    then have "c = d" using c d assms(2) by (auto simp: distinct_map inj_on_def)
    then show "jb_idempotency_key j = jb_idempotency_key k"
      using c(4) d(4) by (simp add: represents_def)
  qed (use c d in auto)
qed

subsection \<open>What an accepted plan satisfies\<close>

definition canonical_id :: "(string, string) dict \<Rightarrow> string \<Rightarrow> string" where
  "canonical_id canon i = dict_get canon i []"

lemma jobs_by_id_map_of:
  "distinct (map jb_job_id jobs) \<Longrightarrow>
     map_of (map (\<lambda>j. (jb_job_id j, j)) jobs) i = Some j \<longleftrightarrow> j \<in> set jobs \<and> jb_job_id j = i"
  using index_by_iff [of jb_job_id jobs i j] by (simp add: index_by_def)

lemma validate_jobs_Inr:
  "validate_jobs jobs = Inr d \<longleftrightarrow>
     distinct (map jb_job_id jobs) \<and> (\<forall>j \<in> set jobs. jb_status j = JOB_QUEUED)
     \<and> d = map (\<lambda>j. (jb_job_id j, j)) jobs"
  by (auto simp: validate_jobs_def result_simps list_ex_iff)

lemma graph_check_Inr: "graph_check deps = Inr u \<longleftrightarrow> require_acyclic deps = Inr ()"
  by (auto simp: graph_check_def split: sum.splits graph_error.splits)

lemma validate_dependencies_Inr:
  assumes "validate_dependencies (map (\<lambda>j. (jb_job_id j, j)) jobs) deps = Inr normalized"
    and "distinct (map jb_job_id jobs)"
  shows "normalized = map (\<lambda>j. (jb_job_id j, dict_get deps (jb_job_id j) [])) jobs"
    and "j \<in> set jobs \<Longrightarrow> d \<in> set (dict_get deps (jb_job_id j) []) \<Longrightarrow>
      \<exists>k \<in> set jobs. jb_job_id k = d \<and> jb_problem_id k = jb_problem_id j \<and> d \<noteq> jb_job_id j"
    and "acyclic (edges normalized)"
proof -
  show n: "normalized = map (\<lambda>j. (jb_job_id j, dict_get deps (jb_job_id j) [])) jobs"
    using assms(1) by (auto simp: validate_dependencies_def result_simps Let_def)
  show "acyclic (edges normalized)"
    using assms(1)
    by (auto simp: validate_dependencies_def result_simps Let_def graph_check_Inr
        intro: require_acyclic_sound)
  assume j: "j \<in> set jobs" and d: "d \<in> set (dict_get deps (jb_job_id j) [])"
  from assms(1) j d have "check_dependency (map (\<lambda>j. (jb_job_id j, j)) jobs) (jb_job_id j) j d = Inr ()"
    by (auto simp: validate_dependencies_def result_simps Let_def)
  then obtain k where k: "map_of (map (\<lambda>j. (jb_job_id j, j)) jobs) d = Some k"
    "jb_problem_id k = jb_problem_id j" "d \<noteq> jb_job_id j"
    by (auto simp: check_dependency_def result_simps split: option.splits)
  then show "\<exists>k \<in> set jobs. jb_job_id k = d \<and> jb_problem_id k = jb_problem_id j \<and> d \<noteq> jb_job_id j"
    using jobs_by_id_map_of [OF assms(2)] by blast
qed

lemma filter_jobs_by_id:
  "map snd (filter (\<lambda>(i, j). P i) (map (\<lambda>j. (jb_job_id j, j)) jobs)) = filter (\<lambda>j. P (jb_job_id j)) jobs"
  by (induction jobs) auto

lemma map_of_jobs_deps:
  "j \<in> set jobs \<Longrightarrow> dict_get (map (\<lambda>j. (jb_job_id j, f (jb_job_id j))) jobs) (jb_job_id j) [] = f (jb_job_id j)"
  by (induction jobs) (auto simp: dict_get_def)

lemma canonical_context_deps:
  assumes "normalized = map (\<lambda>j. (jb_job_id j, dict_get deps (jb_job_id j) [])) jobs"
  shows "sx_deps (canonical_context limits (map (\<lambda>j. (jb_job_id j, j)) jobs) normalized canon)
    = map (\<lambda>j. (jb_job_id j, map (canonical_id canon) (dict_get deps (jb_job_id j) [])))
        (filter (\<lambda>j. canonical_id canon (jb_job_id j) = jb_job_id j) jobs)"
proof -
  have "filter (\<lambda>(i, j). dict_get canon i [] = i) (map (\<lambda>j. (jb_job_id j, j)) jobs)
      = map (\<lambda>j. (jb_job_id j, j)) (filter (\<lambda>j. canonical_id canon (jb_job_id j) = jb_job_id j) jobs)"
    by (simp add: filter_map o_def canonical_id_def)
  moreover have "dict_get normalized (jb_job_id j) [] = dict_get deps (jb_job_id j) []"
    if "j \<in> set jobs" for j
    using map_of_jobs_deps [OF that, of "\<lambda>i. dict_get deps i []"] by (simp add: assms)
  ultimately show ?thesis
    by (simp add: canonical_context_def Let_def canonical_id_def [abs_def])
qed

lemma plan_queueD:
  assumes "plan_queue limits jobs deps = Inr (canon, ctx)"
  shows "distinct (map jb_job_id jobs)" and "deduplication_map jobs = Inr canon"
    and "\<And>j. j \<in> set jobs \<Longrightarrow> jb_status j = JOB_QUEUED"
    and "sx_limits ctx = limits"
    and "sx_jobs ctx = filter (\<lambda>j. canonical_id canon (jb_job_id j) = jb_job_id j) jobs"
    and "sx_deps ctx = map (\<lambda>j. (jb_job_id j, map (canonical_id canon) (dict_get deps (jb_job_id j) [])))
      (sx_jobs ctx)"
    and "acyclic (edges (sx_deps ctx))"
    and "\<And>j d. j \<in> set jobs \<Longrightarrow> d \<in> set (dict_get deps (jb_job_id j) []) \<Longrightarrow>
      \<exists>k \<in> set jobs. jb_job_id k = d \<and> jb_problem_id k = jb_problem_id j \<and> d \<noteq> jb_job_id j"
proof -
  obtain normalized where dist: "distinct (map jb_job_id jobs)"
    and queued: "\<forall>j \<in> set jobs. jb_status j = JOB_QUEUED"
    and n: "validate_dependencies (map (\<lambda>j. (jb_job_id j, j)) jobs) deps = Inr normalized"
    and dd: "deduplication_map jobs = Inr canon"
    and ctx: "ctx = canonical_context limits (map (\<lambda>j. (jb_job_id j, j)) jobs) normalized canon"
    and g: "graph_check (sx_deps ctx) = Inr ()"
    using assms by (auto simp: plan_queue_def result_simps validate_jobs_Inr Let_def)
  note vd = validate_dependencies_Inr [OF n dist]
  show "distinct (map jb_job_id jobs)" "deduplication_map jobs = Inr canon" by fact+
  show "jb_status j = JOB_QUEUED" if "j \<in> set jobs" for j using queued that by blast
  show "sx_limits ctx = limits" by (simp add: ctx canonical_context_def Let_def)
  show j: "sx_jobs ctx = filter (\<lambda>j. canonical_id canon (jb_job_id j) = jb_job_id j) jobs"
    by (simp add: ctx canonical_context_def Let_def filter_jobs_by_id canonical_id_def)
  show "sx_deps ctx = map (\<lambda>j. (jb_job_id j, map (canonical_id canon) (dict_get deps (jb_job_id j) [])))
      (sx_jobs ctx)"
    unfolding j using canonical_context_deps [OF vd(1)] by (simp add: ctx)
  show "acyclic (edges (sx_deps ctx))" using g by (simp add: graph_check_Inr require_acyclic_sound)
  show "\<exists>k \<in> set jobs. jb_job_id k = d \<and> jb_problem_id k = jb_problem_id j \<and> d \<noteq> jb_job_id j"
    if "j \<in> set jobs" "d \<in> set (dict_get deps (jb_job_id j) [])" for j d
    using vd(2) [OF that] .
qed

text \<open>Every job has a canonical job among those the rounds run.\<close>

lemma plan_canonical:
  assumes plan: "plan_queue limits jobs deps = Inr (canon, ctx)" and j: "j \<in> set jobs"
  obtains c where "c \<in> set (sx_jobs ctx)" "canonical_id canon (jb_job_id j) = jb_job_id c" "represents c j"
proof -
  note pd = plan_queueD [OF plan]
  obtain c where "c \<in> set jobs" "map_of canon (jb_job_id j) = Some (jb_job_id c)"
    "map_of canon (jb_job_id c) = Some (jb_job_id c)" "represents c j"
    using deduplication_map_ok [OF pd(2,1) j] by blast
  then show thesis using that [of c] by (simp add: pd(5) canonical_id_def dict_get_def)
qed

lemma plan_job_deps:
  assumes plan: "plan_queue limits jobs deps = Inr (canon, ctx)" and j: "j \<in> set (sx_jobs ctx)"
  shows "job_deps ctx j = map (canonical_id canon) (dict_get deps (jb_job_id j) [])"
  using map_of_jobs_deps [OF j, of "\<lambda>i. map (canonical_id canon) (dict_get deps i [])"]
  by (simp add: job_deps_def plan_queueD(6) [OF plan])

lemma plan_deps_closed:
  assumes plan: "plan_queue limits jobs deps = Inr (canon, ctx)" and j: "j \<in> set (sx_jobs ctx)"
    and d: "d \<in> set (job_deps ctx j)"
  shows "\<exists>k \<in> set (sx_jobs ctx). jb_job_id k = d"
proof -
  note pd = plan_queueD [OF plan]
  have jj: "j \<in> set jobs" using j by (simp add: pd(5))
  obtain e where e: "e \<in> set (dict_get deps (jb_job_id j) [])" "d = canonical_id canon e"
    using d plan_job_deps [OF plan j] by auto
  obtain k where "k \<in> set jobs" "jb_job_id k = e" using pd(8) [OF jj e(1)] by blast
  with plan_canonical [OF plan] e(2) show ?thesis by metis
qed

lemma plan_distinct:
  "plan_queue limits jobs deps = Inr (canon, ctx) \<Longrightarrow> distinct (map jb_job_id (sx_jobs ctx))"
  using plan_queueD(1,5) [of limits jobs deps canon ctx] by (simp add: distinct_map_filter)

lemma plan_initial_inv:
  assumes "plan_queue limits jobs deps = Inr (canon, ctx)" and "validate_limits limits = Inr ()"
    and "\<forall>j \<in> set jobs. 1 \<le> jb_max_attempts j"
  shows "sched_inv ctx (initial_state ctx)" and "weight (initial_state ctx) < run_fuel ctx"
  using initial_state_inv [OF plan_distinct [OF assms(1)]] assms(2,3) plan_queueD(4,5) [OF assms(1)]
  by auto

end
