(* ===== verification/Scheduler_Outcome.thy ===== *)
theory Scheduler_Outcome
  imports Scheduler_Plan
begin

section \<open>What a run reports\<close>

text \<open>
  An abstract specification of the scheduler, free of rounds, capacity and interleaving: a withheld
  job is reported as such, a job whose dependencies all completed is reported with the outcome of
  its first attempt that is not retried, and any other job waits. \<open>progress\<close> is the invariant that
  carries it through the rounds; \<open>run_reports\<close> says that every run ends in what the
  specification asks, whatever the event loop does.
\<close>

subsection \<open>The specification\<close>

definition retried :: "sched_env \<Rightarrow> job_record \<Rightarrow> nat \<Rightarrow> bool" where
  "retried env job attempt \<longleftrightarrow>
     wo_status (attempt_outcome env job attempt) = JOB_FAILED
     \<and> wo_retryable (attempt_outcome env job attempt) \<and> int attempt < jb_max_attempts job"

definition final_attempt :: "sched_env \<Rightarrow> job_record \<Rightarrow> nat" where
  "final_attempt env job =
     hd (filter (\<lambda>a. \<not> retried env job a) [1..<Suc (nat (jb_max_attempts job))])"

type_synonym job_report = "job_status \<times> nat \<times> string option \<times> string option"

definition report :: "scheduled_job_result \<Rightarrow> job_report" where
  "report r = (sr_status r, sr_attempts r, sr_error_code r, sr_checkpoint_ref r)"

definition all_complete ::
    "sched_context \<Rightarrow> (string, scheduled_job_result) dict \<Rightarrow> job_record \<Rightarrow> bool" where
  "all_complete ctx results j \<longleftrightarrow> list_all (dep_status_in results {JOB_COMPLETE}) (job_deps ctx j)"

definition some_blocked ::
    "sched_context \<Rightarrow> (string, scheduled_job_result) dict \<Rightarrow> job_record \<Rightarrow> bool" where
  "some_blocked ctx results j \<longleftrightarrow> list_ex (dep_status_in results blocking_statuses) (job_deps ctx j)"

definition withheld :: "string set \<Rightarrow> string set \<Rightarrow> job_record \<Rightarrow> bool" where
  "withheld paused cancelled j \<longleftrightarrow> jb_job_id j \<in> cancelled \<or> jb_problem_id j \<in> paused"

definition final_report :: "sched_env \<Rightarrow> job_record \<Rightarrow> job_report" where
  "final_report env j =
     (let a = final_attempt env j; w = attempt_outcome env j a in
      (wo_status w, a, wo_error_code w,
       case wo_checkpoint_ref w of
         None \<Rightarrow> jb_checkpoint_ref j
       | Some c \<Rightarrow> if c = [] then jb_checkpoint_ref j else Some c))"

definition expected_report ::
    "sched_env \<Rightarrow> sched_context \<Rightarrow> string set \<Rightarrow> string set
      \<Rightarrow> (string, scheduled_job_result) dict \<Rightarrow> job_record \<Rightarrow> job_report" where
  "expected_report env ctx paused cancelled results j =
     (if jb_job_id j \<in> cancelled
      then (JOB_CANCELLED, 0, Some ''cancelled'', jb_checkpoint_ref j)
      else if jb_problem_id j \<in> paused
      then (JOB_WAITING, 0, Some ''problem_paused'', jb_checkpoint_ref j)
      else if all_complete ctx results j then final_report env j
      else (JOB_WAITING, 0, Some ''dependency_incomplete'', jb_checkpoint_ref j))"

subsection \<open>The invariant\<close>

definition explained ::
    "sched_env \<Rightarrow> sched_context \<Rightarrow> string set \<Rightarrow> string set
      \<Rightarrow> (string, scheduled_job_result) dict \<Rightarrow> job_record \<Rightarrow> scheduled_job_result \<Rightarrow> bool" where
  "explained env ctx paused cancelled results j r \<longleftrightarrow>
     report r = expected_report env ctx paused cancelled results j
     \<and> (withheld paused cancelled j \<or> all_complete ctx results j \<or> some_blocked ctx results j)"

definition progress ::
    "sched_env \<Rightarrow> sched_context \<Rightarrow> string set \<Rightarrow> string set \<Rightarrow> sched_state \<Rightarrow> bool" where
  "progress env ctx paused cancelled st \<longleftrightarrow>
     (\<forall>j \<in> set (ss_pending st). \<forall>a. 1 \<le> a \<and> a \<le> ss_attempts st (jb_job_id j) \<longrightarrow> retried env j a)
     \<and> (\<forall>j \<in> set (ss_active st). \<not> withheld paused cancelled j \<and> all_complete ctx (ss_results st) j
          \<and> 1 \<le> ss_attempts st (jb_job_id j)
          \<and> (\<forall>a. 1 \<le> a \<and> a < ss_attempts st (jb_job_id j) \<longrightarrow> retried env j a))
     \<and> (\<forall>j \<in> set (sx_jobs ctx). \<forall>r. map_of (ss_results st) (jb_job_id j) = Some r \<longrightarrow>
          explained env ctx paused cancelled (ss_results st) j r)"

definition none_withheld :: "string set \<Rightarrow> string set \<Rightarrow> sched_state \<Rightarrow> bool" where
  "none_withheld paused cancelled st \<longleftrightarrow> (\<forall>j \<in> set (ss_pending st). \<not> withheld paused cancelled j)"

lemma dep_status_in_mono:
  "dep_status_in m S d \<Longrightarrow> map_of m \<subseteq>\<^sub>m map_of m' \<Longrightarrow> dep_status_in m' S d"
  by (auto simp: dep_status_in_def map_le_def dom_def split: option.splits)

lemma all_complete_mono:
  "all_complete ctx m j \<Longrightarrow> map_of m \<subseteq>\<^sub>m map_of m' \<Longrightarrow> all_complete ctx m' j"
  by (auto simp: all_complete_def list_all_iff intro: dep_status_in_mono)

lemma some_blocked_mono:
  "some_blocked ctx m j \<Longrightarrow> map_of m \<subseteq>\<^sub>m map_of m' \<Longrightarrow> some_blocked ctx m' j"
  by (auto simp: some_blocked_def list_ex_iff intro: dep_status_in_mono)

lemma some_blocked_not_complete: "some_blocked ctx m j \<Longrightarrow> \<not> all_complete ctx m j"
  by (fastforce simp: some_blocked_def all_complete_def list_all_iff list_ex_iff dep_status_in_def
      blocking_statuses_def split: option.splits)

lemma explained_mono:
  assumes "explained env ctx paused cancelled m j r" and "map_of m \<subseteq>\<^sub>m map_of m'"
  shows "explained env ctx paused cancelled m' j r"
proof (cases "withheld paused cancelled j")
  case True
  with assms(1) show ?thesis by (auto simp: explained_def expected_report_def withheld_def)
next
  case False
  with assms(1) consider "all_complete ctx m j" | "some_blocked ctx m j" by (auto simp: explained_def)
  then show ?thesis
  proof cases
    case 1
    with assms all_complete_mono [OF 1 assms(2)] show ?thesis
      by (simp add: explained_def expected_report_def)
  next
    case 2
    have "\<not> all_complete ctx m j" "\<not> all_complete ctx m' j"
      using some_blocked_not_complete 2 some_blocked_mono [OF 2 assms(2)] by blast+
    with assms(1) some_blocked_mono [OF 2 assms(2)] show ?thesis
      by (simp add: explained_def expected_report_def)
  qed
qed

lemma map_le_dict_set: "i \<notin> fst ` set m \<Longrightarrow> map_of m \<subseteq>\<^sub>m map_of (dict_set i r m)"
  by (auto simp: map_le_def dom_map_of_conv_image_fst)

text \<open>A new, explained result keeps every other fact of the invariant.\<close>

lemma results_explained_set:
  assumes res: "\<forall>j \<in> set (sx_jobs ctx). \<forall>r. map_of m (jb_job_id j) = Some r \<longrightarrow>
      explained env ctx paused cancelled m j r"
    and new: "jb_job_id job \<notin> fst ` set m" and job: "job \<in> set (sx_jobs ctx)"
    and dist: "distinct (map jb_job_id (sx_jobs ctx))"
    and r: "explained env ctx paused cancelled m job r"
  shows "\<forall>j \<in> set (sx_jobs ctx). \<forall>r'. map_of (dict_set (jb_job_id job) r m) (jb_job_id j) = Some r' \<longrightarrow>
      explained env ctx paused cancelled (dict_set (jb_job_id job) r m) j r'"
proof (intro ballI allI impI)
  fix j r'
  assume j: "j \<in> set (sx_jobs ctx)"
    and r': "map_of (dict_set (jb_job_id job) r m) (jb_job_id j) = Some r'"
  have le: "map_of m \<subseteq>\<^sub>m map_of (dict_set (jb_job_id job) r m)" using new by (rule map_le_dict_set)
  show "explained env ctx paused cancelled (dict_set (jb_job_id job) r m) j r'"
  proof (cases "jb_job_id j = jb_job_id job")
    case True
    then have "j = job" using j job dist by (auto simp: distinct_map inj_on_def)
    with r' r explained_mono [OF _ le] show ?thesis by simp
  next
    case False
    with r' j res explained_mono [OF _ le] show ?thesis by simp
  qed
qed

lemma report_not_run:
  "report (not_run job status code) = (status, 0, Some code, jb_checkpoint_ref job)"
  by (simp add: report_def not_run_def)

lemma settle_progress:
  assumes inv: "sched_inv ctx st" and pr: "progress env ctx paused cancelled st"
    and j: "job \<in> set (ss_pending st)"
    and ex: "explained env ctx paused cancelled (ss_results st) job (not_run job status code)"
  shows "progress env ctx paused cancelled (settle job status code st)"
proof -
  have part: "partition_ok ctx st" using inv by (simp add: sched_inv_def)
  then have job: "job \<in> set (sx_jobs ctx)" and dist: "distinct (map jb_job_id (sx_jobs ctx))"
    using j by (auto simp: partition_ok_def)
  have new: "jb_job_id job \<notin> fst ` set (ss_results st)" using partition_ids(1) [OF part j] .
  note keep = all_complete_mono [OF _ map_le_dict_set [OF new]]
  show ?thesis
    using pr results_explained_set [OF _ new job dist ex] keep
    by (auto simp: progress_def settle_def dest: set_remove1D simp del: map_of_dict_set)
qed

lemma final_attempt_eq:
  assumes "1 \<le> a" and "int a \<le> jb_max_attempts job" and "\<not> retried env job a"
    and "\<And>b. 1 \<le> b \<Longrightarrow> b < a \<Longrightarrow> retried env job b"
  shows "final_attempt env job = a"
proof -
  define n where "n = nat (jb_max_attempts job)"
  have "a < Suc n" using assms(2) unfolding n_def by arith
  then have "[1..<Suc n] = [1..<a] @ a # [Suc a..<Suc n]"
    using assms(1) upt_add_eq_append [of 1 a "Suc n - a"] by (simp add: upt_conv_Cons del: upt_Suc)
  moreover have "filter (\<lambda>a. \<not> retried env job a) [1..<a] = []"
    using assms(4) by (auto simp: filter_empty_conv)
  ultimately show ?thesis using assms(3) by (simp add: final_attempt_def n_def del: upt_Suc)
qed

lemma dispatch_progress:
  assumes inv: "sched_inv ctx st" and pr: "progress env ctx paused cancelled st"
    and j: "job \<in> set (ss_pending st)" and nw: "\<not> withheld paused cancelled job"
    and ready: "is_ready ctx st job"
  shows "progress env ctx paused cancelled (dispatch_one env ctx job st)"
proof (cases "has_capacity (sx_limits ctx) job (ss_counters st)")
  case False
  with pr show ?thesis by (simp add: dispatch_one_def)
next
  case True
  let ?st = "dispatch_one env ctx job st"
  have part: "partition_ok ctx st" using inv by (simp add: sched_inv_def)
  have eqs: "ss_pending ?st = remove1 job (ss_pending st)" "ss_active ?st = ss_active st @ [job]"
    "ss_results ?st = ss_results st"
    "ss_attempts ?st = (ss_attempts st)(jb_job_id job := Suc (ss_attempts st (jb_job_id job)))"
    using True by (simp_all add: dispatch_one_def Let_def)
  have dp: "distinct (ss_pending st)" using sched_inv_distinct(1) [OF inv] .
  have other: "jb_job_id k \<noteq> jb_job_id job"
    if "k \<in> set (remove1 job (ss_pending st)) \<or> k \<in> set (ss_active st)" for k
    using that j dp partition_ids(4) [OF part, of k job] partition_ids(3) [OF part j, of k]
    by (auto dest: set_remove1D)
  have "all_complete ctx (ss_results st) job" using ready by (simp add: all_complete_def is_ready_def)
  moreover have "retried env job a" if "1 \<le> a" "a < Suc (ss_attempts st (jb_job_id job))" for a
    using that pr j by (simp add: progress_def)
  ultimately show ?thesis
    using pr nw other unfolding progress_def eqs by (auto dest: set_remove1D)
qed

lemma complete_progress:
  assumes inv: "sched_inv ctx st" and pr: "progress env ctx paused cancelled st"
    and j: "job \<in> set (ss_active st)"
  shows "progress env ctx paused cancelled (complete_one env job st)"
proof -
  let ?st = "complete_one env job st" and ?a = "ss_attempts st (jb_job_id job)"
  have part: "partition_ok ctx st" and att: "attempts_ok st" using inv by (simp_all add: sched_inv_def)
  then have job: "job \<in> set (sx_jobs ctx)" and dist: "distinct (map jb_job_id (sx_jobs ctx))"
    using j by (auto simp: partition_ok_def)
  have act: "\<not> withheld paused cancelled job" "all_complete ctx (ss_results st) job" "1 \<le> ?a"
    "\<And>a. 1 \<le> a \<Longrightarrow> a < ?a \<Longrightarrow> retried env job a"
    using pr j by (simp_all add: progress_def)
  show ?thesis
  proof (cases "retried env job ?a")
    case True
    then have "ss_pending ?st = job # ss_pending st" "ss_active ?st = remove1 job (ss_active st)"
      "ss_results ?st = ss_results st" "ss_attempts ?st = ss_attempts st"
      by (simp_all add: complete_one_def Let_def retried_def)
    moreover have "retried env job a" if "1 \<le> a" "a \<le> ?a" for a
      using that act(4) True by (cases "a = ?a") auto
    ultimately show ?thesis using pr by (auto simp: progress_def dest: set_remove1D)
  next
    case False
    obtain r where eqs: "ss_pending ?st = ss_pending st" "ss_active ?st = remove1 job (ss_active st)"
      "ss_results ?st = dict_set (jb_job_id job) r (ss_results st)" "ss_attempts ?st = ss_attempts st"
      and r: "report r = (let w = attempt_outcome env job ?a in
         (wo_status w, ?a, wo_error_code w,
          case wo_checkpoint_ref w of
            None \<Rightarrow> jb_checkpoint_ref job
          | Some c \<Rightarrow> if c = [] then jb_checkpoint_ref job else Some c))"
      using False by (auto simp: complete_one_def Let_def retried_def report_def)
    have "int ?a \<le> jb_max_attempts job" using att j unfolding attempts_ok_def by blast
    then have "final_attempt env job = ?a" using final_attempt_eq act(3,4) False by blast
    then have ex: "explained env ctx paused cancelled (ss_results st) job r"
      using act(1,2) r by (auto simp: explained_def expected_report_def final_report_def withheld_def Let_def)
    have new: "jb_job_id job \<notin> fst ` set (ss_results st)" using partition_ids(2) [OF part j] .
    note keep = all_complete_mono [OF _ map_le_dict_set [OF new]]
    show ?thesis
      using pr results_explained_set [OF _ new job dist ex] keep unfolding progress_def eqs
      by (auto dest: set_remove1D simp del: map_of_dict_set)
  qed
qed

subsection \<open>Rounds keep it\<close>

definition run_inv ::
    "sched_env \<Rightarrow> sched_context \<Rightarrow> string set \<Rightarrow> string set \<Rightarrow> sched_state \<Rightarrow> bool" where
  "run_inv env ctx paused cancelled st \<longleftrightarrow>
     sched_inv ctx st \<and> progress env ctx paused cancelled st \<and> none_withheld paused cancelled st"

lemma none_withheld_subset:
  "none_withheld paused cancelled st \<Longrightarrow> set (ss_pending st') \<subseteq> set (ss_pending st)
    \<Longrightarrow> none_withheld paused cancelled st'"
  by (auto simp: none_withheld_def)

lemma settle_pending: "set (ss_pending (settle job status code st)) \<subseteq> set (ss_pending st)"
  using set_remove1_subset by (simp add: settle_def)

lemma resolve_one_run_inv:
  assumes "run_inv env ctx paused cancelled st" and j: "job \<in> set (ss_pending st)"
  shows "run_inv env ctx paused cancelled (resolve_one ctx job st)"
proof (cases "some_blocked ctx (ss_results st) job")
  case True
  have "\<not> withheld paused cancelled job" using assms by (auto simp: run_inv_def none_withheld_def)
  then have "explained env ctx paused cancelled (ss_results st) job
      (not_run job JOB_WAITING ''dependency_incomplete'')"
    using True some_blocked_not_complete [OF True]
    by (auto simp: explained_def expected_report_def report_not_run withheld_def)
  with assms settle_progress [OF _ _ j this] settle_inv [OF _ j]
    none_withheld_subset [OF _ settle_pending] show ?thesis
    using True by (simp add: run_inv_def resolve_one_def some_blocked_def)
next
  case False
  with assms show ?thesis by (simp add: resolve_one_def some_blocked_def)
qed

lemma resolve_run_inv:
  assumes env: "env_ok env" and inv: "run_inv env ctx paused cancelled st"
  shows "run_inv env ctx paused cancelled (resolve_blocked_dependencies env ctx st)"
  unfolding resolve_blocked_dependencies_def
proof (rule fold_keeps [where I = "run_inv env ctx paused cancelled"
      and Q = "\<lambda>j s. j \<in> set (ss_pending s)"])
  have "sched_inv ctx st" using inv by (simp add: run_inv_def)
  then show "distinct (en_order env (ss_round st) (ss_pending st))"
    using env_order(2) [OF env] sched_inv_distinct(1) by blast
  show "y \<in> set (ss_pending (resolve_one ctx x s))" if "x \<noteq> y" "y \<in> set (ss_pending s)" for x y s
    using that by (simp add: resolve_one_def settle_def in_set_remove1)
qed (use inv resolve_one_run_inv env_order(1) [OF env] in auto)

lemma dispatch_one_run_inv:
  assumes inv: "run_inv env ctx paused cancelled s" and j: "x \<in> set (ss_pending s)"
    and ready: "is_ready ctx s x"
  shows "run_inv env ctx paused cancelled (dispatch_one env ctx x s)"
proof -
  have i: "sched_inv ctx s" and p: "progress env ctx paused cancelled s"
    and nw: "none_withheld paused cancelled s" using inv by (simp_all add: run_inv_def)
  have "set (ss_pending (dispatch_one env ctx x s)) \<subseteq> set (ss_pending s)"
    using set_remove1_subset [of x "ss_pending s"] by (simp add: dispatch_one_def Let_def)
  then show ?thesis
    using dispatch_one_inv [OF i j ready] dispatch_progress [OF i p j _ ready] nw j
      none_withheld_subset [OF nw]
    by (simp add: run_inv_def none_withheld_def)
qed

lemma dispatch_ready_run_inv:
  assumes inv: "run_inv env ctx paused cancelled st"
  shows "run_inv env ctx paused cancelled (dispatch_ready env ctx st)"
  unfolding dispatch_ready_def
proof (rule fold_keeps [where I = "run_inv env ctx paused cancelled"
      and Q = "\<lambda>j s. j \<in> set (ss_pending s) \<and> is_ready ctx s j"])
  have i: "sched_inv ctx st" using inv by (simp add: run_inv_def)
  show "distinct (ready_jobs ctx st)" using ready_jobs_pending(1) [OF i] .
  show "x \<in> set (ss_pending st) \<and> is_ready ctx st x" if "x \<in> set (ready_jobs ctx st)" for x
    using ready_jobs_pending(2) [OF i that] .
qed (use inv dispatch_one_run_inv dispatch_frame in blast)+

lemma complete_one_run_inv:
  assumes inv: "run_inv env ctx paused cancelled s" and j: "x \<in> set (ss_active s)"
  shows "run_inv env ctx paused cancelled (complete_one env x s)"
proof -
  have i: "sched_inv ctx s" and p: "progress env ctx paused cancelled s"
    and nw: "none_withheld paused cancelled s" using inv by (simp_all add: run_inv_def)
  have "\<not> withheld paused cancelled x" using p j by (auto simp: progress_def)
  moreover have "set (ss_pending (complete_one env x s)) \<subseteq> insert x (set (ss_pending s))"
    by (auto simp: complete_one_def Let_def)
  ultimately have "none_withheld paused cancelled (complete_one env x s)"
    using nw by (auto simp: none_withheld_def)
  with complete_one_inv [OF i j] complete_progress [OF i p j] show ?thesis by (simp add: run_inv_def)
qed

lemma run_inv_round [simp]:
  "run_inv env ctx paused cancelled (st\<lparr>ss_round := n\<rparr>) = run_inv env ctx paused cancelled st"
  by (simp add: run_inv_def progress_def none_withheld_def)

lemma process_completed_run_inv:
  assumes env: "env_ok env" and inv: "run_inv env ctx paused cancelled st"
  shows "run_inv env ctx paused cancelled (process_completed env st)"
proof -
  let ?xs = "sort_key jb_job_id (en_completed env (ss_round st) (ss_active st))"
  have "distinct (ss_active st)" using inv sched_inv_distinct(2) by (auto simp: run_inv_def)
  then have dist: "distinct ?xs" and sub: "set ?xs \<subseteq> set (ss_active st)"
    using env unfolding env_ok_def by auto
  have "run_inv env ctx paused cancelled (fold (complete_one env) ?xs st)"
  proof (rule fold_keeps [where I = "run_inv env ctx paused cancelled"
        and Q = "\<lambda>j s. j \<in> set (ss_active s)"])
    show "y \<in> set (ss_active (complete_one env x s))" if "x \<noteq> y" "y \<in> set (ss_active s)" for x y s
      using that by (simp add: complete_one_def Let_def in_set_remove1)
  qed (use inv dist sub complete_one_run_inv in blast)+
  then show ?thesis by (simp add: process_completed_def)
qed

subsection \<open>The first and the last round\<close>

lemma withhold_one_progress:
  assumes "sched_inv ctx st \<and> progress env ctx paused cancelled st" and j: "job \<in> set (ss_pending st)"
  shows "sched_inv ctx (withhold_one paused cancelled job st)
    \<and> progress env ctx paused cancelled (withhold_one paused cancelled job st)"
proof -
  have ex: "explained env ctx paused cancelled (ss_results st) job
      (if jb_job_id job \<in> cancelled then not_run job JOB_CANCELLED ''cancelled''
       else not_run job JOB_WAITING ''problem_paused'')" if "withheld paused cancelled job"
    using that by (auto simp: explained_def expected_report_def report_not_run withheld_def)
  show ?thesis
    using assms ex settle_progress [OF _ _ j] settle_inv [OF _ j]
    by (auto simp: withhold_one_def withheld_def)
qed

lemma withhold_pending:
  "set (ss_pending (fold (withhold_one paused cancelled) xs st)) \<subseteq> set (ss_pending st)"
proof (induction xs arbitrary: st)
  case (Cons x xs)
  have "set (ss_pending (withhold_one paused cancelled x st)) \<subseteq> set (ss_pending st)"
    using settle_pending by (simp add: withhold_one_def)
  with Cons.IH [of "withhold_one paused cancelled x st"] show ?case by simp
qed simp

lemma withhold_removes:
  assumes "distinct (ss_pending st)" and "y \<in> set xs"
    and "y \<in> set (ss_pending (fold (withhold_one paused cancelled) xs st))"
  shows "\<not> withheld paused cancelled y"
  using assms
proof (induction xs arbitrary: st)
  case (Cons x xs)
  let ?st = "withhold_one paused cancelled x st"
  have d: "distinct (ss_pending ?st)" using Cons.prems(1) by (simp add: withhold_one_def settle_def)
  show ?case
  proof (cases "y \<in> set xs")
    case True
    with Cons.IH [OF d True] Cons.prems(3) show ?thesis by simp
  next
    case False
    then have "y = x" and "y \<in> set (ss_pending ?st)"
      using Cons.prems(2,3) withhold_pending [of paused cancelled xs ?st] by auto
    with Cons.prems(1) show ?thesis by (auto simp: withhold_one_def settle_def withheld_def split: if_splits)
  qed
qed simp

lemma withhold_run_inv:
  assumes env: "env_ok env" and inv: "sched_inv ctx (initial_state ctx)"
  shows "run_inv env ctx paused cancelled (withhold env paused cancelled (initial_state ctx))"
proof -
  let ?st = "initial_state ctx"
  let ?xs = "en_order env (ss_round ?st) (ss_pending ?st)"
  have d: "distinct (ss_pending ?st)" using sched_inv_distinct(1) [OF inv] .
  have "sched_inv ctx (fold (withhold_one paused cancelled) ?xs ?st)
      \<and> progress env ctx paused cancelled (fold (withhold_one paused cancelled) ?xs ?st)"
  proof (rule fold_keeps [where I = "\<lambda>s. sched_inv ctx s \<and> progress env ctx paused cancelled s"
        and Q = "\<lambda>j s. j \<in> set (ss_pending s)"])
    show "distinct ?xs" using env_order(2) [OF env] d by simp
    show "x \<in> set (ss_pending ?st)" if "x \<in> set ?xs" for x using that env_order(1) [OF env] by simp
    show "sched_inv ctx ?st \<and> progress env ctx paused cancelled ?st"
      using inv by (simp add: progress_def initial_state_def)
    show "y \<in> set (ss_pending (withhold_one paused cancelled x s))"
      if "x \<noteq> y" "y \<in> set (ss_pending s)" for x y s
      using that by (simp add: withhold_one_def settle_def in_set_remove1)
  qed (use withhold_one_progress in blast)
  moreover have "none_withheld paused cancelled (fold (withhold_one paused cancelled) ?xs ?st)"
    using withhold_removes [OF d] withhold_pending env_order(1) [OF env]
    unfolding none_withheld_def by blast
  ultimately show ?thesis by (simp add: run_inv_def withhold_def)
qed

lemma dispatch_active_mono:
  "set (ss_active st) \<subseteq> set (ss_active (fold (dispatch_one env ctx) xs st))"
proof (induction xs arbitrary: st)
  case (Cons x xs)
  have "set (ss_active st) \<subseteq> set (ss_active (dispatch_one env ctx x st))"
    by (auto simp: dispatch_one_def Let_def)
  with Cons.IH [of "dispatch_one env ctx x st"] show ?case by auto
qed simp

definition positive_limits :: "queue_limits \<Rightarrow> bool" where
  "positive_limits l \<longleftrightarrow> 1 \<le> max_active_problems l \<and> 1 \<le> max_active_jobs l
     \<and> 1 \<le> max_active_jobs_per_problem l \<and> (\<forall>r. 1 \<le> role_limit l r)"

lemma validate_limits_positive: "validate_limits l = Inr () \<longleftrightarrow> positive_limits l"
proof -
  have "(\<forall>r. 1 \<le> role_limit l r)
      \<longleftrightarrow> 1 \<le> max_planner_jobs l \<and> 1 \<le> max_verifier_jobs l \<and> 1 \<le> max_active_jobs l"
    by (auto simp: role_limit_def)
  then show ?thesis
    by (auto simp: validate_limits_def result_simps positive_limits_def)
qed

text \<open>An idle scheduler with a ready job has the capacity to dispatch it.\<close>

lemma idle_not_ready:
  assumes inv: "sched_inv ctx st" and lim: "positive_limits (sx_limits ctx)"
    and idle: "ss_active (dispatch_ready env ctx st) = []"
  shows "ready_jobs ctx st = []"
proof (rule ccontr)
  assume "ready_jobs ctx st \<noteq> []"
  then obtain x xs where xs: "ready_jobs ctx st = x # xs" by (cases "ready_jobs ctx st") auto
  have "ss_active st = []"
    using idle dispatch_active_mono [of st env ctx "ready_jobs ctx st"] by (simp add: dispatch_ready_def)
  then have c: "counters_ok (ss_counters st) []" using inv by (simp add: sched_inv_def)
  then have "active_problems (ss_counters st) = 0" using active_problems_card [OF c] by simp
  with c lim have "has_capacity (sx_limits ctx) x (ss_counters st)"
    by (simp add: has_capacity_def counters_ok_def positive_limits_def order_less_le_trans [of 0 1])
  then have "x \<in> set (ss_active (dispatch_one env ctx x st))" by (simp add: dispatch_one_def Let_def)
  with dispatch_active_mono [of "dispatch_one env ctx x st" env ctx xs] idle show False
    by (auto simp: dispatch_ready_def xs)
qed

lemma flush_results_other:
  "i \<notin> jb_job_id ` set xs \<Longrightarrow>
     map_of (ss_results (fold (\<lambda>job. settle job s c) xs st)) i = map_of (ss_results st) i"
  by (induction xs arbitrary: st) (auto simp: settle_def)

lemma settle_results:
  "map_of (ss_results (settle job s c st)) = (map_of (ss_results st))(jb_job_id job \<mapsto> not_run job s c)"
  by (simp add: settle_def)

lemma flush_results_new:
  "distinct (map jb_job_id xs) \<Longrightarrow> x \<in> set xs \<Longrightarrow>
     map_of (ss_results (fold (\<lambda>job. settle job s c) xs st)) (jb_job_id x) = Some (not_run x s c)"
  by (induction xs arbitrary: st) (auto simp: flush_results_other settle_results)

definition deps_closed :: "sched_context \<Rightarrow> bool" where
  "deps_closed ctx \<longleftrightarrow>
     (\<forall>j \<in> set (sx_jobs ctx). \<forall>d \<in> set (job_deps ctx j). \<exists>k \<in> set (sx_jobs ctx). jb_job_id k = d)"

lemma idle_incomplete:
  assumes inv: "sched_inv ctx st" and closed: "deps_closed ctx" and idle: "ss_active st = []"
    and nr: "ready_jobs ctx st = []" and j: "j \<in> set (ss_pending st)"
  shows "\<exists>d \<in> set (job_deps ctx j). d \<in> jb_job_id ` set (ss_pending st)
      \<or> (\<exists>r. map_of (ss_results st) d = Some r \<and> sr_status r \<noteq> JOB_COMPLETE)"
proof -
  have part: "partition_ok ctx st" using inv by (simp add: sched_inv_def)
  have "set (ready_jobs ctx st) = {}" using nr by simp
  then have "\<not> is_ready ctx st j" using j by (auto simp: ready_jobs_def)
  then obtain d where d: "d \<in> set (job_deps ctx j)" "\<not> dep_status_in (ss_results st) {JOB_COMPLETE} d"
    by (auto simp: is_ready_def list_all_iff)
  have "j \<in> set (sx_jobs ctx)" using part j by (auto simp: partition_ok_def)
  then have "d \<in> jb_job_id ` set (sx_jobs ctx)" using closed d(1) by (metis deps_closed_def imageI)
  then have "d \<in> jb_job_id ` set (ss_pending st) \<or> d \<in> fst ` set (ss_results st)"
    using partition_ids_cover [OF part] idle by auto
  then show ?thesis
  proof
    assume "d \<in> fst ` set (ss_results st)"
    then obtain r where "map_of (ss_results st) d = Some r"
      by (cases "map_of (ss_results st) d") (auto simp: map_of_eq_None_iff)
    with d show ?thesis by (auto simp: dep_status_in_def)
  qed (use d(1) in blast)
qed

lemma flush_reports:
  assumes env: "env_ok env" and inv: "run_inv env ctx paused cancelled st" and closed: "deps_closed ctx"
    and idle: "ss_active st = []" and nr: "ready_jobs ctx st = []"
    and j: "j \<in> set (sx_jobs ctx)" and r: "map_of (ss_results (flush_pending env st)) (jb_job_id j) = Some r"
  shows "report r = expected_report env ctx paused cancelled (ss_results (flush_pending env st)) j"
proof -
  let ?xs = "en_order env (ss_round st) (ss_pending st)" and ?m = "ss_results (flush_pending env st)"
  have i: "sched_inv ctx st" and p: "progress env ctx paused cancelled st"
    and nw: "none_withheld paused cancelled st" using inv by (simp_all add: run_inv_def)
  have part: "partition_ok ctx st" using i by (simp add: sched_inv_def)
  have ids: "distinct (map jb_job_id ?xs)" and xs: "set ?xs = set (ss_pending st)"
    using partition_distinct [OF part] env_order [OF env] by (auto simp: distinct_map)
  have old: "map_of ?m k = map_of (ss_results st) k" if "k \<notin> jb_job_id ` set (ss_pending st)" for k
    unfolding flush_pending_def by (rule flush_results_other) (use that xs in simp)
  have new: "map_of ?m (jb_job_id x) = Some (not_run x JOB_WAITING ''dependency_incomplete'')"
    if "x \<in> set (ss_pending st)" for x
    unfolding flush_pending_def by (rule flush_results_new [OF ids]) (use that xs in simp)
  have le: "map_of (ss_results st) \<subseteq>\<^sub>m map_of ?m"
  proof (unfold map_le_def, rule ballI)
    fix k assume "k \<in> dom (map_of (ss_results st))"
    then have "k \<in> fst ` set (ss_results st)" by (simp add: dom_map_of_conv_image_fst)
    then have "k \<notin> jb_job_id ` set (ss_pending st)" using partition_ids(1) [OF part] by blast
    then show "map_of (ss_results st) k = map_of ?m k" using old by simp
  qed
  show ?thesis
  proof (cases "j \<in> set (ss_pending st)")
    case True
    obtain d where d: "d \<in> set (job_deps ctx j)" "d \<in> jb_job_id ` set (ss_pending st)
        \<or> (\<exists>r. map_of (ss_results st) d = Some r \<and> sr_status r \<noteq> JOB_COMPLETE)"
      using idle_incomplete [OF i closed idle nr True] by blast
    have "\<not> dep_status_in ?m {JOB_COMPLETE} d"
    proof (cases "d \<in> jb_job_id ` set (ss_pending st)")
      case True
      then show ?thesis using new by (auto simp: dep_status_in_def not_run_def)
    next
      case False
      with d(2) old [OF False] show ?thesis by (auto simp: dep_status_in_def)
    qed
    with d(1) have "\<not> all_complete ctx ?m j" by (auto simp: all_complete_def list_all_iff)
    moreover have "\<not> withheld paused cancelled j" using nw True by (auto simp: none_withheld_def)
    ultimately show ?thesis
      using r new [OF True] by (auto simp: expected_report_def report_not_run withheld_def)
  next
    case False
    then have "jb_job_id j \<notin> jb_job_id ` set (ss_pending st)"
      using j part job_by_id [OF part j] by (auto simp: partition_ok_def)
    then have "explained env ctx paused cancelled (ss_results st) j r"
      using r old p j by (simp add: progress_def)
    from explained_mono [OF this le] show ?thesis by (simp add: explained_def)
  qed
qed

lemma run_loop_reports:
  assumes "run_loop n env ctx st = Some st'" and env: "env_ok env"
    and "run_inv env ctx paused cancelled st"
    and closed: "deps_closed ctx" and lim: "positive_limits (sx_limits ctx)"
    and "j \<in> set (sx_jobs ctx)" and "map_of (ss_results st') (jb_job_id j) = Some r"
  shows "report r = expected_report env ctx paused cancelled (ss_results st') j"
  using assms
proof (induction n arbitrary: st)
  case (Suc n)
  let ?st0 = "resolve_blocked_dependencies env ctx st" and ?st1 = "dispatch_round env ctx st"
  have st0: "run_inv env ctx paused cancelled ?st0" using resolve_run_inv [OF env Suc.prems(3)] .
  then have st1: "run_inv env ctx paused cancelled ?st1"
    unfolding dispatch_round_def by (rule dispatch_ready_run_inv)
  consider "ss_pending st = [] \<and> ss_active st = []"
    | "\<not> (ss_pending st = [] \<and> ss_active st = [])" "ss_active ?st1 = []"
    | "\<not> (ss_pending st = [] \<and> ss_active st = [])" "ss_active ?st1 \<noteq> []" by blast
  then show ?case
  proof cases
    case 1
    with Suc.prems(1) have "st' = st" by simp
    with Suc.prems(3,6,7) show ?thesis by (auto simp: run_inv_def progress_def explained_def)
  next
    case 2
    have "ready_jobs ctx ?st0 = []"
      using idle_not_ready [OF _ lim] 2(2) st0 by (auto simp: run_inv_def dispatch_round_def)
    then have "?st1 = ?st0" by (simp add: dispatch_round_def dispatch_ready_def)
    moreover have "st' = flush_pending env ?st1" using Suc.prems(1) 2 by (auto simp: Let_def)
    ultimately show ?thesis
      using flush_reports [OF env st0 closed _ \<open>ready_jobs ctx ?st0 = []\<close> Suc.prems(6)] 2(2) Suc.prems(7)
      by simp
  next
    case 3
    then have "run_loop n env ctx (process_completed env ?st1) = Some st'"
      using Suc.prems(1) by (auto simp: Let_def)
    from Suc.IH [OF this env process_completed_run_inv [OF env st1] closed lim Suc.prems(6,7)]
    show ?thesis .
  qed
qed simp

definition reports_expected ::
    "sched_env \<Rightarrow> sched_context \<Rightarrow> string set \<Rightarrow> string set
      \<Rightarrow> (string, scheduled_job_result) dict \<Rightarrow> bool" where
  "reports_expected env ctx paused cancelled m \<longleftrightarrow>
     (\<forall>j \<in> set (sx_jobs ctx). \<exists>r. map_of m (jb_job_id j) = Some r
        \<and> report r = expected_report env ctx paused cancelled m j)"

theorem run_reports:
  assumes plan: "plan_queue limits jobs deps = Inr (canon, ctx)" and env: "env_ok env"
    and lim: "validate_limits limits = Inr ()" and att: "\<forall>j \<in> set jobs. 1 \<le> jb_max_attempts j"
  shows "\<exists>st. run_loop (run_fuel ctx) env ctx (withhold env paused cancelled (initial_state ctx)) = Some st
    \<and> sched_inv ctx st \<and> reports_expected env ctx paused cancelled (ss_results st)"
proof -
  let ?st = "withhold env paused cancelled (initial_state ctx)"
  note init = plan_initial_inv [OF plan lim att]
  have ri: "run_inv env ctx paused cancelled ?st" using withhold_run_inv [OF env init(1)] .
  have "weight ?st < run_fuel ctx"
    using withhold_inv [OF env init(1), of paused cancelled] init(2) by simp
  then obtain st where st: "run_loop (run_fuel ctx) env ctx ?st = Some st" "sched_inv ctx st"
      "ss_pending st = []" "ss_active st = []"
    using run_loop_total [OF env, of ctx ?st] ri by (auto simp: run_inv_def)
  have lim': "positive_limits (sx_limits ctx)"
    using lim plan_queueD(4) [OF plan] by (simp add: validate_limits_positive)
  have closed: "deps_closed ctx" using plan_deps_closed [OF plan] by (auto simp: deps_closed_def)
  have "\<exists>r. map_of (ss_results st) (jb_job_id j) = Some r
      \<and> report r = expected_report env ctx paused cancelled (ss_results st) j"
    if j: "j \<in> set (sx_jobs ctx)" for j
  proof -
    have "partition_ok ctx st" using st(2) by (simp add: sched_inv_def)
    then have "jb_job_id j \<in> fst ` set (ss_results st)"
      using partition_ids_cover [of ctx st] st(3,4) j by auto
    then obtain r where "map_of (ss_results st) (jb_job_id j) = Some r"
      by (cases "map_of (ss_results st) (jb_job_id j)") (auto simp: map_of_eq_None_iff)
    with run_loop_reports [OF st(1) env ri closed lim' j] show ?thesis by blast
  qed
  with st(1,2) show ?thesis unfolding reports_expected_def by blast
qed

subsection \<open>The specification has one solution\<close>

lemma finite_edges: "finite (edges deps)"
proof (rule finite_subset)
  show "edges deps \<subseteq> fst ` set deps \<times> \<Union> (set ` snd ` set deps)"
    by (force simp: edges_def dest!: map_of_SomeD)
qed simp

lemma job_deps_edges: "d \<in> set (job_deps ctx j) \<Longrightarrow> (jb_job_id j, d) \<in> edges (sx_deps ctx)"
  by (cases "map_of (sx_deps ctx) (jb_job_id j)") (auto simp: job_deps_def dict_get_def edges_def)

text \<open>Induction along the dependencies: a job's dependencies are settled before the job.\<close>

lemma dependency_induct:
  assumes acyc: "acyclic (edges (sx_deps ctx))" and closed: "deps_closed ctx"
    and step: "\<And>j. j \<in> set (sx_jobs ctx) \<Longrightarrow>
      (\<And>k. k \<in> set (sx_jobs ctx) \<Longrightarrow> jb_job_id k \<in> set (job_deps ctx j) \<Longrightarrow> P k) \<Longrightarrow> P j"
    and j: "j \<in> set (sx_jobs ctx)"
  shows "P j"
proof -
  have "wf ((edges (sx_deps ctx))\<inverse>)" using finite_acyclic_wf_converse [OF finite_edges acyc] .
  then have "\<forall>j \<in> set (sx_jobs ctx). jb_job_id j = i \<longrightarrow> P j" for i
  proof (induction i rule: wf_induct_rule)
    case (less i)
    show ?case
    proof (intro ballI impI)
      fix j assume j: "j \<in> set (sx_jobs ctx)" and i: "jb_job_id j = i"
      show "P j"
      proof (rule step [OF j])
        fix k assume k: "k \<in> set (sx_jobs ctx)" "jb_job_id k \<in> set (job_deps ctx j)"
        have "(jb_job_id k, i) \<in> (edges (sx_deps ctx))\<inverse>" using job_deps_edges [OF k(2)] i by simp
        from less.IH [OF this] k(1) show "P k" by blast
      qed
    qed
  qed
  with j show ?thesis by blast
qed

lemma expected_unique:
  assumes acyc: "acyclic (edges (sx_deps ctx))" and closed: "deps_closed ctx"
    and same: "sx_jobs ctx' = sx_jobs ctx" "sx_deps ctx' = sx_deps ctx"
      "en_executor env' = en_executor env"
    and m: "reports_expected env ctx paused cancelled m"
    and m': "reports_expected env' ctx' paused cancelled m'"
    and j: "j \<in> set (sx_jobs ctx)"
  shows "map_option report (map_of m' (jb_job_id j)) = map_option report (map_of m (jb_job_id j))"
proof (rule dependency_induct [OF acyc closed _ j])
  fix j assume j: "j \<in> set (sx_jobs ctx)"
    and IH: "\<And>k. k \<in> set (sx_jobs ctx) \<Longrightarrow> jb_job_id k \<in> set (job_deps ctx j) \<Longrightarrow>
      map_option report (map_of m' (jb_job_id k)) = map_option report (map_of m (jb_job_id k))"
  have ao: "attempt_outcome env' = attempt_outcome env"
    by (simp add: fun_eq_iff attempt_outcome_def same(3))
  then have fr: "final_report env' j = final_report env j"
    by (simp add: final_report_def final_attempt_def retried_def)
  have jd: "job_deps ctx' j = job_deps ctx j" by (simp add: job_deps_def same(2))
  have "dep_status_in m' {JOB_COMPLETE} d = dep_status_in m {JOB_COMPLETE} d"
    if d: "d \<in> set (job_deps ctx j)" for d
  proof -
    obtain k where k: "k \<in> set (sx_jobs ctx)" "jb_job_id k = d"
      using closed j d by (auto simp: deps_closed_def)
    then obtain r r' where "map_of m d = Some r" "map_of m' d = Some r'"
      using m m' same(1) unfolding reports_expected_def by metis
    moreover from this have "report r' = report r" using IH [OF k(1)] k(2) d by simp
    ultimately show ?thesis by (simp add: dep_status_in_def report_def)
  qed
  then have "all_complete ctx' m' j = all_complete ctx m j"
    by (simp add: all_complete_def list_all_iff jd)
  then have "expected_report env' ctx' paused cancelled m' j = expected_report env ctx paused cancelled m j"
    by (simp add: expected_report_def fr)
  moreover obtain r where "map_of m (jb_job_id j) = Some r"
    "report r = expected_report env ctx paused cancelled m j"
    using m j by (auto simp: reports_expected_def)
  moreover obtain r' where "map_of m' (jb_job_id j) = Some r'"
    "report r' = expected_report env' ctx' paused cancelled m' j"
    using m' j same(1) by (auto simp: reports_expected_def)
  ultimately show "map_option report (map_of m' (jb_job_id j)) = map_option report (map_of m (jb_job_id j))"
    by simp
qed

lemma expected_complete:
  assumes acyc: "acyclic (edges (sx_deps ctx))" and closed: "deps_closed ctx"
    and m: "reports_expected env ctx paused cancelled m"
    and fin: "\<And>k. k \<in> set (sx_jobs ctx) \<Longrightarrow>
      \<not> withheld paused cancelled k \<and> fst (final_report env k) = JOB_COMPLETE"
    and j: "j \<in> set (sx_jobs ctx)"
  shows "dep_status_in m {JOB_COMPLETE} (jb_job_id j)"
proof (rule dependency_induct [OF acyc closed _ j])
  fix j assume j: "j \<in> set (sx_jobs ctx)"
    and IH: "\<And>k. k \<in> set (sx_jobs ctx) \<Longrightarrow> jb_job_id k \<in> set (job_deps ctx j) \<Longrightarrow>
      dep_status_in m {JOB_COMPLETE} (jb_job_id k)"
  have "all_complete ctx m j"
    unfolding all_complete_def list_all_iff
  proof
    fix d assume d: "d \<in> set (job_deps ctx j)"
    then obtain k where "k \<in> set (sx_jobs ctx)" "jb_job_id k = d"
      using closed j by (auto simp: deps_closed_def)
    with IH d show "dep_status_in m {JOB_COMPLETE} d" by blast
  qed
  moreover obtain r where r: "map_of m (jb_job_id j) = Some r"
    "report r = expected_report env ctx paused cancelled m j"
    using m j by (auto simp: reports_expected_def)
  ultimately have "fst (report r) = JOB_COMPLETE"
    using fin [OF j] by (simp add: expected_report_def withheld_def)
  with r(1) show "dep_status_in m {JOB_COMPLETE} (jb_job_id j)"
    by (simp add: report_def dep_status_in_def)
qed

end
