(* ===== verification/Scheduler_Steps.thy ===== *)
theory Scheduler_Steps
  imports Scheduler_Outcome
begin

section \<open>The scheduler as a state machine\<close>

text \<open>
  The single steps a run is made of, in any interleaving: a pending job is settled without running,
  a ready job is dispatched if there is capacity, an active job completes, a round ends. Every state
  these steps reach satisfies the scheduler's invariant (rule induction), and the deterministic
  loop only makes such steps, so what holds of every reachable state holds at every moment of
  every run.
\<close>

inductive sched_step :: "sched_env \<Rightarrow> sched_context \<Rightarrow> sched_state \<Rightarrow> sched_state \<Rightarrow> bool"
  for env :: sched_env and ctx :: sched_context where
  settled: "job \<in> set (ss_pending st) \<Longrightarrow> status \<noteq> JOB_COMPLETE
    \<Longrightarrow> sched_step env ctx st (settle job status code st)"
| dispatched: "job \<in> set (ss_pending st) \<Longrightarrow> is_ready ctx st job
    \<Longrightarrow> has_capacity (sx_limits ctx) job (ss_counters st)
    \<Longrightarrow> sched_step env ctx st (dispatch_one env ctx job st)"
| completed: "job \<in> set (ss_active st) \<Longrightarrow> sched_step env ctx st (complete_one env job st)"
| round_ended: "sched_step env ctx st (st\<lparr>ss_round := Suc (ss_round st)\<rparr>)"

inductive sched_reach :: "sched_env \<Rightarrow> sched_context \<Rightarrow> sched_state \<Rightarrow> bool"
  for env :: sched_env and ctx :: sched_context where
  start: "sched_reach env ctx (initial_state ctx)"
| step: "sched_reach env ctx st \<Longrightarrow> sched_step env ctx st st' \<Longrightarrow> sched_reach env ctx st'"

inductive_cases sched_stepE: "sched_step env ctx st st'"

lemma sched_step_inv: "sched_step env ctx st st' \<Longrightarrow> sched_inv ctx st \<Longrightarrow> sched_inv ctx st'"
  by (erule sched_stepE) (auto intro: settle_inv dispatch_one_inv complete_one_inv)

lemma sched_reach_inv:
  assumes "sched_reach env ctx st" and "sched_inv ctx (initial_state ctx)"
  shows "sched_inv ctx st"
  using assms by (induction rule: sched_reach.induct) (auto intro: sched_step_inv)

subsection \<open>The loop makes only these steps\<close>

lemma reach_fold:
  assumes start: "sched_reach env ctx st" and init: "sched_inv ctx (initial_state ctx)"
    and "distinct xs" and "\<And>x. x \<in> set xs \<Longrightarrow> Q x st"
    and step: "\<And>x s. sched_inv ctx s \<Longrightarrow> Q x s \<Longrightarrow> f x s = s \<or> sched_step env ctx s (f x s)"
    and frame: "\<And>x y s. x \<noteq> y \<Longrightarrow> Q x s \<Longrightarrow> Q y s \<Longrightarrow> Q y (f x s)"
  shows "sched_reach env ctx (fold f xs st)"
proof (rule fold_keeps [where I = "sched_reach env ctx" and Q = Q])
  show "sched_reach env ctx (f x s)" if "sched_reach env ctx s" "Q x s" for x s
    using step [OF sched_reach_inv [OF that(1) init] that(2)] that(1) sched_reach.step by metis
qed (use assms in auto)

lemma settle_frame: "x \<noteq> y \<Longrightarrow> y \<in> set (ss_pending s) \<Longrightarrow> y \<in> set (ss_pending (settle x a c s))"
  by (simp add: settle_def in_set_remove1)

lemma enum_pending:
  assumes "env_ok env" and "sched_inv ctx st"
  shows "distinct (en_order env n (ss_pending st))"
    and "x \<in> set (en_order env n (ss_pending st)) \<Longrightarrow> x \<in> set (ss_pending st)"
  using env_order [OF assms(1)] sched_inv_distinct(1) [OF assms(2)] by auto

lemma withhold_reach:
  assumes env: "env_ok env" and init: "sched_inv ctx (initial_state ctx)" and r: "sched_reach env ctx st"
  shows "sched_reach env ctx (withhold env paused cancelled st)"
  unfolding withhold_def
proof (rule reach_fold [OF r init, where Q = "\<lambda>j s. j \<in> set (ss_pending s)"])
  show "withhold_one paused cancelled x s = s \<or> sched_step env ctx s (withhold_one paused cancelled x s)"
    if "x \<in> set (ss_pending s)" for x s
    using that by (auto simp: withhold_one_def intro: settled)
  show "y \<in> set (ss_pending (withhold_one paused cancelled x s))"
    if "x \<noteq> y" "y \<in> set (ss_pending s)" for x y s
    using that by (simp add: withhold_one_def settle_frame)
qed (use enum_pending [OF env sched_reach_inv [OF r init]] in auto)

lemma resolve_reach:
  assumes env: "env_ok env" and init: "sched_inv ctx (initial_state ctx)" and r: "sched_reach env ctx st"
  shows "sched_reach env ctx (resolve_blocked_dependencies env ctx st)"
  unfolding resolve_blocked_dependencies_def
proof (rule reach_fold [OF r init, where Q = "\<lambda>j s. j \<in> set (ss_pending s)"])
  show "resolve_one ctx x s = s \<or> sched_step env ctx s (resolve_one ctx x s)"
    if "x \<in> set (ss_pending s)" for x s
    using that by (auto simp: resolve_one_def intro: settled)
  show "y \<in> set (ss_pending (resolve_one ctx x s))" if "x \<noteq> y" "y \<in> set (ss_pending s)" for x y s
    using that by (simp add: resolve_one_def settle_frame)
qed (use enum_pending [OF env sched_reach_inv [OF r init]] in auto)

lemma flush_reach:
  assumes env: "env_ok env" and init: "sched_inv ctx (initial_state ctx)" and r: "sched_reach env ctx st"
  shows "sched_reach env ctx (flush_pending env st)"
  unfolding flush_pending_def
proof (rule reach_fold [OF r init, where Q = "\<lambda>j s. j \<in> set (ss_pending s)"])
  show "settle x JOB_WAITING ''dependency_incomplete'' s = s
      \<or> sched_step env ctx s (settle x JOB_WAITING ''dependency_incomplete'' s)"
    if "x \<in> set (ss_pending s)" for x s
    using that by (auto intro: settled)
qed (use enum_pending [OF env sched_reach_inv [OF r init]] settle_frame in auto)

lemma dispatch_reach:
  assumes init: "sched_inv ctx (initial_state ctx)" and r: "sched_reach env ctx st"
  shows "sched_reach env ctx (dispatch_ready env ctx st)"
  unfolding dispatch_ready_def
proof (rule reach_fold [OF r init, where Q = "\<lambda>j s. j \<in> set (ss_pending s) \<and> is_ready ctx s j"])
  show "dispatch_one env ctx x s = s \<or> sched_step env ctx s (dispatch_one env ctx x s)"
    if "x \<in> set (ss_pending s) \<and> is_ready ctx s x" for x s
  proof (cases "has_capacity (sx_limits ctx) x (ss_counters s)")
    case True
    with that show ?thesis by (auto intro: dispatched)
  qed (simp add: dispatch_one_def)
qed (use ready_jobs_pending [OF sched_reach_inv [OF r init]] dispatch_frame in auto)

lemma completed_reach:
  assumes env: "env_ok env" and init: "sched_inv ctx (initial_state ctx)" and r: "sched_reach env ctx st"
  shows "sched_reach env ctx (process_completed env st)"
proof -
  let ?xs = "sort_key jb_job_id (en_completed env (ss_round st) (ss_active st))"
  have "distinct (ss_active st)" using sched_inv_distinct(2) [OF sched_reach_inv [OF r init]] .
  then have xs: "distinct ?xs" "set ?xs \<subseteq> set (ss_active st)" using env unfolding env_ok_def by auto
  have "sched_reach env ctx (fold (complete_one env) ?xs st)"
  proof (rule reach_fold [OF r init, where Q = "\<lambda>j s. j \<in> set (ss_active s)"])
    show "y \<in> set (ss_active (complete_one env x s))" if "x \<noteq> y" "y \<in> set (ss_active s)" for x y s
      using that by (simp add: complete_one_def Let_def in_set_remove1)
  qed (use xs in \<open>auto intro: completed\<close>)
  moreover have "ss_round (fold (complete_one env) xs s) = ss_round s" for xs s
    by (induction xs arbitrary: s) (simp_all add: complete_one_def Let_def)
  ultimately show ?thesis
    using sched_reach.step [OF _ round_ended] unfolding process_completed_def by metis
qed

lemma run_loop_reach:
  assumes "run_loop n env ctx st = Some st'" and env: "env_ok env"
    and init: "sched_inv ctx (initial_state ctx)" and "sched_reach env ctx st"
  shows "sched_reach env ctx st'"
  using assms(1,4)
proof (induction n arbitrary: st)
  case (Suc n)
  let ?st1 = "dispatch_round env ctx st"
  have st1: "sched_reach env ctx ?st1"
    unfolding dispatch_round_def by (intro dispatch_reach resolve_reach env init Suc.prems(2))
  show ?case
  proof (cases "ss_pending st = [] \<and> ss_active st = []")
    case True
    with Suc.prems show ?thesis by simp
  next
    case False
    then have "st' = flush_pending env ?st1 \<or> run_loop n env ctx (process_completed env ?st1) = Some st'"
      using Suc.prems(1) by (auto simp: Let_def split: if_splits)
    then show ?thesis
      using flush_reach [OF env init st1] Suc.IH [OF _ completed_reach [OF env init st1]] by blast
  qed
qed simp

end
