(* ===== verification/Operations_Validation.thy ===== *)
theory Operations_Validation
  imports Operations
begin

section \<open>Validation of operations records and bundles\<close>

text \<open>
  The field constraints and after-validators of the models of
  \<^verbatim>\<open>src/scan_tool/domain/operations.py\<close>, and \<^verbatim>\<open>references_are_valid\<close>, the validator that
  every stored or exported bundle passes.
\<close>

subsection \<open>Single records\<close>

definition manifest_fields_ok :: "competition_manifest \<Rightarrow> bool" where
  "manifest_fields_ok m \<longleftrightarrow>
     competition_id_ok (mf_competition_id m) \<and> mf_operations_schema_version m = ''0.1''
     \<and> mf_name m \<noteq> [] \<and> mf_rules_snapshot_ref m \<noteq> []"

definition validate_manifest :: "competition_manifest \<Rightarrow> contract_error + unit" where
  "validate_manifest m =
     then_check (raise_if (\<not> manifest_fields_ok m) field_errors)
       (require_ordered (mf_created_at m) (mf_updated_at m))"

definition provided_file_ok :: "provided_file_artifact \<Rightarrow> bool" where
  "provided_file_ok f \<longleftrightarrow> pf_filename f \<noteq> [] \<and> sha256_pattern (pf_sha256 f) \<and> pf_media_type f \<noteq> []"

definition problem_fields_ok :: "problem_record \<Rightarrow> bool" where
  "problem_fields_ok p \<longleftrightarrow>
     problem_id_ok (pr_problem_id p) \<and> competition_id_ok (pr_competition_id p) \<and> pr_title p \<noteq> []
     \<and> artifact_uri_pattern (pr_original_text_artifact p) \<and> distinct (pr_provided_urls p)
     \<and> list_all provided_file_ok (pr_provided_file_artifacts p) \<and> 0 \<le> pr_score p
     \<and> pr_answer_format p \<noteq> [] \<and> optional_ok plan_id_ok (pr_active_plan_id p)"

definition validate_problem :: "problem_record \<Rightarrow> contract_error + unit" where
  "validate_problem p =
     then_check (raise_if (\<not> problem_fields_ok p) field_errors)
       (require_ordered (pr_created_at p) (pr_updated_at p))"

definition allowed_boundaries :: "adapter_kind \<Rightarrow> data_boundary set" where
  "allowed_boundaries k =
     (case k of
        FAKE_QA \<Rightarrow> {SYNTHETIC_ONLY}
      | LOCAL_ADAPTER \<Rightarrow> {LOCAL_ONLY}
      | EXTERNAL_ADAPTER \<Rightarrow> {REDACTED_EXTERNAL, APPROVED_PROBLEM_DATA})"

definition adapter_and_boundary_are_compatible :: "ai_execution_mode \<Rightarrow> contract_error + unit" where
  "adapter_and_boundary_are_compatible m =
     then_check
       (raise_if (am_data_boundary m \<notin> allowed_boundaries (am_adapter_kind m))
         (schema_invalid ''adapter_kind and data_boundary are incompatible''))
       (raise_if (am_rule_state m = AI_ALLOWED \<and> (am_provider_id m = None \<or> am_model_id m = None))
         (schema_invalid ''allowed AI mode requires provider_id and model_id''))"

definition mode_fields_ok :: "ai_execution_mode \<Rightarrow> bool" where
  "mode_fields_ok m \<longleftrightarrow>
     mode_id_ok (am_mode_id m) \<and> competition_id_ok (am_competition_id m)
     \<and> optional_ok provider_pattern (am_provider_id m)
     \<and> optional_ok (\<lambda>s. s \<noteq> []) (am_model_id m)
     \<and> distinct (am_affected_rule_ids m) \<and> list_all rule_pattern (am_affected_rule_ids m)
     \<and> am_rules_snapshot_ref m \<noteq> []"

definition validate_mode :: "ai_execution_mode \<Rightarrow> contract_error + unit" where
  "validate_mode m =
     then_check (raise_if (\<not> mode_fields_ok m) field_errors)
       (adapter_and_boundary_are_compatible m)"

definition is_json_object :: "json \<Rightarrow> bool" where
  "is_json_object j \<longleftrightarrow> (case j of JObj _ \<Rightarrow> True | _ \<Rightarrow> False)"

definition safe_json_object :: "json \<Rightarrow> bool" where
  "safe_json_object j \<longleftrightarrow> is_json_object j \<and> safe_json j = Inr ()"

definition leaf_fields_ok :: "leaf_job_spec \<Rightarrow> bool" where
  "leaf_fields_ok l \<longleftrightarrow>
     job_id_ok (lf_leaf_job_id l) \<and> lf_purpose l \<noteq> []
     \<and> lf_analysis_type l \<in> set operations_leaf_types
     \<and> safe_json_object (lf_inputs_projection l)
     \<and> distinct (lf_depends_on l) \<and> list_all job_id_ok (lf_depends_on l)
     \<and> distinct (lf_required_capabilities l)
     \<and> list_all snake_pattern (lf_required_capabilities l)
     \<and> lf_expected_output l \<noteq> []"

definition validate_leaf :: "leaf_job_spec \<Rightarrow> contract_error + unit" where
  "validate_leaf l =
     then_check (raise_if (\<not> leaf_fields_ok l) field_errors)
       (raise_if (lf_leaf_job_id l \<in> set (lf_depends_on l))
         (schema_invalid ''leaf job cannot depend on itself''))"

definition plan_lifecycle_fields_match_status :: "plan_hypothesis \<Rightarrow> contract_error + unit" where
  "plan_lifecycle_fields_match_status p =
     (let leaf_job_ids = map lf_leaf_job_id (pl_leaf_job_specs p) in
      all_checks
       [raise_if (\<not> distinct leaf_job_ids) (schema_invalid ''duplicate leaf_job_id''),
        raise_if (\<exists>item \<in> set (pl_leaf_job_specs p). set (lf_depends_on item) - set leaf_job_ids \<noteq> {})
          (schema_invalid ''leaf job dependency must reference the same plan''),
        (if pl_status p = PLAN_RULES_GATED then
           then_check
             (raise_if (pl_raw_output_artifact p \<noteq> None)
               (schema_invalid ''rules_gated plan cannot contain raw AI output''))
             (raise_if (pl_leaf_job_specs p \<noteq> [])
               (schema_invalid ''rules_gated plan cannot contain executable leaf jobs''))
         else
           raise_if (pl_raw_output_artifact p = None)
             (schema_invalid ''non-gated plan requires raw_output_artifact'')),
        raise_if (pl_status p \<in> {PLAN_APPROVED, PLAN_REJECTED, PLAN_SUPERSEDED}
                  \<and> pl_decided_at p = None)
          (schema_invalid ''decided plan requires decided_at'')])"

definition plan_fields_ok :: "plan_hypothesis \<Rightarrow> bool" where
  "plan_fields_ok p \<longleftrightarrow>
     plan_id_ok (pl_plan_id p) \<and> problem_id_ok (pl_problem_id p) \<and> mode_id_ok (pl_mode_id p)
     \<and> job_id_ok (pl_planner_job_id p)
     \<and> pl_problem_type_hypothesis p \<noteq> [] \<and> pl_method_hypothesis p \<noteq> []
     \<and> distinct (pl_assumptions p) \<and> [] \<notin> set (pl_assumptions p)
     \<and> distinct (pl_missing_inputs p) \<and> [] \<notin> set (pl_missing_inputs p)
     \<and> optional_ok artifact_uri_pattern (pl_raw_output_artifact p)"

definition validate_plan :: "plan_hypothesis \<Rightarrow> contract_error + unit" where
  "validate_plan p =
     all_checks
       [raise_if (\<not> plan_fields_ok p) field_errors,
        for_each validate_leaf (pl_leaf_job_specs p),
        plan_lifecycle_fields_match_status p]"

definition job_terminal_statuses :: "job_status set" where
  "job_terminal_statuses = {JOB_COMPLETE, JOB_PARTIAL, JOB_FAILED, JOB_CANCELLED}"

definition job_lifecycle_fields_match_status :: "job_record \<Rightarrow> contract_error + unit" where
  "job_lifecycle_fields_match_status j =
     all_checks
       [raise_if (jb_max_attempts j < jb_attempt j) (schema_invalid ''attempt exceeds max_attempts''),
        raise_if (jb_status j = JOB_RUNNING \<and> jb_started_at j = None)
          (schema_invalid ''running job requires started_at''),
        raise_if (jb_status j \<in> job_terminal_statuses \<and> jb_finished_at j = None)
          (schema_invalid ''terminal job requires finished_at''),
        (case jb_started_at j of
           None \<Rightarrow> Inr () | Some started \<Rightarrow> require_ordered (jb_queued_at j) started),
        (case jb_finished_at j of
           None \<Rightarrow> Inr ()
         | Some finished \<Rightarrow>
             require_ordered
               (case jb_started_at j of None \<Rightarrow> jb_queued_at j | Some started \<Rightarrow> started)
               finished)]"

definition job_fields_ok :: "job_record \<Rightarrow> bool" where
  "job_fields_ok j \<longleftrightarrow>
     job_id_ok (jb_job_id j) \<and> problem_id_ok (jb_problem_id j) \<and> plan_id_ok (jb_plan_id j)
     \<and> snake_pattern (jb_job_type j) \<and> sha256_pattern (jb_idempotency_key j)
     \<and> optional_ok analysis_id_ok (jb_analysis_id j)
     \<and> 0 \<le> jb_attempt j \<and> 1 \<le> jb_max_attempts j
     \<and> optional_ok worker_id_ok (jb_assigned_worker_id j)
     \<and> optional_ok snake_pattern (jb_error_code j)
     \<and> optional_ok (\<lambda>s. s \<noteq> []) (jb_checkpoint_ref j)"

definition validate_job :: "job_record \<Rightarrow> contract_error + unit" where
  "validate_job j =
     then_check (raise_if (\<not> job_fields_ok j) field_errors) (job_lifecycle_fields_match_status j)"

definition check_fields_ok :: "verification_check \<Rightarrow> bool" where
  "check_fields_ok c \<longleftrightarrow>
     snake_pattern (vc_check c)
     \<and> distinct (vc_result_refs c) \<and> list_all result_id_ok (vc_result_refs c)
     \<and> distinct (vc_evidence_refs c) \<and> list_all evidence_id_ok (vc_evidence_refs c)"

definition verification_terminal_statuses :: "verification_status set" where
  "verification_terminal_statuses = {VER_PASS, VER_FAIL, VER_CONFLICT, VER_INCOMPLETE}"

definition checks_passed :: "verification_record \<Rightarrow> string \<rightharpoonup> bool" where
  "checks_passed v = map_of (map (\<lambda>c. (vc_check c, vc_passed c)) (vr_check_results v))"

definition verification_lifecycle_fields_match_status ::
    "verification_record \<Rightarrow> contract_error + unit" where
  "verification_lifecycle_fields_match_status v =
     all_checks
       [raise_if (\<not> distinct (map vc_check (vr_check_results v)))
          (schema_invalid ''duplicate verification check''),
        raise_if (vr_status v \<in> verification_terminal_statuses \<and> vr_finished_at v = None)
          (schema_invalid ''terminal verification requires finished_at''),
        (case vr_finished_at v of
           None \<Rightarrow> Inr () | Some finished \<Rightarrow> require_ordered (vr_created_at v) finished),
        (if vr_status v = VER_PASS then
           then_check
             (raise_if (vr_conflicts v \<noteq> [] \<or> vr_missing_evidence v \<noteq> [])
               (schema_invalid ''passing verification cannot have conflicts or missing evidence''))
             (raise_if (\<not> (\<forall>check \<in> set (vr_required_checks v). checks_passed v check = Some True))
               (schema_invalid ''passing verification requires every required check to pass''))
         else Inr ())]"

definition verification_fields_ok :: "verification_record \<Rightarrow> bool" where
  "verification_fields_ok v \<longleftrightarrow>
     verification_id_ok (vr_verification_id v) \<and> problem_id_ok (vr_problem_id v)
     \<and> candidate_id_ok (vr_candidate_id v) \<and> job_id_ok (vr_verifier_job_id v)
     \<and> vr_required_checks v \<noteq> [] \<and> distinct (vr_required_checks v)
     \<and> list_all snake_pattern (vr_required_checks v)
     \<and> list_all check_fields_ok (vr_check_results v)
     \<and> distinct (vr_independent_from_job_ids v)
     \<and> list_all job_id_ok (vr_independent_from_job_ids v)
     \<and> distinct (vr_conflicts v) \<and> [] \<notin> set (vr_conflicts v)
     \<and> distinct (vr_missing_evidence v) \<and> list_all evidence_id_ok (vr_missing_evidence v)"

definition validate_verification :: "verification_record \<Rightarrow> contract_error + unit" where
  "validate_verification v =
     then_check (raise_if (\<not> verification_fields_ok v) field_errors)
       (verification_lifecycle_fields_match_status v)"

definition ready_candidate_has_evidence :: "candidate_record \<Rightarrow> contract_error + unit" where
  "ready_candidate_has_evidence c =
     all_checks
       [require_ordered (cd_created_at c) (cd_updated_at c),
        (if cd_status c \<in> {CAND_SUBMISSION_READY, CAND_SUBMITTED} then
           then_check
             (raise_if (cd_result_refs c = [] \<or> cd_evidence_refs c = [] \<or> cd_verification_refs c = [])
               (schema_invalid
                 ''submission-ready candidate requires result, evidence, and verification refs''))
             (raise_if (cd_recommendation c \<noteq> SUBMIT)
               (schema_invalid ''submission-ready candidate requires submit recommendation''))
         else Inr ())]"

definition candidate_fields_ok :: "candidate_record \<Rightarrow> bool" where
  "candidate_fields_ok c \<longleftrightarrow>
     candidate_id_ok (cd_candidate_id c) \<and> problem_id_ok (cd_problem_id c)
     \<and> cd_answer_format c \<noteq> [] \<and> cd_answer_value c \<noteq> []
     \<and> distinct (cd_result_refs c) \<and> list_all result_id_ok (cd_result_refs c)
     \<and> distinct (cd_evidence_refs c) \<and> list_all evidence_id_ok (cd_evidence_refs c)
     \<and> distinct (cd_verification_refs c) \<and> list_all verification_id_ok (cd_verification_refs c)
     \<and> 0 \<le> cd_confidence c \<and> cd_confidence c \<le> 100 \<and> cd_confidence_basis c \<noteq> []
     \<and> distinct (cd_uncertainties c) \<and> [] \<notin> set (cd_uncertainties c)
     \<and> job_id_ok (cd_created_by_job_id c)"

definition validate_candidate :: "candidate_record \<Rightarrow> contract_error + unit" where
  "validate_candidate c =
     then_check (raise_if (\<not> candidate_fields_ok c) field_errors) (ready_candidate_has_evidence c)"

definition validate_submission :: "submission_record \<Rightarrow> contract_error + unit" where
  "validate_submission s =
     raise_if
       (\<not> (submission_id_ok (sb_submission_id s) \<and> candidate_id_ok (sb_candidate_id s)
           \<and> sb_operator_confirmed s \<and> optional_ok artifact_uri_pattern (sb_note_artifact s)))
       field_errors"

definition validate_event :: "operation_event \<Rightarrow> contract_error + unit" where
  "validate_event e =
     raise_if
       (\<not> (operation_event_id_ok (ev_event_id e) \<and> competition_id_ok (ev_competition_id e)
           \<and> optional_ok problem_id_ok (ev_problem_id e)
           \<and> snake_pattern (ev_entity_type e) \<and> ev_entity_id e \<noteq> []
           \<and> snake_pattern (ev_event_type e) \<and> ev_actor_id e \<noteq> []
           \<and> optional_ok snake_pattern (ev_from_status e)
           \<and> optional_ok snake_pattern (ev_to_status e)
           \<and> safe_json_object (ev_safe_details_json e)))
       field_errors"

fun expected_stage :: "operation_error_code \<Rightarrow> operation_error_stage" where
  "expected_stage INVALID_OPERATIONS_INPUT = STAGE_OPERATIONS_INPUT"
| "expected_stage RULES_GATED = STAGE_AI_MODE_POLICY"
| "expected_stage RULE_RESTRICTED = STAGE_AI_MODE_POLICY"
| "expected_stage PLANNER_FAILED = STAGE_PLANNER"
| "expected_stage DEPENDENCY_CYCLE = STAGE_SCHEDULER"
| "expected_stage BUDGET_EXHAUSTED = STAGE_SCHEDULER"
| "expected_stage EVIDENCE_WORKER_FAILED = STAGE_EVIDENCE_WORKER"
| "expected_stage VERIFICATION_FAILED = STAGE_VERIFICATION"
| "expected_stage SUBMISSION_RECORD_FAILED = STAGE_SUBMISSION_RECORD"

definition code_matches_stage :: "operation_error \<Rightarrow> contract_error + unit" where
  "code_matches_stage e =
     raise_if (oe_stage e \<noteq> expected_stage (oe_code e))
       (schema_invalid ''operations error code and stage are inconsistent'')"

definition validate_error :: "operation_error \<Rightarrow> contract_error + unit" where
  "validate_error e =
     then_check
       (raise_if
         (\<not> (operation_error_id_ok (oe_error_id e)
             \<and> 1 \<le> length (oe_message e) \<and> length (oe_message e) \<le> 1000
             \<and> optional_ok problem_id_ok (oe_problem_id e)
             \<and> optional_ok job_id_ok (oe_job_id e) \<and> safe_json_object (oe_details e)))
         field_errors)
       (code_matches_stage e)"

lemmas record_validator_defs =
  validate_manifest_def validate_problem_def validate_mode_def validate_leaf_def validate_plan_def
  validate_job_def validate_verification_def validate_candidate_def validate_submission_def
  validate_event_def validate_error_def

subsection \<open>What a validated record guarantees\<close>

lemma validate_candidate_ready:
  assumes "validate_candidate c = Inr ()"
    and "cd_status c \<in> {CAND_SUBMISSION_READY, CAND_SUBMITTED}"
  shows "cd_result_refs c \<noteq> [] \<and> cd_evidence_refs c \<noteq> [] \<and> cd_verification_refs c \<noteq> []
    \<and> cd_recommendation c = SUBMIT"
  using assms by (auto simp: validate_candidate_def ready_candidate_has_evidence_def result_simps)

lemma validate_verification_pass:
  assumes "validate_verification v = Inr ()" and "vr_status v = VER_PASS"
  shows "vr_conflicts v = [] \<and> vr_missing_evidence v = []
    \<and> (\<forall>check \<in> set (vr_required_checks v).
         \<exists>c \<in> set (vr_check_results v). vc_check c = check \<and> vc_passed c)"
proof -
  have "\<forall>check \<in> set (vr_required_checks v). checks_passed v check = Some True"
    and "vr_conflicts v = []" and "vr_missing_evidence v = []"
    using assms
    by (auto simp: validate_verification_def verification_lifecycle_fields_match_status_def
        result_simps)
  then show ?thesis
    by (auto simp: checks_passed_def dest!: map_of_SomeD bspec)
qed

end
