(* ===== verification/Operations_Bundle.thy ===== *)
theory Operations_Bundle
  imports Operations_Validation
begin

section \<open>Cross-record validation of an operations bundle\<close>

text \<open>
  \<^verbatim>\<open>OperationsContractBundle.references_are_valid\<close> of \<^verbatim>\<open>domain/operations.py\<close>, statement by
  statement, with its helpers \<^verbatim>\<open>_unique_map\<close>, \<^verbatim>\<open>_require_ref\<close> and \<^verbatim>\<open>_require_same_problem\<close>, and
  the document validation that runs it (\<^verbatim>\<open>OperationsDocument.model_validate\<close>). The lemmas give,
  for each group of checks, exactly what an accepted bundle satisfies.
\<close>

fun unique_map_from ::
    "('a \<Rightarrow> string) \<Rightarrow> string \<Rightarrow> (string \<rightharpoonup> 'a) \<Rightarrow> 'a list \<Rightarrow> contract_error + (string \<rightharpoonup> 'a)"
where
  "unique_map_from key field mapped [] = Inr mapped"
| "unique_map_from key field mapped (x # xs) =
     (if mapped (key x) \<noteq> None then Inl (schema_invalid (''duplicate '' @ field))
      else unique_map_from key field (mapped(key x \<mapsto> x)) xs)"

definition unique_map ::
    "('a \<Rightarrow> string) \<Rightarrow> string \<Rightarrow> 'a list \<Rightarrow> contract_error + (string \<rightharpoonup> 'a)" where
  "unique_map key field items = unique_map_from key field Map.empty items"

definition require_ref :: "(string \<rightharpoonup> 'a) \<Rightarrow> string \<Rightarrow> string \<Rightarrow> contract_error + 'a" where
  "require_ref items reference field =
     (case items reference of
        None \<Rightarrow> Inl (schema_invalid (''unknown reference in '' @ field))
      | Some x \<Rightarrow> Inr x)"

definition require_same_problem :: "string \<Rightarrow> string \<Rightarrow> contract_error + unit" where
  "require_same_problem expected actual =
     raise_if (expected \<noteq> actual) (schema_invalid ''cross-problem reference is forbidden'')"

lemma require_ref_Inr [result_simps]: "require_ref m r f = Inr x \<longleftrightarrow> m r = Some x"
  by (auto simp: require_ref_def split: option.splits)

lemma require_same_problem_Inr [result_simps]: "require_same_problem a b = Inr u \<longleftrightarrow> a = b"
  by (auto simp: require_same_problem_def result_simps)

lemma unique_map_from_Inr:
  "unique_map_from key field m items = Inr m' \<longleftrightarrow>
     distinct (map key items) \<and> dom m \<inter> key ` set items = {} \<and> m' = m ++ index_by key items"
proof (induction items arbitrary: m)
  case Nil
  then show ?case by auto
next
  case (Cons x xs)
  show ?case
  proof (cases "m (key x) = None \<and> key x \<notin> key ` set xs")
    case True
    then have "index_by key xs (key x) = None" by (simp add: index_by_None)
    then have "m(key x \<mapsto> x) ++ index_by key xs = m ++ (index_by key xs)(key x \<mapsto> x)"
      by (auto simp: fun_eq_iff map_add_def split: option.splits)
    with True Cons show ?thesis by (auto simp: domIff simp del: fun_upd_apply)
  next
    case False
    with Cons show ?thesis by (auto simp: domIff)
  qed
qed

lemma unique_map_Inr [result_simps]:
  "unique_map key field items = Inr m \<longleftrightarrow> distinct (map key items) \<and> m = index_by key items"
  by (simp add: unique_map_def unique_map_from_Inr)

subsection \<open>The checks, one per loop of the code\<close>

definition check_competitions :: "operations_bundle \<Rightarrow> contract_error + unit" where
  "check_competitions b =
     for_each
       (\<lambda>cid. raise_if (cid \<noteq> mf_competition_id (ob_manifest b))
                (schema_invalid ''record belongs to another competition''))
       (map pr_competition_id (ob_problems b) @ map am_competition_id (ob_ai_modes b))"

definition check_fake_modes :: "operations_bundle \<Rightarrow> contract_error + unit" where
  "check_fake_modes b =
     for_each
       (\<lambda>m. raise_if
              (am_adapter_kind m = FAKE_QA \<and> am_rule_state m = AI_ALLOWED
               \<and> mf_environment (ob_manifest b) \<noteq> ENV_SYNTHETIC_TEST)
              (schema_invalid ''fake_qa can be allowed only for a synthetic test competition''))
       (ob_ai_modes b)"

definition check_problem_refs ::
    "(string \<rightharpoonup> plan_hypothesis) \<Rightarrow> problem_record \<Rightarrow> contract_error + unit" where
  "check_problem_refs plans p =
     (case pr_active_plan_id p of
        None \<Rightarrow> Inr ()
      | Some pid \<Rightarrow>
          and_then (require_ref plans pid ''active_plan_id'')
            (\<lambda>plan. require_same_problem (pr_problem_id p) (pl_problem_id plan)))"

definition check_plan_refs ::
    "(string \<rightharpoonup> problem_record) \<Rightarrow> (string \<rightharpoonup> ai_execution_mode) \<Rightarrow> (string \<rightharpoonup> job_record)
      \<Rightarrow> plan_hypothesis \<Rightarrow> contract_error + unit" where
  "check_plan_refs problems modes jobs plan =
     and_then (require_ref problems (pl_problem_id plan) ''plan.problem_id'') (\<lambda>_.
     and_then (require_ref modes (pl_mode_id plan) ''plan.mode_id'') (\<lambda>mode.
     and_then (require_ref jobs (pl_planner_job_id plan) ''plan.planner_job_id'') (\<lambda>planner.
     all_checks
       [require_same_problem (pl_problem_id plan) (jb_problem_id planner),
        raise_if (jb_role planner \<noteq> PLANNER)
          (schema_invalid ''planner_job_id must reference a planner job''),
        raise_if (pl_status plan = PLAN_RULES_GATED \<and> am_rule_state mode \<noteq> AI_RULES_GATED)
          (schema_invalid ''rules_gated plan requires a rules_gated AI mode''),
        raise_if (pl_status plan = PLAN_RULES_GATED \<and> jb_status planner \<noteq> JOB_WAITING)
          (schema_invalid ''rules_gated plan requires a waiting planner job'')])))"

definition check_job_refs ::
    "(string \<rightharpoonup> problem_record) \<Rightarrow> (string \<rightharpoonup> plan_hypothesis) \<Rightarrow> job_record
      \<Rightarrow> contract_error + unit" where
  "check_job_refs problems plans job =
     and_then (require_ref problems (jb_problem_id job) ''job.problem_id'') (\<lambda>_.
     and_then (require_ref plans (jb_plan_id job) ''job.plan_id'') (\<lambda>plan.
     then_check (require_same_problem (jb_problem_id job) (pl_problem_id plan))
       (raise_if
         (jb_role job = EVIDENCE \<and> jb_status job = JOB_RUNNING \<and> pl_status plan \<noteq> PLAN_APPROVED)
         (schema_invalid ''running evidence job requires an approved plan''))))"

definition check_candidate_refs ::
    "(string \<rightharpoonup> problem_record) \<Rightarrow> (string \<rightharpoonup> job_record) \<Rightarrow> (string \<rightharpoonup> verification_record)
      \<Rightarrow> candidate_record \<Rightarrow> contract_error + unit" where
  "check_candidate_refs problems jobs verifications cand =
     and_then (require_ref problems (cd_problem_id cand) ''candidate.problem_id'') (\<lambda>_.
     and_then (require_ref jobs (cd_created_by_job_id cand) ''candidate.created_by_job_id'') (\<lambda>creator.
     then_check (require_same_problem (cd_problem_id cand) (jb_problem_id creator))
       (for_each
         (\<lambda>vid. and_then (require_ref verifications vid ''candidate.verification_refs'') (\<lambda>ver.
            then_check (require_same_problem (cd_problem_id cand) (vr_problem_id ver))
              (raise_if
                (cd_status cand \<in> {CAND_SUBMISSION_READY, CAND_SUBMITTED} \<and> vr_status ver \<noteq> VER_PASS)
                (schema_invalid ''submission-ready candidate requires passing verifications''))))
         (cd_verification_refs cand))))"

definition check_verification_refs ::
    "(string \<rightharpoonup> candidate_record) \<Rightarrow> (string \<rightharpoonup> job_record) \<Rightarrow> verification_record
      \<Rightarrow> contract_error + unit" where
  "check_verification_refs candidates jobs ver =
     and_then (require_ref candidates (vr_candidate_id ver) ''verification.candidate_id'') (\<lambda>cand.
     and_then (require_ref jobs (vr_verifier_job_id ver) ''verifier_job_id'') (\<lambda>verifier.
     all_checks
       [require_same_problem (vr_problem_id ver) (cd_problem_id cand),
        require_same_problem (vr_problem_id ver) (jb_problem_id verifier),
        raise_if (jb_role verifier \<noteq> VERIFIER)
          (schema_invalid ''verifier_job_id must reference a verifier job''),
        raise_if (cd_created_by_job_id cand = vr_verifier_job_id ver)
          (schema_invalid ''candidate creator and verifier must be independent''),
        raise_if (cd_created_by_job_id cand \<notin> set (vr_independent_from_job_ids ver))
          (schema_invalid ''verification must declare independence from candidate creator''),
        for_each
          (\<lambda>jid. and_then (require_ref jobs jid ''verification.independent_from_job_ids'')
             (\<lambda>job. require_same_problem (vr_problem_id ver) (jb_problem_id job)))
          (vr_independent_from_job_ids ver)]))"

definition check_submission_refs ::
    "(string \<rightharpoonup> candidate_record) \<Rightarrow> submission_record \<Rightarrow> contract_error + unit" where
  "check_submission_refs candidates sub =
     and_then (require_ref candidates (sb_candidate_id sub) ''submission.candidate_id'') (\<lambda>cand.
       raise_if (cd_status cand \<noteq> CAND_SUBMITTED)
         (schema_invalid ''submission record requires submitted candidate''))"

definition check_event_refs ::
    "string \<Rightarrow> (string \<rightharpoonup> problem_record) \<Rightarrow> operation_event \<Rightarrow> contract_error + unit" where
  "check_event_refs competition problems event =
     then_check
       (raise_if (ev_competition_id event \<noteq> competition)
         (schema_invalid ''event belongs to another competition''))
       (case ev_problem_id event of
          None \<Rightarrow> Inr ()
        | Some pid \<Rightarrow> and_then (require_ref problems pid ''event.problem_id'') (\<lambda>_. Inr ()))"

definition check_error_refs ::
    "(string \<rightharpoonup> problem_record) \<Rightarrow> (string \<rightharpoonup> job_record) \<Rightarrow> operation_error
      \<Rightarrow> contract_error + unit" where
  "check_error_refs problems jobs err =
     and_then
       (case oe_problem_id err of
          None \<Rightarrow> Inr None
        | Some pid \<Rightarrow> and_then (require_ref problems pid ''error.problem_id'') (\<lambda>p. Inr (Some p)))
       (\<lambda>error_problem.
          case oe_job_id err of
            None \<Rightarrow> Inr ()
          | Some jid \<Rightarrow>
              and_then (require_ref jobs jid ''error.job_id'') (\<lambda>error_job.
                case error_problem of
                  None \<Rightarrow> Inr ()
                | Some p \<Rightarrow> require_same_problem (pr_problem_id p) (jb_problem_id error_job)))"

definition references_are_valid :: "operations_bundle \<Rightarrow> contract_error + unit" where
  "references_are_valid b =
     then_check
       (raise_if
         (mf_operations_schema_version (ob_manifest b) \<noteq> ob_operations_schema_version b)
         (schema_invalid ''bundle and manifest versions must match''))
     (and_then (unique_map pr_problem_id ''problem_id'' (ob_problems b)) (\<lambda>problems.
      and_then (unique_map am_mode_id ''mode_id'' (ob_ai_modes b)) (\<lambda>modes.
      and_then (unique_map pl_plan_id ''plan_id'' (ob_plans b)) (\<lambda>plans.
      and_then (unique_map jb_job_id ''job_id'' (ob_jobs b)) (\<lambda>jobs.
      and_then (unique_map vr_verification_id ''verification_id'' (ob_verifications b)) (\<lambda>verifications.
      and_then (unique_map cd_candidate_id ''candidate_id'' (ob_candidates b)) (\<lambda>candidates.
      and_then (unique_map sb_submission_id ''submission_id'' (ob_submissions b)) (\<lambda>_.
      and_then (unique_map ev_event_id ''event_id'' (ob_events b)) (\<lambda>_.
      and_then (unique_map oe_error_id ''error_id'' (ob_errors b)) (\<lambda>_.
      all_checks
        [check_competitions b,
         check_fake_modes b,
         for_each (check_problem_refs plans) (ob_problems b),
         for_each (check_plan_refs problems modes jobs) (ob_plans b),
         for_each (check_job_refs problems plans) (ob_jobs b),
         for_each (check_candidate_refs problems jobs verifications) (ob_candidates b),
         for_each (check_verification_refs candidates jobs) (ob_verifications b),
         for_each (check_submission_refs candidates) (ob_submissions b),
         for_each (check_event_refs (mf_competition_id (ob_manifest b)) problems) (ob_events b),
         for_each (check_error_refs problems jobs) (ob_errors b)]))))))))))"

definition validate_records :: "operations_bundle \<Rightarrow> contract_error + unit" where
  "validate_records b =
     all_checks
       [raise_if
          (\<not> (ends_with ''operations-contract.schema.json'' (ob_schema_uri b)
              \<and> ob_operations_schema_version b = ''0.1''))
          field_errors,
        validate_manifest (ob_manifest b),
        for_each validate_problem (ob_problems b),
        for_each validate_mode (ob_ai_modes b),
        for_each validate_plan (ob_plans b),
        for_each validate_job (ob_jobs b),
        for_each validate_verification (ob_verifications b),
        for_each validate_candidate (ob_candidates b),
        for_each validate_submission (ob_submissions b),
        for_each validate_event (ob_events b),
        for_each validate_error (ob_errors b)]"

definition validate_operations_document :: "operations_bundle \<Rightarrow> contract_error + unit" where
  "validate_operations_document b = then_check (validate_records b) (references_are_valid b)"

subsection \<open>What an accepted bundle guarantees\<close>

abbreviation bundle_problems :: "operations_bundle \<Rightarrow> string \<rightharpoonup> problem_record" where
  "bundle_problems b \<equiv> index_by pr_problem_id (ob_problems b)"
abbreviation bundle_modes :: "operations_bundle \<Rightarrow> string \<rightharpoonup> ai_execution_mode" where
  "bundle_modes b \<equiv> index_by am_mode_id (ob_ai_modes b)"
abbreviation bundle_plans :: "operations_bundle \<Rightarrow> string \<rightharpoonup> plan_hypothesis" where
  "bundle_plans b \<equiv> index_by pl_plan_id (ob_plans b)"
abbreviation bundle_jobs :: "operations_bundle \<Rightarrow> string \<rightharpoonup> job_record" where
  "bundle_jobs b \<equiv> index_by jb_job_id (ob_jobs b)"
abbreviation bundle_verifications :: "operations_bundle \<Rightarrow> string \<rightharpoonup> verification_record" where
  "bundle_verifications b \<equiv> index_by vr_verification_id (ob_verifications b)"
abbreviation bundle_candidates :: "operations_bundle \<Rightarrow> string \<rightharpoonup> candidate_record" where
  "bundle_candidates b \<equiv> index_by cd_candidate_id (ob_candidates b)"

lemma references_are_valid_Inr:
  "references_are_valid b = Inr () \<longleftrightarrow>
     mf_operations_schema_version (ob_manifest b) = ob_operations_schema_version b
     \<and> distinct (map pr_problem_id (ob_problems b)) \<and> distinct (map am_mode_id (ob_ai_modes b))
     \<and> distinct (map pl_plan_id (ob_plans b)) \<and> distinct (map jb_job_id (ob_jobs b))
     \<and> distinct (map vr_verification_id (ob_verifications b))
     \<and> distinct (map cd_candidate_id (ob_candidates b))
     \<and> distinct (map sb_submission_id (ob_submissions b))
     \<and> distinct (map ev_event_id (ob_events b)) \<and> distinct (map oe_error_id (ob_errors b))
     \<and> check_competitions b = Inr () \<and> check_fake_modes b = Inr ()
     \<and> (\<forall>p \<in> set (ob_problems b). check_problem_refs (bundle_plans b) p = Inr ())
     \<and> (\<forall>p \<in> set (ob_plans b).
          check_plan_refs (bundle_problems b) (bundle_modes b) (bundle_jobs b) p = Inr ())
     \<and> (\<forall>j \<in> set (ob_jobs b). check_job_refs (bundle_problems b) (bundle_plans b) j = Inr ())
     \<and> (\<forall>c \<in> set (ob_candidates b).
          check_candidate_refs (bundle_problems b) (bundle_jobs b) (bundle_verifications b) c = Inr ())
     \<and> (\<forall>v \<in> set (ob_verifications b).
          check_verification_refs (bundle_candidates b) (bundle_jobs b) v = Inr ())
     \<and> (\<forall>s \<in> set (ob_submissions b). check_submission_refs (bundle_candidates b) s = Inr ())
     \<and> (\<forall>e \<in> set (ob_events b).
          check_event_refs (mf_competition_id (ob_manifest b)) (bundle_problems b) e = Inr ())
     \<and> (\<forall>e \<in> set (ob_errors b). check_error_refs (bundle_problems b) (bundle_jobs b) e = Inr ())"
  by (simp add: references_are_valid_def result_simps)

lemma validate_records_Inr:
  "validate_records b = Inr () \<longleftrightarrow>
     ends_with ''operations-contract.schema.json'' (ob_schema_uri b)
     \<and> ob_operations_schema_version b = ''0.1''
     \<and> validate_manifest (ob_manifest b) = Inr ()
     \<and> (\<forall>p \<in> set (ob_problems b). validate_problem p = Inr ())
     \<and> (\<forall>m \<in> set (ob_ai_modes b). validate_mode m = Inr ())
     \<and> (\<forall>p \<in> set (ob_plans b). validate_plan p = Inr ())
     \<and> (\<forall>j \<in> set (ob_jobs b). validate_job j = Inr ())
     \<and> (\<forall>v \<in> set (ob_verifications b). validate_verification v = Inr ())
     \<and> (\<forall>c \<in> set (ob_candidates b). validate_candidate c = Inr ())
     \<and> (\<forall>s \<in> set (ob_submissions b). validate_submission s = Inr ())
     \<and> (\<forall>e \<in> set (ob_events b). validate_event e = Inr ())
     \<and> (\<forall>e \<in> set (ob_errors b). validate_error e = Inr ())"
  by (simp add: validate_records_def result_simps)

lemma validate_document_Inr [result_simps]:
  "validate_operations_document b = Inr u \<longleftrightarrow>
     validate_records b = Inr () \<and> references_are_valid b = Inr ()"
  by (auto simp: validate_operations_document_def result_simps)

lemma check_candidate_refs_Inr:
  "check_candidate_refs problems jobs verifications c = Inr () \<longleftrightarrow>
     (\<exists>p. problems (cd_problem_id c) = Some p)
     \<and> (\<exists>j. jobs (cd_created_by_job_id c) = Some j \<and> jb_problem_id j = cd_problem_id c)
     \<and> (\<forall>vid \<in> set (cd_verification_refs c). \<exists>v. verifications vid = Some v
          \<and> vr_problem_id v = cd_problem_id c
          \<and> (cd_status c \<in> {CAND_SUBMISSION_READY, CAND_SUBMITTED} \<longrightarrow> vr_status v = VER_PASS))"
  by (auto simp: check_candidate_refs_def result_simps) metis+

lemma check_verification_refs_Inr:
  "check_verification_refs candidates jobs v = Inr () \<longleftrightarrow>
     (\<exists>c. candidates (vr_candidate_id v) = Some c \<and> cd_problem_id c = vr_problem_id v
        \<and> cd_created_by_job_id c \<noteq> vr_verifier_job_id v
        \<and> cd_created_by_job_id c \<in> set (vr_independent_from_job_ids v))
     \<and> (\<exists>j. jobs (vr_verifier_job_id v) = Some j \<and> jb_problem_id j = vr_problem_id v
        \<and> jb_role j = VERIFIER)
     \<and> (\<forall>jid \<in> set (vr_independent_from_job_ids v).
          \<exists>j. jobs jid = Some j \<and> jb_problem_id j = vr_problem_id v)"
  by (auto simp: check_verification_refs_def result_simps) metis+

lemma check_submission_refs_Inr:
  "check_submission_refs candidates s = Inr () \<longleftrightarrow>
     (\<exists>c. candidates (sb_candidate_id s) = Some c \<and> cd_status c = CAND_SUBMITTED)"
  by (auto simp: check_submission_refs_def result_simps)

lemma check_event_refs_Inr:
  "check_event_refs competition problems e = Inr () \<longleftrightarrow>
     ev_competition_id e = competition
     \<and> (\<forall>pid. ev_problem_id e = Some pid \<longrightarrow> (\<exists>p. problems pid = Some p))"
  by (auto simp: check_event_refs_def result_simps split: option.splits)

end
