(* ===== verification/Fixtures.thy ===== *)
theory Fixtures
  imports Operations_Bundle
begin

section \<open>A small competition\<close>

text \<open>
  One concrete competition used to evaluate the definitions: a problem with an approved plan, its
  planner, evidence, reporter and verifier jobs, two candidates and one passing verification.
  Nothing here models code; the witnesses of the properties are evaluated on these records.
\<close>

definition fx_sha :: string where
  "fx_sha = replicate 64 (CHR ''a'')"

definition fx_uri :: string where
  "fx_uri = ''artifact://sha256/'' @ fx_sha"

definition fx_manifest :: competition_manifest where
  "fx_manifest = \<lparr>mf_competition_id = ''COMP-AAA'', mf_operations_schema_version = ''0.1'',
     mf_name = ''n'', mf_phase = FINAL, mf_environment = ENV_LIVE, mf_rules_snapshot_ref = ''r'',
     mf_status = COMP_ACTIVE, mf_created_at = 0, mf_updated_at = 1\<rparr>"

definition fx_problem :: problem_record where
  "fx_problem = \<lparr>pr_problem_id = ''PROB-AA'', pr_competition_id = ''COMP-AAA'', pr_title = ''t'',
     pr_original_text_artifact = fx_uri, pr_provided_urls = [], pr_provided_file_artifacts = [],
     pr_score = 100, pr_answer_format = ''flag'', pr_priority = PRIO_HIGH,
     pr_priority_source = PRIO_HUMAN, pr_status = PROB_VERIFYING,
     pr_active_plan_id = Some ''PLAN-AAA'', pr_created_at = 0, pr_updated_at = 1\<rparr>"

definition fx_mode :: ai_execution_mode where
  "fx_mode = \<lparr>am_mode_id = ''MODE-AAA'', am_competition_id = ''COMP-AAA'',
     am_provider_id = Some ''local.llm'', am_model_id = Some ''m1'',
     am_adapter_kind = LOCAL_ADAPTER, am_data_boundary = LOCAL_ONLY, am_tool_mode = PLANNING_ONLY,
     am_rule_state = AI_ALLOWED, am_affected_rule_ids = [], am_rules_snapshot_ref = ''r'',
     am_created_at = 0\<rparr>"

definition fx_inputs :: json where
  "fx_inputs = JObj [(''transaction_hash'', JStr ''0xab'')]"

definition fx_leaf :: leaf_job_spec where
  "fx_leaf = \<lparr>lf_leaf_job_id = ''JOB-EVD'', lf_role = EVIDENCE, lf_purpose = ''p'',
     lf_analysis_type = DEX_SWAP, lf_inputs_projection = fx_inputs, lf_depends_on = [],
     lf_required_capabilities = [''logs''], lf_expected_output = ''o''\<rparr>"

definition fx_plan :: plan_hypothesis where
  "fx_plan = \<lparr>pl_plan_id = ''PLAN-AAA'', pl_problem_id = ''PROB-AA'', pl_mode_id = ''MODE-AAA'',
     pl_planner_job_id = ''JOB-PLN'', pl_status = PLAN_APPROVED, pl_problem_type_hypothesis = ''h'',
     pl_method_hypothesis = ''m'', pl_assumptions = [], pl_missing_inputs = [],
     pl_leaf_job_specs = [fx_leaf], pl_raw_output_artifact = Some fx_uri, pl_created_at = 0,
     pl_decided_at = Some 1\<rparr>"

definition fx_job :: "string \<Rightarrow> job_role \<Rightarrow> job_status \<Rightarrow> job_record" where
  "fx_job jid role status = \<lparr>jb_job_id = jid, jb_problem_id = ''PROB-AA'',
     jb_plan_id = ''PLAN-AAA'', jb_role = role, jb_job_type = ''job'', jb_status = status,
     jb_priority = PRIO_NORMAL, jb_idempotency_key = fx_sha, jb_analysis_id = Some ''AN-AAA'',
     jb_attempt = 1, jb_max_attempts = 2, jb_assigned_worker_id = None, jb_error_code = None,
     jb_checkpoint_ref = None, jb_queued_at = 0, jb_started_at = Some 1, jb_finished_at = Some 2\<rparr>"

definition fx_jobs :: "job_record list" where
  "fx_jobs = [fx_job ''JOB-PLN'' PLANNER JOB_COMPLETE, fx_job ''JOB-EVD'' EVIDENCE JOB_COMPLETE,
     fx_job ''JOB-REP'' REPORTER JOB_COMPLETE, fx_job ''JOB-VER'' VERIFIER JOB_COMPLETE]"

definition fx_verification :: "string \<Rightarrow> verification_record" where
  "fx_verification cid = \<lparr>vr_verification_id = ''VER-AAA'', vr_problem_id = ''PROB-AA'',
     vr_candidate_id = cid, vr_verifier_job_id = ''JOB-VER'', vr_status = VER_PASS,
     vr_required_checks = [''answer_value''],
     vr_check_results = [\<lparr>vc_check = ''answer_value'', vc_passed = True,
       vc_result_refs = [''RES-AAA''], vc_evidence_refs = [''EV-AAA'']\<rparr>],
     vr_independent_from_job_ids = [''JOB-REP'', ''JOB-EVD''], vr_conflicts = [],
     vr_missing_evidence = [], vr_created_at = 1, vr_finished_at = Some 2\<rparr>"

definition fx_candidate :: "string \<Rightarrow> candidate_status \<Rightarrow> candidate_record" where
  "fx_candidate cid status = \<lparr>cd_candidate_id = cid, cd_problem_id = ''PROB-AA'',
     cd_answer_format = ''flag'', cd_answer_value = ''[]'', cd_status = status,
     cd_result_refs = [''RES-AAA''], cd_evidence_refs = [''EV-AAA''],
     cd_verification_refs = (if status = CAND_DRAFT then [] else [''VER-AAA'']),
     cd_confidence = 90, cd_confidence_basis = ''b'', cd_uncertainties = [],
     cd_recommendation = (if status = CAND_DRAFT then INVESTIGATE else SUBMIT),
     cd_created_by_job_id = ''JOB-REP'', cd_created_at = 0, cd_updated_at = 1\<rparr>"

definition fx_bundle ::
    "problem_status \<Rightarrow> candidate_record list \<Rightarrow> verification_record list \<Rightarrow> submission_record list
      \<Rightarrow> operations_bundle" where
  "fx_bundle status candidates verifications submissions =
     \<lparr>ob_schema_uri = ''operations-contract.schema.json'', ob_operations_schema_version = ''0.1'',
      ob_manifest = fx_manifest, ob_problems = [fx_problem\<lparr>pr_status := status\<rparr>],
      ob_ai_modes = [fx_mode], ob_plans = [fx_plan], ob_jobs = fx_jobs,
      ob_verifications = verifications, ob_candidates = candidates, ob_submissions = submissions,
      ob_events = [], ob_errors = []\<rparr>"

definition fx_submission :: submission_record where
  "fx_submission = \<lparr>sb_submission_id = ''SUB-AAA'', sb_candidate_id = ''CAND-AAA'',
     sb_operator_confirmed = True, sb_response = RESP_UNKNOWN, sb_submitted_at = 3,
     sb_note_artifact = None\<rparr>"

text \<open>A submitted candidate with its verification, and two candidates with a verification each.\<close>

definition fx_submitted :: operations_bundle where
  "fx_submitted = fx_bundle PROB_SUBMITTED [fx_candidate ''CAND-AAA'' CAND_SUBMITTED]
     [fx_verification ''CAND-AAA''] [fx_submission]"

definition fx_borrowing :: operations_bundle where
  "fx_borrowing = fx_bundle PROB_VERIFYING
     [fx_candidate ''CAND-AAA'' CAND_SUBMISSION_READY, fx_candidate ''CAND-BBB'' CAND_DRAFT]
     [fx_verification ''CAND-AAA'', (fx_verification ''CAND-BBB'')\<lparr>vr_verification_id := ''VER-BBB''\<rparr>] []"

lemmas fx_defs =
  fx_sha_def fx_uri_def fx_manifest_def fx_problem_def fx_mode_def fx_inputs_def fx_leaf_def
  fx_plan_def fx_job_def fx_jobs_def fx_verification_def fx_candidate_def fx_bundle_def
  fx_submission_def fx_submitted_def fx_borrowing_def

lemma fx_submitted_valid: "validate_operations_document fx_submitted = Inr ()"
  by code_simp

lemma fx_borrowing_valid: "validate_operations_document fx_borrowing = Inr ()"
  by code_simp

end
