(* ===== verification/Scheduler_Properties.thy ===== *)
theory Scheduler_Properties
  imports Scheduler_Steps Fixtures
begin

section \<open>What the scheduler guarantees\<close>

text \<open>
  The properties of \<^verbatim>\<open>BoundedJobScheduler\<close>, read off the runs of \<open>Scheduler_Outcome\<close> and the state
  machine of \<open>Scheduler_Steps\<close>. \<open>queue_ok\<close> is what the constructors of \<^verbatim>\<open>QueueLimits\<close> and
  \<^verbatim>\<open>JobRecord\<close> already ensured about the arguments.
\<close>

definition queue_ok :: "queue_limits \<Rightarrow> job_record list \<Rightarrow> bool" where
  "queue_ok limits jobs \<longleftrightarrow>
     validate_limits limits = Inr () \<and> (\<forall>j \<in> set jobs. 1 \<le> jb_max_attempts j)"

subsection \<open>From the run to the execution record\<close>

lemma collect_results_Inr:
  "collect_results canon m jobs = Inr rs \<longleftrightarrow> list_all2 (\<lambda>j r. job_result canon m j = Inr r) jobs rs"
proof (induction jobs arbitrary: rs)
  case (Cons j jobs)
  then show ?case by (cases rs) (auto simp: result_simps)
qed (cases rs, auto)

lemma collect_results_total:
  "(\<And>j. j \<in> set jobs \<Longrightarrow> \<exists>r. job_result canon m j = Inr r) \<Longrightarrow> \<exists>rs. collect_results canon m jobs = Inr rs"
proof (induction jobs)
  case (Cons j jobs)
  then obtain r rs where "job_result canon m j = Inr r" "collect_results canon m jobs = Inr rs"
    by (metis list.set_intros)
  then show ?case by simp
qed simp

lemma job_result_Inr:
  "job_result canon m j = Inr r \<longleftrightarrow>
     (\<exists>c. map_of m (canonical_id canon (jb_job_id j)) = Some c
        \<and> r = (if canonical_id canon (jb_job_id j) = jb_job_id j then c
               else duplicate_result j (canonical_id canon (jb_job_id j)) c))"
  by (auto simp: job_result_def canonical_id_def Let_def split: option.splits)

text \<open>A run of an accepted queue, with the facts every property needs.\<close>

definition completed_run ::
    "sched_env \<Rightarrow> queue_limits \<Rightarrow> job_record list \<Rightarrow> dependency_map \<Rightarrow> string set \<Rightarrow> string set
      \<Rightarrow> (string, string) dict \<Rightarrow> sched_context \<Rightarrow> sched_state \<Rightarrow> scheduled_job_result list \<Rightarrow> bool" where
  "completed_run env limits jobs deps paused cancelled canon ctx st rs \<longleftrightarrow>
     plan_queue limits jobs deps = Inr (canon, ctx) \<and> sched_inv ctx st \<and> sched_reach env ctx st
     \<and> reports_expected env ctx paused cancelled (ss_results st)
     \<and> list_all2 (\<lambda>j r. job_result canon (ss_results st) j = Inr r) jobs rs"

lemma execute_run:
  assumes env: "env_ok env" and ok: "queue_ok limits jobs"
    and plan: "plan_queue limits jobs deps = Inr (canon, ctx)"
  shows "\<exists>st rs. completed_run env limits jobs deps paused cancelled canon ctx st rs
    \<and> execute False env limits jobs deps paused cancelled = Inr (execution_of st rs)"
proof -
  have lim: "validate_limits limits = Inr ()" and att: "\<forall>j \<in> set jobs. 1 \<le> jb_max_attempts j"
    using ok by (simp_all add: queue_ok_def)
  obtain st where run: "run_loop (run_fuel ctx) env ctx (withhold env paused cancelled (initial_state ctx)) = Some st"
    and inv: "sched_inv ctx st"
    and rep: "reports_expected env ctx paused cancelled (ss_results st)"
    using run_reports [OF plan env lim att] by blast
  note init = plan_initial_inv(1) [OF plan lim att]
  have reach: "sched_reach env ctx st"
    using run_loop_reach [OF run env init withhold_reach [OF env init sched_reach.start]] .
  have "\<exists>r. job_result canon (ss_results st) j = Inr r" if "j \<in> set jobs" for j
    using plan_canonical [OF plan that] rep by (metis job_result_Inr reports_expected_def)
  then obtain rs where rs: "collect_results canon (ss_results st) jobs = Inr rs"
    using collect_results_total by blast
  then have "execute False env limits jobs deps paused cancelled = Inr (execution_of st rs)"
    using plan run by (simp add: execute_def execute_jobs_def)
  with inv reach rep rs plan show ?thesis
    by (auto simp: completed_run_def collect_results_Inr)
qed

lemma execute_InrD:
  assumes "env_ok env" and "queue_ok limits jobs"
    and "execute False env limits jobs deps paused cancelled = Inr ex"
  obtains canon ctx st rs where "completed_run env limits jobs deps paused cancelled canon ctx st rs"
    and "ex = execution_of st rs"
proof -
  obtain canon ctx where "plan_queue limits jobs deps = Inr (canon, ctx)"
    using assms(3) by (auto simp: execute_def execute_jobs_def result_simps)
  from execute_run [OF assms(1,2) this, of paused cancelled] assms(3) that show thesis by auto
qed

lemma job_result_id:
  assumes "sched_inv ctx st" and "job_result canon (ss_results st) j = Inr r"
  shows "sr_job_id r = jb_job_id j"
proof -
  obtain c where c: "map_of (ss_results st) (canonical_id canon (jb_job_id j)) = Some c"
    and r: "r = (if canonical_id canon (jb_job_id j) = jb_job_id j then c
               else duplicate_result j (canonical_id canon (jb_job_id j)) c)"
    using assms(2) unfolding job_result_Inr by blast
  have "sr_job_id c = canonical_id canon (jb_job_id j)"
    using assms(1) c by (simp add: sched_inv_def results_ok_def result_ok_def)
  with r show ?thesis by (simp add: duplicate_result_def)
qed

lemma completed_run_ids:
  assumes "completed_run env limits jobs deps paused cancelled canon ctx st rs"
  shows "map sr_job_id rs = map jb_job_id jobs"
proof -
  have "list_all2 (\<lambda>j r. jb_job_id j = sr_job_id r) jobs rs"
    using assms unfolding completed_run_def by (blast intro: list_all2_mono dest: job_result_id [symmetric])
  then show ?thesis by (simp add: list_all2_conv_all_nth list_eq_iff_nth_eq)
qed

lemma completed_run_result:
  assumes run: "completed_run env limits jobs deps paused cancelled canon ctx st rs" and r: "r \<in> set rs"
  obtains j c where "j \<in> set jobs" and "sr_job_id r = jb_job_id j"
    and "map_of (ss_results st) (canonical_id canon (jb_job_id j)) = Some c"
    and "r = (if canonical_id canon (jb_job_id j) = jb_job_id j then c
              else duplicate_result j (canonical_id canon (jb_job_id j)) c)"
proof -
  obtain i where i: "i < length rs" "r = rs ! i" using r by (auto simp: in_set_conv_nth)
  then have len: "i < length jobs" and res: "job_result canon (ss_results st) (jobs ! i) = Inr r"
    using run by (auto simp: completed_run_def list_all2_conv_all_nth)
  have "sr_job_id r = jb_job_id (jobs ! i)" using job_result_id [OF _ res] run by (auto simp: completed_run_def)
  moreover have "jobs ! i \<in> set jobs" using len by simp
  moreover obtain c where "map_of (ss_results st) (canonical_id canon (jb_job_id (jobs ! i))) = Some c"
    "r = (if canonical_id canon (jb_job_id (jobs ! i)) = jb_job_id (jobs ! i) then c
          else duplicate_result (jobs ! i) (canonical_id canon (jb_job_id (jobs ! i))) c)"
    using res unfolding job_result_Inr by blast
  ultimately show thesis using that by blast
qed

lemma result_for_nth:
  "distinct (map sr_job_id rs) \<Longrightarrow> i < length rs \<Longrightarrow> result_for rs (sr_job_id (rs ! i)) = Inr (rs ! i)"
  by (induction rs arbitrary: i) (auto simp: nth_Cons split: nat.splits)

lemma run_result_for:
  assumes run: "completed_run env limits jobs deps paused cancelled canon ctx st rs" and j: "j \<in> set jobs"
  obtains r where "result_for rs (jb_job_id j) = Inr r" "job_result canon (ss_results st) j = Inr r"
proof -
  obtain i where i: "i < length jobs" "j = jobs ! i" using j by (auto simp: in_set_conv_nth)
  have len: "length rs = length jobs" and res: "job_result canon (ss_results st) j = Inr (rs ! i)"
    using run i by (auto simp: completed_run_def list_all2_conv_all_nth)
  have ids: "map sr_job_id rs = map jb_job_id jobs" using completed_run_ids [OF run] .
  moreover have "distinct (map jb_job_id jobs)"
    using run plan_queueD(1) by (auto simp: completed_run_def)
  ultimately have "distinct (map sr_job_id rs)" by simp
  moreover have "sr_job_id (rs ! i) = jb_job_id j"
    using i len ids by (metis nth_map)
  ultimately show thesis using that result_for_nth [of rs i] i len res by simp
qed

subsection \<open>A concrete queue\<close>

text \<open>
  Three jobs: the first fails once and is retried, the second depends on it, the third is a
  duplicate of the second. The witnesses below are evaluated on it.
\<close>

definition fx_queued :: "string \<Rightarrow> string \<Rightarrow> job_record" where
  "fx_queued jid key = (fx_job jid EVIDENCE JOB_QUEUED)\<lparr>jb_idempotency_key := key\<rparr>"

definition fx_queue :: "job_record list" where
  "fx_queue = [fx_queued ''JOB-AAA'' ''k1'', fx_queued ''JOB-BBB'' ''k2'', fx_queued ''JOB-CCC'' ''k2'']"

definition fx_deps :: dependency_map where
  "fx_deps = [(''JOB-BBB'', [''JOB-AAA'']), (''JOB-CCC'', [''JOB-AAA''])]"

definition fx_outcome :: "job_status \<Rightarrow> worker_outcome" where
  "fx_outcome status = \<lparr>wo_status = status, wo_error_code = None, wo_checkpoint_ref = None,
     wo_retryable = (status = JOB_FAILED)\<rparr>"

definition fx_env :: "(nat \<Rightarrow> job_record list \<Rightarrow> job_record list) \<Rightarrow> sched_env" where
  "fx_env completed = \<lparr>en_order = (\<lambda>_ xs. xs), en_completed = completed,
     en_executor = (\<lambda>job attempt.
       Returned (fx_outcome (if jb_job_id job = ''JOB-AAA'' \<and> attempt = 1 then JOB_FAILED else JOB_COMPLETE))),
     en_clock = int\<rparr>"

abbreviation fx_one :: sched_env where
  "fx_one \<equiv> fx_env (\<lambda>_ xs. take 1 xs)"

abbreviation fx_all :: sched_env where
  "fx_all \<equiv> fx_env (\<lambda>_ xs. xs)"

definition fx_execution :: scheduler_execution where
  "fx_execution = projr (execute False fx_one default_limits fx_queue fx_deps {} {})"

definition fx_ctx :: sched_context where
  "fx_ctx = snd (projr (plan_queue default_limits fx_queue fx_deps))"

lemma fx_execute: "execute False fx_one default_limits fx_queue fx_deps {} {} = Inr fx_execution"
proof -
  have "is_ok (execute False fx_one default_limits fx_queue fx_deps {} {})" by code_simp
  then show ?thesis by (simp add: fx_execution_def is_ok_def split: sum.splits)
qed

lemma fx_plan_queue:
  "plan_queue default_limits fx_queue fx_deps = Inr (projr (plan_queue default_limits fx_queue fx_deps))"
proof -
  have "is_ok (plan_queue default_limits fx_queue fx_deps)" by code_simp
  then show ?thesis by (simp add: is_ok_def split: sum.splits)
qed

lemma fx_env_ok:
  "env_ok (fx_env c)" if "\<And>n xs. distinct xs \<Longrightarrow> distinct (c n xs)" "\<And>n xs. set (c n xs) \<subseteq> set xs"
    "\<And>n xs. xs \<noteq> [] \<Longrightarrow> c n xs \<noteq> []"
  using that by (auto simp: env_ok_def fx_env_def fx_outcome_def worker_outcome_init_def
      terminal_worker_statuses_def result_simps)

lemma fx_one_ok: "env_ok fx_one"
  by (rule fx_env_ok) (auto dest: in_set_takeD)

lemma fx_all_ok: "env_ok fx_all"
  by (rule fx_env_ok) auto

lemma fx_queue_ok: "queue_ok default_limits fx_queue"
  by (simp add: queue_ok_def validate_limits_def default_limits_def fx_queue_def fx_queued_def fx_job_def)

subsection \<open>Every accepted queue runs to the end\<close>

text \<open>
  C5: An accepted queue always runs to the end: whatever order the event loop picks,
  however tasks interleave, and whatever the executor does, \<^verbatim>\<open>execute\<close> returns, and it returns exactly
  one result per job, in the order of the input.
\<close>

theorem execute_returns:
  assumes "env_ok env" and "queue_ok limits jobs" and "plan_queue limits jobs deps = Inr plan"
  shows "\<exists>ex. execute False env limits jobs deps paused cancelled = Inr ex
    \<and> map sr_job_id (se_results ex) = map jb_job_id jobs"
proof -
  obtain canon ctx where plan: "plan_queue limits jobs deps = Inr (canon, ctx)"
    using assms(3) by (cases plan) simp
  from execute_run [OF assms(1,2) plan, of paused cancelled] show ?thesis
    by (metis completed_run_ids execution_of_def scheduler_execution.select_convs(1))
qed

theorem execute_returns_witness:
  "\<exists>ex. execute False fx_one default_limits fx_queue fx_deps {''PROB-ZZ''} {} = Inr ex
    \<and> map sr_job_id (se_results ex) = map jb_job_id fx_queue"
  by (rule execute_returns [OF fx_one_ok fx_queue_ok fx_plan_queue])

subsection \<open>Limits hold at every moment\<close>

text \<open>
  C6: At every moment of every interleaving the active jobs stay within the queue limits: in
  total, per problem, per role, and in the number of problems with active jobs.
\<close>

theorem active_jobs_within_limits:
  assumes "plan_queue limits jobs deps = Inr (canon, ctx)" and "queue_ok limits jobs"
    and "sched_reach env ctx st"
  shows "within_limits limits (ss_active st)"
proof -
  have "sched_inv ctx (initial_state ctx)"
    using plan_initial_inv(1) [OF assms(1)] assms(2) by (auto simp: queue_ok_def)
  from sched_reach_inv [OF assms(3) this] plan_queueD(4) [OF assms(1)] show ?thesis
    by (simp add: sched_inv_def)
qed

theorem active_jobs_within_limits_witness:
  "within_limits default_limits
     (ss_active (dispatch_one fx_one fx_ctx (fx_queued ''JOB-AAA'' ''k1'') (initial_state fx_ctx)))"
proof (rule active_jobs_within_limits)
  show "plan_queue default_limits fx_queue fx_deps
      = Inr (fst (projr (plan_queue default_limits fx_queue fx_deps)), fx_ctx)"
    using fx_plan_queue by (simp add: fx_ctx_def)
  have "fx_queued ''JOB-AAA'' ''k1'' \<in> set (ss_pending (initial_state fx_ctx))" by code_simp
  moreover have "is_ready fx_ctx (initial_state fx_ctx) (fx_queued ''JOB-AAA'' ''k1'')" by code_simp
  moreover have "has_capacity (sx_limits fx_ctx) (fx_queued ''JOB-AAA'' ''k1'') (ss_counters (initial_state fx_ctx))"
    by code_simp
  ultimately show "sched_reach fx_one fx_ctx
      (dispatch_one fx_one fx_ctx (fx_queued ''JOB-AAA'' ''k1'') (initial_state fx_ctx))"
    by (intro sched_reach.step [OF sched_reach.start] dispatched)
qed (rule fx_queue_ok)

text \<open>
  The maxima an execution reports never exceed the queue limits.
\<close>

theorem reported_maxima_within_limits:
  assumes "env_ok env" and "queue_ok limits jobs"
    and "execute False env limits jobs deps paused cancelled = Inr ex"
  shows "se_max_observed_active_jobs ex \<le> max_active_jobs limits
    \<and> se_max_observed_active_problems ex \<le> max_active_problems limits
    \<and> se_max_observed_jobs_per_problem ex \<le> max_active_jobs_per_problem limits
    \<and> (\<forall>(role, n) \<in> set (se_max_observed_jobs_by_role ex). n \<le> role_limit limits role)"
proof -
  obtain canon ctx st rs where run: "completed_run env limits jobs deps paused cancelled canon ctx st rs"
    and ex: "ex = execution_of st rs" using execute_InrD [OF assms] .
  have mx: "maxima_ok limits st"
    using run plan_queueD(4) [of limits jobs deps canon ctx] by (auto simp: completed_run_def sched_inv_def)
  have "n \<le> role_limit limits role" if "(role, n) \<in> set (ss_role_maxima st)" for role n
  proof -
    have "dict_get (ss_role_maxima st) role 0 = n"
      using that mx by (simp add: maxima_ok_def dict_get_def)
    then show ?thesis using mx by (auto simp: maxima_ok_def)
  qed
  with mx show ?thesis by (auto simp: ex execution_of_def maxima_ok_def)
qed

theorem reported_maxima_within_limits_witness:
  "se_max_observed_active_jobs fx_execution \<le> max_active_jobs default_limits
    \<and> se_max_observed_active_jobs fx_execution = 1"
proof
  show "se_max_observed_active_jobs fx_execution \<le> max_active_jobs default_limits"
    using reported_maxima_within_limits [OF fx_one_ok fx_queue_ok fx_execute] by blast
  show "se_max_observed_active_jobs fx_execution = 1" by code_simp
qed

subsection \<open>Order and attempts\<close>

text \<open>
  C10: A job is dispatched only after every job it depends on (its canonical representative, when
  it was deduplicated) has been dispatched before it.
\<close>

theorem dispatch_respects_dependencies:
  assumes "env_ok env" and "queue_ok limits jobs"
    and "execute False env limits jobs deps paused cancelled = Inr ex"
    and "deduplication_map jobs = Inr canon"
    and "se_dispatch_order ex = pre @ jb_job_id job # post" and "job \<in> set jobs"
    and "d \<in> set (dict_get deps (jb_job_id job) [])"
    and "canonical_id canon (jb_job_id job) = jb_job_id job"
  shows "canonical_id canon d \<in> set pre"
proof -
  obtain canon' ctx st rs where run: "completed_run env limits jobs deps paused cancelled canon' ctx st rs"
    and ex: "ex = execution_of st rs" using execute_InrD [OF assms(1-3)] .
  have plan: "plan_queue limits jobs deps = Inr (canon', ctx)" using run by (simp add: completed_run_def)
  note pd = plan_queueD [OF plan]
  have canon: "canon' = canon" using pd(2) assms(4) by simp
  then have "job \<in> set (sx_jobs ctx)" using pd(5) assms(6,8) by simp
  then have "canonical_id canon d \<in> set (job_deps ctx job)"
    using plan_job_deps [OF plan] assms(7) canon by simp
  moreover have "set (job_deps ctx job) \<subseteq> set pre"
    using run assms(5) by (auto simp: completed_run_def sched_inv_def dispatch_ok_def job_deps_def
        ex execution_of_def)
  ultimately show ?thesis by blast
qed

theorem dispatch_respects_dependencies_witness:
  "canonical_id (projr (deduplication_map fx_queue)) ''JOB-AAA'' \<in> set [''JOB-AAA'', ''JOB-AAA'']"
proof (rule dispatch_respects_dependencies [OF fx_one_ok fx_queue_ok fx_execute])
  show "deduplication_map fx_queue = Inr (projr (deduplication_map fx_queue))" by code_simp
  show "se_dispatch_order fx_execution
      = [''JOB-AAA'', ''JOB-AAA''] @ jb_job_id (fx_queued ''JOB-BBB'' ''k2'') # []" by code_simp
  show "fx_queued ''JOB-BBB'' ''k2'' \<in> set fx_queue" by (simp add: fx_queue_def)
  show "''JOB-AAA'' \<in> set (dict_get fx_deps (jb_job_id (fx_queued ''JOB-BBB'' ''k2'')) [])" by code_simp
  show "canonical_id (projr (deduplication_map fx_queue)) (jb_job_id (fx_queued ''JOB-BBB'' ''k2''))
      = jb_job_id (fx_queued ''JOB-BBB'' ''k2'')" by code_simp
qed

lemma reach_attempts:
  assumes "sched_reach env ctx st" and init: "sched_inv ctx (initial_state ctx)"
    and "\<forall>j \<in> set (sx_jobs ctx). 1 \<le> jb_max_attempts j" and "j \<in> set (sx_jobs ctx)"
  shows "int (ss_attempts st (jb_job_id j)) \<le> jb_max_attempts j"
  using assms(1,3,4)
proof (induction rule: sched_reach.induct)
  case start
  then show ?case by (force simp: initial_state_def)
next
  case (step st st')
  have inv: "sched_inv ctx st" using sched_reach_inv [OF step.hyps(1) init] .
  have part: "partition_ok ctx st" using inv by (simp add: sched_inv_def)
  have IH: "int (ss_attempts st (jb_job_id j)) \<le> jb_max_attempts j" using step by blast
  show ?case
  proof (cases rule: sched_step.cases [OF step.hyps(2)])
    case (2 job)
    have "j = job" if "jb_job_id j = jb_job_id job"
      using job_by_id [OF part step.prems(2) _ that] part 2 by (auto simp: partition_ok_def)
    moreover have "int (ss_attempts st (jb_job_id job)) < jb_max_attempts job"
      using inv 2 unfolding sched_inv_def attempts_ok_def by blast
    ultimately show ?thesis using IH 2 by (auto simp: dispatch_one_def Let_def)
  qed (use IH in \<open>auto simp: settle_def complete_one_def Let_def\<close>)
qed

lemma dispatched_canonical:
  assumes run: "completed_run env limits jobs deps paused cancelled canon ctx st rs"
    and ok: "queue_ok limits jobs" and i: "i \<in> set (ss_dispatch_order st)"
  shows "i \<in> jb_job_id ` set (sx_jobs ctx)"
proof -
  have plan: "plan_queue limits jobs deps = Inr (canon, ctx)" and reach: "sched_reach env ctx st"
    using run by (simp_all add: completed_run_def)
  have init: "sched_inv ctx (initial_state ctx)"
    using plan_initial_inv(1) [OF plan] ok by (auto simp: queue_ok_def)
  from reach have "set (ss_dispatch_order st) \<subseteq> jb_job_id ` set (sx_jobs ctx)"
  proof (induction rule: sched_reach.induct)
    case start
    then show ?case by (simp add: initial_state_def)
  next
    case (step st st')
    have "set (ss_pending st) \<subseteq> set (sx_jobs ctx)"
      using sched_reach_inv [OF step.hyps(1) init] by (simp add: sched_inv_def partition_ok_def)
    with step.IH show ?case
      by (cases rule: sched_step.cases [OF step.hyps(2)])
        (auto simp: settle_def dispatch_one_def complete_one_def Let_def)
  qed
  with i show ?thesis by blast
qed

lemma dispatch_count:
  assumes run: "completed_run env limits jobs deps paused cancelled canon ctx st rs"
    and ok: "queue_ok limits jobs" and j: "j \<in> set jobs"
  shows "int (count_list (ss_dispatch_order st) (jb_job_id j)) \<le> jb_max_attempts j"
proof (cases "jb_job_id j \<in> set (ss_dispatch_order st)")
  case True
  have plan: "plan_queue limits jobs deps = Inr (canon, ctx)" and reach: "sched_reach env ctx st"
    using run by (simp_all add: completed_run_def)
  have init: "sched_inv ctx (initial_state ctx)"
    using plan_initial_inv(1) [OF plan] ok by (auto simp: queue_ok_def)
  have "jb_job_id j \<in> jb_job_id ` set (sx_jobs ctx)" using dispatched_canonical [OF run ok True] .
  then have "j \<in> set (sx_jobs ctx)"
    using j plan_queueD(1,5) [OF plan] by (auto simp: distinct_map inj_on_def)
  then have "int (ss_attempts st (jb_job_id j)) \<le> jb_max_attempts j"
    using reach_attempts [OF reach init] ok plan_queueD(5) [OF plan] by (simp add: queue_ok_def)
  moreover have "ss_attempts st (jb_job_id j) = count_list (ss_dispatch_order st) (jb_job_id j)"
    using run by (simp add: completed_run_def sched_inv_def attempts_ok_def)
  ultimately show ?thesis by simp
next
  case False
  then have "count_list (ss_dispatch_order st) (jb_job_id j) = 0" by (simp add: count_list_0_iff)
  moreover have "1 \<le> jb_max_attempts j" using ok j by (simp add: queue_ok_def)
  ultimately show ?thesis by simp
qed

text \<open>
  C32: No job is attempted more often than its \<^verbatim>\<open>max_attempts\<close>: neither by the attempts its result
  reports nor by its dispatches.
\<close>

theorem attempts_are_bounded:
  assumes "env_ok env" and "queue_ok limits jobs"
    and "execute False env limits jobs deps paused cancelled = Inr ex" and "r \<in> set (se_results ex)"
  shows "\<exists>job \<in> set jobs. sr_job_id r = jb_job_id job \<and> int (sr_attempts r) \<le> jb_max_attempts job
    \<and> int (count_list (se_dispatch_order ex) (jb_job_id job)) \<le> jb_max_attempts job"
proof -
  obtain canon ctx st rs where run: "completed_run env limits jobs deps paused cancelled canon ctx st rs"
    and ex: "ex = execution_of st rs" using execute_InrD [OF assms(1-3)] .
  obtain j c where j: "j \<in> set jobs" "sr_job_id r = jb_job_id j"
    and c: "map_of (ss_results st) (canonical_id canon (jb_job_id j)) = Some c"
    and r: "r = (if canonical_id canon (jb_job_id j) = jb_job_id j then c
              else duplicate_result j (canonical_id canon (jb_job_id j)) c)"
    using completed_run_result [OF run] assms(4) ex by (auto simp: execution_of_def)
  have "int (sr_attempts r) \<le> jb_max_attempts j"
  proof (cases "canonical_id canon (jb_job_id j) = jb_job_id j")
    case True
    then have "j \<in> set (sx_jobs ctx)"
      using j(1) plan_queueD(5) [of limits jobs deps canon ctx] run by (simp add: completed_run_def)
    then show ?thesis
      using run c r True by (auto simp: completed_run_def sched_inv_def results_ok_def result_ok_def)
  next
    case False
    then show ?thesis using assms(2) j(1) r by (force simp: duplicate_result_def queue_ok_def)
  qed
  moreover have "int (count_list (se_dispatch_order ex) (jb_job_id j)) \<le> jb_max_attempts j"
    using dispatch_count [OF run assms(2) j(1)] by (simp add: ex execution_of_def)
  ultimately show ?thesis using j by blast
qed

theorem attempts_are_bounded_witness:
  "\<exists>job \<in> set fx_queue. sr_job_id (se_results fx_execution ! 0) = jb_job_id job
    \<and> int (sr_attempts (se_results fx_execution ! 0)) \<le> jb_max_attempts job
    \<and> int (count_list (se_dispatch_order fx_execution) (jb_job_id job)) \<le> jb_max_attempts job"
proof (rule attempts_are_bounded [OF fx_one_ok fx_queue_ok fx_execute])
  have "0 < length (se_results fx_execution)" by code_simp
  then show "se_results fx_execution ! 0 \<in> set (se_results fx_execution)" by (rule nth_mem)
qed

subsection \<open>Independence of the schedule\<close>

lemma job_result_report:
  assumes "map_option report (map_of m' i) = map_option report (map_of m i)"
    and "i = canonical_id canon (jb_job_id j)"
    and "job_result canon m j = Inr r" and "job_result canon m' j = Inr r'"
  shows "report r' = report r"
  using assms by (auto simp: job_result_Inr report_def duplicate_result_def split: if_splits)

text \<open>
  C4: The schedule does not change what is reported: two executions of one queue with executors
  that answer alike report, job by job, the same status, attempts, error code and checkpoint, even
  when limits, enumeration orders, completion orders and clocks differ.
\<close>

theorem reports_independent_of_schedule:
  assumes "env_ok env" and "queue_ok limits jobs"
    and "execute False env limits jobs deps paused cancelled = Inr ex"
    and "env_ok env'" and "queue_ok limits' jobs"
    and "execute False env' limits' jobs deps paused cancelled = Inr ex'"
    and "en_executor env' = en_executor env"
  shows "map report (se_results ex') = map report (se_results ex)"
proof -
  obtain canon ctx st rs where run: "completed_run env limits jobs deps paused cancelled canon ctx st rs"
    and ex: "ex = execution_of st rs" using execute_InrD [OF assms(1-3)] .
  obtain canon' ctx' st' rs' where run': "completed_run env' limits' jobs deps paused cancelled canon' ctx' st' rs'"
    and ex': "ex' = execution_of st' rs'" using execute_InrD [OF assms(4-6)] .
  have plan: "plan_queue limits jobs deps = Inr (canon, ctx)"
    and plan': "plan_queue limits' jobs deps = Inr (canon', ctx')"
    using run run' by (simp_all add: completed_run_def)
  have canon: "canon' = canon" using plan_queueD(2) [OF plan] plan_queueD(2) [OF plan'] by simp
  have sj: "sx_jobs ctx' = sx_jobs ctx"
    using plan_queueD(5) [OF plan] plan_queueD(5) [OF plan'] canon by simp
  have sd: "sx_deps ctx' = sx_deps ctx"
    using plan_queueD(6) [OF plan] plan_queueD(6) [OF plan'] canon sj by simp
  have closed: "deps_closed ctx" using plan_deps_closed [OF plan] by (auto simp: deps_closed_def)
  have same: "map_option report (map_of (ss_results st') (jb_job_id c))
      = map_option report (map_of (ss_results st) (jb_job_id c))" if c: "c \<in> set (sx_jobs ctx)" for c
    using expected_unique [OF plan_queueD(7) [OF plan] closed sj sd assms(7) _ _ c] run run'
    by (auto simp: completed_run_def)
  have "report (rs' ! i) = report (rs ! i)" if i: "i < length jobs" for i
  proof -
    have "jobs ! i \<in> set jobs" using i by simp
    then obtain c where c: "c \<in> set (sx_jobs ctx)" "canonical_id canon (jb_job_id (jobs ! i)) = jb_job_id c"
      using plan_canonical [OF plan] by metis
    show ?thesis
      by (rule job_result_report [OF same [OF c(1)] c(2) [symmetric]])
        (use run run' i canon in \<open>auto simp: completed_run_def list_all2_conv_all_nth\<close>)
  qed
  moreover have "length rs = length jobs" "length rs' = length jobs"
    using run run' by (auto simp: completed_run_def dest: list_all2_lengthD)
  ultimately show ?thesis by (simp add: ex ex' execution_of_def list_eq_iff_nth_eq)
qed

theorem reports_independent_of_schedule_witness:
  "map report (se_results (projr (execute False fx_all (default_limits\<lparr>max_active_jobs := 1\<rparr>) fx_queue fx_deps {} {})))
    = map report (se_results fx_execution)"
proof (rule reports_independent_of_schedule [OF fx_one_ok fx_queue_ok fx_execute fx_all_ok])
  let ?limits = "default_limits\<lparr>max_active_jobs := 1\<rparr>"
  show "queue_ok ?limits fx_queue"
    by (simp add: queue_ok_def validate_limits_def default_limits_def fx_queue_def fx_queued_def fx_job_def)
  have "is_ok (execute False fx_all ?limits fx_queue fx_deps {} {})" by code_simp
  then show "execute False fx_all ?limits fx_queue fx_deps {} {}
      = Inr (projr (execute False fx_all ?limits fx_queue fx_deps {} {}))"
    by (simp add: is_ok_def split: sum.splits)
  show "en_executor fx_all = en_executor fx_one" by (simp add: fx_env_def)
qed

subsection \<open>Idempotency\<close>

text \<open>
  Jobs with one idempotency key run as one: at most one of them is ever dispatched, it sorts
  first among them, and every other one reports that job's status and says which job it was
  deduplicated from.
\<close>

theorem duplicates_run_once:
  assumes "env_ok env" and "queue_ok limits jobs"
    and "execute False env limits jobs deps paused cancelled = Inr ex"
    and "j \<in> set jobs" and "k \<in> set jobs" and "jb_idempotency_key j = jb_idempotency_key k"
    and "jb_job_id k \<in> set (se_dispatch_order ex)" and "j \<noteq> k"
  shows "jb_job_id j \<notin> set (se_dispatch_order ex) \<and> job_sort_key k \<le> job_sort_key j
    \<and> (\<exists>r s. result_for (se_results ex) (jb_job_id j) = Inr r
         \<and> result_for (se_results ex) (jb_job_id k) = Inr s
         \<and> sr_status r = sr_status s \<and> sr_deduplicated_from_job_id r = Some (jb_job_id k))"
proof -
  obtain canon ctx st rs where run: "completed_run env limits jobs deps paused cancelled canon ctx st rs"
    and ex: "ex = execution_of st rs" using execute_InrD [OF assms(1-3)] .
  have plan: "plan_queue limits jobs deps = Inr (canon, ctx)" using run by (simp add: completed_run_def)
  note pd = plan_queueD [OF plan]
  have key: "canonical_id canon (jb_job_id j) = canonical_id canon (jb_job_id k)"
    using deduplication_map_same_key [OF pd(2,1) assms(4,5)] assms(6) by (simp add: canonical_id_def dict_get_def)
  have k: "k \<in> set (sx_jobs ctx)" "canonical_id canon (jb_job_id k) = jb_job_id k"
    using dispatched_canonical [OF run assms(2)] assms(5,7) pd(1,5)
    by (auto simp: ex execution_of_def distinct_map inj_on_def)
  have ne: "jb_job_id j \<noteq> jb_job_id k" using assms(4,5,8) pd(1) by (auto simp: distinct_map inj_on_def)
  have "jb_job_id j \<notin> jb_job_id ` set (sx_jobs ctx)"
    using pd(5) key k(2) ne by auto
  then have "jb_job_id j \<notin> set (se_dispatch_order ex)"
    using dispatched_canonical [OF run assms(2)] by (auto simp: ex execution_of_def)
  moreover obtain c where "c \<in> set (sx_jobs ctx)" "canonical_id canon (jb_job_id j) = jb_job_id c" "represents c j"
    using plan_canonical [OF plan assms(4)] .
  then have "job_sort_key k \<le> job_sort_key j"
    using key k pd(1,5) by (auto simp: represents_def distinct_map inj_on_def)
  moreover obtain r s where r: "result_for rs (jb_job_id j) = Inr r" "job_result canon (ss_results st) j = Inr r"
    and s: "result_for rs (jb_job_id k) = Inr s" "job_result canon (ss_results st) k = Inr s"
    using run_result_for [OF run assms(4)] run_result_for [OF run assms(5)] by metis
  moreover have "sr_status r = sr_status s \<and> sr_deduplicated_from_job_id r = Some (jb_job_id k)"
    using r(2) s(2) key k(2) ne by (auto simp: job_result_Inr duplicate_result_def)
  ultimately show ?thesis by (simp add: ex execution_of_def)
qed

theorem duplicates_run_once_witness:
  "jb_job_id (fx_queued ''JOB-CCC'' ''k2'') \<notin> set (se_dispatch_order fx_execution)"
proof -
  have "fx_queued ''JOB-CCC'' ''k2'' \<in> set fx_queue" "fx_queued ''JOB-BBB'' ''k2'' \<in> set fx_queue"
    by (simp_all add: fx_queue_def)
  moreover have "jb_idempotency_key (fx_queued ''JOB-CCC'' ''k2'') = jb_idempotency_key (fx_queued ''JOB-BBB'' ''k2'')"
    by (simp add: fx_queued_def)
  moreover have "jb_job_id (fx_queued ''JOB-BBB'' ''k2'') \<in> set (se_dispatch_order fx_execution)" by code_simp
  moreover have "fx_queued ''JOB-CCC'' ''k2'' \<noteq> fx_queued ''JOB-BBB'' ''k2''" by code_simp
  ultimately show ?thesis
    using duplicates_run_once [OF fx_one_ok fx_queue_ok fx_execute] by blast
qed

subsection \<open>Liveness\<close>

definition recovers :: "sched_env \<Rightarrow> job_record \<Rightarrow> bool" where
  "recovers env job \<longleftrightarrow>
     (\<exists>a. 1 \<le> a \<and> int a \<le> jb_max_attempts job
        \<and> wo_status (attempt_outcome env job a) = JOB_COMPLETE
        \<and> (\<forall>b. 1 \<le> b \<and> b < a \<longrightarrow> wo_status (attempt_outcome env job b) = JOB_FAILED
              \<and> wo_retryable (attempt_outcome env job b)))"

lemma recovers_final: "recovers env job \<Longrightarrow> fst (final_report env job) = JOB_COMPLETE"
proof -
  assume "recovers env job"
  then obtain a where a: "1 \<le> a" "int a \<le> jb_max_attempts job"
    "wo_status (attempt_outcome env job a) = JOB_COMPLETE"
    "\<And>b. 1 \<le> b \<Longrightarrow> b < a \<Longrightarrow> wo_status (attempt_outcome env job b) = JOB_FAILED
       \<and> wo_retryable (attempt_outcome env job b)"
    by (auto simp: recovers_def)
  have "final_attempt env job = a"
    by (rule final_attempt_eq) (use a in \<open>auto simp: retried_def\<close>)
  with a(3) show ?thesis by (simp add: final_report_def Let_def)
qed

text \<open>
  C19: Nothing is lost: when no problem is paused, no job is cancelled and every job's executor
  completes on some allowed attempt (after retryable failures only), every job of the
  queue is reported complete; no order, limit or interleaving can starve one.
\<close>

theorem every_job_completes:
  assumes "env_ok env" and "queue_ok limits jobs"
    and "execute False env limits jobs deps {} {} = Inr ex"
    and "\<forall>j \<in> set jobs. recovers env j" and "r \<in> set (se_results ex)"
  shows "sr_status r = JOB_COMPLETE"
proof -
  obtain canon ctx st rs where run: "completed_run env limits jobs deps {} {} canon ctx st rs"
    and ex: "ex = execution_of st rs" using execute_InrD [OF assms(1-3)] .
  have plan: "plan_queue limits jobs deps = Inr (canon, ctx)" using run by (simp add: completed_run_def)
  have "r \<in> set rs" using assms(5) by (simp add: ex execution_of_def)
  then obtain j c where j: "j \<in> set jobs" and "sr_job_id r = jb_job_id j"
    and c: "map_of (ss_results st) (canonical_id canon (jb_job_id j)) = Some c"
    and r: "r = (if canonical_id canon (jb_job_id j) = jb_job_id j then c
              else duplicate_result j (canonical_id canon (jb_job_id j)) c)"
    using completed_run_result [OF run] by metis
  obtain d where d: "d \<in> set (sx_jobs ctx)" "canonical_id canon (jb_job_id j) = jb_job_id d"
    using plan_canonical [OF plan j] by metis
  have closed: "deps_closed ctx" using plan_deps_closed [OF plan] by (auto simp: deps_closed_def)
  have "dep_status_in (ss_results st) {JOB_COMPLETE} (jb_job_id d)"
  proof (rule expected_complete [OF plan_queueD(7) [OF plan] closed _ _ d(1)])
    show "reports_expected env ctx {} {} (ss_results st)" using run by (simp add: completed_run_def)
    show "\<not> withheld {} {} k \<and> fst (final_report env k) = JOB_COMPLETE" if "k \<in> set (sx_jobs ctx)" for k
      using that assms(4) recovers_final plan_queueD(5) [OF plan] by (auto simp: withheld_def)
  qed
  then have "sr_status c = JOB_COMPLETE" using c d(2) by (simp add: dep_status_in_def)
  with r show ?thesis by (simp add: duplicate_result_def)
qed

theorem every_job_completes_witness:
  "sr_status (se_results fx_execution ! 2) = JOB_COMPLETE"
proof (rule every_job_completes [OF fx_one_ok fx_queue_ok fx_execute])
  have "recovers fx_one j" if "j \<in> set fx_queue" for j
    unfolding recovers_def
    by (rule exI [of _ "if jb_job_id j = ''JOB-AAA'' then 2 else 1"])
      (use that in \<open>auto simp: fx_queue_def fx_queued_def fx_job_def fx_env_def fx_outcome_def
        attempt_outcome_def run_worker_def\<close>)
  then show "\<forall>j \<in> set fx_queue. recovers fx_one j" by blast
  have "2 < length (se_results fx_execution)" by code_simp
  then show "se_results fx_execution ! 2 \<in> set (se_results fx_execution)" by (rule nth_mem)
qed

subsection \<open>The graph check and the errors of a queue\<close>

text \<open>
  The recursive cycle check is exact: on a map whose dependencies are all keys it accepts the
  map if and only if the dependency relation is acyclic, and otherwise reports a cycle (its recursion
  never runs out).
\<close>

theorem cycle_check_exact:
  assumes "closed_map deps"
  shows "require_acyclic deps = (if acyclic (edges deps) then Inr () else Inl Dependency_Cycle)"
  using assms by (rule require_acyclic_iff)

theorem cycle_check_exact_witness:
  "require_acyclic [(''JOB-AAA'', [''JOB-BBB'']), (''JOB-BBB'', [])] = Inr ()
    \<and> acyclic (edges [(''JOB-AAA'', [''JOB-BBB'']), (''JOB-BBB'', [])])"
proof -
  let ?deps = "[(''JOB-AAA'', [''JOB-BBB'']), (''JOB-BBB'', [])]"
  have "require_acyclic ?deps = Inr ()" by code_simp
  moreover have "closed_map ?deps" by (simp add: closed_map_def)
  ultimately show ?thesis using cycle_check_exact [of ?deps] by (auto split: if_splits)
qed

lemma closed_context:
  assumes dist: "distinct (map jb_job_id jobs)"
    and n: "validate_dependencies (map (\<lambda>j. (jb_job_id j, j)) jobs) deps = Inr normalized"
    and dd: "deduplication_map jobs = Inr canon"
  shows "closed_map (sx_deps (canonical_context limits (map (\<lambda>j. (jb_job_id j, j)) jobs) normalized canon))"
proof -
  have can: "canonical_id canon d \<in> jb_job_id ` set (filter (\<lambda>j. canonical_id canon (jb_job_id j) = jb_job_id j) jobs)"
    if jd: "j \<in> set jobs" "d \<in> set (dict_get deps (jb_job_id j) [])" for j d
  proof -
    obtain k where "k \<in> set jobs" "jb_job_id k = d"
      using validate_dependencies_Inr(2) [OF n dist jd] by blast
    with deduplication_map_ok [OF dd dist] show ?thesis
      by (fastforce simp: canonical_id_def dict_get_def image_iff)
  qed
  show ?thesis
    unfolding canonical_context_deps [OF validate_dependencies_Inr(1) [OF n dist]] closed_map_def
    using can by (auto simp: image_image)
qed

lemma graph_check_closed:
  "closed_map deps \<Longrightarrow> graph_check deps = Inl e \<Longrightarrow> e = Value_Error ''job dependency cycle''"
  using require_acyclic_iff [of deps] by (auto simp: graph_check_def split: if_splits)

lemma for_each_raises: "for_each f xs = Inl e \<Longrightarrow> \<exists>x \<in> set xs. f x = Inl e"
  by (induction xs) (auto simp: result_simps)

lemma check_dependency_errors: "check_dependency d i j k = Inl e \<Longrightarrow> \<exists>message. e = Value_Error message"
  by (auto simp: check_dependency_def then_check_def result_simps split: option.splits)

lemma check_duplicate_errors:
  "for_each (check_duplicate canon n ctx) jobs = Inl e \<Longrightarrow> \<exists>message. e = Value_Error message"
  by (auto dest!: for_each_raises simp: check_duplicate_def Let_def result_simps split: if_splits)

lemma deduplication_map_errors: "deduplication_map jobs = Inl e \<Longrightarrow> \<exists>message. e = Value_Error message"
  by (auto simp: deduplication_map_def result_simps deduplication_step_def Let_def case_prod_beta
      dest!: fold_result_raises split: option.splits if_splits)

lemma validate_dependencies_errors:
  assumes dist: "distinct (map jb_job_id jobs)"
    and e: "validate_dependencies (map (\<lambda>j. (jb_job_id j, j)) jobs) deps = Inl e"
  shows "\<exists>message. e = Value_Error message"
proof -
  let ?d = "map (\<lambda>j. (jb_job_id j, j)) jobs"
  let ?n = "map (\<lambda>(i, j). (i, dict_get deps i [])) ?d"
  let ?f = "\<lambda>(i, j). let items = dict_get deps i [] in
      then_check (raise_if (\<not> distinct items) (Value_Error ''job dependency values must be unique''))
        (for_each (check_dependency ?d i j) items)"
  consider "e = Value_Error ''dependency map contains an unknown job''"
    | "for_each ?f ?d = Inl e" | "for_each ?f ?d = Inr ()" "graph_check ?n = Inl e"
    using e unfolding validate_dependencies_def by (auto simp: result_simps Let_def simp del: list.map)
  then show ?thesis
  proof cases
    case 2
    then show ?thesis
      by (auto dest!: for_each_raises check_dependency_errors simp: Let_def then_check_def result_simps)
  next
    case 3
    have "check_dependency ?d (jb_job_id j) j d = Inr ()"
      if "j \<in> set jobs" "d \<in> set (dict_get deps (jb_job_id j) [])" for j d
      using 3(1) that by (auto simp: result_simps Let_def)
    then have "closed_map ?n"
      by (fastforce simp: closed_map_def check_dependency_def image_iff split: option.splits
          dest!: map_of_SomeD)
    with graph_check_closed 3(2) show ?thesis by blast
  qed blast
qed

text \<open>
  \<^verbatim>\<open>execute\<close> fails only with the documented value errors: no run ends in a missing dictionary key,
  unbounded recursion or an endless loop, on any input.
\<close>

theorem execute_raises_only_value_errors:
  assumes "env_ok env" and "queue_ok limits jobs"
    and "execute False env limits jobs deps paused cancelled = Inl e"
  shows "\<exists>message. e = Value_Error message"
proof -
  have plan: "plan_queue limits jobs deps = Inl e"
  proof (cases "plan_queue limits jobs deps")
    case (Inr p)
    then obtain canon ctx where "plan_queue limits jobs deps = Inr (canon, ctx)" by (cases p) simp
    from execute_run [OF assms(1,2) this, of paused cancelled] assms(3) show ?thesis by auto
  qed (use assms(3) in \<open>simp add: execute_def execute_jobs_def\<close>)
  show ?thesis
  proof (cases "validate_jobs jobs")
    case (Inl x)
    with plan show ?thesis by (auto simp: plan_queue_def validate_jobs_def result_simps then_check_def)
  next
    case (Inr jobs_by_id)
    then have dist: "distinct (map jb_job_id jobs)" and jb: "jobs_by_id = map (\<lambda>j. (jb_job_id j, j)) jobs"
      by (simp_all add: validate_jobs_Inr)
    show ?thesis
    proof (cases "validate_dependencies jobs_by_id deps")
      case (Inl x)
      with plan Inr have "validate_dependencies jobs_by_id deps = Inl e" by (simp add: plan_queue_def)
      then show ?thesis unfolding jb by (rule validate_dependencies_errors [OF dist])
    next
      case n: (Inr normalized)
      show ?thesis
      proof (cases "deduplication_map jobs")
        case (Inl x)
        with plan Inr n have "deduplication_map jobs = Inl e" by (simp add: plan_queue_def)
        then show ?thesis by (rule deduplication_map_errors)
      next
        case dd: (Inr canon)
        let ?ctx = "canonical_context limits jobs_by_id normalized canon"
        have "for_each (check_duplicate canon normalized ?ctx) jobs = Inl e \<or> graph_check (sx_deps ?ctx) = Inl e"
          using plan Inr n dd by (auto simp: plan_queue_def result_simps Let_def)
        then show ?thesis
          using check_duplicate_errors graph_check_closed [OF closed_context [OF dist _ dd]] n
          unfolding jb by blast
      qed
    qed
  qed
qed

theorem execute_raises_only_value_errors_witness:
  "\<exists>message. projl (execute False fx_one default_limits fx_queue [(''JOB-AAA'', [''JOB-AAA''])] {} {})
    = Value_Error message"
proof (rule execute_raises_only_value_errors [OF fx_one_ok fx_queue_ok])
  let ?r = "execute False fx_one default_limits fx_queue [(''JOB-AAA'', [''JOB-AAA''])] {} {}"
  have "\<not> is_ok ?r" by code_simp
  then show "?r = Inl (projl ?r)" by (simp add: is_ok_def split: sum.splits)
qed

end
