(* ===== verification/Lifecycle.thy ===== *)
theory Lifecycle
  imports Operations_Validation
begin

section \<open>Status lifecycles\<close>

text \<open>
  The transition table \<^verbatim>\<open>_TRANSITIONS\<close> of \<^verbatim>\<open>domain/operations.py\<close> and the validator
  \<^verbatim>\<open>StateTransition.transition_is_allowed\<close>, which every entity's status change is checked
  against. The locales state the two contracts a lifecycle gives its clients: final statuses are
  never left, and a guarded status is entered through its gate only. Each is interpreted on the
  rows of the table.
\<close>

datatype state_entity =
    ENTITY_PROBLEM | ENTITY_PLAN | ENTITY_JOB | ENTITY_VERIFICATION | ENTITY_CANDIDATE

fun transitions :: "state_entity \<Rightarrow> (string, string list) dict" where
  "transitions ENTITY_PROBLEM =
     [(''captured'', [''triaged'']),
      (''triaged'', [''queued'']),
      (''queued'', [''running'']),
      (''running'', [''partial'', ''verifying'', ''review_required'']),
      (''partial'', [''verifying'', ''review_required'']),
      (''verifying'', [''review_required'', ''submission_ready'']),
      (''review_required'', [''verifying'', ''submission_ready'']),
      (''submission_ready'', [''submitted'']),
      (''submitted'', [])]"
| "transitions ENTITY_PLAN =
     [(''rules_gated'', [''proposed'']),
      (''proposed'', [''approved'', ''rejected'']),
      (''approved'', [''superseded'']),
      (''rejected'', []),
      (''superseded'', [])]"
| "transitions ENTITY_JOB =
     [(''queued'', [''running'', ''waiting'', ''cancelled'']),
      (''running'', [''waiting'', ''complete'', ''partial'', ''failed'', ''cancelled'']),
      (''waiting'', [''queued'', ''running'', ''failed'', ''cancelled'']),
      (''complete'', []),
      (''partial'', []),
      (''failed'', []),
      (''cancelled'', [])]"
| "transitions ENTITY_VERIFICATION =
     [(''queued'', [''running'']),
      (''running'', [''pass'', ''fail'', ''conflict'', ''incomplete'']),
      (''pass'', []),
      (''fail'', []),
      (''conflict'', []),
      (''incomplete'', [])]"
| "transitions ENTITY_CANDIDATE =
     [(''draft'', [''review_required'', ''submission_ready'', ''rejected'']),
      (''review_required'', [''draft'', ''rejected'']),
      (''submission_ready'', [''submitted'']),
      (''submitted'', []),
      (''rejected'', [])]"

record state_transition =
  st_entity :: state_entity
  st_from_status :: string
  st_to_status :: string

definition transition_is_allowed :: "state_transition \<Rightarrow> contract_error + unit" where
  "transition_is_allowed t =
     (let allowed = map_of (transitions (st_entity t)) (st_from_status t) in
      raise_if
        (case allowed of None \<Rightarrow> True | Some tos \<Rightarrow> st_to_status t \<notin> set tos)
        (Pydantic_Error ''invalid_state_transition'' ''state transition is not allowed''))"

definition validate_state_transition :: "state_transition \<Rightarrow> contract_error + unit" where
  "validate_state_transition t =
     then_check
       (raise_if (\<not> (snake_pattern (st_from_status t) \<and> snake_pattern (st_to_status t))) field_errors)
       (transition_is_allowed t)"

text \<open>\<open>may_step e s t\<close>: the validator accepts a change of entity \<open>e\<close> from \<open>s\<close> to \<open>t\<close>.\<close>

definition may_step :: "state_entity \<Rightarrow> string \<Rightarrow> string \<Rightarrow> bool" where
  "may_step e s t \<longleftrightarrow>
     validate_state_transition \<lparr>st_entity = e, st_from_status = s, st_to_status = t\<rparr> = Inr ()"

definition allowed_pairs :: "state_entity \<Rightarrow> (string \<times> string) list" where
  "allowed_pairs e = concat (map (\<lambda>(s, ts). map (Pair s) ts) (transitions e))"

definition final_statuses :: "state_entity \<Rightarrow> string list" where
  "final_statuses e = map fst (filter (\<lambda>(s, ts). ts = []) (transitions e))"

lemma transitions_distinct: "distinct (map fst (transitions e))"
  by (cases e) simp_all

lemma allowed_pairs_iff:
  "(s, t) \<in> set (allowed_pairs e) \<longleftrightarrow> (\<exists>ts. map_of (transitions e) s = Some ts \<and> t \<in> set ts)"
proof -
  have "(s, t) \<in> set (allowed_pairs e) \<longleftrightarrow> (\<exists>ts. (s, ts) \<in> set (transitions e) \<and> t \<in> set ts)"
    by (auto simp: allowed_pairs_def)
  then show ?thesis
    using map_of_eq_Some_iff [OF transitions_distinct] by metis
qed

lemma allowed_pairs_snake:
  "list_all (\<lambda>(s, t). snake_pattern s \<and> snake_pattern t) (allowed_pairs e)"
  by (cases e; hypsubst; code_simp)

lemma may_step_iff: "may_step e s t \<longleftrightarrow> (s, t) \<in> set (allowed_pairs e)"
proof -
  have "transition_is_allowed \<lparr>st_entity = e, st_from_status = s, st_to_status = t\<rparr> = Inr ()
    \<longleftrightarrow> (s, t) \<in> set (allowed_pairs e)"
    by (auto simp: transition_is_allowed_def allowed_pairs_iff result_simps split: option.splits)
  moreover have "(s, t) \<in> set (allowed_pairs e) \<Longrightarrow> snake_pattern s \<and> snake_pattern t"
    using allowed_pairs_snake [of e] by (auto simp: list_all_iff)
  ultimately show ?thesis
    by (auto simp: may_step_def validate_state_transition_def result_simps)
qed

subsection \<open>Contracts\<close>

locale lifecycle =
  fixes step :: "'s \<Rightarrow> 's \<Rightarrow> bool" and final :: "'s \<Rightarrow> bool"
  assumes final_stuck: "final s \<Longrightarrow> \<not> step s t"
begin

lemma final_forever: "step\<^sup>*\<^sup>* s t \<Longrightarrow> final s \<Longrightarrow> t = s"
  by (induction rule: rtranclp_induct) (use final_stuck in blast)+

lemma final_exclusive:
  assumes "step\<^sup>*\<^sup>* s t" and "step\<^sup>*\<^sup>* t u" and "final t" and "final u"
  shows "t = u"
  using final_forever assms by blast

end

locale gated_lifecycle = lifecycle +
  fixes gate :: 's and goal :: 's
  assumes gate_only: "step s goal \<Longrightarrow> s = gate"
begin

lemma reached_through_gate:
  assumes "step\<^sup>*\<^sup>* s goal" and "s \<noteq> goal"
  shows "step\<^sup>*\<^sup>* s gate \<and> step gate goal"
proof -
  from assms obtain m where "step\<^sup>*\<^sup>* s m" and "step m goal"
    by (cases rule: rtranclp.cases) auto
  then show ?thesis using gate_only by blast
qed

lemma barred_without_gate:
  assumes "\<not> step\<^sup>*\<^sup>* s gate" and "s \<noteq> goal"
  shows "\<not> step\<^sup>*\<^sup>* s goal"
  using assms reached_through_gate by blast

end

locale ranked_lifecycle = lifecycle +
  fixes rank :: "'s \<Rightarrow> nat"
  assumes rank_drops: "step s t \<Longrightarrow> rank t < rank s"
begin

lemma run_bounded: "(step ^^ n) s t \<Longrightarrow> n + rank t \<le> rank s"
proof (induction n arbitrary: t)
  case 0
  then show ?case by simp
next
  case (Suc n)
  then obtain m where "(step ^^ n) s m" and "step m t" by auto
  with Suc.IH [of m] rank_drops [of m t] show ?case by simp
qed

lemma no_return: "step\<^sup>+\<^sup>+ s t \<Longrightarrow> t \<noteq> s"
proof -
  assume "step\<^sup>+\<^sup>+ s t"
  then have "rank t < rank s"
    by (induction rule: tranclp_induct) (auto dest: rank_drops)
  then show ?thesis by auto
qed

end

subsection \<open>The rows of the table keep the contracts\<close>

definition plan_rank :: "string \<Rightarrow> nat" where
  "plan_rank s =
     (if s = ''rules_gated'' then 3 else if s = ''proposed'' then 2
      else if s = ''approved'' then 1 else 0)"

definition verification_rank :: "string \<Rightarrow> nat" where
  "verification_rank s = (if s = ''queued'' then 2 else if s = ''running'' then 1 else 0)"

lemma final_statuses_stuck: "s \<in> set (final_statuses e) \<Longrightarrow> \<not> may_step e s t"
proof -
  assume "s \<in> set (final_statuses e)"
  then have "map_of (transitions e) s = Some []"
    using map_of_eq_Some_iff [OF transitions_distinct] by (auto simp: final_statuses_def)
  then show ?thesis by (simp add: may_step_iff allowed_pairs_iff)
qed

interpretation problem_lifecycle:
  gated_lifecycle "may_step ENTITY_PROBLEM" "\<lambda>s. s \<in> set (final_statuses ENTITY_PROBLEM)"
    "''submission_ready''" "''submitted''"
proof
  show "\<And>s t. s \<in> set (final_statuses ENTITY_PROBLEM) \<Longrightarrow> \<not> may_step ENTITY_PROBLEM s t"
    by (rule final_statuses_stuck)
  show "\<And>s. may_step ENTITY_PROBLEM s ''submitted'' \<Longrightarrow> s = ''submission_ready''"
    by (simp add: may_step_iff allowed_pairs_def)
qed

interpretation candidate_lifecycle:
  gated_lifecycle "may_step ENTITY_CANDIDATE" "\<lambda>s. s \<in> set (final_statuses ENTITY_CANDIDATE)"
    "''submission_ready''" "''submitted''"
proof
  show "\<And>s t. s \<in> set (final_statuses ENTITY_CANDIDATE) \<Longrightarrow> \<not> may_step ENTITY_CANDIDATE s t"
    by (rule final_statuses_stuck)
  show "\<And>s. may_step ENTITY_CANDIDATE s ''submitted'' \<Longrightarrow> s = ''submission_ready''"
    by (simp add: may_step_iff allowed_pairs_def)
qed

interpretation candidate_promotion:
  gated_lifecycle "may_step ENTITY_CANDIDATE" "\<lambda>s. s \<in> set (final_statuses ENTITY_CANDIDATE)"
    "''draft''" "''submission_ready''"
proof
  show "\<And>s. may_step ENTITY_CANDIDATE s ''submission_ready'' \<Longrightarrow> s = ''draft''"
    by (simp add: may_step_iff allowed_pairs_def)
qed

interpretation job_lifecycle:
  gated_lifecycle "may_step ENTITY_JOB" "\<lambda>s. s \<in> set (final_statuses ENTITY_JOB)"
    "''running''" "''complete''"
proof
  show "\<And>s t. s \<in> set (final_statuses ENTITY_JOB) \<Longrightarrow> \<not> may_step ENTITY_JOB s t"
    by (rule final_statuses_stuck)
  show "\<And>s. may_step ENTITY_JOB s ''complete'' \<Longrightarrow> s = ''running''"
    by (simp add: may_step_iff allowed_pairs_def)
qed

interpretation plan_lifecycle:
  ranked_lifecycle "may_step ENTITY_PLAN" "\<lambda>s. s \<in> set (final_statuses ENTITY_PLAN)" plan_rank
proof
  show "\<And>s t. s \<in> set (final_statuses ENTITY_PLAN) \<Longrightarrow> \<not> may_step ENTITY_PLAN s t"
    by (rule final_statuses_stuck)
  show "\<And>s t. may_step ENTITY_PLAN s t \<Longrightarrow> plan_rank t < plan_rank s"
    by (auto simp: may_step_iff allowed_pairs_def plan_rank_def)
qed

interpretation verification_lifecycle:
  ranked_lifecycle "may_step ENTITY_VERIFICATION"
    "\<lambda>s. s \<in> set (final_statuses ENTITY_VERIFICATION)" verification_rank
proof
  show "\<And>s t. s \<in> set (final_statuses ENTITY_VERIFICATION) \<Longrightarrow> \<not> may_step ENTITY_VERIFICATION s t"
    by (rule final_statuses_stuck)
  show "\<And>s t. may_step ENTITY_VERIFICATION s t \<Longrightarrow> verification_rank t < verification_rank s"
    by (auto simp: may_step_iff allowed_pairs_def verification_rank_def)
qed

end
