(* ===== verification/Contract_Properties.thy ===== *)
theory Contract_Properties
  imports Fixtures Lifecycle
begin

section \<open>What the operations contract guarantees\<close>

text \<open>
  Properties of the public operations document and its building blocks: what a submission in an
  accepted document rests on, what the document check leaves open, the state machines of the
  records, and the field validators (raw integers, sensitive JSON, the canary guard).
\<close>

subsection \<open>Documents\<close>

lemma document_verification:
  assumes "validate_operations_document b = Inr ()" and "v \<in> set (ob_verifications b)"
    and "vr_status v = VER_PASS"
  shows "(\<forall>check \<in> set (vr_required_checks v).
      \<exists>c \<in> set (vr_check_results v). vc_check c = check \<and> vc_passed c)"
  using assms validate_verification_pass [of v] by (simp add: result_simps validate_records_Inr)

text \<open>
  C7: In an accepted operations document every submission stands on a finished chain: its
  candidate exists and is submitted with recommendation submit and has result, evidence and verification
  references; each referenced verification exists, belongs to the same problem, passed every
  required check, and was run by a verifier job other than the job that created the candidate it verified.
\<close>

theorem submissions_are_verified:
  assumes "validate_operations_document b = Inr ()" and "s \<in> set (ob_submissions b)"
  shows "\<exists>c \<in> set (ob_candidates b). cd_candidate_id c = sb_candidate_id s
    \<and> cd_status c = CAND_SUBMITTED \<and> cd_recommendation c = SUBMIT
    \<and> cd_result_refs c \<noteq> [] \<and> cd_evidence_refs c \<noteq> [] \<and> cd_verification_refs c \<noteq> []
    \<and> (\<forall>vid \<in> set (cd_verification_refs c). \<exists>v \<in> set (ob_verifications b).
         vr_verification_id v = vid \<and> vr_problem_id v = cd_problem_id c \<and> vr_status v = VER_PASS
         \<and> (\<forall>check \<in> set (vr_required_checks v).
              \<exists>r \<in> set (vr_check_results v). vc_check r = check \<and> vc_passed r)
         \<and> (\<exists>j \<in> set (ob_jobs b). jb_job_id j = vr_verifier_job_id v \<and> jb_role j = VERIFIER)
         \<and> (\<exists>d \<in> set (ob_candidates b). cd_candidate_id d = vr_candidate_id v
              \<and> cd_created_by_job_id d \<noteq> vr_verifier_job_id v))"
proof -
  have rec: "validate_records b = Inr ()" and refs: "references_are_valid b = Inr ()"
    using assms(1) by (simp_all add: result_simps)
  have "check_submission_refs (bundle_candidates b) s = Inr ()"
    using refs assms(2) by (simp add: references_are_valid_Inr)
  then obtain c where c: "bundle_candidates b (sb_candidate_id s) = Some c" "cd_status c = CAND_SUBMITTED"
    by (auto simp: check_submission_refs_Inr)
  then have cin: "c \<in> set (ob_candidates b)" "cd_candidate_id c = sb_candidate_id s"
    using index_by_SomeD by metis+
  have ready: "cd_result_refs c \<noteq> [] \<and> cd_evidence_refs c \<noteq> [] \<and> cd_verification_refs c \<noteq> []
      \<and> cd_recommendation c = SUBMIT"
    using validate_candidate_ready [of c] rec cin(1) c(2) by (simp add: validate_records_Inr)
  have "\<exists>v \<in> set (ob_verifications b). vr_verification_id v = vid \<and> vr_problem_id v = cd_problem_id c
      \<and> vr_status v = VER_PASS
      \<and> (\<forall>check \<in> set (vr_required_checks v).
           \<exists>r \<in> set (vr_check_results v). vc_check r = check \<and> vc_passed r)
      \<and> (\<exists>j \<in> set (ob_jobs b). jb_job_id j = vr_verifier_job_id v \<and> jb_role j = VERIFIER)
      \<and> (\<exists>d \<in> set (ob_candidates b). cd_candidate_id d = vr_candidate_id v
           \<and> cd_created_by_job_id d \<noteq> vr_verifier_job_id v)"
    if vid: "vid \<in> set (cd_verification_refs c)" for vid
  proof -
    have "check_candidate_refs (bundle_problems b) (bundle_jobs b) (bundle_verifications b) c = Inr ()"
      using refs cin(1) by (simp add: references_are_valid_Inr)
    then obtain v where v: "bundle_verifications b vid = Some v" "vr_problem_id v = cd_problem_id c"
        "vr_status v = VER_PASS"
      using vid c(2) unfolding check_candidate_refs_Inr by fastforce
    then have vin: "v \<in> set (ob_verifications b)" "vr_verification_id v = vid"
      using index_by_SomeD by metis+
    have "check_verification_refs (bundle_candidates b) (bundle_jobs b) v = Inr ()"
      using refs vin(1) by (simp add: references_are_valid_Inr)
    then obtain d j where "bundle_candidates b (vr_candidate_id v) = Some d"
        "cd_created_by_job_id d \<noteq> vr_verifier_job_id v"
        "bundle_jobs b (vr_verifier_job_id v) = Some j" "jb_role j = VERIFIER"
      unfolding check_verification_refs_Inr by blast
    then have "d \<in> set (ob_candidates b)" "cd_candidate_id d = vr_candidate_id v"
        "j \<in> set (ob_jobs b)" "jb_job_id j = vr_verifier_job_id v"
        "cd_created_by_job_id d \<noteq> vr_verifier_job_id v" "jb_role j = VERIFIER"
      using index_by_SomeD by metis+
    with v(2,3) vin document_verification [OF assms(1) vin(1) v(3)] show ?thesis by metis
  qed
  with c(2) cin ready show ?thesis by metis
qed

theorem submissions_are_verified_witness:
  "\<exists>c \<in> set (ob_candidates fx_submitted). cd_candidate_id c = sb_candidate_id fx_submission
    \<and> cd_status c = CAND_SUBMITTED \<and> cd_recommendation c = SUBMIT"
  using submissions_are_verified [OF fx_submitted_valid, of fx_submission]
  by (auto simp: fx_submitted_def fx_bundle_def)

subsection \<open>The verifications a candidate names\<close>

text \<open>A document in which one candidate names other verifications, and nothing else is changed.\<close>

definition with_verification_refs :: "string \<Rightarrow> string list \<Rightarrow> candidate_record \<Rightarrow> candidate_record" where
  "with_verification_refs cid refs c = (if cd_candidate_id c = cid then c\<lparr>cd_verification_refs := refs\<rparr> else c)"

definition citing :: "string \<Rightarrow> string list \<Rightarrow> operations_bundle \<Rightarrow> operations_bundle" where
  "citing cid refs b = b\<lparr>ob_candidates := map (with_verification_refs cid refs) (ob_candidates b)\<rparr>"

lemma with_verification_refs_simps [simp]:
  "cd_candidate_id (with_verification_refs cid refs c) = cd_candidate_id c"
  "cd_problem_id (with_verification_refs cid refs c) = cd_problem_id c"
  "cd_created_by_job_id (with_verification_refs cid refs c) = cd_created_by_job_id c"
  "cd_status (with_verification_refs cid refs c) = cd_status c"
  "cd_verification_refs (with_verification_refs cid refs c) = (if cd_candidate_id c = cid then refs else cd_verification_refs c)"
  by (simp_all add: with_verification_refs_def)

lemma only_citing_candidate:
  assumes "distinct (map cd_candidate_id cs)" and "c \<in> set cs" and "\<forall>d \<in> set cs. P d"
  shows "(\<forall>d \<in> set cs. P (with_verification_refs (cd_candidate_id c) refs d)) \<longleftrightarrow> P (c\<lparr>cd_verification_refs := refs\<rparr>)"
proof -
  have "with_verification_refs (cd_candidate_id c) refs d = (if d = c then c\<lparr>cd_verification_refs := refs\<rparr> else d)"
    if "d \<in> set cs" for d
    using that assms(1,2) by (auto simp: with_verification_refs_def distinct_map dest: inj_onD)
  with assms(2,3) show ?thesis by auto
qed

lemma checks_of_citing_candidates [simp]:
  "check_verification_refs (\<lambda>k. map_option (with_verification_refs cid refs) (candidates k)) jobs =
     check_verification_refs candidates jobs"
  "check_submission_refs (\<lambda>k. map_option (with_verification_refs cid refs) (candidates k)) =
     check_submission_refs candidates"
  by (auto simp: check_verification_refs_def check_submission_refs_def require_ref_def fun_eq_iff split: option.splits)

lemma validate_citing_candidate:
  assumes "validate_candidate c = Inr ()"
  shows "validate_candidate (c\<lparr>cd_verification_refs := refs\<rparr>) = Inr () \<longleftrightarrow>
    distinct refs \<and> list_all verification_id_ok refs
    \<and> (cd_status c \<in> {CAND_SUBMISSION_READY, CAND_SUBMITTED} \<longrightarrow> refs \<noteq> [])"
  using assms
  by (auto simp: validate_candidate_def ready_candidate_has_evidence_def candidate_fields_ok_def result_simps)

lemma citing_records_valid:
  assumes "validate_records b = Inr ()" and "distinct (map cd_candidate_id (ob_candidates b))"
    and "c \<in> set (ob_candidates b)"
  shows "validate_records (citing (cd_candidate_id c) refs b) = Inr () \<longleftrightarrow>
    distinct refs \<and> list_all verification_id_ok refs
    \<and> (cd_status c \<in> {CAND_SUBMISSION_READY, CAND_SUBMITTED} \<longrightarrow> refs \<noteq> [])"
proof -
  have "\<forall>d \<in> set (ob_candidates b). validate_candidate d = Inr ()" using assms(1) by (simp add: validate_records_Inr)
  note only_citing_candidate [OF assms(2,3) this, of refs]
  moreover have "validate_candidate c = Inr ()" using assms(1,3) by (simp add: validate_records_Inr)
  ultimately show ?thesis using assms(1) by (simp add: citing_def validate_records_Inr validate_citing_candidate)
qed

lemma citing_references_valid:
  assumes "references_are_valid b = Inr ()" and "c \<in> set (ob_candidates b)"
  shows "references_are_valid (citing (cd_candidate_id c) refs b) = Inr () \<longleftrightarrow>
    (\<forall>vid \<in> set refs. \<exists>v \<in> set (ob_verifications b). vr_verification_id v = vid \<and> vr_problem_id v = cd_problem_id c
       \<and> (cd_status c \<in> {CAND_SUBMISSION_READY, CAND_SUBMITTED} \<longrightarrow> vr_status v = VER_PASS))"
    (is "_ \<longleftrightarrow> ?cited")
proof -
  note keys = assms(1) [unfolded references_are_valid_Inr]
  let ?w = "with_verification_refs (cd_candidate_id c) refs" and ?u = "citing (cd_candidate_id c) refs b"
  have candidates: "bundle_candidates ?u = (\<lambda>k. map_option ?w (bundle_candidates b k))"
    by (auto simp: fun_eq_iff citing_def intro!: index_by_map)
  have fields: "ob_manifest ?u = ob_manifest b" "ob_operations_schema_version ?u = ob_operations_schema_version b"
    "ob_problems ?u = ob_problems b" "ob_ai_modes ?u = ob_ai_modes b" "ob_plans ?u = ob_plans b" "ob_jobs ?u = ob_jobs b"
    "ob_verifications ?u = ob_verifications b" "ob_submissions ?u = ob_submissions b" "ob_events ?u = ob_events b"
    "ob_errors ?u = ob_errors b" "ob_candidates ?u = map ?w (ob_candidates b)"
    by (simp_all add: citing_def)
  have global: "check_competitions ?u = check_competitions b" "check_fake_modes ?u = check_fake_modes b"
    by (simp_all add: check_competitions_def check_fake_modes_def fields)
  have distinct: "distinct (map cd_candidate_id (map ?w (ob_candidates b)))"
    using keys by (simp add: distinct_map_keep del: map_map)
  have found: "bundle_verifications b vid = Some v \<longleftrightarrow> v \<in> set (ob_verifications b) \<and> vr_verification_id v = vid" for vid v
    using keys by (simp add: index_by_iff)
  have checked: "\<forall>d \<in> set (ob_candidates b).
      check_candidate_refs (bundle_problems b) (bundle_jobs b) (bundle_verifications b) d = Inr ()"
    using keys by simp
  have unique: "distinct (map cd_candidate_id (ob_candidates b))" using keys by simp
  have "check_candidate_refs (bundle_problems b) (bundle_jobs b) (bundle_verifications b) c = Inr ()"
    using checked assms(2) by blast
  then have "check_candidate_refs (bundle_problems b) (bundle_jobs b) (bundle_verifications b)
      (c\<lparr>cd_verification_refs := refs\<rparr>) = Inr () \<longleftrightarrow> ?cited"
    by (auto simp: check_candidate_refs_Inr found Bex_def)
  note this [folded only_citing_candidate [OF unique assms(2) checked, of refs]]
  with keys global distinct show ?thesis
    unfolding references_are_valid_Inr candidates by (simp add: fields del: map_map)
qed

text \<open>
  C33: The document check does not tie the verifications a candidate names to that candidate. Whatever
  verifications a candidate of an accepted document is made to name instead of its own, the document is
  accepted exactly if they are distinct, exist, belong to the problem of the candidate and, for a candidate that is
  ready or submitted, are not none at all and passed. Which candidate they verified does not matter, so a
  candidate can be ready for submission on verifications of other candidates only.
\<close>

theorem verification_of_another_candidate_accepted:
  assumes "validate_operations_document b = Inr ()" and "c \<in> set (ob_candidates b)"
  shows "validate_operations_document (citing (cd_candidate_id c) refs b) = Inr () \<longleftrightarrow>
    distinct refs \<and> (cd_status c \<in> {CAND_SUBMISSION_READY, CAND_SUBMITTED} \<longrightarrow> refs \<noteq> [])
    \<and> (\<forall>vid \<in> set refs. \<exists>v \<in> set (ob_verifications b). vr_verification_id v = vid \<and> vr_problem_id v = cd_problem_id c
         \<and> (cd_status c \<in> {CAND_SUBMISSION_READY, CAND_SUBMITTED} \<longrightarrow> vr_status v = VER_PASS))"
proof -
  have valid: "validate_records b = Inr ()" "references_are_valid b = Inr ()" using assms(1) by (simp_all add: result_simps)
  then have "distinct (map cd_candidate_id (ob_candidates b))" by (simp add: references_are_valid_Inr)
  note parts = citing_records_valid [OF valid(1) this assms(2)] citing_references_valid [OF valid(2) assms(2)]
  have "verification_id_ok (vr_verification_id v)" if "v \<in> set (ob_verifications b)" for v
    using that valid(1) by (auto simp: validate_records_Inr validate_verification_def verification_fields_ok_def result_simps)
  then show ?thesis by (auto simp: validate_document_Inr parts list_all_iff)
qed

theorem verification_of_another_candidate_accepted_witness:
  "validate_operations_document (citing ''CAND-AAA'' [''VER-BBB''] fx_borrowing) = Inr ()
   \<and> (\<exists>c \<in> set (ob_candidates (citing ''CAND-AAA'' [''VER-BBB''] fx_borrowing)).
        cd_candidate_id c = ''CAND-AAA'' \<and> cd_status c = CAND_SUBMISSION_READY \<and> cd_verification_refs c = [''VER-BBB''])
   \<and> map (\<lambda>v. (vr_verification_id v, vr_candidate_id v)) (ob_verifications fx_borrowing)
       = [(''VER-AAA'', ''CAND-AAA''), (''VER-BBB'', ''CAND-BBB'')]"
proof -
  have "fx_candidate ''CAND-AAA'' CAND_SUBMISSION_READY \<in> set (ob_candidates fx_borrowing)"
    by (simp add: fx_borrowing_def fx_bundle_def)
  from verification_of_another_candidate_accepted [OF fx_borrowing_valid this, of "[''VER-BBB'']"] show ?thesis
    by (simp add: fx_borrowing_def fx_bundle_def fx_candidate_def fx_verification_def citing_def)
qed

subsection \<open>State machines\<close>

text \<open>
  A candidate becomes submitted only by way of draft and then submission_ready: from any other
  status, whatever accepted transitions lead to submitted pass through both, in this order.
\<close>

theorem submitted_only_through_ready:
  assumes "(may_step ENTITY_CANDIDATE)\<^sup>*\<^sup>* s ''submitted''"
    and "s \<noteq> ''submitted''" and "s \<noteq> ''submission_ready''"
  shows "(may_step ENTITY_CANDIDATE)\<^sup>*\<^sup>* s ''draft''
    \<and> may_step ENTITY_CANDIDATE ''draft'' ''submission_ready''
    \<and> may_step ENTITY_CANDIDATE ''submission_ready'' ''submitted''"
  using candidate_lifecycle.reached_through_gate [OF assms(1,2)]
    candidate_promotion.reached_through_gate [OF _ assms(3)] by blast

theorem submitted_only_through_ready_witness:
  "may_step ENTITY_CANDIDATE ''submission_ready'' ''submitted''"
proof -
  let ?s = "(may_step ENTITY_CANDIDATE)\<^sup>*\<^sup>*"
  have "may_step ENTITY_CANDIDATE ''review_required'' ''draft''"
    "may_step ENTITY_CANDIDATE ''draft'' ''submission_ready''"
    "may_step ENTITY_CANDIDATE ''submission_ready'' ''submitted''"
    by (simp_all add: may_step_iff allowed_pairs_def)
  then have "?s ''review_required'' ''submitted''"
    by (meson converse_rtranclp_into_rtranclp rtranclp.rtrancl_refl)
  from submitted_only_through_ready [OF this] show ?thesis by simp
qed

text \<open>
  Final statuses are final: once a record of any kind is in a status without outgoing
  transitions, no sequence of accepted transitions changes it.
\<close>

theorem final_statuses_absorb:
  assumes "s \<in> set (final_statuses e)" and "(may_step e)\<^sup>*\<^sup>* s t"
  shows "t = s"
  using assms problem_lifecycle.final_forever candidate_lifecycle.final_forever
    job_lifecycle.final_forever plan_lifecycle.final_forever verification_lifecycle.final_forever
  by (cases e) blast+

theorem final_statuses_absorb_witness:
  "''rejected'' \<in> set (final_statuses ENTITY_PLAN)
    \<and> {t. (may_step ENTITY_PLAN)\<^sup>*\<^sup>* ''rejected'' t} = {''rejected''}"
proof -
  have "''rejected'' \<in> set (final_statuses ENTITY_PLAN)" by code_simp
  with final_statuses_absorb [of "''rejected''" ENTITY_PLAN] show ?thesis by auto
qed

text \<open>
  Plans and verifications cannot cycle: a plan makes at most three accepted transitions and a
  verification at most two, from any status.
\<close>

theorem plans_and_verifications_terminate:
  "((may_step ENTITY_PLAN ^^ n) s t \<longrightarrow> n \<le> 3) \<and> ((may_step ENTITY_VERIFICATION ^^ m) u v \<longrightarrow> m \<le> 2)"
  using plan_lifecycle.run_bounded [of n s t] verification_lifecycle.run_bounded [of m u v]
  by (auto simp: plan_rank_def verification_rank_def split: if_splits)

theorem plans_and_verifications_terminate_witness:
  "(may_step ENTITY_PLAN ^^ 3) ''rules_gated'' ''superseded'' \<and> (3::nat) \<le> 3"
proof -
  have "may_step ENTITY_PLAN ''rules_gated'' ''proposed''" "may_step ENTITY_PLAN ''proposed'' ''approved''"
    "may_step ENTITY_PLAN ''approved'' ''superseded''"
    by (simp_all add: may_step_iff allowed_pairs_def)
  then have "(may_step ENTITY_PLAN ^^ 3) ''rules_gated'' ''superseded''"
    by (auto simp: numeral_3_eq_3)
  with plans_and_verifications_terminate [of 3 "''rules_gated''" "''superseded''"] show ?thesis by blast
qed

subsection \<open>Field validators\<close>

text \<open>
  The canonical text of an integer is accepted as a raw value exactly when the integer fits an
  unsigned 256-bit word, and reading it back gives the integer.
\<close>

theorem raw_values_are_words:
  "(is_canonical_uint256 (JStr (show_nat n)) \<longleftrightarrow> n < 2 ^ 256) \<and> decimal_value (show_nat n) = n"
proof -
  have "Suc uint256_max = 2 ^ 256" by (simp add: uint256_max_def)
  then have "n \<le> uint256_max \<longleftrightarrow> n < 2 ^ 256" by (metis less_Suc_eq_le)
  then show ?thesis by (simp add: is_canonical_uint256_def show_nat_value show_nat_canonical)
qed

text \<open>
  The recursive raw-value check is exact: it accepts a document if and only if every field at
  any depth whose name ends in _raw holds a canonical uint256 or an array of them.
\<close>

theorem raw_value_check_exact:
  "raw_values_are_uint256 j = Inr () \<longleftrightarrow>
     (\<forall>(k, v) \<in> set (json_fields j). ends_with ''_raw'' k \<longrightarrow> raw_field_ok v)"
  by (rule raw_values_iff(1))

theorem raw_value_check_exact_witness:
  "raw_values_are_uint256 (JObj [(''a'', JArr [JObj [(''amount_raw'', JStr ''012'')]])]) \<noteq> Inr ()"
  using raw_value_check_exact [of "JObj [(''a'', JArr [JObj [(''amount_raw'', JStr ''012'')]])]"]
  by (simp add: ends_with_def raw_field_ok_def is_canonical_uint256_def canonical_decimal_def
      decimal_digits_def)

text \<open>
  Accepted operations JSON has no field with a sensitive name (in any capitalisation) and no
  local absolute path as a field value, at any depth.
\<close>

theorem safe_json_has_no_secrets:
  assumes "safe_json j = Inr ()" and "(k, v) \<in> set (json_fields j)"
  shows "map to_lower k \<notin> set sensitive_detail_keys \<and> (\<forall>s. v = JStr s \<longrightarrow> \<not> is_absolute_path s)"
  using assms by (rule safe_json_sound(1))

theorem safe_json_has_no_secrets_witness:
  "map to_lower ''Note'' \<notin> set sensitive_detail_keys \<and> \<not> is_absolute_path ''rel/path''"
proof -
  let ?j = "JObj [(''a'', JArr [JObj [(''Note'', JStr ''rel/path'')]])]"
  have "safe_json ?j = Inr ()" by code_simp
  moreover have "(''Note'', JStr ''rel/path'') \<in> set (json_fields ?j)" by simp
  ultimately show ?thesis using safe_json_has_no_secrets [of ?j "''Note''" "JStr ''rel/path''"] by blast
qed

text \<open>
  What passes the sensitive-data guard contains, at no position, a local user path or the encoding
  of a non-empty forbidden value.
\<close>

theorem guard_blocks_leaks:
  assumes "check_text forbidden text = Inr ()" and "f \<in> set forbidden" and "f \<noteq> []"
    and "encode text = before @ rest"
  shows "\<not> starts_with (encode f) rest \<and> \<not> local_path_at rest"
proof -
  have c: "contains_text p (xs @ ys)" if "starts_with p ys" for p xs ys
    using that by (induction xs) (cases ys, simp_all)
  have "\<not> contains_text (encode f) (before @ rest)" and "\<not> has_local_path (before @ rest)"
    using assms unfolding check_text_def check_bytes_Inr by auto
  then show ?thesis using c has_local_path_append by blast
qed

theorem guard_blocks_leaks_witness:
  "\<not> starts_with (encode ''key'') (encode ''safe'') \<and> \<not> local_path_at (encode ''safe'')"
proof (rule guard_blocks_leaks)
  show "check_text [''key''] (''very '' @ ''safe'') = Inr ()" by code_simp
  show "encode (''very '' @ ''safe'') = encode ''very '' @ encode ''safe''" by (simp add: encode_def)
qed simp_all

end
