(* ===== verification/Request_Pool.thy ===== *)
theory Request_Pool
  imports Scheduler
begin

section \<open>The pool of in-flight source requests\<close>

text \<open>
  \<^verbatim>\<open>InFlightRequestPool\<close> of \<^verbatim>\<open>application/scheduler.py\<close>: identical reads share one task, and each
  source capability has a semaphore. The atomic pieces of the coroutines between two awaits are
  functions on the pool's state (the lock makes the lookup and the registration of a task one
  piece); which piece runs next is the event loop's choice, so the pool is a step relation. A task is
  its position in the list of all tasks ever created.
\<close>

datatype task_phase = Task_Waiting | Task_Running | Task_Done

record pool_task =
  pt_capability :: string
  pt_request_key :: string
  pt_phase :: task_phase

record request_pool =
  rp_limits :: "(string, int) dict"
  rp_semaphores :: "(string, int) dict"
  rp_inflight :: "((string \<times> string) \<times> nat) list"
  rp_tasks :: "pool_task list"
  rp_active :: "(string, int) dict"
  rp_max_observed :: "(string, int) dict"

definition pool_init :: "(string, int) dict \<Rightarrow> scheduler_error + request_pool" where
  "pool_init limits =
     and_then
       (raise_if (limits = [] \<or> list_ex (\<lambda>(_, l). l < 1) limits)
         (Value_Error ''capability limits must contain positive values'')) (\<lambda>_.
     Inr \<lparr>rp_limits = limits, rp_semaphores = limits, rp_inflight = [], rp_tasks = [],
          rp_active = map (\<lambda>(c, _). (c, 0)) limits,
          rp_max_observed = map (\<lambda>(c, _). (c, 0)) limits\<rparr>)"

text \<open>
  \<^verbatim>\<open>execute\<close> up to its await: the task the caller then awaits (shielded), an old one or a new one.
\<close>

definition pool_execute :: "string \<Rightarrow> string \<Rightarrow> request_pool \<Rightarrow> scheduler_error + nat \<times> request_pool" where
  "pool_execute capability request_key p =
     (if map_of (rp_semaphores p) capability = None
      then Inl (Value_Error ''source capability has no approved concurrency limit'')
      else if request_key = [] then Inl (Value_Error ''request_key must not be empty'')
      else
        let key = (capability, request_key) in
        case map_of (rp_inflight p) key of
          Some task \<Rightarrow> Inr (task, p)
        | None \<Rightarrow>
            let task = length (rp_tasks p) in
            Inr (task,
              p\<lparr>rp_tasks := rp_tasks p @
                  [\<lparr>pt_capability = capability, pt_request_key = request_key, pt_phase = Task_Waiting\<rparr>],
                rp_inflight := (key, task) # rp_inflight p\<rparr>))"

definition set_phase :: "nat \<Rightarrow> task_phase \<Rightarrow> request_pool \<Rightarrow> request_pool" where
  "set_phase task phase p =
     p\<lparr>rp_tasks := (rp_tasks p)[task := (rp_tasks p ! task)\<lparr>pt_phase := phase\<rparr>]\<rparr>"

text \<open>\<^verbatim>\<open>_run_source\<close>: from the acquired semaphore to the await of the operation, and its finally.\<close>

definition enter_source :: "nat \<Rightarrow> request_pool \<Rightarrow> request_pool" where
  "enter_source task p =
     (let c = pt_capability (rp_tasks p ! task);
          active = dict_get (rp_active p) c 0 + 1 in
      (set_phase task Task_Running p)
      \<lparr>rp_semaphores := dict_set c (dict_get (rp_semaphores p) c 0 - 1) (rp_semaphores p),
       rp_active := dict_set c active (rp_active p),
       rp_max_observed := dict_set c (max (dict_get (rp_max_observed p) c 0) active) (rp_max_observed p)\<rparr>)"

definition leave_source :: "nat \<Rightarrow> request_pool \<Rightarrow> request_pool" where
  "leave_source task p =
     (let c = pt_capability (rp_tasks p ! task) in
      (set_phase task Task_Done p)
      \<lparr>rp_semaphores := dict_set c (dict_get (rp_semaphores p) c 0 + 1) (rp_semaphores p),
       rp_active := dict_set c (dict_get (rp_active p) c 0 - 1) (rp_active p)\<rparr>)"

text \<open>\<^verbatim>\<open>_forget\<close>, the callback of a finished task.\<close>

definition forget :: "nat \<Rightarrow> request_pool \<Rightarrow> request_pool" where
  "forget task p =
     (let key = (pt_capability (rp_tasks p ! task), pt_request_key (rp_tasks p ! task)) in
      if map_of (rp_inflight p) key = Some task
      then p\<lparr>rp_inflight := filter (\<lambda>(k, _). k \<noteq> key) (rp_inflight p)\<rparr> else p)"

abbreviation phase_of :: "request_pool \<Rightarrow> nat \<Rightarrow> task_phase" where
  "phase_of p task \<equiv> pt_phase (rp_tasks p ! task)"

inductive pool_step :: "request_pool \<Rightarrow> request_pool \<Rightarrow> bool" where
  requested: "pool_execute capability request_key p = Inr (task, p') \<Longrightarrow> pool_step p p'"
| acquired: "task < length (rp_tasks p) \<Longrightarrow> phase_of p task = Task_Waiting
    \<Longrightarrow> 0 < dict_get (rp_semaphores p) (pt_capability (rp_tasks p ! task)) 0
    \<Longrightarrow> pool_step p (enter_source task p)"
| left: "task < length (rp_tasks p) \<Longrightarrow> phase_of p task = Task_Running
    \<Longrightarrow> pool_step p (leave_source task p)"
| cancelled: "task < length (rp_tasks p) \<Longrightarrow> phase_of p task = Task_Waiting
    \<Longrightarrow> pool_step p (set_phase task Task_Done p)"
| forgotten: "task < length (rp_tasks p) \<Longrightarrow> phase_of p task = Task_Done
    \<Longrightarrow> pool_step p (forget task p)"

inductive_cases pool_stepE: "pool_step p p'"

subsection \<open>The invariant\<close>

definition task_key :: "pool_task \<Rightarrow> string \<times> string" where
  "task_key t = (pt_capability t, pt_request_key t)"

definition running :: "request_pool \<Rightarrow> string \<Rightarrow> int" where
  "running p c = int (count_if (\<lambda>t. pt_capability t = c \<and> pt_phase t = Task_Running) (rp_tasks p))"

definition counts_ok :: "request_pool \<Rightarrow> bool" where
  "counts_ok p \<longleftrightarrow>
     (\<forall>c. dict_get (rp_active p) c 0 = running p c
        \<and> dict_get (rp_semaphores p) c 0 + running p c = dict_get (rp_limits p) c 0
        \<and> 0 \<le> dict_get (rp_semaphores p) c 0
        \<and> dict_get (rp_max_observed p) c 0 \<le> dict_get (rp_limits p) c 0)"

definition registered :: "request_pool \<Rightarrow> bool" where
  "registered p \<longleftrightarrow>
     (\<forall>key task. map_of (rp_inflight p) key = Some task \<longrightarrow>
        task < length (rp_tasks p) \<and> task_key (rp_tasks p ! task) = key)
     \<and> (\<forall>task < length (rp_tasks p). phase_of p task \<noteq> Task_Done \<longrightarrow>
          map_of (rp_inflight p) (task_key (rp_tasks p ! task)) = Some task)"

definition pool_inv :: "request_pool \<Rightarrow> bool" where
  "pool_inv p \<longleftrightarrow> counts_ok p \<and> registered p"

lemma count_if_update:
  "i < length xs \<Longrightarrow>
     count_if P (xs[i := y]) + (if P (xs ! i) then 1 else 0) = count_if P xs + (if P y then 1 else 0)"
proof (induction xs arbitrary: i)
  case (Cons x xs)
  then show ?case by (cases i) auto
qed simp

lemma running_set_phase:
  assumes "task < length (rp_tasks p)"
  shows "running (set_phase task phase p) c
    = running p c
      + (if pt_capability (rp_tasks p ! task) = c \<and> phase = Task_Running then 1 else 0)
      - (if pt_capability (rp_tasks p ! task) = c \<and> phase_of p task = Task_Running then 1 else 0)"
  using count_if_update [OF assms, of "\<lambda>t. pt_capability t = c \<and> pt_phase t = Task_Running"
      "(rp_tasks p ! task)\<lparr>pt_phase := phase\<rparr>"]
  by (auto simp: running_def set_phase_def split: if_splits)

lemma running_tasks: "rp_tasks p' = rp_tasks p \<Longrightarrow> running p' = running p"
  by (simp add: running_def fun_eq_iff)

lemma set_phase_fields [simp]:
  "rp_limits (set_phase task phase p) = rp_limits p"
  "rp_semaphores (set_phase task phase p) = rp_semaphores p"
  "rp_inflight (set_phase task phase p) = rp_inflight p"
  "rp_active (set_phase task phase p) = rp_active p"
  "rp_max_observed (set_phase task phase p) = rp_max_observed p"
  "length (rp_tasks (set_phase task phase p)) = length (rp_tasks p)"
  by (simp_all add: set_phase_def)

lemma set_phase_nth:
  "task < length (rp_tasks p) \<Longrightarrow>
     rp_tasks (set_phase task phase p) ! i
     = (if i = task then (rp_tasks p ! task)\<lparr>pt_phase := phase\<rparr> else rp_tasks p ! i)"
  by (simp add: set_phase_def nth_list_update)

lemma task_key_phase [simp]: "task_key (t\<lparr>pt_phase := phase\<rparr>) = task_key t"
  by (simp add: task_key_def)

lemma registered_lookup:
  "registered p \<Longrightarrow> map_of (rp_inflight p) key = Some task \<Longrightarrow>
     task < length (rp_tasks p) \<and> task_key (rp_tasks p ! task) = key"
  unfolding registered_def by blast

lemma registered_unfinished:
  "registered p \<Longrightarrow> task < length (rp_tasks p) \<Longrightarrow> phase_of p task \<noteq> Task_Done \<Longrightarrow>
     map_of (rp_inflight p) (task_key (rp_tasks p ! task)) = Some task"
  unfolding registered_def by blast

lemma registered_set_phase:
  assumes "registered p" and "task < length (rp_tasks p)" and "phase_of p task \<noteq> Task_Done"
    and "rp_tasks p' = rp_tasks (set_phase task phase p)" and "rp_inflight p' = rp_inflight p"
  shows "registered p'"
  using assms by (auto simp: registered_def set_phase_nth)

lemma pool_execute_inv:
  assumes inv: "pool_inv p" and ex: "pool_execute c k p = Inr (task, p')"
  shows "pool_inv p' \<and> task < length (rp_tasks p') \<and> task_key (rp_tasks p' ! task) = (c, k)"
proof (cases "map_of (rp_inflight p) (c, k)")
  case (Some t)
  with ex have "task = t" "p' = p" by (auto simp: pool_execute_def Let_def split: if_splits)
  with Some inv show ?thesis by (auto simp: pool_inv_def registered_def)
next
  case None
  let ?t = "\<lparr>pt_capability = c, pt_request_key = k, pt_phase = Task_Waiting\<rparr>"
  have t: "task = length (rp_tasks p)"
    and p': "p' = p\<lparr>rp_tasks := rp_tasks p @ [?t], rp_inflight := ((c, k), task) # rp_inflight p\<rparr>"
    using ex None by (auto simp: pool_execute_def Let_def split: if_splits)
  have "running p' = running p" by (simp add: fun_eq_iff running_def p')
  then have "counts_ok p'" using inv by (simp add: pool_inv_def counts_ok_def p')
  moreover have "registered p'"
  proof -
    have reg: "registered p" using inv by (simp add: pool_inv_def)
    have ne: "task_key (rp_tasks p ! i) \<noteq> (c, k)"
      if "i < length (rp_tasks p)" "phase_of p i \<noteq> Task_Done" for i
      using registered_unfinished [OF reg that] None by auto
    have old: "rp_tasks p' ! i = rp_tasks p ! i" if "i < length (rp_tasks p)" for i
      using that by (simp add: p' nth_append)
    have new: "rp_tasks p' ! task = ?t" "length (rp_tasks p') = Suc task" by (simp_all add: p' t)
    have lookup: "map_of (rp_inflight p') key = (if key = (c, k) then Some task else map_of (rp_inflight p) key)" for key
      by (simp add: p')
    show ?thesis
      unfolding registered_def
    proof (intro conjI allI impI)
      fix key i assume i: "map_of (rp_inflight p') key = Some i"
      show "i < length (rp_tasks p')"
      proof (cases "key = (c, k)")
        case False
        then have "i < length (rp_tasks p)" using i registered_lookup [OF reg] by (simp add: lookup)
        then show ?thesis using t new(2) by simp
      qed (use i new(2) in \<open>simp add: lookup\<close>)
      show "task_key (rp_tasks p' ! i) = key"
        using i registered_lookup [OF reg] new(1) old by (auto simp: lookup task_key_def split: if_splits)
    next
      fix i assume i: "i < length (rp_tasks p')" "phase_of p' i \<noteq> Task_Done"
      show "map_of (rp_inflight p') (task_key (rp_tasks p' ! i)) = Some i"
      proof (cases "i = task")
        case True
        then show ?thesis by (simp add: lookup new(1) task_key_def)
      next
        case False
        then have "i < length (rp_tasks p)" using i(1) new(2) t by simp
        with i(2) old ne reg show ?thesis by (simp add: lookup registered_def)
      qed
    qed
  qed
  ultimately show ?thesis by (simp add: pool_inv_def p' t nth_append task_key_def)
qed

lemma enter_source_inv:
  assumes inv: "pool_inv p" and t: "task < length (rp_tasks p)" and w: "phase_of p task = Task_Waiting"
    and sem: "0 < dict_get (rp_semaphores p) (pt_capability (rp_tasks p ! task)) 0"
  shows "pool_inv (enter_source task p)"
proof -
  let ?c = "pt_capability (rp_tasks p ! task)" and ?p = "enter_source task p"
  have co: "counts_ok p" and reg: "registered p" using inv by (simp_all add: pool_inv_def)
  have tasks: "rp_tasks ?p = rp_tasks (set_phase task Task_Running p)"
    by (simp add: enter_source_def Let_def)
  have r: "running ?p d = running p d + (if d = ?c then 1 else 0)" for d
    unfolding running_tasks [OF tasks] using running_set_phase [OF t, of Task_Running d] w by auto
  have eqs: "dict_get (rp_semaphores p) ?c 0 + running p ?c = dict_get (rp_limits p) ?c 0"
    "dict_get (rp_active p) ?c 0 = running p ?c"
    using co by (simp_all add: counts_ok_def)
  then have le: "running p ?c + 1 \<le> dict_get (rp_limits p) ?c 0" using sem by linarith
  have "counts_ok ?p"
    unfolding counts_ok_def r
    using co eqs(2) sem le by (auto simp: enter_source_def Let_def counts_ok_def)
  moreover have "registered ?p"
    by (rule registered_set_phase [OF reg t _ tasks]) (simp_all add: w enter_source_def Let_def)
  ultimately show ?thesis by (simp add: pool_inv_def)
qed

lemma leave_source_inv:
  assumes inv: "pool_inv p" and t: "task < length (rp_tasks p)" and w: "phase_of p task = Task_Running"
  shows "pool_inv (leave_source task p)"
proof -
  let ?c = "pt_capability (rp_tasks p ! task)" and ?p = "leave_source task p"
  have co: "counts_ok p" and reg: "registered p" using inv by (simp_all add: pool_inv_def)
  have tasks: "rp_tasks ?p = rp_tasks (set_phase task Task_Done p)"
    by (simp add: leave_source_def Let_def)
  have r: "running ?p d = running p d - (if d = ?c then 1 else 0)" for d
    unfolding running_tasks [OF tasks] using running_set_phase [OF t, of Task_Done d] w by auto
  have "counts_ok ?p"
    unfolding counts_ok_def r
    using co by (auto simp: leave_source_def Let_def counts_ok_def intro: add_nonneg_nonneg)
  moreover have "registered ?p"
    by (rule registered_set_phase [OF reg t _ tasks]) (simp_all add: w leave_source_def Let_def)
  ultimately show ?thesis by (simp add: pool_inv_def)
qed

lemma cancel_inv:
  assumes inv: "pool_inv p" and t: "task < length (rp_tasks p)" and w: "phase_of p task = Task_Waiting"
  shows "pool_inv (set_phase task Task_Done p)"
proof -
  have "running (set_phase task Task_Done p) = running p"
    using running_set_phase [OF t, of Task_Done] w by (simp add: fun_eq_iff)
  moreover have "registered (set_phase task Task_Done p)"
    by (rule registered_set_phase [OF _ t _ refl]) (use inv w in \<open>simp_all add: pool_inv_def\<close>)
  ultimately show ?thesis using inv by (simp add: pool_inv_def counts_ok_def)
qed

lemma map_of_filter_key: "map_of (filter (\<lambda>(k, _). k \<noteq> key) d) k = (if k = key then None else map_of d k)"
  by (induction d) auto

lemma forget_inv:
  assumes inv: "pool_inv p" and t: "task < length (rp_tasks p)" and w: "phase_of p task = Task_Done"
  shows "pool_inv (forget task p)"
proof -
  let ?key = "task_key (rp_tasks p ! task)"
  have reg: "registered p" using inv by (simp add: pool_inv_def)
  show ?thesis
  proof (cases "map_of (rp_inflight p) ?key = Some task")
    case True
    then have f: "forget task p = p\<lparr>rp_inflight := filter (\<lambda>(k, _). k \<noteq> ?key) (rp_inflight p)\<rparr>"
      by (simp add: forget_def Let_def task_key_def)
    have "running (forget task p) = running p" by (rule running_tasks) (simp add: f)
    then have "counts_ok (forget task p)" using inv by (simp add: pool_inv_def counts_ok_def f)
    moreover have "task_key (rp_tasks p ! i) \<noteq> ?key"
      if "i < length (rp_tasks p)" "phase_of p i \<noteq> Task_Done" for i
    proof
      assume "task_key (rp_tasks p ! i) = ?key"
      with registered_unfinished [OF reg that] True have "i = task" by (metis option.inject)
      with that(2) w show False by simp
    qed
    then have "registered (forget task p)"
      using inv unfolding pool_inv_def registered_def f
      by (simp add: map_of_filter_key)
    ultimately show ?thesis by (simp add: pool_inv_def)
  next
    case False
    then have "forget task p = p" by (simp add: forget_def Let_def task_key_def)
    with inv show ?thesis by simp
  qed
qed

lemma pool_step_inv: "pool_step p p' \<Longrightarrow> pool_inv p \<Longrightarrow> pool_inv p'"
  by (erule pool_stepE)
    (auto dest: pool_execute_inv intro: enter_source_inv leave_source_inv cancel_inv forget_inv)

lemma map_of_zero: "map_of (map (\<lambda>(c, _). (c, 0)) d) c = (case map_of d c of None \<Rightarrow> None | Some _ \<Rightarrow> Some 0)"
  by (induction d) auto

lemma pool_init_inv: "pool_init limits = Inr p \<Longrightarrow> pool_inv p"
proof -
  assume "pool_init limits = Inr p"
  then have pos: "\<forall>(c, l) \<in> set limits. 1 \<le> l"
    and p: "p = \<lparr>rp_limits = limits, rp_semaphores = limits, rp_inflight = [], rp_tasks = [],
          rp_active = map (\<lambda>(c, _). (c, 0)) limits, rp_max_observed = map (\<lambda>(c, _). (c, 0)) limits\<rparr>"
    by (auto simp: pool_init_def result_simps list_ex_iff)
  have "0 \<le> dict_get limits c 0" for c
    using pos by (fastforce simp: dict_get_def split: option.splits dest!: map_of_SomeD)
  moreover have "dict_get (map (\<lambda>(c, _). (c, 0)) limits) c 0 = (0::int)" for c
    by (simp add: dict_get_def map_of_zero split: option.splits)
  ultimately show ?thesis by (simp add: p pool_inv_def counts_ok_def registered_def running_def)
qed

lemma pool_step_limits: "pool_step p p' \<Longrightarrow> rp_limits p' = rp_limits p"
  by (erule pool_stepE)
    (auto simp: pool_execute_def enter_source_def leave_source_def forget_def Let_def
      split: if_splits option.splits)

lemma pool_reach_inv:
  assumes "pool_step\<^sup>*\<^sup>* p p'" and "pool_init limits = Inr p"
  shows "pool_inv p' \<and> rp_limits p' = limits"
  using assms(1)
proof (induction rule: rtranclp_induct)
  case base
  then show ?case using assms(2) pool_init_inv by (auto simp: pool_init_def result_simps)
next
  case (step q r)
  then show ?case using pool_step_inv pool_step_limits by metis
qed

subsection \<open>What the pool guarantees\<close>

text \<open>
  C37: At every moment, for every source capability, the operations running never exceed the
  capability's limit, the counters agree with them, and the recorded maximum stays within the limit.
\<close>

theorem pool_bounds_each_capability:
  assumes "pool_init limits = Inr p" and "pool_step\<^sup>*\<^sup>* p p'"
  shows "running p' c \<le> dict_get limits c 0 \<and> dict_get (rp_active p') c 0 = running p' c
    \<and> dict_get (rp_max_observed p') c 0 \<le> dict_get limits c 0"
  using pool_reach_inv [OF assms(2,1)] by (auto simp: pool_inv_def counts_ok_def) (metis le_add_same_cancel2)

theorem pool_bounds_each_capability_witness:
  "\<exists>p'. pool_step\<^sup>*\<^sup>* (projr (pool_init [(''logs'', 1)])) p'
     \<and> length (rp_tasks p') = 2 \<and> running p' ''logs'' = 1 \<and> dict_get (rp_active p') ''logs'' 0 = 1
     \<and> dict_get (rp_max_observed p') ''logs'' 0 \<le> 1"
proof -
  let ?p0 = "projr (pool_init [(''logs'', 1)])"
  let ?p1 = "snd (projr (pool_execute ''logs'' ''a'' ?p0))"
  let ?p2 = "snd (projr (pool_execute ''logs'' ''b'' ?p1))"
  let ?p3 = "enter_source 0 ?p2"
  have init: "pool_init [(''logs'', 1)] = Inr ?p0" by (simp add: pool_init_def)
  note eval = pool_init_def pool_execute_def enter_source_def set_phase_def Let_def
  have "pool_step ?p0 ?p1" by (rule requested [of "''logs''" "''a''" _ 0]) (simp add: eval)
  moreover have "pool_step ?p1 ?p2" by (rule requested [of "''logs''" "''b''" _ 1]) (simp add: eval)
  moreover have "pool_step ?p2 ?p3" by (rule acquired) (simp_all add: eval dict_get_def)
  ultimately have "pool_step\<^sup>*\<^sup>* ?p0 ?p3" by (meson converse_rtranclp_into_rtranclp rtranclp.rtrancl_refl)
  moreover have "length (rp_tasks ?p3) = 2" "running ?p3 ''logs'' = 1" by (simp_all add: eval running_def)
  ultimately show ?thesis using pool_bounds_each_capability [OF init, of ?p3 "''logs''"] by (intro exI [of _ ?p3]) (simp add: dict_get_def)
qed

text \<open>
  Identical reads are shared: no two unfinished tasks ever have the same capability and request
  key, and a request made while a task for its key is unfinished is answered by that very task.
\<close>

theorem identical_reads_are_shared:
  assumes "pool_init limits = Inr p" and "pool_step\<^sup>*\<^sup>* p p'"
    and "i < length (rp_tasks p')" and "phase_of p' i \<noteq> Task_Done"
    and "pool_execute (pt_capability (rp_tasks p' ! i)) (pt_request_key (rp_tasks p' ! i)) p' = Inr (task, q)"
  shows "task = i \<and> q = p'
    \<and> (\<forall>j < length (rp_tasks p'). phase_of p' j \<noteq> Task_Done
          \<and> task_key (rp_tasks p' ! j) = task_key (rp_tasks p' ! i) \<longrightarrow> j = i)"
proof -
  have reg: "registered p'" using pool_reach_inv [OF assms(2,1)] by (simp add: pool_inv_def)
  then have i: "map_of (rp_inflight p') (task_key (rp_tasks p' ! i)) = Some i"
    using assms(3,4) by (simp add: registered_def)
  then have "task = i \<and> q = p'"
    using assms(5) by (auto simp: pool_execute_def Let_def task_key_def split: if_splits)
  moreover have "j = i" if "j < length (rp_tasks p')" "phase_of p' j \<noteq> Task_Done"
      "task_key (rp_tasks p' ! j) = task_key (rp_tasks p' ! i)" for j
    using that i reg by (auto simp: registered_def)
  ultimately show ?thesis by blast
qed

theorem identical_reads_are_shared_witness:
  "fst (projr (pool_execute ''logs'' ''k'' (snd (projr (pool_execute ''logs'' ''k''
      (projr (pool_init [(''logs'', 1)]))))))) = 0"
proof -
  let ?p = "projr (pool_init [(''logs'', 1)])"
  let ?q = "snd (projr (pool_execute ''logs'' ''k'' ?p))"
  have init: "pool_init [(''logs'', 1)] = Inr ?p" by (simp add: pool_init_def)
  have ex: "pool_execute ''logs'' ''k'' ?p = Inr (0, ?q)" by (simp add: pool_init_def pool_execute_def)
  then have "pool_step\<^sup>*\<^sup>* ?p ?q" by (intro r_into_rtranclp requested)
  moreover have "0 < length (rp_tasks ?q)" "phase_of ?q 0 \<noteq> Task_Done"
    "pool_execute (pt_capability (rp_tasks ?q ! 0)) (pt_request_key (rp_tasks ?q ! 0)) ?q = Inr (0, ?q)"
    by (simp_all add: pool_init_def pool_execute_def)
  ultimately have "0 = (0::nat) \<and> ?q = ?q" using identical_reads_are_shared [OF init, of ?q 0 0 ?q] by blast
  then show ?thesis by (simp add: pool_init_def pool_execute_def)
qed

end
