(* ===== verification/Sha256.thy ===== *)
theory Sha256
  imports Contract_Types "HOL-Library.Word"
begin

section \<open>SHA-256\<close>

text \<open>
  \<^verbatim>\<open>hashlib.sha256(data).hexdigest()\<close>, which the code uses for artifact addresses, request
  fingerprints and generated identifiers, on 32-bit words as FIPS 180-4 defines it. The facts the
  library needs are the shape of a digest: 64 lower-case hexadecimal digits.
\<close>

unbundle bit_operations_syntax

text \<open>
  The constants are the first 32 bits of the fractional parts of the cube roots of the first 64
  primes, and of the square roots of the first eight. \<open>root_floor k b n 0\<close> is the integer part of
  the \<open>k\<close>-th root of \<open>n\<close>, computed bit by bit from bit \<open>b - 1\<close> down.
\<close>

fun root_floor :: "nat \<Rightarrow> nat \<Rightarrow> nat \<Rightarrow> nat \<Rightarrow> nat" where
  "root_floor k 0 n acc = acc"
| "root_floor k (Suc b) n acc =
     root_floor k b n (if (acc + 2 ^ b) ^ k \<le> n then acc + 2 ^ b else acc)"

definition prime_numbers :: "nat list" where
  "prime_numbers = filter (\<lambda>n. list_all (\<lambda>d. n mod d \<noteq> 0) [2..<n]) [2..<312]"

definition root_constant :: "nat \<Rightarrow> nat \<Rightarrow> 32 word" where
  "root_constant k p = word_of_nat (root_floor k 36 (p * 2 ^ (32 * k)) 0)"

definition round_constants :: "32 word list" where
  "round_constants = map (root_constant 3) prime_numbers"

record hash_state =
  hs_a :: "32 word"
  hs_b :: "32 word"
  hs_c :: "32 word"
  hs_d :: "32 word"
  hs_e :: "32 word"
  hs_f :: "32 word"
  hs_g :: "32 word"
  hs_h :: "32 word"

definition initial_hash :: hash_state where
  "initial_hash =
     \<lparr>hs_a = root_constant 2 2, hs_b = root_constant 2 3, hs_c = root_constant 2 5,
      hs_d = root_constant 2 7, hs_e = root_constant 2 11, hs_f = root_constant 2 13,
      hs_g = root_constant 2 17, hs_h = root_constant 2 19\<rparr>"

definition small_sigma0 :: "32 word \<Rightarrow> 32 word" where
  "small_sigma0 x = word_rotr 7 x XOR word_rotr 18 x XOR drop_bit 3 x"

definition small_sigma1 :: "32 word \<Rightarrow> 32 word" where
  "small_sigma1 x = word_rotr 17 x XOR word_rotr 19 x XOR drop_bit 10 x"

definition big_sigma0 :: "32 word \<Rightarrow> 32 word" where
  "big_sigma0 x = word_rotr 2 x XOR word_rotr 13 x XOR word_rotr 22 x"

definition big_sigma1 :: "32 word \<Rightarrow> 32 word" where
  "big_sigma1 x = word_rotr 6 x XOR word_rotr 11 x XOR word_rotr 25 x"

definition byte_word :: "char \<Rightarrow> 32 word" where
  "byte_word c = word_of_nat (of_char c)"

text \<open>Padding: one bit, zeros, and the length in bits as eight big-endian bytes.\<close>

definition length_bytes :: "nat \<Rightarrow> bytes" where
  "length_bytes bits = map (\<lambda>i. char_of ((int bits div 256 ^ (7 - i)) mod 256)) [0..<8]"

definition pad_message :: "bytes \<Rightarrow> bytes" where
  "pad_message m =
     m @ [CHR 0x80] @ replicate ((119 - length m mod 64) mod 64) (CHR 0x00)
     @ length_bytes (8 * length m)"

fun chunks :: "nat \<Rightarrow> 'a list \<Rightarrow> 'a list list" where
  "chunks n xs = (if n = 0 \<or> xs = [] then [] else take n xs # chunks n (drop n xs))"

declare chunks.simps [simp del]

definition word_of_bytes :: "bytes \<Rightarrow> 32 word" where
  "word_of_bytes bs = foldl (\<lambda>w c. push_bit 8 w OR byte_word c) 0 bs"

definition extend_schedule :: "32 word list \<Rightarrow> 32 word list" where
  "extend_schedule ws =
     (let n = length ws in
      ws @ [small_sigma1 (ws ! (n - 2)) + ws ! (n - 7) + small_sigma0 (ws ! (n - 15)) + ws ! (n - 16)])"

definition message_schedule :: "bytes \<Rightarrow> 32 word list" where
  "message_schedule block = (extend_schedule ^^ 48) (map word_of_bytes (chunks 4 block))"

definition compress_round :: "hash_state \<Rightarrow> 32 word \<times> 32 word \<Rightarrow> hash_state" where
  "compress_round s kw =
     (let t1 = hs_h s + big_sigma1 (hs_e s) + ((hs_e s AND hs_f s) XOR (NOT (hs_e s) AND hs_g s))
               + fst kw + snd kw;
          t2 = big_sigma0 (hs_a s)
               + ((hs_a s AND hs_b s) XOR (hs_a s AND hs_c s) XOR (hs_b s AND hs_c s)) in
      \<lparr>hs_a = t1 + t2, hs_b = hs_a s, hs_c = hs_b s, hs_d = hs_c s,
       hs_e = hs_d s + t1, hs_f = hs_e s, hs_g = hs_f s, hs_h = hs_g s\<rparr>)"

definition compress_block :: "hash_state \<Rightarrow> bytes \<Rightarrow> hash_state" where
  "compress_block s block =
     (let t = foldl compress_round s (zip round_constants (message_schedule block)) in
      \<lparr>hs_a = hs_a s + hs_a t, hs_b = hs_b s + hs_b t, hs_c = hs_c s + hs_c t,
       hs_d = hs_d s + hs_d t, hs_e = hs_e s + hs_e t, hs_f = hs_f s + hs_f t,
       hs_g = hs_g s + hs_g t, hs_h = hs_h s + hs_h t\<rparr>)"

definition hex_word :: "32 word \<Rightarrow> string" where
  "hex_word w = map (\<lambda>i. hex_digits ! unat (drop_bit (28 - 4 * i) w AND 15)) [0..<8]"

definition sha256_hex :: "bytes \<Rightarrow> string" where
  "sha256_hex m =
     (let s = foldl compress_block initial_hash (chunks 64 (pad_message m)) in
      concat (map hex_word [hs_a s, hs_b s, hs_c s, hs_d s, hs_e s, hs_f s, hs_g s, hs_h s]))"

lemma length_hex_word [simp]: "length (hex_word w) = 8"
  by (simp add: hex_word_def)

lemma hex_word_digits: "set (hex_word w) \<subseteq> set hex_digits"
proof
  fix c assume "c \<in> set (hex_word w)"
  then obtain i where c: "c = hex_digits ! unat (drop_bit (28 - 4 * i) w AND 15)"
    by (auto simp: hex_word_def)
  have "drop_bit (28 - 4 * i) w AND 15 \<le> 15" by (rule word_and_le1)
  then have "unat (drop_bit (28 - 4 * i) w AND 15) \<le> 15" by (simp add: word_le_nat_alt)
  moreover have "length hex_digits = 16" by (simp add: hex_digits_def)
  ultimately show "c \<in> set hex_digits" unfolding c by (intro nth_mem) simp
qed

lemma length_sha256_hex [simp]: "length (sha256_hex m) = 64"
  by (simp add: sha256_hex_def Let_def)

lemma sha256_hex_digits: "set (sha256_hex m) \<subseteq> set hex_digits"
  using hex_word_digits by (auto simp: sha256_hex_def Let_def)

lemma sha256_hex_pattern [simp]: "sha256_pattern (sha256_hex m)"
  using sha256_hex_digits by (auto simp: sha256_pattern_def is_hex_def list_all_iff)

text \<open>
  An identifier made of a prefix and the upper-cased start of a digest has the shape of a record
  identifier.
\<close>

lemma to_upper_hex: "c \<in> set hex_digits \<Longrightarrow> is_upper_alnum (to_upper c)"
proof -
  have "\<forall>c \<in> set hex_digits. is_upper_alnum (to_upper c)" by code_simp
  then show "c \<in> set hex_digits \<Longrightarrow> is_upper_alnum (to_upper c)" by blast
qed

lemma hex_identifier:
  assumes "lo < n" and "n \<le> Suc hi" and "n \<le> 64"
  shows "id_pattern prefix lo hi (prefix @ map to_upper (take n (sha256_hex m)))"
proof -
  have len: "length (take n (sha256_hex m)) = n" using assms(3) by simp
  obtain c cs where cs: "take n (sha256_hex m) = c # cs"
    using len assms(1) by (cases "take n (sha256_hex m)") auto
  have "set (c # cs) \<subseteq> set hex_digits"
    using sha256_hex_digits [of m] set_take_subset [of n "sha256_hex m"] cs by auto
  then have "is_upper_alnum (to_upper c)" "list_all is_upper_alnum (map to_upper cs)"
    using to_upper_hex by (auto simp: list_all_iff)
  moreover have "length cs = n - 1" using len cs by simp
  ultimately show ?thesis using assms cs id_patternI [of "to_upper c" "map to_upper cs" lo hi prefix] by simp
qed

lemma tagged_hex_identifier:
  assumes "tag = c # cs" and "is_upper_alnum c"
    and "list_all (\<lambda>d. is_upper_alnum d \<or> d = CHR ''-'') cs"
    and "lo \<le> length cs + n" and "length cs + n \<le> hi" and "n \<le> 64"
  shows "id_pattern prefix lo hi (prefix @ tag @ map to_upper (take n (sha256_hex m)))"
proof -
  have "set (take n (sha256_hex m)) \<subseteq> set hex_digits"
    using sha256_hex_digits [of m] set_take_subset [of n "sha256_hex m"] by auto
  then have "list_all is_upper_alnum (map to_upper (take n (sha256_hex m)))"
    using to_upper_hex by (auto simp: list_all_iff)
  with assms show ?thesis by (auto simp: id_pattern_def list_all_iff)
qed

end
