(* ===== verification/Source_Orchestration.thy ===== *)
theory Source_Orchestration
  imports Operations Sha256 Complex_Main
begin

section \<open>Source requests and their orchestration\<close>

text \<open>
  \<^verbatim>\<open>domain/source.py\<close>, \<^verbatim>\<open>domain/analysis_error.py\<close> (the error codes), \<^verbatim>\<open>SourcePolicy\<close> of
  \<^verbatim>\<open>domain/analysis_request.py\<close> and \<^verbatim>\<open>application/source_orchestration.py\<close>: the policy gate, retries
  with delays, and fallback along the source order. The adapters, the clock, the random
  numbers and the parsers of a Retry-After header are the environment \<open>source_env\<close>; the state
  counts what has been asked of it. Seconds, which the code holds as binary floating point, are
  rationals: rounding is not modelled.
\<close>

subsection \<open>Requests, payloads and results\<close>

datatype error_code =
    ERR_INVALID_INPUT | ERR_UNSUPPORTED_CHAIN | ERR_SOURCE_UNAVAILABLE | ERR_RATE_LIMITED
  | ERR_ARCHIVE_REQUIRED | ERR_TRACE_UNAVAILABLE | ERR_DECODE_FAILED | ERR_EVIDENCE_INCOMPLETE
  | ERR_RECONCILIATION_FAILED | ERR_SCHEMA_INVALID | ERR_RULE_RESTRICTED

datatype source_failure_kind =
    FAIL_TIMEOUT | FAIL_RATE_LIMITED | FAIL_TRANSIENT | FAIL_UNAVAILABLE
  | FAIL_INVALID_RESPONSE | FAIL_PERMANENT

datatype source_attempt_outcome = ATTEMPT_SUCCESS | ATTEMPT_FAILED

datatype block_tag = Tag_None | Tag_Name string | Tag_Number int

datatype http_method = GET | POST

record json_rpc_request =
  jq_capability :: string
  jq_method :: string
  jq_params :: json
  jq_block_tag :: block_tag

record rest_request =
  rq_capability :: string
  rq_method :: http_method
  rq_path :: string
  rq_params :: "(string \<times> json) list option"
  rq_json_body :: "json option"
  rq_block_tag :: block_tag

datatype source_request = Json_Rpc json_rpc_request | Rest rest_request

datatype source_error = Source_Value_Error string | Adapter_Exception

definition json_rpc_request_init :: "json_rpc_request \<Rightarrow> source_error + json_rpc_request" where
  "json_rpc_request_init r =
     and_then
       (raise_if (jq_capability r = [] \<or> jq_method r = [])
         (Source_Value_Error ''source capability and method must not be empty'')) (\<lambda>_. Inr r)"

definition rest_request_init :: "rest_request \<Rightarrow> source_error + rest_request" where
  "rest_request_init r =
     and_then
       (then_check
         (raise_if (rq_capability r = [])
           (Source_Value_Error ''source capability must not be empty''))
         (raise_if
           (\<not> starts_with ''/'' (rq_path r) \<or> CHR ''?'' \<in> set (rq_path r) \<or> CHR ''#'' \<in> set (rq_path r))
           (Source_Value_Error ''REST path must be an absolute path without query or fragment'')))
       (\<lambda>_. Inr r)"

record source_payload =
  sp_raw_bytes :: bytes
  sp_status_code :: int
  sp_media_type :: "string option"
  sp_endpoint_host :: string
  sp_endpoint_path :: string
  sp_retrieved_at :: instant

definition raw_sha256 :: "source_payload \<Rightarrow> string" where
  "raw_sha256 p = sha256_hex (sp_raw_bytes p)"

record source_attempt =
  sa_source_id :: string
  sa_provider_id :: string
  sa_attempt_number :: nat
  sa_started_at :: instant
  sa_finished_at :: instant
  sa_outcome :: source_attempt_outcome
  sa_failure_kind :: "source_failure_kind option"
  sa_status_code :: "int option"
  sa_retryable :: bool
  sa_wait_seconds :: "rat option"
  sa_raw_sha256 :: "string option"

datatype cache_status = CACHE_NOT_CHECKED | CACHE_HIT | CACHE_MISS

record source_response =
  sre_source_id :: string
  sre_provider_id :: string
  sre_request_fingerprint :: string
  sre_payload :: source_payload
  sre_attempts :: "source_attempt list"
  sre_fallback_from :: "string list"
  sre_cache_status :: cache_status

record source_execution_error =
  see_code :: error_code
  see_message :: string
  see_stage :: string
  see_source_id :: "string option"
  see_provider_id :: "string option"
  see_retryable :: bool
  see_attempt_count :: nat

record source_execution =
  so_response :: "source_response option"
  so_attempts :: "source_attempt list"
  so_error :: "source_execution_error option"

definition source_execution_init :: "source_execution \<Rightarrow> source_error + source_execution" where
  "source_execution_init x =
     and_then
       (raise_if ((so_response x = None) = (so_error x = None))
         (Source_Value_Error ''source execution must contain exactly one response or error''))
       (\<lambda>_. Inr x)"

definition succeeded :: "source_execution \<Rightarrow> bool" where
  "succeeded x \<longleftrightarrow> so_response x \<noteq> None"

record source_failure =
  sf_kind :: source_failure_kind
  sf_status_code :: "int option"
  sf_retry_after :: "string option"
  sf_raw_bytes :: "bytes option"

definition block_tag_json :: "block_tag \<Rightarrow> json" where
  "block_tag_json t = (case t of Tag_None \<Rightarrow> JNull | Tag_Name s \<Rightarrow> JStr s | Tag_Number n \<Rightarrow> JInt n)"

definition http_method_value :: "http_method \<Rightarrow> string" where
  "http_method_value m = (case m of GET \<Rightarrow> ''GET'' | POST \<Rightarrow> ''POST'')"

definition request_payload :: "source_request \<Rightarrow> json" where
  "request_payload r =
     (case r of
        Json_Rpc q \<Rightarrow>
          JObj [(''kind'', JStr ''json_rpc''), (''capability'', JStr (jq_capability q)),
                (''method'', JStr (jq_method q)), (''params'', jq_params q),
                (''block_tag'', block_tag_json (jq_block_tag q))]
      | Rest q \<Rightarrow>
          JObj [(''kind'', JStr ''rest''), (''capability'', JStr (rq_capability q)),
                (''method'', JStr (http_method_value (rq_method q))), (''path'', JStr (rq_path q)),
                (''params'', case rq_params q of None \<Rightarrow> JNull | Some fs \<Rightarrow> JObj fs),
                (''json_body'', case rq_json_body q of None \<Rightarrow> JNull | Some j \<Rightarrow> j),
                (''block_tag'', block_tag_json (rq_block_tag q))])"

definition source_request_fingerprint :: "source_request \<Rightarrow> string" where
  "source_request_fingerprint r = sha256_hex (encode (dumps (request_payload r)))"

subsection \<open>Policies\<close>

datatype rule_status = STATUS_UNCONFIRMED | STATUS_ALLOWED | STATUS_RESTRICTED

record source_policy =
  po_rule_status :: rule_status
  po_allowed_source_ids :: "string list"
  po_source_order :: "string list"
  po_allow_fallback :: bool
  po_offline_mode :: bool

definition source_order_is_allowed :: "source_policy \<Rightarrow> contract_error + unit" where
  "source_order_is_allowed p =
     raise_if (\<not> set (po_source_order p) \<subseteq> set (po_allowed_source_ids p))
       (invalid_input ''source_order must be a subset of allowed_source_ids'')"

record retry_policy =
  rt_max_attempts :: int
  rt_base_delay_seconds :: rat
  rt_max_delay_seconds :: rat
  rt_jitter_ratio :: rat

definition default_retry_policy :: retry_policy where
  "default_retry_policy =
     \<lparr>rt_max_attempts = 3, rt_base_delay_seconds = 1 / 2, rt_max_delay_seconds = 30,
      rt_jitter_ratio = 1 / 5\<rparr>"

definition retry_policy_init :: "retry_policy \<Rightarrow> source_error + retry_policy" where
  "retry_policy_init p =
     and_then
       (all_checks
         [raise_if (rt_max_attempts p < 1) (Source_Value_Error ''max_attempts must be at least 1''),
          raise_if (rt_base_delay_seconds p < 0 \<or> rt_max_delay_seconds p < 0)
            (Source_Value_Error ''retry delays must not be negative''),
          raise_if (\<not> (0 \<le> rt_jitter_ratio p \<and> rt_jitter_ratio p \<le> 1))
            (Source_Value_Error ''jitter_ratio must be between 0 and 1'')])
       (\<lambda>_. Inr p)"

subsection \<open>The environment\<close>

record source_adapter =
  ad_source_id :: string
  ad_provider_id :: string

datatype adapter_reply = Reply_Payload source_payload | Reply_Failure source_failure | Reply_Exception

datatype float_value = Finite rat | Not_Finite
datatype parsed_date = Naive_Date | Aware_Date instant

record source_env =
  sv_reply :: "nat \<Rightarrow> string \<Rightarrow> source_request \<Rightarrow> adapter_reply"
  sv_clock :: "nat \<Rightarrow> instant"
  sv_random :: "nat \<Rightarrow> rat"
  sv_float :: "string \<Rightarrow> float_value option"
  sv_date :: "string \<Rightarrow> parsed_date option"

record source_state =
  st_ticks :: nat
  st_randoms :: nat
  st_calls :: "string list" \<comment> \<open>the adapters called so far\<close>
  st_sleeps :: "rat list"

definition source_start :: source_state where
  "source_start = \<lparr>st_ticks = 0, st_randoms = 0, st_calls = [], st_sleeps = []\<rparr>"

abbreviation now :: "source_env \<Rightarrow> source_state \<Rightarrow> instant" where
  "now env st \<equiv> sv_clock env (st_ticks st)"

abbreviation tick :: "source_state \<Rightarrow> source_state" where
  "tick st \<equiv> st\<lparr>st_ticks := Suc (st_ticks st)\<rparr>"

definition orchestrator_init :: "source_adapter list \<Rightarrow> source_error + (string \<rightharpoonup> source_adapter)" where
  "orchestrator_init adapters =
     and_then
       (raise_if (\<not> distinct (map ad_source_id adapters))
         (Source_Value_Error ''source_id values must be unique''))
       (\<lambda>_. Inr (index_by ad_source_id adapters))"

subsection \<open>Delays\<close>

definition retryable_failures :: "source_failure_kind set" where
  "retryable_failures = {FAIL_TIMEOUT, FAIL_RATE_LIMITED, FAIL_TRANSIENT}"

definition retry_after_seconds :: "source_env \<Rightarrow> string option \<Rightarrow> instant \<Rightarrow> rat option" where
  "retry_after_seconds env value current =
     (case value of
        None \<Rightarrow> None
      | Some text \<Rightarrow>
          (case sv_float env text of
             Some Not_Finite \<Rightarrow> None
           | Some (Finite seconds) \<Rightarrow> Some (max 0 seconds)
           | None \<Rightarrow>
               (case sv_date env text of
                  None \<Rightarrow> None
                | Some Naive_Date \<Rightarrow> None
                | Some (Aware_Date target) \<Rightarrow> Some (max 0 (of_int (target - current) / 1000000)))))"

definition retry_delay ::
    "source_env \<Rightarrow> retry_policy \<Rightarrow> nat \<Rightarrow> source_failure \<Rightarrow> source_state \<Rightarrow> rat \<times> source_state" where
  "retry_delay env policy attempt_number failure st =
     (case retry_after_seconds env (sf_retry_after failure) (now env st) of
        Some seconds \<Rightarrow> (min seconds (rt_max_delay_seconds policy), tick st)
      | None \<Rightarrow>
          let exponential = rt_base_delay_seconds policy * 2 ^ (attempt_number - 1);
              jitter = exponential * rt_jitter_ratio policy * sv_random env (st_randoms st) in
          (min (exponential + jitter) (rt_max_delay_seconds policy),
           (tick st)\<lparr>st_randoms := Suc (st_randoms st)\<rparr>))"

subsection \<open>One source\<close>

definition failed_attempt ::
    "source_adapter \<Rightarrow> nat \<Rightarrow> instant \<Rightarrow> instant \<Rightarrow> source_failure \<Rightarrow> bool \<Rightarrow> rat option \<Rightarrow> source_attempt" where
  "failed_attempt adapter n started finished failure retryable wait_seconds =
     \<lparr>sa_source_id = ad_source_id adapter, sa_provider_id = ad_provider_id adapter,
      sa_attempt_number = n, sa_started_at = started, sa_finished_at = finished,
      sa_outcome = ATTEMPT_FAILED, sa_failure_kind = Some (sf_kind failure),
      sa_status_code = sf_status_code failure, sa_retryable = retryable,
      sa_wait_seconds = wait_seconds,
      sa_raw_sha256 = map_option sha256_hex (sf_raw_bytes failure)\<rparr>"

definition successful_attempt ::
    "source_adapter \<Rightarrow> nat \<Rightarrow> instant \<Rightarrow> instant \<Rightarrow> source_payload \<Rightarrow> source_attempt" where
  "successful_attempt adapter n started finished payload =
     \<lparr>sa_source_id = ad_source_id adapter, sa_provider_id = ad_provider_id adapter,
      sa_attempt_number = n, sa_started_at = started, sa_finished_at = finished,
      sa_outcome = ATTEMPT_SUCCESS, sa_failure_kind = None,
      sa_status_code = Some (sp_status_code payload), sa_retryable = False,
      sa_wait_seconds = None, sa_raw_sha256 = Some (raw_sha256 payload)\<rparr>"

text \<open>
  The body of the attempt loop is one adapter call; the loop stops at a payload or at a failure
  that is not followed by another attempt.
\<close>

fun attempt_loop ::
    "source_env \<Rightarrow> retry_policy \<Rightarrow> source_adapter \<Rightarrow> source_request \<Rightarrow> nat list
      \<Rightarrow> source_attempt list \<Rightarrow> source_failure option \<Rightarrow> source_state
      \<Rightarrow> source_error
          + source_payload option \<times> source_attempt list \<times> source_failure option \<times> source_state" where
  "attempt_loop env policy adapter request [] attempts last_failure st =
     Inr (None, attempts, last_failure, st)"
| "attempt_loop env policy adapter request (n # ns) attempts last_failure st =
     (let started_at = now env st;
          st1 = (tick st)\<lparr>st_calls := st_calls st @ [ad_source_id adapter]\<rparr> in
      case sv_reply env (length (st_calls st)) (ad_source_id adapter) request of
        Reply_Exception \<Rightarrow> Inl Adapter_Exception
      | Reply_Payload payload \<Rightarrow>
          Inr (Some payload,
               attempts @ [successful_attempt adapter n started_at (now env st1) payload],
               None, tick st1)
      | Reply_Failure failure \<Rightarrow>
          let retry = sf_kind failure \<in> retryable_failures \<and> int n < rt_max_attempts policy in
          if retry
          then
            let (wait, st2) = retry_delay env policy n failure st1 in
            attempt_loop env policy adapter request ns
              (attempts @ [failed_attempt adapter n started_at (now env st2) failure True (Some wait)])
              (Some failure) ((tick st2)\<lparr>st_sleeps := st_sleeps st2 @ [wait]\<rparr>)
          else
            Inr (None,
                 attempts @ [failed_attempt adapter n started_at (now env st1) failure False None],
                 Some failure, tick st1))"

definition attempt_numbers :: "retry_policy \<Rightarrow> nat list" where
  "attempt_numbers policy = [1..<Suc (nat (rt_max_attempts policy))]"

definition execute_source ::
    "source_env \<Rightarrow> retry_policy \<Rightarrow> source_adapter \<Rightarrow> source_request \<Rightarrow> source_state
      \<Rightarrow> source_error
          + source_payload option \<times> source_attempt list \<times> source_failure option \<times> source_state" where
  "execute_source env policy adapter request st =
     attempt_loop env policy adapter request (attempt_numbers policy) [] None st"

subsection \<open>The policy gate and the fallback loop\<close>

definition source_execution_error :: "error_code \<Rightarrow> string \<Rightarrow> string \<Rightarrow> source_execution_error" where
  "source_execution_error code message stage =
     \<lparr>see_code = code, see_message = message, see_stage = stage, see_source_id = None,
      see_provider_id = None, see_retryable = False, see_attempt_count = 0\<rparr>"

definition source_policy_error :: "source_policy \<Rightarrow> source_execution_error option" where
  "source_policy_error p =
     (if po_rule_status p = STATUS_RESTRICTED
      then Some (source_execution_error ERR_RULE_RESTRICTED
             ''source execution is restricted by the active rules policy'' ''source_policy'')
      else if po_offline_mode p
      then Some (source_execution_error ERR_SOURCE_UNAVAILABLE
             ''offline mode has no source transport; use stored cache or fixture data''
             ''source_transport'')
      else if po_rule_status p \<noteq> STATUS_ALLOWED
      then Some (source_execution_error ERR_RULE_RESTRICTED
             ''live source execution requires an explicitly allowed rules policy'' ''source_policy'')
      else None)"

definition safe_final_message :: "error_code \<Rightarrow> string" where
  "safe_final_message code =
     (if code = ERR_RATE_LIMITED then ''all allowed source attempts were rate limited''
      else ''all allowed sources failed or were unavailable'')"

record fallback_state =
  fb_attempts :: "source_attempt list"
  fb_failed_sources :: "string list"
  fb_last_failure :: "source_failure option"
  fb_last_adapter :: "source_adapter option"

definition final_error :: "fallback_state \<Rightarrow> source_execution_error" where
  "final_error fb =
     (let code =
        (case fb_last_failure fb of
           None \<Rightarrow> ERR_SOURCE_UNAVAILABLE
         | Some f \<Rightarrow>
             if sf_kind f = FAIL_RATE_LIMITED then ERR_RATE_LIMITED else ERR_SOURCE_UNAVAILABLE) in
      \<lparr>see_code = code, see_message = safe_final_message code, see_stage = ''source_transport'',
       see_source_id = map_option ad_source_id (fb_last_adapter fb),
       see_provider_id = map_option ad_provider_id (fb_last_adapter fb),
       see_retryable = False, see_attempt_count = length (fb_attempts fb)\<rparr>)"

definition source_response_for ::
    "source_adapter \<Rightarrow> source_request \<Rightarrow> source_payload \<Rightarrow> source_attempt list \<Rightarrow> string list
      \<Rightarrow> source_response" where
  "source_response_for adapter request payload attempts failed =
     \<lparr>sre_source_id = ad_source_id adapter, sre_provider_id = ad_provider_id adapter,
      sre_request_fingerprint = source_request_fingerprint request, sre_payload = payload,
      sre_attempts = attempts, sre_fallback_from = failed, sre_cache_status = CACHE_NOT_CHECKED\<rparr>"

fun fallback_loop ::
    "source_env \<Rightarrow> retry_policy \<Rightarrow> (string \<rightharpoonup> source_adapter) \<Rightarrow> source_request \<Rightarrow> source_policy
      \<Rightarrow> string list \<Rightarrow> fallback_state \<Rightarrow> source_state \<Rightarrow> source_error + source_execution \<times> source_state" where
  "fallback_loop env retry adapters request policy [] fb st =
     and_then
       (source_execution_init
         \<lparr>so_response = None, so_attempts = fb_attempts fb, so_error = Some (final_error fb)\<rparr>)
       (\<lambda>x. Inr (x, st))"
| "fallback_loop env retry adapters request policy (source_id # rest) fb st =
     (case adapters source_id of
        None \<Rightarrow> fallback_loop env retry adapters request policy rest fb st
      | Some adapter \<Rightarrow>
          if source_id \<notin> set (po_allowed_source_ids policy)
          then fallback_loop env retry adapters request policy rest fb st
          else
            and_then (execute_source env retry adapter request st)
              (\<lambda>(response, source_attempts, last_failure, st').
                 let attempts = fb_attempts fb @ source_attempts in
                 case response of
                   Some payload \<Rightarrow>
                     and_then
                       (source_execution_init
                         \<lparr>so_response = Some (source_response_for adapter request payload attempts
                             (fb_failed_sources fb)),
                          so_attempts = attempts, so_error = None\<rparr>)
                       (\<lambda>x. Inr (x, st'))
                 | None \<Rightarrow>
                     fallback_loop env retry adapters request policy rest
                       \<lparr>fb_attempts = attempts,
                        fb_failed_sources = fb_failed_sources fb @ [ad_source_id adapter],
                        fb_last_failure = last_failure, fb_last_adapter = Some adapter\<rparr> st'))"

definition source_ids_to_try :: "source_policy \<Rightarrow> string list" where
  "source_ids_to_try policy =
     (if po_allow_fallback policy then po_source_order policy else take 1 (po_source_order policy))"

definition fallback_start :: fallback_state where
  "fallback_start = \<lparr>fb_attempts = [], fb_failed_sources = [], fb_last_failure = None, fb_last_adapter = None\<rparr>"

definition source_execute ::
    "source_env \<Rightarrow> retry_policy \<Rightarrow> (string \<rightharpoonup> source_adapter) \<Rightarrow> source_request \<Rightarrow> source_policy
      \<Rightarrow> source_state \<Rightarrow> source_error + source_execution \<times> source_state" where
  "source_execute env retry adapters request policy st =
     (case source_policy_error policy of
        Some e \<Rightarrow>
          and_then (source_execution_init \<lparr>so_response = None, so_attempts = [], so_error = Some e\<rparr>)
            (\<lambda>x. Inr (x, st))
      | None \<Rightarrow>
          fallback_loop env retry adapters request policy (source_ids_to_try policy) fallback_start st)"

end
