(* ===== verification/Source_Properties.thy ===== *)
theory Source_Properties
  imports Source_Orchestration
begin

section \<open>What the source orchestrator guarantees\<close>

text \<open>
  The loops of \<^verbatim>\<open>SourceOrchestrator\<close> by induction: what the attempts of one source look like
  (\<open>attempt_block\<close>), what a whole execution makes of them, and the properties of the policy gate,
  the retries and the fallback.
\<close>

subsection \<open>The attempts of one source\<close>

definition waits :: "source_attempt list \<Rightarrow> rat list" where
  "waits as = concat (map (\<lambda>a. case sa_wait_seconds a of None \<Rightarrow> [] | Some w \<Rightarrow> [w]) as)"

lemma waits_simps [simp]:
  "waits [] = []" "waits (as @ bs) = waits as @ waits bs"
  "waits [failed_attempt ad n s t f True (Some w)] = [w]"
  "waits [failed_attempt ad n s t f False None] = []"
  "waits [successful_attempt ad n s t p] = []"
  by (simp_all add: waits_def failed_attempt_def successful_attempt_def)

definition attempt_ok :: "source_adapter \<Rightarrow> retry_policy \<Rightarrow> source_attempt \<Rightarrow> bool" where
  "attempt_ok ad pol a \<longleftrightarrow>
     sa_source_id a = ad_source_id ad \<and> sa_provider_id a = ad_provider_id ad
     \<and> (sa_retryable a \<longleftrightarrow> sa_wait_seconds a \<noteq> None)
     \<and> (sa_retryable a \<longrightarrow> sa_outcome a = ATTEMPT_FAILED
          \<and> (\<exists>k \<in> retryable_failures. sa_failure_kind a = Some k)
          \<and> int (sa_attempt_number a) < rt_max_attempts pol)"

text \<open>Every attempt but the last was a retried failure; the last one decides the result.\<close>

definition attempt_block ::
    "source_adapter \<Rightarrow> retry_policy \<Rightarrow> nat list \<Rightarrow> source_payload option \<Rightarrow> source_attempt list \<Rightarrow> bool" where
  "attempt_block ad pol ns response as \<longleftrightarrow>
     length as \<le> length ns \<and> map sa_attempt_number as = take (length as) ns
     \<and> (\<forall>a \<in> set as. attempt_ok ad pol a) \<and> (\<forall>a \<in> set (butlast as). sa_retryable a)
     \<and> (case response of
          None \<Rightarrow> \<forall>a \<in> set as. sa_outcome a = ATTEMPT_FAILED
        | Some p \<Rightarrow> as \<noteq> [] \<and> sa_outcome (last as) = ATTEMPT_SUCCESS
            \<and> sa_raw_sha256 (last as) = Some (raw_sha256 p))"

lemma attempt_block_Cons:
  assumes "attempt_block ad pol ns response as" and "attempt_ok ad pol a"
    and "sa_retryable a" and "sa_attempt_number a = n"
  shows "attempt_block ad pol (n # ns) response (a # as)"
  using assms by (cases as) (auto simp: attempt_block_def attempt_ok_def split: option.splits)

lemma retry_delay_state:
  assumes "retry_delay env pol n f st = (w, st')"
  shows "st_calls st' = st_calls st" "st_sleeps st' = st_sleeps st"
  using assms by (auto simp: retry_delay_def Let_def split: option.splits)

lemma attempt_loop_spec:
  assumes "attempt_loop env pol ad req ns atts lf st = Inr (response, atts', lf', st')"
  shows "\<exists>as. atts' = atts @ as \<and> attempt_block ad pol ns response as
    \<and> st_calls st' = st_calls st @ map sa_source_id as \<and> st_sleeps st' = st_sleeps st @ waits as"
  using assms
proof (induction ns arbitrary: atts lf st)
  case Nil
  then show ?case by (auto simp: attempt_block_def)
next
  case (Cons n ns)
  let ?st1 = "(tick st)\<lparr>st_calls := st_calls st @ [ad_source_id ad]\<rparr>"
  show ?case
  proof (cases "sv_reply env (length (st_calls st)) (ad_source_id ad) req")
    case (Reply_Payload p)
    let ?a = "successful_attempt ad n (now env st) (now env ?st1) p"
    have "attempt_block ad pol (n # ns) (Some p) [?a]"
      by (simp add: attempt_block_def attempt_ok_def successful_attempt_def)
    moreover have "response = Some p" "atts' = atts @ [?a]" "st' = tick ?st1"
      using Cons.prems Reply_Payload by (auto simp: Let_def)
    ultimately show ?thesis by (intro exI [of _ "[?a]"]) (simp add: successful_attempt_def waits_def)
  next
    case (Reply_Failure f)
    show ?thesis
    proof (cases "sf_kind f \<in> retryable_failures \<and> int n < rt_max_attempts pol")
      case True
      obtain w st2 where d: "retry_delay env pol n f ?st1 = (w, st2)" by (cases "retry_delay env pol n f ?st1")
      let ?a = "failed_attempt ad n (now env st) (now env st2) f True (Some w)"
      let ?st3 = "(tick st2)\<lparr>st_sleeps := st_sleeps st2 @ [w]\<rparr>"
      have "attempt_loop env pol ad req ns (atts @ [?a]) (Some f) ?st3 = Inr (response, atts', lf', st')"
        using Cons.prems Reply_Failure True d by (simp add: Let_def)
      from Cons.IH [OF this] obtain as where as: "atts' = (atts @ [?a]) @ as"
        "attempt_block ad pol ns response as" "st_calls st' = st_calls ?st3 @ map sa_source_id as"
        "st_sleeps st' = st_sleeps ?st3 @ waits as" by blast
      have "attempt_block ad pol (n # ns) response (?a # as)"
        by (rule attempt_block_Cons [OF as(2)]) (use True in \<open>auto simp: attempt_ok_def failed_attempt_def\<close>)
      moreover have "waits (?a # as) = w # waits as" by (simp add: waits_def failed_attempt_def)
      ultimately show ?thesis
        using as retry_delay_state [OF d]
        by (intro exI [of _ "?a # as"]) (simp add: failed_attempt_def)
    next
      case False
      let ?a = "failed_attempt ad n (now env st) (now env ?st1) f False None"
      have "attempt_block ad pol (n # ns) None [?a]"
        by (simp add: attempt_block_def attempt_ok_def failed_attempt_def)
      moreover have "response = None" "atts' = atts @ [?a]" "st' = tick ?st1"
        using Cons.prems Reply_Failure False by (auto simp: Let_def)
      ultimately show ?thesis by (intro exI [of _ "[?a]"]) (simp add: failed_attempt_def waits_def)
    qed
  qed (use Cons.prems in \<open>simp add: Let_def\<close>)
qed

lemma execute_source_spec:
  assumes "execute_source env pol ad req st = Inr (response, atts, lf, st')"
  shows "attempt_block ad pol (attempt_numbers pol) response atts
    \<and> st_calls st' = st_calls st @ map sa_source_id atts \<and> st_sleeps st' = st_sleeps st @ waits atts"
  using attempt_loop_spec [OF assms [unfolded execute_source_def]] by auto

lemma attempt_block_source: "attempt_block ad pol ns response as \<Longrightarrow> a \<in> set as \<Longrightarrow> sa_source_id a = ad_source_id ad"
  by (auto simp: attempt_block_def attempt_ok_def)

lemma attempt_loop_total:
  assumes "\<And>n s. sv_reply env n s req \<noteq> Reply_Exception"
  shows "\<exists>r. attempt_loop env pol ad req ns atts lf st = Inr r"
proof (induction ns arbitrary: atts lf st)
  case (Cons n ns)
  then show ?case using assms by (auto simp: Let_def split: adapter_reply.splits prod.splits)
qed simp

subsection \<open>A whole execution\<close>

definition execution_ok :: "retry_policy \<Rightarrow> source_execution \<Rightarrow> bool" where
  "execution_ok pol x \<longleftrightarrow>
     (case so_response x of
        None \<Rightarrow> (\<forall>a \<in> set (so_attempts x). sa_outcome a = ATTEMPT_FAILED)
          \<and> (\<exists>e. so_error x = Some e \<and> see_attempt_count e = length (so_attempts x) \<and> \<not> see_retryable e)
      | Some r \<Rightarrow> so_error x = None \<and> so_attempts x \<noteq> [] \<and> sre_attempts r = so_attempts x
          \<and> (\<forall>a \<in> set (butlast (so_attempts x)). sa_outcome a = ATTEMPT_FAILED)
          \<and> sa_outcome (last (so_attempts x)) = ATTEMPT_SUCCESS
          \<and> sa_source_id (last (so_attempts x)) = sre_source_id r
          \<and> sa_raw_sha256 (last (so_attempts x)) = Some (raw_sha256 (sre_payload r))
          \<and> sre_source_id r \<notin> set (sre_fallback_from r))"

lemma butlast_failed:
  assumes "attempt_block ad pol ns (Some p) as" and "a \<in> set (butlast as)"
  shows "sa_outcome a = ATTEMPT_FAILED"
  using assms in_set_butlastD [OF assms(2)] by (auto simp: attempt_block_def attempt_ok_def)

lemma count_list_replicate: "count_list (replicate n s) t = (if t = s then n else 0)"
  by (induction n) auto

lemma fallback_loop_spec:
  assumes "fallback_loop env pol adapters req policy ids fb st = Inr (x, st')"
    and "\<And>s ad. adapters s = Some ad \<Longrightarrow> ad_source_id ad = s"
    and "distinct ids" and "set (fb_failed_sources fb) \<inter> set ids = {}"
    and "\<forall>a \<in> set (fb_attempts fb). sa_outcome a = ATTEMPT_FAILED"
  shows "\<exists>as. so_attempts x = fb_attempts fb @ as \<and> execution_ok pol x
    \<and> st_calls st' = st_calls st @ map sa_source_id as \<and> st_sleeps st' = st_sleeps st @ waits as
    \<and> (\<forall>a \<in> set as. sa_source_id a \<in> set ids \<inter> set (po_allowed_source_ids policy) \<inter> dom adapters)
    \<and> (\<forall>s. count_list (map sa_source_id as) s \<le> nat (rt_max_attempts pol))"
  using assms(1,3-)
proof (induction ids arbitrary: fb st)
  case Nil
  then show ?case
    by (auto simp: source_execution_init_def result_simps execution_ok_def final_error_def Let_def)
next
  case (Cons s ids)
  show ?case
  proof (cases "adapters s")
    case None
    then have rest: "fallback_loop env pol adapters req policy ids fb st = Inr (x, st')"
      using Cons.prems(1) by simp
    have "set (fb_failed_sources fb) \<inter> set ids = {}" "distinct ids" using Cons.prems(2,3) by auto
    from Cons.IH [OF rest this(2,1) Cons.prems(4)] show ?thesis by fastforce
  next
    case (Some ad)
    show ?thesis
    proof (cases "s \<in> set (po_allowed_source_ids policy)")
      case False
      then have rest: "fallback_loop env pol adapters req policy ids fb st = Inr (x, st')"
        using Cons.prems(1) Some by simp
      have "set (fb_failed_sources fb) \<inter> set ids = {}" "distinct ids" using Cons.prems(2,3) by auto
      from Cons.IH [OF rest this(2,1) Cons.prems(4)] show ?thesis by fastforce
    next
      case allowed: True
      have id: "ad_source_id ad = s" using assms(2) [OF Some] .
      obtain response atts lf st1 where ex: "execute_source env pol ad req st = Inr (response, atts, lf, st1)"
        using Cons.prems(1) Some allowed by (cases "execute_source env pol ad req st") auto
      note spec = execute_source_spec [OF ex]
      have blk: "attempt_block ad pol (attempt_numbers pol) response atts"
        and c1: "st_calls st1 = st_calls st @ map sa_source_id atts"
        and s1: "st_sleeps st1 = st_sleeps st @ waits atts" using spec by auto
      have src: "sa_source_id a = s" if "a \<in> set atts" for a using attempt_block_source [OF blk that] id by simp
      have len: "length atts \<le> nat (rt_max_attempts pol)"
        using blk by (simp add: attempt_block_def attempt_numbers_def del: upt_Suc)
      have map_s: "map sa_source_id atts = replicate (length atts) s" using src by (simp add: map_replicate_const [symmetric])
      show ?thesis
      proof (cases response)
        case None
        let ?fb = "\<lparr>fb_attempts = fb_attempts fb @ atts,
            fb_failed_sources = fb_failed_sources fb @ [ad_source_id ad],
            fb_last_failure = lf, fb_last_adapter = Some ad\<rparr>"
        have rest: "fallback_loop env pol adapters req policy ids ?fb st1 = Inr (x, st')"
          using Cons.prems(1) Some allowed ex None by (simp add: Let_def)
        have p: "distinct ids" "set (fb_failed_sources ?fb) \<inter> set ids = {}"
            "\<forall>a \<in> set (fb_attempts ?fb). sa_outcome a = ATTEMPT_FAILED"
          using Cons.prems(2-4) id blk None by (auto simp: attempt_block_def)
        obtain as where as: "so_attempts x = fb_attempts ?fb @ as" "execution_ok pol x"
            "st_calls st' = st_calls st1 @ map sa_source_id as" "st_sleeps st' = st_sleeps st1 @ waits as"
            "\<forall>a \<in> set as. sa_source_id a \<in> set ids \<inter> set (po_allowed_source_ids policy) \<inter> dom adapters"
            "\<forall>s. count_list (map sa_source_id as) s \<le> nat (rt_max_attempts pol)"
          using Cons.IH [OF rest p] by blast
        have "s \<notin> sa_source_id ` set as" using as(5) Cons.prems(2) by auto
        then have "count_list (map sa_source_id as) s = 0" by (simp add: count_list_0_iff)
        then have "count_list (map sa_source_id (atts @ as)) t \<le> nat (rt_max_attempts pol)" for t
          using as(6) len by (cases "t = s") (auto simp: map_s count_list_replicate count_list_0_iff)
        then show ?thesis
          using as(1-5) c1 s1 src Some allowed by (intro exI [of _ "atts @ as"]) auto
      next
        case res: (Some p)
        have x: "x = \<lparr>so_response = Some (source_response_for ad req p (fb_attempts fb @ atts) (fb_failed_sources fb)),
            so_attempts = fb_attempts fb @ atts, so_error = None\<rparr>" and st': "st' = st1"
          using Cons.prems(1) Some allowed ex res
          by (auto simp: Let_def source_execution_init_def result_simps)
        have ne: "atts \<noteq> []" and ls: "sa_outcome (last atts) = ATTEMPT_SUCCESS"
            "sa_raw_sha256 (last atts) = Some (raw_sha256 p)"
          using blk res by (auto simp: attempt_block_def)
        have "execution_ok pol x"
          using ne ls src [of "last atts"] id Cons.prems(3,4) butlast_failed [OF blk [unfolded res]]
          by (auto simp: execution_ok_def x source_response_for_def butlast_append)
        moreover have "count_list (map sa_source_id atts) t \<le> nat (rt_max_attempts pol)" for t
          using len by (simp add: map_s count_list_replicate)
        ultimately show ?thesis
          using c1 s1 src Some allowed by (intro exI [of _ atts]) (auto simp: x st')
      qed
    qed
  qed
qed

lemma orchestrator_adapters:
  assumes "orchestrator_init ads = Inr adapters"
  shows "adapters s = Some ad \<Longrightarrow> ad_source_id ad = s" and "dom adapters = ad_source_id ` set ads"
proof -
  have a: "adapters = index_by ad_source_id ads"
    using assms by (simp add: orchestrator_init_def result_simps)
  show "adapters s = Some ad \<Longrightarrow> ad_source_id ad = s" using index_by_SomeD unfolding a by metis
  show "dom adapters = ad_source_id ` set ads" by (simp add: a dom_index_by)
qed

lemma source_execute_spec:
  assumes "orchestrator_init ads = Inr adapters" and "distinct (po_source_order policy)"
    and "source_execute env pol adapters req policy st = Inr (x, st')"
  shows "execution_ok pol x \<and> st_calls st' = st_calls st @ map sa_source_id (so_attempts x)
    \<and> st_sleeps st' = st_sleeps st @ waits (so_attempts x)
    \<and> (\<forall>a \<in> set (so_attempts x). sa_source_id a \<in> set (source_ids_to_try policy)
          \<inter> set (po_allowed_source_ids policy) \<inter> ad_source_id ` set ads)
    \<and> (\<forall>s. count_list (map sa_source_id (so_attempts x)) s \<le> nat (rt_max_attempts pol))"
proof (cases "source_policy_error policy")
  case None
  then have f: "fallback_loop env pol adapters req policy (source_ids_to_try policy) fallback_start st = Inr (x, st')"
    using assms(3) by (simp add: source_execute_def)
  have "distinct (source_ids_to_try policy)" using assms(2) by (simp add: source_ids_to_try_def)
  from fallback_loop_spec [OF f orchestrator_adapters(1) [OF assms(1)] this]
    orchestrator_adapters(2) [OF assms(1)]
  show ?thesis by (auto simp: fallback_start_def)
next
  case (Some e)
  moreover from this have "see_attempt_count e = 0 \<and> \<not> see_retryable e"
    by (auto simp: source_policy_error_def source_execution_error_def split: if_splits)
  ultimately show ?thesis
    using assms(3) by (auto simp: source_execute_def source_execution_init_def result_simps execution_ok_def)
qed

lemma fallback_loop_total:
  assumes "\<And>n s. sv_reply env n s req \<noteq> Reply_Exception"
  shows "\<exists>r. fallback_loop env pol adapters req policy ids fb st = Inr r"
proof (induction ids arbitrary: fb st)
  case (Cons s ids)
  show ?case
  proof (cases "\<exists>ad. adapters s = Some ad \<and> s \<in> set (po_allowed_source_ids policy)")
    case False
    then have "fallback_loop env pol adapters req policy (s # ids) fb st
        = fallback_loop env pol adapters req policy ids fb st"
      by (auto split: option.splits)
    with Cons.IH show ?thesis by simp
  next
    case True
    then obtain ad where ad: "adapters s = Some ad" "s \<in> set (po_allowed_source_ids policy)" by blast
    obtain response atts lf st1 where "execute_source env pol ad req st = Inr (response, atts, lf, st1)"
      using attempt_loop_total [OF assms] unfolding execute_source_def by (metis prod_cases4)
    with ad Cons.IH show ?thesis
      by (cases response) (simp_all add: Let_def source_execution_init_def)
  qed
qed (simp add: source_execution_init_def)

text \<open>An execution ends whenever no adapter raises anything but a source failure.\<close>

lemma source_execute_total:
  assumes "\<And>n s. sv_reply env n s req \<noteq> Reply_Exception"
  shows "\<exists>x st'. source_execute env pol adapters req policy st = Inr (x, st')"
  using fallback_loop_total [OF assms]
  by (auto simp: source_execute_def source_execution_init_def split: option.splits)

subsection \<open>Two concrete sources\<close>

text \<open>The first source times out, the second one is rate limited.\<close>

definition fx_failure :: "source_failure_kind \<Rightarrow> source_failure" where
  "fx_failure kind = \<lparr>sf_kind = kind, sf_status_code = None, sf_retry_after = None, sf_raw_bytes = None\<rparr>"

definition fx_sources :: source_env where
  "fx_sources = \<lparr>sv_reply = (\<lambda>_ s _. Reply_Failure (fx_failure
       (if s = ''DS-A'' then FAIL_PERMANENT else FAIL_RATE_LIMITED))),
     sv_clock = int, sv_random = (\<lambda>_. 0), sv_float = (\<lambda>_. None), sv_date = (\<lambda>_. None)\<rparr>"

definition fx_adapter_list :: "source_adapter list" where
  "fx_adapter_list = [\<lparr>ad_source_id = ''DS-A'', ad_provider_id = ''pa''\<rparr>, \<lparr>ad_source_id = ''DS-B'', ad_provider_id = ''pb''\<rparr>]"

definition fx_adapters :: "string \<rightharpoonup> source_adapter" where
  "fx_adapters = index_by ad_source_id fx_adapter_list"

definition fx_source_policy :: source_policy where
  "fx_source_policy = \<lparr>po_rule_status = STATUS_ALLOWED, po_allowed_source_ids = [''DS-A'', ''DS-B''],
     po_source_order = [''DS-A'', ''DS-B''], po_allow_fallback = True, po_offline_mode = False\<rparr>"

definition fx_request :: source_request where
  "fx_request = Json_Rpc \<lparr>jq_capability = ''logs'', jq_method = ''eth_getLogs'', jq_params = JArr [],
     jq_block_tag = Tag_None\<rparr>"

lemma fx_adapters_ok: "orchestrator_init fx_adapter_list = Inr fx_adapters"
  by (simp add: orchestrator_init_def fx_adapter_list_def fx_adapters_def)

lemma fx_policy_distinct: "distinct (po_source_order fx_source_policy)"
  by (simp add: fx_source_policy_def)

lemma fx_sources_run:
  "\<exists>x st'. source_execute fx_sources default_retry_policy fx_adapters fx_request fx_source_policy source_start
    = Inr (x, st')"
  by (rule source_execute_total) (simp add: fx_sources_def)

subsection \<open>Properties\<close>

text \<open>
  No source is touched without an explicitly allowed policy: unless the rules allow it and offline
  mode is off, the execution makes no adapter call and reads no clock, records no attempt, and
  reports a non-retryable error that says which of the two forbade it.
\<close>

theorem policy_gate_blocks_sources:
  assumes "po_rule_status policy \<noteq> STATUS_ALLOWED \<or> po_offline_mode policy"
  shows "\<exists>e. source_execute env pol adapters req policy st
      = Inr (\<lparr>so_response = None, so_attempts = [], so_error = Some e\<rparr>, st)
    \<and> see_code e = (if po_rule_status policy \<noteq> STATUS_RESTRICTED \<and> po_offline_mode policy
                    then ERR_SOURCE_UNAVAILABLE else ERR_RULE_RESTRICTED)
    \<and> see_attempt_count e = 0 \<and> \<not> see_retryable e"
  using assms
  by (auto simp: source_execute_def source_policy_error_def source_execution_init_def
      source_execution_error_def)

theorem policy_gate_blocks_sources_witness:
  "\<exists>e. source_execute fx_sources default_retry_policy fx_adapters fx_request
      (fx_source_policy\<lparr>po_rule_status := STATUS_UNCONFIRMED\<rparr>) source_start
    = Inr (\<lparr>so_response = None, so_attempts = [], so_error = Some e\<rparr>, source_start)"
  using policy_gate_blocks_sources [of "fx_source_policy\<lparr>po_rule_status := STATUS_UNCONFIRMED\<rparr>"
      fx_sources default_retry_policy fx_adapters fx_request source_start] by auto

text \<open>
  C36: Only allowed sources are called, and not too often: every adapter call goes to a registered
  adapter that the policy allows and lists in its order (only the first one when fallback is off),
  the calls are exactly the recorded attempts, and no source is called more than max_attempts times.
\<close>

theorem only_allowed_sources_are_called:
  assumes "orchestrator_init ads = Inr adapters" and "distinct (po_source_order policy)"
    and "source_execute env pol adapters req policy source_start = Inr (x, st')"
  shows "st_calls st' = map sa_source_id (so_attempts x)
    \<and> set (st_calls st') \<subseteq> set (po_allowed_source_ids policy) \<inter> set (po_source_order policy)
         \<inter> ad_source_id ` set ads
    \<and> (\<not> po_allow_fallback policy \<longrightarrow> set (st_calls st') \<subseteq> {hd (po_source_order policy)})
    \<and> (\<forall>s. count_list (st_calls st') s \<le> nat (rt_max_attempts pol))"
proof -
  note spec = source_execute_spec [OF assms]
  have calls: "st_calls st' = map sa_source_id (so_attempts x)"
    using spec by (simp add: source_start_def)
  have tried: "set (st_calls st') \<subseteq> set (source_ids_to_try policy)
      \<inter> set (po_allowed_source_ids policy) \<inter> ad_source_id ` set ads"
    using spec calls by auto
  moreover have "set (source_ids_to_try policy) \<subseteq> set (po_source_order policy)"
    by (auto simp: source_ids_to_try_def dest: in_set_takeD)
  moreover have "set (source_ids_to_try policy) \<subseteq> {hd (po_source_order policy)}"
    if "\<not> po_allow_fallback policy"
    using that by (cases "po_source_order policy") (auto simp: source_ids_to_try_def)
  ultimately show ?thesis using spec calls by auto
qed

theorem only_allowed_sources_are_called_witness:
  "\<exists>x st'. source_execute fx_sources default_retry_policy fx_adapters fx_request fx_source_policy source_start
      = Inr (x, st') \<and> st_calls st' = map sa_source_id (so_attempts x)
      \<and> set (st_calls st') \<subseteq> {''DS-A'', ''DS-B''}"
proof -
  obtain x st' where r: "source_execute fx_sources default_retry_policy fx_adapters fx_request
      fx_source_policy source_start = Inr (x, st')" using fx_sources_run by blast
  have c: "st_calls st' = map sa_source_id (so_attempts x)"
    "set (st_calls st') \<subseteq> set (po_allowed_source_ids fx_source_policy)"
    using only_allowed_sources_are_called [OF fx_adapters_ok fx_policy_distinct r] by blast+
  then have "set (st_calls st') \<subseteq> {''DS-A'', ''DS-B''}" by (simp only: fx_source_policy_def) simp
  with r c(1) show ?thesis by (intro exI [of _ x] exI [of _ st'] conjI)
qed

text \<open>
  An execution has exactly one of a response and an error. A response carries the payload of
  the last attempt, which succeeded at the response's source after failed attempts only, at sources
  that did not include this one; an error counts every attempt, all of which failed.
\<close>

theorem execution_is_response_or_error:
  assumes "orchestrator_init ads = Inr adapters" and "distinct (po_source_order policy)"
    and "source_execute env pol adapters req policy st = Inr (x, st')"
  shows "(succeeded x \<longleftrightarrow> so_error x = None)
    \<and> (\<forall>r. so_response x = Some r \<longrightarrow> so_attempts x \<noteq> []
         \<and> sa_outcome (last (so_attempts x)) = ATTEMPT_SUCCESS
         \<and> sa_source_id (last (so_attempts x)) = sre_source_id r
         \<and> sa_raw_sha256 (last (so_attempts x)) = Some (raw_sha256 (sre_payload r))
         \<and> (\<forall>a \<in> set (butlast (so_attempts x)). sa_outcome a = ATTEMPT_FAILED)
         \<and> sre_source_id r \<notin> set (sre_fallback_from r))
    \<and> (\<forall>e. so_error x = Some e \<longrightarrow> see_attempt_count e = length (so_attempts x)
         \<and> (\<forall>a \<in> set (so_attempts x). sa_outcome a = ATTEMPT_FAILED))"
  using source_execute_spec [OF assms]
  by (auto simp: execution_ok_def succeeded_def split: option.splits)

theorem execution_is_response_or_error_witness:
  "\<exists>x st'. source_execute fx_sources default_retry_policy fx_adapters fx_request fx_source_policy source_start
      = Inr (x, st') \<and> (succeeded x \<longleftrightarrow> so_error x = None)"
proof -
  obtain x st' where r: "source_execute fx_sources default_retry_policy fx_adapters fx_request
      fx_source_policy source_start = Inr (x, st')" using fx_sources_run by blast
  from execution_is_response_or_error [OF fx_adapters_ok fx_policy_distinct r]
  have "succeeded x \<longleftrightarrow> so_error x = None" by (rule conjunct1)
  with r show ?thesis by (intro exI [of _ x] exI [of _ st'] conjI)
qed

lemma retry_after_nonneg: "retry_after_seconds env v t = Some s \<Longrightarrow> 0 \<le> s"
  by (auto simp: retry_after_seconds_def split: option.splits float_value.splits parsed_date.splits)

lemma retry_delay_bounds:
  assumes pol: "retry_policy_init pol = Inr pol" and rnd: "\<And>n. 0 \<le> sv_random env n"
    and d: "retry_delay env pol n f st = (w, st')"
  shows "0 \<le> w \<and> w \<le> rt_max_delay_seconds pol"
proof -
  have p: "0 \<le> rt_base_delay_seconds pol" "0 \<le> rt_max_delay_seconds pol" "0 \<le> rt_jitter_ratio pol"
    using pol by (auto simp: retry_policy_init_def result_simps)
  then have e: "0 \<le> rt_base_delay_seconds pol * 2 ^ (n - 1)" by simp
  then have "0 \<le> rt_base_delay_seconds pol * 2 ^ (n - 1) * rt_jitter_ratio pol * sv_random env (st_randoms st)"
    using p(3) rnd by simp
  with d p(2) e retry_after_nonneg show ?thesis
    by (auto simp: retry_delay_def Let_def split: option.splits)
qed

lemma attempt_loop_waits:
  assumes "attempt_loop env pol ad req ns atts lf st = Inr (response, atts', lf', st')"
    and pol: "retry_policy_init pol = Inr pol" and rnd: "\<And>n. 0 \<le> sv_random env n"
    and "\<forall>w \<in> set (st_sleeps st). 0 \<le> w \<and> w \<le> rt_max_delay_seconds pol"
  shows "\<forall>w \<in> set (st_sleeps st'). 0 \<le> w \<and> w \<le> rt_max_delay_seconds pol"
  using assms(1,4)
proof (induction ns arbitrary: atts lf st)
  case (Cons n ns)
  let ?st1 = "(tick st)\<lparr>st_calls := st_calls st @ [ad_source_id ad]\<rparr>"
  show ?case
  proof (cases "sv_reply env (length (st_calls st)) (ad_source_id ad) req")
    case (Reply_Failure f)
    obtain w st2 where d: "retry_delay env pol n f ?st1 = (w, st2)" by (cases "retry_delay env pol n f ?st1")
    have w: "0 \<le> w \<and> w \<le> rt_max_delay_seconds pol" using retry_delay_bounds [OF pol rnd d] .
    let ?st3 = "(tick st2)\<lparr>st_sleeps := st_sleeps st2 @ [w]\<rparr>"
    have ok: "\<forall>w \<in> set (st_sleeps ?st3). 0 \<le> w \<and> w \<le> rt_max_delay_seconds pol"
      using Cons.prems(2) w retry_delay_state(2) [OF d] by auto
    show ?thesis
      using Cons.prems Reply_Failure d Cons.IH [OF _ ok] by (auto simp: Let_def split: if_splits)
  qed (use Cons.prems in \<open>auto simp: Let_def\<close>)
qed simp

lemma fallback_loop_waits:
  assumes "fallback_loop env pol adapters req policy ids fb st = Inr (x, st')"
    and pol: "retry_policy_init pol = Inr pol" and rnd: "\<And>n. 0 \<le> sv_random env n"
    and "\<forall>w \<in> set (st_sleeps st). 0 \<le> w \<and> w \<le> rt_max_delay_seconds pol"
  shows "\<forall>w \<in> set (st_sleeps st'). 0 \<le> w \<and> w \<le> rt_max_delay_seconds pol"
  using assms(1,4)
proof (induction ids arbitrary: fb st)
  case Nil
  then show ?case by (auto simp: source_execution_init_def result_simps)
next
  case (Cons s ids)
  show ?case
  proof (cases "\<exists>ad. adapters s = Some ad \<and> s \<in> set (po_allowed_source_ids policy)")
    case False
    then have "fallback_loop env pol adapters req policy ids fb st = Inr (x, st')"
      using Cons.prems(1) by (auto split: option.splits)
    from Cons.IH [OF this Cons.prems(2)] show ?thesis .
  next
    case True
    then obtain ad where ad: "adapters s = Some ad" "s \<in> set (po_allowed_source_ids policy)" by blast
    obtain response atts lf st1 where ex: "execute_source env pol ad req st = Inr (response, atts, lf, st1)"
      using Cons.prems(1) ad by (cases "execute_source env pol ad req st") auto
    have ok: "\<forall>w \<in> set (st_sleeps st1). 0 \<le> w \<and> w \<le> rt_max_delay_seconds pol"
      using attempt_loop_waits [OF ex [unfolded execute_source_def] pol rnd Cons.prems(2)] .
    show ?thesis
      using Cons.prems(1) ad ex Cons.IH [OF _ ok] ok
      by (auto simp: Let_def source_execution_init_def result_simps split: option.splits)
  qed
qed

text \<open>
  Every wait between attempts is between zero and max_delay_seconds, whatever the server's
  Retry-After header says and whatever the jitter is; the waits recorded with the attempts are the
  ones slept.
\<close>

theorem waits_are_bounded:
  assumes "retry_policy_init pol = Inr pol" and "\<And>n. 0 \<le> sv_random env n"
    and "orchestrator_init ads = Inr adapters" and "distinct (po_source_order policy)"
    and "source_execute env pol adapters req policy source_start = Inr (x, st')"
  shows "st_sleeps st' = waits (so_attempts x)
    \<and> (\<forall>w \<in> set (st_sleeps st'). 0 \<le> w \<and> w \<le> rt_max_delay_seconds pol)"
proof
  show "st_sleeps st' = waits (so_attempts x)"
    using source_execute_spec [OF assms(3-5)] by (simp add: source_start_def)
  show "\<forall>w \<in> set (st_sleeps st'). 0 \<le> w \<and> w \<le> rt_max_delay_seconds pol"
  proof (cases "source_policy_error policy")
    case None
    then show ?thesis
      using fallback_loop_waits [OF _ assms(1,2)] assms(5) by (simp add: source_execute_def source_start_def)
  next
    case (Some e)
    then show ?thesis
      using assms(5) by (auto simp: source_execute_def source_execution_init_def result_simps source_start_def)
  qed
qed

theorem waits_are_bounded_witness:
  "\<exists>x st'. source_execute fx_sources default_retry_policy fx_adapters fx_request fx_source_policy source_start
      = Inr (x, st') \<and> st_sleeps st' = waits (so_attempts x) \<and> list_all (\<lambda>w. 0 \<le> w \<and> w \<le> 30) (st_sleeps st')"
proof -
  obtain x st' where r: "source_execute fx_sources default_retry_policy fx_adapters fx_request
      fx_source_policy source_start = Inr (x, st')" using fx_sources_run by blast
  have "retry_policy_init default_retry_policy = Inr default_retry_policy"
    by (simp add: retry_policy_init_def default_retry_policy_def)
  moreover have "0 \<le> sv_random fx_sources n" for n by (simp add: fx_sources_def)
  ultimately have "st_sleeps st' = waits (so_attempts x)
      \<and> (\<forall>w \<in> set (st_sleeps st'). 0 \<le> w \<and> w \<le> rt_max_delay_seconds default_retry_policy)"
    using waits_are_bounded [OF _ _ fx_adapters_ok fx_policy_distinct r] by blast
  with r show ?thesis by (auto simp: list_all_iff default_retry_policy_def)
qed

text \<open>
  The final error speaks for the last failure only: an execution in which the first source failed
  permanently and only the second was rate limited reports that all allowed source attempts were
  rate limited.
\<close>

theorem rate_limit_message_overstates:
  "\<exists>x st' e. source_execute fx_sources default_retry_policy fx_adapters fx_request fx_source_policy source_start
      = Inr (x, st')
    \<and> so_error x = Some e \<and> see_message e = ''all allowed source attempts were rate limited''
    \<and> map sa_failure_kind (so_attempts x)
        = [Some FAIL_PERMANENT, Some FAIL_RATE_LIMITED, Some FAIL_RATE_LIMITED, Some FAIL_RATE_LIMITED]"
proof -
  have n: "attempt_numbers default_retry_policy = [1, 2, 3]"
    by (simp add: attempt_numbers_def default_retry_policy_def upt_rec)
  show ?thesis
    by (simp add: source_execute_def source_policy_error_def fx_source_policy_def source_ids_to_try_def
        fx_adapters_def fx_adapter_list_def execute_source_def n [unfolded default_retry_policy_def] Let_def fx_sources_def fx_failure_def
        retryable_failures_def retry_delay_def retry_after_seconds_def failed_attempt_def
        default_retry_policy_def source_execution_init_def final_error_def safe_final_message_def
        fallback_start_def source_start_def)
qed

end
