(* ===== verification/Submission.thy ===== *)
theory Submission
  imports Operations_Bundle Lifecycle Sha256
begin

section \<open>Recording a submission\<close>

text \<open>
  \<^verbatim>\<open>application/submission.py\<close>, with the \<^verbatim>\<open>CommandResult\<close> of \<^verbatim>\<open>application/operations_snapshot.py\<close>: an
  operator's confirmation of a submission turns a submission-ready candidate and its problem
  into submitted ones, in a copy of the document that is validated as a whole. Errors of the
  recorder are its value errors, a rejected actor id, and the contract errors of the records it
  builds.
\<close>

datatype submission_error = Record_Error string | Guard_Error guard_error | Contract_Error contract_error

definition lift_contract :: "contract_error + 'a \<Rightarrow> submission_error + 'a" where
  "lift_contract r = (case r of Inl e \<Rightarrow> Inl (Contract_Error e) | Inr x \<Rightarrow> Inr x)"

lemma lift_contract_Inr [result_simps]: "lift_contract r = Inr x \<longleftrightarrow> r = Inr x"
  by (cases r) (simp_all add: lift_contract_def)

subsection \<open>Timestamps as text\<close>

text \<open>
  \<^verbatim>\<open>datetime.isoformat()\<close> of an aware UTC datetime: the civil date of a day number (counted in
  400-year eras from March 1st of year zero) and the time of day, with microseconds when there are any.
\<close>

definition civil_date :: "int \<Rightarrow> int \<times> int \<times> int" where
  "civil_date days =
     (let z = days + 719468; era = z div 146097; doe = z mod 146097;
          yoe = (doe - doe div 1460 + doe div 36524 - doe div 146096) div 365;
          doy = doe - (365 * yoe + yoe div 4 - yoe div 100);
          mp = (5 * doy + 2) div 153;
          d = doy - (153 * mp + 2) div 5 + 1;
          m = (if mp < 10 then mp + 3 else mp - 9);
          y = yoe + era * 400 + (if m \<le> 2 then 1 else 0) in
      (y, m, d))"

definition pad_number :: "nat \<Rightarrow> int \<Rightarrow> string" where
  "pad_number width n =
     (let text = show_int n in replicate (width - length text) (CHR ''0'') @ text)"

definition isoformat :: "instant \<Rightarrow> string" where
  "isoformat t =
     (let days = t div 86400000000; rest = t mod 86400000000;
          seconds = rest div 1000000; micros = rest mod 1000000;
          (y, m, d) = civil_date days in
      pad_number 4 y @ ''-'' @ pad_number 2 m @ ''-'' @ pad_number 2 d @ ''T''
      @ pad_number 2 (seconds div 3600) @ '':'' @ pad_number 2 ((seconds div 60) mod 60) @ '':''
      @ pad_number 2 (seconds mod 60)
      @ (if micros = 0 then [] else ''.'' @ pad_number 6 micros) @ ''+00:00'')"

subsection \<open>Commands and results\<close>

definition operator_id_ok :: "string \<Rightarrow> bool" where
  "operator_id_ok s \<longleftrightarrow>
     starts_with ''operator-'' s \<and>
     (case drop (length ''operator-'') s of
        [] \<Rightarrow> False
      | c # cs \<Rightarrow> is_lower_alnum c \<and> list_all (\<lambda>d. is_lower_alnum d \<or> d = CHR ''-'') cs
                \<and> length cs \<le> 47)"

record submission_command =
  sc_competition_id :: string
  sc_candidate_id :: string
  sc_response :: submission_response
  sc_operator_confirmed :: bool
  sc_actor_id :: string

definition validate_command :: "submission_command \<Rightarrow> contract_error + unit" where
  "validate_command c =
     raise_if
       (\<not> (competition_id_ok (sc_competition_id c) \<and> candidate_id_ok (sc_candidate_id c)
           \<and> sc_operator_confirmed c \<and> operator_id_ok (sc_actor_id c)))
       field_errors"

abbreviation "command_id_ok \<equiv> id_pattern ''CMD-'' 2 63"

record command_result =
  cr_command_id :: string
  cr_accepted :: bool
  cr_entity_id :: string
  cr_new_status :: "string option"
  cr_event_id :: "string option"
  cr_warnings :: "string list"

definition accepted_command_has_event_and_status :: "command_result \<Rightarrow> contract_error + unit" where
  "accepted_command_has_event_and_status r =
     raise_if (cr_accepted r \<and> (cr_event_id r = None \<or> cr_new_status r = None))
       (schema_invalid ''accepted command requires event_id and new_status'')"

definition validate_command_result :: "command_result \<Rightarrow> contract_error + unit" where
  "validate_command_result r =
     then_check
       (raise_if
         (\<not> (command_id_ok (cr_command_id r) \<and> cr_entity_id r \<noteq> []
             \<and> optional_ok snake_pattern (cr_new_status r)
             \<and> optional_ok operation_event_id_ok (cr_event_id r)
             \<and> distinct (cr_warnings r) \<and> [] \<notin> set (cr_warnings r)))
         field_errors)
       (accepted_command_has_event_and_status r)"

record submission_execution =
  sn_document :: operations_bundle
  sn_submission :: submission_record
  sn_event :: operation_event
  sn_command_result :: command_result

subsection \<open>The recorder\<close>

fun find_candidate :: "candidate_record list \<Rightarrow> string \<Rightarrow> submission_error + candidate_record" where
  "find_candidate [] cid = Inl (Record_Error ''candidate_not_found'')"
| "find_candidate (c # cs) cid = (if cd_candidate_id c = cid then Inr c else find_candidate cs cid)"

fun find_problem :: "problem_record list \<Rightarrow> string \<Rightarrow> submission_error + problem_record" where
  "find_problem [] pid = Inl (Record_Error ''problem_not_found'')"
| "find_problem (p # ps) pid = (if pr_problem_id p = pid then Inr p else find_problem ps pid)"

definition submission_suffix :: "submission_command \<Rightarrow> instant \<Rightarrow> string" where
  "submission_suffix command now =
     map to_upper
       (take 20 (sha256_hex (encode
         (sc_competition_id command @ '':'' @ sc_candidate_id command @ '':'' @ isoformat now))))"

definition new_submission :: "submission_command \<Rightarrow> candidate_record \<Rightarrow> instant \<Rightarrow> submission_record" where
  "new_submission command candidate now =
     \<lparr>sb_submission_id = ''SUB-'' @ submission_suffix command now,
      sb_candidate_id = cd_candidate_id candidate, sb_operator_confirmed = True,
      sb_response = sc_response command, sb_submitted_at = now, sb_note_artifact = None\<rparr>"

definition new_event ::
    "submission_command \<Rightarrow> candidate_record \<Rightarrow> problem_record \<Rightarrow> instant \<Rightarrow> operation_event" where
  "new_event command candidate problem now =
     \<lparr>ev_event_id = ''OEV-SUB-'' @ submission_suffix command now,
      ev_competition_id = sc_competition_id command, ev_problem_id = Some (pr_problem_id problem),
      ev_entity_type = ''submission'', ev_entity_id = ''SUB-'' @ submission_suffix command now,
      ev_event_type = ''submission_recorded'', ev_actor_type = OPERATOR,
      ev_actor_id = sc_actor_id command,
      ev_from_status = Some (candidate_status_value CAND_SUBMISSION_READY),
      ev_to_status = Some (candidate_status_value CAND_SUBMITTED),
      ev_safe_details_json =
        JObj [(''candidate_id'', JStr (cd_candidate_id candidate)),
              (''response'', JStr (submission_response_value (sc_response command))),
              (''external_submission'', JStr ''human_confirmed'')],
      ev_created_at = now\<rparr>"

definition updated_bundle ::
    "operations_bundle \<Rightarrow> candidate_record \<Rightarrow> problem_record \<Rightarrow> submission_record \<Rightarrow> operation_event
      \<Rightarrow> instant \<Rightarrow> operations_bundle" where
  "updated_bundle b candidate problem submission event now =
     (let updated_candidate = candidate\<lparr>cd_status := CAND_SUBMITTED, cd_updated_at := now\<rparr>;
          updated_problem = problem\<lparr>pr_status := PROB_SUBMITTED, pr_updated_at := now\<rparr> in
      b\<lparr>ob_manifest := (ob_manifest b)\<lparr>mf_updated_at := now\<rparr>,
        ob_problems :=
          map (\<lambda>p. if pr_problem_id p = pr_problem_id problem then updated_problem else p) (ob_problems b),
        ob_candidates :=
          map (\<lambda>c. if cd_candidate_id c = cd_candidate_id candidate then updated_candidate else c)
            (ob_candidates b),
        ob_submissions := ob_submissions b @ [submission],
        ob_events := ob_events b @ [event]\<rparr>)"

definition updated_document ::
    "operations_bundle \<Rightarrow> candidate_record \<Rightarrow> problem_record \<Rightarrow> submission_record \<Rightarrow> operation_event
      \<Rightarrow> instant \<Rightarrow> submission_error + operations_bundle" where
  "updated_document b candidate problem submission event now =
     (let updated = updated_bundle b candidate problem submission event now in
      and_then (lift_contract (validate_operations_document updated)) (\<lambda>_. Inr updated))"

definition new_command_result :: "submission_command \<Rightarrow> candidate_record \<Rightarrow> instant \<Rightarrow> command_result" where
  "new_command_result command candidate now =
     \<lparr>cr_command_id = ''CMD-SUB-'' @ submission_suffix command now, cr_accepted = True,
      cr_entity_id = cd_candidate_id candidate,
      cr_new_status = Some (candidate_status_value CAND_SUBMITTED),
      cr_event_id = Some (''OEV-SUB-'' @ submission_suffix command now),
      cr_warnings = [''CTFd response was recorded locally; no network submission was made.'']\<rparr>"

definition record_submission ::
    "string list \<Rightarrow> operations_bundle \<Rightarrow> submission_command \<Rightarrow> instant
      \<Rightarrow> submission_error + submission_execution" where
  "record_submission forbidden b command now =
     and_then (case check_text forbidden (sc_actor_id command) of
                 Inl e \<Rightarrow> Inl (Guard_Error e) | Inr u \<Rightarrow> Inr u) (\<lambda>_.
     and_then
       (all_checks
         [raise_if (mf_competition_id (ob_manifest b) \<noteq> sc_competition_id command)
            (Record_Error ''competition_scope_mismatch''),
          raise_if (mf_status (ob_manifest b) \<noteq> COMP_ACTIVE) (Record_Error ''competition_not_active''),
          raise_if (list_ex (\<lambda>s. sb_candidate_id s = sc_candidate_id command) (ob_submissions b))
            (Record_Error ''candidate_already_recorded'')]) (\<lambda>_.
     and_then (find_candidate (ob_candidates b) (sc_candidate_id command)) (\<lambda>candidate.
     and_then (find_problem (ob_problems b) (cd_problem_id candidate)) (\<lambda>problem.
     and_then
       (then_check
         (raise_if (cd_status candidate \<noteq> CAND_SUBMISSION_READY)
            (Record_Error ''candidate_not_submission_ready''))
         (raise_if (pr_status problem \<noteq> PROB_SUBMISSION_READY)
            (Record_Error ''problem_not_submission_ready''))) (\<lambda>_.
     let submission = new_submission command candidate now;
         event = new_event command candidate problem now;
         command_result = new_command_result command candidate now in
     and_then (lift_contract (validate_submission submission)) (\<lambda>_.
     and_then (lift_contract (validate_event event)) (\<lambda>_.
     and_then (updated_document b candidate problem submission event now) (\<lambda>updated.
     and_then (lift_contract (validate_command_result command_result)) (\<lambda>_.
     Inr \<lparr>sn_document = updated, sn_submission = submission, sn_event = event,
          sn_command_result = command_result\<rparr>)))))))))"

end
