(* ===== verification/Submission_Properties.thy ===== *)
theory Submission_Properties
  imports Submission Fixtures
begin

section \<open>Properties of submission recording\<close>

text \<open>
  When recording a submission succeeds, what it changes, and that it happens at most once per
  candidate. The lemmas describe the updated bundle as a map over the old one that keeps every
  key and every reference.
\<close>

subsection \<open>Lookups\<close>

lemma find_candidate_Inr:
  "distinct (map cd_candidate_id cs) \<Longrightarrow>
     find_candidate cs cid = Inr c \<longleftrightarrow> c \<in> set cs \<and> cd_candidate_id c = cid"
  by (induction cs) (auto simp: image_iff)

lemma find_problem_Inr:
  "distinct (map pr_problem_id ps) \<Longrightarrow>
     find_problem ps pid = Inr p \<longleftrightarrow> p \<in> set ps \<and> pr_problem_id p = pid"
  by (induction ps) (auto simp: image_iff)

subsection \<open>The records of a recording\<close>

lemma suffix_identifiers:
  "submission_id_ok (''SUB-'' @ submission_suffix command now)"
  "operation_event_id_ok (''OEV-SUB-'' @ submission_suffix command now)"
  "command_id_ok (''CMD-SUB-'' @ submission_suffix command now)"
proof -
  let ?m = "encode (sc_competition_id command @ '':'' @ sc_candidate_id command @ '':'' @ isoformat now)"
  show "submission_id_ok (''SUB-'' @ submission_suffix command now)"
    unfolding submission_suffix_def by (rule hex_identifier) simp_all
  have tag: "''SUB-'' = CHR ''S'' # ''UB-''" "is_upper_alnum (CHR ''S'')"
    "list_all (\<lambda>d. is_upper_alnum d \<or> d = CHR ''-'') ''UB-''"
    by (simp_all add: char_class_defs)
  show "operation_event_id_ok (''OEV-SUB-'' @ submission_suffix command now)"
    using tagged_hex_identifier [OF tag, of 2 20 63 "''OEV-''" ?m] by (simp add: submission_suffix_def)
  show "command_id_ok (''CMD-SUB-'' @ submission_suffix command now)"
    using tagged_hex_identifier [OF tag, of 2 20 63 "''CMD-''" ?m] by (simp add: submission_suffix_def)
qed

lemma response_relative: "\<not> is_absolute_path (submission_response_value r)"
  by (cases r; hypsubst; code_simp)

lemma new_event_details:
  assumes "candidate_id_ok (cd_candidate_id candidate)"
  shows "safe_json_object (ev_safe_details_json (new_event command candidate problem now))"
proof -
  have "\<not> is_absolute_path (cd_candidate_id candidate)"
    using assms by (rule id_pattern_relative) simp_all
  moreover have "\<not> is_absolute_path ''human_confirmed''" by code_simp
  moreover have "list_all plain_key [''candidate_id'', ''response'', ''external_submission'']"
    by code_simp
  ultimately show ?thesis
    using response_relative
    by (simp add: new_event_def safe_json_object_def is_json_object_def safe_json_object_iff
        result_simps del: safe_json.simps(1))
qed

lemma new_submission_valid:
  "candidate_id_ok (cd_candidate_id candidate) \<Longrightarrow>
     validate_submission (new_submission command candidate now) = Inr ()"
  using suffix_identifiers(1) by (simp add: validate_submission_def new_submission_def)

lemma new_event_valid:
  assumes "validate_command command = Inr ()" and "candidate_id_ok (cd_candidate_id candidate)"
    and "problem_id_ok (pr_problem_id problem)"
  shows "validate_event (new_event command candidate problem now) = Inr ()"
proof -
  have "snake_pattern ''submission''" "snake_pattern ''submission_recorded''"
    "snake_pattern (candidate_status_value CAND_SUBMISSION_READY)"
    "snake_pattern (candidate_status_value CAND_SUBMITTED)" by code_simp+
  moreover have "competition_id_ok (sc_competition_id command)" "sc_actor_id command \<noteq> []"
    using assms(1) by (auto simp: validate_command_def operator_id_ok_def result_simps)
  moreover note suffix_identifiers(2) new_event_details [OF assms(2)] assms(3)
  ultimately show ?thesis by (simp add: validate_event_def new_event_def result_simps)
qed

lemma new_command_result_valid:
  assumes "candidate_id_ok (cd_candidate_id candidate)"
  shows "validate_command_result (new_command_result command candidate now) = Inr ()"
proof -
  have "snake_pattern (candidate_status_value CAND_SUBMITTED)" by code_simp
  moreover note suffix_identifiers(2,3) id_pattern_nonempty [OF assms]
  ultimately show ?thesis
    by (simp add: validate_command_result_def new_command_result_def
        accepted_command_has_event_and_status_def)
qed

subsection \<open>The updated bundle\<close>

text \<open>The two records a recording changes, as maps that keep every key and reference.\<close>

definition mark_candidate :: "string \<Rightarrow> instant \<Rightarrow> candidate_record \<Rightarrow> candidate_record" where
  "mark_candidate cid now c =
     (if cd_candidate_id c = cid then c\<lparr>cd_status := CAND_SUBMITTED, cd_updated_at := now\<rparr> else c)"

definition mark_problem :: "string \<Rightarrow> instant \<Rightarrow> problem_record \<Rightarrow> problem_record" where
  "mark_problem pid now p =
     (if pr_problem_id p = pid then p\<lparr>pr_status := PROB_SUBMITTED, pr_updated_at := now\<rparr> else p)"

lemma mark_candidate_simps [simp]:
  "cd_candidate_id (mark_candidate cid now c) = cd_candidate_id c"
  "cd_problem_id (mark_candidate cid now c) = cd_problem_id c"
  "cd_created_by_job_id (mark_candidate cid now c) = cd_created_by_job_id c"
  "cd_verification_refs (mark_candidate cid now c) = cd_verification_refs c"
  "candidate_fields_ok (mark_candidate cid now c) = candidate_fields_ok c"
  by (simp_all add: mark_candidate_def candidate_fields_ok_def)

lemma mark_problem_simps [simp]:
  "pr_problem_id (mark_problem pid now p) = pr_problem_id p"
  "pr_competition_id (mark_problem pid now p) = pr_competition_id p"
  "pr_active_plan_id (mark_problem pid now p) = pr_active_plan_id p"
  "problem_fields_ok (mark_problem pid now p) = problem_fields_ok p"
  by (simp_all add: mark_problem_def problem_fields_ok_def)

lemma updated_bundle_mark:
  assumes "distinct (map cd_candidate_id (ob_candidates b))" and "candidate \<in> set (ob_candidates b)"
    and "distinct (map pr_problem_id (ob_problems b))" and "problem \<in> set (ob_problems b)"
  shows "updated_bundle b candidate problem submission event now =
    b\<lparr>ob_manifest := (ob_manifest b)\<lparr>mf_updated_at := now\<rparr>,
      ob_problems := map (mark_problem (pr_problem_id problem) now) (ob_problems b),
      ob_candidates := map (mark_candidate (cd_candidate_id candidate) now) (ob_candidates b),
      ob_submissions := ob_submissions b @ [submission],
      ob_events := ob_events b @ [event]\<rparr>"
proof -
  have "c = candidate" if "c \<in> set (ob_candidates b)" "cd_candidate_id c = cd_candidate_id candidate" for c
    using that assms(1,2) by (auto simp: distinct_map dest: inj_onD)
  moreover have "p = problem" if "p \<in> set (ob_problems b)" "pr_problem_id p = pr_problem_id problem" for p
    using that assms(3,4) by (auto simp: distinct_map dest: inj_onD)
  ultimately have
    "map (\<lambda>c. if cd_candidate_id c = cd_candidate_id candidate
        then candidate\<lparr>cd_status := CAND_SUBMITTED, cd_updated_at := now\<rparr> else c) (ob_candidates b) =
      map (mark_candidate (cd_candidate_id candidate) now) (ob_candidates b)"
    "map (\<lambda>p. if pr_problem_id p = pr_problem_id problem
        then problem\<lparr>pr_status := PROB_SUBMITTED, pr_updated_at := now\<rparr> else p) (ob_problems b) =
      map (mark_problem (pr_problem_id problem) now) (ob_problems b)"
    by (auto simp: mark_candidate_def mark_problem_def)
  then show ?thesis by (simp add: updated_bundle_def Let_def)
qed

lemma checks_of_marked_problems [simp]:
  "check_plan_refs (\<lambda>k. map_option (mark_problem pid now) (problems k)) modes jobs =
     check_plan_refs problems modes jobs"
  "check_job_refs (\<lambda>k. map_option (mark_problem pid now) (problems k)) plans =
     check_job_refs problems plans"
  "check_candidate_refs (\<lambda>k. map_option (mark_problem pid now) (problems k)) jobs verifications =
     check_candidate_refs problems jobs verifications"
  "check_event_refs cmp (\<lambda>k. map_option (mark_problem pid now) (problems k)) =
     check_event_refs cmp problems"
  "check_error_refs (\<lambda>k. map_option (mark_problem pid now) (problems k)) jobs =
     check_error_refs problems jobs"
  by (auto simp: check_plan_refs_def check_job_refs_def check_candidate_refs_def check_event_refs_def
      check_error_refs_def require_ref_def fun_eq_iff split: option.splits)

lemma check_of_marked_problem [simp]:
  "check_problem_refs plans (mark_problem pid now p) = check_problem_refs plans p"
  by (simp add: check_problem_refs_def split: option.split)

lemma check_of_marked_candidates [simp]:
  "check_verification_refs (\<lambda>k. map_option (mark_candidate cid now) (candidates k)) jobs =
     check_verification_refs candidates jobs"
  by (auto simp: check_verification_refs_def require_ref_def fun_eq_iff split: option.splits)

lemma check_of_marked_candidate:
  assumes "cd_candidate_id c = cid \<Longrightarrow> cd_status c = CAND_SUBMISSION_READY"
  shows "check_candidate_refs problems jobs verifications (mark_candidate cid now c) =
    check_candidate_refs problems jobs verifications c"
proof -
  have "cd_status (mark_candidate cid now c) \<in> {CAND_SUBMISSION_READY, CAND_SUBMITTED} \<longleftrightarrow>
      cd_status c \<in> {CAND_SUBMISSION_READY, CAND_SUBMITTED}"
    using assms by (auto simp: mark_candidate_def)
  then show ?thesis by (simp add: check_candidate_refs_def)
qed

lemma submission_of_marked_candidates:
  "check_submission_refs candidates s = Inr () \<Longrightarrow>
     check_submission_refs (\<lambda>k. map_option (mark_candidate cid now) (candidates k)) s = Inr ()"
  by (auto simp: check_submission_refs_def require_ref_def mark_candidate_def result_simps
      split: option.splits if_splits)

lemma validate_marked_candidate:
  assumes "validate_candidate c = Inr ()"
    and "cd_candidate_id c = cid \<Longrightarrow> cd_status c = CAND_SUBMISSION_READY"
  shows "validate_candidate (mark_candidate cid now c) = Inr () \<longleftrightarrow>
    (cd_candidate_id c = cid \<longrightarrow> cd_created_at c \<le> now)"
  using assms
  by (auto simp: validate_candidate_def ready_candidate_has_evidence_def mark_candidate_def
      candidate_fields_ok_def result_simps)

lemma validate_marked_problem:
  assumes "validate_problem p = Inr ()"
  shows "validate_problem (mark_problem pid now p) = Inr () \<longleftrightarrow>
    (pr_problem_id p = pid \<longrightarrow> pr_created_at p \<le> now)"
  using assms
  by (auto simp: validate_problem_def mark_problem_def problem_fields_ok_def result_simps)

lemma updated_records_valid:
  assumes valid: "validate_records b = Inr ()" and refs: "references_are_valid b = Inr ()"
    and candidate: "candidate \<in> set (ob_candidates b)" "cd_status candidate = CAND_SUBMISSION_READY"
    and problem: "problem \<in> set (ob_problems b)"
    and new: "validate_submission submission = Inr ()" "validate_event event = Inr ()"
  shows "validate_records (updated_bundle b candidate problem submission event now) = Inr () \<longleftrightarrow>
    mf_created_at (ob_manifest b) \<le> now \<and> cd_created_at candidate \<le> now \<and> pr_created_at problem \<le> now"
proof -
  note keys = refs [unfolded references_are_valid_Inr]
  have same_c: "c = candidate"
    if "c \<in> set (ob_candidates b)" "cd_candidate_id c = cd_candidate_id candidate" for c
    using that keys candidate(1) by (auto simp: distinct_map dest: inj_onD)
  have same_p: "p = problem"
    if "p \<in> set (ob_problems b)" "pr_problem_id p = pr_problem_id problem" for p
    using that keys problem by (auto simp: distinct_map dest: inj_onD)
  note records = valid [unfolded validate_records_Inr]
  have "(\<forall>c \<in> set (ob_candidates b).
      validate_candidate (mark_candidate (cd_candidate_id candidate) now c) = Inr ()) \<longleftrightarrow>
      cd_created_at candidate \<le> now"
    using records validate_marked_candidate same_c candidate by metis
  moreover have "(\<forall>p \<in> set (ob_problems b).
      validate_problem (mark_problem (pr_problem_id problem) now p) = Inr ()) \<longleftrightarrow>
      pr_created_at problem \<le> now"
    using records validate_marked_problem same_p problem by metis
  moreover have "validate_manifest ((ob_manifest b)\<lparr>mf_updated_at := now\<rparr>) = Inr () \<longleftrightarrow>
      mf_created_at (ob_manifest b) \<le> now"
    using records by (auto simp: validate_manifest_def manifest_fields_ok_def result_simps)
  moreover have "updated_bundle b candidate problem submission event now =
    b\<lparr>ob_manifest := (ob_manifest b)\<lparr>mf_updated_at := now\<rparr>,
      ob_problems := map (mark_problem (pr_problem_id problem) now) (ob_problems b),
      ob_candidates := map (mark_candidate (cd_candidate_id candidate) now) (ob_candidates b),
      ob_submissions := ob_submissions b @ [submission],
      ob_events := ob_events b @ [event]\<rparr>"
    using keys candidate(1) problem by (intro updated_bundle_mark) auto
  ultimately show ?thesis using records new by (auto simp: validate_records_Inr)
qed

lemma updated_references_valid:
  assumes refs: "references_are_valid b = Inr ()"
    and candidate: "candidate \<in> set (ob_candidates b)" "cd_status candidate = CAND_SUBMISSION_READY"
    and problem: "problem \<in> set (ob_problems b)"
    and submission: "sb_candidate_id submission = cd_candidate_id candidate"
    and event: "ev_competition_id event = mf_competition_id (ob_manifest b)"
      "ev_problem_id event = Some (pr_problem_id problem)"
  shows "references_are_valid (updated_bundle b candidate problem submission event now) = Inr () \<longleftrightarrow>
    sb_submission_id submission \<notin> sb_submission_id ` set (ob_submissions b)
    \<and> ev_event_id event \<notin> ev_event_id ` set (ob_events b)"
proof -
  note keys = refs [unfolded references_are_valid_Inr]
  let ?mc = "mark_candidate (cd_candidate_id candidate) now"
  let ?mp = "mark_problem (pr_problem_id problem) now"
  let ?u = "b\<lparr>ob_manifest := (ob_manifest b)\<lparr>mf_updated_at := now\<rparr>,
      ob_problems := map ?mp (ob_problems b), ob_candidates := map ?mc (ob_candidates b),
      ob_submissions := ob_submissions b @ [submission], ob_events := ob_events b @ [event]\<rparr>"
  have updated: "updated_bundle b candidate problem submission event now = ?u"
    using keys candidate(1) problem by (intro updated_bundle_mark) auto
  have problems: "bundle_problems ?u = (\<lambda>k. map_option ?mp (bundle_problems b k))"
    and candidates: "bundle_candidates ?u = (\<lambda>k. map_option ?mc (bundle_candidates b k))"
    by (auto simp: fun_eq_iff intro!: index_by_map)
  have same_c: "c = candidate"
    if "c \<in> set (ob_candidates b)" "cd_candidate_id c = cd_candidate_id candidate" for c
    using that keys candidate(1) by (auto simp: distinct_map dest: inj_onD)
  have ready: "check_candidate_refs ps js vs (?mc c) = check_candidate_refs ps js vs c"
    if "c \<in> set (ob_candidates b)" for c ps js vs
    by (rule check_of_marked_candidate) (use same_c [OF that] candidate(2) in auto)
  have found: "bundle_candidates b (cd_candidate_id candidate) = Some candidate"
    "bundle_problems b (pr_problem_id problem) = Some problem"
    using keys candidate(1) problem by (simp_all add: index_by_distinct)
  have new: "check_submission_refs (\<lambda>k. map_option ?mc (bundle_candidates b k)) submission = Inr ()"
    "check_event_refs (mf_competition_id (ob_manifest b)) (bundle_problems b) event = Inr ()"
    using found submission event
    by (auto simp: check_submission_refs_Inr check_event_refs_Inr mark_candidate_def)
  have global: "check_competitions ?u = check_competitions b" "check_fake_modes ?u = check_fake_modes b"
    by (simp_all add: check_competitions_def check_fake_modes_def o_def)
  have distinct: "distinct (map pr_problem_id (map ?mp (ob_problems b)))"
    "distinct (map cd_candidate_id (map ?mc (ob_candidates b)))"
    using keys by (simp_all add: distinct_map_keep del: map_map)
  show ?thesis
    unfolding updated references_are_valid_Inr problems candidates
    using keys global distinct new ready submission_of_marked_candidates by auto
qed

subsection \<open>When a recording succeeds\<close>

text \<open>The conditions under which an operator's confirmation is recorded.\<close>

definition recordable ::
    "string list \<Rightarrow> operations_bundle \<Rightarrow> submission_command \<Rightarrow> instant
      \<Rightarrow> candidate_record \<Rightarrow> problem_record \<Rightarrow> bool" where
  "recordable forbidden b command now candidate problem \<longleftrightarrow>
     check_text forbidden (sc_actor_id command) = Inr ()
     \<and> mf_competition_id (ob_manifest b) = sc_competition_id command
     \<and> mf_status (ob_manifest b) = COMP_ACTIVE
     \<and> sc_candidate_id command \<notin> sb_candidate_id ` set (ob_submissions b)
     \<and> candidate \<in> set (ob_candidates b) \<and> cd_candidate_id candidate = sc_candidate_id command
     \<and> problem \<in> set (ob_problems b) \<and> pr_problem_id problem = cd_problem_id candidate
     \<and> cd_status candidate = CAND_SUBMISSION_READY \<and> pr_status problem = PROB_SUBMISSION_READY
     \<and> mf_created_at (ob_manifest b) \<le> now \<and> cd_created_at candidate \<le> now
     \<and> pr_created_at problem \<le> now
     \<and> ''SUB-'' @ submission_suffix command now \<notin> sb_submission_id ` set (ob_submissions b)
     \<and> ''OEV-SUB-'' @ submission_suffix command now \<notin> ev_event_id ` set (ob_events b)"

definition recorded ::
    "operations_bundle \<Rightarrow> submission_command \<Rightarrow> instant \<Rightarrow> candidate_record \<Rightarrow> problem_record
      \<Rightarrow> submission_execution" where
  "recorded b command now candidate problem =
     (let submission = new_submission command candidate now;
          event = new_event command candidate problem now in
      \<lparr>sn_document = updated_bundle b candidate problem submission event now,
       sn_submission = submission, sn_event = event,
       sn_command_result = new_command_result command candidate now\<rparr>)"

lemma updated_document_Inr:
  fixes now :: instant
  assumes valid: "validate_operations_document b = Inr ()" and command: "validate_command command = Inr ()"
    and candidate: "candidate \<in> set (ob_candidates b)" "cd_candidate_id candidate = sc_candidate_id command"
      "cd_status candidate = CAND_SUBMISSION_READY"
    and problem: "problem \<in> set (ob_problems b)"
    and scope: "mf_competition_id (ob_manifest b) = sc_competition_id command"
  defines "submission \<equiv> new_submission command candidate now"
    and "event \<equiv> new_event command candidate problem now"
  shows "updated_document b candidate problem submission event now = Inr u \<longleftrightarrow>
      u = updated_bundle b candidate problem submission event now
      \<and> mf_created_at (ob_manifest b) \<le> now \<and> cd_created_at candidate \<le> now
      \<and> pr_created_at problem \<le> now
      \<and> ''SUB-'' @ submission_suffix command now \<notin> sb_submission_id ` set (ob_submissions b)
      \<and> ''OEV-SUB-'' @ submission_suffix command now \<notin> ev_event_id ` set (ob_events b)"
    and "validate_submission submission = Inr ()" and "validate_event event = Inr ()"
    and "validate_command_result (new_command_result command candidate now) = Inr ()"
proof -
  have ids: "candidate_id_ok (cd_candidate_id candidate)" "problem_id_ok (pr_problem_id problem)"
    using valid candidate(1) problem
    by (auto simp: validate_records_Inr validate_candidate_def candidate_fields_ok_def
        validate_problem_def problem_fields_ok_def result_simps)
  show new: "validate_submission submission = Inr ()" "validate_event event = Inr ()"
    and "validate_command_result (new_command_result command candidate now) = Inr ()"
    using new_submission_valid new_event_valid new_command_result_valid command ids
    by (simp_all add: submission_def event_def)
  have v: "validate_records b = Inr ()" "references_are_valid b = Inr ()"
    using valid by (simp_all add: result_simps)
  have fields: "sb_candidate_id submission = cd_candidate_id candidate"
    "sb_submission_id submission = ''SUB-'' @ submission_suffix command now"
    "ev_competition_id event = mf_competition_id (ob_manifest b)"
    "ev_problem_id event = Some (pr_problem_id problem)"
    "ev_event_id event = ''OEV-SUB-'' @ submission_suffix command now"
    using scope by (simp_all add: submission_def event_def new_submission_def new_event_def)
  show "updated_document b candidate problem submission event now = Inr u \<longleftrightarrow>
      u = updated_bundle b candidate problem submission event now
      \<and> mf_created_at (ob_manifest b) \<le> now \<and> cd_created_at candidate \<le> now
      \<and> pr_created_at problem \<le> now
      \<and> ''SUB-'' @ submission_suffix command now \<notin> sb_submission_id ` set (ob_submissions b)
      \<and> ''OEV-SUB-'' @ submission_suffix command now \<notin> ev_event_id ` set (ob_events b)"
    using updated_records_valid [OF v candidate(1,3) problem new, of now]
      updated_references_valid [OF v(2) candidate(1,3) problem fields(1,3,4), of now] fields(2,5)
    by (auto simp: updated_document_def Let_def result_simps)
qed

lemma record_submission_iff:
  assumes valid: "validate_operations_document b = Inr ()" and command: "validate_command command = Inr ()"
  shows "record_submission forbidden b command now = Inr ex \<longleftrightarrow>
    (\<exists>candidate problem. recordable forbidden b command now candidate problem
       \<and> ex = recorded b command now candidate problem)"
proof -
  have keys: "distinct (map cd_candidate_id (ob_candidates b))" "distinct (map pr_problem_id (ob_problems b))"
    using valid by (auto simp: references_are_valid_Inr result_simps)
  note updated = updated_document_Inr [OF assms]
  note unfold = record_submission_def Let_def list_ex_iff find_candidate_Inr [OF keys(1)]
    find_problem_Inr [OF keys(2)] result_simps
  show ?thesis
  proof
    assume "record_submission forbidden b command now = Inr ex"
    then obtain candidate problem where
      "check_text forbidden (sc_actor_id command) = Inr ()"
      "mf_competition_id (ob_manifest b) = sc_competition_id command"
      "mf_status (ob_manifest b) = COMP_ACTIVE"
      "\<forall>s \<in> set (ob_submissions b). sb_candidate_id s \<noteq> sc_candidate_id command"
      "candidate \<in> set (ob_candidates b)" "cd_candidate_id candidate = sc_candidate_id command"
      "problem \<in> set (ob_problems b)" "pr_problem_id problem = cd_problem_id candidate"
      "cd_status candidate = CAND_SUBMISSION_READY" "pr_status problem = PROB_SUBMISSION_READY"
      "updated_document b candidate problem (new_submission command candidate now)
         (new_event command candidate problem now) now = Inr (sn_document ex)"
      "ex = \<lparr>sn_document = sn_document ex, sn_submission = new_submission command candidate now,
         sn_event = new_event command candidate problem now,
         sn_command_result = new_command_result command candidate now\<rparr>"
      by (auto simp: unfold split: sum.splits)
    then have "recordable forbidden b command now candidate problem
        \<and> ex = recorded b command now candidate problem"
      using updated(1) by (auto simp: recordable_def recorded_def Let_def)
    then show "\<exists>candidate problem. recordable forbidden b command now candidate problem
       \<and> ex = recorded b command now candidate problem" by blast
  next
    assume "\<exists>candidate problem. recordable forbidden b command now candidate problem
       \<and> ex = recorded b command now candidate problem"
    then obtain candidate problem where rec: "recordable forbidden b command now candidate problem"
      and ex: "ex = recorded b command now candidate problem" by blast
    have found: "find_candidate (ob_candidates b) (sc_candidate_id command) = Inr candidate"
      "find_problem (ob_problems b) (cd_problem_id candidate) = Inr problem"
      and fresh: "\<not> list_ex (\<lambda>s. sb_candidate_id s = sc_candidate_id command) (ob_submissions b)"
      using rec by (auto simp: recordable_def list_ex_iff image_iff find_candidate_Inr [OF keys(1)]
          find_problem_Inr [OF keys(2)])
    have "updated_document b candidate problem (new_submission command candidate now)
         (new_event command candidate problem now) now = Inr (sn_document ex)"
      and "lift_contract (validate_submission (new_submission command candidate now)) = Inr ()"
      and "lift_contract (validate_event (new_event command candidate problem now)) = Inr ()"
      and "lift_contract (validate_command_result (new_command_result command candidate now)) = Inr ()"
      using updated [of candidate problem now] rec
      by (simp_all add: recordable_def ex recorded_def Let_def lift_contract_def)
    with rec found fresh show "record_submission forbidden b command now = Inr ex"
      by (simp add: record_submission_def recordable_def Let_def ex recorded_def)
  qed
qed

subsection \<open>Properties\<close>

text \<open>
  C20: Recording succeeds exactly when the actor id passes the guard, the command names the active
  competition of the document, the candidate is known, submission-ready and not yet recorded, its
  problem is submission-ready, no touched record was created after the clock reading, and the
  generated identifiers are new. The execution is then the one described by \<open>recorded\<close>: its
  document is valid again and its submission, event and command result are well-formed.
\<close>

theorem recording_succeeds_iff:
  assumes "validate_operations_document b = Inr ()" and "validate_command command = Inr ()"
  shows "(\<exists>ex. record_submission forbidden b command now = Inr ex
        \<and> validate_operations_document (sn_document ex) = Inr ()
        \<and> validate_submission (sn_submission ex) = Inr () \<and> validate_event (sn_event ex) = Inr ()
        \<and> validate_command_result (sn_command_result ex) = Inr ())
      \<longleftrightarrow> (\<exists>candidate problem. recordable forbidden b command now candidate problem)"
    (is "(\<exists>ex. ?rec ex \<and> ?ok ex) \<longleftrightarrow> _")
proof -
  have "?ok ex" if "recordable forbidden b command now candidate problem"
    and "ex = recorded b command now candidate problem" for ex candidate problem
    using that updated_document_Inr [OF assms, of candidate problem now]
    by (auto simp: recordable_def recorded_def Let_def updated_document_def result_simps)
  then show ?thesis using record_submission_iff [OF assms] by blast
qed

text \<open>
  A recording changes exactly what it claims: one submission and one event are appended, the
  manifest's time stamp moves, the candidate and its problem move from submission-ready to
  submitted, which the lifecycle allows, and every other record is the one it was.
\<close>

theorem recording_changes_only_its_records:
  assumes "validate_operations_document b = Inr ()" and "validate_command command = Inr ()"
    and "record_submission forbidden b command now = Inr ex"
  shows "\<exists>candidate problem.
    cd_candidate_id candidate = sc_candidate_id command \<and> pr_problem_id problem = cd_problem_id candidate
    \<and> candidate \<in> set (ob_candidates b) \<and> problem \<in> set (ob_problems b)
    \<and> cd_status candidate = CAND_SUBMISSION_READY \<and> pr_status problem = PROB_SUBMISSION_READY
    \<and> sb_candidate_id (sn_submission ex) = cd_candidate_id candidate
    \<and> sb_response (sn_submission ex) = sc_response command
    \<and> may_step ENTITY_CANDIDATE (candidate_status_value (cd_status candidate)) (candidate_status_value CAND_SUBMITTED)
    \<and> may_step ENTITY_PROBLEM (problem_status_value (pr_status problem)) (problem_status_value PROB_SUBMITTED)
    \<and> sn_document ex =
        b\<lparr>ob_manifest := (ob_manifest b)\<lparr>mf_updated_at := now\<rparr>,
          ob_problems := map (\<lambda>p. if p = problem
            then p\<lparr>pr_status := PROB_SUBMITTED, pr_updated_at := now\<rparr> else p) (ob_problems b),
          ob_candidates := map (\<lambda>c. if c = candidate
            then c\<lparr>cd_status := CAND_SUBMITTED, cd_updated_at := now\<rparr> else c) (ob_candidates b),
          ob_submissions := ob_submissions b @ [sn_submission ex],
          ob_events := ob_events b @ [sn_event ex]\<rparr>"
proof -
  obtain candidate problem where rec: "recordable forbidden b command now candidate problem"
    and ex: "ex = recorded b command now candidate problem"
    using assms record_submission_iff by blast
  have keys: "distinct (map cd_candidate_id (ob_candidates b))" "distinct (map pr_problem_id (ob_problems b))"
    using assms(1) by (auto simp: references_are_valid_Inr result_simps)
  have steps: "may_step ENTITY_CANDIDATE (candidate_status_value CAND_SUBMISSION_READY)
      (candidate_status_value CAND_SUBMITTED)"
    "may_step ENTITY_PROBLEM (problem_status_value PROB_SUBMISSION_READY) (problem_status_value PROB_SUBMITTED)"
    by code_simp+
  have "map (mark_candidate (cd_candidate_id candidate) now) (ob_candidates b) =
      map (\<lambda>c. if c = candidate then c\<lparr>cd_status := CAND_SUBMITTED, cd_updated_at := now\<rparr> else c)
        (ob_candidates b)"
    using rec same_key_iff [OF keys(1), of _ candidate] by (simp add: recordable_def mark_candidate_def)
  moreover have "map (mark_problem (pr_problem_id problem) now) (ob_problems b) =
      map (\<lambda>p. if p = problem then p\<lparr>pr_status := PROB_SUBMITTED, pr_updated_at := now\<rparr> else p)
        (ob_problems b)"
    using rec same_key_iff [OF keys(2), of _ problem] by (simp add: recordable_def mark_problem_def)
  moreover have "sn_document ex = updated_bundle b candidate problem (sn_submission ex) (sn_event ex) now"
    by (simp add: ex recorded_def Let_def)
  moreover note updated_bundle_mark [OF keys(1) _ keys(2), of candidate problem]
  ultimately have doc: "sn_document ex =
        b\<lparr>ob_manifest := (ob_manifest b)\<lparr>mf_updated_at := now\<rparr>,
          ob_problems := map (\<lambda>p. if p = problem
            then p\<lparr>pr_status := PROB_SUBMITTED, pr_updated_at := now\<rparr> else p) (ob_problems b),
          ob_candidates := map (\<lambda>c. if c = candidate
            then c\<lparr>cd_status := CAND_SUBMITTED, cd_updated_at := now\<rparr> else c) (ob_candidates b),
          ob_submissions := ob_submissions b @ [sn_submission ex],
          ob_events := ob_events b @ [sn_event ex]\<rparr>"
    using rec by (simp add: recordable_def)
  have sub: "sb_candidate_id (sn_submission ex) = cd_candidate_id candidate"
    "sb_response (sn_submission ex) = sc_response command"
    by (simp_all add: ex recorded_def Let_def new_submission_def)
  show ?thesis
    by (rule exI [of _ candidate], rule exI [of _ problem])
      (use rec doc sub steps in \<open>simp add: recordable_def\<close>)
qed

text \<open>
  A candidate is recorded at most once: on the document a recording produced, every further
  command for the same candidate is refused, with \<^verbatim>\<open>candidate_already_recorded\<close> when its actor passes
  the guard and it names the same competition.
\<close>

theorem candidate_recorded_once:
  assumes "validate_operations_document b = Inr ()" and "validate_command command = Inr ()"
    and "record_submission forbidden b command now = Inr ex"
    and "sc_candidate_id again = sc_candidate_id command"
  shows "(\<exists>e. record_submission forbidden' (sn_document ex) again later = Inl e)
    \<and> (sc_competition_id again = sc_competition_id command
       \<and> check_text forbidden' (sc_actor_id again) = Inr () \<longrightarrow>
       record_submission forbidden' (sn_document ex) again later =
         Inl (Record_Error ''candidate_already_recorded''))"
proof -
  obtain candidate problem where rec: "recordable forbidden b command now candidate problem"
    and ex: "ex = recorded b command now candidate problem"
    using assms(1-3) record_submission_iff by blast
  have doc: "sn_document ex = updated_bundle b candidate problem (sn_submission ex) (sn_event ex) now"
    "sb_candidate_id (sn_submission ex) = sc_candidate_id command"
    using rec by (simp_all add: ex recorded_def Let_def new_submission_def recordable_def)
  have "mf_competition_id (ob_manifest (sn_document ex)) = sc_competition_id command"
    "mf_status (ob_manifest (sn_document ex)) = COMP_ACTIVE"
    "list_ex (\<lambda>s. sb_candidate_id s = sc_candidate_id again) (ob_submissions (sn_document ex))"
    using rec doc assms(4) by (simp_all add: updated_bundle_def Let_def recordable_def)
  then show ?thesis
    by (cases "check_text forbidden' (sc_actor_id again)")
      (auto simp: record_submission_def raise_if_def)
qed

subsection \<open>Witnesses\<close>

definition fx_ready :: operations_bundle where
  "fx_ready = fx_bundle PROB_SUBMISSION_READY [fx_candidate ''CAND-AAA'' CAND_SUBMISSION_READY]
     [fx_verification ''CAND-AAA''] []"

definition fx_command :: submission_command where
  "fx_command = \<lparr>sc_competition_id = ''COMP-AAA'', sc_candidate_id = ''CAND-AAA'',
     sc_response = RESP_UNKNOWN, sc_operator_confirmed = True, sc_actor_id = ''operator-a''\<rparr>"

lemma fx_ready_valid: "validate_operations_document fx_ready = Inr ()" "validate_command fx_command = Inr ()"
  by code_simp+

lemma fx_recordable:
  "recordable [''secret''] fx_ready fx_command 5 (fx_candidate ''CAND-AAA'' CAND_SUBMISSION_READY)
     (fx_problem\<lparr>pr_status := PROB_SUBMISSION_READY\<rparr>)"
proof -
  have "check_text [''secret''] (sc_actor_id fx_command) = Inr ()" by code_simp
  then show ?thesis by (simp add: recordable_def fx_ready_def fx_command_def fx_defs)
qed

theorem recording_succeeds_iff_witness:
  "\<exists>ex. record_submission [''secret''] fx_ready fx_command 5 = Inr ex
     \<and> validate_operations_document (sn_document ex) = Inr ()"
  using recording_succeeds_iff [OF fx_ready_valid, of "[''secret'']" 5] fx_recordable by blast

theorem recording_changes_only_its_records_witness:
  "\<exists>ex. record_submission [''secret''] fx_ready fx_command 5 = Inr ex
     \<and> ob_submissions (sn_document ex) = [sn_submission ex]"
proof -
  have "record_submission [''secret''] fx_ready fx_command 5 =
      Inr (recorded fx_ready fx_command 5 (fx_candidate ''CAND-AAA'' CAND_SUBMISSION_READY)
        (fx_problem\<lparr>pr_status := PROB_SUBMISSION_READY\<rparr>))" (is "_ = Inr ?ex")
    using record_submission_iff [OF fx_ready_valid] fx_recordable by blast
  moreover from this have "ob_submissions (sn_document ?ex) = ob_submissions fx_ready @ [sn_submission ?ex]"
    using recording_changes_only_its_records [OF fx_ready_valid, of "[''secret'']" 5 ?ex] by auto
  ultimately show ?thesis by (auto simp: fx_ready_def fx_bundle_def)
qed

theorem candidate_recorded_once_witness:
  "\<exists>ex. record_submission [''secret''] fx_ready fx_command 5 = Inr ex
     \<and> record_submission [] (sn_document ex) fx_command 9 =
         Inl (Record_Error ''candidate_already_recorded'')"
proof -
  have "record_submission [''secret''] fx_ready fx_command 5 =
      Inr (recorded fx_ready fx_command 5 (fx_candidate ''CAND-AAA'' CAND_SUBMISSION_READY)
        (fx_problem\<lparr>pr_status := PROB_SUBMISSION_READY\<rparr>))" (is "_ = Inr ?ex")
    using record_submission_iff [OF fx_ready_valid] fx_recordable by blast
  moreover have "check_text [] (sc_actor_id fx_command) = Inr ()" by code_simp
  ultimately show ?thesis
    using candidate_recorded_once [OF fx_ready_valid, of "[''secret'']" 5 ?ex fx_command "[]" 9] by blast
qed

end
