(* ===== verification/Planner.thy ===== *)
theory Planner
  imports Operations_Bundle Sha256 Complex_Main
begin

section \<open>The planner service\<close>

text \<open>
  \<^verbatim>\<open>application/planner.py\<close> and \<^verbatim>\<open>domain/planning.py\<close>: the policy gate in front of a planner
  adapter, the checks on what the adapter returns, and the events and errors that record it.

  The planner adapter, the artifact writer and the artifact recorder are ports: they are fields of
  \<open>planner_env\<close>. Waiting for the adapter has three outcomes (\<open>planner_reply\<close>): a response, a
  timeout, or another exception. \<open>pe_float_text\<close> is the printed form of a float, which is how JSON
  values carry floats here. Every execution returns the calls it made on the ports beside its result;
  \<open>Inl\<close> is a contract error raised while an event or error record is built, which the code does not
  catch.
\<close>

subsection \<open>Boundary models\<close>

record planner_context =
  pc_plan_id :: string
  pc_mode_id :: string
  pc_problem_id :: string
  pc_planner_job_id :: string
  pc_analysis_type :: analysis_type
  pc_data_boundary :: data_boundary
  pc_problem_view :: json
  pc_available_capabilities :: "string list"
  pc_prior_safe_context :: json
  pc_created_at :: instant

definition validate_context :: "planner_context \<Rightarrow> contract_error + unit" where
  "validate_context c =
     raise_if
       (\<not> (plan_id_ok (pc_plan_id c) \<and> mode_id_ok (pc_mode_id c) \<and> problem_id_ok (pc_problem_id c)
           \<and> job_id_ok (pc_planner_job_id c) \<and> safe_json_object (pc_problem_view c)
           \<and> pc_available_capabilities c \<noteq> [] \<and> distinct (pc_available_capabilities c)
           \<and> list_all snake_pattern (pc_available_capabilities c)
           \<and> safe_json_object (pc_prior_safe_context c)))
       field_errors"

record planner_usage =
  us_input_tokens :: int
  us_output_tokens :: int
  us_cost_microunits :: int

definition planner_usage_init :: "planner_usage \<Rightarrow> string + planner_usage" where
  "planner_usage_init u =
     and_then
       (raise_if (min (us_input_tokens u) (min (us_output_tokens u) (us_cost_microunits u)) < 0)
         ''planner usage values must not be negative'')
       (\<lambda>_. Inr u)"

definition total_tokens :: "planner_usage \<Rightarrow> int" where
  "total_tokens u = us_input_tokens u + us_output_tokens u"

record planner_adapter_response =
  pa_plan :: plan_hypothesis
  pa_raw_output :: bytes
  pa_usage :: planner_usage

definition planner_response_init :: "planner_adapter_response \<Rightarrow> string + planner_adapter_response" where
  "planner_response_init r =
     and_then (raise_if (pa_raw_output r = []) ''planner raw output must not be empty'') (\<lambda>_. Inr r)"

record planner_budgets =
  bg_timeout_seconds :: rat
  bg_token_budget :: int
  bg_cost_budget_microunits :: int

definition validate_budgets :: "planner_budgets \<Rightarrow> contract_error + unit" where
  "validate_budgets b =
     raise_if
       (\<not> (0 < bg_timeout_seconds b \<and> bg_timeout_seconds b \<le> 300 \<and> 0 \<le> bg_token_budget b
           \<and> 0 \<le> bg_cost_budget_microunits b))
       field_errors"

definition safe_planner_details :: "json \<Rightarrow> contract_error + json" where
  "safe_planner_details details =
     (case details of
        JObj _ \<Rightarrow> and_then (safe_json details) (\<lambda>_. Inr details)
      | _ \<Rightarrow> Inl field_errors)"

fun adapter_kind_value :: "adapter_kind \<Rightarrow> string" where
  "adapter_kind_value FAKE_QA = ''fake_qa''"
| "adapter_kind_value LOCAL_ADAPTER = ''local''"
| "adapter_kind_value EXTERNAL_ADAPTER = ''external''"

fun data_boundary_value :: "data_boundary \<Rightarrow> string" where
  "data_boundary_value SYNTHETIC_ONLY = ''synthetic_only''"
| "data_boundary_value LOCAL_ONLY = ''local_only''"
| "data_boundary_value REDACTED_EXTERNAL = ''redacted_external''"
| "data_boundary_value APPROVED_PROBLEM_DATA = ''approved_problem_data''"

fun tool_mode_value :: "ai_tool_mode \<Rightarrow> string" where
  "tool_mode_value PLANNING_ONLY = ''planning_only''"
| "tool_mode_value PLANNING_AND_APPROVED_TOOLS = ''planning_and_approved_tools''"

fun rule_state_value :: "ai_rule_state \<Rightarrow> string" where
  "rule_state_value AI_ALLOWED = ''allowed''"
| "rule_state_value AI_RULES_GATED = ''rules_gated''"
| "rule_state_value AI_RULE_RESTRICTED = ''rule_restricted''"

subsection \<open>Commands, ports and executions\<close>

record planner_command =
  pm_manifest :: competition_manifest
  pm_problem :: problem_record
  pm_mode :: ai_execution_mode
  pm_planner_job :: job_record
  pm_context :: planner_context
  pm_budgets :: planner_budgets
  pm_event_id :: string
  pm_error_id :: string
  pm_operator_approved_problem_data :: bool

datatype planner_reply =
    Planner_Responded planner_adapter_response | Planner_Timed_Out | Planner_Raised

datatype planner_call = Plan_Call planner_context | Write_Call bytes | Record_Call string

record planner_env =
  pe_adapter_kind :: adapter_kind
  pe_provider_id :: string
  pe_model_id :: string
  pe_plan :: "planner_context \<Rightarrow> rat \<Rightarrow> planner_reply"
  pe_write :: "bytes \<Rightarrow> string option"
  pe_record :: "string \<Rightarrow> bool"
  pe_forbidden :: "string list"
  pe_clock :: instant
  pe_float_text :: "rat \<Rightarrow> string"

record planner_execution =
  px_plan :: "plan_hypothesis option"
  px_event :: operation_event
  px_error :: "operation_error option"
  px_adapter_called :: bool

definition planner_succeeded :: "planner_execution \<Rightarrow> bool" where
  "planner_succeeded x \<longleftrightarrow> px_plan x \<noteq> None \<and> px_error x = None"

subsection \<open>The policy gate\<close>

definition not_waiting_or :: "job_record \<Rightarrow> operation_error_code \<Rightarrow> operation_error_code option" where
  "not_waiting_or job code =
     Some (if jb_status job \<noteq> JOB_WAITING then INVALID_OPERATIONS_INPUT else code)"

definition planner_policy_error :: "planner_env \<Rightarrow> planner_command \<Rightarrow> operation_error_code option" where
  "planner_policy_error env command =
     (let manifest = pm_manifest command; problem = pm_problem command; mode = pm_mode command;
          job = pm_planner_job command; ctx = pm_context command in
      if mf_competition_id manifest \<noteq> pr_competition_id problem then Some INVALID_OPERATIONS_INPUT
      else if mf_competition_id manifest \<noteq> am_competition_id mode then Some INVALID_OPERATIONS_INPUT
      else if pr_problem_id problem \<noteq> jb_problem_id job then Some INVALID_OPERATIONS_INPUT
      else if pr_problem_id problem \<noteq> pc_problem_id ctx then Some INVALID_OPERATIONS_INPUT
      else if jb_job_id job \<noteq> pc_planner_job_id ctx then Some INVALID_OPERATIONS_INPUT
      else if jb_plan_id job \<noteq> pc_plan_id ctx then Some INVALID_OPERATIONS_INPUT
      else if am_mode_id mode \<noteq> pc_mode_id ctx then Some INVALID_OPERATIONS_INPUT
      else if jb_role job \<noteq> PLANNER then Some INVALID_OPERATIONS_INPUT
      else if am_rule_state mode = AI_RULES_GATED then not_waiting_or job RULES_GATED
      else if am_rule_state mode = AI_RULE_RESTRICTED then not_waiting_or job RULE_RESTRICTED
      else if pc_data_boundary ctx \<noteq> am_data_boundary mode then Some RULE_RESTRICTED
      else if am_tool_mode mode \<noteq> PLANNING_ONLY then not_waiting_or job RULES_GATED
      else if am_data_boundary mode = APPROVED_PROBLEM_DATA
              \<and> \<not> pm_operator_approved_problem_data command then not_waiting_or job RULES_GATED
      else if jb_status job \<noteq> JOB_QUEUED then Some INVALID_OPERATIONS_INPUT
      else if pe_adapter_kind env \<noteq> am_adapter_kind mode then Some RULE_RESTRICTED
      else if am_provider_id mode = None \<or> am_model_id mode = None
              \<or> Some (pe_provider_id env) \<noteq> am_provider_id mode
              \<or> Some (pe_model_id env) \<noteq> am_model_id mode then Some RULE_RESTRICTED
      else if am_adapter_kind mode = FAKE_QA \<and> mf_environment manifest \<noteq> ENV_SYNTHETIC_TEST
        then Some RULE_RESTRICTED
      else None)"

subsection \<open>Events and errors\<close>

definition optional_text :: "string option \<Rightarrow> json" where
  "optional_text t = (case t of None \<Rightarrow> JNull | Some s \<Rightarrow> JStr s)"

definition mode_details :: "planner_env \<Rightarrow> planner_command \<Rightarrow> (string \<times> json) list" where
  "mode_details env command =
     (let mode = pm_mode command; budgets = pm_budgets command in
      [(''mode_id'', JStr (am_mode_id mode)),
       (''adapter_kind'', JStr (adapter_kind_value (am_adapter_kind mode))),
       (''provider_id'', optional_text (am_provider_id mode)),
       (''model_id'', optional_text (am_model_id mode)),
       (''data_boundary'', JStr (data_boundary_value (am_data_boundary mode))),
       (''tool_mode'', JStr (tool_mode_value (am_tool_mode mode))),
       (''rule_state'', JStr (rule_state_value (am_rule_state mode))),
       (''timeout_seconds'', JFloat (pe_float_text env (bg_timeout_seconds budgets))),
       (''token_budget'', JInt (bg_token_budget budgets)),
       (''cost_budget_microunits'', JInt (bg_cost_budget_microunits budgets))])"

definition planner_event ::
    "planner_env \<Rightarrow> planner_command \<Rightarrow> string \<Rightarrow> actor_type \<Rightarrow> plan_status option
      \<Rightarrow> (string \<times> json) list \<Rightarrow> contract_error + operation_event" where
  "planner_event env command event_type actor to_status details =
     and_then (safe_planner_details (JObj details)) (\<lambda>safe.
       let event =
         \<lparr>ev_event_id = pm_event_id command,
          ev_competition_id = mf_competition_id (pm_manifest command),
          ev_problem_id = Some (pr_problem_id (pm_problem command)), ev_entity_type = ''plan'',
          ev_entity_id = pc_plan_id (pm_context command), ev_event_type = event_type,
          ev_actor_type = actor,
          ev_actor_id = (if actor = AI_ACTOR then pe_provider_id env else ''planner_gate''),
          ev_from_status = None, ev_to_status = map_option plan_status_value to_status,
          ev_safe_details_json = safe, ev_created_at = pe_clock env\<rparr> in
       and_then (validate_event event) (\<lambda>_. Inr event))"

definition planner_error ::
    "planner_command \<Rightarrow> operation_error_code \<Rightarrow> string \<Rightarrow> operation_error_stage
      \<Rightarrow> (string \<times> json) list \<Rightarrow> contract_error + operation_error" where
  "planner_error command code message stage details =
     and_then (safe_planner_details (JObj details)) (\<lambda>safe.
       let err =
         \<lparr>oe_error_id = pm_error_id command, oe_code = code, oe_message = message, oe_stage = stage,
          oe_retryable = False, oe_problem_id = Some (pr_problem_id (pm_problem command)),
          oe_job_id = Some (jb_job_id (pm_planner_job command)), oe_details = safe\<rparr> in
       and_then (validate_error err) (\<lambda>_. Inr err))"

fun blocked_message :: "operation_error_code \<Rightarrow> string" where
  "blocked_message INVALID_OPERATIONS_INPUT = ''planner command references are invalid''"
| "blocked_message RULES_GATED = ''planner is waiting for an allowed AI mode''"
| "blocked_message RULE_RESTRICTED = ''planner adapter call is restricted by policy''"
| "blocked_message _ = []"

definition planner_blocked ::
    "planner_env \<Rightarrow> planner_command \<Rightarrow> operation_error_code \<Rightarrow> contract_error + planner_execution" where
  "planner_blocked env command code =
     (let stage = (if code = INVALID_OPERATIONS_INPUT then STAGE_OPERATIONS_INPUT
                   else STAGE_AI_MODE_POLICY) in
      and_then (planner_event env command ''planner_blocked'' SYSTEM None
                 (mode_details env command @ [(''error_code'', JStr (operation_error_code_value code))]))
        (\<lambda>event.
      and_then (planner_error command code (blocked_message code) stage (mode_details env command))
        (\<lambda>err.
      Inr \<lparr>px_plan = None, px_event = event, px_error = Some err, px_adapter_called = False\<rparr>)))"

definition planner_failed ::
    "planner_env \<Rightarrow> planner_command \<Rightarrow> string \<Rightarrow> contract_error + planner_execution" where
  "planner_failed env command failure_kind =
     (let details = mode_details env command @ [(''failure_kind'', JStr failure_kind)] in
      and_then (planner_event env command ''planner_failed'' SYSTEM None
                 (details @ [(''error_code'', JStr ''planner_failed'')]))
        (\<lambda>event.
      and_then (planner_error command PLANNER_FAILED
                 ''planner execution failed contract, budget, timeout, or security checks''
                 STAGE_PLANNER details)
        (\<lambda>err.
      Inr \<lparr>px_plan = None, px_event = event, px_error = Some err, px_adapter_called = True\<rparr>)))"

subsection \<open>Executing a command\<close>

definition validate_planner_response :: "planner_command \<Rightarrow> plan_hypothesis \<Rightarrow> string + unit" where
  "validate_planner_response command plan =
     all_checks
       [raise_if (pl_plan_id plan \<noteq> pc_plan_id (pm_context command)) ''planner returned another plan_id'',
        raise_if (pl_problem_id plan \<noteq> pr_problem_id (pm_problem command))
          ''planner returned another problem_id'',
        raise_if (pl_mode_id plan \<noteq> am_mode_id (pm_mode command)) ''planner returned another mode_id'',
        raise_if (pl_planner_job_id plan \<noteq> jb_job_id (pm_planner_job command))
          ''planner returned another planner_job_id'',
        raise_if (pl_status plan \<noteq> PLAN_PROPOSED) ''planner must return a proposed plan'',
        raise_if (pl_leaf_job_specs plan = []) ''planner plan must contain at least one leaf job'']"

text \<open>The persistence block: write, compare the content address, record.\<close>

definition persist_raw_output ::
    "planner_env \<Rightarrow> planner_adapter_response \<Rightarrow> bool \<times> planner_call list" where
  "persist_raw_output env response =
     (case pe_write env (pa_raw_output response) of
        None \<Rightarrow> (False, [Write_Call (pa_raw_output response)])
      | Some uri \<Rightarrow>
          if Some uri \<noteq> pl_raw_output_artifact (pa_plan response)
          then (False, [Write_Call (pa_raw_output response)])
          else (pe_record env uri, [Write_Call (pa_raw_output response), Record_Call uri]))"

definition planner_completed ::
    "planner_env \<Rightarrow> planner_command \<Rightarrow> planner_adapter_response \<Rightarrow> contract_error + planner_execution" where
  "planner_completed env command response =
     and_then
       (planner_event env command ''planner_completed'' AI_ACTOR (Some PLAN_PROPOSED)
         (mode_details env command @
          [(''input_tokens'', JInt (us_input_tokens (pa_usage response))),
           (''output_tokens'', JInt (us_output_tokens (pa_usage response))),
           (''cost_microunits'', JInt (us_cost_microunits (pa_usage response)))]))
       (\<lambda>event. Inr \<lparr>px_plan = Some (pa_plan response), px_event = event, px_error = None,
                    px_adapter_called = True\<rparr>)"

text \<open>What the service does with a response: the failure kind, or the calls that persisted it.\<close>

definition response_failure ::
    "planner_env \<Rightarrow> planner_command \<Rightarrow> planner_adapter_response \<Rightarrow> string option" where
  "response_failure env command response =
     (if \<not> is_ok (validate_planner_response command (pa_plan response)) then Some ''contract_invalid''
      else if total_tokens (pa_usage response) > bg_token_budget (pm_budgets command)
        then Some ''token_budget_exceeded''
      else if us_cost_microunits (pa_usage response) > bg_cost_budget_microunits (pm_budgets command)
        then Some ''cost_budget_exceeded''
      else if \<not> is_ok (check_bytes (pe_forbidden env) (pa_raw_output response))
        then Some ''security_rejected''
      else None)"

definition planner_execute ::
    "planner_env \<Rightarrow> planner_command \<Rightarrow> (contract_error + planner_execution) \<times> planner_call list" where
  "planner_execute env command =
     (case planner_policy_error env command of
        Some code \<Rightarrow> (planner_blocked env command code, [])
      | None \<Rightarrow>
          let call = Plan_Call (pm_context command) in
          (case pe_plan env (pm_context command) (bg_timeout_seconds (pm_budgets command)) of
             Planner_Timed_Out \<Rightarrow> (planner_failed env command ''timeout'', [call])
           | Planner_Raised \<Rightarrow> (planner_failed env command ''adapter_error'', [call])
           | Planner_Responded response \<Rightarrow>
               (case response_failure env command response of
                  Some kind \<Rightarrow> (planner_failed env command kind, [call])
                | None \<Rightarrow>
                    let (persisted, calls) = persist_raw_output env response in
                    (if persisted then planner_completed env command response
                     else planner_failed env command ''artifact_persistence_failed'',
                     call # calls))))"

end
