(* ===== verification/Gated_Service.thy ===== *)
theory Gated_Service
  imports Prelude
begin

section \<open>Services behind a gate\<close>

text \<open>
  A service decides on a command before it touches its adapter: a refused command makes no call at
  all, an accepted one at most the calls its budget allows. What a batch of commands calls is then
  bounded by the budgets of the accepted ones. A gated service calls its adapter at most once; its
  calls may also be calls of other ports, such as an artifact store.
\<close>

locale bounded_service =
  fixes gate :: "'command \<Rightarrow> 'code option"
    and adapter_calls :: "'command \<Rightarrow> nat"
    and budget :: "'command \<Rightarrow> nat"
  assumes refused_calls_nothing: "gate c = Some e \<Longrightarrow> adapter_calls c = 0"
    and within_budget: "adapter_calls c \<le> budget c"
begin

lemma called_only_accepted: "adapter_calls c \<noteq> 0 \<Longrightarrow> gate c = None"
  using refused_calls_nothing by (cases "gate c") auto

lemma batch_within_budget:
  "sum_list (map adapter_calls cs) \<le> sum_list (map budget (filter (\<lambda>c. gate c = None) cs))"
proof (induction cs)
  case (Cons c cs)
  then show ?case using refused_calls_nothing [of c] within_budget [of c] by (cases "gate c") auto
qed simp

end

locale gated_service =
  fixes gate :: "'command \<Rightarrow> 'code option"
    and calls :: "'command \<Rightarrow> 'call list"
    and adapter_call :: "'call \<Rightarrow> bool"
  assumes refused_is_silent: "gate c = Some e \<Longrightarrow> calls c = []"
    and at_most_once: "count_if adapter_call (calls c) \<le> 1"

sublocale gated_service \<subseteq> counted: bounded_service gate "\<lambda>c. count_if adapter_call (calls c)" "\<lambda>_. 1"
  using refused_is_silent at_most_once by unfold_locales simp_all

context gated_service
begin

lemma called_was_accepted: "count_if adapter_call (calls c) \<noteq> 0 \<Longrightarrow> gate c = None"
  by (rule counted.called_only_accepted)

lemma batch_bounded:
  "count_if adapter_call (concat (map calls cs)) \<le> count_if (\<lambda>c. gate c = None) cs"
proof -
  have "count_if adapter_call (concat (map calls cs)) = sum_list (map (\<lambda>c. count_if adapter_call (calls c)) cs)"
    by (induction cs) simp_all
  also have "\<dots> \<le> sum_list (map (\<lambda>_. 1) (filter (\<lambda>c. gate c = None) cs))"
    by (rule counted.batch_within_budget)
  also have "\<dots> = count_if (\<lambda>c. gate c = None) cs"
    by (simp add: count_if_def sum_list_triv)
  finally show ?thesis .
qed

end

end
