(* ===== verification/Planner_Properties.thy ===== *)
theory Planner_Properties
  imports Planner Gated_Service Fixtures
begin

section \<open>Properties of the planner service\<close>

text \<open>
  What the policy gate lets through, what a returned plan guarantees, and that every execution
  ends with well-formed records, except for a model id that looks like a local path.
\<close>

subsection \<open>Safe details\<close>

lemma provider_relative: "provider_pattern s \<Longrightarrow> \<not> is_absolute_path s"
  by (cases s; cases "tl s")
    (auto simp: provider_pattern_def is_absolute_path_def starts_with_def char_class_defs list_all_iff
      split: list.splits)

lemma value_relative:
  "\<not> is_absolute_path (adapter_kind_value k)" "\<not> is_absolute_path (data_boundary_value d)"
  "\<not> is_absolute_path (tool_mode_value t)" "\<not> is_absolute_path (rule_state_value r)"
  "\<not> is_absolute_path (operation_error_code_value c)"
  apply (cases k; hypsubst; code_simp)
  apply (cases d; hypsubst; code_simp)
  apply (cases t; hypsubst; code_simp)
  apply (cases r; hypsubst; code_simp)
  apply (cases c; hypsubst; code_simp)
  done

lemma safe_planner_details_Inr [result_simps]:
  "safe_planner_details (JObj fs) = Inr d \<longleftrightarrow> d = JObj fs \<and> safe_json (JObj fs) = Inr ()"
  by (auto simp: safe_planner_details_def result_simps simp del: safe_json.simps(1))

lemma optional_text_safe: "safe_json (optional_text t) = Inr () \<longleftrightarrow> (\<forall>s. t = Some s \<longrightarrow> \<not> is_absolute_path s)"
  by (cases t) (simp_all add: optional_text_def result_simps)

text \<open>The details of a valid mode are safe exactly when its model id is not an absolute path.\<close>

lemma mode_details_safe:
  assumes "validate_mode (pm_mode command) = Inr ()"
  shows "safe_json (JObj (mode_details env command @ extra)) = Inr () \<longleftrightarrow>
    (\<forall>s. am_model_id (pm_mode command) = Some s \<longrightarrow> \<not> is_absolute_path s) \<and> safe_json (JObj extra) = Inr ()"
proof -
  let ?mode = "pm_mode command"
  have "mode_id_ok (am_mode_id ?mode)" "optional_ok provider_pattern (am_provider_id ?mode)"
    using assms by (auto simp: validate_mode_def mode_fields_ok_def result_simps)
  then have ids: "\<not> is_absolute_path (am_mode_id ?mode)"
    "\<forall>s. am_provider_id ?mode = Some s \<longrightarrow> \<not> is_absolute_path s"
    using id_pattern_relative [of "CHR ''M''" "CHR ''O''" "''DE-''"] provider_relative
    by (auto simp: optional_ok_def)
  have "list_all plain_key [''mode_id'', ''adapter_kind'', ''provider_id'', ''model_id'',
      ''data_boundary'', ''tool_mode'', ''rule_state'', ''timeout_seconds'', ''token_budget'',
      ''cost_budget_microunits'']"
    by code_simp
  then show ?thesis
    using ids value_relative
    by (simp add: safe_json_object_iff mode_details_def Let_def optional_text_safe ball_Un result_simps
        del: safe_json.simps(1)) blast
qed

text \<open>A command whose records and identifiers satisfy the contract.\<close>

definition command_ok :: "planner_env \<Rightarrow> planner_command \<Rightarrow> bool" where
  "command_ok env command \<longleftrightarrow>
     validate_manifest (pm_manifest command) = Inr () \<and> validate_problem (pm_problem command) = Inr ()
     \<and> validate_mode (pm_mode command) = Inr () \<and> validate_job (pm_planner_job command) = Inr ()
     \<and> validate_context (pm_context command) = Inr () \<and> validate_budgets (pm_budgets command) = Inr ()
     \<and> operation_event_id_ok (pm_event_id command) \<and> operation_error_id_ok (pm_error_id command)
     \<and> pe_provider_id env \<noteq> []"

abbreviation path_like_model :: "planner_command \<Rightarrow> bool" where
  "path_like_model command \<equiv>
     (\<exists>s. am_model_id (pm_mode command) = Some s \<and> is_absolute_path s)"

lemma planner_event_valid:
  "planner_event env command event_type actor to_status details = Inr event \<Longrightarrow>
     validate_event event = Inr () \<and> safe_json (JObj details) = Inr ()"
  by (auto simp: planner_event_def Let_def result_simps simp del: safe_json.simps(1))

lemma planner_error_valid:
  "planner_error command code message stage details = Inr err \<Longrightarrow>
     validate_error err = Inr () \<and> oe_code err = code \<and> safe_json (JObj details) = Inr ()"
  by (auto simp: planner_error_def Let_def result_simps simp del: safe_json.simps(1))

lemma planner_event_built:
  assumes "command_ok env command" and "snake_pattern event_type"
    and "safe_json (JObj extra) = Inr ()"
  shows "(\<exists>event. planner_event env command event_type actor to_status
      (mode_details env command @ extra) = Inr event) \<longleftrightarrow> \<not> path_like_model command"
proof -
  have "optional_ok snake_pattern (map_option plan_status_value to_status)"
  proof (cases to_status)
    case (Some s)
    then show ?thesis by (cases s; simp; code_simp)
  qed simp
  moreover have "snake_pattern ''plan''" by code_simp
  moreover have "plan_id_ok (pc_plan_id (pm_context command))"
    "problem_id_ok (pr_problem_id (pm_problem command))"
    "competition_id_ok (mf_competition_id (pm_manifest command))"
    "operation_event_id_ok (pm_event_id command)" "pe_provider_id env \<noteq> []"
    using assms(1)
    by (auto simp: command_ok_def validate_context_def validate_problem_def problem_fields_ok_def
        validate_manifest_def manifest_fields_ok_def result_simps)
  moreover note id_pattern_nonempty
  moreover have "safe_json (JObj (mode_details env command @ extra)) = Inr () \<longleftrightarrow> \<not> path_like_model command"
    using mode_details_safe [of command env extra] assms by (auto simp: command_ok_def)
  ultimately show ?thesis
    using assms(2)
    by (auto simp: planner_event_def Let_def validate_event_def safe_json_object_def is_json_object_def
        result_simps simp del: safe_json.simps(1))
qed

lemma planner_error_built:
  assumes "command_ok env command" and "stage = expected_stage code"
    and "1 \<le> length message \<and> length message \<le> 1000" and "safe_json (JObj extra) = Inr ()"
  shows "(\<exists>err. planner_error command code message stage (mode_details env command @ extra) = Inr err)
    \<longleftrightarrow> \<not> path_like_model command"
proof -
  have "problem_id_ok (pr_problem_id (pm_problem command))" "job_id_ok (jb_job_id (pm_planner_job command))"
    "operation_error_id_ok (pm_error_id command)"
    using assms(1)
    by (auto simp: command_ok_def validate_problem_def problem_fields_ok_def validate_job_def
        job_fields_ok_def result_simps)
  moreover have "safe_json (JObj (mode_details env command @ extra)) = Inr () \<longleftrightarrow> \<not> path_like_model command"
    using mode_details_safe [of command env extra] assms by (auto simp: command_ok_def)
  ultimately show ?thesis
    using assms(2,3)
    by (auto simp: planner_error_def Let_def validate_error_def code_matches_stage_def
        safe_json_object_def is_json_object_def result_simps simp del: safe_json.simps(1))
qed

subsection \<open>Outcomes\<close>

text \<open>What every returned execution satisfies.\<close>

definition execution_ok :: "planner_execution \<Rightarrow> bool" where
  "execution_ok x \<longleftrightarrow>
     validate_event (px_event x) = Inr ()
     \<and> (case px_error x of None \<Rightarrow> px_plan x \<noteq> None
        | Some err \<Rightarrow> px_plan x = None \<and> validate_error err = Inr ())"

lemma error_code_detail_safe:
  "safe_json (JObj [(''error_code'', JStr (operation_error_code_value code))]) = Inr ()"
proof -
  have "list_all plain_key [''error_code'']" by code_simp
  then show ?thesis using value_relative(5) by (simp add: safe_json_object_iff result_simps del: safe_json.simps(1))
qed

lemma planner_blocked_outcome:
  assumes "command_ok env command" and "code \<in> {INVALID_OPERATIONS_INPUT, RULES_GATED, RULE_RESTRICTED}"
  shows "(\<exists>x. planner_blocked env command code = Inr x) \<longleftrightarrow> \<not> path_like_model command"
    and "planner_blocked env command code = Inr x \<Longrightarrow> execution_ok x \<and> \<not> px_adapter_called x
      \<and> (\<exists>err. px_error x = Some err \<and> oe_code err = code)"
proof -
  have "snake_pattern ''planner_blocked''" by code_simp
  note event = planner_event_built [OF assms(1) this error_code_detail_safe, of SYSTEM None code]
  have stage: "(if code = INVALID_OPERATIONS_INPUT then STAGE_OPERATIONS_INPUT else STAGE_AI_MODE_POLICY)
      = expected_stage code"
    and message: "1 \<le> length (blocked_message code) \<and> length (blocked_message code) \<le> 1000"
    using assms(2) by auto
  have "safe_json (JObj []) = Inr ()" by simp
  note err = planner_error_built [OF assms(1) stage message this, unfolded append_Nil2]
  show "(\<exists>x. planner_blocked env command code = Inr x) \<longleftrightarrow> \<not> path_like_model command"
    using event err by (auto simp: planner_blocked_def Let_def result_simps)
  show "planner_blocked env command code = Inr x \<Longrightarrow> execution_ok x \<and> \<not> px_adapter_called x
      \<and> (\<exists>err. px_error x = Some err \<and> oe_code err = code)"
    using planner_event_valid planner_error_valid
    by (fastforce simp: planner_blocked_def Let_def execution_ok_def result_simps)
qed

lemma planner_failed_outcome:
  assumes "command_ok env command" and "\<not> is_absolute_path kind"
  shows "(\<exists>x. planner_failed env command kind = Inr x) \<longleftrightarrow> \<not> path_like_model command"
    and "planner_failed env command kind = Inr x \<Longrightarrow> execution_ok x \<and> px_adapter_called x
      \<and> (\<exists>err. px_error x = Some err \<and> oe_code err = PLANNER_FAILED)"
proof -
  have keys: "list_all plain_key [''failure_kind'', ''error_code'']" by code_simp
  have relative: "\<not> is_absolute_path ''planner_failed''" by code_simp
  have extra: "safe_json (JObj ([(''failure_kind'', JStr kind)] @ [(''error_code'', JStr ''planner_failed'')]))
      = Inr ()" "safe_json (JObj [(''failure_kind'', JStr kind)]) = Inr ()"
    using keys relative assms(2) by (simp_all add: safe_json_object_iff result_simps del: safe_json.simps(1))
  have "snake_pattern ''planner_failed''" by code_simp
  note event = planner_event_built [OF assms(1) this extra(1), of SYSTEM None]
  have "1 \<le> length ''planner execution failed contract, budget, timeout, or security checks''
    \<and> length ''planner execution failed contract, budget, timeout, or security checks'' \<le> 1000" by simp
  note err = planner_error_built [OF assms(1) _ this extra(2), of STAGE_PLANNER PLANNER_FAILED]
  show "(\<exists>x. planner_failed env command kind = Inr x) \<longleftrightarrow> \<not> path_like_model command"
    using event err by (auto simp: planner_failed_def Let_def result_simps)
  show "planner_failed env command kind = Inr x \<Longrightarrow> execution_ok x \<and> px_adapter_called x
      \<and> (\<exists>err. px_error x = Some err \<and> oe_code err = PLANNER_FAILED)"
    using planner_event_valid planner_error_valid
    by (fastforce simp: planner_failed_def Let_def execution_ok_def result_simps)
qed

lemma planner_completed_outcome:
  assumes "command_ok env command"
  shows "(\<exists>x. planner_completed env command response = Inr x) \<longleftrightarrow> \<not> path_like_model command"
    and "planner_completed env command response = Inr x \<Longrightarrow> execution_ok x \<and> px_adapter_called x
      \<and> px_plan x = Some (pa_plan response) \<and> px_error x = None"
proof -
  have keys: "list_all plain_key [''input_tokens'', ''output_tokens'', ''cost_microunits'']" by code_simp
  have extra: "safe_json (JObj [(''input_tokens'', JInt i), (''output_tokens'', JInt j),
      (''cost_microunits'', JInt k)]) = Inr ()" for i j k
    using keys by (simp add: safe_json_object_iff result_simps del: safe_json.simps(1))
  have "snake_pattern ''planner_completed''" by code_simp
  note event = planner_event_built [OF assms(1) this extra, of AI_ACTOR "Some PLAN_PROPOSED"]
  show "(\<exists>x. planner_completed env command response = Inr x) \<longleftrightarrow> \<not> path_like_model command"
    using event by (auto simp: planner_completed_def result_simps)
  show "planner_completed env command response = Inr x \<Longrightarrow> execution_ok x \<and> px_adapter_called x
      \<and> px_plan x = Some (pa_plan response) \<and> px_error x = None"
    using planner_event_valid by (fastforce simp: planner_completed_def execution_ok_def result_simps)
qed

lemma policy_passed:
  assumes "planner_policy_error env command = None"
  shows "am_rule_state (pm_mode command) = AI_ALLOWED" "am_tool_mode (pm_mode command) = PLANNING_ONLY"
    "pe_adapter_kind env = am_adapter_kind (pm_mode command)"
    "am_provider_id (pm_mode command) = Some (pe_provider_id env)"
    "am_model_id (pm_mode command) = Some (pe_model_id env)"
    "pc_data_boundary (pm_context command) = am_data_boundary (pm_mode command)"
    "am_data_boundary (pm_mode command) = APPROVED_PROBLEM_DATA \<longrightarrow> pm_operator_approved_problem_data command"
    "am_adapter_kind (pm_mode command) = FAKE_QA \<longrightarrow>
       mf_environment (pm_manifest command) = ENV_SYNTHETIC_TEST"
    "jb_role (pm_planner_job command) = PLANNER" "jb_status (pm_planner_job command) = JOB_QUEUED"
    "pc_problem_id (pm_context command) = pr_problem_id (pm_problem command)"
    "pc_plan_id (pm_context command) = jb_plan_id (pm_planner_job command)"
    "pc_mode_id (pm_context command) = am_mode_id (pm_mode command)"
proof -
  have if_Some: "(if P then Some a else r) = None \<longleftrightarrow> \<not> P \<and> r = None" for P and a :: operation_error_code and r
    by simp
  have if_waiting: "(if P then not_waiting_or job a else r) = None \<longleftrightarrow> \<not> P \<and> r = None" for P job a r
    by (simp add: not_waiting_or_def)
  note passed = assms [unfolded planner_policy_error_def Let_def if_Some if_waiting]
  show "am_rule_state (pm_mode command) = AI_ALLOWED"
    using passed by (cases "am_rule_state (pm_mode command)") simp_all
  show "am_tool_mode (pm_mode command) = PLANNING_ONLY"
    "pe_adapter_kind env = am_adapter_kind (pm_mode command)"
    "am_provider_id (pm_mode command) = Some (pe_provider_id env)"
    "am_model_id (pm_mode command) = Some (pe_model_id env)"
    "pc_data_boundary (pm_context command) = am_data_boundary (pm_mode command)"
    "am_data_boundary (pm_mode command) = APPROVED_PROBLEM_DATA \<longrightarrow> pm_operator_approved_problem_data command"
    "am_adapter_kind (pm_mode command) = FAKE_QA \<longrightarrow>
       mf_environment (pm_manifest command) = ENV_SYNTHETIC_TEST"
    "jb_role (pm_planner_job command) = PLANNER" "jb_status (pm_planner_job command) = JOB_QUEUED"
    "pc_problem_id (pm_context command) = pr_problem_id (pm_problem command)"
    "pc_plan_id (pm_context command) = jb_plan_id (pm_planner_job command)"
    "pc_mode_id (pm_context command) = am_mode_id (pm_mode command)"
    using passed by (blast intro: sym)+
qed

lemma policy_codes:
  "planner_policy_error env command = Some code \<Longrightarrow>
     code \<in> {INVALID_OPERATIONS_INPUT, RULES_GATED, RULE_RESTRICTED}"
  by (auto simp: planner_policy_error_def not_waiting_or_def Let_def split: if_splits)

lemma failure_kinds_relative:
  "response_failure env command response = Some kind \<Longrightarrow> \<not> is_absolute_path kind"
  "\<not> is_absolute_path ''timeout''" "\<not> is_absolute_path ''adapter_error''"
  "\<not> is_absolute_path ''artifact_persistence_failed''"
proof -
  have "\<not> is_absolute_path ''contract_invalid''" "\<not> is_absolute_path ''token_budget_exceeded''"
    "\<not> is_absolute_path ''cost_budget_exceeded''" "\<not> is_absolute_path ''security_rejected''"
    by code_simp+
  then show "response_failure env command response = Some kind \<Longrightarrow> \<not> is_absolute_path kind"
    by (auto simp: response_failure_def split: if_splits)
qed code_simp+

lemma planner_execute_cases:
  obtains (blocked) code where "planner_policy_error env command = Some code"
      "planner_execute env command = (planner_blocked env command code, [])"
  | (failed) kind extra where "planner_policy_error env command = None" "\<not> is_absolute_path kind"
      "planner_execute env command = (planner_failed env command kind, Plan_Call (pm_context command) # extra)"
      "extra = [] \<or> (\<exists>raw. extra = [Write_Call raw]) \<or> (\<exists>raw uri. extra = [Write_Call raw, Record_Call uri])"
  | (completed) response uri where "planner_policy_error env command = None"
      "pe_plan env (pm_context command) (bg_timeout_seconds (pm_budgets command)) = Planner_Responded response"
      "response_failure env command response = None"
      "pe_write env (pa_raw_output response) = Some uri"
      "pl_raw_output_artifact (pa_plan response) = Some uri" "pe_record env uri"
      "planner_execute env command =
         (planner_completed env command response,
          [Plan_Call (pm_context command), Write_Call (pa_raw_output response), Record_Call uri])"
proof (cases "planner_policy_error env command")
  case (Some code)
  then show ?thesis by (intro blocked) (simp_all add: planner_execute_def)
next
  case None
  note failed' = failed [OF None]
  show ?thesis
  proof (cases "pe_plan env (pm_context command) (bg_timeout_seconds (pm_budgets command))")
    case (Planner_Responded response)
    show ?thesis
    proof (cases "response_failure env command response")
      case (Some kind)
      then show ?thesis
        using None Planner_Responded failure_kinds_relative(1)
        by (intro failed' [of kind "[]"]) (auto simp: planner_execute_def)
    next
      case no_failure: None
      obtain persisted extra where p: "persist_raw_output env response = (persisted, extra)" by fastforce
      show ?thesis
      proof (cases persisted)
        case True
        with p obtain uri where "pe_write env (pa_raw_output response) = Some uri"
          "pl_raw_output_artifact (pa_plan response) = Some uri" "pe_record env uri"
          "extra = [Write_Call (pa_raw_output response), Record_Call uri]"
          by (auto simp: persist_raw_output_def split: option.splits if_splits)
        with True p None Planner_Responded no_failure show ?thesis
          by (intro completed [of response uri]) (auto simp: planner_execute_def)
      next
        case False
        with p None Planner_Responded no_failure failure_kinds_relative(4) show ?thesis
          by (intro failed' [of "''artifact_persistence_failed''" extra])
            (auto simp: planner_execute_def persist_raw_output_def split: option.splits if_splits)
      qed
    qed
  next
    case Planner_Timed_Out
    then show ?thesis
      using None failure_kinds_relative(2)
      by (intro failed' [of "''timeout''" "[]"]) (auto simp: planner_execute_def)
  next
    case Planner_Raised
    then show ?thesis
      using None failure_kinds_relative(3)
      by (intro failed' [of "''adapter_error''" "[]"]) (auto simp: planner_execute_def)
  qed
qed

abbreviation is_plan_call :: "planner_call \<Rightarrow> bool" where
  "is_plan_call c \<equiv> (\<exists>ctx. c = Plan_Call ctx)"

interpretation planner_gate: gated_service
  "planner_policy_error env" "\<lambda>command. snd (planner_execute env command)" is_plan_call for env
proof
  show "planner_policy_error env c = Some e \<Longrightarrow> snd (planner_execute env c) = []" for c e
    by (simp add: planner_execute_def)
  show "count_if is_plan_call (snd (planner_execute env c)) \<le> 1" for c
    by (cases rule: planner_execute_cases [of env c]) auto
qed

subsection \<open>Properties\<close>

text \<open>
  C23: The adapter is called only with an allowed mode: the mode is allowed and planning-only, the
  adapter is the one the mode names (kind, provider and model), the context carries the mode's data
  boundary, approved problem data needs the operator's approval, the fake adapter needs a synthetic
  competition, and the job is a queued planner job of this problem, plan and mode. Over any list of
  commands the adapter is called at most once for each command the gate accepts.
\<close>

theorem planner_gate_guards_adapter:
  "(Plan_Call ctx \<in> set (snd (planner_execute env command)) \<longrightarrow>
      ctx = pm_context command
      \<and> am_rule_state (pm_mode command) = AI_ALLOWED \<and> am_tool_mode (pm_mode command) = PLANNING_ONLY
      \<and> pe_adapter_kind env = am_adapter_kind (pm_mode command)
      \<and> am_provider_id (pm_mode command) = Some (pe_provider_id env)
      \<and> am_model_id (pm_mode command) = Some (pe_model_id env)
      \<and> pc_data_boundary ctx = am_data_boundary (pm_mode command)
      \<and> (am_data_boundary (pm_mode command) = APPROVED_PROBLEM_DATA \<longrightarrow>
           pm_operator_approved_problem_data command)
      \<and> (am_adapter_kind (pm_mode command) = FAKE_QA \<longrightarrow>
           mf_environment (pm_manifest command) = ENV_SYNTHETIC_TEST)
      \<and> jb_role (pm_planner_job command) = PLANNER \<and> jb_status (pm_planner_job command) = JOB_QUEUED
      \<and> pc_problem_id ctx = pr_problem_id (pm_problem command)
      \<and> pc_plan_id ctx = jb_plan_id (pm_planner_job command)
      \<and> pc_mode_id ctx = am_mode_id (pm_mode command))
    \<and> count_if is_plan_call (concat (map (\<lambda>c. snd (planner_execute env c)) commands))
        \<le> count_if (\<lambda>c. planner_policy_error env c = None) commands"
proof (intro conjI impI)
  assume "Plan_Call ctx \<in> set (snd (planner_execute env command))"
  then have *: "planner_policy_error env command = None" and "ctx = pm_context command"
    by (cases rule: planner_execute_cases [of env command]; auto)+
  then show "ctx = pm_context command" by simp
  note policy_passed [OF *, folded \<open>ctx = pm_context command\<close>]
  then show "am_rule_state (pm_mode command) = AI_ALLOWED" "am_tool_mode (pm_mode command) = PLANNING_ONLY"
    "pe_adapter_kind env = am_adapter_kind (pm_mode command)"
    "am_provider_id (pm_mode command) = Some (pe_provider_id env)"
    "am_model_id (pm_mode command) = Some (pe_model_id env)"
    "pc_data_boundary ctx = am_data_boundary (pm_mode command)"
    "am_data_boundary (pm_mode command) = APPROVED_PROBLEM_DATA \<Longrightarrow> pm_operator_approved_problem_data command"
    "am_adapter_kind (pm_mode command) = FAKE_QA \<Longrightarrow> mf_environment (pm_manifest command) = ENV_SYNTHETIC_TEST"
    "jb_role (pm_planner_job command) = PLANNER" "jb_status (pm_planner_job command) = JOB_QUEUED"
    "pc_problem_id ctx = pr_problem_id (pm_problem command)"
    "pc_plan_id ctx = jb_plan_id (pm_planner_job command)"
    "pc_mode_id ctx = am_mode_id (pm_mode command)"
    by blast+
qed (rule planner_gate.batch_bounded)

text \<open>
  C24: A plan is returned only after every check: it is the adapter's plan, proposed, for this plan,
  problem, mode and job, with at least one leaf job, within the token and cost budgets; its raw
  output passed the guard, was written, and was recorded under the address the plan names. The
  calls of the execution are exactly those three.
\<close>

theorem returned_plan_was_checked:
  assumes "command_ok env command"
    and "fst (planner_execute env command) = Inr x" and "px_plan x = Some plan"
  shows "px_error x = None \<and> px_adapter_called x
    \<and> (\<exists>response uri.
        pe_plan env (pm_context command) (bg_timeout_seconds (pm_budgets command)) = Planner_Responded response
        \<and> pa_plan response = plan \<and> pl_status plan = PLAN_PROPOSED \<and> pl_leaf_job_specs plan \<noteq> []
        \<and> pl_plan_id plan = pc_plan_id (pm_context command)
        \<and> pl_problem_id plan = pr_problem_id (pm_problem command)
        \<and> pl_mode_id plan = am_mode_id (pm_mode command)
        \<and> pl_planner_job_id plan = jb_job_id (pm_planner_job command)
        \<and> us_input_tokens (pa_usage response) + us_output_tokens (pa_usage response)
            \<le> bg_token_budget (pm_budgets command)
        \<and> us_cost_microunits (pa_usage response) \<le> bg_cost_budget_microunits (pm_budgets command)
        \<and> check_bytes (pe_forbidden env) (pa_raw_output response) = Inr ()
        \<and> pl_raw_output_artifact plan = Some uri \<and> pe_write env (pa_raw_output response) = Some uri
        \<and> pe_record env uri
        \<and> snd (planner_execute env command) =
            [Plan_Call (pm_context command), Write_Call (pa_raw_output response), Record_Call uri])"
proof (cases rule: planner_execute_cases [of env command])
  case (blocked code)
  then show ?thesis
    using assms planner_blocked_outcome(2) [OF assms(1) policy_codes] by (fastforce simp: execution_ok_def)
next
  case (failed kind extra)
  then show ?thesis
    using assms planner_failed_outcome(2) [OF assms(1)] by (fastforce simp: execution_ok_def)
next
  case (completed response uri)
  then have "px_plan x = Some (pa_plan response) \<and> px_error x = None \<and> px_adapter_called x"
    using assms(2) planner_completed_outcome(2) [OF assms(1), of response x] by simp
  with completed assms(3) show ?thesis
    by (auto simp: response_failure_def validate_planner_response_def total_tokens_def result_simps
        split: if_splits)
qed

text \<open>
  For a well-formed command whose model id is not an absolute path, every execution returns,
  whatever the adapter does: its event is valid, it carries either a plan or a valid error and never
  both, a blocked execution reports the gate's code without calling the adapter, and every other
  failure is \<^verbatim>\<open>planner_failed\<close>.
\<close>

theorem planner_always_reports:
  assumes "command_ok env command" and "\<not> path_like_model command"
  shows "\<exists>x. fst (planner_execute env command) = Inr x
    \<and> validate_event (px_event x) = Inr ()
    \<and> (px_adapter_called x \<longleftrightarrow> planner_policy_error env command = None)
    \<and> (case px_error x of
         None \<Rightarrow> px_plan x \<noteq> None
       | Some err \<Rightarrow> px_plan x = None \<and> validate_error err = Inr ()
           \<and> oe_code err = (case planner_policy_error env command of
                              Some code \<Rightarrow> code | None \<Rightarrow> PLANNER_FAILED))"
proof (cases rule: planner_execute_cases [of env command])
  case (blocked code)
  from planner_blocked_outcome [OF assms(1) policy_codes [OF blocked(1)]] assms(2)
  obtain x where "planner_blocked env command code = Inr x" "execution_ok x" "\<not> px_adapter_called x"
    "\<exists>err. px_error x = Some err \<and> oe_code err = code" by blast
  with blocked show ?thesis by (auto simp: execution_ok_def)
next
  case (failed kind extra)
  from planner_failed_outcome [OF assms(1) failed(2)] assms(2)
  obtain x where "planner_failed env command kind = Inr x" "execution_ok x" "px_adapter_called x"
    "\<exists>err. px_error x = Some err \<and> oe_code err = PLANNER_FAILED" by blast
  with failed show ?thesis by (auto simp: execution_ok_def)
next
  case (completed response uri)
  from planner_completed_outcome [OF assms(1), of response] assms(2)
  obtain x where "planner_completed env command response = Inr x" "execution_ok x" "px_adapter_called x"
    "px_plan x = Some (pa_plan response)" "px_error x = None" by blast
  with completed show ?thesis by (auto simp: execution_ok_def)
qed

text \<open>
  A mode whose model id is an absolute path (the path of a local model) is a valid mode, but no
  execution with it ever returns a report: building the event raises a contract error that the
  service does not catch. In the successful case the raw output has been written and recorded by then.
\<close>

theorem path_like_model_is_never_reported:
  assumes "command_ok env command" and "path_like_model command"
  shows "(\<exists>e. fst (planner_execute env command) = Inl e)
    \<and> (pe_plan env (pm_context command) (bg_timeout_seconds (pm_budgets command)) = Planner_Responded response
       \<and> planner_policy_error env command = None \<and> response_failure env command response = None
       \<and> pe_write env (pa_raw_output response) = pl_raw_output_artifact (pa_plan response)
       \<and> pl_raw_output_artifact (pa_plan response) = Some uri \<and> pe_record env uri \<longrightarrow>
       Record_Call uri \<in> set (snd (planner_execute env command)))"
proof
  have raised: "\<exists>e. r = Inl e" if "\<not> (\<exists>x. r = Inr x)" for r :: "contract_error + planner_execution"
    using that by (cases r) auto
  show "\<exists>e. fst (planner_execute env command) = Inl e"
  proof (cases rule: planner_execute_cases [of env command])
    case (blocked code)
    then show ?thesis
      using planner_blocked_outcome(1) [OF assms(1) policy_codes] assms(2) raised by simp
  next
    case (failed kind extra)
    then show ?thesis using planner_failed_outcome(1) [OF assms(1)] assms(2) raised by simp
  next
    case (completed response uri)
    then show ?thesis using planner_completed_outcome(1) [OF assms(1)] assms(2) raised by simp
  qed
qed (auto simp: planner_execute_def persist_raw_output_def)

subsection \<open>Witnesses\<close>

definition fx_proposed :: plan_hypothesis where
  "fx_proposed = fx_plan\<lparr>pl_status := PLAN_PROPOSED, pl_decided_at := None\<rparr>"

definition fx_response :: planner_adapter_response where
  "fx_response =
     \<lparr>pa_plan = fx_proposed, pa_raw_output = ''{}'',
      pa_usage = \<lparr>us_input_tokens = 3, us_output_tokens = 4, us_cost_microunits = 5\<rparr>\<rparr>"

definition fx_planner_env :: "string \<Rightarrow> planner_env" where
  "fx_planner_env model =
     \<lparr>pe_adapter_kind = LOCAL_ADAPTER, pe_provider_id = ''local.llm'', pe_model_id = model,
      pe_plan = (\<lambda>_ _. Planner_Responded fx_response),
      pe_write = (\<lambda>_. Some fx_uri), pe_record = (\<lambda>_. True), pe_forbidden = [''secret''],
      pe_clock = 4, pe_float_text = (\<lambda>_. ''30.0'')\<rparr>"

definition fx_planner_command :: "string \<Rightarrow> planner_command" where
  "fx_planner_command model =
     \<lparr>pm_manifest = fx_manifest, pm_problem = fx_problem, pm_mode = fx_mode\<lparr>am_model_id := Some model\<rparr>,
      pm_planner_job = fx_job ''JOB-PLN'' PLANNER JOB_QUEUED,
      pm_context = \<lparr>pc_plan_id = ''PLAN-AAA'', pc_mode_id = ''MODE-AAA'', pc_problem_id = ''PROB-AA'',
        pc_planner_job_id = ''JOB-PLN'', pc_analysis_type = DEX_SWAP, pc_data_boundary = LOCAL_ONLY,
        pc_problem_view = JObj [], pc_available_capabilities = [''logs''],
        pc_prior_safe_context = JObj [], pc_created_at = 0\<rparr>,
      pm_budgets = \<lparr>bg_timeout_seconds = 30, bg_token_budget = 10, bg_cost_budget_microunits = 10\<rparr>,
      pm_event_id = ''OEV-AAA'', pm_error_id = ''OERR-AAA'',
      pm_operator_approved_problem_data = False\<rparr>"

lemma fx_planner_ok:
  "command_ok (fx_planner_env ''m1'') (fx_planner_command ''m1'')"
  "command_ok (fx_planner_env ''/models/m1'') (fx_planner_command ''/models/m1'')"
  by code_simp+

lemma fx_planner_model:
  "\<not> path_like_model (fx_planner_command ''m1'')" "path_like_model (fx_planner_command ''/models/m1'')"
  by (simp_all add: fx_planner_command_def is_absolute_path_def starts_with_def)

lemma fx_planner_gate:
  "planner_policy_error (fx_planner_env m) (fx_planner_command m) = None"
  by (simp add: planner_policy_error_def fx_planner_env_def fx_planner_command_def Let_def fx_defs)

lemma fx_planner_run:
  "planner_execute (fx_planner_env m) (fx_planner_command m) =
     (planner_completed (fx_planner_env m) (fx_planner_command m) fx_response,
      [Plan_Call (pm_context (fx_planner_command m)), Write_Call ''{}'', Record_Call fx_uri])"
proof -
  have "validate_planner_response (fx_planner_command m) fx_proposed = Inr ()"
    by (simp add: validate_planner_response_def fx_planner_command_def fx_proposed_def fx_defs)
  moreover have "check_bytes [''secret''] ''{}'' = Inr ()" by code_simp
  ultimately have "response_failure (fx_planner_env m) (fx_planner_command m) fx_response = None"
    by (simp add: response_failure_def total_tokens_def fx_planner_env_def fx_response_def)
      (simp add: fx_planner_command_def)
  moreover have "pe_plan (fx_planner_env m) ctx t = Planner_Responded fx_response" for ctx t
    by (simp add: fx_planner_env_def)
  moreover have "persist_raw_output (fx_planner_env m) fx_response =
      (True, [Write_Call ''{}'', Record_Call fx_uri])"
    by (simp add: persist_raw_output_def fx_planner_env_def fx_response_def fx_proposed_def fx_plan_def)
  ultimately show ?thesis using fx_planner_gate [of m] by (simp add: planner_execute_def)
qed

theorem planner_gate_guards_adapter_witness:
  "Plan_Call (pm_context (fx_planner_command ''m1''))
      \<in> set (snd (planner_execute (fx_planner_env ''m1'') (fx_planner_command ''m1'')))
    \<and> am_rule_state (pm_mode (fx_planner_command ''m1'')) = AI_ALLOWED"
  using planner_gate_guards_adapter [of "pm_context (fx_planner_command ''m1'')" "fx_planner_env ''m1''"
      "fx_planner_command ''m1''"] fx_planner_run [of "''m1''"] by simp

theorem planner_always_reports_witness:
  "\<exists>x. fst (planner_execute (fx_planner_env ''m1'') (fx_planner_command ''m1'')) = Inr x
     \<and> px_adapter_called x"
  using planner_always_reports [OF fx_planner_ok(1) fx_planner_model(1)] fx_planner_gate [of "''m1''"] by auto

theorem returned_plan_was_checked_witness:
  "\<exists>x plan. fst (planner_execute (fx_planner_env ''m1'') (fx_planner_command ''m1'')) = Inr x
     \<and> px_plan x = Some plan \<and> pl_status plan = PLAN_PROPOSED"
proof -
  obtain x where x: "planner_completed (fx_planner_env ''m1'') (fx_planner_command ''m1'') fx_response = Inr x"
    "px_plan x = Some (pa_plan fx_response)"
    using planner_completed_outcome [OF fx_planner_ok(1), of fx_response] fx_planner_model(1) by blast
  with fx_planner_run [of "''m1''"]
    returned_plan_was_checked [OF fx_planner_ok(1), of x "pa_plan fx_response"]
  show ?thesis by auto
qed

theorem path_like_model_is_never_reported_witness:
  "(\<exists>e. fst (planner_execute (fx_planner_env ''/models/m1'') (fx_planner_command ''/models/m1'')) = Inl e)
    \<and> Record_Call fx_uri
        \<in> set (snd (planner_execute (fx_planner_env ''/models/m1'') (fx_planner_command ''/models/m1'')))"
  using path_like_model_is_never_reported [OF fx_planner_ok(2) fx_planner_model(2)]
    fx_planner_run [of "''/models/m1''"] by simp

end
