(* ===== verification/Analysis_Request.thy ===== *)
theory Analysis_Request
  imports Source_Orchestration Operations_Validation
begin

section \<open>Analysis requests\<close>

text \<open>
  \<^verbatim>\<open>domain/analysis_request.py\<close>. The envelope of a request is a record. Its \<^verbatim>\<open>inputs\<close>, one of some
  thirty nested model classes, is the JSON object that was validated; each class is a \<open>schema\<close> with
  the fields, literals and after-validators of its source.

  \<open>conforms urls s j\<close>: the class \<open>s\<close> accepts \<open>j\<close> (undeclared keys are forbidden, as \<^verbatim>\<open>ContractModel\<close>
  does, and integers and booleans are strict). \<open>dump_by_name urls s j\<close> is \<^verbatim>\<open>model_dump(mode="json")\<close> of
  the accepted object: declaration order, and Python attribute names rather than aliases. \<open>urls\<close>
  normalises a URL, or rejects it, as the library's URL type does.
\<close>

subsection \<open>Model classes\<close>

datatype schema =
    Text "string \<Rightarrow> bool"
  | Url
  | Whole "int \<Rightarrow> bool"
  | Flag
  | Choice "json list"
  | Items "json list \<Rightarrow> bool" schema
  | Object "(string \<times> string \<times> bool \<times> schema) list" "(string, json) dict \<Rightarrow> bool"
  | OneOf "schema list"

text \<open>A field: JSON key, attribute name, whether it is required, class.\<close>

definition req :: "string \<Rightarrow> schema \<Rightarrow> string \<times> string \<times> bool \<times> schema" where
  "req name s = (name, name, True, s)"

definition opt :: "string \<Rightarrow> schema \<Rightarrow> string \<times> string \<times> bool \<times> schema" where
  "opt name s = (name, name, False, s)"

definition aliased :: "string \<Rightarrow> string \<Rightarrow> schema \<Rightarrow> string \<times> string \<times> bool \<times> schema" where
  "aliased key attribute s = (key, attribute, True, s)"

lemmas field_defs = req_def opt_def aliased_def

abbreviation "plain_model fs \<equiv> Object fs (\<lambda>_. True)"

fun conforms :: "(string \<Rightarrow> string option) \<Rightarrow> schema \<Rightarrow> json \<Rightarrow> bool" where
  "conforms urls (Text ok) j = (case j of JStr s \<Rightarrow> ok s | _ \<Rightarrow> False)"
| "conforms urls Url j = (case j of JStr s \<Rightarrow> urls s \<noteq> None | _ \<Rightarrow> False)"
| "conforms urls (Whole ok) j = (case j of JInt i \<Rightarrow> ok i | _ \<Rightarrow> False)"
| "conforms urls Flag j = (case j of JBool _ \<Rightarrow> True | _ \<Rightarrow> False)"
| "conforms urls (Choice options) j = (j \<in> set options)"
| "conforms urls (Items ok s) j =
     (case j of JArr xs \<Rightarrow> ok xs \<and> list_all (conforms urls s) xs | _ \<Rightarrow> False)"
| "conforms urls (Object fs after) j =
     (case j of
        JObj kvs \<Rightarrow>
          distinct (map fst kvs) \<and> set (map fst kvs) \<subseteq> set (map fst fs)
          \<and> list_all (\<lambda>f. case map_of kvs (fst f) of
                           None \<Rightarrow> \<not> fst (snd (snd f))
                         | Some v \<Rightarrow> conforms urls (snd (snd (snd f))) v) fs
          \<and> after kvs
      | _ \<Rightarrow> False)"
| "conforms urls (OneOf ss) j = list_ex (\<lambda>s. conforms urls s j) ss"

fun dump_by_name :: "(string \<Rightarrow> string option) \<Rightarrow> schema \<Rightarrow> json \<Rightarrow> json" where
  "dump_by_name urls Url j = (case j of JStr s \<Rightarrow> (case urls s of Some t \<Rightarrow> JStr t | None \<Rightarrow> j) | _ \<Rightarrow> j)"
| "dump_by_name urls (Items ok s) j = (case j of JArr xs \<Rightarrow> JArr (map (dump_by_name urls s) xs) | _ \<Rightarrow> j)"
| "dump_by_name urls (Object fs after) j =
     (case j of
        JObj kvs \<Rightarrow>
          JObj (concat (map (\<lambda>f. case map_of kvs (fst f) of
                  None \<Rightarrow> []
                | Some v \<Rightarrow> [(fst (snd f), dump_by_name urls (snd (snd (snd f))) v)]) fs))
      | _ \<Rightarrow> j)"
| "dump_by_name urls (OneOf ss) j =
     hd (concat (map (\<lambda>s. if conforms urls s j then [dump_by_name urls s j] else []) ss) @ [j])"
| "dump_by_name urls s j = j"

subsection \<open>Shared field types\<close>

definition hex_text_ok :: "nat \<Rightarrow> string \<Rightarrow> bool" where
  "hex_text_ok n s \<longleftrightarrow> starts_with ''0x'' s \<and> is_hex (drop 2 s) \<and> length (drop 2 s) = n"

definition dashed_id_ok :: "string \<Rightarrow> string \<Rightarrow> bool" where
  "dashed_id_ok prefix s \<longleftrightarrow>
     starts_with prefix s \<and> drop (length prefix) s \<noteq> []
     \<and> list_all (\<lambda>c. is_upper_alnum c \<or> c = CHR ''-'') (drop (length prefix) s)"

abbreviation "source_id_ok \<equiv> dashed_id_ok ''DS-''"
abbreviation "fixture_id_ok \<equiv> dashed_id_ok ''FX-''"

definition Address :: schema where "Address = Text (hex_text_ok 40)"
definition TransactionHash :: schema where "TransactionHash = Text (hex_text_ok 64)"
definition BitcoinTxId :: schema where "BitcoinTxId = Text sha256_pattern"
definition FixtureId :: schema where "FixtureId = Text fixture_id_ok"
definition BlockNumber :: schema where "BlockNumber = Whole (\<lambda>i. 0 \<le> i)"
definition PositiveInt :: schema where "PositiveInt = Whole (\<lambda>i. 0 < i)"
definition AnyText :: schema where "AnyText = Text (\<lambda>_. True)"
definition ArtifactRef :: schema where "ArtifactRef = Text artifact_uri_pattern"

definition literal :: "string \<Rightarrow> schema" where "literal s = Choice [JStr s]"
definition UniqueList :: "schema \<Rightarrow> schema" where "UniqueList s = Items distinct s"
definition NonEmptyUniqueList :: "schema \<Rightarrow> schema" where
  "NonEmptyUniqueList s = Items (\<lambda>xs. xs \<noteq> [] \<and> distinct xs) s"
definition ExactlyTwoUniqueList :: "schema \<Rightarrow> schema" where
  "ExactlyTwoUniqueList s = Items (\<lambda>xs. length xs = 2 \<and> distinct xs) s"
definition NonEmptyList :: "schema \<Rightarrow> schema" where
  "NonEmptyList s = Items (\<lambda>xs. xs \<noteq> []) s"

definition int_field :: "(string, json) dict \<Rightarrow> string \<Rightarrow> int" where
  "int_field kvs k = (case map_of kvs k of Some (JInt i) \<Rightarrow> i | _ \<Rightarrow> 0)"

subsection \<open>Inputs of the first contract version\<close>

definition AuthStateBlocks :: schema where
  "AuthStateBlocks = plain_model
     [req ''before_approval'' BlockNumber, req ''after_approval'' BlockNumber,
      req ''before_consumption'' BlockNumber, req ''after_consumption'' BlockNumber]"

definition FreezeStateBlocks :: schema where
  "FreezeStateBlocks = plain_model
     [req ''before_blacklist'' BlockNumber, req ''after_blacklist'' BlockNumber,
      req ''before_unblacklist'' BlockNumber, req ''after_unblacklist'' BlockNumber]"

definition DexInputs :: schema where
  "DexInputs = plain_model [req ''transaction_hash'' TransactionHash]"

definition AuthInputs :: schema where
  "AuthInputs = plain_model
     [req ''subject_address'' Address, req ''token_address'' Address, req ''spender_address'' Address,
      opt ''approval_type'' (Choice [JStr ''approve'', JStr ''permit'', JStr ''permit2'']),
      req ''approval_transaction_hash'' TransactionHash,
      req ''consumption_transaction_hash'' TransactionHash, req ''state_blocks'' AuthStateBlocks,
      opt ''excluded_transaction_hashes'' (UniqueList TransactionHash)]"

definition FreezeInputs :: schema where
  "FreezeInputs = plain_model
     [req ''token_address'' Address, req ''target_address'' Address,
      req ''mode'' (literal ''address_blacklist_lifecycle''),
      req ''event_transaction_hashes'' (ExactlyTwoUniqueList TransactionHash),
      req ''state_blocks'' FreezeStateBlocks, opt ''context_urls'' (UniqueList Url)]"

subsection \<open>EVM inputs\<close>

definition ObjectSummaryInputs :: schema where
  "ObjectSummaryInputs = plain_model
     [req ''values'' (NonEmptyList (OneOf [AnyText, BlockNumber])), req ''block_number'' BlockNumber,
      req ''include_transaction_fee'' Flag]"

definition symbol_ok :: "string \<Rightarrow> bool" where
  "symbol_ok s \<longleftrightarrow> 2 \<le> length s \<and> length s \<le> 12 \<and> list_all is_upper_alnum s"

definition token_address_matches_asset_type :: "(string, json) dict \<Rightarrow> bool" where
  "token_address_matches_asset_type kvs \<longleftrightarrow>
     \<not> (map_of kvs ''asset_type'' = Some (JStr ''erc20'') \<and> map_of kvs ''token_address'' = None)
     \<and> \<not> (map_of kvs ''asset_type'' = Some (JStr ''native'') \<and> map_of kvs ''token_address'' \<noteq> None)"

definition BalanceAsset :: schema where
  "BalanceAsset = Object
     [req ''asset_type'' (Choice [JStr ''native'', JStr ''erc20'']), req ''symbol'' (Text symbol_ok),
      opt ''token_address'' Address]
     token_address_matches_asset_type"

definition HistoricalBalanceInputs :: schema where
  "HistoricalBalanceInputs = plain_model
     [req ''subject_address'' Address, req ''block_number'' BlockNumber,
      req ''block_timestamp'' BlockNumber, req ''state_semantics'' (literal ''post_state''),
      req ''assets'' (NonEmptyList BalanceAsset)]"

definition FirstTokenTransferInputs :: schema where
  "FirstTokenTransferInputs = plain_model
     [req ''subject_address'' Address, req ''token_address'' Address, req ''start_block'' BlockNumber,
      req ''direction'' (literal ''outgoing''), req ''exclude_zero'' (Choice [JBool True]),
      req ''require_success'' (Choice [JBool True]),
      req ''ordering'' (literal ''block_transaction_log_asc'')]"

definition NativeInflowInputs :: schema where
  "NativeInflowInputs = plain_model
     [req ''interest_address'' Address, req ''transaction_hash'' TransactionHash,
      req ''require_trace'' (Choice [JBool True]), req ''exclude_reverted'' (Choice [JBool True])]"

definition NftActivityInputs :: schema where
  "NftActivityInputs = plain_model
     [req ''token_contract'' Address, req ''subject_address'' Address,
      req ''standard_hint'' (Choice [JStr ''erc721'', JStr ''erc1155'', JStr ''auto'']),
      req ''include_approvals'' Flag]"

definition ProxyHistoryInputs :: schema where
  "ProxyHistoryInputs = plain_model
     [req ''proxy_address'' Address, req ''pattern_hint'' (Choice [JStr ''eip1967'', JStr ''auto'']),
      req ''include_admin'' Flag, req ''include_beacon'' (Choice [JBool False])]"

subsection \<open>Flow path inputs\<close>

definition NativeAssetScope :: schema where
  "NativeAssetScope = plain_model
     [req ''kind'' (literal ''native''), req ''symbol'' (literal ''ETH''),
      req ''decimals'' (Choice [JInt 18])]"

definition TraversalBudgets :: schema where
  "TraversalBudgets = plain_model
     [req ''max_hops'' PositiveInt, req ''max_nodes'' PositiveInt, req ''max_edges'' PositiveInt]"

definition flow_window_is_ordered :: "(string, json) dict \<Rightarrow> bool" where
  "flow_window_is_ordered kvs \<longleftrightarrow> \<not> int_field kvs ''to'' < int_field kvs ''from''"

definition FlowBlockWindow :: schema where
  "FlowBlockWindow = Object
     [aliased ''from'' ''from_block'' BlockNumber, aliased ''to'' ''to_block'' BlockNumber]
     flow_window_is_ordered"

definition TracePathScope :: schema where
  "TracePathScope = plain_model
     [req ''kind'' (literal ''selected_transactions_and_exact_blocks''),
      req ''block_windows'' (NonEmptyList FlowBlockWindow)]"

definition TraceRemergeScope :: schema where
  "TraceRemergeScope = plain_model
     [req ''kind'' (literal ''selected_transactions_and_exact_blocks''),
      req ''block_range'' FlowBlockWindow,
      req ''selected_transactions'' (NonEmptyUniqueList TransactionHash),
      req ''excluded_context_transactions'' (UniqueList TransactionHash)]"

definition AggregateOriginsScope :: schema where
  "AggregateOriginsScope = plain_model
     [req ''kind'' (literal ''selected_transactions_and_exact_blocks''),
      req ''selected_transactions'' (NonEmptyUniqueList TransactionHash)]"

definition TerminalPolicy :: schema where
  "TerminalPolicy = plain_model
     [req ''terminal_node'' Address, req ''stop_on'' (literal ''selected_terminal_reached'')]"

definition TracePathInputs :: schema where
  "TracePathInputs = plain_model
     [req ''seed_node'' Address, req ''direction'' (literal ''outbound''),
      req ''asset_scope'' NativeAssetScope, req ''terminal_policy'' TerminalPolicy,
      req ''budgets'' TraversalBudgets, req ''scope'' TracePathScope]"

definition TraceRemergeInputs :: schema where
  "TraceRemergeInputs = plain_model
     [req ''seed_node'' Address, req ''merge_node'' Address, req ''asset_scope'' NativeAssetScope,
      req ''budgets'' TraversalBudgets, req ''scope'' TraceRemergeScope]"

definition AggregateOriginsInputs :: schema where
  "AggregateOriginsInputs = plain_model
     [req ''origin_nodes'' (NonEmptyUniqueList Address), req ''exit_node'' Address,
      req ''asset_scope'' NativeAssetScope, req ''budgets'' TraversalBudgets,
      req ''scope'' AggregateOriginsScope]"

subsection \<open>Intelligence context inputs\<close>

definition CommonFunderCompleteness :: schema where
  "CommonFunderCompleteness = plain_model
     [req ''require_initial_inflow_complete'' Flag, req ''require_service_exclusion'' Flag,
      req ''excluded_service_roles'' (NonEmptyUniqueList AnyText)]"

definition LabelClaimsInputs :: schema where
  "LabelClaimsInputs = plain_model
     [req ''subject_addresses'' (NonEmptyUniqueList Address),
      req ''source_artifact_refs'' (NonEmptyUniqueList ArtifactRef),
      req ''observation_block'' BlockNumber, req ''max_sources'' PositiveInt]"

definition SanctionsExposureInputs :: schema where
  "SanctionsExposureInputs = plain_model
     [req ''subject_addresses'' (NonEmptyUniqueList Address),
      req ''official_action_refs'' (NonEmptyUniqueList AnyText),
      req ''current_list_snapshot_ref'' AnyText, req ''max_hops'' (Choice [JInt 0, JInt 1])]"

definition IdentityCluesInputs :: schema where
  "IdentityCluesInputs = plain_model
     [req ''subject_addresses'' (NonEmptyUniqueList Address), req ''names'' (NonEmptyUniqueList AnyText),
      req ''observation_block'' BlockNumber, req ''provider_replay_ref'' AnyText]"

definition CommonFunderInputs :: schema where
  "CommonFunderInputs = plain_model
     [req ''subject_addresses'' (NonEmptyUniqueList Address), req ''block_range'' FlowBlockWindow,
      req ''source_fixture_ref'' FixtureId, req ''completeness'' CommonFunderCompleteness]"

definition ActorRelationsInputs :: schema where
  "ActorRelationsInputs = plain_model
     [req ''subject_addresses'' (NonEmptyUniqueList Address), req ''hub_address'' Address,
      req ''source_fixture_refs'' (NonEmptyUniqueList FixtureId),
      req ''component_weights'' (NonEmptyUniqueList AnyText)]"

subsection \<open>Remaining inputs\<close>

definition ReconstructIncidentInputs :: schema where
  "ReconstructIncidentInputs = plain_model
     [req ''case_category'' (Choice [JStr ''phishing'', JStr ''address_poisoning'', JStr ''exploit'',
        JStr ''rug_pull'', JStr ''mixed'']),
      req ''seed_transaction_hash'' TransactionHash,
      req ''source_fixture_refs'' (NonEmptyUniqueList FixtureId), req ''max_timeline_entries'' PositiveInt]"

definition observation_window_is_ordered :: "(string, json) dict \<Rightarrow> bool" where
  "observation_window_is_ordered kvs \<longleftrightarrow> \<not> int_field kvs ''end_block'' < int_field kvs ''start_block''"

definition ObservationWindowInputs :: schema where
  "ObservationWindowInputs = Object
     [req ''start_block'' BlockNumber, req ''end_block'' BlockNumber] observation_window_is_ordered"

definition ReconstructLendingFlowInputs :: schema where
  "ReconstructLendingFlowInputs = plain_model
     [req ''subject_address'' Address,
      req ''subject_roles'' (NonEmptyUniqueList
        (Choice [JStr ''liquidator'', JStr ''borrower'', JStr ''receiver'', JStr ''supplier''])),
      req ''observation_window'' ObservationWindowInputs, req ''seed_transaction_hash'' TransactionHash,
      req ''protocol'' (literal ''aave_v3'')]"

definition EvaluateCexClusterInputs :: schema where
  "EvaluateCexClusterInputs = plain_model
     [req ''deposit_candidates'' (NonEmptyUniqueList Address),
      req ''observation_window'' ObservationWindowInputs, opt ''expected_hot_wallet'' Address]"

definition EvaluateMixerFlowInputs :: schema where
  "EvaluateMixerFlowInputs = plain_model
     [req ''subject_address'' Address, req ''pool_address'' Address,
      req ''observation_window'' ObservationWindowInputs]"

definition LinkBridgeTransferInputs :: schema where
  "LinkBridgeTransferInputs = plain_model
     [req ''source_subject'' Address, req ''destination_chain_id'' (Whole (\<lambda>_. True)),
      req ''origin_chain_id'' (Whole (\<lambda>_. True)), opt ''expected_recipient'' Address,
      opt ''source_transaction_hash'' TransactionHash,
      opt ''destination_transaction_hash'' TransactionHash]"

definition bitcoin_fields :: "(string \<times> string \<times> bool \<times> schema) list" where
  "bitcoin_fields =
     [req ''transaction_id'' BitcoinTxId, req ''network'' (literal ''bitcoin_mainnet''),
      req ''start_vout'' BlockNumber, req ''max_hops'' PositiveInt]"

definition BitcoinTransactionInputs :: schema where
  "BitcoinTransactionInputs = plain_model bitcoin_fields"

definition BitcoinHeuristicInputs :: schema where
  "BitcoinHeuristicInputs = plain_model
     (bitcoin_fields @ [req ''assess_change'' Flag, req ''assess_coinjoin'' Flag])"

lemmas class_defs =
  DexInputs_def AuthInputs_def FreezeInputs_def ObjectSummaryInputs_def HistoricalBalanceInputs_def
  FirstTokenTransferInputs_def NativeInflowInputs_def NftActivityInputs_def ProxyHistoryInputs_def
  TracePathInputs_def TraceRemergeInputs_def AggregateOriginsInputs_def LabelClaimsInputs_def
  SanctionsExposureInputs_def IdentityCluesInputs_def CommonFunderInputs_def ActorRelationsInputs_def
  ReconstructIncidentInputs_def ReconstructLendingFlowInputs_def EvaluateCexClusterInputs_def
  EvaluateMixerFlowInputs_def LinkBridgeTransferInputs_def bitcoin_fields_def
  BitcoinTransactionInputs_def BitcoinHeuristicInputs_def

subsection \<open>Request envelopes\<close>

record analysis_request =
  rq_schema_uri :: string
  rq_schema_version :: string
  rq_analysis_id :: string
  rq_chain_id :: int
  rq_fixture_id :: "string option"
  rq_requested_at :: instant
  rq_source_policy :: source_policy
  rq_analysis_type :: analysis_type
  rq_query_kind :: "string option"
  rq_inputs :: json

text \<open>
  The classes a request of a type may carry, each with the query kind that calls for it
  (\<open>None\<close> where the request class has no \<^verbatim>\<open>query_kind\<close>).
\<close>

definition evm_core_classes :: "(string option \<times> schema) list" where
  "evm_core_classes =
     [(Some ''object_summary'', ObjectSummaryInputs), (Some ''historical_balance'', HistoricalBalanceInputs),
      (Some ''first_token_transfer'', FirstTokenTransferInputs), (Some ''native_inflow'', NativeInflowInputs)]"

definition evm_special_classes :: "(string option \<times> schema) list" where
  "evm_special_classes =
     [(Some ''nft_activity'', NftActivityInputs), (Some ''proxy_history'', ProxyHistoryInputs)]"

definition flow_path_classes :: "(string option \<times> schema) list" where
  "flow_path_classes =
     [(Some ''trace_path'', TracePathInputs), (Some ''trace_remerge'', TraceRemergeInputs),
      (Some ''aggregate_origins'', AggregateOriginsInputs)]"

definition intel_context_classes :: "(string option \<times> schema) list" where
  "intel_context_classes =
     [(Some ''collect_label_claims'', LabelClaimsInputs),
      (Some ''check_sanctions_exposure'', SanctionsExposureInputs),
      (Some ''resolve_identity_clues'', IdentityCluesInputs),
      (Some ''find_common_funder'', CommonFunderInputs),
      (Some ''score_actor_relations'', ActorRelationsInputs)]"

definition bitcoin_classes :: "(string option \<times> schema) list" where
  "bitcoin_classes =
     [(Some ''summarize_transaction'', BitcoinTransactionInputs),
      (Some ''assess_heuristics'', BitcoinHeuristicInputs)]"

lemmas union_defs =
  evm_core_classes_def evm_special_classes_def flow_path_classes_def intel_context_classes_def
  bitcoin_classes_def

fun inputs_of :: "analysis_type \<Rightarrow> (string option \<times> schema) list" where
  "inputs_of DEX_SWAP = [(None, DexInputs)]"
| "inputs_of AUTH_CONSUMPTION = [(None, AuthInputs)]"
| "inputs_of ADDRESS_FREEZE = [(None, FreezeInputs)]"
| "inputs_of EVM_CORE = evm_core_classes"
| "inputs_of EVM_SPECIAL = evm_special_classes"
| "inputs_of FLOW_PATH = flow_path_classes"
| "inputs_of INTEL_CONTEXT = intel_context_classes"
| "inputs_of BRIDGE_TRANSFER = [(Some ''link_bridge_transfer'', LinkBridgeTransferInputs)]"
| "inputs_of BITCOIN_UTXO = bitcoin_classes"
| "inputs_of CEX_CLUSTER = [(Some ''evaluate_cex_cluster'', EvaluateCexClusterInputs)]"
| "inputs_of MIXER_FLOW = [(Some ''evaluate_mixer_candidates'', EvaluateMixerFlowInputs)]"
| "inputs_of DEFI_LENDING = [(Some ''reconstruct_lending_flow'', ReconstructLendingFlowInputs)]"
| "inputs_of CASE_RECONCILIATION = [(Some ''reconstruct_incident'', ReconstructIncidentInputs)]"

text \<open>The literals of \<^verbatim>\<open>chain_id\<close> and \<^verbatim>\<open>schema_version\<close> in the request classes.\<close>

fun chain_id_literal :: "analysis_type \<Rightarrow> int option" where
  "chain_id_literal BITCOIN_UTXO = Some 0"
| "chain_id_literal CEX_CLUSTER = None"
| "chain_id_literal MIXER_FLOW = None"
| "chain_id_literal DEFI_LENDING = None"
| "chain_id_literal _ = Some 1"

definition schema_version_literal :: "analysis_type \<Rightarrow> string" where
  "schema_version_literal t =
     (if t \<in> {DEX_SWAP, AUTH_CONSUMPTION, ADDRESS_FREEZE} then ''0.1'' else ''0.2'')"

definition validate_source_policy :: "source_policy \<Rightarrow> contract_error + unit" where
  "validate_source_policy p =
     then_check
       (raise_if
         (\<not> (po_allowed_source_ids p \<noteq> [] \<and> distinct (po_allowed_source_ids p)
             \<and> list_all source_id_ok (po_allowed_source_ids p)
             \<and> po_source_order p \<noteq> [] \<and> distinct (po_source_order p)
             \<and> list_all source_id_ok (po_source_order p)))
         field_errors)
       (source_order_is_allowed p)"

text \<open>The class a union of input classes resolves to: the first that accepts.\<close>

definition resolve_inputs ::
    "(string \<Rightarrow> string option) \<Rightarrow> (string option \<times> schema) list \<Rightarrow> json \<Rightarrow> (string option \<times> schema) option" where
  "resolve_inputs urls classes inputs = find (\<lambda>c. conforms urls (snd c) inputs) classes"

definition inputs_match_query_kind ::
    "(string \<Rightarrow> string option) \<Rightarrow> analysis_request \<Rightarrow> contract_error + unit" where
  "inputs_match_query_kind urls r =
     (case resolve_inputs urls (inputs_of (rq_analysis_type r)) (rq_inputs r) of
        None \<Rightarrow> Inl field_errors
      | Some (kind, _) \<Rightarrow>
          then_check
            (raise_if (rq_query_kind r \<notin> set (map fst (inputs_of (rq_analysis_type r)))) field_errors)
            (raise_if (kind \<noteq> rq_query_kind r) (invalid_input ''inputs must match query_kind'')))"

definition validate_request ::
    "(string \<Rightarrow> string option) \<Rightarrow> analysis_request \<Rightarrow> contract_error + unit" where
  "validate_request urls r =
     all_checks
       [raise_if
          (\<not> (ends_with ''analysis-request.schema.json'' (rq_schema_uri r)
              \<and> analysis_id_ok (rq_analysis_id r)
              \<and> rq_schema_version r = schema_version_literal (rq_analysis_type r)
              \<and> optional_ok (\<lambda>c. rq_chain_id r = c) (chain_id_literal (rq_analysis_type r))
              \<and> optional_ok fixture_id_ok (rq_fixture_id r)
              \<and> (rq_analysis_type r = CASE_RECONCILIATION \<longrightarrow>
                   rq_fixture_id r = Some ''FX-CASE-EULER-EXIT-001'')))
          field_errors,
        validate_source_policy (rq_source_policy r),
        inputs_match_query_kind urls r]"

text \<open>\<^verbatim>\<open>request.inputs.model_dump(mode="json")\<close>.\<close>

definition dump_inputs :: "(string \<Rightarrow> string option) \<Rightarrow> analysis_request \<Rightarrow> json" where
  "dump_inputs urls r =
     (case resolve_inputs urls (inputs_of (rq_analysis_type r)) (rq_inputs r) of
        None \<Rightarrow> rq_inputs r
      | Some (_, s) \<Rightarrow> dump_by_name urls s (rq_inputs r))"

subsection \<open>Equality of JSON values as Python values\<close>

text \<open>
  \<^verbatim>\<open>==\<close> on decoded JSON: dictionaries are compared by key, \<^verbatim>\<open>True\<close> equals \<^verbatim>\<open>1\<close>, and a float equals
  the integer it prints as (with a trailing \<^verbatim>\<open>.0\<close>). Floats are compared by their texts: negative zero, NaN
  and the equality of an integer with a float printed with an exponent are outside the model.
\<close>

fun number_text :: "json \<Rightarrow> string option" where
  "number_text (JInt i) = Some (show_int i @ ''.0'')"
| "number_text (JBool b) = Some (show_int (if b then 1 else 0) @ ''.0'')"
| "number_text (JFloat t) = Some t"
| "number_text _ = None"

fun py_equal :: "json \<Rightarrow> json \<Rightarrow> bool"
  and py_equal_items :: "json list \<Rightarrow> json list \<Rightarrow> bool"
  and py_equal_fields :: "(string \<times> json) list \<Rightarrow> (string \<times> json) list \<Rightarrow> bool" where
  "py_equal (JObj xs) b =
     (case b of JObj ys \<Rightarrow> length xs = length ys \<and> py_equal_fields xs ys | _ \<Rightarrow> False)"
| "py_equal (JArr xs) b = (case b of JArr ys \<Rightarrow> py_equal_items xs ys | _ \<Rightarrow> False)"
| "py_equal (JStr s) b = (b = JStr s)"
| "py_equal JNull b = (b = JNull)"
| "py_equal (JBool x) b = (number_text b = number_text (JBool x))"
| "py_equal (JInt x) b = (number_text b = number_text (JInt x))"
| "py_equal (JFloat x) b = (number_text b = Some x)"
| "py_equal_items [] ys = (ys = [])"
| "py_equal_items (x # xs) ys =
     (case ys of [] \<Rightarrow> False | y # ys' \<Rightarrow> py_equal x y \<and> py_equal_items xs ys')"
| "py_equal_fields [] ys = True"
| "py_equal_fields ((k, v) # xs) ys =
     ((case map_of ys k of None \<Rightarrow> False | Some w \<Rightarrow> py_equal v w) \<and> py_equal_fields xs ys)"

end
