(* ===== verification/Analysis_Result.thy ===== *)
theory Analysis_Result
  imports Analysis_Request
begin

section \<open>Analysis results\<close>

text \<open>
  \<^verbatim>\<open>domain/analysis_result.py\<close>, the \<^verbatim>\<open>AnalysisError\<close> of \<^verbatim>\<open>domain/analysis_error.py\<close> and
  \<^verbatim>\<open>validate_analysis_pair\<close> of \<^verbatim>\<open>domain/validation.py\<close>. The thirty-three result classes of the
  source differ in the literals of their status, type, chain and version and in the lengths of
  their lists; \<open>variant_accepts\<close> is their union.
\<close>

subsection \<open>Records\<close>

datatype analysis_status = AN_COMPLETE | AN_PARTIAL | AN_FAILED

datatype classification = CONFIRMED_FACT | EXTERNAL_CONTEXT | HEURISTIC | NOT_ASSESSED

datatype evidence_type = EVIDENCE_EVENT | EVIDENCE_CALL | EVIDENCE_STATE | EVIDENCE_CONTEXT

datatype source_role = ROLE_SCORING | ROLE_CONTEXT | ROLE_SUPPORTING

datatype execution_mode = MODE_LIVE | MODE_OFFLINE_REPLAY | MODE_FIXTURE_EXAMPLE

record result_item =
  ri_result_id :: string
  ri_result_type :: string
  ri_classification :: classification
  ri_value :: json
  ri_tool_requirement_ids :: "string list"
  ri_fixture_requirement_ids :: "string list"
  ri_evidence_refs :: "string list"

record raw_artifact =
  ra_artifact_uri :: string
  ra_sha256 :: "string option"
  ra_media_type :: "string option"
  ra_byte_length :: "int option"

record evidence_locator =
  el_chain_id :: "int option"
  el_block_number :: "int option"
  el_transaction_hash :: "string option"
  el_log_index :: "int option"
  el_trace_address :: "int list option"
  el_url :: "string option"

record evidence =
  ei_evidence_id :: string
  ei_evidence_type :: evidence_type
  ei_source_id :: string
  ei_source_record_ref :: string
  ei_method :: string
  ei_retrieved_at :: instant
  ei_locator :: evidence_locator
  ei_decoded :: json
  ei_raw_artifact :: raw_artifact

record source_record =
  sd_source_record_id :: string
  sd_source_id :: string
  sd_provider_id :: string
  sd_role :: source_role
  sd_required :: bool
  sd_capability :: string
  sd_endpoint_host :: string
  sd_retrieved_at :: instant
  sd_fallback_from :: "string option"

record warning_item =
  wi_warning_id :: string
  wi_code :: string
  wi_message :: string
  wi_related_result_ids :: "string list option"
  wi_related_evidence_ids :: "string list option"

record run_record =
  rn_tool_version :: string
  rn_execution_mode :: execution_mode
  rn_started_at :: instant
  rn_finished_at :: instant
  rn_cache_hits :: int
  rn_cache_misses :: int
  rn_retry_count :: int
  rn_fallback_count :: int
  rn_resumed :: bool
  rn_checkpoint_id :: "string option"

record export_file =
  xf_artifact_uri :: string
  xf_sha256 :: "string option"

record exports =
  xp_json :: export_file
  xp_markdown :: export_file
  xp_csv :: "export_file option"

record analysis_error =
  ae_error_id :: string
  ae_code :: error_code
  ae_message :: string
  ae_stage :: string
  ae_source_id :: "string option"
  ae_provider_id :: "string option"
  ae_retryable :: bool
  ae_attempt_count :: int
  ae_last_attempt_at :: "instant option"
  ae_related_evidence_ids :: "string list option"
  ae_details :: "json option"

record analysis_result =
  rs_schema_uri :: string
  rs_schema_version :: string
  rs_analysis_id :: string
  rs_analysis_type :: analysis_type
  rs_status :: analysis_status
  rs_chain_id :: int
  rs_results :: "result_item list"
  rs_evidence :: "evidence list"
  rs_sources :: "source_record list"
  rs_warnings :: "warning_item list"
  rs_errors :: "analysis_error list"
  rs_run :: run_record
  rs_exports :: exports

subsection \<open>Field constraints\<close>

abbreviation "source_record_id_ok \<equiv> id_pattern ''SRC-'' 2 127"
abbreviation "error_id_ok \<equiv> id_pattern ''ERR-'' 2 63"
abbreviation "warning_id_ok \<equiv> id_pattern ''WARN-'' 2 63"

definition requirement_ok :: "string list \<Rightarrow> string \<Rightarrow> bool" where
  "requirement_ok families s \<longleftrightarrow> list_ex (\<lambda>f. dashed_id_ok (''REQ-'' @ f @ ''-'') s) families"

definition tool_requirement_ok :: "string \<Rightarrow> bool" where
  "tool_requirement_ok = requirement_ok [''COM'', ''P0'', ''V1'', ''NFR'']"

definition fixture_requirement_ok :: "string \<Rightarrow> bool" where
  "fixture_requirement_ok = requirement_ok
     [''DEX'', ''AUTH'', ''FREEZE'', ''BASIC'', ''TOKEN'', ''NFT721'', ''NFT1155'', ''PROXY'', ''FLOW'',
      ''INTEL'', ''BRIDGE'', ''BTC'', ''CEX'', ''MIX'', ''LEND'', ''CASE'']"

definition result_item_ok :: "result_item \<Rightarrow> bool" where
  "result_item_ok r \<longleftrightarrow>
     result_id_ok (ri_result_id r) \<and> snake_pattern (ri_result_type r)
     \<and> (case ri_value r of JObj (_ # _) \<Rightarrow> True | _ \<Rightarrow> False)
     \<and> ri_tool_requirement_ids r \<noteq> [] \<and> distinct (ri_tool_requirement_ids r)
     \<and> list_all tool_requirement_ok (ri_tool_requirement_ids r)
     \<and> distinct (ri_fixture_requirement_ids r)
     \<and> list_all fixture_requirement_ok (ri_fixture_requirement_ids r)
     \<and> ri_evidence_refs r \<noteq> [] \<and> distinct (ri_evidence_refs r)
     \<and> list_all evidence_id_ok (ri_evidence_refs r)"

definition raw_artifact_ok :: "raw_artifact \<Rightarrow> bool" where
  "raw_artifact_ok a \<longleftrightarrow>
     ra_artifact_uri a \<noteq> [] \<and> optional_ok sha256_pattern (ra_sha256 a)
     \<and> optional_ok (\<lambda>s. s \<noteq> []) (ra_media_type a) \<and> optional_ok (\<lambda>n. 0 \<le> n) (ra_byte_length a)"

definition locator_is_not_empty :: "evidence_locator \<Rightarrow> contract_error + unit" where
  "locator_is_not_empty l =
     raise_if
       (el_chain_id l = None \<and> el_block_number l = None \<and> el_transaction_hash l = None
        \<and> el_log_index l = None \<and> el_trace_address l = None \<and> el_url l = None)
       (schema_invalid ''locator must contain at least one property'')"

definition locator_ok :: "(string \<Rightarrow> string option) \<Rightarrow> evidence_locator \<Rightarrow> bool" where
  "locator_ok urls l \<longleftrightarrow>
     optional_ok (\<lambda>n. 0 \<le> n) (el_chain_id l) \<and> optional_ok (\<lambda>n. 0 \<le> n) (el_block_number l)
     \<and> optional_ok (hex_text_ok 64) (el_transaction_hash l) \<and> optional_ok (\<lambda>n. 0 \<le> n) (el_log_index l)
     \<and> optional_ok (list_all (\<lambda>n. 0 \<le> n)) (el_trace_address l)
     \<and> optional_ok (\<lambda>u. urls u \<noteq> None) (el_url l) \<and> locator_is_not_empty l = Inr ()"

definition evidence_ok :: "(string \<Rightarrow> string option) \<Rightarrow> evidence \<Rightarrow> bool" where
  "evidence_ok urls e \<longleftrightarrow>
     evidence_id_ok (ei_evidence_id e) \<and> source_id_ok (ei_source_id e)
     \<and> source_record_id_ok (ei_source_record_ref e) \<and> ei_method e \<noteq> []
     \<and> locator_ok urls (ei_locator e) \<and> is_json_object (ei_decoded e)
     \<and> raw_artifact_ok (ei_raw_artifact e)"

definition source_record_ok :: "source_record \<Rightarrow> bool" where
  "source_record_ok s \<longleftrightarrow>
     source_record_id_ok (sd_source_record_id s) \<and> source_id_ok (sd_source_id s)
     \<and> provider_pattern (sd_provider_id s) \<and> sd_capability s \<noteq> [] \<and> sd_endpoint_host s \<noteq> []
     \<and> optional_ok source_record_id_ok (sd_fallback_from s)"

definition warning_ok :: "warning_item \<Rightarrow> bool" where
  "warning_ok w \<longleftrightarrow>
     warning_id_ok (wi_warning_id w) \<and> snake_pattern (wi_code w) \<and> wi_message w \<noteq> []
     \<and> optional_ok (\<lambda>xs. distinct xs \<and> list_all result_id_ok xs) (wi_related_result_ids w)
     \<and> optional_ok (\<lambda>xs. distinct xs \<and> list_all evidence_id_ok xs) (wi_related_evidence_ids w)"

definition finish_is_not_before_start :: "run_record \<Rightarrow> contract_error + unit" where
  "finish_is_not_before_start r =
     raise_if (rn_finished_at r < rn_started_at r)
       (schema_invalid ''finished_at must not be before started_at'')"

definition run_ok :: "run_record \<Rightarrow> bool" where
  "run_ok r \<longleftrightarrow>
     rn_tool_version r \<noteq> [] \<and> 0 \<le> rn_cache_hits r \<and> 0 \<le> rn_cache_misses r \<and> 0 \<le> rn_retry_count r
     \<and> 0 \<le> rn_fallback_count r \<and> optional_ok (\<lambda>s. s \<noteq> []) (rn_checkpoint_id r)
     \<and> finish_is_not_before_start r = Inr ()"

definition export_file_ok :: "export_file \<Rightarrow> bool" where
  "export_file_ok f \<longleftrightarrow> xf_artifact_uri f \<noteq> [] \<and> optional_ok sha256_pattern (xf_sha256 f)"

definition exports_ok :: "exports \<Rightarrow> bool" where
  "exports_ok x \<longleftrightarrow>
     export_file_ok (xp_json x) \<and> export_file_ok (xp_markdown x) \<and> optional_ok export_file_ok (xp_csv x)"

definition analysis_error_ok :: "analysis_error \<Rightarrow> bool" where
  "analysis_error_ok e \<longleftrightarrow>
     error_id_ok (ae_error_id e) \<and> 1 \<le> length (ae_message e) \<and> length (ae_message e) \<le> 1000
     \<and> snake_pattern (ae_stage e) \<and> optional_ok source_id_ok (ae_source_id e)
     \<and> optional_ok provider_pattern (ae_provider_id e) \<and> 0 \<le> ae_attempt_count e
     \<and> optional_ok (\<lambda>xs. distinct xs \<and> list_all evidence_id_ok xs) (ae_related_evidence_ids e)
     \<and> optional_ok is_json_object (ae_details e)"

subsection \<open>Result classes\<close>

fun status_lengths_ok :: "analysis_status \<Rightarrow> analysis_result \<Rightarrow> bool" where
  "status_lengths_ok AN_COMPLETE r \<longleftrightarrow>
     rs_results r \<noteq> [] \<and> rs_evidence r \<noteq> [] \<and> rs_sources r \<noteq> [] \<and> rs_errors r = []"
| "status_lengths_ok AN_PARTIAL r \<longleftrightarrow>
     rs_results r \<noteq> [] \<and> rs_evidence r \<noteq> [] \<and> rs_sources r \<noteq> [] \<and> rs_errors r \<noteq> []"
| "status_lengths_ok AN_FAILED r \<longleftrightarrow> rs_errors r \<noteq> []"

text \<open>The version and chain literals of the result classes, by analysis type.\<close>

fun result_literals :: "analysis_type \<Rightarrow> string \<times> int option" where
  "result_literals DEX_SWAP = (''0.1'', Some 1)"
| "result_literals AUTH_CONSUMPTION = (''0.1'', Some 1)"
| "result_literals ADDRESS_FREEZE = (''0.1'', Some 1)"
| "result_literals EVM_CORE = (''0.2'', Some 1)"
| "result_literals EVM_SPECIAL = (''0.2'', Some 1)"
| "result_literals FLOW_PATH = (''0.2'', Some 1)"
| "result_literals INTEL_CONTEXT = (''0.2'', Some 1)"
| "result_literals BRIDGE_TRANSFER = (''0.2'', Some 1)"
| "result_literals BITCOIN_UTXO = (''0.2'', Some 0)"
| "result_literals CEX_CLUSTER = (''0.2'', None)"
| "result_literals MIXER_FLOW = (''0.2'', None)"
| "result_literals DEFI_LENDING = (''0.2'', None)"
| "result_literals CASE_RECONCILIATION = (''0.2'', Some 1)"

lemma result_literals_match_requests:
  "result_literals t = (schema_version_literal t, chain_id_literal t)"
  by (cases t) (simp_all add: schema_version_literal_def)

definition variant_accepts :: "(string \<Rightarrow> string option) \<Rightarrow> analysis_result \<Rightarrow> bool" where
  "variant_accepts urls r \<longleftrightarrow>
     ends_with ''analysis-result.schema.json'' (rs_schema_uri r)
     \<and> analysis_id_ok (rs_analysis_id r)
     \<and> rs_schema_version r = fst (result_literals (rs_analysis_type r))
     \<and> optional_ok (\<lambda>c. rs_chain_id r = c) (snd (result_literals (rs_analysis_type r)))
     \<and> list_all result_item_ok (rs_results r) \<and> list_all (evidence_ok urls) (rs_evidence r)
     \<and> list_all source_record_ok (rs_sources r) \<and> list_all warning_ok (rs_warnings r)
     \<and> list_all analysis_error_ok (rs_errors r) \<and> run_ok (rs_run r) \<and> exports_ok (rs_exports r)
     \<and> status_lengths_ok (rs_status r) r"

text \<open>
  \<^verbatim>\<open>raw_values_are_valid\<close> walks the whole document before the fields are parsed. No declared field
  name ends in \<^verbatim>\<open>_raw\<close>, so what it checks are the three free-form objects.
\<close>

definition raw_values_are_valid :: "analysis_result \<Rightarrow> contract_error + unit" where
  "raw_values_are_valid r =
     all_checks
       [for_each (\<lambda>i. raw_values_are_uint256 (ri_value i)) (rs_results r),
        for_each (\<lambda>e. raw_values_are_uint256 (ei_decoded e)) (rs_evidence r),
        for_each (\<lambda>e. case ae_details e of None \<Rightarrow> Inr () | Some d \<Rightarrow> raw_values_are_uint256 d)
          (rs_errors r)]"

subsection \<open>References\<close>

definition require_unique :: "string list \<Rightarrow> string \<Rightarrow> contract_error + unit" where
  "require_unique ids label =
     raise_if (\<not> distinct ids) (schema_invalid (label @ '' values must be unique''))"

definition require_known :: "string list \<Rightarrow> string set \<Rightarrow> string \<Rightarrow> contract_error + unit" where
  "require_known references known owner =
     raise_if (missing_references references known \<noteq> {})
       (schema_invalid (owner @ '' contains a missing reference''))"

definition optional_known :: "string list option \<Rightarrow> string set \<Rightarrow> string \<Rightarrow> contract_error + unit" where
  "optional_known references known owner =
     (case references of None \<Rightarrow> Inr () | Some refs \<Rightarrow> require_known refs known owner)"

definition listed :: "string list option \<Rightarrow> string list" where
  "listed references = (case references of None \<Rightarrow> [] | Some refs \<Rightarrow> refs)"

definition referenced_evidence_ids :: "analysis_result \<Rightarrow> string set" where
  "referenced_evidence_ids r =
     set (concat (map ri_evidence_refs (rs_results r)))
     \<union> set (concat (map (listed \<circ> wi_related_evidence_ids) (rs_warnings r)))
     \<union> set (concat (map (listed \<circ> ae_related_evidence_ids) (rs_errors r)))"

definition result_references_are_valid :: "analysis_result \<Rightarrow> contract_error + unit" where
  "result_references_are_valid r =
     (let result_ids = map ri_result_id (rs_results r);
          evidence_ids = map ei_evidence_id (rs_evidence r);
          source_by_record = index_by sd_source_record_id (rs_sources r) in
      all_checks
       [require_unique result_ids ''result_id'', require_unique evidence_ids ''evidence_id'',
        require_unique (map sd_source_record_id (rs_sources r)) ''source_record_id'',
        require_unique (map wi_warning_id (rs_warnings r)) ''warning_id'',
        require_unique (map ae_error_id (rs_errors r)) ''error_id'',
        for_each (\<lambda>i. require_known (ri_evidence_refs i) (set evidence_ids) (ri_result_id i)) (rs_results r),
        for_each
          (\<lambda>w. then_check
             (optional_known (wi_related_result_ids w) (set result_ids) (wi_warning_id w))
             (optional_known (wi_related_evidence_ids w) (set evidence_ids) (wi_warning_id w)))
          (rs_warnings r),
        for_each (\<lambda>e. optional_known (ae_related_evidence_ids e) (set evidence_ids) (ae_error_id e))
          (rs_errors r),
        raise_if (set evidence_ids - referenced_evidence_ids r \<noteq> {})
          (schema_invalid ''every evidence item must be referenced''),
        for_each
          (\<lambda>e. raise_if
             (case source_by_record (ei_source_record_ref e) of
                None \<Rightarrow> True | Some s \<Rightarrow> sd_source_id s \<noteq> ei_source_id e)
             (schema_invalid ''evidence must reference a source record with the same source_id''))
          (rs_evidence r),
        raise_if
          (set (map sd_source_record_id (rs_sources r)) - set (map ei_source_record_ref (rs_evidence r)) \<noteq> {})
          (schema_invalid ''every source record must be referenced by evidence''),
        for_each
          (\<lambda>s. raise_if
             (case sd_fallback_from s of
                None \<Rightarrow> False | Some f \<Rightarrow> f \<notin> set (map sd_source_record_id (rs_sources r)))
             (schema_invalid ''fallback_from must reference an existing source record''))
          (rs_sources r)])"

definition validate_analysis_result ::
    "(string \<Rightarrow> string option) \<Rightarrow> analysis_result \<Rightarrow> contract_error + unit" where
  "validate_analysis_result urls r =
     all_checks
       [raw_values_are_valid r, raise_if (\<not> variant_accepts urls r) field_errors,
        result_references_are_valid r]"

definition validate_analysis_pair ::
    "(string \<Rightarrow> string option) \<Rightarrow> analysis_request \<Rightarrow> analysis_result \<Rightarrow> contract_error + unit" where
  "validate_analysis_pair urls request result =
     all_checks
       [validate_request urls request,
        validate_analysis_result urls result,
        raise_if
          (rq_analysis_id request \<noteq> rs_analysis_id result
           \<or> rq_analysis_type request \<noteq> rs_analysis_type result
           \<or> rq_chain_id request \<noteq> rs_chain_id result
           \<or> rq_schema_version request \<noteq> rs_schema_version result)
          (schema_invalid ''request and result envelopes must match''),
        raise_if
          (\<not> set (map sd_source_id (rs_sources result))
              \<subseteq> set (po_allowed_source_ids (rq_source_policy request)))
          (schema_invalid ''result contains a source outside allowed_source_ids'')]"

end
