(* ===== verification/Evidence_Worker.thy ===== *)
theory Evidence_Worker
  imports Analysis_Result Scheduler Operations_Bundle
begin

section \<open>The evidence worker\<close>

text \<open>
  \<^verbatim>\<open>application/evidence_worker.py\<close>, with the provenance models of \<^verbatim>\<open>domain/input_source.py\<close> it reads:
  the scope policy in front of an analysis adapter, the integrity checks on the approved replay,
  the checks on the adapter's response, and the executor that plugs the worker into the scheduler.

  The analysis adapter is a port (\<open>ee_analyze\<close>, \<open>None\<close> when it raises). An execution returns the
  adapter calls it made beside its result; \<open>Inl\<close> is an exception the code does not catch: a worker
  outcome its constructor rejects, or a record the contract rejects.
\<close>

subsection \<open>Input provenance\<close>

datatype input_mode = EXTERNAL_RPC | CONTEST_RPC | PROVIDED_ARTIFACT

datatype chain_scope = SCOPE_EVM | SCOPE_BITCOIN | SCOPE_NON_EVM | SCOPE_CROSS_CHAIN

fun input_mode_value :: "input_mode \<Rightarrow> string" where
  "input_mode_value EXTERNAL_RPC = ''external_rpc''"
| "input_mode_value CONTEST_RPC = ''contest_rpc''"
| "input_mode_value PROVIDED_ARTIFACT = ''provided_artifact''"

fun chain_scope_value :: "chain_scope \<Rightarrow> string" where
  "chain_scope_value SCOPE_EVM = ''evm''"
| "chain_scope_value SCOPE_BITCOIN = ''bitcoin''"
| "chain_scope_value SCOPE_NON_EVM = ''non_evm''"
| "chain_scope_value SCOPE_CROSS_CHAIN = ''cross_chain''"

record normalized_record =
  nr_record_locator :: string
  nr_record_type :: string
  nr_data :: json
  nr_record_sha256 :: string

definition normalized_record_init :: "normalized_record \<Rightarrow> string + normalized_record" where
  "normalized_record_init r =
     and_then
       (all_checks
         [raise_if (nr_record_locator r = [] \<or> nr_record_type r = [])
            ''record locator and type must not be empty'',
          raise_if (\<not> sha256_pattern (nr_record_sha256 r)) ''record_sha256 must be a lowercase SHA-256'',
          raise_if (nr_data r = JNull) ''normalized evidence data must not be null''])
       (\<lambda>_. Inr r)"

record normalized_bundle =
  nb_input_mode :: input_mode
  nb_chain_scope :: chain_scope
  nb_source_id :: string
  nb_provider_id :: string
  nb_media_type :: string
  nb_raw_sha256 :: string
  nb_byte_length :: int
  nb_observed_at :: instant
  nb_records :: "normalized_record list"

definition normalized_bundle_init :: "normalized_bundle \<Rightarrow> string + normalized_bundle" where
  "normalized_bundle_init b =
     and_then
       (all_checks
         [raise_if (\<not> source_id_ok (nb_source_id b)) ''source_id must be a DS-* identifier'',
          raise_if (\<not> provider_pattern (nb_provider_id b)) ''provider_id is invalid'',
          raise_if (nb_media_type b = []) ''media_type must not be empty'',
          raise_if (\<not> sha256_pattern (nb_raw_sha256 b)) ''raw_sha256 must be a lowercase SHA-256'',
          raise_if (nb_byte_length b \<le> 0) ''byte_length must be positive'',
          raise_if (nb_records b = []) ''normalized evidence must contain at least one record'',
          raise_if (\<not> distinct (map nr_record_locator (nb_records b))) ''record locators must be unique''])
       (\<lambda>_. Inr b)"

record input_envelope =
  ie_bundle :: normalized_bundle
  ie_raw_artifact_uri :: string

definition input_envelope_init :: "input_envelope \<Rightarrow> string + input_envelope" where
  "input_envelope_init e =
     and_then
       (raise_if (ie_raw_artifact_uri e \<noteq> ''artifact://sha256/'' @ nb_raw_sha256 (ie_bundle e))
         ''raw artifact URI does not match the normalized input'')
       (\<lambda>_. Inr e)"

definition envelope_details :: "input_envelope \<Rightarrow> json" where
  "envelope_details e =
     (let b = ie_bundle e in
      JObj
       [(''input_mode'', JStr (input_mode_value (nb_input_mode b))),
        (''chain_scope'', JStr (chain_scope_value (nb_chain_scope b))),
        (''source_id'', JStr (nb_source_id b)), (''provider_id'', JStr (nb_provider_id b)),
        (''media_type'', JStr (nb_media_type b)), (''raw_sha256'', JStr (nb_raw_sha256 b)),
        (''record_count'', JInt (int (length (nb_records b)))),
        (''record_locators'', JArr (map (JStr \<circ> nr_record_locator) (nb_records b))),
        (''record_sha256s'', JArr (map (JStr \<circ> nr_record_sha256) (nb_records b)))])"

subsection \<open>Commands, ports and executions\<close>

record approved_replay =
  rb_body :: bytes
  rb_sha256 :: string

record evidence_command =
  ec_manifest :: competition_manifest
  ec_problem :: problem_record
  ec_plan :: plan_hypothesis
  ec_job :: job_record
  ec_request :: analysis_request
  ec_approved_replay :: approved_replay
  ec_worker_id :: string
  ec_event_id :: string
  ec_error_id :: string
  ec_input_evidence :: "input_envelope option"

record evidence_response =
  er_result :: analysis_result
  er_export_uris :: "string list"
  er_request_artifact_uri :: string
  er_replay_artifact_uri :: string
  er_reused :: bool

datatype analyze_call = Analyze_Call string analysis_request bytes string

record evidence_env =
  ee_analyze :: "string \<Rightarrow> analysis_request \<Rightarrow> bytes \<Rightarrow> string \<Rightarrow> evidence_response option"
  ee_forbidden :: "string list"
  ee_clock :: instant
  ee_urls :: "string \<Rightarrow> string option"

record evidence_execution =
  ex_worker_outcome :: worker_outcome
  ex_result :: "analysis_result option"
  ex_event :: operation_event
  ex_error :: "operation_error option"
  ex_export_uris :: "string list"
  ex_request_artifact_uri :: "string option"
  ex_replay_artifact_uri :: "string option"
  ex_adapter_called :: bool
  ex_reused :: bool

datatype worker_error = Outcome_Rejected scheduler_error | Record_Rejected contract_error

subsection \<open>Scope policy\<close>

definition worker_policy_error :: "evidence_env \<Rightarrow> evidence_command \<Rightarrow> operation_error_code option" where
  "worker_policy_error env command =
     (let manifest = ec_manifest command; problem = ec_problem command; plan = ec_plan command;
          job = ec_job command; request = ec_request command in
      if mf_status manifest \<noteq> COMP_ACTIVE then Some INVALID_OPERATIONS_INPUT
      else if mf_competition_id manifest \<noteq> pr_competition_id problem then Some INVALID_OPERATIONS_INPUT
      else if pr_status problem \<notin> {PROB_QUEUED, PROB_RUNNING, PROB_PARTIAL}
        then Some INVALID_OPERATIONS_INPUT
      else if pr_problem_id problem \<noteq> pl_problem_id plan then Some INVALID_OPERATIONS_INPUT
      else if pr_active_plan_id problem \<noteq> Some (pl_plan_id plan) then Some INVALID_OPERATIONS_INPUT
      else if pr_problem_id problem \<noteq> jb_problem_id job then Some INVALID_OPERATIONS_INPUT
      else if pl_plan_id plan \<noteq> jb_plan_id job then Some INVALID_OPERATIONS_INPUT
      else if pl_status plan \<noteq> PLAN_APPROVED then Some INVALID_OPERATIONS_INPUT
      else if jb_role job \<noteq> EVIDENCE then Some INVALID_OPERATIONS_INPUT
      else if jb_status job \<notin> {JOB_QUEUED, JOB_RUNNING} then Some INVALID_OPERATIONS_INPUT
      else if jb_analysis_id job = None then Some INVALID_OPERATIONS_INPUT
      else if jb_analysis_id job \<noteq> Some (rq_analysis_id request) then Some INVALID_OPERATIONS_INPUT
      else if jb_assigned_worker_id job \<noteq> None \<and> jb_assigned_worker_id job \<noteq> Some (ec_worker_id command)
        then Some INVALID_OPERATIONS_INPUT
      else if (case find (\<lambda>l. lf_leaf_job_id l = jb_job_id job) (pl_leaf_job_specs plan) of
                 None \<Rightarrow> True
               | Some leaf \<Rightarrow>
                   lf_role leaf \<noteq> EVIDENCE \<or> lf_analysis_type leaf \<noteq> rq_analysis_type request
                   \<or> \<not> py_equal (lf_inputs_projection leaf) (dump_inputs (ee_urls env) request))
        then Some INVALID_OPERATIONS_INPUT
      else if po_rule_status (rq_source_policy request) = STATUS_RESTRICTED then Some RULE_RESTRICTED
      else if \<not> po_offline_mode (rq_source_policy request) then Some RULE_RESTRICTED
      else None)"

subsection \<open>Integrity checks\<close>

definition validate_replay :: "evidence_env \<Rightarrow> approved_replay \<Rightarrow> string + unit" where
  "validate_replay env replay =
     all_checks
       [raise_if
          (length (rb_sha256 replay) \<noteq> 64 \<or> list_ex (\<lambda>c. c \<notin> set ''0123456789abcdef'') (rb_sha256 replay))
          ''approved replay sha256 is invalid'',
        raise_if (sha256_hex (rb_body replay) \<noteq> rb_sha256 replay) ''approved replay hash mismatch'',
        (case check_bytes (ee_forbidden env) (rb_body replay) of
           Inl _ \<Rightarrow> Inl ''sensitive data'' | Inr u \<Rightarrow> Inr u)]"

definition validate_input_evidence :: "evidence_command \<Rightarrow> string + unit" where
  "validate_input_evidence command =
     (case ec_input_evidence command of
        None \<Rightarrow> Inr ()
      | Some envelope \<Rightarrow>
          then_check
            (raise_if (nb_chain_scope (ie_bundle envelope) \<noteq> SCOPE_EVM)
              ''input evidence chain scope is unsupported'')
            (raise_if (nb_raw_sha256 (ie_bundle envelope) \<noteq> rb_sha256 (ec_approved_replay command))
              ''input evidence does not match the approved replay''))"

definition validate_evidence_response ::
    "evidence_env \<Rightarrow> evidence_command \<Rightarrow> evidence_response \<Rightarrow> string + unit" where
  "validate_evidence_response env command response =
     (let request = ec_request command; result = er_result response;
          evidence_by_id = set (map ei_evidence_id (rs_evidence result));
          source_by_id = set (map sd_source_record_id (rs_sources result)) in
      all_checks
       [(case validate_analysis_pair (ee_urls env) request result of
           Inl _ \<Rightarrow> Inl ''contract violation'' | Inr u \<Rightarrow> Inr u),
        raise_if (rs_analysis_id result \<noteq> rq_analysis_id request)
          ''evidence adapter returned another analysis_id'',
        raise_if (rs_analysis_type result \<noteq> rq_analysis_type request)
          ''evidence adapter returned another analysis_type'',
        raise_if (rs_chain_id result \<noteq> rq_chain_id request) ''evidence adapter returned another chain_id'',
        raise_if (list_ex (\<lambda>i. set (ri_evidence_refs i) - evidence_by_id \<noteq> {}) (rs_results result))
          ''result references missing evidence'',
        raise_if (list_ex (\<lambda>e. ei_source_record_ref e \<notin> source_by_id) (rs_evidence result))
          ''evidence references a missing source'',
        raise_if (\<not> starts_with ''artifact://sha256/'' (er_request_artifact_uri response))
          ''request artifact URI is invalid'',
        raise_if (\<not> starts_with ''artifact://sha256/'' (er_replay_artifact_uri response))
          ''replay artifact URI is invalid'',
        raise_if
          (length (er_export_uris response) \<noteq> 2
           \<or> list_ex (\<lambda>u. \<not> starts_with ''artifact://sha256/'' u) (er_export_uris response))
          ''result export URI is invalid'',
        raise_if (rs_status result \<noteq> AN_FAILED \<and> rs_results result = [])
          ''non-failed analysis must contain a result''])"

subsection \<open>Events, errors and executions\<close>

fun error_code_value :: "error_code \<Rightarrow> string" where
  "error_code_value ERR_INVALID_INPUT = ''invalid_input''"
| "error_code_value ERR_UNSUPPORTED_CHAIN = ''unsupported_chain''"
| "error_code_value ERR_SOURCE_UNAVAILABLE = ''source_unavailable''"
| "error_code_value ERR_RATE_LIMITED = ''rate_limited''"
| "error_code_value ERR_ARCHIVE_REQUIRED = ''archive_required''"
| "error_code_value ERR_TRACE_UNAVAILABLE = ''trace_unavailable''"
| "error_code_value ERR_DECODE_FAILED = ''decode_failed''"
| "error_code_value ERR_EVIDENCE_INCOMPLETE = ''evidence_incomplete''"
| "error_code_value ERR_RECONCILIATION_FAILED = ''reconciliation_failed''"
| "error_code_value ERR_SCHEMA_INVALID = ''schema_invalid''"
| "error_code_value ERR_RULE_RESTRICTED = ''rule_restricted''"

definition worker_event ::
    "evidence_env \<Rightarrow> evidence_command \<Rightarrow> string \<Rightarrow> job_status \<Rightarrow> json \<Rightarrow> worker_error + operation_event" where
  "worker_event env command event_type to_status details =
     (let event =
        \<lparr>ev_event_id = ec_event_id command, ev_competition_id = mf_competition_id (ec_manifest command),
         ev_problem_id = Some (pr_problem_id (ec_problem command)), ev_entity_type = ''job'',
         ev_entity_id = jb_job_id (ec_job command), ev_event_type = event_type, ev_actor_type = WORKER,
         ev_actor_id = ec_worker_id command,
         ev_from_status = Some (job_status_value (jb_status (ec_job command))),
         ev_to_status = Some (job_status_value to_status), ev_safe_details_json = details,
         ev_created_at = ee_clock env\<rparr> in
      case validate_event event of Inl e \<Rightarrow> Inl (Record_Rejected e) | Inr _ \<Rightarrow> Inr event)"

definition worker_error_record ::
    "evidence_command \<Rightarrow> operation_error_code \<Rightarrow> string \<Rightarrow> worker_error + operation_error" where
  "worker_error_record command code reason =
     (let stage = (if code = RULE_RESTRICTED then STAGE_AI_MODE_POLICY
                   else if code = INVALID_OPERATIONS_INPUT then STAGE_OPERATIONS_INPUT
                   else STAGE_EVIDENCE_WORKER);
          err =
            \<lparr>oe_error_id = ec_error_id command, oe_code = code,
             oe_message = ''Evidence worker execution was rejected or failed.'', oe_stage = stage,
             oe_retryable = False, oe_problem_id = Some (pr_problem_id (ec_problem command)),
             oe_job_id = Some (jb_job_id (ec_job command)),
             oe_details = JObj [(''reason'', JStr reason)]\<rparr> in
      case validate_error err of Inl e \<Rightarrow> Inl (Record_Rejected e) | Inr _ \<Rightarrow> Inr err)"

definition make_outcome :: "worker_outcome \<Rightarrow> worker_error + worker_outcome" where
  "make_outcome w =
     (case worker_outcome_init w of Inl e \<Rightarrow> Inl (Outcome_Rejected e) | Inr x \<Rightarrow> Inr x)"

definition failed_outcome :: "operation_error_code \<Rightarrow> worker_outcome" where
  "failed_outcome code =
     \<lparr>wo_status = JOB_FAILED, wo_error_code = Some (operation_error_code_value code),
      wo_checkpoint_ref = None, wo_retryable = False\<rparr>"

text \<open>The common shape of \<^verbatim>\<open>_blocked\<close> and \<^verbatim>\<open>_failed\<close>.\<close>

definition rejected_execution ::
    "evidence_env \<Rightarrow> evidence_command \<Rightarrow> operation_error_code \<Rightarrow> string \<Rightarrow> string \<Rightarrow> bool
      \<Rightarrow> worker_error + evidence_execution" where
  "rejected_execution env command code reason event_type called =
     and_then (worker_error_record command code reason) (\<lambda>err.
     and_then (make_outcome (failed_outcome code)) (\<lambda>outcome.
     and_then
       (worker_event env command event_type JOB_FAILED
         (JObj [(''error_id'', JStr (oe_error_id err)), (''reason'', JStr reason)])) (\<lambda>event.
     Inr \<lparr>ex_worker_outcome = outcome, ex_result = None, ex_event = event, ex_error = Some err,
          ex_export_uris = [], ex_request_artifact_uri = None, ex_replay_artifact_uri = None,
          ex_adapter_called = called, ex_reused = False\<rparr>)))"

definition worker_blocked ::
    "evidence_env \<Rightarrow> evidence_command \<Rightarrow> operation_error_code \<Rightarrow> worker_error + evidence_execution" where
  "worker_blocked env command code =
     rejected_execution env command code (operation_error_code_value code) ''evidence_blocked'' False"

definition worker_failed ::
    "evidence_env \<Rightarrow> evidence_command \<Rightarrow> string \<Rightarrow> bool \<Rightarrow> worker_error + evidence_execution" where
  "worker_failed env command reason called =
     rejected_execution env command EVIDENCE_WORKER_FAILED reason ''evidence_failed'' called"

fun status_map :: "analysis_status \<Rightarrow> job_status" where
  "status_map AN_COMPLETE = JOB_COMPLETE"
| "status_map AN_PARTIAL = JOB_PARTIAL"
| "status_map AN_FAILED = JOB_FAILED"

definition completed_details :: "evidence_command \<Rightarrow> evidence_response \<Rightarrow> (string \<times> json) list" where
  "completed_details command response =
     (let result = er_result response in
      [(''analysis_id'', JStr (rs_analysis_id result)),
       (''result_ids'', JArr (map (JStr \<circ> ri_result_id) (rs_results result))),
       (''evidence_ids'', JArr (map (JStr \<circ> ei_evidence_id) (rs_evidence result))),
       (''source_record_ids'', JArr (map (JStr \<circ> sd_source_record_id) (rs_sources result))),
       (''request_artifact_uri'', JStr (er_request_artifact_uri response)),
       (''replay_artifact_uri'', JStr (er_replay_artifact_uri response)),
       (''export_uris'', JArr (map JStr (er_export_uris response))),
       (''reused'', JBool (er_reused response))]
      @ (case ec_input_evidence command of
           None \<Rightarrow> [] | Some envelope \<Rightarrow> [(''input_evidence'', envelope_details envelope)]))"

definition completed_outcome :: "analysis_result \<Rightarrow> worker_outcome" where
  "completed_outcome result =
     \<lparr>wo_status = status_map (rs_status result),
      wo_error_code = (case rs_errors result of [] \<Rightarrow> None | e # _ \<Rightarrow> Some (error_code_value (ae_code e))),
      wo_checkpoint_ref = rn_checkpoint_id (rs_run result),
      wo_retryable = (case rs_errors result of [] \<Rightarrow> False | e # _ \<Rightarrow> ae_retryable e)\<rparr>"

definition worker_completed ::
    "evidence_env \<Rightarrow> evidence_command \<Rightarrow> evidence_response \<Rightarrow> worker_error + evidence_execution" where
  "worker_completed env command response =
     (let result = er_result response; job_status = status_map (rs_status result) in
      and_then (make_outcome (completed_outcome result)) (\<lambda>outcome.
      and_then
        (worker_event env command (''evidence_'' @ job_status_value job_status) job_status
          (JObj (completed_details command response))) (\<lambda>event.
      Inr \<lparr>ex_worker_outcome = outcome, ex_result = Some result, ex_event = event, ex_error = None,
           ex_export_uris = er_export_uris response,
           ex_request_artifact_uri = Some (er_request_artifact_uri response),
           ex_replay_artifact_uri = Some (er_replay_artifact_uri response),
           ex_adapter_called = True, ex_reused = er_reused response\<rparr>)))"

subsection \<open>Executing a command\<close>

definition workspace_key :: "evidence_command \<Rightarrow> string" where
  "workspace_key command = pr_problem_id (ec_problem command) @ ''/'' @ jb_job_id (ec_job command)"

definition worker_execute ::
    "evidence_env \<Rightarrow> evidence_command \<Rightarrow> (worker_error + evidence_execution) \<times> analyze_call list" where
  "worker_execute env command =
     (case worker_policy_error env command of
        Some code \<Rightarrow> (worker_blocked env command code, [])
      | None \<Rightarrow>
          if \<not> is_ok (then_check (validate_replay env (ec_approved_replay command))
                       (validate_input_evidence command))
          then (worker_failed env command ''approved_replay_rejected'' False, [])
          else
            let key = workspace_key command; request = ec_request command;
                body = rb_body (ec_approved_replay command); sha = rb_sha256 (ec_approved_replay command);
                call = Analyze_Call key request body sha in
            (case ee_analyze env key request body sha of
               None \<Rightarrow> (worker_failed env command ''analysis_adapter_failed'' True, [call])
             | Some response \<Rightarrow>
                 if \<not> is_ok (validate_evidence_response env command response)
                 then (worker_failed env command ''analysis_response_rejected'' True, [call])
                 else (worker_completed env command response, [call])))"

subsection \<open>The queue executor\<close>

record queue_executor =
  qe_commands :: "(string, evidence_command) dict"
  qe_executions :: "(string, evidence_execution) dict"

definition queue_executor_init :: "(string, evidence_command) dict \<Rightarrow> queue_executor" where
  "queue_executor_init commands = \<lparr>qe_commands = commands, qe_executions = []\<rparr>"

definition queue_executor_call ::
    "evidence_env \<Rightarrow> queue_executor \<Rightarrow> job_record \<Rightarrow> executor_outcome \<times> queue_executor \<times> analyze_call list" where
  "queue_executor_call env q job =
     (case map_of (qe_commands q) (jb_job_id job) of
        None \<Rightarrow> (Returned (failed_outcome INVALID_OPERATIONS_INPUT), q, [])
      | Some command \<Rightarrow>
          if ec_job command \<noteq> job then (Returned (failed_outcome INVALID_OPERATIONS_INPUT), q, [])
          else
            let (r, calls) = worker_execute env command in
            (case r of
               Inl _ \<Rightarrow> (Executor_Raised, q, calls)
             | Inr execution \<Rightarrow>
                 (Returned (ex_worker_outcome execution),
                  q\<lparr>qe_executions := dict_set (jb_job_id job) execution (qe_executions q)\<rparr>, calls)))"

definition execution_for :: "queue_executor \<Rightarrow> string \<Rightarrow> evidence_execution option" where
  "execution_for q job_id = map_of (qe_executions q) job_id"

end
