(* ===== verification/Evidence_Properties.thy ===== *)
theory Evidence_Properties
  imports Evidence_Worker Planner_Properties
begin

section \<open>Properties of the evidence worker\<close>

text \<open>
  What the scope policy and the integrity checks let through, what a returned result guarantees,
  when an execution reports at all, and the one case in which a valid partial result is lost.
\<close>

subsection \<open>Safe details\<close>

lemma safe_text_items [simp]:
  "safe_json (JArr (map (JStr \<circ> f) xs)) = Inr () \<longleftrightarrow> (\<forall>x \<in> set xs. \<not> is_absolute_path (f x))"
  "safe_json (JArr (map JStr ys)) = Inr () \<longleftrightarrow> (\<forall>y \<in> set ys. \<not> is_absolute_path y)"
proof -
  have "safe_json_items (map (JStr \<circ> f) xs) = Inr () \<longleftrightarrow> (\<forall>x \<in> set xs. \<not> is_absolute_path (f x))"
    by (induction xs) (auto simp: result_simps)
  moreover have "safe_json_items (map JStr ys) = Inr () \<longleftrightarrow> (\<forall>y \<in> set ys. \<not> is_absolute_path y)"
    by (induction ys) (auto simp: result_simps)
  ultimately show "safe_json (JArr (map (JStr \<circ> f) xs)) = Inr () \<longleftrightarrow> (\<forall>x \<in> set xs. \<not> is_absolute_path (f x))"
    "safe_json (JArr (map JStr ys)) = Inr () \<longleftrightarrow> (\<forall>y \<in> set ys. \<not> is_absolute_path y)" by simp_all
qed

lemma hex_relative: "is_hex s \<Longrightarrow> \<not> is_absolute_path s"
  by (cases s; cases "tl s")
    (auto simp: is_hex_def is_absolute_path_def starts_with_def hex_digits_def split: list.splits)

lemma sha256_relative: "sha256_pattern s \<Longrightarrow> \<not> is_absolute_path s"
  by (simp add: sha256_pattern_def hex_relative)

lemma artifact_relative: "starts_with ''artifact://sha256/'' s \<Longrightarrow> \<not> is_absolute_path s"
  using starts_with_relative [of "CHR ''a''" "CHR ''r''" "''tifact://sha256/''" s] by simp

lemma identifiers_relative:
  "analysis_id_ok s \<Longrightarrow> \<not> is_absolute_path s" "result_id_ok s \<Longrightarrow> \<not> is_absolute_path s"
  "evidence_id_ok s \<Longrightarrow> \<not> is_absolute_path s" "source_record_id_ok s \<Longrightarrow> \<not> is_absolute_path s"
  "operation_error_id_ok s \<Longrightarrow> \<not> is_absolute_path s" "source_id_ok s \<Longrightarrow> \<not> is_absolute_path s"
proof -
  show "analysis_id_ok s \<Longrightarrow> \<not> is_absolute_path s" by (erule id_pattern_relative) simp_all
  show "result_id_ok s \<Longrightarrow> \<not> is_absolute_path s" by (erule id_pattern_relative) simp_all
  show "evidence_id_ok s \<Longrightarrow> \<not> is_absolute_path s" by (erule id_pattern_relative) simp_all
  show "source_record_id_ok s \<Longrightarrow> \<not> is_absolute_path s" by (erule id_pattern_relative) simp_all
  show "operation_error_id_ok s \<Longrightarrow> \<not> is_absolute_path s" by (erule id_pattern_relative) simp_all
  show "source_id_ok s \<Longrightarrow> \<not> is_absolute_path s"
    using starts_with_relative [of "CHR ''D''" "CHR ''S''" "''-''" s] by (simp add: dashed_id_ok_def)
qed

lemma provenance_values_relative:
  "\<not> is_absolute_path (input_mode_value m)" "\<not> is_absolute_path (chain_scope_value c)"
  apply (cases m; hypsubst; code_simp)
  apply (cases c; hypsubst; code_simp)
  done

subsection \<open>Well-formed commands\<close>

definition envelope_ok :: "input_envelope \<Rightarrow> bool" where
  "envelope_ok e \<longleftrightarrow>
     is_ok (input_envelope_init e) \<and> is_ok (normalized_bundle_init (ie_bundle e))
     \<and> list_all (\<lambda>r. is_ok (normalized_record_init r)) (nb_records (ie_bundle e))"

definition worker_command_ok :: "evidence_env \<Rightarrow> evidence_command \<Rightarrow> bool" where
  "worker_command_ok env command \<longleftrightarrow>
     validate_manifest (ec_manifest command) = Inr () \<and> validate_problem (ec_problem command) = Inr ()
     \<and> validate_plan (ec_plan command) = Inr () \<and> validate_job (ec_job command) = Inr ()
     \<and> validate_request (ee_urls env) (ec_request command) = Inr ()
     \<and> ec_worker_id command \<noteq> [] \<and> operation_event_id_ok (ec_event_id command)
     \<and> operation_error_id_ok (ec_error_id command) \<and> optional_ok envelope_ok (ec_input_evidence command)"

text \<open>Provenance texts that the safe-details check takes for local paths.\<close>

definition path_like_provenance :: "evidence_command \<Rightarrow> bool" where
  "path_like_provenance command \<longleftrightarrow>
     (case ec_input_evidence command of
        None \<Rightarrow> False
      | Some e \<Rightarrow>
          is_absolute_path (nb_media_type (ie_bundle e))
          \<or> list_ex (\<lambda>r. is_absolute_path (nr_record_locator r)) (nb_records (ie_bundle e)))"

lemma is_ok_Inr: "is_ok r \<longleftrightarrow> (\<exists>x. r = Inr x)"
  by (cases r) simp_all

lemma envelope_details_safe:
  assumes "envelope_ok e"
  shows "safe_json (envelope_details e) = Inr () \<longleftrightarrow>
    \<not> is_absolute_path (nb_media_type (ie_bundle e))
    \<and> (\<forall>r \<in> set (nb_records (ie_bundle e)). \<not> is_absolute_path (nr_record_locator r))"
proof -
  have "list_all plain_key [''input_mode'', ''chain_scope'', ''source_id'', ''provider_id'', ''media_type'',
      ''raw_sha256'', ''record_count'', ''record_locators'', ''record_sha256s'']" by code_simp
  moreover have "source_id_ok (nb_source_id (ie_bundle e))" "provider_pattern (nb_provider_id (ie_bundle e))"
    "sha256_pattern (nb_raw_sha256 (ie_bundle e))"
    "\<forall>r \<in> set (nb_records (ie_bundle e)). sha256_pattern (nr_record_sha256 r)"
    using assms
    by (auto simp: envelope_ok_def is_ok_Inr normalized_bundle_init_def normalized_record_init_def
        list_all_iff result_simps)
  moreover from this have "\<forall>r \<in> set (nb_records (ie_bundle e)). \<not> is_absolute_path (nr_record_sha256 r)"
    using sha256_relative by blast
  ultimately show ?thesis
    using provenance_values_relative identifiers_relative(6) provider_relative sha256_relative
    by (simp add: envelope_details_def Let_def safe_json_object_iff result_simps del: safe_json.simps(1,2))
qed

subsection \<open>Records of an execution\<close>

lemma job_status_value_ok: "snake_pattern (job_status_value s)" "snake_pattern (''evidence_'' @ job_status_value s)"
  apply (cases s; hypsubst; code_simp)
  apply (cases s; hypsubst; code_simp)
  done

lemma is_json_object_JObj [simp]: "is_json_object (JObj kvs)"
  by (simp add: is_json_object_def)

lemma worker_event_built:
  assumes "worker_command_ok env command" and "snake_pattern event_type" and "is_json_object details"
  shows "(\<exists>event. worker_event env command event_type to_status details = Inr event)
    \<longleftrightarrow> safe_json details = Inr ()"
    and "worker_event env command event_type to_status details = Inr event \<Longrightarrow>
      validate_event event = Inr () \<and> ev_to_status event = Some (job_status_value to_status)"
proof -
  have "snake_pattern ''job''" by code_simp
  moreover have "job_id_ok (jb_job_id (ec_job command))" "problem_id_ok (pr_problem_id (ec_problem command))"
    "competition_id_ok (mf_competition_id (ec_manifest command))"
    "operation_event_id_ok (ec_event_id command)" "ec_worker_id command \<noteq> []"
    using assms(1)
    by (auto simp: worker_command_ok_def validate_job_def job_fields_ok_def validate_problem_def
        problem_fields_ok_def validate_manifest_def manifest_fields_ok_def result_simps)
  moreover note id_pattern_nonempty job_status_value_ok(1)
  ultimately show "(\<exists>event. worker_event env command event_type to_status details = Inr event)
    \<longleftrightarrow> safe_json details = Inr ()"
    using assms(2,3)
    by (auto simp: worker_event_def Let_def validate_event_def safe_json_object_def raise_if_def
        split: sum.splits if_splits)
  show "worker_event env command event_type to_status details = Inr event \<Longrightarrow>
      validate_event event = Inr () \<and> ev_to_status event = Some (job_status_value to_status)"
    by (auto simp: worker_event_def Let_def split: sum.splits)
qed

lemma worker_error_record_built:
  assumes "worker_command_ok env command" and "\<not> is_absolute_path reason"
    and "code \<in> {INVALID_OPERATIONS_INPUT, RULE_RESTRICTED, EVIDENCE_WORKER_FAILED}"
  shows "\<exists>err. worker_error_record command code reason = Inr err \<and> validate_error err = Inr ()
    \<and> oe_code err = code \<and> oe_error_id err = ec_error_id command"
proof -
  have "problem_id_ok (pr_problem_id (ec_problem command))" "job_id_ok (jb_job_id (ec_job command))"
    "operation_error_id_ok (ec_error_id command)"
    using assms(1)
    by (auto simp: worker_command_ok_def validate_problem_def problem_fields_ok_def validate_job_def
        job_fields_ok_def result_simps)
  moreover have "list_all plain_key [''reason'']" by code_simp
  then have "safe_json (JObj [(''reason'', JStr reason)]) = Inr ()"
    using assms(2) by (simp add: safe_json_object_iff result_simps del: safe_json.simps(1))
  ultimately have "validate_error
      \<lparr>oe_error_id = ec_error_id command, oe_code = code,
       oe_message = ''Evidence worker execution was rejected or failed.'', oe_stage = expected_stage code,
       oe_retryable = False, oe_problem_id = Some (pr_problem_id (ec_problem command)),
       oe_job_id = Some (jb_job_id (ec_job command)), oe_details = JObj [(''reason'', JStr reason)]\<rparr> = Inr ()"
    by (simp add: validate_error_def code_matches_stage_def safe_json_object_def is_json_object_def
        result_simps del: safe_json.simps(1))
  moreover have "(if code = RULE_RESTRICTED then STAGE_AI_MODE_POLICY
      else if code = INVALID_OPERATIONS_INPUT then STAGE_OPERATIONS_INPUT else STAGE_EVIDENCE_WORKER)
      = expected_stage code"
    using assms(3) by auto
  ultimately show ?thesis by (simp add: worker_error_record_def Let_def)
qed

lemma make_outcome_Inr:
  "make_outcome w = Inr x \<longleftrightarrow>
     x = w \<and> wo_status w \<in> terminal_worker_statuses \<and> (wo_retryable w \<longrightarrow> wo_status w = JOB_FAILED)"
  by (auto simp: make_outcome_def worker_outcome_init_def raise_if_def split: sum.splits)

text \<open>What every returned execution satisfies.\<close>

definition worker_execution_ok :: "evidence_execution \<Rightarrow> bool" where
  "worker_execution_ok x \<longleftrightarrow>
     validate_event (ex_event x) = Inr ()
     \<and> is_ok (worker_outcome_init (ex_worker_outcome x))
     \<and> ev_to_status (ex_event x) = Some (job_status_value (wo_status (ex_worker_outcome x)))
     \<and> (case ex_error x of
          None \<Rightarrow> ex_result x \<noteq> None
        | Some err \<Rightarrow> ex_result x = None \<and> validate_error err = Inr ()
            \<and> wo_status (ex_worker_outcome x) = JOB_FAILED
            \<and> wo_error_code (ex_worker_outcome x) = Some (operation_error_code_value (oe_code err)))"

lemma rejected_execution_outcome:
  assumes "worker_command_ok env command" and "\<not> is_absolute_path reason" and "snake_pattern event_type"
    and "code \<in> {INVALID_OPERATIONS_INPUT, RULE_RESTRICTED, EVIDENCE_WORKER_FAILED}"
  shows "\<exists>x err. rejected_execution env command code reason event_type called = Inr x
    \<and> worker_execution_ok x \<and> ex_error x = Some err \<and> oe_code err = code \<and> ex_adapter_called x = called"
proof -
  obtain err where err: "worker_error_record command code reason = Inr err" "validate_error err = Inr ()"
    "oe_code err = code" "oe_error_id err = ec_error_id command"
    using worker_error_record_built [OF assms(1,2,4)] by blast
  have outcome: "make_outcome (failed_outcome code) = Inr (failed_outcome code)"
    by (simp add: make_outcome_Inr failed_outcome_def terminal_worker_statuses_def)
  have "list_all plain_key [''error_id'', ''reason'']" by code_simp
  moreover have "\<not> is_absolute_path (ec_error_id command)"
    using assms(1) identifiers_relative(5) by (simp add: worker_command_ok_def)
  ultimately have "safe_json (JObj [(''error_id'', JStr (oe_error_id err)), (''reason'', JStr reason)]) = Inr ()"
    using assms(2) err(4) by (simp add: safe_json_object_iff result_simps del: safe_json.simps(1))
  then obtain event where event: "worker_event env command event_type JOB_FAILED
      (JObj [(''error_id'', JStr (oe_error_id err)), (''reason'', JStr reason)]) = Inr event"
    using worker_event_built(1) [OF assms(1,3) is_json_object_JObj] by blast
  have "validate_event event = Inr () \<and> ev_to_status event = Some (job_status_value JOB_FAILED)"
    by (rule worker_event_built(2) [OF assms(1,3) is_json_object_JObj event])
  moreover have "is_ok (worker_outcome_init (failed_outcome code))"
    by (simp add: worker_outcome_init_def failed_outcome_def terminal_worker_statuses_def)
  ultimately show ?thesis
    using err outcome event
    by (simp add: rejected_execution_def worker_execution_ok_def) (simp add: failed_outcome_def)
qed

text \<open>The details of a completed execution are safe unless the provenance looks like a path.\<close>

lemma accepted_response:
  assumes "validate_evidence_response env command response = Inr ()"
  shows "validate_analysis_pair (ee_urls env) (ec_request command) (er_result response) = Inr ()"
    and "starts_with ''artifact://sha256/'' (er_request_artifact_uri response)"
    and "starts_with ''artifact://sha256/'' (er_replay_artifact_uri response)"
    and "length (er_export_uris response) = 2"
    and "\<forall>u \<in> set (er_export_uris response). starts_with ''artifact://sha256/'' u"
    and "variant_accepts (ee_urls env) (er_result response)"
proof -
  note checks = assms [unfolded validate_evidence_response_def Let_def all_checks_Inr]
  show pair: "validate_analysis_pair (ee_urls env) (ec_request command) (er_result response) = Inr ()"
    using checks by (auto split: sum.splits)
  show "starts_with ''artifact://sha256/'' (er_request_artifact_uri response)"
    "starts_with ''artifact://sha256/'' (er_replay_artifact_uri response)"
    "length (er_export_uris response) = 2"
    "\<forall>u \<in> set (er_export_uris response). starts_with ''artifact://sha256/'' u"
    using checks by (simp_all add: result_simps list_ex_iff)
  show "variant_accepts (ee_urls env) (er_result response)"
    using pair by (simp add: validate_analysis_pair_def validate_analysis_result_def result_simps)
qed

lemma completed_details_safe:
  assumes "worker_command_ok env command" and "validate_evidence_response env command response = Inr ()"
  shows "safe_json (JObj (completed_details command response)) = Inr () \<longleftrightarrow> \<not> path_like_provenance command"
proof -
  note accepted = accepted_response [OF assms(2)]
  have keys: "list_all plain_key [''analysis_id'', ''result_ids'', ''evidence_ids'', ''source_record_ids'',
      ''request_artifact_uri'', ''replay_artifact_uri'', ''export_uris'', ''reused'', ''input_evidence'']"
    by code_simp
  have ids: "\<not> is_absolute_path (rs_analysis_id (er_result response))"
    "\<forall>i \<in> set (rs_results (er_result response)). \<not> is_absolute_path (ri_result_id i)"
    "\<forall>e \<in> set (rs_evidence (er_result response)). \<not> is_absolute_path (ei_evidence_id e)"
    "\<forall>s \<in> set (rs_sources (er_result response)). \<not> is_absolute_path (sd_source_record_id s)"
    using accepted(6) identifiers_relative
    by (auto simp: variant_accepts_def list_all_iff result_item_ok_def evidence_ok_def source_record_ok_def)
  have uris: "\<not> is_absolute_path (er_request_artifact_uri response)"
    "\<not> is_absolute_path (er_replay_artifact_uri response)"
    "\<forall>u \<in> set (er_export_uris response). \<not> is_absolute_path u"
    using accepted(2,3,5) artifact_relative by blast+
  have envelope: "safe_json (envelope_details e) = Inr () \<longleftrightarrow> \<not> path_like_provenance command"
    if "ec_input_evidence command = Some e" for e
    using that assms(1) envelope_details_safe [of e]
    by (auto simp: worker_command_ok_def path_like_provenance_def list_ex_iff)
  show ?thesis
  proof (cases "ec_input_evidence command")
    case None
    then show ?thesis
      using keys ids uris
      by (simp add: completed_details_def Let_def safe_json_object_iff path_like_provenance_def result_simps
          del: safe_json.simps(1,2))
  next
    case (Some e)
    then show ?thesis
      using keys ids uris envelope [OF Some]
      by (simp add: completed_details_def Let_def safe_json_object_iff result_simps
          del: safe_json.simps(1,2))
  qed
qed

text \<open>The response whose first error is retryable although the analysis is only partial.\<close>

definition partial_and_retryable :: "analysis_result \<Rightarrow> bool" where
  "partial_and_retryable r \<longleftrightarrow>
     rs_status r = AN_PARTIAL \<and> (case rs_errors r of [] \<Rightarrow> False | e # _ \<Rightarrow> ae_retryable e)"

lemma completed_outcome_built:
  assumes "variant_accepts urls r"
  shows "(\<exists>x. make_outcome (completed_outcome r) = Inr x) \<longleftrightarrow> \<not> partial_and_retryable r"
  using assms
  by (cases "rs_status r")
    (auto simp: make_outcome_Inr completed_outcome_def partial_and_retryable_def variant_accepts_def
      terminal_worker_statuses_def)

lemma worker_completed_outcome:
  assumes "worker_command_ok env command" and "validate_evidence_response env command response = Inr ()"
  shows "(\<exists>x. worker_completed env command response = Inr x) \<longleftrightarrow>
      \<not> partial_and_retryable (er_result response) \<and> \<not> path_like_provenance command"
    and "worker_completed env command response = Inr x \<Longrightarrow>
      worker_execution_ok x \<and> ex_adapter_called x \<and> ex_error x = None
      \<and> ex_result x = Some (er_result response)
      \<and> ex_worker_outcome x = completed_outcome (er_result response)
      \<and> ex_export_uris x = er_export_uris response"
proof -
  let ?s = "status_map (rs_status (er_result response))"
  note event = worker_event_built [OF assms(1) job_status_value_ok(2) is_json_object_JObj, of ?s ?s
      "completed_details command response"]
  note outcome = completed_outcome_built [OF accepted_response(6) [OF assms(2)]]
  show "(\<exists>x. worker_completed env command response = Inr x) \<longleftrightarrow>
      \<not> partial_and_retryable (er_result response) \<and> \<not> path_like_provenance command"
    unfolding worker_completed_def Let_def
    using event(1) outcome completed_details_safe [OF assms] by (simp add: result_simps) blast
  assume x: "worker_completed env command response = Inr x"
  then have "make_outcome (completed_outcome (er_result response)) = Inr (ex_worker_outcome x)"
    "worker_event env command (''evidence_'' @ job_status_value ?s) ?s
       (JObj (completed_details command response)) = Inr (ex_event x)"
    "ex_adapter_called x \<and> ex_error x = None \<and> ex_result x = Some (er_result response)
       \<and> ex_export_uris x = er_export_uris response"
    by (auto simp: worker_completed_def Let_def result_simps)
  moreover from this(2) have "validate_event (ex_event x) = Inr () \<and> ev_to_status (ex_event x) = Some (job_status_value ?s)"
    by (rule event(2))
  ultimately show "worker_execution_ok x \<and> ex_adapter_called x \<and> ex_error x = None
      \<and> ex_result x = Some (er_result response)
      \<and> ex_worker_outcome x = completed_outcome (er_result response)
      \<and> ex_export_uris x = er_export_uris response"
    by (auto simp: worker_execution_ok_def make_outcome_Inr worker_outcome_init_def completed_outcome_def)
qed

subsection \<open>Outcomes\<close>

lemma worker_policy_codes:
  "worker_policy_error env command = Some code \<Longrightarrow> code \<in> {INVALID_OPERATIONS_INPUT, RULE_RESTRICTED}"
  by (simp add: worker_policy_error_def Let_def split: if_split_asm)

lemma worker_policy_passed:
  assumes "worker_policy_error env command = None"
  shows "mf_status (ec_manifest command) = COMP_ACTIVE"
    "pr_active_plan_id (ec_problem command) = Some (pl_plan_id (ec_plan command))"
    "pl_status (ec_plan command) = PLAN_APPROVED" "jb_role (ec_job command) = EVIDENCE"
    "jb_problem_id (ec_job command) = pr_problem_id (ec_problem command)"
    "jb_plan_id (ec_job command) = pl_plan_id (ec_plan command)"
    "jb_analysis_id (ec_job command) = Some (rq_analysis_id (ec_request command))"
    "\<exists>leaf \<in> set (pl_leaf_job_specs (ec_plan command)).
       lf_leaf_job_id leaf = jb_job_id (ec_job command) \<and> lf_role leaf = EVIDENCE
       \<and> lf_analysis_type leaf = rq_analysis_type (ec_request command)
       \<and> py_equal (lf_inputs_projection leaf) (dump_inputs (ee_urls env) (ec_request command))"
    "po_rule_status (rq_source_policy (ec_request command)) \<noteq> STATUS_RESTRICTED"
    "po_offline_mode (rq_source_policy (ec_request command))"
proof -
  have if_Some: "(if P then Some a else r) = None \<longleftrightarrow> \<not> P \<and> r = None" for P and a :: operation_error_code and r
    by simp
  note passed = assms [unfolded worker_policy_error_def Let_def if_Some]
  have "\<not> (case find (\<lambda>l. lf_leaf_job_id l = jb_job_id (ec_job command)) (pl_leaf_job_specs (ec_plan command)) of
            None \<Rightarrow> True
          | Some leaf \<Rightarrow> lf_role leaf \<noteq> EVIDENCE \<or> lf_analysis_type leaf \<noteq> rq_analysis_type (ec_request command)
              \<or> \<not> py_equal (lf_inputs_projection leaf) (dump_inputs (ee_urls env) (ec_request command)))"
    using passed by blast
  then show "\<exists>leaf \<in> set (pl_leaf_job_specs (ec_plan command)).
       lf_leaf_job_id leaf = jb_job_id (ec_job command) \<and> lf_role leaf = EVIDENCE
       \<and> lf_analysis_type leaf = rq_analysis_type (ec_request command)
       \<and> py_equal (lf_inputs_projection leaf) (dump_inputs (ee_urls env) (ec_request command))"
    by (auto simp: find_Some_iff split: option.splits)
  show "mf_status (ec_manifest command) = COMP_ACTIVE"
    "pr_active_plan_id (ec_problem command) = Some (pl_plan_id (ec_plan command))"
    "pl_status (ec_plan command) = PLAN_APPROVED" "jb_role (ec_job command) = EVIDENCE"
    "jb_problem_id (ec_job command) = pr_problem_id (ec_problem command)"
    "jb_plan_id (ec_job command) = pl_plan_id (ec_plan command)"
    "jb_analysis_id (ec_job command) = Some (rq_analysis_id (ec_request command))"
    "po_rule_status (rq_source_policy (ec_request command)) \<noteq> STATUS_RESTRICTED"
    "po_offline_mode (rq_source_policy (ec_request command))"
    using passed by (blast intro: sym)+
qed

lemma worker_execute_cases:
  obtains (blocked) code where "worker_policy_error env command = Some code"
      "worker_execute env command = (worker_blocked env command code, [])"
  | (failed) reason called calls where "worker_policy_error env command = None" "\<not> is_absolute_path reason"
      "worker_execute env command = (worker_failed env command reason called, calls)"
      "called \<longleftrightarrow> calls \<noteq> []"
      "calls = [] \<or> calls = [Analyze_Call (workspace_key command) (ec_request command)
         (rb_body (ec_approved_replay command)) (rb_sha256 (ec_approved_replay command))]"
      "called \<longrightarrow> validate_replay env (ec_approved_replay command) = Inr ()
         \<and> validate_input_evidence command = Inr ()"
  | (completed) response where "worker_policy_error env command = None"
      "validate_replay env (ec_approved_replay command) = Inr ()"
      "validate_input_evidence command = Inr ()"
      "ee_analyze env (workspace_key command) (ec_request command) (rb_body (ec_approved_replay command))
         (rb_sha256 (ec_approved_replay command)) = Some response"
      "validate_evidence_response env command response = Inr ()"
      "worker_execute env command =
         (worker_completed env command response,
          [Analyze_Call (workspace_key command) (ec_request command) (rb_body (ec_approved_replay command))
             (rb_sha256 (ec_approved_replay command))])"
proof (cases "worker_policy_error env command")
  case (Some code)
  then show ?thesis by (intro blocked) (simp_all add: worker_execute_def)
next
  case None
  let ?call = "Analyze_Call (workspace_key command) (ec_request command)
    (rb_body (ec_approved_replay command)) (rb_sha256 (ec_approved_replay command))"
  have relative: "\<not> is_absolute_path ''approved_replay_rejected''" "\<not> is_absolute_path ''analysis_adapter_failed''"
    "\<not> is_absolute_path ''analysis_response_rejected''" by code_simp+
  show ?thesis
  proof (cases "validate_replay env (ec_approved_replay command) = Inr () \<and> validate_input_evidence command = Inr ()")
    case False
    then have "\<not> is_ok (then_check (validate_replay env (ec_approved_replay command)) (validate_input_evidence command))"
      by (simp add: result_simps)
    then show ?thesis
      using None relative(1)
      by (intro failed [of "''approved_replay_rejected''" False "[]"]) (simp_all add: worker_execute_def)
  next
    case True
    then have ok: "is_ok (then_check (validate_replay env (ec_approved_replay command)) (validate_input_evidence command))"
      by (simp add: result_simps)
    show ?thesis
    proof (cases "ee_analyze env (workspace_key command) (ec_request command)
        (rb_body (ec_approved_replay command)) (rb_sha256 (ec_approved_replay command))")
      case no_response: None
      then show ?thesis
        using None ok True relative(2)
        by (intro failed [of "''analysis_adapter_failed''" True "[?call]"])
          (simp_all add: worker_execute_def Let_def)
    next
      case (Some response)
      show ?thesis
      proof (cases "validate_evidence_response env command response = Inr ()")
        case False
        then show ?thesis
          using None ok True Some relative(3)
          by (intro failed [of "''analysis_response_rejected''" True "[?call]"])
            (simp_all add: worker_execute_def Let_def)
      next
        case accepted: True
        then show ?thesis
          using None ok True Some
          by (intro completed [of response]) (simp_all add: worker_execute_def Let_def)
      qed
    qed
  qed
qed

lemma worker_blocked_outcome:
  assumes "worker_command_ok env command" and "worker_policy_error env command = Some code"
  shows "\<exists>x err. worker_blocked env command code = Inr x \<and> worker_execution_ok x
    \<and> ex_error x = Some err \<and> oe_code err = code \<and> \<not> ex_adapter_called x"
proof -
  have "snake_pattern ''evidence_blocked''" by code_simp
  moreover have "code \<in> {INVALID_OPERATIONS_INPUT, RULE_RESTRICTED, EVIDENCE_WORKER_FAILED}"
    using worker_policy_codes [OF assms(2)] by blast
  ultimately show ?thesis
    using rejected_execution_outcome [OF assms(1) value_relative(5), of "''evidence_blocked''" code code False]
    by (simp add: worker_blocked_def)
qed

lemma worker_failed_outcome:
  assumes "worker_command_ok env command" and "\<not> is_absolute_path reason"
  shows "\<exists>x err. worker_failed env command reason called = Inr x \<and> worker_execution_ok x
    \<and> ex_error x = Some err \<and> oe_code err = EVIDENCE_WORKER_FAILED \<and> ex_adapter_called x = called"
proof -
  have "snake_pattern ''evidence_failed''" by code_simp
  then show ?thesis
    using rejected_execution_outcome [OF assms, of "''evidence_failed''" EVIDENCE_WORKER_FAILED called]
    by (simp add: worker_failed_def)
qed

interpretation worker_gate: gated_service
  "worker_policy_error env" "\<lambda>command. snd (worker_execute env command)" "\<lambda>_. True" for env
proof
  show "worker_policy_error env c = Some e \<Longrightarrow> snd (worker_execute env c) = []" for c e
    by (simp add: worker_execute_def)
  show "count_if (\<lambda>_. True) (snd (worker_execute env c)) \<le> 1" for c
    by (cases rule: worker_execute_cases [of env c]) auto
qed

subsection \<open>Properties\<close>

text \<open>
  C3: The analysis adapter sees only approved work: whenever it is called, the competition is
  active, the job is an evidence job of the problem's active, approved plan, one of the plan's leaf
  jobs calls for exactly this analysis and these inputs, the request is offline and not restricted,
  the replay bytes hash to the approved digest and pass the guard, and any attached provenance names
  the same digest. It gets exactly those bytes, and over any list of commands it is called at most
  once for each command the policy accepts.
\<close>

theorem worker_runs_only_approved_replays:
  "(Analyze_Call key request body sha \<in> set (snd (worker_execute env command)) \<longrightarrow>
      request = ec_request command \<and> body = rb_body (ec_approved_replay command)
      \<and> sha256_hex body = sha \<and> check_bytes (ee_forbidden env) body = Inr ()
      \<and> (\<forall>e. ec_input_evidence command = Some e \<longrightarrow>
           nb_chain_scope (ie_bundle e) = SCOPE_EVM \<and> nb_raw_sha256 (ie_bundle e) = sha)
      \<and> mf_status (ec_manifest command) = COMP_ACTIVE
      \<and> pr_active_plan_id (ec_problem command) = Some (pl_plan_id (ec_plan command))
      \<and> pl_status (ec_plan command) = PLAN_APPROVED \<and> jb_role (ec_job command) = EVIDENCE
      \<and> (\<exists>leaf \<in> set (pl_leaf_job_specs (ec_plan command)).
           lf_leaf_job_id leaf = jb_job_id (ec_job command) \<and> lf_role leaf = EVIDENCE
           \<and> lf_analysis_type leaf = rq_analysis_type request
           \<and> py_equal (lf_inputs_projection leaf) (dump_inputs (ee_urls env) request))
      \<and> po_rule_status (rq_source_policy request) \<noteq> STATUS_RESTRICTED
      \<and> po_offline_mode (rq_source_policy request))
    \<and> length (concat (map (\<lambda>c. snd (worker_execute env c)) commands))
        \<le> count_if (\<lambda>c. worker_policy_error env c = None) commands"
proof (intro conjI impI)
  assume call: "Analyze_Call key request body sha \<in> set (snd (worker_execute env command))"
  then have none: "worker_policy_error env command = None"
    and args: "request = ec_request command" "body = rb_body (ec_approved_replay command)"
      "sha = rb_sha256 (ec_approved_replay command)"
    and checked: "validate_replay env (ec_approved_replay command) = Inr ()"
      "validate_input_evidence command = Inr ()"
    by (cases rule: worker_execute_cases [of env command]; auto)+
  show "request = ec_request command" "body = rb_body (ec_approved_replay command)" by (fact args)+
  show "sha256_hex body = sha" "check_bytes (ee_forbidden env) body = Inr ()"
    using checked(1) args by (auto simp: validate_replay_def result_simps split: sum.splits)
  show "\<forall>e. ec_input_evidence command = Some e \<longrightarrow>
           nb_chain_scope (ie_bundle e) = SCOPE_EVM \<and> nb_raw_sha256 (ie_bundle e) = sha"
    using checked(2) args by (auto simp: validate_input_evidence_def result_simps)
  note worker_policy_passed [OF none, folded args(1)]
  then show "mf_status (ec_manifest command) = COMP_ACTIVE"
    "pr_active_plan_id (ec_problem command) = Some (pl_plan_id (ec_plan command))"
    "pl_status (ec_plan command) = PLAN_APPROVED" "jb_role (ec_job command) = EVIDENCE"
    "\<exists>leaf \<in> set (pl_leaf_job_specs (ec_plan command)).
           lf_leaf_job_id leaf = jb_job_id (ec_job command) \<and> lf_role leaf = EVIDENCE
           \<and> lf_analysis_type leaf = rq_analysis_type request
           \<and> py_equal (lf_inputs_projection leaf) (dump_inputs (ee_urls env) request)"
    "po_rule_status (rq_source_policy request) \<noteq> STATUS_RESTRICTED"
    "po_offline_mode (rq_source_policy request)"
    by blast+
next
  show "length (concat (map (\<lambda>c. snd (worker_execute env c)) commands))
        \<le> count_if (\<lambda>c. worker_policy_error env c = None) commands"
    using worker_gate.batch_bounded [of env commands] by (simp add: count_if_def)
qed

text \<open>
  C25: A well-formed command always ends in a report, unless the adapter returned an accepted result
  that is partial with a retryable first error, or the attached provenance contains a text that
  looks like a local path. A report has a valid event whose status is the worker outcome's, and
  either the validated result with its mapped status, or a valid error with a failed outcome.
\<close>

theorem worker_reports:
  assumes "worker_command_ok env command" and "\<not> path_like_provenance command"
    and "\<And>response. ee_analyze env (workspace_key command) (ec_request command)
        (rb_body (ec_approved_replay command)) (rb_sha256 (ec_approved_replay command)) = Some response \<Longrightarrow>
      \<not> partial_and_retryable (er_result response)"
  shows "\<exists>x. fst (worker_execute env command) = Inr x
    \<and> validate_event (ex_event x) = Inr ()
    \<and> ev_to_status (ex_event x) = Some (job_status_value (wo_status (ex_worker_outcome x)))
    \<and> (ex_adapter_called x \<longleftrightarrow> snd (worker_execute env command) \<noteq> [])
    \<and> (case ex_result x of
         Some result \<Rightarrow>
           ex_error x = None
           \<and> validate_analysis_pair (ee_urls env) (ec_request command) result = Inr ()
           \<and> wo_status (ex_worker_outcome x) = status_map (rs_status result)
       | None \<Rightarrow>
           wo_status (ex_worker_outcome x) = JOB_FAILED
           \<and> (\<exists>err. ex_error x = Some err \<and> validate_error err = Inr ()))"
proof (cases rule: worker_execute_cases [of env command])
  case (blocked code)
  from worker_blocked_outcome [OF assms(1) blocked(1)] obtain x err where
    "worker_blocked env command code = Inr x" "worker_execution_ok x" "ex_error x = Some err"
    "\<not> ex_adapter_called x" by blast
  with blocked show ?thesis by (auto simp: worker_execution_ok_def)
next
  case (failed reason called calls)
  from worker_failed_outcome [OF assms(1) failed(2), of called] obtain x err where
    "worker_failed env command reason called = Inr x" "worker_execution_ok x" "ex_error x = Some err"
    "ex_adapter_called x = called" by blast
  with failed show ?thesis by (auto simp: worker_execution_ok_def)
next
  case (completed response)
  from worker_completed_outcome [OF assms(1) completed(5)] assms(2) assms(3) [OF completed(4)]
  obtain x where x: "worker_completed env command response = Inr x" "worker_execution_ok x"
    "ex_adapter_called x" "ex_error x = None" "ex_result x = Some (er_result response)"
    "ex_worker_outcome x = completed_outcome (er_result response)" by blast
  with completed accepted_response(1) [OF completed(5)] show ?thesis
    by (auto simp: worker_execution_ok_def completed_outcome_def)
qed

text \<open>
  C26: An accepted partial result whose first error is retryable is lost: building the worker outcome
  raises, the executor has no execution to show for the job, and the scheduler records the job as
  failed with \<^verbatim>\<open>worker_failed\<close>, although the adapter had completed and persisted its analysis.
\<close>

theorem retryable_partial_result_is_lost:
  assumes "worker_command_ok env command"
    and "map_of (qe_commands q) (jb_job_id (ec_job command)) = Some command"
    and "worker_policy_error env command = None"
    and "validate_replay env (ec_approved_replay command) = Inr ()"
    and "validate_input_evidence command = Inr ()"
    and "ee_analyze env (workspace_key command) (ec_request command)
        (rb_body (ec_approved_replay command)) (rb_sha256 (ec_approved_replay command)) = Some response"
    and "validate_evidence_response env command response = Inr ()"
    and "partial_and_retryable (er_result response)"
  shows "queue_executor_call env q (ec_job command) =
      (Executor_Raised, q,
       [Analyze_Call (workspace_key command) (ec_request command) (rb_body (ec_approved_replay command))
          (rb_sha256 (ec_approved_replay command))])
    \<and> run_worker Executor_Raised =
        \<lparr>wo_status = JOB_FAILED, wo_error_code = Some ''worker_failed'', wo_checkpoint_ref = None,
         wo_retryable = False\<rparr>"
proof -
  have "\<not> (\<exists>x. worker_completed env command response = Inr x)"
    using worker_completed_outcome(1) [OF assms(1,7)] assms(8) by blast
  then obtain e where "worker_completed env command response = Inl e"
    by (cases "worker_completed env command response") auto
  then show ?thesis
    using assms(2-7) by (simp add: queue_executor_call_def worker_execute_def run_worker_def)
qed

subsection \<open>Witnesses\<close>

definition fx_dex_inputs :: json where
  "fx_dex_inputs = JObj [(''transaction_hash'', JStr (''0x'' @ fx_sha))]"

definition fx_request :: analysis_request where
  "fx_request =
     \<lparr>rq_schema_uri = ''analysis-request.schema.json'', rq_schema_version = ''0.1'',
      rq_analysis_id = ''AN-AAA'', rq_chain_id = 1, rq_fixture_id = None, rq_requested_at = 0,
      rq_source_policy = \<lparr>po_rule_status = STATUS_ALLOWED, po_allowed_source_ids = [''DS-A''],
        po_source_order = [''DS-A''], po_allow_fallback = False, po_offline_mode = True\<rparr>,
      rq_analysis_type = DEX_SWAP, rq_query_kind = None, rq_inputs = fx_dex_inputs\<rparr>"

definition fx_partial_error :: analysis_error where
  "fx_partial_error =
     \<lparr>ae_error_id = ''ERR-AAA'', ae_code = ERR_RATE_LIMITED, ae_message = ''m'', ae_stage = ''fetch'',
      ae_source_id = None, ae_provider_id = None, ae_retryable = True, ae_attempt_count = 1,
      ae_last_attempt_at = None, ae_related_evidence_ids = None, ae_details = None\<rparr>"

definition fx_result :: "analysis_status \<Rightarrow> analysis_error list \<Rightarrow> analysis_result" where
  "fx_result status errors =
     \<lparr>rs_schema_uri = ''analysis-result.schema.json'', rs_schema_version = ''0.1'',
      rs_analysis_id = ''AN-AAA'', rs_analysis_type = DEX_SWAP, rs_status = status, rs_chain_id = 1,
      rs_results = [\<lparr>ri_result_id = ''RES-AAA'', ri_result_type = ''swap'',
        ri_classification = CONFIRMED_FACT, ri_value = JObj [(''kind'', JStr ''swap'')],
        ri_tool_requirement_ids = [''REQ-P0-A''], ri_fixture_requirement_ids = [],
        ri_evidence_refs = [''EV-AAA'']\<rparr>],
      rs_evidence = [\<lparr>ei_evidence_id = ''EV-AAA'', ei_evidence_type = EVIDENCE_EVENT,
        ei_source_id = ''DS-A'', ei_source_record_ref = ''SRC-AAA'', ei_method = ''m'', ei_retrieved_at = 1,
        ei_locator = \<lparr>el_chain_id = Some 1, el_block_number = None, el_transaction_hash = None,
          el_log_index = None, el_trace_address = None, el_url = None\<rparr>, ei_decoded = JObj [],
        ei_raw_artifact = \<lparr>ra_artifact_uri = ''u'', ra_sha256 = None, ra_media_type = None,
          ra_byte_length = None\<rparr>\<rparr>],
      rs_sources = [\<lparr>sd_source_record_id = ''SRC-AAA'', sd_source_id = ''DS-A'', sd_provider_id = ''p1'',
        sd_role = ROLE_SCORING, sd_required = True, sd_capability = ''c'', sd_endpoint_host = ''h'',
        sd_retrieved_at = 1, sd_fallback_from = None\<rparr>],
      rs_warnings = [], rs_errors = errors,
      rs_run = \<lparr>rn_tool_version = ''v'', rn_execution_mode = MODE_OFFLINE_REPLAY, rn_started_at = 1,
        rn_finished_at = 2, rn_cache_hits = 0, rn_cache_misses = 0, rn_retry_count = 0,
        rn_fallback_count = 0, rn_resumed = False, rn_checkpoint_id = None\<rparr>,
      rs_exports = \<lparr>xp_json = \<lparr>xf_artifact_uri = ''j'', xf_sha256 = None\<rparr>,
        xp_markdown = \<lparr>xf_artifact_uri = ''m'', xf_sha256 = None\<rparr>, xp_csv = None\<rparr>\<rparr>"

definition fx_evidence_response :: "analysis_result \<Rightarrow> evidence_response" where
  "fx_evidence_response result =
     \<lparr>er_result = result, er_export_uris = [''artifact://sha256/a'', ''artifact://sha256/b''],
      er_request_artifact_uri = ''artifact://sha256/c'', er_replay_artifact_uri = ''artifact://sha256/d'',
      er_reused = False\<rparr>"

definition fx_evidence_env :: "analysis_result \<Rightarrow> evidence_env" where
  "fx_evidence_env result =
     \<lparr>ee_analyze = (\<lambda>_ _ _ _. Some (fx_evidence_response result)), ee_forbidden = [''secret''],
      ee_clock = 5, ee_urls = Some\<rparr>"

definition fx_evidence_command :: "string \<Rightarrow> evidence_command" where
  "fx_evidence_command sha =
     \<lparr>ec_manifest = fx_manifest, ec_problem = fx_problem\<lparr>pr_status := PROB_RUNNING\<rparr>,
      ec_plan = fx_plan\<lparr>pl_leaf_job_specs := [fx_leaf\<lparr>lf_inputs_projection := fx_dex_inputs\<rparr>]\<rparr>,
      ec_job = fx_job ''JOB-EVD'' EVIDENCE JOB_RUNNING, ec_request = fx_request,
      ec_approved_replay = \<lparr>rb_body = ''{}'', rb_sha256 = sha\<rparr>, ec_worker_id = ''WORKER-A'',
      ec_event_id = ''OEV-AAA'', ec_error_id = ''OERR-AAA'', ec_input_evidence = None\<rparr>"

lemma fx_results_accepted:
  "validate_evidence_response (fx_evidence_env r) (fx_evidence_command sha)
     (fx_evidence_response (fx_result AN_COMPLETE [])) = Inr ()"
  "validate_evidence_response (fx_evidence_env r) (fx_evidence_command sha)
     (fx_evidence_response (fx_result AN_PARTIAL [fx_partial_error])) = Inr ()"
proof -
  have pairs: "validate_analysis_pair Some fx_request (fx_result AN_COMPLETE []) = Inr ()"
    "validate_analysis_pair Some fx_request (fx_result AN_PARTIAL [fx_partial_error]) = Inr ()"
    by code_simp+
  have "validate_evidence_response (fx_evidence_env r) (fx_evidence_command sha)
      (fx_evidence_response (fx_result s es)) = Inr ()"
    if "validate_analysis_pair Some fx_request (fx_result s es) = Inr ()" for s es
  proof -
    have fields: "rs_analysis_id (fx_result s es) = rq_analysis_id fx_request"
      "rs_analysis_type (fx_result s es) = rq_analysis_type fx_request"
      "rs_chain_id (fx_result s es) = rq_chain_id fx_request" "rs_results (fx_result s es) \<noteq> []"
      "\<forall>i \<in> set (rs_results (fx_result s es)). set (ri_evidence_refs i) \<subseteq> {''EV-AAA''}"
      "map ei_evidence_id (rs_evidence (fx_result s es)) = [''EV-AAA'']"
      "\<forall>e \<in> set (rs_evidence (fx_result s es)). ei_source_record_ref e = ''SRC-AAA''"
      "map sd_source_record_id (rs_sources (fx_result s es)) = [''SRC-AAA'']"
      by (simp_all add: fx_result_def fx_request_def)
    have pair: "validate_analysis_pair (ee_urls (fx_evidence_env r)) fx_request (fx_result s es) = Inr ()"
      and request: "ec_request (fx_evidence_command sha) = fx_request"
      using that by (simp_all add: fx_evidence_env_def fx_evidence_command_def)
    show ?thesis
      unfolding validate_evidence_response_def Let_def all_checks_Inr
      using fields by (auto simp: fx_evidence_response_def pair request starts_with_def list_ex_iff raise_if_def)
  qed
  with pairs show "validate_evidence_response (fx_evidence_env r) (fx_evidence_command sha)
      (fx_evidence_response (fx_result AN_COMPLETE [])) = Inr ()"
    "validate_evidence_response (fx_evidence_env r) (fx_evidence_command sha)
      (fx_evidence_response (fx_result AN_PARTIAL [fx_partial_error])) = Inr ()" by blast+
qed

lemma fx_evidence_gate: "worker_policy_error (fx_evidence_env r) (fx_evidence_command sha) = None"
proof -
  have "py_equal fx_dex_inputs (dump_inputs Some fx_request)" by code_simp
  then show ?thesis
    by (simp add: worker_policy_error_def Let_def fx_evidence_env_def fx_evidence_command_def)
      (simp add: fx_request_def fx_defs)
qed

lemma fx_evidence_ok: "worker_command_ok (fx_evidence_env r) (fx_evidence_command sha)"
proof -
  have "validate_manifest fx_manifest = Inr ()" "validate_problem (fx_problem\<lparr>pr_status := PROB_RUNNING\<rparr>) = Inr ()"
    "validate_plan (fx_plan\<lparr>pl_leaf_job_specs := [fx_leaf\<lparr>lf_inputs_projection := fx_dex_inputs\<rparr>]\<rparr>) = Inr ()"
    "validate_job (fx_job ''JOB-EVD'' EVIDENCE JOB_RUNNING) = Inr ()" "validate_request Some fx_request = Inr ()"
    "operation_event_id_ok ''OEV-AAA''" "operation_error_id_ok ''OERR-AAA''"
    by code_simp+
  then show ?thesis
    by (simp add: worker_command_ok_def fx_evidence_command_def fx_evidence_env_def)
qed

lemma fx_evidence_replay:
  "validate_replay (fx_evidence_env r) (ec_approved_replay (fx_evidence_command (sha256_hex ''{}''))) = Inr ()"
  "validate_input_evidence (fx_evidence_command (sha256_hex ''{}'')) = Inr ()"
proof -
  have "check_bytes [''secret''] ''{}'' = Inr ()" by code_simp
  then show "validate_replay (fx_evidence_env r) (ec_approved_replay (fx_evidence_command (sha256_hex ''{}''))) = Inr ()"
    using sha256_hex_pattern [of "''{}''"]
    by (auto simp: validate_replay_def fx_evidence_env_def fx_evidence_command_def sha256_pattern_def
        is_hex_def hex_digits_def list_all_iff list_ex_iff raise_if_def)
  show "validate_input_evidence (fx_evidence_command (sha256_hex ''{}'')) = Inr ()"
    by (simp add: validate_input_evidence_def fx_evidence_command_def)
qed

lemma fx_evidence_analyze: "ee_analyze (fx_evidence_env r) k q b h = Some (fx_evidence_response r)"
  by (simp add: fx_evidence_env_def)

lemma fx_response_result: "er_result (fx_evidence_response r) = r"
  by (simp add: fx_evidence_response_def)

theorem worker_runs_only_approved_replays_witness:
  "\<exists>key. Analyze_Call key fx_request ''{}'' (sha256_hex ''{}'')
      \<in> set (snd (worker_execute (fx_evidence_env (fx_result AN_COMPLETE []))
                 (fx_evidence_command (sha256_hex ''{}''))))
     \<and> po_offline_mode (rq_source_policy fx_request)"
proof -
  let ?c = "fx_evidence_command (sha256_hex ''{}'')" and ?e = "fx_evidence_env (fx_result AN_COMPLETE [])"
  have "ec_request ?c = fx_request" "rb_body (ec_approved_replay ?c) = ''{}''"
    "rb_sha256 (ec_approved_replay ?c) = sha256_hex ''{}''"
    by (simp_all add: fx_evidence_command_def)
  then have call: "Analyze_Call (workspace_key ?c) fx_request ''{}'' (sha256_hex ''{}'') \<in> set (snd (worker_execute ?e ?c))"
    using fx_evidence_replay(1) [of "fx_result AN_COMPLETE []"] fx_evidence_replay(2)
    by (simp add: worker_execute_def fx_evidence_gate fx_evidence_analyze fx_results_accepted(1) Let_def)
  then have "po_offline_mode (rq_source_policy fx_request)"
    using worker_runs_only_approved_replays by blast
  with call show ?thesis by blast
qed

theorem worker_reports_witness:
  "\<exists>x. fst (worker_execute (fx_evidence_env (fx_result AN_COMPLETE []))
          (fx_evidence_command (sha256_hex ''{}''))) = Inr x \<and> validate_event (ex_event x) = Inr ()"
proof -
  have "\<not> path_like_provenance (fx_evidence_command (sha256_hex ''{}''))"
    by (simp add: path_like_provenance_def fx_evidence_command_def)
  moreover have "\<not> partial_and_retryable (fx_result AN_COMPLETE [])"
    by (simp add: partial_and_retryable_def fx_result_def)
  ultimately show ?thesis
    using worker_reports [OF fx_evidence_ok, of "sha256_hex ''{}''" "fx_result AN_COMPLETE []"]
    by (fastforce simp: fx_evidence_analyze fx_response_result)
qed

theorem retryable_partial_result_is_lost_witness:
  "\<exists>calls. queue_executor_call (fx_evidence_env (fx_result AN_PARTIAL [fx_partial_error]))
      (queue_executor_init [(''JOB-EVD'', fx_evidence_command (sha256_hex ''{}''))])
      (fx_job ''JOB-EVD'' EVIDENCE JOB_RUNNING)
     = (Executor_Raised, queue_executor_init [(''JOB-EVD'', fx_evidence_command (sha256_hex ''{}''))], calls)"
proof -
  let ?c = "fx_evidence_command (sha256_hex ''{}'')" and ?r = "fx_result AN_PARTIAL [fx_partial_error]"
  have job: "ec_job ?c = fx_job ''JOB-EVD'' EVIDENCE JOB_RUNNING" by (simp add: fx_evidence_command_def)
  have "map_of (qe_commands (queue_executor_init [(''JOB-EVD'', ?c)])) (jb_job_id (ec_job ?c)) = Some ?c"
    by (simp add: queue_executor_init_def job fx_job_def)
  moreover have "partial_and_retryable (er_result (fx_evidence_response ?r))"
    by (simp add: fx_response_result partial_and_retryable_def fx_result_def fx_partial_error_def)
  ultimately show ?thesis
    using retryable_partial_result_is_lost [OF fx_evidence_ok _ fx_evidence_gate fx_evidence_replay
        fx_evidence_analyze fx_results_accepted(2)] unfolding job by blast
qed

end
