(* ===== verification/Analysis_Properties.thy ===== *)
theory Analysis_Properties
  imports Evidence_Properties
begin

section \<open>Properties of the analysis contract\<close>

text \<open>
  Input classes never overlap, so the class an untagged union resolves to does not depend on the
  order it is tried in; accepted results are traceable to allowed sources; and the dumped inputs
  of a request with a block window are not the inputs of its document.
\<close>

subsection \<open>Input classes\<close>

text \<open>Two object classes are separable when one requires a key the other does not declare.\<close>

fun separable :: "schema \<Rightarrow> schema \<Rightarrow> bool" where
  "separable (Object fs _) (Object gs _) =
     (list_ex (\<lambda>f. fst (snd (snd f)) \<and> fst f \<notin> set (map fst gs)) fs
      \<or> list_ex (\<lambda>g. fst (snd (snd g)) \<and> fst g \<notin> set (map fst fs)) gs)"
| "separable _ _ = False"

lemma object_keys:
  assumes "conforms urls (Object fs after) (JObj kvs)"
  shows "\<And>f. f \<in> set fs \<Longrightarrow> fst (snd (snd f)) \<Longrightarrow> \<exists>v. map_of kvs (fst f) = Some v \<and> conforms urls (snd (snd (snd f))) v"
    and "\<And>k v. map_of kvs k = Some v \<Longrightarrow> k \<in> set (map fst fs)"
proof -
  show "\<exists>v. map_of kvs (fst f) = Some v \<and> conforms urls (snd (snd (snd f))) v"
    if "f \<in> set fs" "fst (snd (snd f))" for f
    using assms that by (cases "map_of kvs (fst f)") (auto simp: list_all_iff)
  show "k \<in> set (map fst fs)" if "map_of kvs k = Some v" for k v
    using assms map_of_SomeD [OF that] by force
qed

lemma required_key_disjoint:
  assumes "f \<in> set fs" "fst (snd (snd f))" "fst f \<notin> set (map fst gs)"
    and "conforms urls (Object fs p) (JObj kvs)"
  shows "\<not> conforms urls (Object gs q) (JObj kvs)"
  using object_keys(1) [OF assms(4,1,2)] object_keys(2) [of urls gs q kvs "fst f"] assms(3) by blast

lemma separable_disjoint: "separable s t \<Longrightarrow> conforms urls s j \<Longrightarrow> \<not> conforms urls t j"
proof (induction s t rule: separable.induct)
  case (1 fs p gs q)
  then obtain kvs where j: "j = JObj kvs" by (cases j) auto
  from 1(1) consider f where "f \<in> set fs" "fst (snd (snd f))" "fst f \<notin> set (map fst gs)"
    | g where "g \<in> set gs" "fst (snd (snd g))" "fst g \<notin> set (map fst fs)"
    by (auto simp: list_ex_iff)
  then show ?case
    using 1(2) required_key_disjoint [of _ fs gs urls p kvs q] required_key_disjoint [of _ gs fs urls q kvs p]
    unfolding j by cases blast+
qed (simp_all del: conforms.simps)

definition classes_disjoint :: "(string option \<times> schema) list \<Rightarrow> bool" where
  "classes_disjoint cs \<longleftrightarrow>
     distinct (map fst cs)
     \<and> list_all (\<lambda>i. list_all (\<lambda>j. separable (snd (cs ! i)) (snd (cs ! j))) [0..<i]) [0..<length cs]"

lemma inputs_disjoint: "classes_disjoint (inputs_of t)"
  by (cases t) (simp_all add: classes_disjoint_def union_defs class_defs field_defs upt_rec)

lemma classes_disjoint_unique:
  assumes "classes_disjoint cs" and "c \<in> set cs" and "d \<in> set cs"
    and "conforms urls (snd c) j" and "conforms urls (snd d) j"
  shows "c = d"
proof -
  obtain a b where ab: "a < length cs" "b < length cs" "c = cs ! a" "d = cs ! b"
    using assms(2,3) by (metis in_set_conv_nth)
  have sep: "separable (snd (cs ! x)) (snd (cs ! y))" if "y < x" "x < length cs" for x y
    using assms(1) that by (auto simp: classes_disjoint_def list_all_iff)
  have "\<not> a < b" "\<not> b < a"
    using sep [of a b] sep [of b a] separable_disjoint assms(4,5) ab by blast+
  with ab show ?thesis by simp
qed

lemma resolve_inputs_Some:
  "resolve_inputs urls (inputs_of t) j = Some c \<longleftrightarrow> c \<in> set (inputs_of t) \<and> conforms urls (snd c) j"
proof -
  have "resolve_inputs urls (inputs_of t) j = Some c \<Longrightarrow> c \<in> set (inputs_of t) \<and> conforms urls (snd c) j" for c
    by (auto simp: resolve_inputs_def find_Some_iff)
  moreover have "\<exists>d. resolve_inputs urls (inputs_of t) j = Some d"
    if "c \<in> set (inputs_of t)" "conforms urls (snd c) j"
    using that unfolding resolve_inputs_def by (metis find_None_iff not_None_eq)
  ultimately show ?thesis using classes_disjoint_unique [OF inputs_disjoint] by blast
qed

subsection \<open>Aliases in dumped inputs\<close>

lemma py_equal_lookup:
  "py_equal_fields xs ys \<Longrightarrow> map_of xs k = Some v \<Longrightarrow> \<exists>w. map_of ys k = Some w \<and> py_equal v w"
  by (induction xs) (auto split: option.splits if_splits)

lemma py_equal_object:
  assumes "py_equal (JObj xs) (JObj ys)" and "map_of xs k = Some v"
  shows "\<exists>w. map_of ys k = Some w \<and> py_equal v w"
  using assms py_equal_lookup [of xs ys k v] by simp

text \<open>\<open>dumped fs kvs\<close> are the fields of the dump of an object.\<close>

definition dumped ::
    "(string \<Rightarrow> string option) \<Rightarrow> (string \<times> string \<times> bool \<times> schema) list \<Rightarrow> (string, json) dict \<Rightarrow> (string, json) dict" where
  "dumped urls fs kvs =
     concat (map (\<lambda>f. case map_of kvs (fst f) of
       None \<Rightarrow> [] | Some v \<Rightarrow> [(fst (snd f), dump_by_name urls (snd (snd (snd f))) v)]) fs)"

lemma dump_object: "dump_by_name urls (Object fs p) (JObj kvs) = JObj (dumped urls fs kvs)"
  by (simp add: dumped_def)

lemma dumped_keys: "map_of (dumped urls fs kvs) k = Some w \<Longrightarrow> k \<in> set (map (\<lambda>f. fst (snd f)) fs)"
  by (auto simp: dumped_def dest!: map_of_SomeD split: option.splits)

lemma dumped_lookup:
  assumes "distinct (map (\<lambda>f. fst (snd f)) fs)" and "f \<in> set fs" and "map_of kvs (fst f) = Some v"
  shows "map_of (dumped urls fs kvs) (fst (snd f)) = Some (dump_by_name urls (snd (snd (snd f))) v)"
  using assms
proof (induction fs)
  case (Cons g fs)
  have step: "dumped urls (g # fs) kvs =
      (case map_of kvs (fst g) of None \<Rightarrow> [] | Some v \<Rightarrow> [(fst (snd g), dump_by_name urls (snd (snd (snd g))) v)])
      @ dumped urls fs kvs" by (simp add: dumped_def)
  show ?case
  proof (cases "f = g")
    case True
    with Cons.prems(3) show ?thesis by (simp add: step)
  next
    case False
    then have "f \<in> set fs" "fst (snd g) \<noteq> fst (snd f)" using Cons.prems(1,2) by auto
    with Cons show ?thesis by (auto simp: step split: option.splits)
  qed
qed simp

lemma window_not_its_dump:
  assumes "conforms urls FlowBlockWindow j"
  shows "\<not> py_equal j (dump_by_name urls FlowBlockWindow j)"
proof
  assume eq: "py_equal j (dump_by_name urls FlowBlockWindow j)"
  obtain kvs where j: "j = JObj kvs" using assms by (cases j) (auto simp: FlowBlockWindow_def)
  obtain v where v: "map_of kvs ''from'' = Some v"
    using object_keys(1) [OF assms [unfolded j FlowBlockWindow_def], of "aliased ''from'' ''from_block'' BlockNumber"]
    by (auto simp: aliased_def)
  obtain w where "map_of (dumped urls [aliased ''from'' ''from_block'' BlockNumber,
      aliased ''to'' ''to_block'' BlockNumber] kvs) ''from'' = Some w"
    using py_equal_object [OF eq [unfolded j FlowBlockWindow_def dump_object] v] by blast
  from dumped_keys [OF this] show False by (simp add: aliased_def)
qed

text \<open>A class whose required field differs from its dump differs from its dump.\<close>

lemma object_not_its_dump:
  assumes "conforms urls (Object fs p) j" and "distinct (map (\<lambda>f. fst (snd f)) fs)"
    and "f \<in> set fs" and "fst (snd (snd f))" and "fst (snd f) = fst f"
    and "\<And>v. conforms urls (snd (snd (snd f))) v \<Longrightarrow> \<not> py_equal v (dump_by_name urls (snd (snd (snd f))) v)"
  shows "\<not> py_equal j (dump_by_name urls (Object fs p) j)"
proof
  assume eq: "py_equal j (dump_by_name urls (Object fs p) j)"
  obtain kvs where j: "j = JObj kvs" using assms(1) by (cases j) auto
  obtain v where v: "map_of kvs (fst f) = Some v" "conforms urls (snd (snd (snd f))) v"
    using object_keys(1) [OF assms(1) [unfolded j] assms(3,4)] by blast
  obtain w where "map_of (dumped urls fs kvs) (fst f) = Some w" "py_equal v w"
    using py_equal_object [OF eq [unfolded j dump_object] v(1)] by blast
  moreover have "map_of (dumped urls fs kvs) (fst f) = Some (dump_by_name urls (snd (snd (snd f))) v)"
    using dumped_lookup [OF assms(2,3) v(1)] assms(5) by simp
  ultimately show False using assms(6) [OF v(2)] by simp
qed

lemma windows_not_their_dump:
  assumes "conforms urls (NonEmptyList FlowBlockWindow) j"
  shows "\<not> py_equal j (dump_by_name urls (NonEmptyList FlowBlockWindow) j)"
proof -
  obtain x xs where j: "j = JArr (x # xs)"
    using assms by (cases j) (auto simp: NonEmptyList_def neq_Nil_conv)
  have "conforms urls FlowBlockWindow x" using assms by (simp add: j NonEmptyList_def)
  then show ?thesis using window_not_its_dump by (simp add: j NonEmptyList_def)
qed

lemma trace_path_scope_not_its_dump:
  "conforms urls TracePathScope j \<Longrightarrow> \<not> py_equal j (dump_by_name urls TracePathScope j)"
  unfolding TracePathScope_def
  by (rule object_not_its_dump [where f = "req ''block_windows'' (NonEmptyList FlowBlockWindow)"])
    (simp_all add: field_defs windows_not_their_dump)

lemma trace_remerge_scope_not_its_dump:
  "conforms urls TraceRemergeScope j \<Longrightarrow> \<not> py_equal j (dump_by_name urls TraceRemergeScope j)"
  unfolding TraceRemergeScope_def
  by (rule object_not_its_dump [where f = "req ''block_range'' FlowBlockWindow"])
    (simp_all add: field_defs window_not_its_dump)

lemma windowed_inputs_not_their_dump:
  "conforms urls TracePathInputs j \<Longrightarrow> \<not> py_equal j (dump_by_name urls TracePathInputs j)"
  "conforms urls TraceRemergeInputs j \<Longrightarrow> \<not> py_equal j (dump_by_name urls TraceRemergeInputs j)"
  "conforms urls CommonFunderInputs j \<Longrightarrow> \<not> py_equal j (dump_by_name urls CommonFunderInputs j)"
proof -
  show "conforms urls TracePathInputs j \<Longrightarrow> \<not> py_equal j (dump_by_name urls TracePathInputs j)"
    unfolding TracePathInputs_def
    by (rule object_not_its_dump [where f = "req ''scope'' TracePathScope"])
      (simp_all add: field_defs trace_path_scope_not_its_dump)
  show "conforms urls TraceRemergeInputs j \<Longrightarrow> \<not> py_equal j (dump_by_name urls TraceRemergeInputs j)"
    unfolding TraceRemergeInputs_def
    by (rule object_not_its_dump [where f = "req ''scope'' TraceRemergeScope"])
      (simp_all add: field_defs trace_remerge_scope_not_its_dump)
  show "conforms urls CommonFunderInputs j \<Longrightarrow> \<not> py_equal j (dump_by_name urls CommonFunderInputs j)"
    unfolding CommonFunderInputs_def
    by (rule object_not_its_dump [where f = "req ''block_range'' FlowBlockWindow"])
      (simp_all add: field_defs window_not_its_dump)
qed

lemma request_class:
  assumes "validate_request urls r = Inr ()"
  shows "(\<exists>!c. c \<in> set (inputs_of (rq_analysis_type r)) \<and> conforms urls (snd c) (rq_inputs r))
    \<and> (\<forall>c \<in> set (inputs_of (rq_analysis_type r)).
         conforms urls (snd c) (rq_inputs r) \<longleftrightarrow> fst c = rq_query_kind r)"
proof -
  have "inputs_match_query_kind urls r = Inr ()"
    using assms by (simp add: validate_request_def result_simps)
  then obtain s where s: "resolve_inputs urls (inputs_of (rq_analysis_type r)) (rq_inputs r) = Some (rq_query_kind r, s)"
    by (auto simp: inputs_match_query_kind_def result_simps split: option.splits)
  have "distinct (map fst (inputs_of (rq_analysis_type r)))"
    using inputs_disjoint by (simp add: classes_disjoint_def)
  then have "c = d" if "c \<in> set (inputs_of (rq_analysis_type r))" "d \<in> set (inputs_of (rq_analysis_type r))"
    "fst c = fst d" for c d
    using that by (auto simp: distinct_map dest: inj_onD)
  with s show ?thesis unfolding resolve_inputs_Some [symmetric]
    by (metis fst_conv option.inject resolve_inputs_Some)
qed

subsection \<open>Properties\<close>

text \<open>
  The input classes of one analysis type never overlap: an accepted request has exactly one
  class that accepts its inputs, the one its query kind calls for. The classes of an untagged union
  can therefore be tried in any order.
\<close>

theorem request_inputs_have_one_class:
  assumes "validate_request urls r = Inr ()"
  shows "(\<exists>!c. c \<in> set (inputs_of (rq_analysis_type r)) \<and> conforms urls (snd c) (rq_inputs r))
    \<and> (\<forall>c \<in> set (inputs_of (rq_analysis_type r)).
         conforms urls (snd c) (rq_inputs r) \<longleftrightarrow> fst c = rq_query_kind r)"
  using assms by (rule request_class)

text \<open>
  C9: Every result of an accepted pair is traceable: each evidence reference names exactly one
  evidence item, which names exactly one source record of the same source, and that source is one
  the request allows. Conversely no evidence item and no source record is left uncited.
\<close>

theorem accepted_results_are_traceable:
  assumes "validate_analysis_pair urls request result = Inr ()"
  shows "(\<forall>item \<in> set (rs_results result). \<forall>ref \<in> set (ri_evidence_refs item).
        (\<exists>!e. e \<in> set (rs_evidence result) \<and> ei_evidence_id e = ref)
        \<and> (\<exists>e s. e \<in> set (rs_evidence result) \<and> ei_evidence_id e = ref
             \<and> s \<in> set (rs_sources result) \<and> sd_source_record_id s = ei_source_record_ref e
             \<and> sd_source_id s = ei_source_id e
             \<and> sd_source_id s \<in> set (po_allowed_source_ids (rq_source_policy request))))
    \<and> (\<forall>e \<in> set (rs_evidence result). ei_evidence_id e \<in> referenced_evidence_ids result)
    \<and> (\<forall>s \<in> set (rs_sources result). \<exists>e \<in> set (rs_evidence result).
         ei_source_record_ref e = sd_source_record_id s \<and> ei_source_id e = sd_source_id s)"
proof -
  have refs: "result_references_are_valid result = Inr ()"
    and allowed: "set (map sd_source_id (rs_sources result)) \<subseteq> set (po_allowed_source_ids (rq_source_policy request))"
    using assms by (simp_all add: validate_analysis_pair_def validate_analysis_result_def result_simps)
  have keys: "distinct (map ei_evidence_id (rs_evidence result))"
    "distinct (map sd_source_record_id (rs_sources result))"
    and known: "\<forall>item \<in> set (rs_results result). set (ri_evidence_refs item) \<subseteq> set (map ei_evidence_id (rs_evidence result))"
    and cited: "set (map ei_evidence_id (rs_evidence result)) \<subseteq> referenced_evidence_ids result"
    and source: "\<forall>e \<in> set (rs_evidence result).
      \<not> (case index_by sd_source_record_id (rs_sources result) (ei_source_record_ref e) of
          None \<Rightarrow> True | Some s \<Rightarrow> sd_source_id s \<noteq> ei_source_id e)"
    and used: "set (map sd_source_record_id (rs_sources result)) \<subseteq> set (map ei_source_record_ref (rs_evidence result))"
    using refs
    by (simp_all add: result_references_are_valid_def Let_def require_unique_def require_known_def result_simps)
  have sourced: "\<exists>s. s \<in> set (rs_sources result) \<and> sd_source_record_id s = ei_source_record_ref e
      \<and> sd_source_id s = ei_source_id e" if "e \<in> set (rs_evidence result)" for e
    using source that index_by_SomeD [of sd_source_record_id "rs_sources result"]
    by (fastforce split: option.splits)
  show ?thesis
  proof (intro conjI ballI)
    fix item ref assume "item \<in> set (rs_results result)" "ref \<in> set (ri_evidence_refs item)"
    then obtain e where e: "e \<in> set (rs_evidence result)" "ei_evidence_id e = ref" using known by fastforce
    then show "\<exists>!e. e \<in> set (rs_evidence result) \<and> ei_evidence_id e = ref"
      using same_key_iff [OF keys(1)] by blast
    show "\<exists>e s. e \<in> set (rs_evidence result) \<and> ei_evidence_id e = ref
             \<and> s \<in> set (rs_sources result) \<and> sd_source_record_id s = ei_source_record_ref e
             \<and> sd_source_id s = ei_source_id e
             \<and> sd_source_id s \<in> set (po_allowed_source_ids (rq_source_policy request))"
      using sourced [OF e(1)] e allowed by fastforce
  next
    show "ei_evidence_id e \<in> referenced_evidence_ids result" if "e \<in> set (rs_evidence result)" for e
      using that cited by auto
  next
    fix s assume s: "s \<in> set (rs_sources result)"
    then have "sd_source_record_id s \<in> ei_source_record_ref ` set (rs_evidence result)" using used by auto
    then obtain e where e: "e \<in> set (rs_evidence result)" "ei_source_record_ref e = sd_source_record_id s"
      by (metis imageE)
    obtain s' where "s' \<in> set (rs_sources result)" "sd_source_record_id s' = sd_source_record_id s"
      "sd_source_id s' = ei_source_id e" using sourced [OF e(1)] e(2) by auto
    moreover from this have "s' = s" using same_key_iff [OF keys(2) _ s, of s'] by simp
    ultimately have "ei_source_id e = sd_source_id s" by simp
    with e show "\<exists>e \<in> set (rs_evidence result).
         ei_source_record_ref e = sd_source_record_id s \<and> ei_source_id e = sd_source_id s" by blast
  qed
qed

text \<open>
  A leaf job that carries the inputs of its request, as the request document has them, is
  refused whenever those inputs contain a block window: the worker compares them with a dump under
  attribute names (\<^verbatim>\<open>from_block\<close>, \<^verbatim>\<open>to_block\<close>), while the document uses the aliases \<^verbatim>\<open>from\<close> and \<^verbatim>\<open>to\<close>.
\<close>

theorem windowed_leaf_is_refused:
  assumes "validate_request (ee_urls env) (ec_request command) = Inr ()"
    and "rq_query_kind (ec_request command) \<in> {Some ''trace_path'', Some ''trace_remerge'', Some ''find_common_funder''}"
    and "rq_analysis_type (ec_request command) \<in> {FLOW_PATH, INTEL_CONTEXT}"
    and "\<And>leaf. leaf \<in> set (pl_leaf_job_specs (ec_plan command)) \<Longrightarrow>
      lf_leaf_job_id leaf = jb_job_id (ec_job command) \<Longrightarrow> lf_inputs_projection leaf = rq_inputs (ec_request command)"
  shows "worker_policy_error env command \<noteq> None"
proof
  assume none: "worker_policy_error env command = None"
  let ?r = "ec_request command" and ?urls = "ee_urls env"
  obtain leaf where "leaf \<in> set (pl_leaf_job_specs (ec_plan command))"
    "lf_leaf_job_id leaf = jb_job_id (ec_job command)"
    "py_equal (lf_inputs_projection leaf) (dump_inputs ?urls ?r)"
    using worker_policy_passed(8) [OF none] by blast
  with assms(4) have eq: "py_equal (rq_inputs ?r) (dump_inputs ?urls ?r)" by simp
  obtain c where c: "c \<in> set (inputs_of (rq_analysis_type ?r))" "conforms ?urls (snd c) (rq_inputs ?r)"
    using request_class [OF assms(1)] by blast
  then have kind: "fst c = rq_query_kind ?r" using request_class [OF assms(1)] by blast
  have "resolve_inputs ?urls (inputs_of (rq_analysis_type ?r)) (rq_inputs ?r) = Some c"
    using c by (simp add: resolve_inputs_Some)
  then have "dump_inputs ?urls ?r = dump_by_name ?urls (snd c) (rq_inputs ?r)"
    by (cases c) (simp add: dump_inputs_def)
  moreover have "snd c \<in> {TracePathInputs, TraceRemergeInputs, CommonFunderInputs}"
    using c(1) kind assms(2,3)
    by (auto simp: flow_path_classes_def intel_context_classes_def simp del: conforms.simps)
  ultimately show False
    using eq c(2) windowed_inputs_not_their_dump [of ?urls "rq_inputs ?r"] by auto
qed

subsection \<open>Witnesses\<close>

theorem request_inputs_have_one_class_witness:
  "conforms Some DexInputs fx_dex_inputs \<and> (\<exists>!c. c \<in> set (inputs_of DEX_SWAP) \<and> conforms Some (snd c) fx_dex_inputs)"
proof -
  have "validate_request Some fx_request = Inr ()" by code_simp
  from request_inputs_have_one_class [OF this]
  have "\<exists>!c. c \<in> set (inputs_of DEX_SWAP) \<and> conforms Some (snd c) fx_dex_inputs"
    by (simp add: fx_request_def del: conforms.simps)
  moreover have "conforms Some DexInputs fx_dex_inputs" by code_simp
  ultimately show ?thesis by blast
qed

theorem accepted_results_are_traceable_witness:
  "validate_analysis_pair Some fx_request (fx_result AN_COMPLETE []) = Inr ()
    \<and> (\<exists>!e. e \<in> set (rs_evidence (fx_result AN_COMPLETE [])) \<and> ei_evidence_id e = ''EV-AAA'')"
proof -
  have pair: "validate_analysis_pair Some fx_request (fx_result AN_COMPLETE []) = Inr ()" by code_simp
  moreover have "\<exists>item \<in> set (rs_results (fx_result AN_COMPLETE [])). ''EV-AAA'' \<in> set (ri_evidence_refs item)"
    by (simp add: fx_result_def)
  ultimately show ?thesis using accepted_results_are_traceable [OF pair] by blast
qed

definition fx_window_inputs :: json where
  "fx_window_inputs = JObj
     [(''subject_addresses'', JArr [JStr (''0x'' @ replicate 40 (CHR ''a''))]),
      (''block_range'', JObj [(''from'', JInt 1), (''to'', JInt 2)]),
      (''source_fixture_ref'', JStr ''FX-A''),
      (''completeness'', JObj [(''require_initial_inflow_complete'', JBool True),
         (''require_service_exclusion'', JBool True),
         (''excluded_service_roles'', JArr [JStr ''cex''])])]"

definition fx_window_command :: evidence_command where
  "fx_window_command =
     (fx_evidence_command [])
     \<lparr>ec_request := fx_request\<lparr>rq_schema_version := ''0.2'', rq_analysis_type := INTEL_CONTEXT,
        rq_query_kind := Some ''find_common_funder'', rq_inputs := fx_window_inputs\<rparr>,
      ec_plan := fx_plan\<lparr>pl_leaf_job_specs := [fx_leaf\<lparr>lf_analysis_type := INTEL_CONTEXT,
        lf_inputs_projection := fx_window_inputs\<rparr>]\<rparr>\<rparr>"

theorem windowed_leaf_is_refused_witness:
  "validate_request Some (ec_request fx_window_command) = Inr ()
    \<and> worker_policy_error (fx_evidence_env (fx_result AN_COMPLETE [])) fx_window_command \<noteq> None"
proof -
  have valid: "validate_request Some (ec_request fx_window_command) = Inr ()" by code_simp
  moreover have "worker_policy_error (fx_evidence_env (fx_result AN_COMPLETE [])) fx_window_command \<noteq> None"
    by (rule windowed_leaf_is_refused)
      (use valid in \<open>simp_all add: fx_window_command_def fx_evidence_env_def\<close>)
  ultimately show ?thesis by blast
qed

end
