(* ===== verification/Candidate_Verifier.thy ===== *)
theory Candidate_Verifier
  imports Evidence_Worker
begin

section \<open>Candidates, independent verification and promotion\<close>

text \<open>
  \<^verbatim>\<open>application/candidate_verifier.py\<close>: a candidate answer is built from the results of completed
  evidence runs, verified by replaying the approved evidence through a second adapter, and promoted
  when the verification allows it.

  The verifier's adapter is a port (\<open>vf_analyze\<close>, \<open>None\<close> when it raises) and \<open>vf_clock n\<close> is the
  \<open>n\<close>-th reading of the clock within one execution. \<open>Inl\<close> is an exception the code does not catch.
\<close>

subsection \<open>Commands and executions\<close>

record evidence_run =
  ru_job :: job_record
  ru_request :: analysis_request
  ru_result :: analysis_result
  ru_approved_replay :: approved_replay

record candidate_build_command =
  cb_manifest :: competition_manifest
  cb_problem :: problem_record
  cb_plan :: plan_hypothesis
  cb_reporter_job :: job_record
  cb_evidence_runs :: "evidence_run list"
  cb_candidate_id :: string
  cb_selected_result_ids :: "string list"
  cb_confidence :: int
  cb_confidence_basis :: string
  cb_uncertainties :: "string list"
  cb_worker_id :: string
  cb_event_id :: string
  cb_error_id :: string

record candidate_build_execution =
  ce_candidate :: "candidate_record option"
  ce_event :: operation_event
  ce_error :: "operation_error option"

record verification_command =
  vm_manifest :: competition_manifest
  vm_problem :: problem_record
  vm_plan :: plan_hypothesis
  vm_candidate :: candidate_record
  vm_reporter_job :: job_record
  vm_verifier_job :: job_record
  vm_evidence_runs :: "evidence_run list"
  vm_verification_id :: string
  vm_worker_id :: string
  vm_event_id :: string
  vm_error_id :: string

record verification_execution =
  vx_verification :: "verification_record option"
  vx_event :: operation_event
  vx_error :: "operation_error option"
  vx_adapter_calls :: nat

record candidate_promotion_command =
  pn_manifest :: competition_manifest
  pn_problem :: problem_record
  pn_candidate :: candidate_record
  pn_verification :: verification_record
  pn_reporter_job :: job_record
  pn_verifier_job :: job_record
  pn_evidence_runs :: "evidence_run list"
  pn_actor_id :: string
  pn_event_id :: string
  pn_error_id :: string

record verifier_env =
  vf_analyze :: "string \<Rightarrow> analysis_request \<Rightarrow> bytes \<Rightarrow> string \<Rightarrow> evidence_response option"
  vf_forbidden :: "string list"
  vf_clock :: "nat \<Rightarrow> instant"
  vf_urls :: "string \<Rightarrow> string option"

datatype verifier_error = Value_Raised string | Contract_Raised contract_error

subsection \<open>Scoped results\<close>

definition add_unique :: "('a \<Rightarrow> string) \<Rightarrow> string \<Rightarrow> (string \<rightharpoonup> 'a) \<Rightarrow> 'a \<Rightarrow> string + (string \<rightharpoonup> 'a)" where
  "add_unique key message mapped x =
     (if mapped (key x) \<noteq> None then Inl message else Inr (mapped(key x \<mapsto> x)))"

definition add_document ::
    "(string \<rightharpoonup> result_item) \<times> (string \<rightharpoonup> evidence) \<Rightarrow> analysis_result
      \<Rightarrow> string + (string \<rightharpoonup> result_item) \<times> (string \<rightharpoonup> evidence)" where
  "add_document maps document =
     and_then
       (fold_result (add_unique ri_result_id ''duplicate result_id across evidence runs'') (fst maps)
         (rs_results document)) (\<lambda>result_map.
     and_then
       (fold_result (add_unique ei_evidence_id ''duplicate evidence_id across evidence runs'') (snd maps)
         (rs_evidence document)) (\<lambda>evidence_map.
     Inr (result_map, evidence_map)))"

definition analysis_maps ::
    "analysis_result list \<Rightarrow> string + (string \<rightharpoonup> result_item) \<times> (string \<rightharpoonup> evidence)" where
  "analysis_maps documents = fold_result add_document (Map.empty, Map.empty) documents"

definition scoped_analysis_maps ::
    "evidence_run list \<Rightarrow> string + (string \<rightharpoonup> result_item) \<times> (string \<rightharpoonup> evidence)" where
  "scoped_analysis_maps runs = analysis_maps (map ru_result runs)"

definition select_results ::
    "(string \<rightharpoonup> result_item) \<Rightarrow> string list \<Rightarrow> string + result_item list" where
  "select_results result_map ids =
     and_then (raise_if (\<not> distinct ids) ''duplicate selected result'') (\<lambda>_.
     and_then
       (raise_if (list_ex (\<lambda>i. result_map i = None) ids) ''selected result is outside the scoped analysis'') (\<lambda>_.
     Inr (map (\<lambda>i. the (result_map i)) ids)))"

definition evidence_refs_of ::
    "result_item list \<Rightarrow> (string \<rightharpoonup> evidence) \<Rightarrow> string + string list" where
  "evidence_refs_of selected evidence_map =
     (let refs = from_keys (concat (map ri_evidence_refs selected)) in
      and_then
        (raise_if (refs = [] \<or> list_ex (\<lambda>i. evidence_map i = None) refs)
          ''selected result evidence is incomplete'') (\<lambda>_. Inr refs))"

definition canonical_answer :: "result_item list \<Rightarrow> string" where
  "canonical_answer selected =
     dumps (JArr (map (\<lambda>r. JObj [(''result_id'', JStr (ri_result_id r)),
                               (''result_type'', JStr (ri_result_type r)), (''value'', ri_value r)])
                      selected))"

text \<open>\<^verbatim>\<open>_named_values\<close> is only asked whether it finds anything.\<close>

fun named_values :: "(string \<Rightarrow> json \<Rightarrow> bool) \<Rightarrow> json \<Rightarrow> json list"
  and named_values_items :: "(string \<Rightarrow> json \<Rightarrow> bool) \<Rightarrow> json list \<Rightarrow> json list"
  and named_values_fields :: "(string \<Rightarrow> json \<Rightarrow> bool) \<Rightarrow> (string \<times> json) list \<Rightarrow> json list" where
  "named_values p (JObj kvs) = named_values_fields p kvs"
| "named_values p (JArr xs) = named_values_items p xs"
| "named_values p JNull = []"
| "named_values p (JBool _) = []"
| "named_values p (JInt _) = []"
| "named_values p (JFloat _) = []"
| "named_values p (JStr _) = []"
| "named_values_items p [] = []"
| "named_values_items p (x # xs) = named_values p x @ named_values_items p xs"
| "named_values_fields p [] = []"
| "named_values_fields p ((k, v) # kvs) =
     (if p k v then [v] else []) @ named_values p v @ named_values_fields p kvs"

definition is_address :: "string \<Rightarrow> json \<Rightarrow> bool" where
  "is_address key v =
     (case v of
        JStr s \<Rightarrow> length s = 42 \<and> starts_with ''0x'' s
          \<and> list_all (\<lambda>c. c \<in> set ''0123456789abcdef'') (map to_lower (drop 2 s))
      | _ \<Rightarrow> False)"

definition required_checks_for :: "result_item list \<Rightarrow> evidence list \<Rightarrow> string list" where
  "required_checks_for selected selected_evidence =
     (let candidate_values = JArr (map ri_value selected) in
      [''answer_format'', ''answer_value'', ''chain_id'', ''result_values'', ''evidence'']
      @ (if named_values is_address candidate_values \<noteq> [] then [''address''] else [])
      @ (if list_ex (\<lambda>e. el_transaction_hash (ei_locator e) \<noteq> None) selected_evidence
         then [''transaction''] else [])
      @ (if named_values (\<lambda>key _. ends_with ''_raw'' key) candidate_values \<noteq> [] then [''raw_amount''] else [])
      @ (if named_values (\<lambda>key _. key = ''decimals'') candidate_values \<noteq> [] then [''decimals''] else []))"

subsection \<open>Policies\<close>

text \<open>The first failing check of a list, as its reason.\<close>

fun first_reason :: "(bool \<times> string) list \<Rightarrow> string option" where
  "first_reason [] = None"
| "first_reason ((failed, reason) # rest) = (if failed then Some reason else first_reason rest)"

definition common_policy_error ::
    "competition_manifest \<Rightarrow> problem_record \<Rightarrow> plan_hypothesis \<Rightarrow> string option" where
  "common_policy_error manifest problem plan =
     first_reason
       [(mf_status manifest \<noteq> COMP_ACTIVE, ''competition_not_active''),
        (pr_competition_id problem \<noteq> mf_competition_id manifest, ''competition_scope_mismatch''),
        (pr_status problem \<notin> {PROB_RUNNING, PROB_PARTIAL, PROB_VERIFYING, PROB_REVIEW_REQUIRED},
         ''problem_status_invalid''),
        (pl_status plan \<noteq> PLAN_APPROVED, ''plan_not_approved''),
        (pr_active_plan_id problem \<noteq> Some (pl_plan_id plan), ''plan_not_active''),
        (pl_problem_id plan \<noteq> pr_problem_id problem, ''plan_problem_mismatch'')]"

definition run_policy_error ::
    "problem_record \<Rightarrow> plan_hypothesis option \<Rightarrow> evidence_run \<Rightarrow> string option" where
  "run_policy_error problem plan run =
     (let job = ru_job run in
      first_reason
       [(jb_problem_id job \<noteq> pr_problem_id problem, ''evidence_problem_mismatch''),
        ((case plan of None \<Rightarrow> False | Some p \<Rightarrow> jb_plan_id job \<noteq> pl_plan_id p), ''evidence_plan_mismatch''),
        (jb_role job \<noteq> EVIDENCE, ''evidence_role_invalid''),
        (jb_status job \<notin> {JOB_COMPLETE, JOB_PARTIAL}, ''evidence_status_invalid''),
        (jb_analysis_id job = None, ''evidence_analysis_missing''),
        (jb_analysis_id job \<noteq> Some (rq_analysis_id (ru_request run)), ''evidence_request_mismatch''),
        (rs_analysis_id (ru_result run) \<noteq> rq_analysis_id (ru_request run), ''evidence_result_mismatch''),
        (rs_status (ru_result run) = AN_FAILED, ''failed_analysis_has_no_candidate_evidence'')])"

fun first_run_error ::
    "problem_record \<Rightarrow> plan_hypothesis option \<Rightarrow> evidence_run list \<Rightarrow> string option" where
  "first_run_error problem plan [] = None"
| "first_run_error problem plan (run # runs) =
     (case run_policy_error problem plan run of
        Some reason \<Rightarrow> Some reason | None \<Rightarrow> first_run_error problem plan runs)"

definition evidence_run_policy_error ::
    "problem_record \<Rightarrow> plan_hypothesis option \<Rightarrow> evidence_run list \<Rightarrow> string option" where
  "evidence_run_policy_error problem plan runs =
     (if runs = [] then Some ''evidence_runs_required'' else first_run_error problem plan runs)"

definition candidate_policy_error :: "candidate_build_command \<Rightarrow> string option" where
  "candidate_policy_error command =
     (case common_policy_error (cb_manifest command) (cb_problem command) (cb_plan command) of
        Some reason \<Rightarrow> Some reason
      | None \<Rightarrow>
          if jb_role (cb_reporter_job command) \<noteq> REPORTER
             \<or> jb_status (cb_reporter_job command) \<notin> {JOB_RUNNING, JOB_COMPLETE}
          then Some ''reporter_job_invalid''
          else if cb_selected_result_ids command = [] then Some ''selected_results_required''
          else evidence_run_policy_error (cb_problem command) (Some (cb_plan command))
                 (cb_evidence_runs command))"

definition verification_policy_error :: "verification_command \<Rightarrow> string option" where
  "verification_policy_error command =
     (let problem = vm_problem command; plan = vm_plan command; candidate = vm_candidate command;
          reporter = vm_reporter_job command; verifier = vm_verifier_job command in
      case common_policy_error (vm_manifest command) problem plan of
        Some reason \<Rightarrow> Some reason
      | None \<Rightarrow>
          (case first_reason
             [(cd_problem_id candidate \<noteq> pr_problem_id problem, ''candidate_problem_mismatch''),
              (cd_status candidate \<notin> {CAND_DRAFT, CAND_REVIEW_REQUIRED}, ''candidate_status_invalid''),
              (cd_created_by_job_id candidate \<noteq> jb_job_id reporter, ''candidate_creator_mismatch''),
              (jb_role reporter \<noteq> REPORTER \<or> jb_problem_id reporter \<noteq> pr_problem_id problem
               \<or> jb_plan_id reporter \<noteq> pl_plan_id plan, ''reporter_job_invalid''),
              (jb_job_id verifier = jb_job_id reporter, ''verifier_not_independent''),
              (jb_role verifier \<noteq> VERIFIER, ''verifier_role_invalid''),
              (jb_problem_id verifier \<noteq> pr_problem_id problem \<or> jb_plan_id verifier \<noteq> pl_plan_id plan,
               ''verifier_scope_invalid''),
              (jb_status verifier \<notin> {JOB_QUEUED, JOB_RUNNING}, ''verifier_status_invalid'')] of
             Some reason \<Rightarrow> Some reason
           | None \<Rightarrow> evidence_run_policy_error problem (Some plan) (vm_evidence_runs command)))"

definition promotion_policy_error :: "candidate_promotion_command \<Rightarrow> string option" where
  "promotion_policy_error command =
     (let manifest = pn_manifest command; problem = pn_problem command; candidate = pn_candidate command;
          verification = pn_verification command; reporter = pn_reporter_job command;
          verifier = pn_verifier_job command; runs = pn_evidence_runs command in
      case first_reason
        [(mf_status manifest \<noteq> COMP_ACTIVE, ''competition_not_active''),
         (pr_competition_id problem \<noteq> mf_competition_id manifest, ''competition_scope_mismatch''),
         (cd_problem_id candidate \<noteq> pr_problem_id problem, ''candidate_problem_mismatch''),
         (vr_problem_id verification \<noteq> pr_problem_id problem, ''verification_problem_mismatch''),
         (vr_candidate_id verification \<noteq> cd_candidate_id candidate, ''verification_candidate_mismatch''),
         (jb_job_id reporter \<noteq> cd_created_by_job_id candidate, ''candidate_creator_mismatch''),
         (jb_job_id verifier \<noteq> vr_verifier_job_id verification, ''verifier_job_mismatch''),
         (jb_job_id verifier = jb_job_id reporter, ''verifier_not_independent''),
         (cd_status candidate \<notin> {CAND_DRAFT, CAND_REVIEW_REQUIRED}, ''candidate_status_invalid''),
         (jb_role reporter \<noteq> REPORTER \<or> jb_problem_id reporter \<noteq> pr_problem_id problem
          \<or> jb_plan_id reporter \<noteq> jb_plan_id verifier, ''reporter_job_invalid''),
         (jb_role verifier \<noteq> VERIFIER \<or> jb_problem_id verifier \<noteq> pr_problem_id problem
          \<or> jb_job_id reporter \<notin> set (vr_independent_from_job_ids verification), ''verifier_job_invalid''),
         (list_ex (\<lambda>r. jb_problem_id (ru_job r) \<noteq> pr_problem_id problem) runs, ''evidence_problem_mismatch''),
         (list_ex (\<lambda>r. jb_plan_id (ru_job r) \<noteq> jb_plan_id reporter) runs, ''evidence_plan_mismatch'')] of
        Some reason \<Rightarrow> Some reason
      | None \<Rightarrow> evidence_run_policy_error problem None runs)"

subsection \<open>Events and errors\<close>

text \<open>\<^verbatim>\<open>_event\<close> and \<^verbatim>\<open>_error\<close> take the fields they read of the three command classes.\<close>

definition flow_event ::
    "string \<Rightarrow> competition_manifest \<Rightarrow> problem_record \<Rightarrow> string \<Rightarrow> string \<Rightarrow> string \<Rightarrow> actor_type \<Rightarrow> string
      \<Rightarrow> string option \<Rightarrow> string option \<Rightarrow> (string \<times> json) list \<Rightarrow> instant \<Rightarrow> verifier_error + operation_event" where
  "flow_event event_id manifest problem entity_type entity_id event_type actor actor_id from_status to_status
     details moment =
     (let event =
        \<lparr>ev_event_id = event_id, ev_competition_id = mf_competition_id manifest,
         ev_problem_id = Some (pr_problem_id problem), ev_entity_type = entity_type,
         ev_entity_id = entity_id, ev_event_type = event_type, ev_actor_type = actor,
         ev_actor_id = actor_id, ev_from_status = from_status, ev_to_status = to_status,
         ev_safe_details_json = JObj details, ev_created_at = moment\<rparr> in
      case validate_event event of Inl e \<Rightarrow> Inl (Contract_Raised e) | Inr _ \<Rightarrow> Inr event)"

definition flow_error ::
    "string \<Rightarrow> problem_record \<Rightarrow> string \<Rightarrow> string \<Rightarrow> verifier_error + operation_error" where
  "flow_error error_id problem reason job_id =
     (let err =
        \<lparr>oe_error_id = error_id, oe_code = VERIFICATION_FAILED,
         oe_message = ''Candidate construction or verification was rejected or failed.'',
         oe_stage = STAGE_VERIFICATION, oe_retryable = False,
         oe_problem_id = Some (pr_problem_id problem), oe_job_id = Some job_id,
         oe_details = JObj [(''reason'', JStr reason)]\<rparr> in
      case validate_error err of Inl e \<Rightarrow> Inl (Contract_Raised e) | Inr _ \<Rightarrow> Inr err)"

definition reason_details :: "operation_error \<Rightarrow> string \<Rightarrow> (string \<times> json) list" where
  "reason_details err reason = [(''error_id'', JStr (oe_error_id err)), (''reason'', JStr reason)]"

subsection \<open>Building a candidate\<close>

definition build_failed ::
    "verifier_env \<Rightarrow> candidate_build_command \<Rightarrow> string \<Rightarrow> nat \<Rightarrow> verifier_error + candidate_build_execution" where
  "build_failed env command reason reading =
     and_then (flow_error (cb_error_id command) (cb_problem command) reason
                (jb_job_id (cb_reporter_job command))) (\<lambda>err.
     and_then
       (flow_event (cb_event_id command) (cb_manifest command) (cb_problem command) ''candidate''
         (cb_candidate_id command) ''candidate_build_failed'' WORKER (cb_worker_id command) None None
         (reason_details err reason) (vf_clock env reading)) (\<lambda>event.
     Inr \<lparr>ce_candidate = None, ce_event = event, ce_error = Some err\<rparr>))"

definition guarded_text :: "verifier_env \<Rightarrow> string \<Rightarrow> string + unit" where
  "guarded_text env text =
     (case check_text (vf_forbidden env) text of Inl _ \<Rightarrow> Inl ''sensitive data'' | Inr u \<Rightarrow> Inr u)"

text \<open>The parts of a candidate: selected ids, their evidence, and the answer they stand for.\<close>

definition candidate_parts ::
    "verifier_env \<Rightarrow> candidate_build_command \<Rightarrow> string + string list \<times> string" where
  "candidate_parts env command =
     and_then (guarded_text env (cb_confidence_basis command)) (\<lambda>_.
     and_then (for_each (guarded_text env) (cb_uncertainties command)) (\<lambda>_.
     and_then (scoped_analysis_maps (cb_evidence_runs command)) (\<lambda>maps.
     and_then (select_results (fst maps) (cb_selected_result_ids command)) (\<lambda>selected.
     and_then (evidence_refs_of selected (snd maps)) (\<lambda>refs.
     let answer = canonical_answer selected in
     and_then (guarded_text env answer) (\<lambda>_. Inr (refs, answer)))))))"

definition draft_candidate ::
    "candidate_build_command \<Rightarrow> string list \<Rightarrow> string \<Rightarrow> instant \<Rightarrow> candidate_record" where
  "draft_candidate command refs answer moment =
     \<lparr>cd_candidate_id = cb_candidate_id command, cd_problem_id = pr_problem_id (cb_problem command),
      cd_answer_format = pr_answer_format (cb_problem command), cd_answer_value = answer,
      cd_status = CAND_DRAFT, cd_result_refs = cb_selected_result_ids command,
      cd_evidence_refs = refs, cd_verification_refs = [], cd_confidence = cb_confidence command,
      cd_confidence_basis = cb_confidence_basis command, cd_uncertainties = cb_uncertainties command,
      cd_recommendation = INVESTIGATE, cd_created_by_job_id = jb_job_id (cb_reporter_job command),
      cd_created_at = moment, cd_updated_at = moment\<rparr>"

definition build_candidate ::
    "verifier_env \<Rightarrow> candidate_build_command \<Rightarrow> verifier_error + candidate_build_execution" where
  "build_candidate env command =
     (case candidate_policy_error command of
        Some reason \<Rightarrow> build_failed env command reason 0
      | None \<Rightarrow>
          (case candidate_parts env command of
             Inl _ \<Rightarrow> build_failed env command ''candidate_evidence_rejected'' 0
           | Inr (refs, answer) \<Rightarrow>
               let candidate = draft_candidate command refs answer (vf_clock env 0) in
               if validate_candidate candidate \<noteq> Inr ()
               then build_failed env command ''candidate_evidence_rejected'' 1
               else
                 and_then
                   (flow_event (cb_event_id command) (cb_manifest command) (cb_problem command)
                     ''candidate'' (cd_candidate_id candidate) ''candidate_built'' WORKER
                     (cb_worker_id command) None (Some (candidate_status_value CAND_DRAFT))
                     [(''result_refs'', JArr (map JStr (cd_result_refs candidate))),
                      (''evidence_refs'', JArr (map JStr (cd_evidence_refs candidate)))]
                     (vf_clock env 1)) (\<lambda>event.
                 Inr \<lparr>ce_candidate = Some candidate, ce_event = event, ce_error = None\<rparr>)))"

subsection \<open>Independent verification\<close>

definition independent_job_ids :: "verification_command \<Rightarrow> string list" where
  "independent_job_ids command =
     from_keys (jb_job_id (vm_reporter_job command) # map (jb_job_id \<circ> ru_job) (vm_evidence_runs command))"

text \<open>Equality of the JSON dumps of two records: free-form objects are compared as Python values.\<close>

definition same_result_dump :: "result_item \<Rightarrow> result_item \<Rightarrow> bool" where
  "same_result_dump a b \<longleftrightarrow> a\<lparr>ri_value := JNull\<rparr> = b\<lparr>ri_value := JNull\<rparr> \<and> py_equal (ri_value a) (ri_value b)"

definition same_evidence_dump :: "evidence \<Rightarrow> evidence \<Rightarrow> bool" where
  "same_evidence_dump a b \<longleftrightarrow>
     a\<lparr>ei_decoded := JNull\<rparr> = b\<lparr>ei_decoded := JNull\<rparr> \<and> py_equal (ei_decoded a) (ei_decoded b)"

record replay_facts =
  rf_original_results :: "string \<rightharpoonup> result_item"
  rf_original_evidence :: "string \<rightharpoonup> evidence"
  rf_replay_results :: "string \<rightharpoonup> result_item"
  rf_replay_evidence :: "string \<rightharpoonup> evidence"
  rf_replay_documents :: "string \<rightharpoonup> analysis_result"

definition results_match :: "replay_facts \<Rightarrow> candidate_record \<Rightarrow> bool" where
  "results_match f candidate \<longleftrightarrow>
     list_all
       (\<lambda>i. case (rf_original_results f i, rf_replay_results f i) of
              (Some a, Some b) \<Rightarrow> same_result_dump a b | _ \<Rightarrow> False)
       (cd_result_refs candidate)"

definition evidence_matches :: "replay_facts \<Rightarrow> candidate_record \<Rightarrow> bool" where
  "evidence_matches f candidate \<longleftrightarrow>
     list_all
       (\<lambda>i. case (rf_original_evidence f i, rf_replay_evidence f i) of
              (Some a, Some b) \<Rightarrow> same_evidence_dump a b | _ \<Rightarrow> False)
       (cd_evidence_refs candidate)"

definition replay_selected :: "replay_facts \<Rightarrow> candidate_record \<Rightarrow> result_item list" where
  "replay_selected f candidate =
     (if list_ex (\<lambda>i. rf_replay_results f i = None) (cd_result_refs candidate) then []
      else map (\<lambda>i. the (rf_replay_results f i)) (cd_result_refs candidate))"

definition chain_ids_match :: "replay_facts \<Rightarrow> evidence_run list \<Rightarrow> bool" where
  "chain_ids_match f runs \<longleftrightarrow>
     list_all
       (\<lambda>r. case rf_replay_documents f (rs_analysis_id (ru_result r)) of
              None \<Rightarrow> False | Some d \<Rightarrow> rs_chain_id (ru_result r) = rs_chain_id d)
       runs"

definition base_pass :: "verification_command \<Rightarrow> replay_facts \<Rightarrow> string \<Rightarrow> bool" where
  "base_pass command f check =
     (let candidate = vm_candidate command in
      if check = ''answer_format'' then cd_answer_format candidate = pr_answer_format (vm_problem command)
      else if check = ''answer_value'' then
        replay_selected f candidate \<noteq> []
        \<and> cd_answer_value candidate = canonical_answer (replay_selected f candidate)
      else if check = ''chain_id'' then chain_ids_match f (vm_evidence_runs command)
      else if check \<in> {''result_values'', ''address'', ''raw_amount'', ''decimals''} then results_match f candidate
      else evidence_matches f candidate)"

definition missing_evidence_of :: "replay_facts \<Rightarrow> candidate_record \<Rightarrow> string list" where
  "missing_evidence_of f candidate =
     filter (\<lambda>i. rf_replay_evidence f i = None) (cd_evidence_refs candidate)"

definition conflicts_of :: "verification_command \<Rightarrow> replay_facts \<Rightarrow> string list \<Rightarrow> string list" where
  "conflicts_of command f required =
     map (\<lambda>check. check @ '' differs from independent replay'')
       (filter (\<lambda>check. \<not> base_pass command f check
                 \<and> \<not> (check = ''evidence'' \<and> missing_evidence_of f (vm_candidate command) \<noteq> []))
         required)"

definition verification_outcome ::
    "verification_command \<Rightarrow> replay_facts \<Rightarrow> string list \<Rightarrow> verification_status" where
  "verification_outcome command f required =
     (if missing_evidence_of f (vm_candidate command) \<noteq> [] then VER_INCOMPLETE
      else if conflicts_of command f required \<noteq> [] \<or> \<not> list_all (base_pass command f) required
      then VER_CONFLICT else VER_PASS)"

definition created_or :: "job_record \<Rightarrow> instant \<Rightarrow> instant" where
  "created_or job finished = (case jb_started_at job of None \<Rightarrow> finished | Some t \<Rightarrow> t)"

definition verification_for ::
    "verification_command \<Rightarrow> replay_facts \<Rightarrow> string list \<Rightarrow> instant \<Rightarrow> verification_record" where
  "verification_for command f required finished =
     \<lparr>vr_verification_id = vm_verification_id command,
      vr_problem_id = pr_problem_id (vm_problem command),
      vr_candidate_id = cd_candidate_id (vm_candidate command),
      vr_verifier_job_id = jb_job_id (vm_verifier_job command),
      vr_status = verification_outcome command f required,
      vr_required_checks = required,
      vr_check_results =
        map (\<lambda>check. \<lparr>vc_check = check, vc_passed = base_pass command f check,
               vc_result_refs = cd_result_refs (vm_candidate command),
               vc_evidence_refs = cd_evidence_refs (vm_candidate command)\<rparr>) required,
      vr_independent_from_job_ids = independent_job_ids command,
      vr_conflicts = conflicts_of command f required,
      vr_missing_evidence = missing_evidence_of f (vm_candidate command),
      vr_created_at = created_or (vm_verifier_job command) finished,
      vr_finished_at = Some finished\<rparr>"

definition checked_verification :: "verification_record \<Rightarrow> verifier_error + verification_record" where
  "checked_verification v =
     (case validate_verification v of Inl e \<Rightarrow> Inl (Contract_Raised e) | Inr _ \<Rightarrow> Inr v)"

definition build_verification ::
    "verification_command \<Rightarrow> replay_facts \<Rightarrow> instant \<Rightarrow> verifier_error + verification_record" where
  "build_verification command f finished =
     (case select_results (rf_original_results f) (cd_result_refs (vm_candidate command)) of
        Inl message \<Rightarrow> Inl (Value_Raised message)
      | Inr selected \<Rightarrow>
          checked_verification
            (verification_for command f
              (required_checks_for selected
                (map (\<lambda>i. the (rf_original_evidence f i)) (cd_evidence_refs (vm_candidate command))))
              finished))"

definition verify_failed ::
    "verifier_env \<Rightarrow> verification_command \<Rightarrow> string \<Rightarrow> nat \<Rightarrow> verifier_error + verification_execution" where
  "verify_failed env command reason calls =
     and_then (flow_error (vm_error_id command) (vm_problem command) reason
                (jb_job_id (vm_verifier_job command))) (\<lambda>err.
     and_then
       (flow_event (vm_event_id command) (vm_manifest command) (vm_problem command) ''verification''
         (vm_verification_id command) ''verification_rejected'' WORKER (vm_worker_id command) None None
         (reason_details err reason) (vf_clock env 0)) (\<lambda>event.
     Inr \<lparr>vx_verification = None, vx_event = event, vx_error = Some err, vx_adapter_calls = calls\<rparr>))"

definition incomplete_verification :: "verification_command \<Rightarrow> instant \<Rightarrow> verification_record" where
  "incomplete_verification command finished =
     \<lparr>vr_verification_id = vm_verification_id command,
      vr_problem_id = pr_problem_id (vm_problem command),
      vr_candidate_id = cd_candidate_id (vm_candidate command),
      vr_verifier_job_id = jb_job_id (vm_verifier_job command), vr_status = VER_INCOMPLETE,
      vr_required_checks = [''independent_replay''], vr_check_results = [],
      vr_independent_from_job_ids = independent_job_ids command, vr_conflicts = [],
      vr_missing_evidence = cd_evidence_refs (vm_candidate command),
      vr_created_at = created_or (vm_verifier_job command) finished, vr_finished_at = Some finished\<rparr>"

definition verify_incomplete ::
    "verifier_env \<Rightarrow> verification_command \<Rightarrow> string \<Rightarrow> nat \<Rightarrow> verifier_error + verification_execution" where
  "verify_incomplete env command reason calls =
     and_then (checked_verification (incomplete_verification command (vf_clock env 0))) (\<lambda>verification.
     and_then (flow_error (vm_error_id command) (vm_problem command) reason
                (jb_job_id (vm_verifier_job command))) (\<lambda>err.
     and_then
       (flow_event (vm_event_id command) (vm_manifest command) (vm_problem command) ''verification''
         (vr_verification_id verification) ''verification_incomplete'' WORKER (vm_worker_id command) None
         (Some (verification_status_value VER_INCOMPLETE)) (reason_details err reason)
         (vf_clock env 1)) (\<lambda>event.
     Inr \<lparr>vx_verification = Some verification, vx_event = event, vx_error = Some err,
          vx_adapter_calls = calls\<rparr>)))"

definition replay_is_valid :: "verifier_env \<Rightarrow> approved_replay \<Rightarrow> bool" where
  "replay_is_valid env replay \<longleftrightarrow>
     sha256_hex (rb_body replay) = rb_sha256 replay \<and> is_ok (check_bytes (vf_forbidden env) (rb_body replay))"

text \<open>
  The replay loop: the reason it stopped, or the replayed documents; with the number of adapter calls
  and the requests the adapter was given.
\<close>

fun replay_runs ::
    "verifier_env \<Rightarrow> string \<Rightarrow> evidence_run list \<Rightarrow> analysis_result list \<Rightarrow> nat
      \<Rightarrow> (string + analysis_result list) \<times> nat" where
  "replay_runs env key [] replayed calls = (Inr replayed, calls)"
| "replay_runs env key (run # runs) replayed calls =
     (let replay = ru_approved_replay run in
      if \<not> replay_is_valid env replay then (Inl ''independent_adapter_failed'', calls)
      else
        (case vf_analyze env key (ru_request run) (rb_body replay) (rb_sha256 replay) of
           None \<Rightarrow> (Inl ''independent_adapter_failed'', Suc calls)
         | Some response \<Rightarrow>
             if er_reused response
                \<or> validate_analysis_pair (vf_urls env) (ru_request run) (er_result response) \<noteq> Inr ()
             then (Inl ''independent_response_invalid'', Suc calls)
             else replay_runs env key runs (replayed @ [er_result response]) (Suc calls)))"

text \<open>\<^verbatim>\<open>{item.root.analysis_id: item for item in replayed}\<close>: the last document with an id wins.\<close>

definition documents_by_id :: "analysis_result list \<Rightarrow> string \<rightharpoonup> analysis_result" where
  "documents_by_id documents = index_by rs_analysis_id (rev documents)"

definition verify_completed ::
    "verifier_env \<Rightarrow> verification_command
      \<Rightarrow> (string \<rightharpoonup> result_item) \<times> (string \<rightharpoonup> evidence) \<Rightarrow> analysis_result list \<Rightarrow> nat
      \<Rightarrow> verifier_error + verification_execution" where
  "verify_completed env command originals replayed calls =
     (case analysis_maps replayed of
        Inl message \<Rightarrow> Inl (Value_Raised message)
      | Inr replays \<Rightarrow>
          and_then
            (build_verification command
              \<lparr>rf_original_results = fst originals, rf_original_evidence = snd originals,
               rf_replay_results = fst replays, rf_replay_evidence = snd replays,
               rf_replay_documents = documents_by_id replayed\<rparr> (vf_clock env 0)) (\<lambda>verification.
          and_then
            (flow_event (vm_event_id command) (vm_manifest command) (vm_problem command) ''verification''
              (vr_verification_id verification)
              (''verification_'' @ verification_status_value (vr_status verification)) WORKER
              (vm_worker_id command) None (Some (verification_status_value (vr_status verification)))
              [(''candidate_id'', JStr (cd_candidate_id (vm_candidate command))),
               (''required_checks'', JArr (map JStr (vr_required_checks verification))),
               (''conflicts'', JArr (map JStr (vr_conflicts verification))),
               (''missing_evidence'', JArr (map JStr (vr_missing_evidence verification)))]
              (vf_clock env 1)) (\<lambda>event.
          Inr \<lparr>vx_verification = Some verification, vx_event = event, vx_error = None,
               vx_adapter_calls = calls\<rparr>)))"

text \<open>The scope check shared by verification and promotion.\<close>

definition candidate_scope ::
    "evidence_run list \<Rightarrow> candidate_record \<Rightarrow> string + (string \<rightharpoonup> result_item) \<times> (string \<rightharpoonup> evidence)" where
  "candidate_scope runs candidate =
     and_then (scoped_analysis_maps runs) (\<lambda>maps.
     and_then (select_results (fst maps) (cd_result_refs candidate)) (\<lambda>_.
     and_then
       (raise_if (list_ex (\<lambda>i. snd maps i = None) (cd_evidence_refs candidate))
         ''candidate evidence is outside the scoped analysis'') (\<lambda>_.
     Inr maps)))"

definition verify ::
    "verifier_env \<Rightarrow> verification_command \<Rightarrow> verifier_error + verification_execution" where
  "verify env command =
     (case verification_policy_error command of
        Some reason \<Rightarrow> verify_failed env command reason 0
      | None \<Rightarrow>
          (case candidate_scope (vm_evidence_runs command) (vm_candidate command) of
             Inl _ \<Rightarrow> verify_failed env command ''candidate_scope_rejected'' 0
           | Inr originals \<Rightarrow>
               (case replay_runs env (pr_problem_id (vm_problem command)) (vm_evidence_runs command) [] 0 of
                  (Inl reason, calls) \<Rightarrow> verify_incomplete env command reason calls
                | (Inr replayed, calls) \<Rightarrow> verify_completed env command originals replayed calls)))"

subsection \<open>Promotion\<close>

definition passed_refs :: "(verification_check \<Rightarrow> string list) \<Rightarrow> verification_record \<Rightarrow> string set" where
  "passed_refs refs v = set (concat (map refs (filter vc_passed (vr_check_results v))))"

definition verification_allows_promotion :: "candidate_promotion_command \<Rightarrow> string + bool" where
  "verification_allows_promotion command =
     (let verification = pn_verification command; candidate = pn_candidate command;
          runs = pn_evidence_runs command;
          independent = set (vr_independent_from_job_ids verification) in
      if vr_status verification \<noteq> VER_PASS then Inr False
      else if list_ex (\<lambda>r. jb_status (ru_job r) \<noteq> JOB_COMPLETE \<or> rs_status (ru_result r) \<noteq> AN_COMPLETE) runs
        then Inr False
      else if cd_uncertainties candidate \<noteq> [] then Inr False
      else if jb_job_id (pn_reporter_job command) \<notin> independent then Inr False
      else if \<not> set (map (jb_job_id \<circ> ru_job) runs) \<subseteq> independent then Inr False
      else if set (cd_result_refs candidate) - passed_refs vc_result_refs verification \<noteq> {} then Inr False
      else if set (cd_evidence_refs candidate) - passed_refs vc_evidence_refs verification \<noteq> {} then Inr False
      else
        and_then (scoped_analysis_maps runs) (\<lambda>maps.
        and_then (select_results (fst maps) (cd_result_refs candidate)) (\<lambda>selected.
        let selected_evidence = map (\<lambda>i. the (snd maps i)) (cd_evidence_refs candidate) in
        Inr
          (set (required_checks_for selected selected_evidence)
             \<subseteq> set (map vc_check (filter vc_passed (vr_check_results verification)))
           \<and> cd_answer_value candidate = canonical_answer selected
           \<and> list_all (\<lambda>r. ri_classification r = CONFIRMED_FACT) selected))))"

definition promotion_failed ::
    "verifier_env \<Rightarrow> candidate_promotion_command \<Rightarrow> string \<Rightarrow> verifier_error + candidate_build_execution" where
  "promotion_failed env command reason =
     and_then (flow_error (pn_error_id command) (pn_problem command) reason
                (jb_job_id (pn_verifier_job command))) (\<lambda>err.
     and_then
       (flow_event (pn_event_id command) (pn_manifest command) (pn_problem command) ''candidate''
         (cd_candidate_id (pn_candidate command)) ''candidate_promotion_rejected'' SYSTEM
         (pn_actor_id command) (Some (candidate_status_value (cd_status (pn_candidate command)))) None
         (reason_details err reason) (vf_clock env 0)) (\<lambda>event.
     Inr \<lparr>ce_candidate = None, ce_event = event, ce_error = Some err\<rparr>))"

definition promoted_candidate :: "candidate_promotion_command \<Rightarrow> bool \<Rightarrow> instant \<Rightarrow> candidate_record" where
  "promoted_candidate command ready moment =
     (pn_candidate command)
     \<lparr>cd_status := (if ready then CAND_SUBMISSION_READY else CAND_REVIEW_REQUIRED),
      cd_verification_refs :=
        from_keys (cd_verification_refs (pn_candidate command)
                   @ [vr_verification_id (pn_verification command)]),
      cd_recommendation := (if ready then SUBMIT else INVESTIGATE),
      cd_updated_at := moment\<rparr>"

definition promote ::
    "verifier_env \<Rightarrow> candidate_promotion_command \<Rightarrow> verifier_error + candidate_build_execution" where
  "promote env command =
     (case promotion_policy_error command of
        Some reason \<Rightarrow> promotion_failed env command reason
      | None \<Rightarrow>
          (case candidate_scope (pn_evidence_runs command) (pn_candidate command) of
             Inl _ \<Rightarrow> promotion_failed env command ''candidate_scope_rejected''
           | Inr _ \<Rightarrow>
               (case verification_allows_promotion command of
                  Inl _ \<Rightarrow> promotion_failed env command ''candidate_scope_rejected''
                | Inr ready \<Rightarrow>
                    let candidate = promoted_candidate command ready (vf_clock env 0) in
                    (case validate_candidate candidate of
                       Inl e \<Rightarrow> Inl (Contract_Raised e)
                     | Inr _ \<Rightarrow>
                         and_then
                           (flow_event (pn_event_id command) (pn_manifest command) (pn_problem command)
                             ''candidate'' (cd_candidate_id candidate)
                             (if ready then ''candidate_promoted'' else ''candidate_review_required'')
                             SYSTEM (pn_actor_id command)
                             (Some (candidate_status_value (cd_status (pn_candidate command))))
                             (Some (candidate_status_value (cd_status candidate)))
                             [(''verification_id'', JStr (vr_verification_id (pn_verification command)))]
                             (vf_clock env 1)) (\<lambda>event.
                         Inr \<lparr>ce_candidate = Some candidate, ce_event = event, ce_error = None\<rparr>)))))"

end
