(* ===== verification/Verifier_Properties.thy ===== *)
theory Verifier_Properties
  imports Candidate_Verifier Analysis_Properties Lifecycle Gated_Service
begin

section \<open>Properties of candidate verification\<close>

text \<open>
  The maps of the verifier are read as relations on the documents; verification then refines an
  abstract verdict on the replayed documents, and promotion an abstract condition on the records.
\<close>

subsection \<open>Scoped maps as relations\<close>

definition all_results :: "analysis_result list \<Rightarrow> result_item list" where
  "all_results documents = concat (map rs_results documents)"

definition all_evidence :: "analysis_result list \<Rightarrow> evidence list" where
  "all_evidence documents = concat (map rs_evidence documents)"

lemma all_items_simps [simp]:
  "all_results [] = []" "all_results (d # ds) = rs_results d @ all_results ds"
  "all_evidence [] = []" "all_evidence (d # ds) = rs_evidence d @ all_evidence ds"
  by (simp_all add: all_results_def all_evidence_def)

lemma index_by_snoc_disjoint:
  assumes "key x \<notin> key ` set xs"
  shows "m(key x \<mapsto> x) ++ index_by key xs = m ++ (index_by key xs)(key x \<mapsto> x)"
proof -
  have "index_by key xs (key x) = None" using assms by (simp add: index_by_None)
  then show ?thesis by (auto simp: map_add_def fun_eq_iff split: option.splits)
qed

lemma add_unique_Inr [result_simps]:
  "add_unique key message m x = Inr m' \<longleftrightarrow> m (key x) = None \<and> m' = m(key x \<mapsto> x)"
  by (auto simp: add_unique_def)

lemma fold_add_unique [result_simps]:
  "fold_result (add_unique key message) m xs = Inr m' \<longleftrightarrow>
     distinct (map key xs) \<and> (\<forall>x \<in> set xs. m (key x) = None) \<and> m' = m ++ index_by key xs"
proof (induction xs arbitrary: m)
  case (Cons x xs)
  have "fold_result (add_unique key message) m (x # xs) = Inr m' \<longleftrightarrow>
      m (key x) = None \<and> distinct (map key xs) \<and> (\<forall>y \<in> set xs. (m(key x \<mapsto> x)) (key y) = None)
      \<and> m' = m(key x \<mapsto> x) ++ index_by key xs"
    by (auto simp: and_then_Inr add_unique_Inr Cons.IH)
  moreover have "(\<forall>y \<in> set xs. (m(key x \<mapsto> x)) (key y) = None) \<longleftrightarrow>
      key x \<notin> key ` set xs \<and> (\<forall>y \<in> set xs. m (key y) = None)"
    by (auto simp: fun_upd_def image_iff)
  moreover have "key x \<notin> key ` set xs \<Longrightarrow> m(key x \<mapsto> x) ++ index_by key xs = m ++ index_by key (x # xs)"
    using index_by_snoc_disjoint [of key x xs m] by simp
  moreover have "distinct (map key (x # xs)) \<longleftrightarrow> key x \<notin> key ` set xs \<and> distinct (map key xs)"
    "(\<forall>y \<in> set (x # xs). m (key y) = None) \<longleftrightarrow> m (key x) = None \<and> (\<forall>y \<in> set xs. m (key y) = None)"
    by simp_all
  ultimately show ?case by metis
qed auto

lemma add_document_Inr:
  "add_document maps d = Inr m \<longleftrightarrow>
     fold_result (add_unique ri_result_id ''duplicate result_id across evidence runs'') (fst maps) (rs_results d)
       = Inr (fst m)
     \<and> fold_result (add_unique ei_evidence_id ''duplicate evidence_id across evidence runs'') (snd maps) (rs_evidence d)
       = Inr (snd m)"
  by (cases m) (auto simp: add_document_def and_then_Inr)

lemma fold_add_document:
  "fold_result add_document maps documents = Inr maps' \<longleftrightarrow>
     fold_result (add_unique ri_result_id ''duplicate result_id across evidence runs'') (fst maps)
       (all_results documents) = Inr (fst maps')
     \<and> fold_result (add_unique ei_evidence_id ''duplicate evidence_id across evidence runs'') (snd maps)
       (all_evidence documents) = Inr (snd maps')"
proof (induction documents arbitrary: maps)
  case Nil
  then show ?case by (simp add: prod_eq_iff)
next
  case (Cons d ds)
  show ?case by (auto simp: and_then_Inr add_document_Inr Cons.IH fold_result_append)
qed

lemma analysis_maps_Inr:
  "analysis_maps documents = Inr (rm, em) \<longleftrightarrow>
     distinct (map ri_result_id (all_results documents)) \<and> distinct (map ei_evidence_id (all_evidence documents))
     \<and> rm = index_by ri_result_id (all_results documents) \<and> em = index_by ei_evidence_id (all_evidence documents)"
  by (auto simp: analysis_maps_def fold_add_document result_simps)

lemma select_results_Inr [result_simps]:
  "select_results m ids = Inr selected \<longleftrightarrow>
     distinct ids \<and> (\<forall>i \<in> set ids. m i \<noteq> None) \<and> selected = map (\<lambda>i. the (m i)) ids"
  by (auto simp: select_results_def result_simps list_ex_iff)

lemma evidence_refs_Inr [result_simps]:
  "evidence_refs_of selected m = Inr refs \<longleftrightarrow>
     refs = from_keys (concat (map ri_evidence_refs selected)) \<and> refs \<noteq> [] \<and> (\<forall>i \<in> set refs. m i \<noteq> None)"
  by (auto simp: evidence_refs_of_def Let_def result_simps list_ex_iff)

lemma candidate_scope_Inr [result_simps]:
  "candidate_scope runs candidate = Inr maps \<longleftrightarrow>
     scoped_analysis_maps runs = Inr maps \<and> distinct (cd_result_refs candidate)
     \<and> (\<forall>i \<in> set (cd_result_refs candidate). fst maps i \<noteq> None)
     \<and> (\<forall>i \<in> set (cd_evidence_refs candidate). snd maps i \<noteq> None)"
  by (cases maps) (auto simp: candidate_scope_def result_simps list_ex_iff)

subsection \<open>Fresh replays\<close>

text \<open>
  \<open>fresh_replay env key run document\<close>: the approved bytes of the run are intact and free of forbidden
  values, and the verifier's adapter answers them with this new document, valid for the request.
\<close>

definition fresh_replay :: "verifier_env \<Rightarrow> string \<Rightarrow> evidence_run \<Rightarrow> analysis_result \<Rightarrow> bool" where
  "fresh_replay env key run document \<longleftrightarrow>
     replay_is_valid env (ru_approved_replay run)
     \<and> (\<exists>response. vf_analyze env key (ru_request run) (rb_body (ru_approved_replay run))
                    (rb_sha256 (ru_approved_replay run)) = Some response
          \<and> \<not> er_reused response \<and> er_result response = document
          \<and> validate_analysis_pair (vf_urls env) (ru_request run) document = Inr ())"

lemma fresh_replay_functional: "fresh_replay env key r x \<Longrightarrow> fresh_replay env key r y \<Longrightarrow> x = y"
  by (auto simp: fresh_replay_def)

lemma fresh_replays_unique:
  "list_all2 (fresh_replay env key) runs xs \<Longrightarrow> list_all2 (fresh_replay env key) runs ys \<Longrightarrow> xs = ys"
proof (induction runs arbitrary: xs ys)
  case (Cons r runs)
  then show ?case by (auto simp: list_all2_Cons1 dest: fresh_replay_functional)
qed simp

lemma replay_runs_Inr:
  "fst (replay_runs env key runs acc n) = Inr documents \<longleftrightarrow>
     (\<exists>new. documents = acc @ new \<and> list_all2 (fresh_replay env key) runs new)"
proof (induction runs arbitrary: acc n)
  case (Cons r runs)
  show ?case
  proof (cases "\<exists>d. fresh_replay env key r d")
    case True
    then obtain d where d: "fresh_replay env key r d" by blast
    then have "fst (replay_runs env key (r # runs) acc n) = fst (replay_runs env key runs (acc @ [d]) (Suc n))"
      by (auto simp: fresh_replay_def Let_def)
    moreover have "fresh_replay env key r d' \<longleftrightarrow> d' = d" for d'
      using d by (auto simp: fresh_replay_def)
    ultimately show ?thesis by (auto simp: Cons.IH list_all2_Cons1)
  next
    case False
    then show ?thesis by (auto simp: fresh_replay_def Let_def list_all2_Cons1 split: option.splits)
  qed
qed auto

lemma replay_runs_calls:
  "snd (replay_runs env key runs acc n) \<le> n + length runs"
  "fst (replay_runs env key runs acc n) = Inr documents \<Longrightarrow> snd (replay_runs env key runs acc n) = n + length runs"
proof -
  show "snd (replay_runs env key runs acc n) \<le> n + length runs"
  proof (induction runs arbitrary: acc n)
    case (Cons r runs)
    show ?case using Cons.IH [of _ "Suc n"] by (simp add: Let_def split: option.splits)
  qed simp
  show "fst (replay_runs env key runs acc n) = Inr documents \<Longrightarrow>
      snd (replay_runs env key runs acc n) = n + length runs"
  proof (induction runs arbitrary: acc n)
    case (Cons r runs)
    from Cons.prems show ?case
      using Cons.IH [of _ "Suc n"] by (auto simp: Let_def split: option.splits if_splits)
  qed simp
qed

text \<open>The adapter calls of a verification, whatever becomes of it afterwards.\<close>

definition verifier_calls :: "verifier_env \<Rightarrow> verification_command \<Rightarrow> nat" where
  "verifier_calls env command =
     (if verification_policy_error command = None
         \<and> is_ok (candidate_scope (vm_evidence_runs command) (vm_candidate command))
      then snd (replay_runs env (pr_problem_id (vm_problem command)) (vm_evidence_runs command) [] 0)
      else 0)"

interpretation verifier_gate: bounded_service verification_policy_error "verifier_calls env"
    "\<lambda>command. length (vm_evidence_runs command)" for env
  by unfold_locales (use replay_runs_calls(1) [of env _ _ "[]" 0] in \<open>simp_all add: verifier_calls_def\<close>)

lemma reported_calls: "verify env command = Inr x \<Longrightarrow> vx_adapter_calls x = verifier_calls env command"
  by (cases "verification_policy_error command";
      cases "candidate_scope (vm_evidence_runs command) (vm_candidate command)")
    (auto simp: verify_def verify_failed_def verify_incomplete_def verify_completed_def verifier_calls_def
      and_then_Inr split: sum.splits prod.splits)

subsection \<open>The abstract verdict\<close>

text \<open>
  The specification of a verification, on the documents alone: what it means for the replayed
  documents to reproduce a candidate, and the verdict this calls for.
\<close>

definition reproduces :: "verification_command \<Rightarrow> analysis_result list \<Rightarrow> bool" where
  "reproduces command documents \<longleftrightarrow>
     (let candidate = vm_candidate command; originals = map ru_result (vm_evidence_runs command) in
      cd_answer_format candidate = pr_answer_format (vm_problem command)
      \<and> cd_result_refs candidate \<noteq> []
      \<and> (\<exists>selected. map ri_result_id selected = cd_result_refs candidate
           \<and> set selected \<subseteq> set (all_results documents)
           \<and> cd_answer_value candidate = canonical_answer selected)
      \<and> (\<forall>i \<in> set (cd_result_refs candidate).
           \<exists>a \<in> set (all_results originals). \<exists>b \<in> set (all_results documents).
             ri_result_id a = i \<and> ri_result_id b = i \<and> same_result_dump a b)
      \<and> (\<forall>i \<in> set (cd_evidence_refs candidate).
           \<exists>a \<in> set (all_evidence originals). \<exists>b \<in> set (all_evidence documents).
             ei_evidence_id a = i \<and> ei_evidence_id b = i \<and> same_evidence_dump a b)
      \<and> (\<forall>original \<in> set originals.
           \<exists>d. documents_by_id documents (rs_analysis_id original) = Some d
             \<and> rs_chain_id d = rs_chain_id original))"

definition verdict :: "verification_command \<Rightarrow> analysis_result list \<Rightarrow> verification_status" where
  "verdict command documents =
     (if \<not> set (cd_evidence_refs (vm_candidate command)) \<subseteq> ei_evidence_id ` set (all_evidence documents)
      then VER_INCOMPLETE
      else if reproduces command documents then VER_PASS else VER_CONFLICT)"

lemma required_checks_pass:
  "list_all (base_pass command f) (required_checks_for selected evidences) \<longleftrightarrow>
     cd_answer_format (vm_candidate command) = pr_answer_format (vm_problem command)
     \<and> replay_selected f (vm_candidate command) \<noteq> []
     \<and> cd_answer_value (vm_candidate command) = canonical_answer (replay_selected f (vm_candidate command))
     \<and> chain_ids_match f (vm_evidence_runs command) \<and> results_match f (vm_candidate command)
     \<and> evidence_matches f (vm_candidate command)"
proof -
  have "list_all (base_pass command f) (required_checks_for selected evidences) \<longleftrightarrow>
      base_pass command f ''answer_format'' \<and> base_pass command f ''answer_value''
      \<and> base_pass command f ''chain_id'' \<and> base_pass command f ''result_values''
      \<and> base_pass command f ''evidence''"
    by (auto simp: required_checks_for_def Let_def base_pass_def)
  then show ?thesis by (auto simp: base_pass_def Let_def)
qed

lemma conflicts_empty:
  assumes "missing_evidence_of f (vm_candidate command) = []"
  shows "conflicts_of command f required = [] \<longleftrightarrow> list_all (base_pass command f) required"
  using assms by (auto simp: conflicts_of_def list_all_iff filter_empty_conv)

text \<open>The facts \<open>verify\<close> gathers from the originals and the replayed documents.\<close>

definition facts_of :: "evidence_run list \<Rightarrow> analysis_result list \<Rightarrow> replay_facts" where
  "facts_of runs documents =
     \<lparr>rf_original_results = index_by ri_result_id (all_results (map ru_result runs)),
      rf_original_evidence = index_by ei_evidence_id (all_evidence (map ru_result runs)),
      rf_replay_results = index_by ri_result_id (all_results documents),
      rf_replay_evidence = index_by ei_evidence_id (all_evidence documents),
      rf_replay_documents = documents_by_id documents\<rparr>"

definition unique_ids :: "analysis_result list \<Rightarrow> bool" where
  "unique_ids documents \<longleftrightarrow>
     distinct (map ri_result_id (all_results documents)) \<and> distinct (map ei_evidence_id (all_evidence documents))"

lemma analysis_maps_unique:
  "analysis_maps documents = Inr maps \<longleftrightarrow>
     unique_ids documents \<and> maps = (index_by ri_result_id (all_results documents), index_by ei_evidence_id (all_evidence documents))"
  by (cases maps) (auto simp: analysis_maps_Inr unique_ids_def)

lemma pair_lookup:
  assumes "distinct (map key xs)" and "distinct (map key ys)"
  shows "(case (index_by key xs i, index_by key ys i) of (Some a, Some b) \<Rightarrow> P a b | _ \<Rightarrow> False) \<longleftrightarrow>
    (\<exists>a \<in> set xs. \<exists>b \<in> set ys. key a = i \<and> key b = i \<and> P a b)"
proof -
  note lookup = index_by_iff [OF assms(1)] index_by_iff [OF assms(2)]
  show ?thesis using lookup by (auto split: option.splits) (metis option.distinct(1) option.inject)+
qed

lemma selected_by_id:
  assumes "distinct (map key items)"
  shows "(\<forall>i \<in> set ids. index_by key items i \<noteq> None) \<and> selected = map (\<lambda>i. the (index_by key items i)) ids \<longleftrightarrow>
    map key selected = ids \<and> set selected \<subseteq> set items"
proof (induction ids arbitrary: selected)
  case (Cons i ids)
  show ?case
    using Cons.IH [of "tl selected"] index_by_iff [OF assms, of i "hd selected"] by (cases selected) auto
qed auto

lemma replay_selected_of:
  assumes "unique_ids documents"
  shows "replay_selected (facts_of runs documents) candidate \<noteq> []
      \<and> v = canonical_answer (replay_selected (facts_of runs documents) candidate) \<longleftrightarrow>
    cd_result_refs candidate \<noteq> []
    \<and> (\<exists>selected. map ri_result_id selected = cd_result_refs candidate
         \<and> set selected \<subseteq> set (all_results documents) \<and> v = canonical_answer selected)"
proof -
  let ?m = "index_by ri_result_id (all_results documents)" and ?refs = "cd_result_refs candidate"
  have "distinct (map ri_result_id (all_results documents))" using assms by (simp add: unique_ids_def)
  note chosen = selected_by_id [OF this, of ?refs]
  have "replay_selected (facts_of runs documents) candidate =
      (if \<forall>i \<in> set ?refs. ?m i \<noteq> None then map (\<lambda>i. the (?m i)) ?refs else [])"
    by (auto simp: replay_selected_def facts_of_def list_ex_iff)
  moreover have "(\<exists>selected. map ri_result_id selected = ?refs \<and> set selected \<subseteq> set (all_results documents)
        \<and> v = canonical_answer selected)
      \<longleftrightarrow> (\<forall>i \<in> set ?refs. ?m i \<noteq> None) \<and> v = canonical_answer (map (\<lambda>i. the (?m i)) ?refs)"
    using chosen by metis
  ultimately show ?thesis by auto
qed

lemma facts_reproduce:
  assumes "unique_ids (map ru_result (vm_evidence_runs command))" and "unique_ids documents"
  shows "list_all (base_pass command (facts_of (vm_evidence_runs command) documents))
      (required_checks_for selected evidences) \<longleftrightarrow> reproduces command documents"
proof -
  let ?f = "facts_of (vm_evidence_runs command) documents" and ?c = "vm_candidate command"
  let ?o = "map ru_result (vm_evidence_runs command)"
  have ids: "distinct (map ri_result_id (all_results ?o))" "distinct (map ei_evidence_id (all_evidence ?o))"
    "distinct (map ri_result_id (all_results documents))" "distinct (map ei_evidence_id (all_evidence documents))"
    using assms by (simp_all add: unique_ids_def)
  have "results_match ?f ?c \<longleftrightarrow> (\<forall>i \<in> set (cd_result_refs ?c).
      \<exists>a \<in> set (all_results ?o). \<exists>b \<in> set (all_results documents).
        ri_result_id a = i \<and> ri_result_id b = i \<and> same_result_dump a b)"
    unfolding results_match_def list_all_iff facts_of_def replay_facts.simps pair_lookup [OF ids(1,3)] ..
  moreover have "evidence_matches ?f ?c \<longleftrightarrow> (\<forall>i \<in> set (cd_evidence_refs ?c).
      \<exists>a \<in> set (all_evidence ?o). \<exists>b \<in> set (all_evidence documents).
        ei_evidence_id a = i \<and> ei_evidence_id b = i \<and> same_evidence_dump a b)"
    unfolding evidence_matches_def list_all_iff facts_of_def replay_facts.simps pair_lookup [OF ids(2,4)] ..
  moreover have "chain_ids_match ?f (vm_evidence_runs command) \<longleftrightarrow> (\<forall>original \<in> set ?o.
      \<exists>d. documents_by_id documents (rs_analysis_id original) = Some d \<and> rs_chain_id d = rs_chain_id original)"
    by (auto simp: chain_ids_match_def facts_of_def list_all_iff split: option.splits)
  moreover note replay_selected_of [OF assms(2), of "vm_evidence_runs command" ?c "cd_answer_value ?c"]
  ultimately show ?thesis unfolding required_checks_pass reproduces_def Let_def by blast
qed

lemma verification_outcome_verdict:
  assumes "unique_ids (map ru_result (vm_evidence_runs command))" and "unique_ids documents"
  shows "verification_outcome command (facts_of (vm_evidence_runs command) documents)
      (required_checks_for selected evidences) = verdict command documents"
proof -
  let ?f = "facts_of (vm_evidence_runs command) documents"
  have "missing_evidence_of ?f (vm_candidate command) = [] \<longleftrightarrow>
      set (cd_evidence_refs (vm_candidate command)) \<subseteq> ei_evidence_id ` set (all_evidence documents)"
    by (auto simp: missing_evidence_of_def facts_of_def filter_empty_conv index_by_None)
  then show ?thesis
    using conflicts_empty [of ?f command] facts_reproduce [OF assms, of selected evidences]
    by (auto simp: verification_outcome_def verdict_def)
qed

lemma flow_event_Inr:
  "flow_event event_id manifest problem entity_type entity_id event_type actor actor_id fs ts details moment = Inr event
    \<Longrightarrow> validate_event event = Inr ()"
  by (auto simp: flow_event_def Let_def split: sum.splits)

lemma checked_verification_Inr [result_simps]:
  "checked_verification v = Inr w \<longleftrightarrow> w = v \<and> validate_verification v = Inr ()"
  by (auto simp: checked_verification_def split: sum.splits)

text \<open>The two ways in which a verification comes about.\<close>

lemma verify_cases:
  assumes "verify env command = Inr x" and "vx_verification x = Some v"
  obtains (incomplete) "verification_policy_error command = None"
      "v = incomplete_verification command (vf_clock env 0)"
      "\<nexists>documents. list_all2 (fresh_replay env (pr_problem_id (vm_problem command))) (vm_evidence_runs command) documents"
      "validate_verification v = Inr ()" "validate_event (vx_event x) = Inr ()"
    | (complete) documents selected evidences where "verification_policy_error command = None"
      "unique_ids (map ru_result (vm_evidence_runs command))" "unique_ids documents"
      "list_all2 (fresh_replay env (pr_problem_id (vm_problem command))) (vm_evidence_runs command) documents"
      "select_results (index_by ri_result_id (all_results (map ru_result (vm_evidence_runs command))))
        (cd_result_refs (vm_candidate command)) = Inr selected"
      "evidences = map (\<lambda>i. the (index_by ei_evidence_id (all_evidence (map ru_result (vm_evidence_runs command))) i))
        (cd_evidence_refs (vm_candidate command))"
      "v = verification_for command (facts_of (vm_evidence_runs command) documents)
        (required_checks_for selected evidences) (vf_clock env 0)"
      "validate_verification v = Inr ()" "validate_event (vx_event x) = Inr ()"
proof -
  let ?runs = "vm_evidence_runs command" and ?key = "pr_problem_id (vm_problem command)"
  have gate: "verification_policy_error command = None"
    using assms by (auto simp: verify_def verify_failed_def result_simps split: option.splits)
  obtain originals where originals: "candidate_scope ?runs (vm_candidate command) = Inr originals"
    using assms gate by (cases "candidate_scope ?runs (vm_candidate command)")
      (auto simp: verify_def verify_failed_def result_simps)
  obtain outcome calls where replay: "replay_runs env ?key ?runs [] 0 = (outcome, calls)" by fastforce
  have scope: "unique_ids (map ru_result ?runs)"
    "originals = (index_by ri_result_id (all_results (map ru_result ?runs)), index_by ei_evidence_id (all_evidence (map ru_result ?runs)))"
    using originals by (simp_all add: candidate_scope_Inr scoped_analysis_maps_def analysis_maps_unique)
  show thesis
  proof (cases outcome)
    case (Inl reason)
    then have "verify_incomplete env command reason calls = Inr x"
      using assms(1) gate originals replay by (simp add: verify_def)
    moreover have "\<nexists>documents. list_all2 (fresh_replay env ?key) ?runs documents"
      using replay_runs_Inr [of env ?key ?runs "[]" 0] replay Inl by force
    ultimately show thesis
      using assms(2) gate incomplete
      by (auto simp: verify_incomplete_def result_simps dest: flow_event_Inr)
  next
    case (Inr documents)
    then have finished: "verify_completed env command originals documents calls = Inr x"
      using assms(1) gate originals replay by (simp add: verify_def)
    then obtain replays where "analysis_maps documents = Inr replays"
      by (cases "analysis_maps documents") (auto simp: verify_completed_def)
    then have unique: "unique_ids documents"
      "replays = (index_by ri_result_id (all_results documents), index_by ei_evidence_id (all_evidence documents))"
      and maps: "analysis_maps documents = Inr replays"
      by (simp_all add: analysis_maps_unique)
    have all: "list_all2 (fresh_replay env ?key) ?runs documents"
      using replay_runs_Inr [of env ?key ?runs "[]" 0 documents] replay Inr by simp
    from finished assms(2) have "build_verification command (facts_of ?runs documents) (vf_clock env 0) = Inr v"
      "validate_event (vx_event x) = Inr ()"
      by (auto simp: verify_completed_def maps scope(2) unique(2) facts_of_def and_then_Inr dest: flow_event_Inr)
    then show thesis
      using complete [OF gate scope(1) unique(1) all]
      by (auto simp: build_verification_def facts_of_def result_simps split: sum.splits)
  qed
qed

subsection \<open>Promotion\<close>

lemma first_reason_None [simp]: "first_reason cs = None \<longleftrightarrow> list_all (\<lambda>c. \<not> fst c) cs"
  by (induction cs rule: first_reason.induct) auto

text \<open>What promotion asks of the records, on the documents alone.\<close>

definition promotable :: "candidate_promotion_command \<Rightarrow> bool" where
  "promotable command \<longleftrightarrow>
     (let candidate = pn_candidate command; verification = pn_verification command;
          originals = map ru_result (pn_evidence_runs command) in
      vr_status verification = VER_PASS
      \<and> (\<forall>run \<in> set (pn_evidence_runs command).
           jb_status (ru_job run) = JOB_COMPLETE \<and> rs_status (ru_result run) = AN_COMPLETE
           \<and> jb_job_id (ru_job run) \<in> set (vr_independent_from_job_ids verification))
      \<and> jb_job_id (pn_reporter_job command) \<in> set (vr_independent_from_job_ids verification)
      \<and> cd_uncertainties candidate = []
      \<and> (\<forall>i \<in> set (cd_result_refs candidate).
           \<exists>check \<in> set (vr_check_results verification). vc_passed check \<and> i \<in> set (vc_result_refs check))
      \<and> (\<forall>i \<in> set (cd_evidence_refs candidate).
           \<exists>check \<in> set (vr_check_results verification). vc_passed check \<and> i \<in> set (vc_evidence_refs check))
      \<and> (\<exists>selected evidences.
           map ri_result_id selected = cd_result_refs candidate \<and> set selected \<subseteq> set (all_results originals)
           \<and> map ei_evidence_id evidences = cd_evidence_refs candidate \<and> set evidences \<subseteq> set (all_evidence originals)
           \<and> (\<forall>name \<in> set (required_checks_for selected evidences).
                \<exists>check \<in> set (vr_check_results verification). vc_passed check \<and> vc_check check = name)
           \<and> cd_answer_value candidate = canonical_answer selected
           \<and> (\<forall>r \<in> set selected. ri_classification r = CONFIRMED_FACT)))"

lemma passed_refs_iff: "i \<in> passed_refs refs v \<longleftrightarrow> (\<exists>check \<in> set (vr_check_results v). vc_passed check \<and> i \<in> set (refs check))"
  by (auto simp: passed_refs_def)

lemma allows_promotion:
  assumes "candidate_scope (pn_evidence_runs command) (pn_candidate command) = Inr maps"
  shows "verification_allows_promotion command = Inr (promotable command)"
proof -
  let ?o = "map ru_result (pn_evidence_runs command)" and ?c = "pn_candidate command" and ?v = "pn_verification command"
  let ?rm = "index_by ri_result_id (all_results ?o)" and ?em = "index_by ei_evidence_id (all_evidence ?o)"
  have unique: "unique_ids ?o" and maps: "scoped_analysis_maps (pn_evidence_runs command) = Inr (?rm, ?em)"
    and scope: "distinct (cd_result_refs ?c)" "\<forall>i \<in> set (cd_result_refs ?c). ?rm i \<noteq> None"
    "\<forall>i \<in> set (cd_evidence_refs ?c). ?em i \<noteq> None"
    using assms by (auto simp: candidate_scope_Inr scoped_analysis_maps_def analysis_maps_unique)
  define selected where "selected = map (\<lambda>i. the (?rm i)) (cd_result_refs ?c)"
  define evidences where "evidences = map (\<lambda>i. the (?em i)) (cd_evidence_refs ?c)"
  have by_id: "map ri_result_id rs = cd_result_refs ?c \<and> set rs \<subseteq> set (all_results ?o) \<longleftrightarrow> rs = selected"
    "map ei_evidence_id es = cd_evidence_refs ?c \<and> set es \<subseteq> set (all_evidence ?o) \<longleftrightarrow> es = evidences" for rs es
    using selected_by_id [of ri_result_id "all_results ?o" "cd_result_refs ?c" rs] scope(2,3) unique
      selected_by_id [of ei_evidence_id "all_evidence ?o" "cd_evidence_refs ?c" es]
    by (simp_all add: unique_ids_def selected_def evidences_def)
  have "select_results ?rm (cd_result_refs ?c) = Inr selected"
    using scope by (simp add: select_results_Inr selected_def)
  then have "verification_allows_promotion command = Inr
      (vr_status ?v = VER_PASS
       \<and> (\<forall>run \<in> set (pn_evidence_runs command).
           jb_status (ru_job run) = JOB_COMPLETE \<and> rs_status (ru_result run) = AN_COMPLETE)
       \<and> cd_uncertainties ?c = []
       \<and> jb_job_id (pn_reporter_job command) \<in> set (vr_independent_from_job_ids ?v)
       \<and> (\<forall>run \<in> set (pn_evidence_runs command). jb_job_id (ru_job run) \<in> set (vr_independent_from_job_ids ?v))
       \<and> set (cd_result_refs ?c) \<subseteq> passed_refs vc_result_refs ?v
       \<and> set (cd_evidence_refs ?c) \<subseteq> passed_refs vc_evidence_refs ?v
       \<and> set (required_checks_for selected evidences) \<subseteq> set (map vc_check (filter vc_passed (vr_check_results ?v)))
       \<and> cd_answer_value ?c = canonical_answer selected
       \<and> list_all (\<lambda>r. ri_classification r = CONFIRMED_FACT) selected)"
    unfolding verification_allows_promotion_def Let_def maps
    by (auto simp: list_ex_iff evidences_def)
  moreover have "(\<exists>rs es. map ri_result_id rs = cd_result_refs ?c \<and> set rs \<subseteq> set (all_results ?o)
        \<and> map ei_evidence_id es = cd_evidence_refs ?c \<and> set es \<subseteq> set (all_evidence ?o) \<and> Q rs es)
      \<longleftrightarrow> Q selected evidences" for Q
    using by_id by metis
  moreover have "(\<forall>name \<in> set names. \<exists>check \<in> set (vr_check_results ?v). vc_passed check \<and> vc_check check = name)
      \<longleftrightarrow> set names \<subseteq> set (map vc_check (filter vc_passed (vr_check_results ?v)))" for names
    by (auto simp: subset_iff image_iff Bex_def)
  ultimately show ?thesis
    unfolding promotable_def Let_def by (auto simp: list_all_iff subset_iff passed_refs_iff)
qed

lemma promotion_policy_passed:
  assumes "promotion_policy_error command = None"
  shows "vr_candidate_id (pn_verification command) = cd_candidate_id (pn_candidate command)"
    and "vr_verifier_job_id (pn_verification command) \<noteq> cd_created_by_job_id (pn_candidate command)"
    and "cd_created_by_job_id (pn_candidate command) \<in> set (vr_independent_from_job_ids (pn_verification command))"
    and "cd_status (pn_candidate command) \<in> {CAND_DRAFT, CAND_REVIEW_REQUIRED}"
  using assms
  by (auto simp: promotion_policy_error_def Let_def simp del: first_reason.simps split: option.splits)

lemma promote_cases:
  assumes "promote env command = Inr x" and "ce_candidate x = Some candidate"
  shows "promotion_policy_error command = None"
    and "candidate = promoted_candidate command (promotable command) (vf_clock env 0)"
    and "validate_candidate candidate = Inr ()" and "validate_event (ce_event x) = Inr ()"
    and "\<exists>maps. candidate_scope (pn_evidence_runs command) (pn_candidate command) = Inr maps"
proof -
  show gate: "promotion_policy_error command = None"
    using assms by (auto simp: promote_def promotion_failed_def result_simps split: option.splits)
  show "\<exists>maps. candidate_scope (pn_evidence_runs command) (pn_candidate command) = Inr maps"
    using assms gate by (cases "candidate_scope (pn_evidence_runs command) (pn_candidate command)")
      (auto simp: promote_def promotion_failed_def result_simps)
  then obtain maps where "candidate_scope (pn_evidence_runs command) (pn_candidate command) = Inr maps" by blast
  with assms gate allows_promotion [OF this]
  show "candidate = promoted_candidate command (promotable command) (vf_clock env 0)"
    "validate_candidate candidate = Inr ()" "validate_event (ce_event x) = Inr ()"
    by (auto simp: promote_def Let_def result_simps dest: flow_event_Inr split: sum.splits)
qed

lemma build_cases:
  assumes "build_candidate env command = Inr x" and "ce_candidate x = Some candidate"
  obtains selected where "candidate_policy_error command = None"
    and "unique_ids (map ru_result (cb_evidence_runs command))"
    and "map ri_result_id selected = cb_selected_result_ids command"
    and "set selected \<subseteq> set (all_results (map ru_result (cb_evidence_runs command)))"
    and "candidate = draft_candidate command (from_keys (concat (map ri_evidence_refs selected)))
      (canonical_answer selected) (vf_clock env 0)"
    and "validate_candidate candidate = Inr ()" and "validate_event (ce_event x) = Inr ()"
    and "check_text (vf_forbidden env) (canonical_answer selected) = Inr ()"
    and "set (cd_evidence_refs candidate) \<subseteq> ei_evidence_id ` set (all_evidence (map ru_result (cb_evidence_runs command)))"
proof -
  have gate: "candidate_policy_error command = None"
    using assms by (auto simp: build_candidate_def build_failed_def result_simps split: option.splits)
  obtain refs answer where parts: "candidate_parts env command = Inr (refs, answer)"
    using assms gate by (cases "candidate_parts env command")
      (auto simp: build_candidate_def build_failed_def result_simps)
  have candidate: "candidate = draft_candidate command refs answer (vf_clock env 0)"
    "validate_candidate candidate = Inr ()" "validate_event (ce_event x) = Inr ()"
    using assms gate parts
    by (auto simp: build_candidate_def build_failed_def Let_def result_simps dest: flow_event_Inr split: if_splits)
  let ?o = "map ru_result (cb_evidence_runs command)"
  obtain selected where "unique_ids ?o"
    "(\<forall>i \<in> set (cb_selected_result_ids command). index_by ri_result_id (all_results ?o) i \<noteq> None)
      \<and> selected = map (\<lambda>i. the (index_by ri_result_id (all_results ?o) i)) (cb_selected_result_ids command)"
    "refs = from_keys (concat (map ri_evidence_refs selected))" "answer = canonical_answer selected"
    "guarded_text env answer = Inr ()" "\<forall>i \<in> set refs. index_by ei_evidence_id (all_evidence ?o) i \<noteq> None"
    using parts
    by (auto simp: candidate_parts_def Let_def scoped_analysis_maps_def analysis_maps_unique result_simps)
  then show thesis
    using that [of selected] gate candidate selected_by_id [of ri_result_id "all_results ?o" "cb_selected_result_ids command" selected]
    by (auto simp: unique_ids_def guarded_text_def draft_candidate_def index_by_None subset_iff split: sum.splits)
qed

subsection \<open>From verification to promotion\<close>

lemma passing_checks:
  assumes "vr_status (verification_for m f required finished) = VER_PASS"
  shows "list_all (base_pass m f) required"
  using assms by (auto simp: verification_for_def verification_outcome_def split: if_splits)

lemma confirmed_selection:
  assumes "distinct (map ri_result_id items)" and "map ri_result_id selected = ids" and "set selected \<subseteq> set items"
  shows "(\<forall>r \<in> set selected. P r) \<longleftrightarrow> (\<forall>r \<in> set items. ri_result_id r \<in> set ids \<longrightarrow> P r)"
proof -
  have "set selected = {r \<in> set items. ri_result_id r \<in> set ids}"
  proof (intro equalityI subsetI)
    fix r assume "r \<in> {r \<in> set items. ri_result_id r \<in> set ids}"
    then have r: "r \<in> set items" "ri_result_id r \<in> ri_result_id ` set selected"
      using assms(2) by (auto simp flip: set_map)
    then obtain s where "s \<in> set selected" "ri_result_id s = ri_result_id r" by auto
    with r(1) assms(1,3) same_key_iff [of ri_result_id items s r] show "r \<in> set selected" by auto
  next
    fix r assume "r \<in> set selected"
    with assms(2,3) show "r \<in> {r \<in> set items. ri_result_id r \<in> set ids}" by (auto simp flip: assms(2))
  qed
  then show ?thesis by auto
qed

lemma promotable_verified:
  assumes "unique_ids (map ru_result (pn_evidence_runs p))"
    and "map ri_result_id selected = cd_result_refs (pn_candidate p)"
    and "set selected \<subseteq> set (all_results (map ru_result (pn_evidence_runs p)))"
    and "map ei_evidence_id evidences = cd_evidence_refs (pn_candidate p)"
    and "set evidences \<subseteq> set (all_evidence (map ru_result (pn_evidence_runs p)))"
    and "cd_answer_value (pn_candidate p) = canonical_answer selected"
    and "pn_verification p = verification_for m f (required_checks_for selected evidences) finished"
    and "vm_candidate m = pn_candidate p" and "vm_evidence_runs m = pn_evidence_runs p"
    and "vm_reporter_job m = pn_reporter_job p"
  shows "promotable p \<longleftrightarrow>
      vr_status (pn_verification p) = VER_PASS \<and> cd_uncertainties (pn_candidate p) = []
      \<and> (\<forall>run \<in> set (pn_evidence_runs p).
           jb_status (ru_job run) = JOB_COMPLETE \<and> rs_status (ru_result run) = AN_COMPLETE)
      \<and> (\<forall>r \<in> set (all_results (map ru_result (pn_evidence_runs p))).
           ri_result_id r \<in> set (cd_result_refs (pn_candidate p)) \<longrightarrow> ri_classification r = CONFIRMED_FACT)"
    (is "_ \<longleftrightarrow> ?rhs")
proof
  let ?o = "map ru_result (pn_evidence_runs p)" and ?v = "pn_verification p"
  have unique: "distinct (map ri_result_id (all_results ?o))" "distinct (map ei_evidence_id (all_evidence ?o))"
    using assms(1) by (simp_all add: unique_ids_def)
  note confirmed = confirmed_selection [OF unique(1) assms(2,3)]
  have same: "rs = selected" if "map ri_result_id rs = cd_result_refs (pn_candidate p)" "set rs \<subseteq> set (all_results ?o)" for rs
    using that selected_by_id [OF unique(1), of _ selected] selected_by_id [OF unique(1), of _ rs] assms(2,3) by metis
  show ?rhs if "promotable p"
  proof -
    note parts = that [unfolded promotable_def Let_def]
    from parts obtain rs where "map ri_result_id rs = cd_result_refs (pn_candidate p)"
      "set rs \<subseteq> set (all_results ?o)" "\<forall>r \<in> set rs. ri_classification r = CONFIRMED_FACT" by blast
    then have "\<forall>r \<in> set selected. ri_classification r = CONFIRMED_FACT" using same by simp
    with parts show ?rhs unfolding confirmed by simp
  qed
  assume rhs: ?rhs
  let ?required = "required_checks_for selected evidences"
  have pass: "\<forall>name \<in> set ?required. base_pass m f name"
    using rhs passing_checks [of m f ?required finished] assms(7) by (simp add: list_all_iff)
  have checks: "vr_check_results ?v = map (\<lambda>name. \<lparr>vc_check = name, vc_passed = base_pass m f name,
      vc_result_refs = cd_result_refs (pn_candidate p), vc_evidence_refs = cd_evidence_refs (pn_candidate p)\<rparr>) ?required"
    using assms(7,8) by (simp add: verification_for_def)
  have covered: "\<exists>check \<in> set (vr_check_results ?v). vc_passed check \<and> vc_check check = name
      \<and> vc_result_refs check = cd_result_refs (pn_candidate p) \<and> vc_evidence_refs check = cd_evidence_refs (pn_candidate p)"
    if "name \<in> set ?required" for name
    using that pass by (auto simp: checks)
  have "''answer_format'' \<in> set ?required" by (simp add: required_checks_for_def Let_def)
  from covered [OF this]
  have refs: "\<forall>i \<in> set (cd_result_refs (pn_candidate p)). \<exists>check \<in> set (vr_check_results ?v). vc_passed check \<and> i \<in> set (vc_result_refs check)"
    "\<forall>i \<in> set (cd_evidence_refs (pn_candidate p)). \<exists>check \<in> set (vr_check_results ?v). vc_passed check \<and> i \<in> set (vc_evidence_refs check)"
    by metis+
  have required: "\<forall>name \<in> set ?required. \<exists>check \<in> set (vr_check_results ?v). vc_passed check \<and> vc_check check = name"
    using covered by blast
  have independent: "set (vr_independent_from_job_ids ?v) =
      insert (jb_job_id (pn_reporter_job p)) ((jb_job_id \<circ> ru_job) ` set (pn_evidence_runs p))"
    using assms(7,9,10) by (simp add: verification_for_def independent_job_ids_def)
  have "\<forall>r \<in> set selected. ri_classification r = CONFIRMED_FACT" using rhs confirmed by simp
  with assms(2-6) required show "promotable p"
    unfolding promotable_def Let_def independent using rhs refs by (intro conjI) (simp | blast)+
qed

text \<open>
  The maps of the replayed documents are built outside every exception handler: fresh, individually
  valid replays that share an id make \<open>verify\<close> raise instead of recording an incomplete verification.
\<close>

lemma duplicate_replays_raise:
  assumes "verification_policy_error command = None"
    and "candidate_scope (vm_evidence_runs command) (vm_candidate command) = Inr originals"
    and "list_all2 (fresh_replay env (pr_problem_id (vm_problem command))) (vm_evidence_runs command) documents"
    and "\<not> unique_ids documents"
  shows "\<exists>message. verify env command = Inl (Value_Raised message)"
proof -
  have "fst (replay_runs env (pr_problem_id (vm_problem command)) (vm_evidence_runs command) [] 0) = Inr documents"
    using assms(3) by (simp add: replay_runs_Inr)
  moreover obtain message where "analysis_maps documents = Inl message"
    using assms(4) analysis_maps_unique [of documents] by (cases "analysis_maps documents") auto
  ultimately show ?thesis
    using assms(1,2) by (auto simp: verify_def verify_completed_def split: prod.splits)
qed

subsection \<open>Properties\<close>

text \<open>
  C1: Verification refines its specification: the status it records is the verdict on the documents
  that the verifier's own adapter makes afresh of every run's approved bytes, and \<^verbatim>\<open>incomplete\<close>
  when some run has no such document. In particular it passes exactly when every referenced result
  and evidence item is reproduced and the answer is the one the replayed results stand for. The
  record is valid and names the reporter and every evidence job as independent.
\<close>

theorem verification_refines_verdict:
  assumes "verify env command = Inr x" and "vx_verification x = Some v"
  shows "(\<forall>documents. list_all2 (fresh_replay env (pr_problem_id (vm_problem command)))
            (vm_evidence_runs command) documents \<longrightarrow> vr_status v = verdict command documents)
    \<and> ((\<nexists>documents. list_all2 (fresh_replay env (pr_problem_id (vm_problem command)))
            (vm_evidence_runs command) documents) \<longrightarrow> vr_status v = VER_INCOMPLETE)
    \<and> validate_verification v = Inr () \<and> validate_event (vx_event x) = Inr ()
    \<and> set (vr_independent_from_job_ids v) =
        insert (jb_job_id (vm_reporter_job command)) ((jb_job_id \<circ> ru_job) ` set (vm_evidence_runs command))
    \<and> vx_adapter_calls x \<le> length (vm_evidence_runs command)"
  using assms
proof (cases rule: verify_cases)
  note calls = verifier_gate.within_budget [of env command, folded reported_calls [OF assms(1)]]
  case incomplete
  with calls show ?thesis by (simp add: incomplete_verification_def independent_job_ids_def)
next
  note calls = verifier_gate.within_budget [of env command, folded reported_calls [OF assms(1)]]
  case (complete documents selected evidences)
  let ?replays = "list_all2 (fresh_replay env (pr_problem_id (vm_problem command))) (vm_evidence_runs command)"
  have status: "vr_status v = verdict command documents"
    using verification_outcome_verdict [OF complete(2,3)] complete(7) by (simp add: verification_for_def)
  have "\<forall>documents'. ?replays documents' \<longrightarrow> vr_status v = verdict command documents'"
    using fresh_replays_unique [OF complete(4)] status by blast
  moreover have "(\<nexists>documents. ?replays documents) \<longrightarrow> vr_status v = VER_INCOMPLETE"
    using complete(4) by blast
  moreover have "set (vr_independent_from_job_ids v) =
      insert (jb_job_id (vm_reporter_job command)) ((jb_job_id \<circ> ru_job) ` set (vm_evidence_runs command))"
    using complete(7) by (simp add: verification_for_def independent_job_ids_def)
  ultimately show ?thesis using complete(8,9) calls by simp
qed

text \<open>
  C2: Promotion is exact: it makes a candidate ready for submission when the passing, independent
  verification of this very candidate covers every reference and every required check, all runs are
  complete, nothing is uncertain, every selected result is a confirmed fact and the answer is the
  one the results stand for; otherwise the candidate goes to review. Nothing else of it changes.
\<close>

theorem promotion_is_exact:
  assumes "promote env command = Inr x" and "ce_candidate x = Some candidate"
  shows "cd_status candidate = (if promotable command then CAND_SUBMISSION_READY else CAND_REVIEW_REQUIRED)
    \<and> candidate = (pn_candidate command)\<lparr>cd_status := cd_status candidate,
        cd_verification_refs := cd_verification_refs candidate,
        cd_recommendation := cd_recommendation candidate, cd_updated_at := cd_updated_at candidate\<rparr>
    \<and> set (cd_verification_refs candidate) =
        insert (vr_verification_id (pn_verification command)) (set (cd_verification_refs (pn_candidate command)))
    \<and> vr_candidate_id (pn_verification command) = cd_candidate_id candidate
    \<and> vr_verifier_job_id (pn_verification command) \<noteq> cd_created_by_job_id candidate
    \<and> cd_created_by_job_id candidate \<in> set (vr_independent_from_job_ids (pn_verification command))
    \<and> validate_candidate candidate = Inr () \<and> validate_event (ce_event x) = Inr ()"
proof -
  note cases = promote_cases [OF assms]
  have "vr_candidate_id (pn_verification command) = cd_candidate_id (pn_candidate command)"
    "vr_verifier_job_id (pn_verification command) \<noteq> cd_created_by_job_id (pn_candidate command)"
    "cd_created_by_job_id (pn_candidate command) \<in> set (vr_independent_from_job_ids (pn_verification command))"
    using promotion_policy_passed [OF cases(1)] by auto
  then show ?thesis
    using cases(3,4) unfolding cases(2) by (simp add: promoted_candidate_def)
qed

text \<open>
  C8: The three stages compose: a candidate as it was built, with the verification \<open>verify\<close> made of it
  over the same runs, is promoted to ready exactly when the verification passed, every run is
  complete, the builder left no uncertainty and the selected results are confirmed facts.
\<close>

theorem built_verified_promoted:
  assumes "build_candidate env1 b = Inr x1" and "ce_candidate x1 = Some candidate"
    and "verify env2 m = Inr x2" and "vx_verification x2 = Some v"
    and "promote env3 p = Inr x3" and "ce_candidate x3 = Some promoted"
    and "vm_candidate m = candidate" and "pn_candidate p = candidate" and "pn_verification p = v"
    and "vm_evidence_runs m = cb_evidence_runs b" and "pn_evidence_runs p = cb_evidence_runs b"
    and "pn_reporter_job p = vm_reporter_job m"
  shows "cd_status promoted = CAND_SUBMISSION_READY \<longleftrightarrow>
      vr_status v = VER_PASS \<and> cb_uncertainties b = []
      \<and> (\<forall>run \<in> set (cb_evidence_runs b).
           jb_status (ru_job run) = JOB_COMPLETE \<and> rs_status (ru_result run) = AN_COMPLETE)
      \<and> (\<forall>r \<in> set (all_results (map ru_result (cb_evidence_runs b))).
           ri_result_id r \<in> set (cb_selected_result_ids b) \<longrightarrow> ri_classification r = CONFIRMED_FACT)"
proof -
  note promotion = promote_cases [OF assms(5,6)]
  have status: "cd_status promoted = CAND_SUBMISSION_READY \<longleftrightarrow> promotable p"
    unfolding promotion(2) by (simp add: promoted_candidate_def)
  obtain selected where built: "unique_ids (map ru_result (cb_evidence_runs b))"
    "map ri_result_id selected = cb_selected_result_ids b"
    "set selected \<subseteq> set (all_results (map ru_result (cb_evidence_runs b)))"
    "candidate = draft_candidate b (from_keys (concat (map ri_evidence_refs selected))) (canonical_answer selected) (vf_clock env1 0)"
    using build_cases [OF assms(1,2)] by metis
  then have draft: "cd_result_refs candidate = cb_selected_result_ids b" "cd_uncertainties candidate = cb_uncertainties b"
    "cd_answer_value candidate = canonical_answer selected" by (simp_all add: draft_candidate_def)
  from assms(3,4) show ?thesis
  proof (cases rule: verify_cases)
    case incomplete
    then show ?thesis unfolding status by (simp add: promotable_def Let_def assms(9) incomplete_verification_def)
  next
    case (complete documents selected' evidences)
    let ?o = "map ru_result (cb_evidence_runs b)"
    note unique = built(1) [unfolded unique_ids_def]
    have "\<forall>i \<in> set (cd_evidence_refs candidate). index_by ei_evidence_id (all_evidence ?o) i \<noteq> None"
      using promotion(5) by (auto simp: candidate_scope_Inr scoped_analysis_maps_def analysis_maps_unique assms(8,11))
    then have evidences: "map ei_evidence_id evidences = cd_evidence_refs candidate" "set evidences \<subseteq> set (all_evidence ?o)"
      using selected_by_id [of ei_evidence_id "all_evidence ?o" "cd_evidence_refs candidate" evidences] unique complete(6)
      by (simp_all add: assms(7,10))
    have "selected' = selected"
      using complete(5) selected_by_id [of ri_result_id "all_results ?o" "cd_result_refs candidate" selected] unique built draft
      by (simp add: assms(7,10) select_results_Inr)
    then show ?thesis
      unfolding status
      using promotable_verified [of p selected evidences m _ "vf_clock env2 0"] complete(7) built draft evidences assms(7-12)
      by simp
  qed
qed

text \<open>
  C40: A draft is promoted along the transitions of the candidate lifecycle, but a candidate under
  review is not: the gate accepts it and moves it straight to \<^verbatim>\<open>submission_ready\<close> (or leaves it in
  review with a status-change event), although the only ways out of review are back to draft and
  to rejection.
\<close>

theorem review_promotion_leaves_lifecycle:
  assumes "promote env command = Inr x" and "ce_candidate x = Some candidate"
  shows "may_step ENTITY_CANDIDATE (candidate_status_value (cd_status (pn_candidate command)))
      (candidate_status_value (cd_status candidate)) \<longleftrightarrow> cd_status (pn_candidate command) = CAND_DRAFT"
proof -
  note cases = promote_cases [OF assms]
  have "cd_status (pn_candidate command) \<in> {CAND_DRAFT, CAND_REVIEW_REQUIRED}"
    using promotion_policy_passed [OF cases(1)] by auto
  moreover have "cd_status candidate \<in> {CAND_SUBMISSION_READY, CAND_REVIEW_REQUIRED}"
    unfolding cases(2) by (simp add: promoted_candidate_def)
  moreover have "may_step ENTITY_CANDIDATE ''draft'' ''submission_ready''"
    "may_step ENTITY_CANDIDATE ''draft'' ''review_required''"
    "\<not> may_step ENTITY_CANDIDATE ''review_required'' ''submission_ready''"
    "\<not> may_step ENTITY_CANDIDATE ''review_required'' ''review_required''"
    by code_simp+
  ultimately show ?thesis by auto
qed

subsection \<open>Witnesses\<close>

definition fx_run :: "string \<Rightarrow> evidence_run" where
  "fx_run sha =
     \<lparr>ru_job = fx_job ''JOB-EVD'' EVIDENCE JOB_COMPLETE, ru_request = fx_request,
      ru_result = fx_result AN_COMPLETE [], ru_approved_replay = \<lparr>rb_body = ''{}'', rb_sha256 = sha\<rparr>\<rparr>"

definition fx_verifier_env :: verifier_env where
  "fx_verifier_env =
     \<lparr>vf_analyze = (\<lambda>_ _ _ _. Some (fx_evidence_response (fx_result AN_COMPLETE []))),
      vf_forbidden = [''secret''], vf_clock = (\<lambda>_. 5), vf_urls = Some\<rparr>"

definition fx_build_command :: "string \<Rightarrow> candidate_build_command" where
  "fx_build_command sha =
     \<lparr>cb_manifest = fx_manifest, cb_problem = fx_problem, cb_plan = fx_plan,
      cb_reporter_job = fx_job ''JOB-REP'' REPORTER JOB_RUNNING, cb_evidence_runs = [fx_run sha],
      cb_candidate_id = ''CAND-AAA'', cb_selected_result_ids = [''RES-AAA''], cb_confidence = 90,
      cb_confidence_basis = ''b'', cb_uncertainties = [], cb_worker_id = ''WORKER-A'',
      cb_event_id = ''OEV-AAA'', cb_error_id = ''OERR-AAA''\<rparr>"

definition fx_built :: candidate_record where
  "fx_built = draft_candidate (fx_build_command []) [''EV-AAA'']
     (canonical_answer (rs_results (fx_result AN_COMPLETE []))) 5"

definition fx_verification_command :: "string \<Rightarrow> verification_command" where
  "fx_verification_command sha =
     \<lparr>vm_manifest = fx_manifest, vm_problem = fx_problem, vm_plan = fx_plan, vm_candidate = fx_built,
      vm_reporter_job = fx_job ''JOB-REP'' REPORTER JOB_COMPLETE,
      vm_verifier_job = fx_job ''JOB-VER'' VERIFIER JOB_RUNNING, vm_evidence_runs = [fx_run sha],
      vm_verification_id = ''VER-AAA'', vm_worker_id = ''WORKER-B'', vm_event_id = ''OEV-BBB'',
      vm_error_id = ''OERR-BBB''\<rparr>"

definition fx_passed :: verification_record where
  "fx_passed = verification_for (fx_verification_command [])
     (facts_of [fx_run []] [fx_result AN_COMPLETE []])
     (required_checks_for (rs_results (fx_result AN_COMPLETE [])) (rs_evidence (fx_result AN_COMPLETE []))) 5"

definition fx_promotion_command :: "string \<Rightarrow> candidate_status \<Rightarrow> candidate_promotion_command" where
  "fx_promotion_command sha status =
     \<lparr>pn_manifest = fx_manifest, pn_problem = fx_problem, pn_candidate = fx_built\<lparr>cd_status := status\<rparr>,
      pn_verification = fx_passed, pn_reporter_job = fx_job ''JOB-REP'' REPORTER JOB_COMPLETE,
      pn_verifier_job = fx_job ''JOB-VER'' VERIFIER JOB_COMPLETE, pn_evidence_runs = [fx_run sha],
      pn_actor_id = ''ACTOR-A'', pn_event_id = ''OEV-CCC'', pn_error_id = ''OERR-CCC''\<rparr>"

lemma fx_completed:
  "case verify_completed fx_verifier_env (fx_verification_command sha)
      (index_by ri_result_id (rs_results (fx_result AN_COMPLETE [])),
       index_by ei_evidence_id (rs_evidence (fx_result AN_COMPLETE []))) [fx_result AN_COMPLETE []] 1 of
     Inl _ \<Rightarrow> False | Inr x \<Rightarrow> vx_verification x = Some fx_passed"
  by code_simp

lemma fx_build_runs:
  "case build_candidate fx_verifier_env (fx_build_command sha) of
     Inl _ \<Rightarrow> False | Inr x \<Rightarrow> ce_candidate x = Some fx_built"
  by code_simp

lemma fx_promotes:
  "case promote fx_verifier_env (fx_promotion_command sha CAND_DRAFT) of
     Inl _ \<Rightarrow> False | Inr x \<Rightarrow> (case ce_candidate x of None \<Rightarrow> False | Some c \<Rightarrow> cd_status c = CAND_SUBMISSION_READY)"
  by code_simp

lemma fx_pass: "vr_status fx_passed = VER_PASS"
  by code_simp

lemma fx_gate: "verification_policy_error (fx_verification_command sha) = None"
  by code_simp

lemma fx_fresh:
  "fresh_replay fx_verifier_env key (fx_run (sha256_hex ''{}'')) (fx_result AN_COMPLETE [])"
proof -
  have "check_bytes [''secret''] ''{}'' = Inr ()" "validate_analysis_pair Some fx_request (fx_result AN_COMPLETE []) = Inr ()"
    by code_simp+
  then show ?thesis
    by (simp add: fresh_replay_def replay_is_valid_def fx_run_def fx_verifier_env_def fx_evidence_response_def)
qed

lemma fx_verify:
  obtains x where "verify fx_verifier_env (fx_verification_command (sha256_hex ''{}'')) = Inr x"
    "vx_verification x = Some fx_passed"
proof -
  let ?c = "fx_verification_command (sha256_hex ''{}'')" and ?d = "fx_result AN_COMPLETE []"
  let ?maps = "(index_by ri_result_id (rs_results ?d), index_by ei_evidence_id (rs_evidence ?d))"
  have runs: "vm_evidence_runs ?c = [fx_run (sha256_hex ''{}'')]" "ru_result (fx_run (sha256_hex ''{}'')) = ?d"
    by (simp_all add: fx_verification_command_def fx_run_def)
  have "unique_ids [?d]" by (simp add: unique_ids_def fx_result_def)
  moreover have "cd_result_refs (vm_candidate ?c) = [''RES-AAA'']" "cd_evidence_refs (vm_candidate ?c) = [''EV-AAA'']"
    by (simp_all add: fx_verification_command_def fx_built_def draft_candidate_def fx_build_command_def)
  ultimately have scope: "candidate_scope (vm_evidence_runs ?c) (vm_candidate ?c) = Inr ?maps"
    by (simp add: candidate_scope_Inr scoped_analysis_maps_def analysis_maps_unique runs) (simp add: fx_result_def)
  have fresh: "list_all2 (fresh_replay fx_verifier_env k) (vm_evidence_runs ?c) [?d]" for k
    using fx_fresh by (simp add: runs)
  obtain outcome calls where replay: "replay_runs fx_verifier_env (pr_problem_id (vm_problem ?c)) (vm_evidence_runs ?c) [] 0 = (outcome, calls)"
    by fastforce
  moreover from this have "outcome = Inr [?d]"
    using replay_runs_Inr [of fx_verifier_env "pr_problem_id (vm_problem ?c)" "vm_evidence_runs ?c" "[]" 0 "[?d]"] fresh by simp
  moreover from this replay have "calls = 1"
    using replay_runs_calls(2) [of fx_verifier_env "pr_problem_id (vm_problem ?c)" "vm_evidence_runs ?c" "[]" 0 "[?d]"]
    by (simp add: runs)
  ultimately have "verify fx_verifier_env ?c = verify_completed fx_verifier_env ?c ?maps [?d] 1"
    by (simp add: verify_def fx_gate scope)
  then show thesis using fx_completed [of "sha256_hex ''{}''"] that by (auto split: sum.splits)
qed

theorem verification_refines_verdict_witness:
  "verdict (fx_verification_command (sha256_hex ''{}'')) [fx_result AN_COMPLETE []] = VER_PASS"
proof -
  obtain x where x: "verify fx_verifier_env (fx_verification_command (sha256_hex ''{}'')) = Inr x"
    "vx_verification x = Some fx_passed" by (rule fx_verify)
  have "list_all2 (fresh_replay fx_verifier_env k) (vm_evidence_runs (fx_verification_command (sha256_hex ''{}'')))
      [fx_result AN_COMPLETE []]" for k
    using fx_fresh by (simp add: fx_verification_command_def)
  with verification_refines_verdict [OF x] fx_pass show ?thesis by simp
qed

theorem promotion_is_exact_witness:
  "promotable (fx_promotion_command [] CAND_DRAFT)"
proof -
  obtain x c where x: "promote fx_verifier_env (fx_promotion_command [] CAND_DRAFT) = Inr x" "ce_candidate x = Some c"
    "cd_status c = CAND_SUBMISSION_READY"
    using fx_promotes [of "[]"] by (auto split: sum.splits option.splits)
  then show ?thesis using promotion_is_exact [OF x(1,2)] by (simp split: if_splits)
qed

theorem built_verified_promoted_witness:
  "\<exists>x c. promote fx_verifier_env (fx_promotion_command (sha256_hex ''{}'') CAND_DRAFT) = Inr x
     \<and> ce_candidate x = Some c \<and> cd_status c = CAND_SUBMISSION_READY \<and> vr_status fx_passed = VER_PASS"
proof -
  let ?s = "sha256_hex ''{}''"
  obtain x1 where x1: "build_candidate fx_verifier_env (fx_build_command ?s) = Inr x1" "ce_candidate x1 = Some fx_built"
    using fx_build_runs [of ?s] by (auto split: sum.splits)
  obtain x2 where x2: "verify fx_verifier_env (fx_verification_command ?s) = Inr x2" "vx_verification x2 = Some fx_passed"
    by (rule fx_verify)
  obtain x3 c where x3: "promote fx_verifier_env (fx_promotion_command ?s CAND_DRAFT) = Inr x3" "ce_candidate x3 = Some c"
    "cd_status c = CAND_SUBMISSION_READY"
    using fx_promotes [of ?s] by (auto split: sum.splits option.splits)
  have "fx_built\<lparr>cd_status := CAND_DRAFT\<rparr> = fx_built" by (simp add: fx_built_def draft_candidate_def)
  then have "vr_status fx_passed = VER_PASS"
    using built_verified_promoted [OF x1 x2 x3(1,2)] x3(3)
    by (simp add: fx_verification_command_def fx_promotion_command_def fx_build_command_def)
  with x3 show ?thesis by blast
qed

theorem review_promotion_leaves_lifecycle_witness:
  "\<exists>x c. promote fx_verifier_env (fx_promotion_command [] CAND_REVIEW_REQUIRED) = Inr x
     \<and> ce_candidate x = Some c \<and> cd_status c = CAND_SUBMISSION_READY
     \<and> \<not> may_step ENTITY_CANDIDATE ''review_required'' (candidate_status_value (cd_status c))"
proof -
  have "case promote fx_verifier_env (fx_promotion_command [] CAND_REVIEW_REQUIRED) of
     Inl _ \<Rightarrow> False | Inr x \<Rightarrow> (case ce_candidate x of None \<Rightarrow> False | Some c \<Rightarrow> cd_status c = CAND_SUBMISSION_READY)"
    by code_simp
  then obtain x c where x: "promote fx_verifier_env (fx_promotion_command [] CAND_REVIEW_REQUIRED) = Inr x"
    "ce_candidate x = Some c" "cd_status c = CAND_SUBMISSION_READY"
    by (auto split: sum.splits option.splits)
  have "\<not> may_step ENTITY_CANDIDATE ''review_required'' (candidate_status_value (cd_status c))"
    using review_promotion_leaves_lifecycle [OF x(1,2)] by (simp add: fx_promotion_command_def)
  with x show ?thesis by blast
qed

end
