(* ===== verification/Operations_Snapshot.thy ===== *)
theory Operations_Snapshot
  imports Submission Planner "HOL-Library.Product_Lexorder"
begin

section \<open>The operations board\<close>

text \<open>
  \<^verbatim>\<open>application/operations_snapshot.py\<close>: the rows of the board, their field checks, and
  \<^verbatim>\<open>OperationsSnapshotBuilder\<close>, which projects a document to one snapshot. Building a row runs its
  field checks (\<open>checked\<close>), so a row that fails them makes \<open>build_snapshot\<close> raise. Rows of sources are
  given and were checked where they were made. \<open>Inl\<close> is the exception; ages are computed from
  microseconds exactly (the code divides to a float first), and instants have no upper end.
\<close>

subsection \<open>Rows\<close>

datatype snapshot_view_state =
    VIEW_DEFAULT | VIEW_EMPTY | VIEW_PARTIAL | VIEW_FAILED | VIEW_STALE | VIEW_RULES_UNAVAILABLE

datatype snapshot_alert = ALERT_STALE | ALERT_RULES_UNAVAILABLE

datatype worker_health =
    HEALTH_IDLE | HEALTH_QUEUED | HEALTH_RUNNING | HEALTH_WAITING | HEALTH_STOPPED | HEALTH_FAILED

datatype human_state = HUMAN_REVIEW_PENDING | HUMAN_READY | HUMAN_SUBMITTED

record snapshot_competition =
  snc_competition_id :: string
  snc_phase :: competition_phase
  snc_rules_snapshot_ref :: string
  snc_elapsed_seconds :: int
  snc_remaining_seconds :: int

record snapshot_ai_mode =
  sna_provider_id :: "string option"
  sna_model_id :: "string option"
  sna_data_boundary :: string
  sna_tool_mode :: string
  sna_rule_state :: ai_rule_state
  sna_rules_snapshot_ref :: string

record snapshot_summary =
  sns_total :: int
  sns_active :: int
  sns_verifying :: int
  sns_ready :: int
  sns_submitted :: int
  sns_queue_age_seconds :: int

record snapshot_problem =
  snp_problem_id :: string
  snp_title :: string
  snp_score :: int
  snp_priority :: problem_priority
  snp_status :: problem_status
  snp_owner :: string
  snp_progress :: string
  snp_active_jobs :: int
  snp_age_seconds :: int
  snp_next_action :: string

record snapshot_worker =
  snw_worker_id :: string
  snw_role :: job_role
  snw_job_id :: string
  snw_stage :: string
  snw_health :: worker_health
  snw_queue_reason :: "string option"
  snw_attempt :: int
  snw_max_attempts :: int

record snapshot_verification =
  snv_verification_id :: string
  snv_candidate_id :: string
  snv_status :: verification_status
  snv_passed_checks :: int
  snv_required_checks :: int
  snv_conflicts :: "string list"
  snv_missing_evidence :: "string list"

record snapshot_submission =
  snb_problem_id :: string
  snb_candidate_id :: string
  snb_answer_format :: string
  snb_answer_value :: string
  snb_confidence :: int
  snb_evidence_count :: int
  snb_uncertainty_count :: int
  snb_recommendation :: recommendation
  snb_human_state :: human_state

record snapshot_source =
  snk_capability :: string
  snk_provider_id :: string
  snk_health :: string
  snk_concurrency_limit :: int
  snk_in_flight :: int
  snk_retry_after_seconds :: "int option"
  snk_cache_status :: string

record snapshot_activity =
  sne_event_id :: string
  sne_problem_id :: "string option"
  sne_event_type :: string
  sne_actor_type :: string
  sne_actor_id :: string
  sne_created_at :: instant

record operations_snapshot =
  snap_operations_schema_version :: string
  snap_snapshot_id :: string
  snap_generated_at :: instant
  snap_stale_at :: instant
  snap_view_state :: snapshot_view_state
  snap_alerts :: "snapshot_alert list"
  snap_competition :: snapshot_competition
  snap_ai_mode :: "snapshot_ai_mode option"
  snap_summary :: snapshot_summary
  snap_problems :: "snapshot_problem list"
  snap_workers :: "snapshot_worker list"
  snap_verifications :: "snapshot_verification list"
  snap_submissions :: "snapshot_submission list"
  snap_sources :: "snapshot_source list"
  snap_activity :: "snapshot_activity list"

abbreviation "snapshot_id_ok \<equiv> id_pattern ''SNAP-'' 2 63"

definition snapshot_competition_ok :: "snapshot_competition \<Rightarrow> bool" where
  "snapshot_competition_ok c \<longleftrightarrow>
     competition_id_ok (snc_competition_id c) \<and> snc_rules_snapshot_ref c \<noteq> []
     \<and> 0 \<le> snc_elapsed_seconds c \<and> 0 \<le> snc_remaining_seconds c"

definition snapshot_ai_mode_ok :: "snapshot_ai_mode \<Rightarrow> bool" where
  "snapshot_ai_mode_ok m \<longleftrightarrow>
     optional_ok provider_pattern (sna_provider_id m) \<and> optional_ok (\<lambda>s. s \<noteq> []) (sna_model_id m)
     \<and> snake_pattern (sna_data_boundary m) \<and> snake_pattern (sna_tool_mode m)
     \<and> sna_rules_snapshot_ref m \<noteq> []"

definition snapshot_summary_ok :: "snapshot_summary \<Rightarrow> bool" where
  "snapshot_summary_ok s \<longleftrightarrow>
     0 \<le> sns_total s \<and> 0 \<le> sns_active s \<and> 0 \<le> sns_verifying s \<and> 0 \<le> sns_ready s
     \<and> 0 \<le> sns_submitted s \<and> 0 \<le> sns_queue_age_seconds s"

definition snapshot_problem_ok :: "snapshot_problem \<Rightarrow> bool" where
  "snapshot_problem_ok p \<longleftrightarrow>
     problem_id_ok (snp_problem_id p) \<and> snp_title p \<noteq> [] \<and> 0 \<le> snp_score p \<and> snp_owner p \<noteq> []
     \<and> snp_progress p \<noteq> [] \<and> 0 \<le> snp_active_jobs p \<and> 0 \<le> snp_age_seconds p \<and> snp_next_action p \<noteq> []"

definition snapshot_worker_ok :: "snapshot_worker \<Rightarrow> bool" where
  "snapshot_worker_ok w \<longleftrightarrow>
     snw_worker_id w \<noteq> [] \<and> snw_job_id w \<noteq> [] \<and> snw_stage w \<noteq> []
     \<and> optional_ok (\<lambda>s. s \<noteq> []) (snw_queue_reason w) \<and> 0 \<le> snw_attempt w \<and> 1 \<le> snw_max_attempts w"

definition snapshot_verification_ok :: "snapshot_verification \<Rightarrow> bool" where
  "snapshot_verification_ok v \<longleftrightarrow>
     snv_verification_id v \<noteq> [] \<and> snv_candidate_id v \<noteq> [] \<and> 0 \<le> snv_passed_checks v
     \<and> 0 \<le> snv_required_checks v \<and> distinct (snv_conflicts v) \<and> [] \<notin> set (snv_conflicts v)
     \<and> distinct (snv_missing_evidence v) \<and> [] \<notin> set (snv_missing_evidence v)"

definition snapshot_submission_ok :: "snapshot_submission \<Rightarrow> bool" where
  "snapshot_submission_ok s \<longleftrightarrow>
     problem_id_ok (snb_problem_id s) \<and> snb_candidate_id s \<noteq> [] \<and> snb_answer_format s \<noteq> []
     \<and> snb_answer_value s \<noteq> [] \<and> 0 \<le> snb_confidence s \<and> snb_confidence s \<le> 100
     \<and> 0 \<le> snb_evidence_count s \<and> 0 \<le> snb_uncertainty_count s"

definition in_flight_does_not_exceed_limit :: "snapshot_source \<Rightarrow> contract_error + unit" where
  "in_flight_does_not_exceed_limit s =
     raise_if (snk_concurrency_limit s < snk_in_flight s)
       (schema_invalid ''source in_flight exceeds concurrency_limit'')"

definition validate_snapshot_source :: "snapshot_source \<Rightarrow> contract_error + unit" where
  "validate_snapshot_source s =
     then_check
       (raise_if
         (\<not> (snake_pattern (snk_capability s) \<and> provider_pattern (snk_provider_id s)
             \<and> snake_pattern (snk_health s) \<and> 1 \<le> snk_concurrency_limit s \<and> 0 \<le> snk_in_flight s
             \<and> optional_ok (\<lambda>n. 0 \<le> n) (snk_retry_after_seconds s) \<and> snake_pattern (snk_cache_status s)))
         field_errors)
       (in_flight_does_not_exceed_limit s)"

definition snapshot_activity_ok :: "snapshot_activity \<Rightarrow> bool" where
  "snapshot_activity_ok a \<longleftrightarrow>
     operation_event_id_ok (sne_event_id a) \<and> optional_ok problem_id_ok (sne_problem_id a)
     \<and> snake_pattern (sne_event_type a) \<and> snake_pattern (sne_actor_type a) \<and> sne_actor_id a \<noteq> []"

definition checked :: "('a \<Rightarrow> bool) \<Rightarrow> 'a \<Rightarrow> contract_error + 'a" where
  "checked ok row = (if ok row then Inr row else Inl field_errors)"

definition checked_rows :: "('a \<Rightarrow> bool) \<Rightarrow> 'a list \<Rightarrow> contract_error + 'a list" where
  "checked_rows ok rows = (if list_all ok rows then Inr rows else Inl field_errors)"

subsection \<open>Projections\<close>

definition age_seconds :: "instant \<Rightarrow> instant \<Rightarrow> int" where
  "age_seconds start finish = max 0 ((finish - start) div 1000000)"

fun next_action :: "problem_status \<Rightarrow> string" where
  "next_action PROB_CAPTURED = ''confirm an allowed AI execution mode''"
| "next_action PROB_TRIAGED = ''approve the plan and queue leaf jobs''"
| "next_action PROB_QUEUED = ''monitor dependency and worker capacity''"
| "next_action PROB_RUNNING = ''review incoming evidence and checkpoints''"
| "next_action PROB_PARTIAL = ''resolve missing evidence or failed jobs''"
| "next_action PROB_VERIFYING = ''complete independent verification''"
| "next_action PROB_REVIEW_REQUIRED = ''resolve conflicts and uncertainties''"
| "next_action PROB_SUBMISSION_READY = ''copy the full answer for human submission''"
| "next_action PROB_SUBMITTED = ''review the recorded response and continue''"

fun worker_health_of :: "job_status \<Rightarrow> worker_health" where
  "worker_health_of JOB_QUEUED = HEALTH_QUEUED"
| "worker_health_of JOB_RUNNING = HEALTH_RUNNING"
| "worker_health_of JOB_WAITING = HEALTH_WAITING"
| "worker_health_of JOB_COMPLETE = HEALTH_IDLE"
| "worker_health_of JOB_PARTIAL = HEALTH_STOPPED"
| "worker_health_of JOB_CANCELLED = HEALTH_STOPPED"
| "worker_health_of JOB_FAILED = HEALTH_FAILED"

definition board_alerts :: "ai_execution_mode option \<Rightarrow> instant \<Rightarrow> instant \<Rightarrow> snapshot_alert list" where
  "board_alerts latest_mode observed_at stale_at =
     (if stale_at < observed_at then [ALERT_STALE] else [])
     @ (case latest_mode of
          None \<Rightarrow> []
        | Some m \<Rightarrow> if am_rule_state m \<noteq> AI_ALLOWED then [ALERT_RULES_UNAVAILABLE] else [])"

definition board_view_state ::
    "operations_bundle \<Rightarrow> ai_execution_mode option \<Rightarrow> instant \<Rightarrow> instant \<Rightarrow> snapshot_view_state" where
  "board_view_state bundle latest_mode observed_at stale_at =
     (if stale_at < observed_at then VIEW_STALE
      else if (case latest_mode of None \<Rightarrow> False | Some m \<Rightarrow> am_rule_state m \<noteq> AI_ALLOWED)
        then VIEW_RULES_UNAVAILABLE
      else if ob_problems bundle = [] then VIEW_EMPTY
      else if ob_errors bundle \<noteq> []
              \<and> \<not> list_ex (\<lambda>j. jb_status j \<in> {JOB_RUNNING, JOB_COMPLETE, JOB_PARTIAL}) (ob_jobs bundle)
        then VIEW_FAILED
      else if ob_errors bundle \<noteq> []
              \<or> list_ex (\<lambda>p. pr_status p = PROB_PARTIAL) (ob_problems bundle)
              \<or> list_ex (\<lambda>j. jb_status j \<in> {JOB_PARTIAL, JOB_FAILED}) (ob_jobs bundle)
              \<or> list_ex (\<lambda>v. vr_status v \<in> {VER_CONFLICT, VER_INCOMPLETE}) (ob_verifications bundle)
        then VIEW_PARTIAL
      else VIEW_DEFAULT)"

definition queue_ages :: "job_record list \<Rightarrow> instant \<Rightarrow> int list" where
  "queue_ages jobs generated_at =
     map (\<lambda>j. age_seconds (jb_queued_at j) generated_at)
       (filter (\<lambda>j. jb_status j \<in> {JOB_QUEUED, JOB_WAITING}) jobs)"

definition board_summary :: "problem_record list \<Rightarrow> job_record list \<Rightarrow> instant \<Rightarrow> snapshot_summary" where
  "board_summary problems jobs generated_at =
     \<lparr>sns_total = int (length problems),
      sns_active = int (count_if
        (\<lambda>p. pr_status p \<notin> {PROB_CAPTURED, PROB_SUBMISSION_READY, PROB_SUBMITTED}) problems),
      sns_verifying = int (count_if (\<lambda>p. pr_status p = PROB_VERIFYING) problems),
      sns_ready = int (count_if (\<lambda>p. pr_status p = PROB_SUBMISSION_READY) problems),
      sns_submitted = int (count_if (\<lambda>p. pr_status p = PROB_SUBMITTED) problems),
      sns_queue_age_seconds =
        (case queue_ages jobs generated_at of [] \<Rightarrow> 0 | a # as \<Rightarrow> fold max as a)\<rparr>"

definition worker_row :: "job_record \<Rightarrow> snapshot_worker" where
  "worker_row job =
     \<lparr>snw_worker_id =
        (case jb_assigned_worker_id job of
           Some w \<Rightarrow> w | None \<Rightarrow> ''unassigned-'' @ job_role_value (jb_role job)),
      snw_role = jb_role job, snw_job_id = jb_job_id job, snw_stage = jb_job_type job,
      snw_health = worker_health_of (jb_status job),
      snw_queue_reason =
        (if jb_status job = JOB_QUEUED then Some ''awaiting scheduler slot or dependency''
         else if jb_status job = JOB_WAITING then Some ''awaiting retry, source, or operator input''
         else None),
      snw_attempt = jb_attempt job, snw_max_attempts = jb_max_attempts job\<rparr>"

definition live_statuses :: "job_status set" where
  "live_statuses = {JOB_QUEUED, JOB_RUNNING, JOB_WAITING}"

definition problem_owner :: "job_record list \<Rightarrow> string" where
  "problem_owner jobs =
     (case find (\<lambda>j. jb_assigned_worker_id j \<noteq> None \<and> jb_status j = JOB_RUNNING) jobs of
        Some j \<Rightarrow> the (jb_assigned_worker_id j)
      | None \<Rightarrow>
          (case find (\<lambda>j. jb_assigned_worker_id j \<noteq> None) jobs of
             Some j \<Rightarrow> the (jb_assigned_worker_id j)
           | None \<Rightarrow> ''unassigned''))"

definition problem_row :: "problem_record \<Rightarrow> job_record list \<Rightarrow> instant \<Rightarrow> snapshot_problem" where
  "problem_row problem jobs generated_at =
     \<lparr>snp_problem_id = pr_problem_id problem, snp_title = pr_title problem, snp_score = pr_score problem,
      snp_priority = pr_priority problem, snp_status = pr_status problem, snp_owner = problem_owner jobs,
      snp_progress =
        show_nat (count_if (\<lambda>j. jb_status j = JOB_COMPLETE) jobs) @ ''/'' @ show_nat (length jobs) @ '' jobs'',
      snp_active_jobs = int (count_if (\<lambda>j. jb_status j \<in> live_statuses) jobs),
      snp_age_seconds = age_seconds (pr_created_at problem) generated_at,
      snp_next_action = next_action (pr_status problem)\<rparr>"

text \<open>\<^verbatim>\<open>_jobs_by_problem\<close> groups in insertion order; a problem without jobs has none.\<close>

fun add_to_group :: "(string, job_record list) dict \<Rightarrow> job_record \<Rightarrow> (string, job_record list) dict" where
  "add_to_group grouped job =
     dict_set (jb_problem_id job) (dict_get grouped (jb_problem_id job) [] @ [job]) grouped"

definition jobs_by_problem :: "job_record list \<Rightarrow> (string, job_record list) dict" where
  "jobs_by_problem jobs = fold (\<lambda>job grouped. add_to_group grouped job) jobs []"

definition event_key :: "operation_event \<Rightarrow> instant \<times> string" where
  "event_key e = (ev_created_at e, ev_event_id e)"

fun actor_type_value :: "actor_type \<Rightarrow> string" where
  "actor_type_value OPERATOR = ''operator''"
| "actor_type_value AI_ACTOR = ''ai''"
| "actor_type_value WORKER = ''worker''"
| "actor_type_value SYSTEM = ''system''"

definition activity_row :: "operation_event \<Rightarrow> snapshot_activity" where
  "activity_row e =
     \<lparr>sne_event_id = ev_event_id e, sne_problem_id = ev_problem_id e, sne_event_type = ev_event_type e,
      sne_actor_type = actor_type_value (ev_actor_type e), sne_actor_id = ev_actor_id e,
      sne_created_at = ev_created_at e\<rparr>"

text \<open>\<^verbatim>\<open>sorted(..., reverse=True)\<close> keeps the order of events with equal keys.\<close>

definition recent_events :: "operation_event list \<Rightarrow> nat \<Rightarrow> operation_event list" where
  "recent_events events limit = take limit (rev (sort_key event_key (rev events)))"

definition activity_rows :: "operation_event list \<Rightarrow> nat \<Rightarrow> snapshot_activity list" where
  "activity_rows events limit = map activity_row (recent_events events limit)"

definition submission_row :: "submission_record list \<Rightarrow> candidate_record \<Rightarrow> snapshot_submission" where
  "submission_row submissions c =
     \<lparr>snb_problem_id = cd_problem_id c, snb_candidate_id = cd_candidate_id c,
      snb_answer_format = cd_answer_format c, snb_answer_value = cd_answer_value c,
      snb_confidence = cd_confidence c, snb_evidence_count = int (length (cd_evidence_refs c)),
      snb_uncertainty_count = int (length (cd_uncertainties c)),
      snb_recommendation = cd_recommendation c,
      snb_human_state =
        (if cd_candidate_id c \<in> set (map sb_candidate_id submissions) then HUMAN_SUBMITTED
         else if cd_status c = CAND_SUBMISSION_READY then HUMAN_READY else HUMAN_REVIEW_PENDING)\<rparr>"

definition verification_row :: "verification_record \<Rightarrow> snapshot_verification" where
  "verification_row v =
     \<lparr>snv_verification_id = vr_verification_id v, snv_candidate_id = vr_candidate_id v,
      snv_status = vr_status v, snv_passed_checks = int (count_if vc_passed (vr_check_results v)),
      snv_required_checks = int (length (vr_required_checks v)), snv_conflicts = vr_conflicts v,
      snv_missing_evidence = vr_missing_evidence v\<rparr>"

definition ai_mode_row :: "ai_execution_mode \<Rightarrow> snapshot_ai_mode" where
  "ai_mode_row m =
     \<lparr>sna_provider_id = am_provider_id m, sna_model_id = am_model_id m,
      sna_data_boundary = data_boundary_value (am_data_boundary m),
      sna_tool_mode = tool_mode_value (am_tool_mode m), sna_rule_state = am_rule_state m,
      sna_rules_snapshot_ref = am_rules_snapshot_ref m\<rparr>"

text \<open>\<^verbatim>\<open>max\<close> returns the first of several modes created last.\<close>

fun latest_mode :: "ai_execution_mode list \<Rightarrow> ai_execution_mode option" where
  "latest_mode [] = None"
| "latest_mode (m # ms) =
     Some (fold (\<lambda>x best. if am_created_at best < am_created_at x then x else best) ms m)"

subsection \<open>The builder\<close>

record snapshot_builder =
  sbu_freshness_seconds :: int
  sbu_activity_limit :: int

definition snapshot_builder_init :: "snapshot_builder \<Rightarrow> string + unit" where
  "snapshot_builder_init b =
     then_check (raise_if (sbu_freshness_seconds b < 1) ''freshness_seconds must be positive'')
       (raise_if (sbu_activity_limit b < 1) ''activity_limit must be positive'')"

definition build_snapshot ::
    "snapshot_builder \<Rightarrow> instant \<Rightarrow> operations_bundle \<Rightarrow> string \<Rightarrow> int \<Rightarrow> int \<Rightarrow> instant option
      \<Rightarrow> snapshot_source list \<Rightarrow> contract_error + operations_snapshot" where
  "build_snapshot builder generated_at bundle snapshot_id elapsed remaining viewed_at sources =
     (let stale_at = generated_at + sbu_freshness_seconds builder * 1000000;
          observed_at = (case viewed_at of None \<Rightarrow> generated_at | Some t \<Rightarrow> t);
          groups = jobs_by_problem (ob_jobs bundle);
          mode = latest_mode (ob_ai_modes bundle) in
      and_then
        (checked_rows snapshot_problem_ok
          (map (\<lambda>p. problem_row p (dict_get groups (pr_problem_id p) []) generated_at) (ob_problems bundle))) (\<lambda>problems.
      and_then
        (checked snapshot_competition_ok
          \<lparr>snc_competition_id = mf_competition_id (ob_manifest bundle), snc_phase = mf_phase (ob_manifest bundle),
           snc_rules_snapshot_ref = mf_rules_snapshot_ref (ob_manifest bundle),
           snc_elapsed_seconds = elapsed, snc_remaining_seconds = remaining\<rparr>) (\<lambda>competition.
      and_then
        (case mode of
           None \<Rightarrow> Inr None
         | Some m \<Rightarrow> and_then (checked snapshot_ai_mode_ok (ai_mode_row m)) (\<lambda>row. Inr (Some row))) (\<lambda>ai_mode.
      and_then
        (checked snapshot_summary_ok (board_summary (ob_problems bundle) (ob_jobs bundle) generated_at)) (\<lambda>summary.
      and_then (checked_rows snapshot_worker_ok (map worker_row (ob_jobs bundle))) (\<lambda>workers.
      and_then
        (checked_rows snapshot_verification_ok (map verification_row (ob_verifications bundle))) (\<lambda>verifications.
      and_then
        (checked_rows snapshot_submission_ok
          (map (submission_row (ob_submissions bundle)) (ob_candidates bundle))) (\<lambda>submissions.
      and_then
        (checked_rows snapshot_activity_ok
          (activity_rows (ob_events bundle) (nat (sbu_activity_limit builder)))) (\<lambda>activity.
      checked
        (\<lambda>s. snap_operations_schema_version s = ''0.1'' \<and> snapshot_id_ok (snap_snapshot_id s))
        \<lparr>snap_operations_schema_version = ob_operations_schema_version bundle, snap_snapshot_id = snapshot_id,
         snap_generated_at = generated_at, snap_stale_at = stale_at,
         snap_view_state = board_view_state bundle mode observed_at stale_at,
         snap_alerts = board_alerts mode observed_at stale_at, snap_competition = competition,
         snap_ai_mode = ai_mode, snap_summary = summary, snap_problems = problems,
         snap_workers = workers, snap_verifications = verifications, snap_submissions = submissions,
         snap_sources = sources, snap_activity = activity\<rparr>)))))))))"

end
