(* ===== verification/Snapshot_Properties.thy ===== *)
theory Snapshot_Properties
  imports Operations_Snapshot Fixtures
begin

section \<open>Properties of the operations board\<close>

text \<open>
  When a snapshot of an accepted document is built, and how its rows, counts, alerts and activity
  agree with the document.
\<close>

subsection \<open>Lemmas on the projections\<close>

lemma jobs_by_problem_get:
  "dict_get (jobs_by_problem jobs) p [] = filter (\<lambda>j. jb_problem_id j = p) jobs"
proof -
  have "dict_get (fold (\<lambda>job grouped. add_to_group grouped job) jobs g) p []
      = dict_get g p [] @ filter (\<lambda>j. jb_problem_id j = p) jobs" for g
    by (induction jobs arbitrary: g) auto
  then show ?thesis by (simp add: jobs_by_problem_def dict_get_def)
qed

text \<open>Counting by groups: every item belongs to exactly one of the distinct groups.\<close>

lemma sum_over_groups:
  assumes "distinct gs" and "f ` set xs \<subseteq> set gs"
  shows "sum_list (map (\<lambda>g. count_if P (filter (\<lambda>x. f x = g) xs)) gs) = count_if P xs"
  using assms(2)
proof (induction xs)
  case Nil
  then show ?case by (simp add: sum_list_0)
next
  case (Cons x xs)
  have "sum_list (map (\<lambda>g. count_if P (filter (\<lambda>y. f y = g) (x # xs))) gs)
      = sum_list (map (\<lambda>g. count_if P (filter (\<lambda>y. f y = g) xs) + (if f x = g \<and> P x then 1 else 0)) gs)"
    by (rule arg_cong [where f = sum_list], rule map_cong) auto
  also have "\<dots> = count_if P xs + sum_list (map (\<lambda>g. if f x = g \<and> P x then 1 else 0) gs)"
    using Cons by (simp add: sum_list_addf)
  also have "sum_list (map (\<lambda>g. if f x = g \<and> P x then 1 else 0) gs) = (if P x then 1 else 0 :: nat)"
    using assms(1) Cons.prems
    by (simp add: sum_list_distinct_conv_sum_set sum.delta)
  finally show ?case by simp
qed

lemma recent_events_spec:
  shows "length (recent_events events n) = min n (length events)"
    and "set (recent_events events n) \<subseteq> set events"
    and "sorted_wrt (\<lambda>a b. event_key b \<le> event_key a) (recent_events events n)"
    and "e \<in> set events \<Longrightarrow> e \<notin> set (recent_events events n) \<Longrightarrow> r \<in> set (recent_events events n)
      \<Longrightarrow> event_key e \<le> event_key r"
proof -
  let ?xs = "rev (sort_key event_key (rev events))"
  have desc: "sorted_wrt (\<lambda>a b. event_key b \<le> event_key a) ?xs"
    using sorted_sort_key [of event_key "rev events"]
    by (simp add: sorted_wrt_rev sorted_wrt_map)
  have all: "set ?xs = set events" by simp
  show "length (recent_events events n) = min n (length events)" by (simp add: recent_events_def min.commute)
  show "set (recent_events events n) \<subseteq> set events"
    using set_take_subset [of n ?xs] by (simp add: recent_events_def)
  show "sorted_wrt (\<lambda>a b. event_key b \<le> event_key a) (recent_events events n)"
    using desc by (simp only: recent_events_def sorted_wrt_take)
  assume "e \<in> set events" "e \<notin> set (recent_events events n)" "r \<in> set (recent_events events n)"
  then have "e \<in> set (drop n ?xs)" "r \<in> set (take n ?xs)"
    using all by (metis append_take_drop_id recent_events_def set_append Un_iff)+
  then show "event_key e \<le> event_key r"
    using desc sorted_wrt_append [of _ "take n ?xs" "drop n ?xs"] by (simp only: append_take_drop_id)
qed

lemma fold_max_ge: "(0 :: int) \<le> a \<Longrightarrow> 0 \<le> fold max as a"
  by (induction as arbitrary: a) auto

lemma latest_mode_in: "latest_mode ms = Some m \<Longrightarrow> m \<in> set ms"
proof (cases ms)
  case (Cons x xs)
  have "fold (\<lambda>x best. if am_created_at best < am_created_at x then x else best) xs b \<in> insert b (set xs)" for b
  proof (induction xs arbitrary: b)
    case (Cons y ys)
    show ?case using Cons.IH [of "if am_created_at b < am_created_at y then y else b"] by (auto split: if_splits)
  qed simp
  then show "latest_mode ms = Some m \<Longrightarrow> m \<in> set ms" using Cons by auto
qed simp

lemma checked_Inr [result_simps]:
  "checked ok row = Inr r \<longleftrightarrow> ok row \<and> r = row"
  "checked_rows ok rows = Inr rs \<longleftrightarrow> list_all ok rows \<and> rs = rows"
  by (auto simp: checked_def checked_rows_def)

subsection \<open>Rows of an accepted document\<close>

lemma value_texts:
  "snake_pattern (data_boundary_value b)" "snake_pattern (tool_mode_value m)" "snake_pattern (actor_type_value a)"
  apply (cases b; hypsubst; code_simp)
  apply (cases m; hypsubst; code_simp)
  apply (cases a; hypsubst; code_simp)
  done

lemma next_action_nonempty: "next_action s \<noteq> []"
  by (cases s) simp_all

lemma snake_nonempty: "snake_pattern s \<Longrightarrow> s \<noteq> []"
  by (auto simp: snake_pattern_def)

lemma problem_rows_ok:
  assumes "validate_problem p = Inr ()" and "\<forall>j \<in> set jobs. validate_job j = Inr ()"
  shows "snapshot_problem_ok (problem_row p jobs t)"
proof -
  have "j \<in> set jobs \<Longrightarrow> jb_assigned_worker_id j = Some w \<Longrightarrow> w \<noteq> []" for j w
    using assms(2) id_pattern_nonempty by (fastforce simp: validate_job_def job_fields_ok_def result_simps)
  then have "problem_owner jobs \<noteq> []"
    by (auto simp: problem_owner_def find_Some_iff split: option.splits) (metis nth_mem)+
  then show ?thesis
    using assms(1)
    by (auto simp: snapshot_problem_ok_def problem_row_def validate_problem_def problem_fields_ok_def
        age_seconds_def next_action_nonempty result_simps)
qed

lemma worker_rows_ok: "validate_job j = Inr () \<Longrightarrow> snapshot_worker_ok (worker_row j)"
  by (auto simp: snapshot_worker_ok_def worker_row_def validate_job_def job_fields_ok_def result_simps
      dest: id_pattern_nonempty snake_nonempty split: option.splits)

lemma verification_rows_ok: "validate_verification v = Inr () \<Longrightarrow> snapshot_verification_ok (verification_row v)"
  using id_pattern_nonempty
  by (fastforce simp: snapshot_verification_ok_def verification_row_def validate_verification_def
      verification_fields_ok_def list_all_iff result_simps)

lemma submission_rows_ok: "validate_candidate c = Inr () \<Longrightarrow> snapshot_submission_ok (submission_row ss c)"
  using id_pattern_nonempty
  by (auto simp: snapshot_submission_ok_def submission_row_def validate_candidate_def candidate_fields_ok_def
      result_simps)

lemma activity_rows_ok: "validate_event e = Inr () \<Longrightarrow> snapshot_activity_ok (activity_row e)"
  by (auto simp: snapshot_activity_ok_def activity_row_def validate_event_def value_texts result_simps)

lemma mode_row_ok: "validate_mode m = Inr () \<Longrightarrow> snapshot_ai_mode_ok (ai_mode_row m)"
  by (auto simp: snapshot_ai_mode_ok_def ai_mode_row_def validate_mode_def mode_fields_ok_def value_texts
      result_simps)

lemma summary_ok: "snapshot_summary_ok (board_summary ps js t)"
  using fold_max_ge by (auto simp: snapshot_summary_ok_def board_summary_def queue_ages_def age_seconds_def
      split: list.splits)

lemma document_rows:
  assumes "validate_operations_document b = Inr ()"
  shows "list_all snapshot_problem_ok
      (map (\<lambda>p. problem_row p (dict_get (jobs_by_problem (ob_jobs b)) (pr_problem_id p) []) t) (ob_problems b))"
    and "list_all snapshot_worker_ok (map worker_row (ob_jobs b))"
    and "list_all snapshot_verification_ok (map verification_row (ob_verifications b))"
    and "list_all snapshot_submission_ok (map (submission_row (ob_submissions b)) (ob_candidates b))"
    and "list_all snapshot_activity_ok (activity_rows (ob_events b) n)"
    and "latest_mode (ob_ai_modes b) = Some m \<Longrightarrow> snapshot_ai_mode_ok (ai_mode_row m)"
proof -
  note records = validate_records_Inr [THEN iffD1, OF assms [unfolded validate_document_Inr, THEN conjunct1]]
  show "list_all snapshot_problem_ok
      (map (\<lambda>p. problem_row p (dict_get (jobs_by_problem (ob_jobs b)) (pr_problem_id p) []) t) (ob_problems b))"
    using records by (auto simp: list_all_iff jobs_by_problem_get intro: problem_rows_ok)
  show "list_all snapshot_worker_ok (map worker_row (ob_jobs b))"
    "list_all snapshot_verification_ok (map verification_row (ob_verifications b))"
    "list_all snapshot_submission_ok (map (submission_row (ob_submissions b)) (ob_candidates b))"
    using records by (auto simp: list_all_iff intro: worker_rows_ok verification_rows_ok submission_rows_ok)
  show "list_all snapshot_activity_ok (activity_rows (ob_events b) n)"
    using records recent_events_spec(2) [of "ob_events b" n]
    by (auto simp: list_all_iff activity_rows_def intro!: activity_rows_ok)
  show "latest_mode (ob_ai_modes b) = Some m \<Longrightarrow> snapshot_ai_mode_ok (ai_mode_row m)"
    using records latest_mode_in by (auto intro: mode_row_ok)
qed

lemma build_snapshot_Inr:
  assumes "validate_operations_document b = Inr ()"
  shows "build_snapshot builder t b sid elapsed remaining viewed sources = Inr s \<longleftrightarrow>
    snapshot_id_ok sid \<and> 0 \<le> elapsed \<and> 0 \<le> remaining
    \<and> (let mode = latest_mode (ob_ai_modes b); stale_at = t + sbu_freshness_seconds builder * 1000000;
           observed_at = (case viewed of None \<Rightarrow> t | Some v \<Rightarrow> v) in
       s = \<lparr>snap_operations_schema_version = ''0.1'', snap_snapshot_id = sid,
         snap_generated_at = t, snap_stale_at = stale_at,
         snap_view_state = board_view_state b mode observed_at stale_at,
         snap_alerts = board_alerts mode observed_at stale_at,
         snap_competition = \<lparr>snc_competition_id = mf_competition_id (ob_manifest b), snc_phase = mf_phase (ob_manifest b),
           snc_rules_snapshot_ref = mf_rules_snapshot_ref (ob_manifest b),
           snc_elapsed_seconds = elapsed, snc_remaining_seconds = remaining\<rparr>,
         snap_ai_mode = map_option ai_mode_row mode,
         snap_summary = board_summary (ob_problems b) (ob_jobs b) t,
         snap_problems = map (\<lambda>p. problem_row p (dict_get (jobs_by_problem (ob_jobs b)) (pr_problem_id p) []) t) (ob_problems b),
         snap_workers = map worker_row (ob_jobs b), snap_verifications = map verification_row (ob_verifications b),
         snap_submissions = map (submission_row (ob_submissions b)) (ob_candidates b),
         snap_sources = sources,
         snap_activity = activity_rows (ob_events b) (nat (sbu_activity_limit builder))\<rparr>)"
proof -
  have records: "ob_operations_schema_version b = ''0.1''" "validate_manifest (ob_manifest b) = Inr ()"
    using assms by (simp_all add: validate_document_Inr validate_records_Inr)
  then have "snapshot_competition_ok \<lparr>snc_competition_id = mf_competition_id (ob_manifest b), snc_phase = ph,
      snc_rules_snapshot_ref = mf_rules_snapshot_ref (ob_manifest b),
      snc_elapsed_seconds = elapsed, snc_remaining_seconds = remaining\<rparr> \<longleftrightarrow> 0 \<le> elapsed \<and> 0 \<le> remaining" for ph
    by (auto simp: snapshot_competition_ok_def validate_manifest_def manifest_fields_ok_def result_simps)
  moreover have "(case latest_mode (ob_ai_modes b) of None \<Rightarrow> Inr None
      | Some m \<Rightarrow> and_then (checked snapshot_ai_mode_ok (ai_mode_row m)) (\<lambda>row. Inr (Some row)))
      = Inr (map_option ai_mode_row (latest_mode (ob_ai_modes b)))"
    using document_rows(6) [OF assms] by (auto simp: checked_def split: option.splits)
  ultimately show ?thesis
    using document_rows(1-5) [OF assms] records(1)
    by (auto simp: build_snapshot_def Let_def result_simps summary_ok)
qed

text \<open>What the references of an accepted document give the board.\<close>

lemma document_jobs_have_problems:
  assumes "validate_operations_document b = Inr ()"
  shows "jb_problem_id ` set (ob_jobs b) \<subseteq> set (map pr_problem_id (ob_problems b))"
proof (rule image_subsetI)
  fix j assume "j \<in> set (ob_jobs b)"
  then have "check_job_refs (bundle_problems b) (bundle_plans b) j = Inr ()"
    using assms by (simp add: validate_document_Inr references_are_valid_Inr)
  then obtain p where "bundle_problems b (jb_problem_id j) = Some p"
    by (auto simp: check_job_refs_def and_then_Inr require_ref_Inr)
  from index_by_SomeD [OF this] have "p \<in> set (ob_problems b)" "pr_problem_id p = jb_problem_id j" by blast+
  then show "jb_problem_id j \<in> set (map pr_problem_id (ob_problems b))" by (metis image_eqI list.set_map)
qed

lemma document_submitted:
  assumes "validate_operations_document b = Inr ()" and "c \<in> set (ob_candidates b)"
    and "cd_candidate_id c \<in> set (map sb_candidate_id (ob_submissions b))"
  shows "cd_status c = CAND_SUBMITTED"
proof -
  obtain x where "x \<in> set (ob_submissions b)" "sb_candidate_id x = cd_candidate_id c" using assms(3) by auto
  moreover from this have "check_submission_refs (bundle_candidates b) x = Inr ()"
    and "distinct (map cd_candidate_id (ob_candidates b))"
    using assms(1) by (simp_all add: validate_document_Inr references_are_valid_Inr)
  ultimately show ?thesis
    using index_by_distinct [of cd_candidate_id, OF _ assms(2)] by (auto simp: check_submission_refs_Inr)
qed

lemma human_state_of:
  assumes "validate_operations_document b = Inr ()" and "c \<in> set (ob_candidates b)"
  shows "snb_human_state (submission_row (ob_submissions b) c) = HUMAN_READY \<longleftrightarrow> cd_status c = CAND_SUBMISSION_READY"
    and "snb_human_state (submission_row (ob_submissions b) c) = HUMAN_SUBMITTED \<Longrightarrow> cd_status c = CAND_SUBMITTED"
  using document_submitted [OF assms] by (auto simp: submission_row_def split: if_splits)

lemma active_rows_sum:
  assumes "validate_operations_document b = Inr ()"
  shows "sum_list (map (\<lambda>p. snp_active_jobs (problem_row p (dict_get (jobs_by_problem (ob_jobs b)) (pr_problem_id p) []) t)) (ob_problems b))
    = int (count_if (\<lambda>j. jb_status j \<in> live_statuses) (ob_jobs b))"
proof -
  let ?live = "\<lambda>j. jb_status j \<in> live_statuses"
  have "distinct (map pr_problem_id (ob_problems b))"
    using assms by (simp add: validate_document_Inr references_are_valid_Inr)
  from sum_over_groups [OF this document_jobs_have_problems [OF assms], of ?live]
  have "int (sum_list (map (\<lambda>p. count_if ?live (filter (\<lambda>j. jb_problem_id j = pr_problem_id p) (ob_jobs b))) (ob_problems b)))
      = int (count_if ?live (ob_jobs b))" by (simp add: o_def)
  then show ?thesis by (simp add: problem_row_def jobs_by_problem_get sum_list_of_nat o_def flip: sum_list_of_nat)
qed

lemma problems_partition:
  "length ps = count_if (\<lambda>p. pr_status p \<notin> {PROB_CAPTURED, PROB_SUBMISSION_READY, PROB_SUBMITTED}) ps
    + count_if (\<lambda>p. pr_status p = PROB_SUBMISSION_READY) ps + count_if (\<lambda>p. pr_status p = PROB_SUBMITTED) ps
    + count_if (\<lambda>p. pr_status p = PROB_CAPTURED) ps"
  by (induction ps) auto

lemma event_key_le: "event_key a \<le> event_key c \<Longrightarrow> ev_created_at a \<le> ev_created_at c"
  by (auto simp: event_key_def less_eq_prod_def)

subsection \<open>Properties\<close>

text \<open>
  For an accepted document a snapshot fails only for its own arguments: it is built exactly
  when the snapshot id has its form and the elapsed and remaining times are not negative. A snapshot
  viewed at the time it was made is never stale, and the alerts agree with the view state.
\<close>

theorem snapshot_builds_iff:
  assumes "validate_operations_document b = Inr ()" and "snapshot_builder_init builder = Inr ()"
  shows "((\<exists>s. build_snapshot builder t b sid elapsed remaining viewed sources = Inr s) \<longleftrightarrow>
      snapshot_id_ok sid \<and> 0 \<le> elapsed \<and> 0 \<le> remaining)
    \<and> (\<forall>s. build_snapshot builder t b sid elapsed remaining viewed sources = Inr s \<longrightarrow>
      (viewed = None \<longrightarrow> snap_view_state s \<noteq> VIEW_STALE)
      \<and> (snap_view_state s = VIEW_STALE \<longleftrightarrow> ALERT_STALE \<in> set (snap_alerts s))
      \<and> (snap_view_state s = VIEW_RULES_UNAVAILABLE \<longleftrightarrow> snap_alerts s = [ALERT_RULES_UNAVAILABLE]))"
proof -
  have "0 < sbu_freshness_seconds builder"
    using assms(2) by (simp add: snapshot_builder_init_def result_simps)
  then show ?thesis
    unfolding build_snapshot_Inr [OF assms(1)] Let_def
    by (auto simp: board_view_state_def board_alerts_def split: option.splits if_splits)
qed

text \<open>
  C35: The board agrees with its document: the active jobs of the problem rows add up to the live
  jobs of the document, every problem is counted in exactly one of active, ready, submitted and
  captured, a candidate shows as ready exactly when it is submission-ready and as submitted only when
  it was submitted, and the activity list holds the latest events, latest first.
\<close>

theorem board_agrees_with_document:
  assumes "validate_operations_document b = Inr ()"
    and "build_snapshot builder t b sid elapsed remaining viewed sources = Inr s"
  shows "sum_list (map snp_active_jobs (snap_problems s)) = int (count_if (\<lambda>j. jb_status j \<in> live_statuses) (ob_jobs b))
    \<and> sns_total (snap_summary s) = sns_active (snap_summary s) + sns_ready (snap_summary s)
        + sns_submitted (snap_summary s) + int (count_if (\<lambda>p. pr_status p = PROB_CAPTURED) (ob_problems b))
    \<and> (\<forall>c \<in> set (ob_candidates b). \<exists>row \<in> set (snap_submissions s). snb_candidate_id row = cd_candidate_id c
        \<and> (snb_human_state row = HUMAN_READY \<longleftrightarrow> cd_status c = CAND_SUBMISSION_READY)
        \<and> (snb_human_state row = HUMAN_SUBMITTED \<longrightarrow> cd_status c = CAND_SUBMITTED))
    \<and> length (snap_activity s) = min (nat (sbu_activity_limit builder)) (length (ob_events b))
    \<and> (\<forall>e \<in> set (ob_events b). activity_row e \<notin> set (snap_activity s) \<longrightarrow>
        (\<forall>a \<in> set (snap_activity s). ev_created_at e \<le> sne_created_at a))
    \<and> sorted_wrt (\<lambda>a c. sne_created_at c \<le> sne_created_at a) (snap_activity s)"
proof (intro conjI)
  note built = assms(2) [unfolded build_snapshot_Inr [OF assms(1)] Let_def, THEN conjunct2, THEN conjunct2, THEN conjunct2]
  let ?n = "nat (sbu_activity_limit builder)"
  show "sum_list (map snp_active_jobs (snap_problems s)) = int (count_if (\<lambda>j. jb_status j \<in> live_statuses) (ob_jobs b))"
    using active_rows_sum [OF assms(1)] by (simp add: built o_def)
  show "sns_total (snap_summary s) = sns_active (snap_summary s) + sns_ready (snap_summary s)
        + sns_submitted (snap_summary s) + int (count_if (\<lambda>p. pr_status p = PROB_CAPTURED) (ob_problems b))"
    using problems_partition [of "ob_problems b"] by (simp add: built board_summary_def)
  show "\<forall>c \<in> set (ob_candidates b). \<exists>row \<in> set (snap_submissions s). snb_candidate_id row = cd_candidate_id c
        \<and> (snb_human_state row = HUMAN_READY \<longleftrightarrow> cd_status c = CAND_SUBMISSION_READY)
        \<and> (snb_human_state row = HUMAN_SUBMITTED \<longrightarrow> cd_status c = CAND_SUBMITTED)"
  proof
    fix c assume c: "c \<in> set (ob_candidates b)"
    then have "submission_row (ob_submissions b) c \<in> set (snap_submissions s)" by (simp add: built)
    moreover have "snb_candidate_id (submission_row (ob_submissions b) c) = cd_candidate_id c"
      by (simp add: submission_row_def)
    ultimately show "\<exists>row \<in> set (snap_submissions s). snb_candidate_id row = cd_candidate_id c
        \<and> (snb_human_state row = HUMAN_READY \<longleftrightarrow> cd_status c = CAND_SUBMISSION_READY)
        \<and> (snb_human_state row = HUMAN_SUBMITTED \<longrightarrow> cd_status c = CAND_SUBMITTED)"
      using human_state_of [OF assms(1) c] by blast
  qed
  have activity: "snap_activity s = map activity_row (recent_events (ob_events b) ?n)"
    by (simp add: built activity_rows_def)
  show "length (snap_activity s) = min ?n (length (ob_events b))"
    by (simp add: activity recent_events_spec(1))
  show "\<forall>e \<in> set (ob_events b). activity_row e \<notin> set (snap_activity s) \<longrightarrow>
        (\<forall>a \<in> set (snap_activity s). ev_created_at e \<le> sne_created_at a)"
  proof (intro ballI impI)
    fix e a assume e: "e \<in> set (ob_events b)" "activity_row e \<notin> set (snap_activity s)" "a \<in> set (snap_activity s)"
    then obtain r where "r \<in> set (recent_events (ob_events b) ?n)" "a = activity_row r"
      and "e \<notin> set (recent_events (ob_events b) ?n)"
      by (auto simp: activity)
    with recent_events_spec(4) [OF e(1)] event_key_le show "ev_created_at e \<le> sne_created_at a"
      by (simp add: activity_row_def)
  qed
  show "sorted_wrt (\<lambda>a c. sne_created_at c \<le> sne_created_at a) (snap_activity s)"
    unfolding activity sorted_wrt_map
    by (rule sorted_wrt_mono_rel [OF _ recent_events_spec(3)]) (simp add: activity_row_def event_key_le)
qed

subsection \<open>Witnesses\<close>

definition fx_builder :: snapshot_builder where
  "fx_builder = \<lparr>sbu_freshness_seconds = 30, sbu_activity_limit = 20\<rparr>"

theorem snapshot_builds_iff_witness:
  "\<exists>s. build_snapshot fx_builder 5 fx_submitted ''SNAP-AAA'' 0 0 None [] = Inr s \<and> snap_view_state s \<noteq> VIEW_STALE"
proof -
  have "snapshot_builder_init fx_builder = Inr ()" "snapshot_id_ok ''SNAP-AAA''" by code_simp+
  with snapshot_builds_iff [OF fx_submitted_valid, of fx_builder 5 "''SNAP-AAA''" 0 0 None "[]"] show ?thesis by auto
qed

theorem board_agrees_with_document_witness:
  "\<exists>s. build_snapshot fx_builder 5 fx_submitted ''SNAP-AAA'' 0 0 None [] = Inr s
     \<and> sum_list (map snp_active_jobs (snap_problems s)) = 0"
proof -
  have "snapshot_id_ok ''SNAP-AAA''" by code_simp
  then obtain s where s: "build_snapshot fx_builder 5 fx_submitted ''SNAP-AAA'' 0 0 None [] = Inr s"
    using build_snapshot_Inr [OF fx_submitted_valid, of fx_builder 5 "''SNAP-AAA''" 0 0 None "[]"]
    unfolding Let_def by simp
  moreover have "count_if (\<lambda>j. jb_status j \<in> live_statuses) (ob_jobs fx_submitted) = 0" by code_simp
  ultimately show ?thesis using board_agrees_with_document [OF fx_submitted_valid s] by auto
qed

end
