(* ===== verification/Bitcoin_Utxo.thy ===== *)
theory Bitcoin_Utxo
  imports Operations
begin

section \<open>Bitcoin UTXO replays\<close>

text \<open>
  \<^verbatim>\<open>domain/bitcoin_utxo.py\<close>: the records of a reviewed replay with their validators, the facts
  recomputed from it and the heuristics. The records are what \<^verbatim>\<open>model_validate\<close> parsed from the JSON
  of the replay; literal fields are kept and compared. Results are JSON values.
\<close>

subsection \<open>Records\<close>

record bitcoin_prevout =
  bp_transaction_id :: string
  bp_vout :: int
  bp_value_sat :: int
  bp_script_type :: string
  bp_address :: string

record bitcoin_input =
  bi_prevout :: bitcoin_prevout
  bi_sequence :: int

record bitcoin_output =
  bo_vout :: int
  bo_value_sat :: int
  bo_script_type :: string
  bo_address :: string

datatype provider_role = ROLE_PRIMARY | ROLE_VERIFY | ROLE_SUPPORTING

record bitcoin_provider_observation =
  bv_provider_id :: string
  bv_role :: provider_role
  bv_retrieved_at :: instant
  bv_artifact_file :: string
  bv_artifact_sha256 :: string
  bv_decoded_match :: bool

record bitcoin_transaction_replay =
  bt_transaction_id :: string
  bt_network :: string
  bt_block_height :: int
  bt_block_hash :: string
  bt_block_time :: int
  bt_fee_sat :: int
  bt_inputs :: "bitcoin_input list"
  bt_outputs :: "bitcoin_output list"
  bt_providers :: "bitcoin_provider_observation list"

record bitcoin_spend_hop =
  bh_depth :: int
  bh_spent_transaction_id :: string
  bh_spent_vout :: int
  bh_spent_value_sat :: int
  bh_spending_transaction_id :: string
  bh_spending_vin :: int
  bh_block_height :: int
  bh_fee_sat :: int
  bh_created_outputs :: "bitcoin_output list"
  bh_providers :: "bitcoin_provider_observation list"

record bitcoin_utxo_replay =
  br_replay_version :: string
  br_fixture_id :: string
  br_observations_complete :: bool
  br_transaction :: bitcoin_transaction_replay
  br_spend_path :: "bitcoin_spend_hop list"
  br_source_ids :: "string list"

subsection \<open>Validators\<close>

abbreviation "bitcoin_txid_ok \<equiv> sha256_pattern"

abbreviation btc_invalid :: "string \<Rightarrow> contract_error" where
  "btc_invalid message \<equiv> Pydantic_Error ''invalid_input'' message"

abbreviation reconciliation_failed :: "string \<Rightarrow> contract_error" where
  "reconciliation_failed message \<equiv> Pydantic_Error ''reconciliation_failed'' message"

definition prevout_ok :: "bitcoin_prevout \<Rightarrow> bool" where
  "prevout_ok p \<longleftrightarrow>
     bitcoin_txid_ok (bp_transaction_id p) \<and> 0 \<le> bp_vout p \<and> 0 \<le> bp_value_sat p
     \<and> bp_script_type p \<noteq> [] \<and> bp_address p \<noteq> []"

definition btc_input_ok :: "bitcoin_input \<Rightarrow> bool" where
  "btc_input_ok i \<longleftrightarrow> prevout_ok (bi_prevout i) \<and> 0 \<le> bi_sequence i"

definition btc_output_ok :: "bitcoin_output \<Rightarrow> bool" where
  "btc_output_ok out \<longleftrightarrow>
     0 \<le> bo_vout out \<and> 0 \<le> bo_value_sat out \<and> bo_script_type out \<noteq> [] \<and> bo_address out \<noteq> []"

definition observation_ok :: "bitcoin_provider_observation \<Rightarrow> bool" where
  "observation_ok v \<longleftrightarrow>
     provider_pattern (bv_provider_id v) \<and> bv_artifact_file v \<noteq> []
     \<and> sha256_pattern (bv_artifact_sha256 v) \<and> bv_decoded_match v"

fun required_provider :: "provider_role \<Rightarrow> string" where
  "required_provider ROLE_PRIMARY = ''publicnode.bitcoin''"
| "required_provider ROLE_VERIFY = ''mempool.space''"
| "required_provider ROLE_SUPPORTING = ''blockstream.info''"

text \<open>\<^verbatim>\<open>next(item for item in providers if item.role == role)\<close>\<close>

definition provider_of :: "provider_role \<Rightarrow> bitcoin_provider_observation list \<Rightarrow> bitcoin_provider_observation option" where
  "provider_of role providers = find (\<lambda>v. bv_role v = role) providers"

definition provider_differs :: "provider_role \<Rightarrow> bitcoin_provider_observation list \<Rightarrow> bool" where
  "provider_differs role providers =
     (case provider_of role providers of
        None \<Rightarrow> False | Some v \<Rightarrow> bv_provider_id v \<noteq> required_provider role)"

definition validate_provider_observations ::
    "string \<Rightarrow> bitcoin_provider_observation list \<Rightarrow> contract_error + unit" where
  "validate_provider_observations context providers =
     (let role_count = (\<lambda>role. count_if (\<lambda>v. bv_role v = role) providers) in
      all_checks
       [raise_if (\<not> distinct (map bv_provider_id providers))
          (btc_invalid (context @ '' provider IDs must be distinct'')),
        raise_if (role_count ROLE_PRIMARY \<noteq> 1 \<or> role_count ROLE_VERIFY \<noteq> 1)
          (btc_invalid (context @ '' requires exactly one primary and one verify provider'')),
        raise_if (1 < role_count ROLE_SUPPORTING)
          (btc_invalid (context @ '' allows at most one supporting provider'')),
        raise_if (provider_differs ROLE_PRIMARY providers)
          (btc_invalid (context @ '' primary provider must be publicnode.bitcoin'')),
        raise_if (provider_differs ROLE_VERIFY providers)
          (btc_invalid (context @ '' verify provider must be mempool.space'')),
        raise_if (provider_differs ROLE_SUPPORTING providers)
          (btc_invalid (context @ '' supporting provider must be blockstream.info'')),
        raise_if
          (map_option bv_artifact_sha256 (provider_of ROLE_PRIMARY providers)
           = map_option bv_artifact_sha256 (provider_of ROLE_VERIFY providers))
          (reconciliation_failed (context @ '' primary and verify artifact SHA-256 must differ''))])"

definition btc_input_sum :: "bitcoin_transaction_replay \<Rightarrow> int" where
  "btc_input_sum tx = sum_list (map (bp_value_sat \<circ> bi_prevout) (bt_inputs tx))"

definition btc_output_sum :: "bitcoin_transaction_replay \<Rightarrow> int" where
  "btc_output_sum tx = sum_list (map bo_value_sat (bt_outputs tx))"

definition outpoint_of :: "bitcoin_input \<Rightarrow> string \<times> int" where
  "outpoint_of i = (bp_transaction_id (bi_prevout i), bp_vout (bi_prevout i))"

definition transaction_is_reconciled :: "bitcoin_transaction_replay \<Rightarrow> contract_error + unit" where
  "transaction_is_reconciled tx =
     all_checks
       [raise_if (map bo_vout (bt_outputs tx) \<noteq> map int [0..<length (bt_outputs tx)])
          (reconciliation_failed ''output indexes must be contiguous''),
        raise_if (\<not> distinct (map outpoint_of (bt_inputs tx)))
          (reconciliation_failed ''spent outpoints must be unique''),
        raise_if (btc_input_sum tx - btc_output_sum tx \<noteq> bt_fee_sat tx)
          (reconciliation_failed ''input-output fee equation differs''),
        validate_provider_observations ''root'' (bt_providers tx)]"

definition transaction_fields_ok :: "bitcoin_transaction_replay \<Rightarrow> bool" where
  "transaction_fields_ok tx \<longleftrightarrow>
     bitcoin_txid_ok (bt_transaction_id tx) \<and> bt_network tx = ''bitcoin_mainnet''
     \<and> 0 \<le> bt_block_height tx \<and> bitcoin_txid_ok (bt_block_hash tx) \<and> 0 \<le> bt_block_time tx
     \<and> 0 \<le> bt_fee_sat tx \<and> bt_inputs tx \<noteq> [] \<and> list_all btc_input_ok (bt_inputs tx)
     \<and> bt_outputs tx \<noteq> [] \<and> list_all btc_output_ok (bt_outputs tx)
     \<and> 2 \<le> length (bt_providers tx) \<and> list_all observation_ok (bt_providers tx)"

definition validate_bitcoin_transaction :: "bitcoin_transaction_replay \<Rightarrow> contract_error + unit" where
  "validate_bitcoin_transaction tx =
     then_check (raise_if (\<not> transaction_fields_ok tx) field_errors) (transaction_is_reconciled tx)"

definition hop_fields_ok :: "bitcoin_spend_hop \<Rightarrow> bool" where
  "hop_fields_ok h \<longleftrightarrow>
     0 \<le> bh_depth h \<and> bitcoin_txid_ok (bh_spent_transaction_id h) \<and> 0 \<le> bh_spent_vout h
     \<and> 0 \<le> bh_spent_value_sat h \<and> bitcoin_txid_ok (bh_spending_transaction_id h)
     \<and> 0 \<le> bh_spending_vin h \<and> 0 \<le> bh_block_height h \<and> 0 \<le> bh_fee_sat h
     \<and> bh_created_outputs h \<noteq> [] \<and> list_all btc_output_ok (bh_created_outputs h)
     \<and> 2 \<le> length (bh_providers h) \<and> list_all observation_ok (bh_providers h)"

definition validate_spend_hop :: "bitcoin_spend_hop \<Rightarrow> contract_error + unit" where
  "validate_spend_hop h =
     then_check (raise_if (\<not> hop_fields_ok h) field_errors)
       (validate_provider_observations ''hop'' (bh_providers h))"

text \<open>The loop of \<^verbatim>\<open>replay_bindings_are_exact\<close>, with its running expected depth, transaction and outputs.\<close>

fun bind_hops ::
    "int \<Rightarrow> string \<Rightarrow> bitcoin_output list \<Rightarrow> bitcoin_spend_hop list \<Rightarrow> contract_error + unit" where
  "bind_hops expected_depth previous_transaction_id previous_outputs [] = Inr ()"
| "bind_hops expected_depth previous_transaction_id previous_outputs (hop # hops) =
     then_check
       (all_checks
         [raise_if (bh_depth hop \<noteq> expected_depth)
            (reconciliation_failed ''spend path depths must be contiguous''),
          raise_if (bh_spent_transaction_id hop \<noteq> previous_transaction_id)
            (reconciliation_failed ''spend path chain differs''),
          raise_if
            (case find (\<lambda>out. bo_vout out = bh_spent_vout hop) previous_outputs of
               None \<Rightarrow> True | Some out \<Rightarrow> bo_value_sat out \<noteq> bh_spent_value_sat hop)
            (reconciliation_failed ''spent output differs'')])
       (bind_hops (expected_depth + 1) (bh_spending_transaction_id hop) (bh_created_outputs hop) hops)"

definition replay_bindings_are_exact :: "bitcoin_utxo_replay \<Rightarrow> contract_error + unit" where
  "replay_bindings_are_exact r =
     bind_hops 1 (bt_transaction_id (br_transaction r)) (bt_outputs (br_transaction r)) (br_spend_path r)"

definition validate_bitcoin_replay :: "bitcoin_utxo_replay \<Rightarrow> contract_error + unit" where
  "validate_bitcoin_replay r =
     all_checks
       [raise_if
          (\<not> (br_replay_version r = ''0.1'' \<and> br_fixture_id r = ''FX-BTC-UTXO-001''
              \<and> br_observations_complete r \<and> br_source_ids r \<noteq> [] \<and> distinct (br_source_ids r)))
          field_errors,
        validate_bitcoin_transaction (br_transaction r),
        for_each validate_spend_hop (br_spend_path r),
        replay_bindings_are_exact r]"

subsection \<open>Recomputed facts\<close>

definition selected_hops :: "bitcoin_utxo_replay \<Rightarrow> int \<Rightarrow> int \<Rightarrow> bitcoin_spend_hop list" where
  "selected_hops r start_vout max_hops =
     filter (\<lambda>h. bh_depth h \<le> max_hops \<and> (1 < bh_depth h \<or> bh_spent_vout h = start_vout)) (br_spend_path r)"

definition created_outpoints :: "bitcoin_spend_hop \<Rightarrow> json" where
  "created_outpoints h =
     JArr (map (\<lambda>out. JObj [(''transaction_id'', JStr (bh_spending_transaction_id h)),
       (''vout'', JInt (bo_vout out)), (''value_sat'', JInt (bo_value_sat out))]) (bh_created_outputs h))"

definition hop_fact :: "bitcoin_spend_hop \<Rightarrow> json" where
  "hop_fact h =
     JObj [(''depth'', JInt (bh_depth h)),
       (''spent_outpoint'', JObj [(''transaction_id'', JStr (bh_spent_transaction_id h)),
         (''vout'', JInt (bh_spent_vout h)), (''value_sat'', JInt (bh_spent_value_sat h))]),
       (''spending_transaction_id'', JStr (bh_spending_transaction_id h)),
       (''spending_vin'', JInt (bh_spending_vin h)),
       (''created_outpoints'', created_outpoints h)]"

definition reconstruct_bitcoin_facts :: "bitcoin_utxo_replay \<Rightarrow> int \<Rightarrow> int \<Rightarrow> json" where
  "reconstruct_bitcoin_facts r start_vout max_hops =
     (let tx = br_transaction r; selected = selected_hops r start_vout max_hops in
      JObj [(''transaction_id'', JStr (bt_transaction_id tx)), (''network'', JStr (bt_network tx)),
        (''block_height'', JInt (bt_block_height tx)), (''block_hash'', JStr (bt_block_hash tx)),
        (''input_count'', JInt (int (length (bt_inputs tx)))),
        (''output_count'', JInt (int (length (bt_outputs tx)))),
        (''input_sum_sat'', JInt (btc_input_sum tx)), (''output_sum_sat'', JInt (btc_output_sum tx)),
        (''fee_sat'', JInt (btc_input_sum tx - btc_output_sum tx)),
        (''spent_outpoints'', JArr (map (\<lambda>i. JObj [(''transaction_id'', JStr (bp_transaction_id (bi_prevout i))),
           (''vout'', JInt (bp_vout (bi_prevout i))), (''value_sat'', JInt (bp_value_sat (bi_prevout i)))])
           (bt_inputs tx))),
        (''created_utxos'', JArr (map (\<lambda>out. JObj [(''transaction_id'', JStr (bt_transaction_id tx)),
           (''vout'', JInt (bo_vout out)), (''value_sat'', JInt (bo_value_sat out)),
           (''script_type'', JStr (bo_script_type out)), (''address'', JStr (bo_address out))]) (bt_outputs tx))),
        (''start_outpoint'', JObj [(''transaction_id'', JStr (bt_transaction_id tx)), (''vout'', JInt start_vout)]),
        (''max_hops'', JInt max_hops),
        (''spend_path'', JArr (map hop_fact selected)),
        (''frontier_outpoints'', if selected = [] then JArr [] else created_outpoints (last selected))])"

subsection \<open>Heuristics\<close>

definition value_counts :: "bitcoin_output list \<Rightarrow> (int, int) dict" where
  "value_counts outs = fold (\<lambda>out counts. dict_set (bo_value_sat out) (dict_get counts (bo_value_sat out) 0 + 1) counts) outs []"

text \<open>\<^verbatim>\<open>sorted(counts.items())\<close>: the keys are distinct, so the pairs are sorted by value.\<close>

definition equal_groups :: "bitcoin_output list \<Rightarrow> (int \<times> int) list" where
  "equal_groups outs = filter (\<lambda>(_, count). 2 \<le> count) (sort_key fst (value_counts outs))"

definition coinjoin_candidate :: "bitcoin_transaction_replay \<Rightarrow> bool" where
  "coinjoin_candidate tx \<longleftrightarrow>
     3 \<le> length (bt_inputs tx) \<and> list_ex (\<lambda>(_, count). 3 \<le> count) (equal_groups (bt_outputs tx))"

definition change_candidates :: "bitcoin_transaction_replay \<Rightarrow> bitcoin_output list" where
  "change_candidates tx =
     filter (\<lambda>out. bo_address out \<in> set (map (bp_address \<circ> bi_prevout) (bt_inputs tx))) (bt_outputs tx)"

definition assess_bitcoin_heuristics :: "bitcoin_utxo_replay \<Rightarrow> json" where
  "assess_bitcoin_heuristics r =
     (let tx = br_transaction r in
      JObj [(''transaction_id'', JStr (bt_transaction_id tx)),
        (''change_candidates'', JArr (map (\<lambda>out. JObj [(''vout'', JInt (bo_vout out)),
           (''address'', JStr (bo_address out)), (''value_sat'', JInt (bo_value_sat out)),
           (''signals'', JArr [JStr ''address_reuse'']),
           (''classification'', JStr ''heuristic_candidate'')]) (change_candidates tx))),
        (''coinjoin_assessment'', JObj [(''classification'', JStr ''heuristic_candidate''),
           (''candidate'', JBool (coinjoin_candidate tx)),
           (''equal_output_groups'', JArr (map (\<lambda>(v, count). JObj [(''value_sat'', JInt v), (''count'', JInt count)])
              (equal_groups (bt_outputs tx)))),
           (''ownership'', JStr ''not_assessed''), (''criminality'', JStr ''not_assessed'')])])"

end
