(* ===== verification/Json_Text.thy ===== *)
theory Json_Text
  imports Contract_Types
begin

section \<open>Reading JSON text\<close>

text \<open>
  \<^verbatim>\<open>json.loads\<close> of the standard library, which the stores use to read the JSON columns they wrote with
  \<^verbatim>\<open>json.dumps\<close> (\<open>dumps\<close> in \<open>Contract_Types\<close>), and the proof that it undoes \<open>dumps\<close> up to the order of the
  fields of an object. \<open>None\<close> is a decoding error. A number with a fraction or an exponent keeps its
  text; an escape of a code point above 255 has no character in this model and is refused.
\<close>

definition json_ws :: "char \<Rightarrow> bool" where
  "json_ws c \<longleftrightarrow> c \<in> {CHR '' '', CHR 0x09, CHR 0x0A, CHR 0x0D}"

definition skip_ws :: "string \<Rightarrow> string" where
  "skip_ws s = dropWhile json_ws s"

definition is_digit :: "char \<Rightarrow> bool" where
  "is_digit c \<longleftrightarrow> c \<in> set decimal_digits"

definition hex_value :: "char \<Rightarrow> nat option" where
  "hex_value c = map_of (zip (hex_digits @ ''ABCDEF'') ([0..<16] @ [10..<16])) c"

definition simple_escape :: "char \<Rightarrow> char option" where
  "simple_escape e =
     map_of [(CHR 0x22, CHR 0x22), (CHR 0x5C, CHR 0x5C), (CHR ''/'', CHR ''/''), (CHR ''b'', CHR 0x08),
       (CHR ''f'', CHR 0x0C), (CHR ''n'', CHR 0x0A), (CHR ''r'', CHR 0x0D), (CHR ''t'', CHR 0x09)] e"

definition unicode_escape :: "char \<Rightarrow> char \<Rightarrow> char \<Rightarrow> char \<Rightarrow> char option" where
  "unicode_escape a b x y =
     (case (hex_value a, hex_value b, hex_value x, hex_value y) of
        (Some 0, Some 0, Some i, Some j) \<Rightarrow> Some (char_of (16 * i + j))
      | _ \<Rightarrow> None)"

fun parse_string :: "string \<Rightarrow> (string \<times> string) option" where
  "parse_string [] = None"
| "parse_string (c # cs) =
     (if c = CHR 0x22 then Some ([], cs)
      else if c = CHR 0x5C then
        (case cs of
           [] \<Rightarrow> None
         | e # ds \<Rightarrow>
             if e = CHR ''u'' then
               (case ds of
                  a # b # x # y # es \<Rightarrow>
                    (case unicode_escape a b x y of
                       None \<Rightarrow> None
                     | Some u \<Rightarrow> map_option (apfst (Cons u)) (parse_string es))
                | _ \<Rightarrow> None)
             else
               (case simple_escape e of
                  None \<Rightarrow> None
                | Some u \<Rightarrow> map_option (apfst (Cons u)) (parse_string ds)))
      else if of_char c < (32 :: nat) then None
      else map_option (apfst (Cons c)) (parse_string cs))"

definition split_sign :: "string \<Rightarrow> string \<times> string" where
  "split_sign s = (case s of c # cs \<Rightarrow> if c = CHR ''-'' then (''-'', cs) else ([], s) | [] \<Rightarrow> ([], []))"

definition split_whole :: "string \<Rightarrow> string \<times> string" where
  "split_whole s =
     (case s of
        c # cs \<Rightarrow> if c = CHR ''0'' then (''0'', cs) else (takeWhile is_digit s, dropWhile is_digit s)
      | [] \<Rightarrow> ([], []))"

definition split_fraction :: "string \<Rightarrow> string \<times> string" where
  "split_fraction s =
     (case s of
        c # cs \<Rightarrow>
          if c = CHR ''.'' \<and> takeWhile is_digit cs \<noteq> []
          then (c # takeWhile is_digit cs, dropWhile is_digit cs) else ([], s)
      | [] \<Rightarrow> ([], []))"

definition split_exponent :: "string \<Rightarrow> string \<times> string" where
  "split_exponent s =
     (case s of
        c # cs \<Rightarrow>
          if c = CHR ''e'' \<or> c = CHR ''E'' then
            (let (sg, ds) = (case cs of
                 d # es \<Rightarrow> if d = CHR ''-'' \<or> d = CHR ''+'' then ([d], es) else ([], cs)
               | [] \<Rightarrow> ([], [])) in
             if takeWhile is_digit ds \<noteq> [] then (c # sg @ takeWhile is_digit ds, dropWhile is_digit ds)
             else ([], s))
          else ([], s)
      | [] \<Rightarrow> ([], []))"

definition parse_number :: "string \<Rightarrow> (json \<times> string) option" where
  "parse_number s =
     (let (sg, s1) = split_sign s; (whole, s2) = split_whole s1;
          (fraction, s3) = split_fraction s2; (ex, s4) = split_exponent s3 in
      if whole = [] then None
      else if fraction = [] \<and> ex = []
      then Some (JInt (if sg = [] then int (decimal_value whole) else - int (decimal_value whole)), s4)
      else Some (JFloat (sg @ whole @ fraction @ ex), s4))"

definition json_constants :: "(string \<times> json) list" where
  "json_constants =
     [(''null'', JNull), (''true'', JBool True), (''false'', JBool False), (''NaN'', JFloat ''NaN''),
      (''Infinity'', JFloat ''Infinity''), (''-Infinity'', JFloat ''-Infinity'')]"

definition parse_scalar :: "string \<Rightarrow> (json \<times> string) option" where
  "parse_scalar s =
     (case find (\<lambda>(w, _). starts_with w s) json_constants of
        Some (w, j) \<Rightarrow> Some (j, drop (length w) s)
      | None \<Rightarrow> parse_number s)"

definition expect :: "char \<Rightarrow> string \<Rightarrow> string option" where
  "expect c s = (case s of d # ds \<Rightarrow> if d = c then Some ds else None | [] \<Rightarrow> None)"

text \<open>The field list of an object as the dictionary it becomes: a repeated key keeps its last value.\<close>

definition dict_of_fields :: "(string \<times> json) list \<Rightarrow> (string \<times> json) list" where
  "dict_of_fields fs = foldl (\<lambda>d (k, v). dict_set k v d) [] fs"

fun parse_value :: "nat \<Rightarrow> string \<Rightarrow> (json \<times> string) option"
  and parse_items :: "nat \<Rightarrow> string \<Rightarrow> (json list \<times> string) option"
  and parse_members :: "nat \<Rightarrow> string \<Rightarrow> ((string \<times> json) list \<times> string) option" where
  "parse_value 0 s = None"
| "parse_value (Suc n) s =
     (case s of
        [] \<Rightarrow> None
      | c # cs \<Rightarrow>
          if c = CHR 0x22 then map_option (apfst JStr) (parse_string cs)
          else if c = CHR ''['' then
            (case expect (CHR '']'') (skip_ws cs) of
               Some ds \<Rightarrow> Some (JArr [], ds)
             | None \<Rightarrow> map_option (apfst JArr) (parse_items n (skip_ws cs)))
          else if c = CHR ''{'' then
            (case expect (CHR ''}'') (skip_ws cs) of
               Some ds \<Rightarrow> Some (JObj [], ds)
             | None \<Rightarrow> map_option (apfst (JObj \<circ> dict_of_fields)) (parse_members n (skip_ws cs)))
          else parse_scalar s)"
| "parse_items 0 s = None"
| "parse_items (Suc n) s =
     (case parse_value n s of
        None \<Rightarrow> None
      | Some (x, r) \<Rightarrow>
          (case expect (CHR '']'') (skip_ws r) of
             Some ds \<Rightarrow> Some ([x], ds)
           | None \<Rightarrow>
               (case expect (CHR '','') (skip_ws r) of
                  None \<Rightarrow> None
                | Some ds \<Rightarrow> map_option (apfst (Cons x)) (parse_items n (skip_ws ds)))))"
| "parse_members 0 s = None"
| "parse_members (Suc n) s =
     (case expect (CHR 0x22) s of
        None \<Rightarrow> None
      | Some ks \<Rightarrow>
          (case parse_string ks of
             None \<Rightarrow> None
           | Some (k, r) \<Rightarrow>
               (case expect (CHR '':'') (skip_ws r) of
                  None \<Rightarrow> None
                | Some vs \<Rightarrow>
                    (case parse_value n (skip_ws vs) of
                       None \<Rightarrow> None
                     | Some (v, q) \<Rightarrow>
                         (case expect (CHR ''}'') (skip_ws q) of
                            Some ds \<Rightarrow> Some ([(k, v)], ds)
                          | None \<Rightarrow>
                              (case expect (CHR '','') (skip_ws q) of
                                 None \<Rightarrow> None
                               | Some ds \<Rightarrow>
                                   map_option (apfst (Cons (k, v))) (parse_members n (skip_ws ds))))))))"

definition loads :: "string \<Rightarrow> json option" where
  "loads s =
     (case parse_value (2 * length s + 2) (skip_ws s) of
        Some (j, r) \<Rightarrow> if skip_ws r = [] then Some j else None
      | None \<Rightarrow> None)"


subsection \<open>Strings\<close>

lemma hex_value_digit: "i < 16 \<Longrightarrow> hex_value (hex_digits ! i) = Some i"
proof -
  have "\<forall>i \<in> set [0..<16]. hex_value (hex_digits ! i) = Some i" by code_simp
  then show "i < 16 \<Longrightarrow> hex_value (hex_digits ! i) = Some i" by simp
qed

lemma unicode_escape_latin:
  "unicode_escape (CHR ''0'') (CHR ''0'') (hex_digits ! (of_char c div 16)) (hex_digits ! (of_char c mod 16))
     = Some c"
proof -
  have z: "hex_value (CHR ''0'') = Some 0" by code_simp
  have "of_char c < (256 :: nat)" by (metis mod_less_divisor of_char_mod_256 zero_less_numeral)
  then have "of_char c div 16 < (16 :: nat)" by (simp add: less_mult_imp_div_less)
  then show ?thesis by (simp add: unicode_escape_def z hex_value_digit)
qed

lemma parse_escape_char:
  "parse_string (escape_char c @ t) = map_option (apfst (Cons c)) (parse_string t)"
  by (simp add: escape_char_def simple_escape_def Let_def unicode_escape_latin)

lemma parse_dumps_string:
  "parse_string (concat (map escape_char s) @ CHR 0x22 # t) = Some (s, t)"
  by (induction s) (simp_all add: parse_escape_char)

subsection \<open>Numbers\<close>

text \<open>What may follow a value inside a document: nothing, or the character that ends it.\<close>

definition ends_value :: "string \<Rightarrow> bool" where
  "ends_value s \<longleftrightarrow> (case s of [] \<Rightarrow> True | c # _ \<Rightarrow> c \<in> set '',]}'')"

lemma ends_value_cases:
  assumes "ends_value s"
  obtains "s = []" | c cs where "s = c # cs" "c = CHR '','' \<or> c = CHR '']'' \<or> c = CHR ''}''"
  using assms by (cases s) (auto simp: ends_value_def)

lemma takeWhile_digits_end:
  assumes "ends_value r"
  shows "takeWhile is_digit (s @ r) = takeWhile is_digit s"
    and "dropWhile is_digit (s @ r) = dropWhile is_digit s @ r"
  using assms
  by (induction s) (auto elim!: ends_value_cases simp: is_digit_def decimal_digits_def)

lemma split_sign_end: "ends_value r \<Longrightarrow> split_sign (s @ r) = apsnd (\<lambda>t. t @ r) (split_sign s)"
  by (cases s) (auto simp: split_sign_def elim!: ends_value_cases)

lemma split_whole_end: "ends_value r \<Longrightarrow> split_whole (s @ r) = apsnd (\<lambda>t. t @ r) (split_whole s)"
  using takeWhile_digits_end [of r s]
  by (cases s) (auto simp: split_whole_def is_digit_def decimal_digits_def elim!: ends_value_cases)

lemma split_fraction_end:
  "ends_value r \<Longrightarrow> split_fraction (s @ r) = apsnd (\<lambda>t. t @ r) (split_fraction s)"
  using takeWhile_digits_end [of r "tl s"]
  by (cases s) (auto simp: split_fraction_def elim!: ends_value_cases)

lemma split_exponent_end:
  assumes r: "ends_value r"
  shows "split_exponent (s @ r) = apsnd (\<lambda>t. t @ r) (split_exponent s)"
proof (cases s)
  case Nil
  with r show ?thesis by (auto simp: split_exponent_def elim!: ends_value_cases)
next
  case (Cons c cs)
  have none: "takeWhile is_digit r = []"
    using takeWhile_digits_end(1) [OF r, of "[]"] by simp
  show ?thesis
  proof (cases cs)
    case Nil
    with Cons r none show ?thesis
      by (auto simp: split_exponent_def is_digit_def decimal_digits_def elim!: ends_value_cases)
  next
    case (Cons d ds)
    with \<open>s = c # cs\<close> takeWhile_digits_end [OF r, of ds] takeWhile_digits_end [OF r, of cs]
    show ?thesis by (auto simp: split_exponent_def Let_def)
  qed
qed

lemma parse_number_end:
  assumes "ends_value r" and "parse_number s = Some (j, t)"
  shows "parse_number (s @ r) = Some (j, t @ r)"
  using assms
  by (auto simp: parse_number_def Let_def split_sign_end split_whole_end split_fraction_end split_exponent_end
      split: prod.splits if_splits)

lemma split_whole_show: "split_whole (show_nat n) = (show_nat n, [])"
proof (cases "n = 0")
  case True
  then show ?thesis by (simp add: show_nat.simps split_whole_def decimal_digits_def)
next
  case False
  then obtain c cs where c: "show_nat n = c # cs" "c \<in> set (tl decimal_digits)"
    using show_nat_head by blast
  then have "c \<noteq> CHR ''0''" by (auto simp: decimal_digits_def)
  moreover have "\<forall>d \<in> set (show_nat n). is_digit d" using show_nat_digits by (auto simp: is_digit_def)
  ultimately show ?thesis
    using c(1) by (simp add: split_whole_def takeWhile_eq_all_conv dropWhile_eq_Nil_conv)
qed

lemma show_nat_not_sign: "split_sign (show_nat n) = ([], show_nat n)"
  using show_nat_digits [of n]
  by (cases "show_nat n") (auto simp: split_sign_def decimal_digits_def)

lemma show_nat_nonempty: "show_nat n \<noteq> []"
  by (simp add: show_nat.simps [of n])

lemma parse_show_int: "parse_number (show_int i) = Some (JInt i, [])"
  by (cases "i < 0")
    (simp_all add: parse_number_def show_int_def split_whole_show show_nat_not_sign show_nat_nonempty
      show_nat_value split_sign_def [of "CHR ''-'' # _"] split_fraction_def [of "[]"] split_exponent_def [of "[]"])


subsection \<open>Round trip\<close>

text \<open>
  The documents the round trip covers: the keys of an object are distinct, as in any dictionary, and
  the text of a float is one \<^verbatim>\<open>dumps\<close> prints. \<open>sorted_json\<close> is the same document with the fields of
  every object in the order of their keys.
\<close>

definition float_text :: "string \<Rightarrow> bool" where
  "float_text t \<longleftrightarrow> t \<in> {''NaN'', ''Infinity'', ''-Infinity''} \<or> parse_number t = Some (JFloat t, [])"

fun json_ok :: "json \<Rightarrow> bool" where
  "json_ok (JFloat t) = float_text t"
| "json_ok (JArr items) = list_all json_ok items"
| "json_ok (JObj kvs) = (distinct (map fst kvs) \<and> list_all (\<lambda>f. json_ok (snd f)) kvs)"
| "json_ok _ = True"

fun sorted_json :: "json \<Rightarrow> json" where
  "sorted_json (JArr items) = JArr (map sorted_json items)"
| "sorted_json (JObj kvs) = JObj (sort_key fst (map (\<lambda>f. (fst f, sorted_json (snd f))) kvs))"
| "sorted_json j = j"

lemma dumps_items_map: "dumps_items xs = map dumps xs"
  by (induction xs) auto

lemma dumps_fields_map: "dumps_fields fs = map (\<lambda>f. (fst f, dumps (snd f))) fs"
  by (induction fs) auto

lemma sort_key_map_values:
  "sort_key fst (map (\<lambda>f. (fst f, g (snd f))) fs) = map (\<lambda>f. (fst f, g (snd f))) (sort_key fst fs)"
proof -
  have ins: "insort_key fst (fst x, g (snd x)) (map (\<lambda>f. (fst f, g (snd f))) ys)
      = map (\<lambda>f. (fst f, g (snd f))) (insort_key fst x ys)" for x ys
    by (induction ys) auto
  show ?thesis by (induction fs) (simp_all add: ins)
qed

lemma dict_of_distinct: "distinct (map fst fs) \<Longrightarrow> dict_of_fields fs = fs"
proof -
  have snoc: "k \<notin> set (map fst d) \<Longrightarrow> dict_set k v d = d @ [(k, v)]" for k and v :: json and d
    by (induction d) auto
  have "distinct (map fst (d @ fs)) \<Longrightarrow> foldl (\<lambda>d (k, v). dict_set k v d) d fs = d @ fs" for d
  proof (induction fs arbitrary: d)
    case Nil
    then show ?case by simp
  next
    case (Cons f fs)
    obtain k v where f: "f = (k, v)" by fastforce
    have "dict_set k v d = d @ [(k, v)]" using Cons.prems f by (intro snoc) simp
    with Cons.IH [of "d @ [(k, v)]"] Cons.prems f show ?case by simp
  qed
  from this [of "[]"] show "distinct (map fst fs) \<Longrightarrow> dict_of_fields fs = fs"
    by (simp add: dict_of_fields_def)
qed

text \<open>A number starts with a digit, perhaps after a minus sign, so it is not read as anything else.\<close>

lemma number_starts:
  assumes "parse_number s = Some x"
  obtains c cs where "is_digit c" "s = c # cs \<or> s = CHR ''-'' # c # cs"
proof -
  have whole: "\<exists>c cs. is_digit c \<and> t = c # cs" if "fst (split_whole t) \<noteq> []" for t
    using that by (cases t) (auto simp: split_whole_def is_digit_def decimal_digits_def split: if_splits)
  from assms have "fst (split_whole (snd (split_sign s))) \<noteq> []"
    by (auto simp: parse_number_def Let_def split: prod.splits if_splits)
  from whole [OF this] obtain c cs where c: "is_digit c" "snd (split_sign s) = c # cs" by blast
  moreover from c(2) have "s = c # cs \<or> s = CHR ''-'' # c # cs"
    by (cases s) (auto simp: split_sign_def split: if_splits)
  ultimately show ?thesis using that by blast
qed

lemma parse_number_value:
  assumes "parse_number s = Some (j, [])" and "ends_value r"
  shows "parse_value (Suc n) (s @ r) = Some (j, r)" and "s \<noteq> []"
proof -
  obtain c cs where c: "is_digit c" "s = c # cs \<or> s = CHR ''-'' # c # cs"
    using number_starts assms(1) by blast
  then have "c \<in> set decimal_digits" by (simp add: is_digit_def)
  then have "find (\<lambda>(w, _). starts_with w (s @ r)) json_constants = None"
    using c(2) by (auto simp: json_constants_def starts_with_def decimal_digits_def)
  moreover have "parse_number (s @ r) = Some (j, r)" using parse_number_end [OF assms(2,1)] by simp
  ultimately have "parse_scalar (s @ r) = Some (j, r)" by (simp add: parse_scalar_def)
  moreover have "\<exists>d ds. s @ r = d # ds \<and> d \<notin> {CHR 0x22, CHR ''['', CHR ''{''}"
    using c(2) \<open>c \<in> set decimal_digits\<close> by (auto simp: decimal_digits_def)
  ultimately show "parse_value (Suc n) (s @ r) = Some (j, r)" by auto
  show "s \<noteq> []" using c(2) by auto
qed

lemma parse_constant_value:
  assumes "(w, j) \<in> set json_constants"
  shows "parse_value (Suc n) (w @ r) = Some (j, r)"
  using assms by (auto simp: json_constants_def parse_scalar_def starts_with_def)

lemma parse_float:
  assumes "float_text t" and "ends_value r"
  shows "parse_value (Suc n) (t @ r) = Some (JFloat t, r)"
  using assms parse_number_value(1) parse_constant_value [of t "JFloat t"]
  unfolding float_text_def json_constants_def by auto


lemma dumps_head:
  assumes "json_ok j"
  obtains c cs where "dumps j = c # cs" "\<not> json_ws c" "c \<noteq> CHR '']''" "c \<noteq> CHR ''}''"
proof -
  have number: "\<exists>c cs. t = c # cs \<and> \<not> json_ws c \<and> c \<noteq> CHR '']'' \<and> c \<noteq> CHR ''}''"
    if n: "parse_number t = Some x" for t x
  proof -
    obtain c cs where "is_digit c" "t = c # cs \<or> t = CHR ''-'' # c # cs"
      by (rule number_starts [OF n])
    then show ?thesis by (auto simp: is_digit_def decimal_digits_def json_ws_def)
  qed
  have "\<exists>c cs. dumps j = c # cs \<and> \<not> json_ws c \<and> c \<noteq> CHR '']'' \<and> c \<noteq> CHR ''}''"
  proof (cases j)
    case (JInt i)
    then show ?thesis using number parse_show_int by simp
  next
    case (JFloat t)
    with assms number show ?thesis by (auto simp: float_text_def json_ws_def)
  qed (auto simp: json_ws_def dumps_string_def render_fields_def)
  with that show ?thesis by blast
qed

lemma dumps_not_ws:
  assumes "json_ok j"
  shows "skip_ws (dumps j @ r) = dumps j @ r" and "expect (CHR '']'') (dumps j @ r) = None"
proof -
  obtain c cs where "dumps j = c # cs" "\<not> json_ws c" "c \<noteq> CHR '']''" "c \<noteq> CHR ''}''"
    by (rule dumps_head [OF assms])
  then show "skip_ws (dumps j @ r) = dumps j @ r" and "expect (CHR '']'') (dumps j @ r) = None"
    by (simp_all add: skip_ws_def expect_def)
qed

lemma expect_simps [simp]:
  "expect c (d # ds) = (if d = c then Some ds else None)" "expect c [] = None"
  by (simp_all add: expect_def)

lemma skip_ws_bracket [simp]:
  "skip_ws (CHR '']'' # s) = CHR '']'' # s" "skip_ws (CHR ''}'' # s) = CHR ''}'' # s"
  "skip_ws (CHR '','' # s) = CHR '','' # s" "skip_ws (CHR '':'' # s) = CHR '':'' # s"
  "skip_ws (CHR 0x22 # s) = CHR 0x22 # s"
  by (simp_all add: skip_ws_def json_ws_def)

definition reads_back :: "json \<Rightarrow> bool" where
  "reads_back j \<longleftrightarrow>
     (\<forall>n r. ends_value r \<longrightarrow> length (dumps j) < n \<longrightarrow>
        parse_value n (dumps j @ r) = Some (sorted_json j, r))"

lemma reads_backD:
  "reads_back j \<Longrightarrow> ends_value r \<Longrightarrow> length (dumps j) < n \<Longrightarrow>
     parse_value n (dumps j @ r) = Some (sorted_json j, r)"
  by (simp add: reads_back_def)

lemma ends_value_simps [simp]:
  "ends_value []" "ends_value (CHR '','' # s)" "ends_value (CHR '']'' # s)" "ends_value (CHR ''}'' # s)"
  by (simp_all add: ends_value_def)

lemma parse_dumped_items:
  assumes "xs \<noteq> []" and "\<forall>x \<in> set xs. json_ok x \<and> reads_back x"
    and "length (join_with '','' (map dumps xs)) + 1 < n"
  shows "parse_items n (join_with '','' (map dumps xs) @ CHR '']'' # r) = Some (map sorted_json xs, r)"
  using assms
proof (induction xs arbitrary: n)
  case Nil
  then show ?case by simp
next
  case (Cons x xs)
  then obtain m where n: "n = Suc m" by (cases n) auto
  show ?case
  proof (cases xs)
    case Nil
    then have "parse_value m (dumps x @ CHR '']'' # r) = Some (sorted_json x, CHR '']'' # r)"
      using Cons.prems n by (intro reads_backD) auto
    with Nil n show ?thesis by simp
  next
    case (Cons y ys)
    let ?rest = "join_with '','' (map dumps xs) @ CHR '']'' # r"
    have j: "join_with '','' (map dumps (x # xs)) = dumps x @ CHR '','' # join_with '','' (map dumps xs)"
      using Cons by simp
    have "parse_value m (dumps x @ CHR '','' # ?rest) = Some (sorted_json x, CHR '','' # ?rest)"
      using Cons.prems n j by (intro reads_backD) auto
    moreover have "parse_items m ?rest = Some (map sorted_json xs, r)"
      using Cons.prems n j \<open>xs = y # ys\<close> by (intro Cons.IH) auto
    moreover have "skip_ws ?rest = ?rest"
      using dumps_not_ws(1) [of y] Cons.prems \<open>xs = y # ys\<close> by (cases ys) auto
    ultimately show ?thesis using n j by simp
  qed
qed

lemma parse_dumped_members:
  assumes "kvs \<noteq> []" and "\<forall>f \<in> set kvs. json_ok (snd f) \<and> reads_back (snd f)"
    and "length (join_with '','' (map (\<lambda>f. dumps_string (fst f) @ '':'' @ dumps (snd f)) kvs)) + 1 < n"
  shows "parse_members n (join_with '','' (map (\<lambda>f. dumps_string (fst f) @ '':'' @ dumps (snd f)) kvs) @ CHR ''}'' # r)
    = Some (map (\<lambda>f. (fst f, sorted_json (snd f))) kvs, r)"
  using assms
proof (induction kvs arbitrary: n)
  case Nil
  then show ?case by simp
next
  case (Cons f fs)
  let ?t = "\<lambda>f. dumps_string (fst f) @ '':'' @ dumps (snd f)"
  obtain m where n: "n = Suc m" using Cons.prems by (cases n) auto
  have key: "parse_string (concat (map escape_char (fst f)) @ CHR 0x22 # s) = Some (fst f, s)" for s
    by (rule parse_dumps_string)
  have ok: "json_ok (snd f)" "reads_back (snd f)" using Cons.prems by auto
  show ?case
  proof (cases fs)
    case Nil
    then have "parse_value m (dumps (snd f) @ CHR ''}'' # r) = Some (sorted_json (snd f), CHR ''}'' # r)"
      using Cons.prems n by (intro reads_backD) auto
    with Nil n key dumps_not_ws(1) [OF ok(1)] show ?thesis by (simp add: dumps_string_def)
  next
    case (Cons g gs)
    let ?rest = "join_with '','' (map ?t fs) @ CHR ''}'' # r"
    have j: "join_with '','' (map ?t (f # fs)) = ?t f @ CHR '','' # join_with '','' (map ?t fs)"
      using Cons by simp
    have "parse_value m (dumps (snd f) @ CHR '','' # ?rest) = Some (sorted_json (snd f), CHR '','' # ?rest)"
      using Cons.prems n j by (intro reads_backD) auto
    moreover have "parse_members m ?rest = Some (map (\<lambda>f. (fst f, sorted_json (snd f))) fs, r)"
      using Cons.prems n j \<open>fs = g # gs\<close> by (intro Cons.IH) auto
    moreover have "skip_ws ?rest = ?rest"
      using \<open>fs = g # gs\<close> by (cases gs) (auto simp: dumps_string_def)
    ultimately show ?thesis using n j key dumps_not_ws(1) [OF ok(1)] by (simp add: dumps_string_def)
  qed
qed


lemma dumps_object:
  "dumps (JObj kvs) =
     CHR ''{'' # join_with '','' (map (\<lambda>f. dumps_string (fst f) @ '':'' @ dumps (snd f)) (sort_key fst kvs)) @ ''}''"
  by (simp add: render_fields_def dumps_fields_map sort_key_map_values split_def comp_def)

lemma sorted_object:
  "sorted_json (JObj kvs) = JObj (map (\<lambda>f. (fst f, sorted_json (snd f))) (sort_key fst kvs))"
  by (simp add: sort_key_map_values)

lemma json_size_item: "x \<in> set xs \<Longrightarrow> size x < size (JArr xs)"
  by (induction xs) auto

lemma json_size_field: "f \<in> set kvs \<Longrightarrow> size (snd f) < size (JObj kvs)"
  by (induction kvs) (auto simp: size_prod_simp)

lemma json_reads_back: "json_ok j \<Longrightarrow> reads_back j"
proof (induction j rule: measure_induct_rule [of size])
  case (less j)
  show ?case
    unfolding reads_back_def
  proof (intro allI impI)
    fix n r assume r: "ends_value r" and n: "length (dumps j) < n"
    then obtain m where m: "n = Suc m" by (cases n) auto
    show "parse_value n (dumps j @ r) = Some (sorted_json j, r)"
    proof (cases j)
      case (JArr xs)
      have xs: "\<forall>x \<in> set xs. json_ok x \<and> reads_back x"
        using less.IH json_size_item less.prems JArr by (metis json_ok.simps(2) list_all_iff)
      show ?thesis
      proof (cases xs)
        case Nil
        with JArr m show ?thesis by (simp add: skip_ws_def json_ws_def)
      next
        case (Cons y ys)
        let ?s = "join_with '','' (map dumps xs) @ CHR '']'' # r"
        have "parse_items m ?s = Some (map sorted_json xs, r)"
          using Cons xs n m JArr by (intro parse_dumped_items) (auto simp: dumps_items_map)
        moreover have "skip_ws ?s = ?s \<and> expect (CHR '']'') ?s = None"
          using dumps_not_ws [of y] xs Cons by (cases ys) auto
        ultimately show ?thesis using JArr m by (simp add: dumps_items_map)
      qed
    next
      case (JObj kvs)
      let ?fs = "sort_key fst kvs"
      have fs: "\<forall>f \<in> set ?fs. json_ok (snd f) \<and> reads_back (snd f)"
        using less.IH json_size_field less.prems JObj by (metis json_ok.simps(3) list_all_iff set_sort)
      show ?thesis
      proof (cases ?fs)
        case Nil
        then have "kvs = []" by (metis set_empty set_sort)
        with JObj m show ?thesis by (simp add: skip_ws_def json_ws_def render_fields_def)
      next
        case (Cons g gs)
        let ?s = "join_with '','' (map (\<lambda>f. dumps_string (fst f) @ '':'' @ dumps (snd f)) ?fs) @ CHR ''}'' # r"
        have "parse_members m ?s = Some (map (\<lambda>f. (fst f, sorted_json (snd f))) ?fs, r)"
          using Cons fs n m JObj dumps_object [of kvs] by (intro parse_dumped_members) auto
        moreover have "skip_ws ?s = ?s \<and> expect (CHR ''}'') ?s = None"
          using Cons by (cases gs) (auto simp: dumps_string_def)
        moreover have "distinct (map fst (map (\<lambda>f. (fst f, sorted_json (snd f))) ?fs))"
          using less.prems JObj by (simp add: comp_def distinct_map inj_on_def)
        ultimately show ?thesis using JObj m dumps_object [of kvs] sorted_object [of kvs]
          by (simp add: dict_of_distinct)
      qed
    next
      case JNull
      with m show ?thesis using parse_constant_value [of "''null''" JNull] by (simp add: json_constants_def)
    next
      case (JBool b)
      with m show ?thesis
        using parse_constant_value [of "''true''" "JBool True"] parse_constant_value [of "''false''" "JBool False"]
        by (cases b) (simp_all add: json_constants_def)
    next
      case (JInt i)
      with m r show ?thesis using parse_number_value(1) [OF parse_show_int] by simp
    next
      case (JFloat t)
      with m r less.prems show ?thesis using parse_float by simp
    next
      case (JStr s)
      with m show ?thesis by (simp add: dumps_string_def parse_dumps_string)
    qed
  qed
qed

theorem loads_dumps:
  assumes "json_ok j"
  shows "loads (dumps j) = Some (sorted_json j)"
  using reads_backD [OF json_reads_back [OF assms], of "[]" "2 * length (dumps j) + 2"] dumps_not_ws(1) [OF assms, of "[]"]
  by (simp add: loads_def skip_ws_def)


text \<open>
  The fuel of \<open>loads\<close> is never what stops it: more of it changes nothing, on any text.
\<close>

lemma parse_string_shorter: "parse_string s = Some (t, r) \<Longrightarrow> length r < length s"
proof (induction s arbitrary: t r rule: parse_string.induct)
  case (2 c cs)
  from 2(4) show ?case
    by (auto split: if_splits list.splits option.splits) (use 2(1-3) in \<open>force+\<close>)
qed simp

lemma skip_ws_shorter: "length (skip_ws s) \<le> length s"
  by (simp add: skip_ws_def length_dropWhile_le)

lemma expect_shorter: "expect c s = Some r \<Longrightarrow> length r < length s"
  by (auto simp: expect_def split: list.splits if_splits)

lemma split_parts_shorter:
  "length (snd (split_sign s)) \<le> length s" "length (snd (split_fraction s)) \<le> length s"
  "length (snd (split_exponent s)) \<le> length s"
  using length_dropWhile_le [of is_digit "tl s"] length_dropWhile_le [of is_digit "tl (tl s)"]
  by (auto simp: split_sign_def split_fraction_def split_exponent_def Let_def split: list.splits)

lemma split_whole_shorter: "fst (split_whole s) \<noteq> [] \<Longrightarrow> length (snd (split_whole s)) < length s"
  using length_dropWhile_le [of is_digit "tl s"]
  by (auto simp: split_whole_def le_imp_less_Suc split: list.splits if_splits)

lemma starts_with_length: "starts_with w s \<Longrightarrow> length w \<le> length s"
  unfolding starts_with_def by (metis length_take min.cobounded1)

lemma parse_scalar_shorter: "parse_scalar s = Some (j, r) \<Longrightarrow> length r < length s"
proof -
  assume p: "parse_scalar s = Some (j, r)"
  show ?thesis
  proof (cases "find (\<lambda>(w, _). starts_with w s) json_constants")
    case None
    let ?a = "snd (split_sign s)" let ?b = "snd (split_whole ?a)" let ?c = "snd (split_fraction ?b)"
    from p None have "fst (split_whole ?a) \<noteq> []" "r = snd (split_exponent ?c)"
      by (auto simp: parse_scalar_def parse_number_def Let_def split: prod.splits if_splits)
    with split_whole_shorter [of ?a] split_parts_shorter(1) [of s] split_parts_shorter(2) [of ?b]
      split_parts_shorter(3) [of ?c] show ?thesis by simp
  next
    case (Some wj)
    obtain w i where wj: "wj = (w, i)" by fastforce
    with Some have "starts_with w s" "(w, i) \<in> set json_constants"
      by (auto simp: find_Some_iff dest: nth_mem)
    then have "w \<noteq> []" and "length w \<le> length s"
      using starts_with_length by (auto simp: json_constants_def)
    moreover have "r = drop (length w) s" using p Some wj by (simp add: parse_scalar_def)
    ultimately show ?thesis by (cases w) auto
  qed
qed

lemma expect_skip_shorter: "expect c (skip_ws s) = Some r \<Longrightarrow> length r < length s"
  using expect_shorter [of c "skip_ws s" r] skip_ws_shorter [of s] by simp

lemma map_option_apfst_Some:
  "map_option (apfst f) m = Some (x, r) \<longleftrightarrow> (\<exists>y. m = Some (y, r) \<and> x = f y)"
  by (cases m) auto

lemma parse_shorter:
  "parse_value n s = Some (x, r) \<Longrightarrow> length r < length s"
  "parse_items n s = Some (xs, r) \<Longrightarrow> length r < length s"
  "parse_members n s = Some (kvs, r) \<Longrightarrow> length r < length s"
proof (induction n s and n s and n s arbitrary: x r and xs r and kvs r
    rule: parse_value_parse_items_parse_members.induct)
  case (2 n s)
  show ?case
  proof (cases s)
    case Nil
    with 2(3) show ?thesis by simp
  next
    case (Cons c cs)
    note le = skip_ws_shorter [of cs] and IH = 2(1,2) [OF Cons] 
    consider "c = CHR 0x22" | "c = CHR ''[''" | "c = CHR ''{''" | "c \<noteq> CHR 0x22" "c \<noteq> CHR ''[''" "c \<noteq> CHR ''{''"
      by blast
    then show ?thesis
    proof cases
      case 1
      with 2(3) Cons parse_string_shorter [of cs] show ?thesis
        by (auto simp: map_option_apfst_Some less_SucI)
    next
      case 2
      with IH(1) \<open>parse_value (Suc n) s = Some (x, r)\<close> Cons le expect_skip_shorter [of _ cs r] show ?thesis
        by (auto simp: map_option_apfst_Some less_SucI split: option.splits)
    next
      case 3
      with IH(2) \<open>parse_value (Suc n) s = Some (x, r)\<close> Cons le expect_skip_shorter [of _ cs r] show ?thesis
        by (auto simp: map_option_apfst_Some less_SucI split: option.splits)
    next
      case 4
      with \<open>parse_value (Suc n) s = Some (x, r)\<close> Cons show ?thesis
        using parse_scalar_shorter [of "c # cs"] by simp
    qed
  qed
next
  case (4 n s)
  from 4(3) obtain y t where y: "parse_value n s = Some (y, t)" by (auto split: option.splits)
  have t: "length t < length s" using 4(1) y by simp
  show ?case
  proof (cases "expect (CHR '']'') (skip_ws t)")
    case None
    with 4(3) y obtain ds ys where ds: "expect (CHR '','') (skip_ws t) = Some ds" "parse_items n (skip_ws ds) = Some (ys, r)"
      by (auto simp: map_option_apfst_Some split: option.splits)
    then have "length r < length (skip_ws ds)" using 4(2) y None by simp
    with t expect_skip_shorter [OF ds(1)] skip_ws_shorter [of ds] show ?thesis by simp
  next
    case (Some ds)
    with 4(3) y t expect_skip_shorter [OF Some] show ?thesis by simp
  qed
next
  case (6 n s)
  from 6(3) obtain ks k a vs v q where st:
    "expect (CHR 0x22) s = Some ks" "parse_string ks = Some (k, a)" "expect (CHR '':'') (skip_ws a) = Some vs"
    "parse_value n (skip_ws vs) = Some (v, q)"
    by (auto split: option.splits)
  have "length q < length (skip_ws vs)" using 6(1) st by simp
  then have q: "length q < length s"
    using expect_shorter [OF st(1)] parse_string_shorter [OF st(2)] expect_skip_shorter [OF st(3)] skip_ws_shorter [of vs]
    by simp
  show ?case
  proof (cases "expect (CHR ''}'') (skip_ws q)")
    case None
    with 6(3) st obtain ds ys where ds: "expect (CHR '','') (skip_ws q) = Some ds" "parse_members n (skip_ws ds) = Some (ys, r)"
      by (auto simp: map_option_apfst_Some split: option.splits)
    then have "length r < length (skip_ws ds)" using 6(2) st None by simp
    with q expect_skip_shorter [OF ds(1)] skip_ws_shorter [of ds] show ?thesis by simp
  next
    case (Some ds)
    with 6(3) st q expect_skip_shorter [OF Some] show ?thesis by simp
  qed
qed simp_all


lemma parse_fuel:
  "2 * length s < n \<Longrightarrow> n \<le> m \<Longrightarrow> parse_value m s = parse_value n s"
  "2 * length s + 1 < n \<Longrightarrow> n \<le> m \<Longrightarrow> parse_items m s = parse_items n s"
  "2 * length s + 1 < n \<Longrightarrow> n \<le> m \<Longrightarrow> parse_members m s = parse_members n s"
proof (induction n s and n s and n s arbitrary: m and m and m
    rule: parse_value_parse_items_parse_members.induct)
  case (2 n s)
  obtain k where m: "m = Suc k" "n \<le> k" using 2(4) by (cases m) auto
  show ?case
  proof (cases s)
    case (Cons c cs)
    with 2(3) skip_ws_shorter [of cs] have "2 * length (skip_ws cs) + 1 < n" by simp
    then have items: "c \<noteq> CHR 0x22 \<Longrightarrow> c = CHR ''['' \<Longrightarrow> expect (CHR '']'') (skip_ws cs) = None
        \<Longrightarrow> parse_items k (skip_ws cs) = parse_items n (skip_ws cs)"
      and members: "c \<noteq> CHR 0x22 \<Longrightarrow> c \<noteq> CHR ''['' \<Longrightarrow> c = CHR ''{'' \<Longrightarrow> expect (CHR ''}'') (skip_ws cs) = None
        \<Longrightarrow> parse_members k (skip_ws cs) = parse_members n (skip_ws cs)"
      using 2(1,2) [OF Cons] m(2) by blast+
    show ?thesis
      unfolding m(1) parse_value.simps Cons list.case
      using items members by (cases "c = CHR 0x22"; cases "c = CHR ''[''"; cases "c = CHR ''{''")
        (simp_all split: option.split)
  qed (simp add: m)
next
  case (4 n s)
  obtain k where m: "m = Suc k" "n \<le> k" using 4(4) by (cases m) auto
  have v: "parse_value k s = parse_value n s" by (rule 4(1)) (use 4(3) m(2) in simp_all)
  have i: "parse_items k (skip_ws ds) = parse_items n (skip_ws ds)"
    if "parse_value n s = Some (x, r)" "expect (CHR '']'') (skip_ws r) = None"
      "expect (CHR '','') (skip_ws r) = Some ds" for x r ds
    by (rule 4(2) [OF that(1) refl that(2,3)])
      (use 4(3) m(2) parse_shorter(1) [OF that(1)] expect_skip_shorter [OF that(3)] skip_ws_shorter [of ds]
        in simp_all)
  show ?case unfolding m(1) parse_items.simps v using i by (auto split: option.splits)
next
  case (6 n s)
  obtain k where m: "m = Suc k" "n \<le> k" using 6(4) by (cases m) auto
  have v: "parse_value k (skip_ws vs) = parse_value n (skip_ws vs)"
    if "expect (CHR 0x22) s = Some ks" "parse_string ks = Some (key, r)" "expect (CHR '':'') (skip_ws r) = Some vs"
    for ks key r vs
    by (rule 6(1) [OF that(1,2) refl that(3)])
      (use 6(3) m(2) expect_shorter [OF that(1)] parse_string_shorter [OF that(2)] expect_skip_shorter [OF that(3)]
        skip_ws_shorter [of vs] in simp_all)
  have i: "parse_members k (skip_ws ds) = parse_members n (skip_ws ds)"
    if "expect (CHR 0x22) s = Some ks" "parse_string ks = Some (key, r)" "expect (CHR '':'') (skip_ws r) = Some vs"
      "parse_value n (skip_ws vs) = Some (x, q)" "expect (CHR ''}'') (skip_ws q) = None"
      "expect (CHR '','') (skip_ws q) = Some ds" for ks key r vs x q ds
    by (rule 6(2) [OF that(1,2) refl that(3,4) refl that(5,6)])
      (use 6(3) m(2) expect_shorter [OF that(1)] parse_string_shorter [OF that(2)] expect_skip_shorter [OF that(3)]
        skip_ws_shorter [of vs] parse_shorter(1) [OF that(4)] expect_skip_shorter [OF that(6)] skip_ws_shorter [of ds]
        in simp_all)
  show ?case unfolding m(1) parse_members.simps using v i by (auto split: option.splits)
qed simp_all

lemma loads_fuel:
  "2 * length s + 2 \<le> n \<Longrightarrow> parse_value n (skip_ws s) = parse_value (2 * length s + 2) (skip_ws s)"
  by (rule parse_fuel(1)) (use skip_ws_shorter [of s] in simp_all)

end
