(* ===== verification/Json_Fields.thy ===== *)
theory Json_Fields
  imports Json_Text
begin

section \<open>Reading the fields of a model\<close>

text \<open>
  How the validation library reads the fields of a model class from a decoded JSON value: strict types,
  the members of an enumeration by their wire value, optional fields, and no undeclared ones. \<open>None\<close> is
  a validation error.
\<close>

fun read_text :: "json \<Rightarrow> string option" where
  "read_text (JStr s) = Some s"
| "read_text _ = None"

fun read_int :: "json \<Rightarrow> int option" where
  "read_int (JInt i) = Some i"
| "read_int _ = None"

fun read_bool :: "json \<Rightarrow> bool option" where
  "read_bool (JBool b) = Some b"
| "read_bool _ = None"

fun read_object :: "json \<Rightarrow> json option" where
  "read_object (JObj fs) = Some (JObj fs)"
| "read_object _ = None"

fun read_items :: "(json \<Rightarrow> 'a option) \<Rightarrow> json \<Rightarrow> 'a list option" where
  "read_items r (JArr js) = those (map r js)"
| "read_items r _ = None"

definition read_enum :: "('a \<Rightarrow> string) \<Rightarrow> 'a list \<Rightarrow> json \<Rightarrow> 'a option" where
  "read_enum value members j = Option.bind (read_text j) (\<lambda>s. find (\<lambda>m. value m = s) members)"

definition field :: "string \<Rightarrow> (json \<Rightarrow> 'a option) \<Rightarrow> (string \<times> json) list \<Rightarrow> 'a option" where
  "field k r fs = Option.bind (map_of fs k) r"

definition read_optional :: "(json \<Rightarrow> 'a option) \<Rightarrow> json option \<Rightarrow> 'a option option" where
  "read_optional r v = (case v of None \<Rightarrow> Some None | Some j \<Rightarrow> map_option Some (r j))"

definition opt_field :: "string \<Rightarrow> (json \<Rightarrow> 'a option) \<Rightarrow> (string \<times> json) list \<Rightarrow> 'a option option" where
  "opt_field k r fs = read_optional r (map_of fs k)"

text \<open>\<^verbatim>\<open>extra="forbid"\<close>\<close>

definition only_fields :: "string list \<Rightarrow> json \<Rightarrow> (string \<times> json) list option" where
  "only_fields names j =
     (case j of
        JObj fs \<Rightarrow> if set (map fst fs) \<subseteq> set names then Some fs else None
      | _ \<Rightarrow> None)"

text \<open>The dictionary of fields of which some may be \<^verbatim>\<open>MISSING\<close>.\<close>

fun defined :: "(string \<times> json option) list \<Rightarrow> (string \<times> json) list" where
  "defined [] = []"
| "defined ((k, None) # fs) = defined fs"
| "defined ((k, Some v) # fs) = (k, v) # defined fs"

end
