(* ===== verification/Python_Values.thy ===== *)
theory Python_Values
  imports Json_Text
begin

section \<open>Python conversions of decoded JSON\<close>

text \<open>
  What the analyzers do with a decoded JSON value of unchecked type: indexing, \<^verbatim>\<open>int()\<close>, \<^verbatim>\<open>str()\<close> and
  \<^verbatim>\<open>decimal.Decimal\<close> of the standard library, with the class of the exception each raises. Text is
  Latin-1, so the only decimal digits are those of ASCII. A float is known by the text of its
  literal; \<open>float_model\<close> says how the interpreter prints it and truncates it. The interpreter's limits
  on nesting and on the length of integer text are not modelled.
\<close>

datatype py_error = Key_Error | Type_Error | Value_Error | Arithmetic_Error

record float_model =
  fl_text :: "string \<Rightarrow> string"
  fl_int :: "string \<Rightarrow> py_error + int"

subsection \<open>Objects and lists\<close>

type_synonym json_object = "(string \<times> json) list"

definition item :: "string \<Rightarrow> json_object \<Rightarrow> py_error + json" where
  "item k body = (case map_of body k of None \<Rightarrow> Inl Key_Error | Some v \<Rightarrow> Inr v)"

definition as_object :: "json \<Rightarrow> py_error + json_object" where
  "as_object v = (case v of JObj fs \<Rightarrow> Inr fs | _ \<Rightarrow> Inl Type_Error)"

definition as_list :: "json \<Rightarrow> py_error + json list" where
  "as_list v = (case v of JArr xs \<Rightarrow> Inr xs | _ \<Rightarrow> Inl Type_Error)"

definition object_item :: "string \<Rightarrow> json_object \<Rightarrow> py_error + json_object" where
  "object_item k body = and_then (item k body) as_object"

subsection \<open>Integers\<close>

text \<open>
  \<^verbatim>\<open>int(text)\<close>: white space around the literal is ignored (of an ASCII text only ASCII white space),
  and single underscores may separate digits.
\<close>

definition unicode_space :: "char \<Rightarrow> bool" where
  "unicode_space c \<longleftrightarrow> is_space c \<or> c \<in> {CHR 0x1C, CHR 0x1D, CHR 0x1E, CHR 0x1F, CHR 0x85, CHR 0xA0}"

definition strip :: "(char \<Rightarrow> bool) \<Rightarrow> string \<Rightarrow> string" where
  "strip P s = rev (dropWhile P (rev (dropWhile P s)))"

definition is_ascii :: "string \<Rightarrow> bool" where
  "is_ascii s \<longleftrightarrow> list_all (\<lambda>c. of_char c < (128 :: nat)) s"

fun digit_groups :: "string \<Rightarrow> bool" where
  "digit_groups [] = False"
| "digit_groups [c] = is_digit c"
| "digit_groups (c # d # cs) = (is_digit c \<and> (if d = CHR ''_'' then digit_groups cs else digit_groups (d # cs)))"

definition signed_text :: "string \<Rightarrow> bool \<times> string" where
  "signed_text s =
     (case s of
        c # cs \<Rightarrow> if c = CHR ''-'' then (True, cs) else if c = CHR ''+'' then (False, cs) else (False, s)
      | [] \<Rightarrow> (False, []))"

definition int_text :: "string \<Rightarrow> py_error + int" where
  "int_text s =
     (let (negative, digits) = signed_text (strip (if is_ascii s then is_space else unicode_space) s);
          n = int (decimal_value (filter (\<lambda>c. c \<noteq> CHR ''_'') digits)) in
      if digit_groups digits then Inr (if negative then - n else n) else Inl Value_Error)"

fun py_int :: "float_model \<Rightarrow> json \<Rightarrow> py_error + int" where
  "py_int fm (JInt i) = Inr i"
| "py_int fm (JBool b) = Inr (if b then 1 else 0)"
| "py_int fm (JStr s) = int_text s"
| "py_int fm (JFloat t) = fl_int fm t"
| "py_int fm _ = Inl Type_Error"

subsection \<open>Text\<close>

definition repr_char :: "char \<Rightarrow> char \<Rightarrow> string" where
  "repr_char quote c =
     (let n = of_char c :: nat in
      if c = quote \<or> c = CHR 0x5C then [CHR 0x5C, c]
      else if c = CHR 0x0A then [CHR 0x5C, CHR ''n'']
      else if c = CHR 0x0D then [CHR 0x5C, CHR ''r'']
      else if c = CHR 0x09 then [CHR 0x5C, CHR ''t'']
      else if n < 32 \<or> 127 \<le> n \<and> n \<le> 160 \<or> n = 173
      then [CHR 0x5C, CHR ''x'', hex_digits ! (n div 16), hex_digits ! (n mod 16)]
      else [c])"

definition repr_text :: "string \<Rightarrow> string" where
  "repr_text s =
     (let quote = (if CHR 0x27 \<in> set s \<and> CHR 0x22 \<notin> set s then CHR 0x22 else CHR 0x27) in
      quote # concat (map (repr_char quote) s) @ [quote])"

fun py_repr :: "float_model \<Rightarrow> json \<Rightarrow> string"
  and py_repr_items :: "float_model \<Rightarrow> json list \<Rightarrow> string list"
  and py_repr_fields :: "float_model \<Rightarrow> json_object \<Rightarrow> string list" where
  "py_repr fm JNull = ''None''"
| "py_repr fm (JBool b) = (if b then ''True'' else ''False'')"
| "py_repr fm (JInt i) = show_int i"
| "py_repr fm (JFloat t) = fl_text fm t"
| "py_repr fm (JStr s) = repr_text s"
| "py_repr fm (JArr xs) = ''['' @ join_with '', '' (py_repr_items fm xs) @ '']''"
| "py_repr fm (JObj fs) = ''{'' @ join_with '', '' (py_repr_fields fm fs) @ ''}''"
| "py_repr_items fm [] = []"
| "py_repr_items fm (x # xs) = py_repr fm x # py_repr_items fm xs"
| "py_repr_fields fm [] = []"
| "py_repr_fields fm ((k, v) # fs) = (repr_text k @ '': '' @ py_repr fm v) # py_repr_fields fm fs"

definition py_str :: "float_model \<Rightarrow> json \<Rightarrow> string" where
  "py_str fm v = (case v of JStr s \<Rightarrow> s | _ \<Rightarrow> py_repr fm v)"

definition int_item :: "float_model \<Rightarrow> string \<Rightarrow> json_object \<Rightarrow> py_error + int" where
  "int_item fm k body = and_then (item k body) (py_int fm)"

definition text_item :: "float_model \<Rightarrow> string \<Rightarrow> json_object \<Rightarrow> py_error + string" where
  "text_item fm k body = and_then (item k body) (\<lambda>v. Inr (py_str fm v))"

subsection \<open>Decimal numbers\<close>

datatype decimal = Finite bool nat int | Infinite | Quiet_NaN | Signaling_NaN

text \<open>The text of a finite number: sign, coefficient and exponent.\<close>

definition parse_exponent :: "string \<Rightarrow> int option" where
  "parse_exponent s =
     (case s of
        [] \<Rightarrow> Some 0
      | e # cs \<Rightarrow>
          (let (negative, digits) = signed_text cs; n = int (decimal_value digits) in
           if e = CHR ''e'' \<and> digits \<noteq> [] \<and> list_all is_digit digits
           then Some (if negative then - n else n) else None))"

definition parse_finite :: "string \<Rightarrow> (nat \<times> int) option" where
  "parse_finite s =
     (let whole = takeWhile is_digit s; rest = dropWhile is_digit s;
          (fraction, rest) = (case rest of
              c # cs \<Rightarrow> if c = CHR ''.'' then (takeWhile is_digit cs, dropWhile is_digit cs) else ([], rest)
            | [] \<Rightarrow> ([], [])) in
      if whole @ fraction = [] then None
      else map_option (\<lambda>e. (decimal_value (whole @ fraction), e - int (length fraction))) (parse_exponent rest))"

definition number_of_digits :: "nat \<Rightarrow> nat" where
  "number_of_digits n = length (show_nat n)"

text \<open>\<^verbatim>\<open>Decimal(text)\<close>; \<open>None\<close> is \<^verbatim>\<open>decimal.InvalidOperation\<close>. The bounds on the exponent are those of a 64-bit build.\<close>

definition parse_decimal :: "string \<Rightarrow> decimal option" where
  "parse_decimal text =
     (let (negative, s) = signed_text (map to_lower (filter (\<lambda>c. c \<noteq> CHR ''_'') (strip unicode_space text))) in
      if s = ''inf'' \<or> s = ''infinity'' then Some Infinite
      else if starts_with ''nan'' s \<and> list_all is_digit (drop 3 s) then Some Quiet_NaN
      else if starts_with ''snan'' s \<and> list_all is_digit (drop 4 s) then Some Signaling_NaN
      else
        (case parse_finite s of
           None \<Rightarrow> None
         | Some (coefficient, e) \<Rightarrow>
             if e < -1999999999999999997
                \<or> 999999999999999999 < e + int (number_of_digits coefficient) - 1 then None
             else Some (Finite negative coefficient e)))"

text \<open>Rounding to the 28 digits of the default context, half to even.\<close>

definition round_half_even :: "nat \<Rightarrow> nat \<Rightarrow> nat" where
  "round_half_even unit n =
     (let q = n div unit; r = n mod unit in
      if unit < 2 * r \<or> 2 * r = unit \<and> odd q then q + 1 else q)"

definition round_coefficient :: "nat \<Rightarrow> int \<Rightarrow> nat \<times> int" where
  "round_coefficient c e =
     (let excess = number_of_digits c - 28 in (round_half_even (10 ^ excess) c, e + int excess))"

text \<open>\<^verbatim>\<open>int()\<close> of \<open>c * 10 ^ x\<close>: truncation towards zero, of the absolute value.\<close>

definition truncated :: "nat \<Rightarrow> int \<Rightarrow> nat" where
  "truncated c x =
     (if c = 0 \<or> x < - int (number_of_digits c) then 0
      else if 0 \<le> x then c * 10 ^ nat x else c div 10 ^ nat (- x))"

text \<open>\<^verbatim>\<open>int(Decimal(text) * Decimal(100_000_000))\<close>; an overflow traps.\<close>

definition satoshis :: "string \<Rightarrow> py_error + int" where
  "satoshis text =
     (case parse_decimal text of
        None \<Rightarrow> Inl Arithmetic_Error
      | Some Infinite \<Rightarrow> Inl Arithmetic_Error
      | Some Quiet_NaN \<Rightarrow> Inl Value_Error
      | Some Signaling_NaN \<Rightarrow> Inl Arithmetic_Error
      | Some (Finite negative coefficient e) \<Rightarrow>
          (let (c, x) = round_coefficient (coefficient * 100000000) e in
           if c \<noteq> 0 \<and> 999999 < x + int (number_of_digits c) - 1 then Inl Arithmetic_Error
           else Inr (if negative then - int (truncated c x) else int (truncated c x))))"

subsection \<open>Bytes\<close>

text \<open>
  UTF-8, the encoding \<^verbatim>\<open>json.loads\<close> detects when no byte of the text is zero and there is no byte order
  mark. A code point above 255 has no character in this model and is refused.
\<close>

fun utf8_decode :: "bytes \<Rightarrow> string option" where
  "utf8_decode [] = Some []"
| "utf8_decode (c # cs) =
     (let n = of_char c :: nat in
      if n < 128 then map_option (Cons c) (utf8_decode cs)
      else if n = 194 \<or> n = 195 then
        (case cs of
           [] \<Rightarrow> None
         | d # ds \<Rightarrow>
             (let k = of_char d :: nat in
              if 128 \<le> k \<and> k < 192
              then map_option (Cons (char_of (64 * (n - 192) + (k - 128)))) (utf8_decode ds) else None))
      else None)"

definition loads_bytes :: "bytes \<Rightarrow> json option" where
  "loads_bytes body = Option.bind (utf8_decode body) loads"

lemma utf8_decode_plain: "is_ascii s \<Longrightarrow> utf8_decode s = Some s"
  by (induction s) (simp_all add: is_ascii_def)

text \<open>\<^verbatim>\<open>json.dumps\<close> escapes every character that is not ASCII, so its bytes are read back as its text.\<close>

fun float_free :: "json \<Rightarrow> bool" where
  "float_free (JFloat t) = False"
| "float_free (JArr items) = list_all float_free items"
| "float_free (JObj fs) = list_all (\<lambda>f. float_free (snd f)) fs"
| "float_free _ = True"

lemma ascii_digits: "\<forall>c \<in> set hex_digits. of_char c < (128 :: nat)" "\<forall>c \<in> set decimal_digits. of_char c < (128 :: nat)"
  by code_simp+

lemma is_ascii_simps [simp]:
  "is_ascii []" "is_ascii (c # s) \<longleftrightarrow> of_char c < (128 :: nat) \<and> is_ascii s" "is_ascii (s @ t) \<longleftrightarrow> is_ascii s \<and> is_ascii t"
  "is_ascii (concat ss) \<longleftrightarrow> (\<forall>s \<in> set ss. is_ascii s)"
  by (auto simp: is_ascii_def list_all_iff)

lemma escape_char_ascii: "is_ascii (escape_char c)"
proof -
  have "of_char c < (256 :: nat)" by (metis mod_less_divisor of_char_mod_256 zero_less_numeral)
  moreover have "length hex_digits = 16" by (simp add: hex_digits_def)
  ultimately have "hex_digits ! (of_char c div 16) \<in> set hex_digits" "hex_digits ! (of_char c mod 16) \<in> set hex_digits"
    by (simp_all add: less_mult_imp_div_less)
  with ascii_digits(1) show ?thesis by (simp add: escape_char_def Let_def)
qed

lemma dumps_string_ascii: "is_ascii (dumps_string s)"
  by (simp add: dumps_string_def escape_char_ascii)

lemma show_int_ascii: "is_ascii (show_int i)"
  using show_nat_digits ascii_digits(2) by (auto simp: show_int_def is_ascii_def list_all_iff)

lemma join_with_ascii: "is_ascii sep \<Longrightarrow> (\<And>s. s \<in> set ss \<Longrightarrow> is_ascii s) \<Longrightarrow> is_ascii (join_with sep ss)"
  by (induction sep ss rule: join_with.induct) auto

lemma dumps_ascii: "float_free j \<Longrightarrow> is_ascii (dumps j)"
proof (induction j rule: float_free.induct)
  case (2 items)
  then show ?case by (auto simp: dumps_items_map list_all_iff intro!: join_with_ascii)
next
  case (3 fs)
  then have "\<forall>f \<in> set fs. is_ascii (dumps (snd f))" by (auto simp: list_all_iff)
  then show ?case
    by (fastforce simp: dumps_fields_map render_fields_def dumps_string_ascii intro!: join_with_ascii)
qed (simp_all add: dumps_string_ascii show_int_ascii)

lemma loads_bytes_dumps: "json_ok j \<Longrightarrow> float_free j \<Longrightarrow> loads_bytes (dumps j) = Some (sorted_json j)"
  by (simp add: loads_bytes_def utf8_decode_plain dumps_ascii loads_dumps)

end
