(* ===== verification/Bitcoin_Artifacts.thy ===== *)
theory Bitcoin_Artifacts
  imports Bitcoin_Utxo Source_Orchestration Json_Fields Sha256 Python_Values
begin

section \<open>Reconciliation with provider artifacts\<close>

text \<open>
  The reading of a replay (\<^verbatim>\<open>parse_bitcoin_utxo_replay\<close> of \<^verbatim>\<open>domain/bitcoin_utxo.py\<close>) and the projections of
  \<^verbatim>\<open>slices/bitcoin_utxo.py\<close>, which compare it with the recorded answers of the providers. A projection,
  a dictionary with fixed keys, is a record; what a replay projects to with \<^verbatim>\<open>model_dump\<close> are its own
  input and output records. The files of the package are a parameter: the content of the regular
  file inside the package directory that a relative path resolves to.
\<close>

record artifact_env =
  af_read_time :: "json \<Rightarrow> instant option"
  af_floats :: float_model
  af_files :: "string \<Rightarrow> bytes option"

subsection \<open>Reading a replay\<close>

definition read_prevout :: "json \<Rightarrow> bitcoin_prevout option" where
  "read_prevout j =
     Option.bind (only_fields [''transaction_id'', ''vout'', ''value_sat'', ''script_type'', ''address''] j) (\<lambda>fs.
     Option.bind (field ''transaction_id'' read_text fs) (\<lambda>transaction_id.
     Option.bind (field ''vout'' read_int fs) (\<lambda>vout.
     Option.bind (field ''value_sat'' read_int fs) (\<lambda>value_sat.
     Option.bind (field ''script_type'' read_text fs) (\<lambda>script_type.
     Option.bind (field ''address'' read_text fs) (\<lambda>address.
     Some \<lparr>bp_transaction_id = transaction_id, bp_vout = vout, bp_value_sat = value_sat,
       bp_script_type = script_type, bp_address = address\<rparr>))))))"

definition read_btc_input :: "json \<Rightarrow> bitcoin_input option" where
  "read_btc_input j =
     Option.bind (only_fields [''prevout'', ''sequence''] j) (\<lambda>fs.
     Option.bind (field ''prevout'' read_prevout fs) (\<lambda>prevout.
     Option.bind (field ''sequence'' read_int fs) (\<lambda>sequence.
     Some \<lparr>bi_prevout = prevout, bi_sequence = sequence\<rparr>)))"

definition read_btc_output :: "json \<Rightarrow> bitcoin_output option" where
  "read_btc_output j =
     Option.bind (only_fields [''vout'', ''value_sat'', ''script_type'', ''address''] j) (\<lambda>fs.
     Option.bind (field ''vout'' read_int fs) (\<lambda>vout.
     Option.bind (field ''value_sat'' read_int fs) (\<lambda>value_sat.
     Option.bind (field ''script_type'' read_text fs) (\<lambda>script_type.
     Option.bind (field ''address'' read_text fs) (\<lambda>address.
     Some \<lparr>bo_vout = vout, bo_value_sat = value_sat, bo_script_type = script_type, bo_address = address\<rparr>)))))"

fun provider_role_value :: "provider_role \<Rightarrow> string" where
  "provider_role_value ROLE_PRIMARY = ''primary''"
| "provider_role_value ROLE_VERIFY = ''verify''"
| "provider_role_value ROLE_SUPPORTING = ''supporting''"

definition read_observation :: "artifact_env \<Rightarrow> json \<Rightarrow> bitcoin_provider_observation option" where
  "read_observation env j =
     Option.bind (only_fields [''provider_id'', ''role'', ''retrieved_at'', ''artifact_file'',
        ''artifact_sha256'', ''decoded_match''] j) (\<lambda>fs.
     Option.bind (field ''provider_id'' read_text fs) (\<lambda>provider_id.
     Option.bind (field ''role'' (read_enum provider_role_value [ROLE_PRIMARY, ROLE_VERIFY, ROLE_SUPPORTING]) fs) (\<lambda>role.
     Option.bind (field ''retrieved_at'' (af_read_time env) fs) (\<lambda>retrieved_at.
     Option.bind (field ''artifact_file'' read_text fs) (\<lambda>artifact_file.
     Option.bind (field ''artifact_sha256'' read_text fs) (\<lambda>artifact_sha256.
     Option.bind (field ''decoded_match'' read_bool fs) (\<lambda>decoded_match.
     Some \<lparr>bv_provider_id = provider_id, bv_role = role, bv_retrieved_at = retrieved_at,
       bv_artifact_file = artifact_file, bv_artifact_sha256 = artifact_sha256,
       bv_decoded_match = decoded_match\<rparr>)))))))"

definition read_btc_transaction :: "artifact_env \<Rightarrow> json \<Rightarrow> bitcoin_transaction_replay option" where
  "read_btc_transaction env j =
     Option.bind (only_fields [''transaction_id'', ''network'', ''block_height'', ''block_hash'',
        ''block_time'', ''fee_sat'', ''inputs'', ''outputs'', ''providers''] j) (\<lambda>fs.
     Option.bind (field ''transaction_id'' read_text fs) (\<lambda>transaction_id.
     Option.bind (field ''network'' read_text fs) (\<lambda>network.
     Option.bind (field ''block_height'' read_int fs) (\<lambda>block_height.
     Option.bind (field ''block_hash'' read_text fs) (\<lambda>block_hash.
     Option.bind (field ''block_time'' read_int fs) (\<lambda>block_time.
     Option.bind (field ''fee_sat'' read_int fs) (\<lambda>fee_sat.
     Option.bind (field ''inputs'' (read_items read_btc_input) fs) (\<lambda>inputs.
     Option.bind (field ''outputs'' (read_items read_btc_output) fs) (\<lambda>outputs.
     Option.bind (field ''providers'' (read_items (read_observation env)) fs) (\<lambda>providers.
     Some \<lparr>bt_transaction_id = transaction_id, bt_network = network, bt_block_height = block_height,
       bt_block_hash = block_hash, bt_block_time = block_time, bt_fee_sat = fee_sat,
       bt_inputs = inputs, bt_outputs = outputs, bt_providers = providers\<rparr>))))))))))"

definition read_spend_hop :: "artifact_env \<Rightarrow> json \<Rightarrow> bitcoin_spend_hop option" where
  "read_spend_hop env j =
     Option.bind (only_fields [''depth'', ''spent_transaction_id'', ''spent_vout'', ''spent_value_sat'',
        ''spending_transaction_id'', ''spending_vin'', ''block_height'', ''fee_sat'',
        ''created_outputs'', ''providers''] j) (\<lambda>fs.
     Option.bind (field ''depth'' read_int fs) (\<lambda>depth.
     Option.bind (field ''spent_transaction_id'' read_text fs) (\<lambda>spent_transaction_id.
     Option.bind (field ''spent_vout'' read_int fs) (\<lambda>spent_vout.
     Option.bind (field ''spent_value_sat'' read_int fs) (\<lambda>spent_value_sat.
     Option.bind (field ''spending_transaction_id'' read_text fs) (\<lambda>spending_transaction_id.
     Option.bind (field ''spending_vin'' read_int fs) (\<lambda>spending_vin.
     Option.bind (field ''block_height'' read_int fs) (\<lambda>block_height.
     Option.bind (field ''fee_sat'' read_int fs) (\<lambda>fee_sat.
     Option.bind (field ''created_outputs'' (read_items read_btc_output) fs) (\<lambda>created_outputs.
     Option.bind (field ''providers'' (read_items (read_observation env)) fs) (\<lambda>providers.
     Some \<lparr>bh_depth = depth, bh_spent_transaction_id = spent_transaction_id,
       bh_spent_vout = spent_vout, bh_spent_value_sat = spent_value_sat,
       bh_spending_transaction_id = spending_transaction_id, bh_spending_vin = spending_vin,
       bh_block_height = block_height, bh_fee_sat = fee_sat, bh_created_outputs = created_outputs,
       bh_providers = providers\<rparr>)))))))))))"

definition read_btc_replay :: "artifact_env \<Rightarrow> json \<Rightarrow> bitcoin_utxo_replay option" where
  "read_btc_replay env j =
     Option.bind (only_fields [''replay_version'', ''fixture_id'', ''observations_complete'',
        ''transaction'', ''spend_path'', ''source_ids''] j) (\<lambda>fs.
     Option.bind (field ''replay_version'' read_text fs) (\<lambda>replay_version.
     Option.bind (field ''fixture_id'' read_text fs) (\<lambda>fixture_id.
     Option.bind (field ''observations_complete'' read_bool fs) (\<lambda>observations_complete.
     Option.bind (field ''transaction'' (read_btc_transaction env) fs) (\<lambda>transaction.
     Option.bind (field ''spend_path'' (read_items (read_spend_hop env)) fs) (\<lambda>spend_path.
     Option.bind (field ''source_ids'' (read_items read_text) fs) (\<lambda>source_ids.
     Some \<lparr>br_replay_version = replay_version, br_fixture_id = fixture_id,
       br_observations_complete = observations_complete, br_transaction = transaction,
       br_spend_path = spend_path, br_source_ids = source_ids\<rparr>)))))))"

text \<open>\<^verbatim>\<open>parse_bitcoin_utxo_replay\<close>; every error of it is caught by the analyzer in one branch.\<close>

definition parse_bitcoin_utxo_replay :: "artifact_env \<Rightarrow> bytes \<Rightarrow> bitcoin_utxo_replay option" where
  "parse_bitcoin_utxo_replay env raw =
     Option.bind (loads_bytes raw) (\<lambda>value.
     Option.bind (read_btc_replay env value) (\<lambda>replay.
     if validate_bitcoin_replay replay = Inr () then Some replay else None))"

subsection \<open>Provider artifacts\<close>

definition read_provider_artifact ::
    "artifact_env \<Rightarrow> bitcoin_provider_observation \<Rightarrow> py_error + json_object" where
  "read_provider_artifact env provider =
     (case af_files env (bv_artifact_file provider) of
        None \<Rightarrow> Inl Value_Error
      | Some body \<Rightarrow>
          if sha256_hex body \<noteq> bv_artifact_sha256 provider then Inl Value_Error
          else (case loads_bytes body of Some (JObj fs) \<Rightarrow> Inr fs | _ \<Rightarrow> Inl Value_Error))"

text \<open>\<^verbatim>\<open>{item.provider_id: _read_provider_artifact(root, item) for item in providers}\<close>\<close>

definition provider_artifacts ::
    "artifact_env \<Rightarrow> bitcoin_provider_observation list \<Rightarrow> py_error + (string, json_object) dict" where
  "provider_artifacts env providers =
     fold_result
       (\<lambda>artifacts v. and_then (read_provider_artifact env v) (\<lambda>body. Inr (dict_set (bv_provider_id v) body artifacts)))
       [] providers"

definition artifact_of :: "(string, json_object) dict \<Rightarrow> string \<Rightarrow> py_error + json_object" where
  "artifact_of artifacts provider_id =
     (case map_of artifacts provider_id of None \<Rightarrow> Inl Key_Error | Some body \<Rightarrow> Inr body)"

definition object_items :: "string \<Rightarrow> json_object \<Rightarrow> py_error + json_object list" where
  "object_items k body = and_then (item k body) (\<lambda>v. and_then (as_list v) (map_result as_object))"

subsection \<open>Explorer answers\<close>

record rest_projection =
  rp_transaction_id :: string
  rp_block_height :: int
  rp_block_hash :: string
  rp_block_time :: int
  rp_fee_sat :: int
  rp_inputs :: "bitcoin_input list"
  rp_outputs :: "bitcoin_output list"

definition rest_prevout :: "float_model \<Rightarrow> json_object \<Rightarrow> py_error + bitcoin_prevout" where
  "rest_prevout fm vin =
     and_then (text_item fm ''txid'' vin) (\<lambda>transaction_id.
     and_then (int_item fm ''vout'' vin) (\<lambda>vout.
     and_then (object_item ''prevout'' vin) (\<lambda>prevout.
     and_then (int_item fm ''value'' prevout) (\<lambda>value_sat.
     and_then (text_item fm ''scriptpubkey_type'' prevout) (\<lambda>script_type.
     and_then (text_item fm ''scriptpubkey_address'' prevout) (\<lambda>address.
     Inr \<lparr>bp_transaction_id = transaction_id, bp_vout = vout, bp_value_sat = value_sat,
       bp_script_type = script_type, bp_address = address\<rparr>))))))"

definition rest_input :: "float_model \<Rightarrow> json_object \<Rightarrow> py_error + bitcoin_input" where
  "rest_input fm vin =
     and_then (rest_prevout fm vin) (\<lambda>prevout.
     and_then (int_item fm ''sequence'' vin) (\<lambda>sequence.
     Inr \<lparr>bi_prevout = prevout, bi_sequence = sequence\<rparr>))"

definition rest_output :: "float_model \<Rightarrow> nat \<times> json_object \<Rightarrow> py_error + bitcoin_output" where
  "rest_output fm indexed =
     (let (index, vout) = indexed in
      and_then (int_item fm ''value'' vout) (\<lambda>value_sat.
      and_then (text_item fm ''scriptpubkey_type'' vout) (\<lambda>script_type.
      and_then (text_item fm ''scriptpubkey_address'' vout) (\<lambda>address.
      Inr \<lparr>bo_vout = int index, bo_value_sat = value_sat, bo_script_type = script_type,
        bo_address = address\<rparr>))))"

definition rest_transaction_projection :: "float_model \<Rightarrow> json_object \<Rightarrow> py_error + rest_projection" where
  "rest_transaction_projection fm body =
     and_then (object_item ''status'' body) (\<lambda>status.
     and_then (object_items ''vin'' body) (\<lambda>inputs.
     and_then (object_items ''vout'' body) (\<lambda>outputs.
     and_then (text_item fm ''txid'' body) (\<lambda>transaction_id.
     and_then (int_item fm ''block_height'' status) (\<lambda>block_height.
     and_then (text_item fm ''block_hash'' status) (\<lambda>block_hash.
     and_then (int_item fm ''block_time'' status) (\<lambda>block_time.
     and_then (int_item fm ''fee'' body) (\<lambda>fee_sat.
     and_then (map_result (rest_input fm) inputs) (\<lambda>ins.
     and_then (map_result (rest_output fm) (enumerate 0 outputs)) (\<lambda>outs.
     Inr \<lparr>rp_transaction_id = transaction_id, rp_block_height = block_height,
       rp_block_hash = block_hash, rp_block_time = block_time, rp_fee_sat = fee_sat,
       rp_inputs = ins, rp_outputs = outs\<rparr>))))))))))"

text \<open>
  The inputs that spend an outpoint, with their indexes: \<^verbatim>\<open>str(item["txid"]) == t and int(item["vout"]) == v\<close>
  reads the second key only when the first matches.
\<close>

definition spends_outpoint :: "float_model \<Rightarrow> string \<Rightarrow> int \<Rightarrow> json_object \<Rightarrow> py_error + bool" where
  "spends_outpoint fm spent_transaction_id spent_vout vin =
     and_then (text_item fm ''txid'' vin) (\<lambda>txid.
     if txid = spent_transaction_id
     then and_then (int_item fm ''vout'' vin) (\<lambda>vout. Inr (vout = spent_vout))
     else Inr False)"

definition spending_inputs ::
    "float_model \<Rightarrow> string \<Rightarrow> int \<Rightarrow> json_object list \<Rightarrow> py_error + (nat \<times> json_object) list" where
  "spending_inputs fm spent_transaction_id spent_vout inputs =
     and_then (map_result (spends_outpoint fm spent_transaction_id spent_vout) inputs) (\<lambda>hits.
     Inr (map snd (filter fst (zip hits (enumerate 0 inputs)))))"

definition only_match :: "(nat \<times> json_object) list \<Rightarrow> py_error + nat \<times> json_object" where
  "only_match matches = (case matches of [m] \<Rightarrow> Inr m | _ \<Rightarrow> Inl Value_Error)"

record hop_projection =
  hj_spent_transaction_id :: string
  hj_spent_vout :: int
  hj_spent_value_sat :: int
  hj_spending_transaction_id :: string
  hj_spending_vin :: int
  hj_block_height :: int
  hj_fee_sat :: int
  hj_created_outputs :: "bitcoin_output list"

definition rest_hop_projection ::
    "float_model \<Rightarrow> json_object \<Rightarrow> string \<Rightarrow> int \<Rightarrow> py_error + hop_projection" where
  "rest_hop_projection fm body spent_transaction_id spent_vout =
     and_then (object_items ''vin'' body) (\<lambda>inputs.
     and_then (object_items ''vout'' body) (\<lambda>outputs.
     and_then (spending_inputs fm spent_transaction_id spent_vout inputs) (\<lambda>matches.
     and_then (only_match matches) (\<lambda>(spending_vin, spent_input).
     and_then (object_item ''status'' body) (\<lambda>status.
     and_then (object_item ''prevout'' spent_input) (\<lambda>prevout.
     and_then (int_item fm ''value'' prevout) (\<lambda>spent_value_sat.
     and_then (text_item fm ''txid'' body) (\<lambda>spending_transaction_id.
     and_then (int_item fm ''block_height'' status) (\<lambda>block_height.
     and_then (int_item fm ''fee'' body) (\<lambda>fee_sat.
     and_then (map_result (rest_output fm) (enumerate 0 outputs)) (\<lambda>outs.
     Inr \<lparr>hj_spent_transaction_id = spent_transaction_id, hj_spent_vout = spent_vout,
       hj_spent_value_sat = spent_value_sat, hj_spending_transaction_id = spending_transaction_id,
       hj_spending_vin = int spending_vin, hj_block_height = block_height, hj_fee_sat = fee_sat,
       hj_created_outputs = outs\<rparr>)))))))))))"

subsection \<open>Node answers\<close>

record node_input =
  ni_transaction_id :: string
  ni_vout :: int
  ni_sequence :: int

record node_output =
  no_vout :: int
  no_value_sat :: int
  no_address :: string

record node_projection =
  np_transaction_id :: string
  np_block_hash :: string
  np_block_time :: int
  np_inputs :: "node_input list"
  np_outputs :: "node_output list"

definition node_input :: "float_model \<Rightarrow> json_object \<Rightarrow> py_error + node_input" where
  "node_input fm vin =
     and_then (text_item fm ''txid'' vin) (\<lambda>transaction_id.
     and_then (int_item fm ''vout'' vin) (\<lambda>vout.
     and_then (int_item fm ''sequence'' vin) (\<lambda>sequence.
     Inr \<lparr>ni_transaction_id = transaction_id, ni_vout = vout, ni_sequence = sequence\<rparr>)))"

definition node_value_sat :: "float_model \<Rightarrow> json_object \<Rightarrow> py_error + int" where
  "node_value_sat fm vout = and_then (item ''value'' vout) (\<lambda>v. satoshis (py_str fm v))"

definition node_output :: "float_model \<Rightarrow> json_object \<Rightarrow> py_error + node_output" where
  "node_output fm vout =
     and_then (int_item fm ''n'' vout) (\<lambda>n.
     and_then (node_value_sat fm vout) (\<lambda>value_sat.
     and_then (object_item ''scriptPubKey'' vout) (\<lambda>script.
     and_then (text_item fm ''address'' script) (\<lambda>address.
     Inr \<lparr>no_vout = n, no_value_sat = value_sat, no_address = address\<rparr>))))"

definition publicnode_projection :: "float_model \<Rightarrow> json_object \<Rightarrow> py_error + node_projection" where
  "publicnode_projection fm body =
     and_then (object_item ''result'' body) (\<lambda>result.
     and_then (object_items ''vin'' result) (\<lambda>inputs.
     and_then (object_items ''vout'' result) (\<lambda>outputs.
     and_then (text_item fm ''txid'' result) (\<lambda>transaction_id.
     and_then (text_item fm ''blockhash'' result) (\<lambda>block_hash.
     and_then (int_item fm ''blocktime'' result) (\<lambda>block_time.
     and_then (map_result (node_input fm) inputs) (\<lambda>ins.
     and_then (map_result (node_output fm) outputs) (\<lambda>outs.
     Inr \<lparr>np_transaction_id = transaction_id, np_block_hash = block_hash,
       np_block_time = block_time, np_inputs = ins, np_outputs = outs\<rparr>))))))))"

definition publicnode_script_type :: "string \<Rightarrow> py_error + string" where
  "publicnode_script_type script_type =
     (case map_of
        [(''witness_v0_keyhash'', ''v0_p2wpkh''), (''witness_v0_scripthash'', ''v0_p2wsh''),
         (''witness_v1_taproot'', ''v1_p2tr''), (''pubkeyhash'', ''p2pkh''), (''scripthash'', ''p2sh'')]
        script_type of
        None \<Rightarrow> Inl Value_Error | Some t \<Rightarrow> Inr t)"

definition node_hop_output :: "float_model \<Rightarrow> json_object \<Rightarrow> py_error + bitcoin_output" where
  "node_hop_output fm vout =
     and_then (int_item fm ''n'' vout) (\<lambda>n.
     and_then (node_value_sat fm vout) (\<lambda>value_sat.
     and_then (object_item ''scriptPubKey'' vout) (\<lambda>script.
     and_then (text_item fm ''type'' script) (\<lambda>node_type.
     and_then (publicnode_script_type node_type) (\<lambda>script_type.
     and_then (text_item fm ''address'' script) (\<lambda>address.
     Inr \<lparr>bo_vout = n, bo_value_sat = value_sat, bo_script_type = script_type, bo_address = address\<rparr>))))))"

text \<open>
  The projection of a spending transaction as the node reports it. The value of the spent output is
  looked up in the root transaction of the replay. \<^verbatim>\<open>block_hash\<close> and \<^verbatim>\<open>block_time\<close> are read and not compared.
\<close>

record node_hop_projection =
  nh_spent_transaction_id :: string
  nh_spent_vout :: int
  nh_spent_value_sat :: int
  nh_spending_transaction_id :: string
  nh_spending_vin :: int
  nh_block_hash :: string
  nh_block_time :: int
  nh_fee_sat :: int
  nh_created_outputs :: "bitcoin_output list"

definition root_output :: "bitcoin_utxo_replay \<Rightarrow> string \<Rightarrow> int \<Rightarrow> bitcoin_output option" where
  "root_output replay spent_transaction_id spent_vout =
     find (\<lambda>out. bt_transaction_id (br_transaction replay) = spent_transaction_id \<and> bo_vout out = spent_vout)
       (bt_outputs (br_transaction replay))"

definition publicnode_hop_projection ::
    "float_model \<Rightarrow> json_object \<Rightarrow> bitcoin_utxo_replay \<Rightarrow> string \<Rightarrow> int \<Rightarrow> py_error + node_hop_projection" where
  "publicnode_hop_projection fm body replay spent_transaction_id spent_vout =
     and_then (object_item ''result'' body) (\<lambda>result.
     and_then (object_items ''vin'' result) (\<lambda>inputs.
     and_then (object_items ''vout'' result) (\<lambda>outputs.
     and_then (spending_inputs fm spent_transaction_id spent_vout inputs) (\<lambda>matches.
     and_then (only_match matches) (\<lambda>(spending_vin, _).
     and_then
       (case root_output replay spent_transaction_id spent_vout of
          None \<Rightarrow> Inl Value_Error | Some out \<Rightarrow> Inr (bo_value_sat out)) (\<lambda>spent_value_sat.
     and_then (map_result (node_hop_output fm) outputs) (\<lambda>created.
     and_then (text_item fm ''txid'' result) (\<lambda>spending_transaction_id.
     and_then (text_item fm ''blockhash'' result) (\<lambda>block_hash.
     and_then (int_item fm ''blocktime'' result) (\<lambda>block_time.
     Inr \<lparr>nh_spent_transaction_id = spent_transaction_id, nh_spent_vout = spent_vout,
       nh_spent_value_sat = spent_value_sat, nh_spending_transaction_id = spending_transaction_id,
       nh_spending_vin = int spending_vin, nh_block_hash = block_hash, nh_block_time = block_time,
       nh_fee_sat = spent_value_sat - sum_list (map bo_value_sat created),
       nh_created_outputs = created\<rparr>))))))))))"

subsection \<open>Comparisons\<close>

record hop_comparable =
  hc_spent_transaction_id :: string
  hc_spent_vout :: int
  hc_spent_value_sat :: int
  hc_spending_transaction_id :: string
  hc_spending_vin :: int
  hc_fee_sat :: int
  hc_created_outputs :: "bitcoin_output list"

definition publicnode_hop_comparable :: "node_hop_projection \<Rightarrow> hop_comparable" where
  "publicnode_hop_comparable p =
     \<lparr>hc_spent_transaction_id = nh_spent_transaction_id p, hc_spent_vout = nh_spent_vout p,
      hc_spent_value_sat = nh_spent_value_sat p,
      hc_spending_transaction_id = nh_spending_transaction_id p,
      hc_spending_vin = nh_spending_vin p, hc_fee_sat = nh_fee_sat p,
      hc_created_outputs = nh_created_outputs p\<rparr>"

definition rest_hop_public_projection :: "hop_projection \<Rightarrow> hop_comparable" where
  "rest_hop_public_projection p =
     \<lparr>hc_spent_transaction_id = hj_spent_transaction_id p, hc_spent_vout = hj_spent_vout p,
      hc_spent_value_sat = hj_spent_value_sat p,
      hc_spending_transaction_id = hj_spending_transaction_id p,
      hc_spending_vin = hj_spending_vin p, hc_fee_sat = hj_fee_sat p,
      hc_created_outputs = hj_created_outputs p\<rparr>"

definition replay_transaction_projection :: "bitcoin_utxo_replay \<Rightarrow> rest_projection" where
  "replay_transaction_projection replay =
     (let tx = br_transaction replay in
      \<lparr>rp_transaction_id = bt_transaction_id tx, rp_block_height = bt_block_height tx,
       rp_block_hash = bt_block_hash tx, rp_block_time = bt_block_time tx, rp_fee_sat = bt_fee_sat tx,
       rp_inputs = bt_inputs tx, rp_outputs = bt_outputs tx\<rparr>)"

definition publicnode_replay_projection :: "bitcoin_utxo_replay \<Rightarrow> node_projection" where
  "publicnode_replay_projection replay =
     (let tx = br_transaction replay in
      \<lparr>np_transaction_id = bt_transaction_id tx, np_block_hash = bt_block_hash tx,
       np_block_time = bt_block_time tx,
       np_inputs = map (\<lambda>i. \<lparr>ni_transaction_id = bp_transaction_id (bi_prevout i),
         ni_vout = bp_vout (bi_prevout i), ni_sequence = bi_sequence i\<rparr>) (bt_inputs tx),
       np_outputs = map (\<lambda>out. \<lparr>no_vout = bo_vout out, no_value_sat = bo_value_sat out,
         no_address = bo_address out\<rparr>) (bt_outputs tx)\<rparr>)"

definition replay_hop_projection :: "bitcoin_spend_hop \<Rightarrow> hop_projection" where
  "replay_hop_projection hop =
     \<lparr>hj_spent_transaction_id = bh_spent_transaction_id hop, hj_spent_vout = bh_spent_vout hop,
      hj_spent_value_sat = bh_spent_value_sat hop,
      hj_spending_transaction_id = bh_spending_transaction_id hop,
      hj_spending_vin = bh_spending_vin hop, hj_block_height = bh_block_height hop,
      hj_fee_sat = bh_fee_sat hop, hj_created_outputs = bh_created_outputs hop\<rparr>"

fun artifact_path_from :: "string \<Rightarrow> bitcoin_output list \<Rightarrow> hop_projection list \<Rightarrow> py_error + unit" where
  "artifact_path_from previous_transaction_id previous_outputs [] = Inr ()"
| "artifact_path_from previous_transaction_id previous_outputs (hop # hops) =
     then_check (raise_if (hj_spent_transaction_id hop \<noteq> previous_transaction_id) Value_Error)
       (then_check
         (raise_if
           (case filter (\<lambda>out. bo_vout out = hj_spent_vout hop) previous_outputs of
              [out] \<Rightarrow> bo_value_sat out \<noteq> hj_spent_value_sat hop
            | _ \<Rightarrow> True)
           Value_Error)
         (artifact_path_from (hj_spending_transaction_id hop) (hj_created_outputs hop) hops))"

definition validate_artifact_path :: "rest_projection \<Rightarrow> hop_projection list \<Rightarrow> py_error + unit" where
  "validate_artifact_path verified hops =
     artifact_path_from (rp_transaction_id verified) (rp_outputs verified) hops"

subsection \<open>Reconciliation\<close>

text \<open>The body of the \<^verbatim>\<open>try\<close> block of \<^verbatim>\<open>_artifact_error\<close>, in three parts.\<close>

definition reconcile_root :: "artifact_env \<Rightarrow> bitcoin_utxo_replay \<Rightarrow> py_error + rest_projection" where
  "reconcile_root env replay =
     (let fm = af_floats env in
      and_then (provider_artifacts env (bt_providers (br_transaction replay))) (\<lambda>artifacts.
      and_then (artifact_of artifacts ''publicnode.bitcoin'') (\<lambda>publicnode.
      and_then (publicnode_projection fm publicnode) (\<lambda>primary.
      and_then (artifact_of artifacts ''mempool.space'') (\<lambda>mempool.
      and_then (rest_transaction_projection fm mempool) (\<lambda>verified.
      and_then
        (case map_of artifacts ''blockstream.info'' of
           None \<Rightarrow> Inr ()
         | Some body \<Rightarrow>
             and_then (rest_transaction_projection fm body) (\<lambda>supporting.
               raise_if (verified \<noteq> supporting) Value_Error)) (\<lambda>_.
      and_then (raise_if (verified \<noteq> replay_transaction_projection replay) Value_Error) (\<lambda>_.
      and_then (raise_if (primary \<noteq> publicnode_replay_projection replay) Value_Error) (\<lambda>_.
      Inr verified)))))))))"

definition reconcile_hop ::
    "artifact_env \<Rightarrow> bitcoin_utxo_replay \<Rightarrow> bitcoin_spend_hop \<Rightarrow> py_error + hop_projection" where
  "reconcile_hop env replay hop =
     (let fm = af_floats env; t = bh_spent_transaction_id hop; n = bh_spent_vout hop in
      and_then (provider_artifacts env (bh_providers hop)) (\<lambda>artifacts.
      and_then (artifact_of artifacts ''publicnode.bitcoin'') (\<lambda>publicnode.
      and_then (publicnode_hop_projection fm publicnode replay t n) (\<lambda>primary_hop.
      and_then (artifact_of artifacts ''mempool.space'') (\<lambda>mempool.
      and_then (rest_hop_projection fm mempool t n) (\<lambda>verify_hop.
      and_then
        (raise_if (publicnode_hop_comparable primary_hop \<noteq> rest_hop_public_projection verify_hop) Value_Error) (\<lambda>_.
      and_then
        (case map_of artifacts ''blockstream.info'' of
           None \<Rightarrow> Inr ()
         | Some body \<Rightarrow>
             and_then (rest_hop_projection fm body t n) (\<lambda>supporting_hop.
               raise_if (verify_hop \<noteq> supporting_hop) Value_Error)) (\<lambda>_.
      and_then (raise_if (verify_hop \<noteq> replay_hop_projection hop) Value_Error) (\<lambda>_.
      Inr verify_hop)))))))))"

definition reconcile :: "artifact_env \<Rightarrow> bitcoin_utxo_replay \<Rightarrow> py_error + unit" where
  "reconcile env replay =
     and_then (reconcile_root env replay) (\<lambda>verified.
     and_then (map_result (reconcile_hop env replay) (br_spend_path replay)) (\<lambda>derived_hops.
     validate_artifact_path verified derived_hops))"

text \<open>The \<^verbatim>\<open>except\<close> clause of \<^verbatim>\<open>_artifact_error\<close> catches every class here but \<^verbatim>\<open>ArithmeticError\<close>.\<close>

datatype btc_failure = Btc_Failure (bf_code: error_code) (bf_message: string) (bf_stage: string)

definition artifact_error :: "artifact_env \<Rightarrow> bitcoin_utxo_replay \<Rightarrow> py_error + btc_failure option" where
  "artifact_error env replay =
     (case reconcile env replay of
        Inr _ \<Rightarrow> Inr None
      | Inl Arithmetic_Error \<Rightarrow> Inl Arithmetic_Error
      | Inl _ \<Rightarrow> Inr (Some (Btc_Failure ERR_RECONCILIATION_FAILED
          ''Bitcoin replay differs from reviewed provider artifacts.'' ''artifact_reconciliation'')))"

end
