(* ===== verification/Bitcoin_Analyzer.thy ===== *)
theory Bitcoin_Analyzer
  imports Bitcoin_Artifacts Analysis_Result
begin

section \<open>The Bitcoin analyzer\<close>

text \<open>
  \<^verbatim>\<open>slices/bitcoin_utxo.py\<close>: binding of a request to a replay, the evidence and source records, and
  \<^verbatim>\<open>analyze_bitcoin_utxo_replay\<close>. Every returned document passes through \<^verbatim>\<open>validate_analysis_result\<close>; \<open>Inl\<close>
  is an exception that leaves the analyzer.
\<close>

definition required_source_ids :: "string list" where
  "required_source_ids = [''DS-BTC-NODE'', ''DS-BTC-API'']"

subsection \<open>Binding\<close>

definition input_fields :: "analysis_request \<Rightarrow> json_object" where
  "input_fields request = (case rq_inputs request of JObj kvs \<Rightarrow> kvs | _ \<Rightarrow> [])"

definition btc_input_text :: "string \<Rightarrow> analysis_request \<Rightarrow> string" where
  "btc_input_text k request = (case map_of (input_fields request) k of Some (JStr s) \<Rightarrow> s | _ \<Rightarrow> [])"

definition btc_input_int :: "string \<Rightarrow> analysis_request \<Rightarrow> int" where
  "btc_input_int k request = int_field (input_fields request) k"

definition fixture_differs :: "analysis_request \<Rightarrow> bitcoin_utxo_replay \<Rightarrow> bool" where
  "fixture_differs request replay =
     (case rq_fixture_id request of None \<Rightarrow> False | Some f \<Rightarrow> f \<noteq> br_fixture_id replay)"

definition binding_error :: "analysis_request \<Rightarrow> bitcoin_utxo_replay \<Rightarrow> btc_failure option" where
  "binding_error request replay =
     (let policy = rq_source_policy request; tx = br_transaction replay in
      if \<not> po_offline_mode policy
      then Some (Btc_Failure ERR_RULE_RESTRICTED ''Bitcoin v1 requires reviewed offline replay.'' ''rule_check'')
      else if fixture_differs request replay
      then Some (Btc_Failure ERR_RECONCILIATION_FAILED ''Request and replay fixture IDs differ.'' ''fixture'')
      else if btc_input_text ''transaction_id'' request \<noteq> bt_transaction_id tx
      then Some (Btc_Failure ERR_RECONCILIATION_FAILED ''Request and replay transaction IDs differ.'' ''txid'')
      else if btc_input_text ''network'' request \<noteq> bt_network tx
      then Some (Btc_Failure ERR_RECONCILIATION_FAILED ''Request and replay networks differ.'' ''network'')
      else if btc_input_int ''start_vout'' request \<notin> set (map bo_vout (bt_outputs tx))
      then Some (Btc_Failure ERR_INVALID_INPUT ''Requested Bitcoin start_vout does not exist.'' ''start_outpoint'')
      else if \<not> set required_source_ids \<subseteq> set (po_allowed_source_ids policy)
      then Some (Btc_Failure ERR_RULE_RESTRICTED ''Approved Bitcoin node and API sources are required.'' ''source'')
      else if set (br_source_ids replay) \<noteq> set (po_allowed_source_ids policy)
      then Some (Btc_Failure ERR_RULE_RESTRICTED ''Replay and request source sets differ.'' ''source_binding'')
      else None)"

subsection \<open>Evidence\<close>

fun observation_source :: "provider_role \<Rightarrow> string" where
  "observation_source ROLE_PRIMARY = ''DS-BTC-NODE''"
| "observation_source _ = ''DS-BTC-API''"

fun observation_method :: "provider_role \<Rightarrow> string" where
  "observation_method ROLE_PRIMARY = ''getrawtransaction''"
| "observation_method _ = ''GET /api/tx/:txid''"

definition block_locator :: "int \<Rightarrow> evidence_locator" where
  "block_locator height =
     \<lparr>el_chain_id = None, el_block_number = Some height, el_transaction_hash = None,
      el_log_index = None, el_trace_address = None, el_url = None\<rparr>"

definition observation_artifact :: "bitcoin_provider_observation \<Rightarrow> raw_artifact" where
  "observation_artifact v =
     \<lparr>ra_artifact_uri = ''artifact://sha256/'' @ bv_artifact_sha256 v,
      ra_sha256 = Some (bv_artifact_sha256 v), ra_media_type = Some ''application/json'',
      ra_byte_length = None\<rparr>"

definition observation_evidence ::
    "string \<Rightarrow> string \<Rightarrow> int \<Rightarrow> json \<Rightarrow> bitcoin_provider_observation \<Rightarrow> evidence" where
  "observation_evidence evidence_id record_id height decoded v =
     \<lparr>ei_evidence_id = evidence_id, ei_evidence_type = EVIDENCE_CONTEXT,
      ei_source_id = observation_source (bv_role v), ei_source_record_ref = record_id,
      ei_method = observation_method (bv_role v), ei_retrieved_at = bv_retrieved_at v,
      ei_locator = block_locator height, ei_decoded = decoded,
      ei_raw_artifact = observation_artifact v\<rparr>"

definition decoded_transaction :: "bitcoin_transaction_replay \<Rightarrow> json" where
  "decoded_transaction tx =
     JObj [(''transaction_id'', JStr (bt_transaction_id tx)),
       (''input_count'', JInt (int (length (bt_inputs tx)))),
       (''output_count'', JInt (int (length (bt_outputs tx)))), (''fee_sat'', JInt (bt_fee_sat tx))]"

definition decoded_hop :: "bitcoin_spend_hop \<Rightarrow> json" where
  "decoded_hop hop =
     JObj [(''spent_transaction_id'', JStr (bh_spent_transaction_id hop)),
       (''spent_vout'', JInt (bh_spent_vout hop)),
       (''spending_transaction_id'', JStr (bh_spending_transaction_id hop)),
       (''spending_vin'', JInt (bh_spending_vin hop)),
       (''created_output_count'', JInt (int (length (bh_created_outputs hop))))]"

text \<open>The two loops over the providers of the transaction and of each hop, with their indexes.\<close>

definition root_observations :: "bitcoin_utxo_replay \<Rightarrow> (nat \<times> bitcoin_provider_observation) list" where
  "root_observations replay = enumerate 0 (bt_providers (br_transaction replay))"

definition hop_observations ::
    "bitcoin_utxo_replay \<Rightarrow> (nat \<times> bitcoin_spend_hop \<times> nat \<times> bitcoin_provider_observation) list" where
  "hop_observations replay =
     concat (map (\<lambda>(i, hop). map (\<lambda>(j, v). (i, hop, j, v)) (enumerate 0 (bh_providers hop)))
       (enumerate 0 (br_spend_path replay)))"

definition hop_tag :: "nat \<Rightarrow> nat \<Rightarrow> string" where
  "hop_tag i j = ''BTC-HOP-'' @ show_nat i @ ''-'' @ show_nat j"

definition btc_evidence :: "bitcoin_utxo_replay \<Rightarrow> evidence list" where
  "btc_evidence replay =
     (let tx = br_transaction replay in
      map (\<lambda>(i, v). observation_evidence (''EV-BTC-TX-'' @ show_nat i) (''SRC-BTC-'' @ show_nat i)
             (bt_block_height tx) (decoded_transaction tx) v) (root_observations replay)
      @ map (\<lambda>(i, hop, j, v). observation_evidence (''EV-'' @ hop_tag i j) (''SRC-'' @ hop_tag i j)
             (bh_block_height hop) (decoded_hop hop) v) (hop_observations replay))"

subsection \<open>Sources\<close>

definition endpoint_hosts :: "(string \<times> string) list" where
  "endpoint_hosts =
     [(''publicnode.bitcoin'', ''bitcoin-rpc.publicnode.com''), (''mempool.space'', ''mempool.space''),
      (''blockstream.info'', ''blockstream.info'')]"

definition observation_record ::
    "string \<Rightarrow> string \<Rightarrow> bitcoin_provider_observation \<Rightarrow> py_error + source_record" where
  "observation_record record_id capability v =
     (case map_of endpoint_hosts (bv_provider_id v) of
        None \<Rightarrow> Inl Key_Error
      | Some host \<Rightarrow>
          Inr \<lparr>sd_source_record_id = record_id, sd_source_id = observation_source (bv_role v),
            sd_provider_id = bv_provider_id v,
            sd_role = (if bv_role v = ROLE_PRIMARY then ROLE_SCORING else source_role.ROLE_SUPPORTING),
            sd_required = (bv_role v \<in> {ROLE_PRIMARY, ROLE_VERIFY}), sd_capability = capability,
            sd_endpoint_host = host, sd_retrieved_at = bv_retrieved_at v, sd_fallback_from = None\<rparr>)"

definition btc_sources :: "bitcoin_utxo_replay \<Rightarrow> py_error + source_record list" where
  "btc_sources replay =
     and_then (map_result (\<lambda>(i, v). observation_record (''SRC-BTC-'' @ show_nat i) ''bitcoin_transaction_prevouts'' v)
       (root_observations replay)) (\<lambda>roots.
     and_then (map_result (\<lambda>(i, _, j, v). observation_record (''SRC-'' @ hop_tag i j) ''bitcoin_spend_path'' v)
       (hop_observations replay)) (\<lambda>hops.
     Inr (roots @ hops)))"

subsection \<open>Results\<close>

datatype analyzer_failure = Uncaught py_error | Contract_Violation contract_error

definition validated :: "(string \<Rightarrow> string option) \<Rightarrow> analysis_result \<Rightarrow> analyzer_failure + analysis_result" where
  "validated urls result =
     (case validate_analysis_result urls result of
        Inl e \<Rightarrow> Inl (Contract_Violation e) | Inr _ \<Rightarrow> Inr result)"

definition uncaught :: "py_error + 'a \<Rightarrow> analyzer_failure + 'a" where
  "uncaught r = (case r of Inl e \<Rightarrow> Inl (Uncaught e) | Inr x \<Rightarrow> Inr x)"

definition pending_export :: "string \<Rightarrow> export_file" where
  "pending_export uri = \<lparr>xf_artifact_uri = uri, xf_sha256 = None\<rparr>"

definition btc_document ::
    "analysis_request \<Rightarrow> analysis_status \<Rightarrow> result_item list \<Rightarrow> evidence list \<Rightarrow> source_record list
      \<Rightarrow> analysis_error list \<Rightarrow> run_record \<Rightarrow> analysis_result" where
  "btc_document request status results evidence sources errors run =
     \<lparr>rs_schema_uri = ''analysis-result.schema.json'', rs_schema_version = ''0.2'',
      rs_analysis_id = rq_analysis_id request, rs_analysis_type = BITCOIN_UTXO, rs_status = status,
      rs_chain_id = 0, rs_results = results, rs_evidence = evidence, rs_sources = sources,
      rs_warnings = [], rs_errors = errors, rs_run = run,
      rs_exports = \<lparr>xp_json = pending_export ''artifact://pending/bitcoin-result'',
        xp_markdown = pending_export ''artifact://pending/bitcoin-evidence'', xp_csv = None\<rparr>\<rparr>"

definition btc_run :: "instant \<Rightarrow> nat \<Rightarrow> bool \<Rightarrow> string option \<Rightarrow> run_record" where
  "btc_run observed misses resumed checkpoint_id =
     \<lparr>rn_tool_version = ''0.1.0'', rn_execution_mode = MODE_OFFLINE_REPLAY, rn_started_at = observed,
      rn_finished_at = observed, rn_cache_hits = 0, rn_cache_misses = int misses, rn_retry_count = 0,
      rn_fallback_count = 0, rn_resumed = resumed,
      rn_checkpoint_id = (if checkpoint_id = Some [] then None else checkpoint_id)\<rparr>"

definition btc_error :: "string \<Rightarrow> error_code \<Rightarrow> string \<Rightarrow> string \<Rightarrow> analysis_error" where
  "btc_error error_id code stage message =
     \<lparr>ae_error_id = error_id, ae_code = code, ae_message = message, ae_stage = stage,
      ae_source_id = None, ae_provider_id = None, ae_retryable = False, ae_attempt_count = 1,
      ae_last_attempt_at = None, ae_related_evidence_ids = None, ae_details = None\<rparr>"

definition spend_evidence_error :: analysis_error where
  "spend_evidence_error =
     btc_error ''ERR-BTC-SPEND-EVIDENCE'' ERR_EVIDENCE_INCOMPLETE ''spend_path''
       ''No reviewed spend-path evidence is available.''"

text \<open>\<^verbatim>\<open>_result\<close>; the validator has made sure that there is a first provider.\<close>

definition btc_result ::
    "(string \<Rightarrow> string option) \<Rightarrow> analysis_request \<Rightarrow> bitcoin_utxo_replay \<Rightarrow> result_item list \<Rightarrow> evidence list
      \<Rightarrow> bool \<Rightarrow> string option \<Rightarrow> analyzer_failure + analysis_result" where
  "btc_result urls request replay results evidence resumed checkpoint_id =
     (let observed = bv_retrieved_at (hd (bt_providers (br_transaction replay)));
          is_partial = (br_spend_path replay = []) in
      and_then (uncaught (btc_sources replay)) (\<lambda>sources.
      validated urls
        (btc_document request (if is_partial then AN_PARTIAL else AN_COMPLETE) results evidence sources
          (if is_partial then [spend_evidence_error] else [])
          (btc_run observed (length evidence) resumed checkpoint_id))))"

definition btc_failed ::
    "(string \<Rightarrow> string option) \<Rightarrow> analysis_request \<Rightarrow> btc_failure \<Rightarrow> analyzer_failure + analysis_result" where
  "btc_failed urls request failure =
     validated urls
       (btc_document request AN_FAILED [] [] []
         [btc_error ''ERR-BTC-ANALYSIS'' (bf_code failure) (bf_stage failure) (bf_message failure)]
         (btc_run (rq_requested_at request) 0 False None))"

definition btc_result_item ::
    "string \<Rightarrow> string \<Rightarrow> classification \<Rightarrow> json \<Rightarrow> string list \<Rightarrow> evidence list \<Rightarrow> result_item" where
  "btc_result_item result_id result_type class value fixture_requirements evidence =
     \<lparr>ri_result_id = result_id, ri_result_type = result_type, ri_classification = class,
      ri_value = value, ri_tool_requirement_ids = [''REQ-P0-BTC-001''],
      ri_fixture_requirement_ids = fixture_requirements,
      ri_evidence_refs = map ei_evidence_id evidence\<rparr>"

definition btc_results :: "analysis_request \<Rightarrow> bitcoin_utxo_replay \<Rightarrow> evidence list \<Rightarrow> result_item list" where
  "btc_results request replay evidence =
     btc_result_item ''RES-BTC-UTXO-SUMMARY'' ''bitcoin_utxo_summary'' CONFIRMED_FACT
       (reconstruct_bitcoin_facts replay (btc_input_int ''start_vout'' request) (btc_input_int ''max_hops'' request))
       [''REQ-BTC-PREVOUT'', ''REQ-BTC-FEE''] evidence
     # (if rq_query_kind request = Some ''assess_heuristics''
        then [btc_result_item ''RES-BTC-HEURISTIC-ASSESSMENT'' ''bitcoin_heuristic_assessment'' HEURISTIC
                (assess_bitcoin_heuristics replay) [''REQ-BTC-HEURISTIC''] evidence]
        else [])"

definition analyze_bitcoin_utxo_replay ::
    "(string \<Rightarrow> string option) \<Rightarrow> artifact_env \<Rightarrow> analysis_request \<Rightarrow> bytes \<Rightarrow> bool \<Rightarrow> string option
      \<Rightarrow> analyzer_failure + analysis_result" where
  "analyze_bitcoin_utxo_replay urls env request raw_replay resumed checkpoint_id =
     (case parse_bitcoin_utxo_replay env raw_replay of
        None \<Rightarrow> btc_failed urls request (Btc_Failure ERR_DECODE_FAILED ''Bitcoin replay is invalid.'' ''decode_replay'')
      | Some replay \<Rightarrow>
          (case binding_error request replay of
             Some failure \<Rightarrow> btc_failed urls request failure
           | None \<Rightarrow>
               and_then (uncaught (artifact_error env replay)) (\<lambda>failure.
                 (case failure of
                    Some f \<Rightarrow> btc_failed urls request f
                  | None \<Rightarrow>
                      (let evidence = btc_evidence replay in
                       btc_result urls request replay (btc_results request replay evidence) evidence
                         resumed checkpoint_id)))))"

end
