(* ===== verification/Bitcoin_Reports.thy ===== *)
theory Bitcoin_Reports
  imports Bitcoin_Analyzer
begin

section \<open>Documents of the Bitcoin analyzer\<close>

text \<open>
  The documents the analyzer builds meet the analysis contract: the numbered identifiers are well formed
  and distinct, every source record is cited by the evidence of the same source, and the free-form
  values hold no raw numbers. The bound of \<open>10 ^ 50\<close> hops keeps the identifiers within their 127
  characters.
\<close>

subsection \<open>Numbered identifiers\<close>

lemma length_show_nat: "n < 10 ^ k \<Longrightarrow> 0 < k \<Longrightarrow> length (show_nat n) \<le> k"
proof (induction n arbitrary: k rule: show_nat.induct)
  case (1 n)
  show ?case
  proof (cases "n < 10")
    case True
    with 1(3) show ?thesis by (simp add: show_nat.simps [of n])
  next
    case False
    then obtain j where k: "k = Suc j" "0 < j"
      using 1(2,3) by (cases k; cases "k - 1") auto
    then have "n div 10 < 10 ^ j" using 1(2) by (simp add: less_mult_imp_div_less)
    with 1(1) [OF False] k have "length (show_nat (n div 10)) \<le> j" by simp
    with False k show ?thesis by (simp add: show_nat.simps [of n])
  qed
qed

lemma show_nat_inject: "show_nat m = show_nat n \<longleftrightarrow> m = n"
  by (metis show_nat_value)

lemma show_nat_no_dash: "takeWhile (\<lambda>c. c \<noteq> CHR ''-'') (show_nat n) = show_nat n"
  using show_nat_digits [of n] by (auto simp: takeWhile_eq_all_conv decimal_digits_def)

lemma hop_tag_inject: "hop_tag i j = hop_tag i' j' \<longleftrightarrow> i = i' \<and> j = j'"
proof
  assume "hop_tag i j = hop_tag i' j'"
  then have t: "show_nat i @ CHR ''-'' # show_nat j = show_nat i' @ CHR ''-'' # show_nat j'"
    by (simp add: hop_tag_def)
  have first: "takeWhile (\<lambda>c. c \<noteq> CHR ''-'') (show_nat a @ CHR ''-'' # show_nat b) = show_nat a" for a b
    using show_nat_no_dash [of a] by (simp add: takeWhile_tail)
  have "show_nat i = show_nat i'" using arg_cong [OF t, of "takeWhile (\<lambda>c. c \<noteq> CHR ''-'')"] by (simp only: first)
  with t show "i = i' \<and> j = j'" by (simp add: show_nat_inject)
qed auto

lemma show_nat_upper: "c \<in> set (show_nat n) \<Longrightarrow> is_upper_alnum c"
  using show_nat_digits [of n] by (auto simp: is_upper_alnum_def)

lemma id_of_tag:
  assumes "tag = c # cs" and "is_upper_alnum c" and "list_all (\<lambda>d. is_upper_alnum d \<or> d = CHR ''-'') cs"
    and "lo \<le> length cs" and "length cs \<le> hi"
  shows "id_pattern prefix lo hi (prefix @ tag)"
  using assms by (simp add: id_pattern_def)

abbreviation tag_char :: "char \<Rightarrow> bool" where
  "tag_char d \<equiv> is_upper_alnum d \<or> d = CHR ''-''"

lemma tag_chars:
  "is_upper_alnum (CHR ''B'')" "list_all tag_char ''TC-TX-''" "list_all tag_char ''TC-''" "list_all tag_char ''TC-HOP-''"
  by code_simp+

lemma list_all_show_nat: "list_all tag_char (show_nat n)"
  using show_nat_upper by (auto simp: list_all_iff)

lemma root_ids_ok:
  assumes "i < 10 ^ 50"
  shows "id_pattern ''EV-'' 2 127 (''EV-BTC-TX-'' @ show_nat i)"
    and "id_pattern ''SRC-'' 2 127 (''SRC-BTC-'' @ show_nat i)"
proof -
  have "length (show_nat i) \<le> 50" using assms by (rule length_show_nat) simp
  then show "id_pattern ''EV-'' 2 127 (''EV-BTC-TX-'' @ show_nat i)"
    "id_pattern ''SRC-'' 2 127 (''SRC-BTC-'' @ show_nat i)"
    using id_of_tag [of "''BTC-TX-'' @ show_nat i" "CHR ''B''" "''TC-TX-'' @ show_nat i" 2 127 "''EV-''"]
      id_of_tag [of "''BTC-'' @ show_nat i" "CHR ''B''" "''TC-'' @ show_nat i" 2 127 "''SRC-''"]
      tag_chars list_all_show_nat [of i]
    by simp_all
qed

lemma hop_ids_ok:
  assumes "i < 10 ^ 50" and "j < 10 ^ 50"
  shows "id_pattern prefix 2 127 (prefix @ hop_tag i j)"
proof -
  have "length (show_nat i) \<le> 50" "length (show_nat j) \<le> 50"
    by (rule length_show_nat [OF assms(1)], simp) (rule length_show_nat [OF assms(2)], simp)
  then show ?thesis
    using id_of_tag [of "hop_tag i j" "CHR ''B''" "''TC-HOP-'' @ show_nat i @ ''-'' @ show_nat j" 2 127 prefix]
      tag_chars list_all_show_nat
    by (simp add: hop_tag_def)
qed

subsection \<open>The loops over providers\<close>

lemma root_observations_nth:
  "(i, v) \<in> set (root_observations r) \<longleftrightarrow>
     i < length (bt_providers (br_transaction r)) \<and> v = bt_providers (br_transaction r) ! i"
  by (auto simp: root_observations_def in_set_enumerate_eq)

lemma hop_observations_nth:
  "(i, h, j, v) \<in> set (hop_observations r) \<longleftrightarrow>
     i < length (br_spend_path r) \<and> h = br_spend_path r ! i \<and> j < length (bh_providers h) \<and> v = bh_providers h ! j"
proof -
  have "(i, h, j, v) \<in> set (hop_observations r) \<longleftrightarrow>
      (i, h) \<in> set (enumerate 0 (br_spend_path r)) \<and> (j, v) \<in> set (enumerate 0 (bh_providers h))"
    by (auto simp: hop_observations_def)
  then show ?thesis by (auto simp: in_set_enumerate_eq)
qed

lemma distinct_root_indexes: "distinct (map fst (root_observations r))"
  by (simp add: root_observations_def)

lemma distinct_hop_indexes: "distinct (map (\<lambda>(i, h, j, v). (i, j)) (hop_observations r))"
proof -
  have inner: "map (\<lambda>(i, h, j, v). (i, j)) (map (\<lambda>(j, v). (i, h, j, v)) (enumerate 0 xs))
      = map (Pair i) [0..<length xs]" for i :: nat and h :: bitcoin_spend_hop and xs :: "bitcoin_provider_observation list"
  proof -
    have "map (\<lambda>(i, h, j, v). (i, j)) (map (\<lambda>(j, v). (i, h, j, v)) ys) = map (Pair i) (map fst ys)" for ys :: "(nat \<times> bitcoin_provider_observation) list"
      by (induction ys) auto
    then show ?thesis by (simp only: map_fst_enumerate) simp
  qed
  have loop: "distinct (concat (map (\<lambda>(i, hop). map (Pair i) [0..<length (bh_providers hop)]) (enumerate n hops)))"
    for n hops
  proof (induction hops arbitrary: n)
    case (Cons h hops)
    then show ?case by (auto simp: distinct_map inj_on_def in_set_enumerate_eq)
  qed simp
  have "map (\<lambda>(i, h, j, v). (i, j)) (hop_observations r)
      = concat (map (\<lambda>(i, hop). map (Pair i) [0..<length (bh_providers hop)]) (enumerate 0 (br_spend_path r)))"
    unfolding hop_observations_def map_concat by (rule arg_cong [of _ _ concat]) (auto simp only: map_map o_def split: prod.splits intro!: map_cong inner [unfolded map_map o_def])
  with loop show ?thesis by simp
qed

subsection \<open>Accepted providers\<close>

lemma count_one_unique:
  "count_if P xs \<le> 1 \<Longrightarrow> find P xs = Some w \<Longrightarrow> v \<in> set xs \<Longrightarrow> P v \<Longrightarrow> v = w"
  by (induction xs) (auto simp: count_if_def filter_empty_conv split: if_splits)

lemma role_count: "length vs = count_if (\<lambda>v. bv_role v = ROLE_PRIMARY) vs + count_if (\<lambda>v. bv_role v = ROLE_VERIFY) vs
    + count_if (\<lambda>v. bv_role v = provider_role.ROLE_SUPPORTING) vs"
proof (induction vs)
  case (Cons v vs)
  then show ?case by (cases "bv_role v") simp_all
qed simp

lemma providers_accepted:
  assumes "validate_provider_observations context vs = Inr ()"
  shows "length vs \<le> 3" and "v \<in> set vs \<Longrightarrow> bv_provider_id v = required_provider (bv_role v)"
    and "distinct (map bv_provider_id vs)"
proof -
  have counts: "count_if (\<lambda>v. bv_role v = ROLE_PRIMARY) vs = 1" "count_if (\<lambda>v. bv_role v = ROLE_VERIFY) vs = 1"
    "count_if (\<lambda>v. bv_role v = provider_role.ROLE_SUPPORTING) vs \<le> 1"
    and named: "\<not> provider_differs ROLE_PRIMARY vs" "\<not> provider_differs ROLE_VERIFY vs"
      "\<not> provider_differs provider_role.ROLE_SUPPORTING vs"
    and distinct: "distinct (map bv_provider_id vs)"
    using assms by (auto simp: validate_provider_observations_def Let_def result_simps)
  show "length vs \<le> 3" using role_count [of vs] counts by simp
  show "distinct (map bv_provider_id vs)" by (rule distinct)
  have one: "count_if (\<lambda>v. bv_role v = role) vs \<le> 1" and good: "\<not> provider_differs role vs" for role
    using counts named by (cases role; simp)+
  show "bv_provider_id v = required_provider (bv_role v)" if v: "v \<in> set vs"
  proof -
    obtain w where w: "find (\<lambda>x. bv_role x = bv_role v) vs = Some w"
      using v by (cases "find (\<lambda>x. bv_role x = bv_role v) vs") (auto simp: find_None_iff)
    have "v = w" using count_one_unique [OF one w v] by simp
    with w good [of "bv_role v"] show ?thesis by (simp add: provider_differs_def provider_of_def)
  qed
qed

lemma required_provider_known:
  "map_of endpoint_hosts (required_provider role) \<noteq> None" "provider_pattern (required_provider role)"
  by (cases role; simp add: endpoint_hosts_def) (cases role; hypsubst; code_simp)

text \<open>What validation says of every observation of a replay, those of the transaction and of the hops.\<close>

definition replay_observations :: "bitcoin_utxo_replay \<Rightarrow> bitcoin_provider_observation list" where
  "replay_observations r = bt_providers (br_transaction r) @ concat (map bh_providers (br_spend_path r))"

lemma accepted_observations:
  assumes "validate_bitcoin_replay r = Inr ()"
  shows "v \<in> set (replay_observations r) \<Longrightarrow>
      bv_provider_id v = required_provider (bv_role v) \<and> sha256_pattern (bv_artifact_sha256 v)"
    and "2 \<le> length (bt_providers (br_transaction r))" and "length (bt_providers (br_transaction r)) \<le> 3"
    and "h \<in> set (br_spend_path r) \<Longrightarrow> length (bh_providers h) \<le> 3 \<and> 0 \<le> bh_block_height h"
    and "0 \<le> bt_block_height (br_transaction r)"
proof -
  have tx: "validate_provider_observations ''root'' (bt_providers (br_transaction r)) = Inr ()"
    "transaction_fields_ok (br_transaction r)"
    using assms by (auto simp: validate_bitcoin_replay_def validate_bitcoin_transaction_def
        transaction_is_reconciled_def result_simps)
  have hop: "validate_provider_observations ''hop'' (bh_providers h) = Inr () \<and> hop_fields_ok h"
    if "h \<in> set (br_spend_path r)" for h
    using assms that by (auto simp: validate_bitcoin_replay_def validate_spend_hop_def result_simps)
  show "v \<in> set (replay_observations r) \<Longrightarrow>
      bv_provider_id v = required_provider (bv_role v) \<and> sha256_pattern (bv_artifact_sha256 v)"
    using providers_accepted(2) [OF tx(1)] providers_accepted(2) [of "''hop''"] hop tx(2)
    by (auto simp: replay_observations_def transaction_fields_ok_def hop_fields_ok_def list_all_iff observation_ok_def)
  show "2 \<le> length (bt_providers (br_transaction r))" "length (bt_providers (br_transaction r)) \<le> 3"
    "0 \<le> bt_block_height (br_transaction r)"
    using tx providers_accepted(1) [OF tx(1)] by (auto simp: transaction_fields_ok_def)
  show "h \<in> set (br_spend_path r) \<Longrightarrow> length (bh_providers h) \<le> 3 \<and> 0 \<le> bh_block_height h"
    using hop providers_accepted(1) [of "''hop''" "bh_providers h"] by (auto simp: hop_fields_ok_def)
qed

lemma observations_listed:
  "(i, v) \<in> set (root_observations r) \<Longrightarrow> v \<in> set (replay_observations r)"
  "(i, h, j, v) \<in> set (hop_observations r) \<Longrightarrow> v \<in> set (replay_observations r) \<and> h \<in> set (br_spend_path r)"
  by (auto simp: root_observations_nth hop_observations_nth replay_observations_def) (metis nth_mem)

subsection \<open>Free-form values\<close>

lemma raw_values_items_ok:
  "raw_values_items xs = Inr () \<longleftrightarrow> (\<forall>x \<in> set xs. raw_values_are_uint256 x = Inr ())"
  by (induction xs) (auto simp: result_simps)

lemma raw_values_map: "(\<And>x. x \<in> set xs \<Longrightarrow> raw_values_are_uint256 (f x) = Inr ()) \<Longrightarrow> raw_values_items (map f xs) = Inr ()"
  by (simp add: raw_values_items_ok)

lemma created_outpoints_raw: "raw_values_are_uint256 (created_outpoints h) = Inr ()"
  by (simp add: created_outpoints_def raw_values_map ends_with_def)

lemma facts_raw: "raw_values_are_uint256 (reconstruct_bitcoin_facts r start_vout max_hops) = Inr ()"
  by (simp add: reconstruct_bitcoin_facts_def Let_def hop_fact_def raw_values_map ends_with_def created_outpoints_raw)

lemma heuristics_raw: "raw_values_are_uint256 (assess_bitcoin_heuristics r) = Inr ()"
  by (simp add: assess_bitcoin_heuristics_def Let_def raw_values_map ends_with_def case_prod_beta)

lemma decoded_raw:
  "raw_values_are_uint256 (decoded_transaction tx) = Inr ()" "raw_values_are_uint256 (decoded_hop h) = Inr ()"
  by (simp_all add: decoded_transaction_def decoded_hop_def ends_with_def)

subsection \<open>Evidence and sources\<close>

lemma map_result_projr: "(\<And>x. x \<in> set xs \<Longrightarrow> is_ok (f x)) \<Longrightarrow> map_result f xs = Inr (map (projr \<circ> f) xs)"
proof (induction xs)
  case (Cons x xs)
  then have "map_result f xs = Inr (map (projr \<circ> f) xs)" by simp
  with Cons.prems [of x] show ?case by (cases "f x") simp_all
qed simp

definition provenance_of_evidence :: "evidence \<Rightarrow> string \<times> string" where
  "provenance_of_evidence e = (ei_source_record_ref e, ei_source_id e)"

definition provenance_of_source :: "source_record \<Rightarrow> string \<times> string" where
  "provenance_of_source s = (sd_source_record_id s, sd_source_id s)"

lemma source_literals:
  "source_id_ok (observation_source role)" "observation_method role \<noteq> []"
  "observation_source role \<in> set required_source_ids"
  by (cases role; hypsubst; code_simp)+

lemma endpoint_host_nonempty: "map_of endpoint_hosts p = Some host \<Longrightarrow> host \<noteq> []"
  by (auto simp: endpoint_hosts_def split: if_splits)

lemma observation_record_ok:
  assumes "bv_provider_id v = required_provider (bv_role v)" and "source_record_id_ok rid" and "cap \<noteq> []"
  obtains s where "observation_record rid cap v = Inr s" "source_record_ok s" "sd_fallback_from s = None"
    "provenance_of_source s = (rid, observation_source (bv_role v))"
proof -
  obtain host where host: "map_of endpoint_hosts (bv_provider_id v) = Some host"
    using required_provider_known(1) [of "bv_role v"] assms(1) by auto
  show ?thesis
    using assms host required_provider_known(2) [of "bv_role v"] source_literals(1) endpoint_host_nonempty [OF host]
    by (intro that [of "projr (observation_record rid cap v)"])
      (simp_all add: observation_record_def source_record_ok_def provenance_of_source_def)
qed

lemma sources_of_accepted:
  assumes "validate_bitcoin_replay r = Inr ()" and "length (br_spend_path r) \<le> 10 ^ 50"
  obtains ss where "btc_sources r = Inr ss" "list_all source_record_ok ss" "\<forall>s \<in> set ss. sd_fallback_from s = None"
    "map provenance_of_source ss = map provenance_of_evidence (btc_evidence r)"
proof -
  let ?root = "\<lambda>(i, v). observation_record (''SRC-BTC-'' @ show_nat i) ''bitcoin_transaction_prevouts'' v"
  let ?hop = "\<lambda>(i, h :: bitcoin_spend_hop, j, v). observation_record (''SRC-'' @ hop_tag i j) ''bitcoin_spend_path'' v"
  have root: "is_ok (?root x) \<and> source_record_ok (projr (?root x)) \<and> sd_fallback_from (projr (?root x)) = None
      \<and> provenance_of_source (projr (?root x)) = (''SRC-BTC-'' @ show_nat (fst x), observation_source (bv_role (snd x)))"
    if x: "x \<in> set (root_observations r)" for x
  proof -
    obtain i v where iv: "x = (i, v)" by fastforce
    then have "i < 3" using x accepted_observations(3) [OF assms(1)] by (auto simp: root_observations_nth)
    then have "i < 10 ^ 50" by simp
    obtain s where "observation_record (''SRC-BTC-'' @ show_nat i) ''bitcoin_transaction_prevouts'' v = Inr s"
        "source_record_ok s" "sd_fallback_from s = None" "provenance_of_source s = (''SRC-BTC-'' @ show_nat i, observation_source (bv_role v))"
      by (rule observation_record_ok [of v "''SRC-BTC-'' @ show_nat i" "''bitcoin_transaction_prevouts''"])
        (use accepted_observations(1) [OF assms(1)] observations_listed(1) x iv root_ids_ok(2) [OF \<open>i < 10 ^ 50\<close>] in simp_all)
    then show ?thesis by (simp add: iv)
  qed
  have hop: "is_ok (?hop x) \<and> source_record_ok (projr (?hop x)) \<and> sd_fallback_from (projr (?hop x)) = None
      \<and> provenance_of_source (projr (?hop x)) = (\<lambda>(i, h, j, v). (''SRC-'' @ hop_tag i j, observation_source (bv_role v))) x"
    if x: "x \<in> set (hop_observations r)" for x
  proof -
    obtain i h j v where iv: "x = (i, h, j, v)" by (cases x) auto
    have listed: "v \<in> set (replay_observations r)" "h \<in> set (br_spend_path r)"
      using x iv observations_listed(2) by blast+
    have "i < length (br_spend_path r)" "j < length (bh_providers h)"
      using x unfolding iv hop_observations_nth by blast+
    moreover have "length (bh_providers h) \<le> 3" using accepted_observations(4) [OF assms(1)] listed by blast
    ultimately have ij: "i < 10 ^ 50" "j < 10 ^ 50" using assms(2) by simp_all
    obtain s where "observation_record (''SRC-'' @ hop_tag i j) ''bitcoin_spend_path'' v = Inr s"
        "source_record_ok s" "sd_fallback_from s = None" "provenance_of_source s = (''SRC-'' @ hop_tag i j, observation_source (bv_role v))"
      by (rule observation_record_ok [of v "''SRC-'' @ hop_tag i j" "''bitcoin_spend_path''"])
        (use accepted_observations(1) [OF assms(1) listed(1)] hop_ids_ok [OF ij, of "''SRC-''"] in simp_all)
    then show ?thesis by (simp add: iv)
  qed
  let ?ss = "map (projr \<circ> ?root) (root_observations r) @ map (projr \<circ> ?hop) (hop_observations r)"
  have "map_result ?root (root_observations r) = Inr (map (projr \<circ> ?root) (root_observations r))"
    using root by (intro map_result_projr) blast
  moreover have "map_result ?hop (hop_observations r) = Inr (map (projr \<circ> ?hop) (hop_observations r))"
    using hop by (intro map_result_projr) blast
  ultimately have "btc_sources r = Inr ?ss" by (simp add: btc_sources_def)
  moreover have "list_all source_record_ok ?ss" "\<forall>s \<in> set ?ss. sd_fallback_from s = None"
    using root hop by (auto simp: list_all_iff)
  moreover have "map provenance_of_source ?ss = map provenance_of_evidence (btc_evidence r)"
    unfolding btc_evidence_def Let_def map_append map_map
    by (intro arg_cong2 [of _ _ _ _ "(@)"] map_cong refl)
      (use root hop in \<open>auto simp: provenance_of_evidence_def observation_evidence_def split: prod.splits\<close>)
  ultimately show ?thesis by (rule that)
qed

lemma evidence_ids:
  "map ei_evidence_id (btc_evidence r) = map (\<lambda>(i, v). ''EV-BTC-TX-'' @ show_nat i) (root_observations r)
     @ map (\<lambda>(i, h, j, v). ''EV-'' @ hop_tag i j) (hop_observations r)"
  by (simp add: btc_evidence_def Let_def observation_evidence_def case_prod_beta o_def)

lemma record_refs:
  "map ei_source_record_ref (btc_evidence r) = map (\<lambda>(i, v). ''SRC-BTC-'' @ show_nat i) (root_observations r)
     @ map (\<lambda>(i, h, j, v). ''SRC-'' @ hop_tag i j) (hop_observations r)"
  by (simp add: btc_evidence_def Let_def observation_evidence_def case_prod_beta o_def)

lemma distinct_by_index:
  assumes "distinct (map ix xs)" and "\<And>x y. f x = f y \<Longrightarrow> ix x = ix y"
  shows "distinct (map f xs)"
  using assms unfolding distinct_map inj_on_def by blast

lemma show_nat_not_tag: "show_nat i \<noteq> CHR ''H'' # t"
proof
  assume "show_nat i = CHR ''H'' # t"
  then have "CHR ''H'' \<in> set decimal_digits" using show_nat_digits [of i] by simp
  then show False by (simp add: decimal_digits_def)
qed

lemma evidence_distinct:
  "distinct (map ei_evidence_id (btc_evidence r))" "distinct (map ei_source_record_ref (btc_evidence r))"
proof -
  have root: "distinct (map (\<lambda>(i, v). prefix @ show_nat i) (root_observations r))" for prefix
    by (rule distinct_by_index [OF distinct_root_indexes]) (auto simp: show_nat_inject)
  have hop: "distinct (map (\<lambda>(i, h, j, v). prefix @ hop_tag i j) (hop_observations r))" for prefix
    by (rule distinct_by_index [OF distinct_hop_indexes]) (auto simp: hop_tag_inject)
  show "distinct (map ei_evidence_id (btc_evidence r))"
    unfolding evidence_ids distinct_append
    using root [of "''EV-BTC-TX-''"] hop [of "''EV-''"] by (simp, auto simp: hop_tag_def)
  show "distinct (map ei_source_record_ref (btc_evidence r))"
    unfolding record_refs distinct_append
    using root [of "''SRC-BTC-''"] hop [of "''SRC-''"] by (simp, auto simp: hop_tag_def show_nat_not_tag)
qed

lemma observation_evidence_ok:
  assumes "evidence_id_ok eid" and "source_record_id_ok rid" and "0 \<le> height" and "is_json_object decoded"
    and "sha256_pattern (bv_artifact_sha256 v)"
  shows "evidence_ok urls (observation_evidence eid rid height decoded v)"
  using assms source_literals
  by (simp add: evidence_ok_def observation_evidence_def locator_ok_def block_locator_def
      locator_is_not_empty_def raw_artifact_ok_def observation_artifact_def optional_ok_def)

lemma evidence_accepted:
  assumes "validate_bitcoin_replay r = Inr ()" and "length (br_spend_path r) \<le> 10 ^ 50"
  shows "list_all (evidence_ok urls) (btc_evidence r)" and "btc_evidence r \<noteq> []"
proof -
  have root: "evidence_ok urls (observation_evidence (''EV-BTC-TX-'' @ show_nat i) (''SRC-BTC-'' @ show_nat i)
      (bt_block_height (br_transaction r)) (decoded_transaction (br_transaction r)) v)"
    if x: "(i, v) \<in> set (root_observations r)" for i v
  proof (rule observation_evidence_ok)
    have "i < 3" using x accepted_observations(3) [OF assms(1)] by (auto simp: root_observations_nth)
    then have "i < 10 ^ 50" by simp
    then show "evidence_id_ok (''EV-BTC-TX-'' @ show_nat i)" "source_record_id_ok (''SRC-BTC-'' @ show_nat i)"
      by (rule root_ids_ok)+
  qed (use accepted_observations [OF assms(1)] observations_listed(1) [OF x] in \<open>simp_all add: decoded_transaction_def is_json_object_def\<close>)
  have hop: "evidence_ok urls (observation_evidence (''EV-'' @ hop_tag i j) (''SRC-'' @ hop_tag i j)
      (bh_block_height h) (decoded_hop h) v)" if x: "(i, h, j, v) \<in> set (hop_observations r)" for i h j v
  proof (rule observation_evidence_ok)
    have h: "h \<in> set (br_spend_path r)" "v \<in> set (replay_observations r)" using observations_listed(2) [OF x] by simp_all
    note hop_facts = accepted_observations(4) [OF assms(1) h(1)]
    have "i < length (br_spend_path r)" "j < length (bh_providers h)"
      using x unfolding hop_observations_nth by blast+
    with hop_facts assms(2) have ij: "i < 10 ^ 50" "j < 10 ^ 50" by simp_all
    show "evidence_id_ok (''EV-'' @ hop_tag i j)" "source_record_id_ok (''SRC-'' @ hop_tag i j)"
      by (rule hop_ids_ok [OF ij])+
    show "0 \<le> bh_block_height h" "sha256_pattern (bv_artifact_sha256 v)"
      using hop_facts accepted_observations(1) [OF assms(1) h(2)] by simp_all
  qed (simp add: decoded_hop_def is_json_object_def)
  show "list_all (evidence_ok urls) (btc_evidence r)"
    using root hop by (auto simp: btc_evidence_def Let_def list_all_iff)
  have "root_observations r \<noteq> []"
    using accepted_observations(2) [OF assms(1)] by (auto simp: root_observations_def enumerate_eq_zip)
  then show "btc_evidence r \<noteq> []" by (simp add: btc_evidence_def Let_def)
qed

subsection \<open>Documents\<close>

lemma provenance_references:
  assumes "map provenance_of_source ss = map provenance_of_evidence ev"
    and "distinct (map ei_source_record_ref ev)"
  shows "distinct (map sd_source_record_id ss)"
    and "set (map sd_source_record_id ss) = set (map ei_source_record_ref ev)"
    and "e \<in> set ev \<Longrightarrow> \<exists>s. index_by sd_source_record_id ss (ei_source_record_ref e) = Some s \<and> sd_source_id s = ei_source_id e"
    and "set (map sd_source_id ss) = set (map ei_source_id ev)"
proof -
  have "map fst (map provenance_of_source ss) = map fst (map provenance_of_evidence ev)"
    "map snd (map provenance_of_source ss) = map snd (map provenance_of_evidence ev)" by (simp_all only: assms(1))
  then have ids: "map sd_source_record_id ss = map ei_source_record_ref ev"
    and sources: "map sd_source_id ss = map ei_source_id ev"
    by (simp_all add: o_def provenance_of_source_def provenance_of_evidence_def)
  show d: "distinct (map sd_source_record_id ss)" unfolding ids by (rule assms(2))
  show "set (map sd_source_record_id ss) = set (map ei_source_record_ref ev)"
    "set (map sd_source_id ss) = set (map ei_source_id ev)" by (simp_all only: ids sources)
  show "\<exists>s. index_by sd_source_record_id ss (ei_source_record_ref e) = Some s \<and> sd_source_id s = ei_source_id e"
    if "e \<in> set ev"
  proof -
    have "provenance_of_evidence e \<in> set (map provenance_of_source ss)" unfolding assms(1) using that by simp
    then obtain s where "s \<in> set ss" "sd_source_record_id s = ei_source_record_ref e" "sd_source_id s = ei_source_id e"
      by (auto simp: provenance_of_source_def provenance_of_evidence_def)
    with index_by_distinct [OF d] show ?thesis by metis
  qed
qed

lemma document_references_ok:
  assumes "map provenance_of_source ss = map provenance_of_evidence ev"
    and "distinct (map ei_source_record_ref ev)" and "distinct (map ei_evidence_id ev)"
    and "distinct (map ri_result_id results)" and "length errors \<le> 1"
    and "\<forall>i \<in> set results. ri_evidence_refs i = map ei_evidence_id ev" and "results = [] \<Longrightarrow> ev = []"
    and "\<forall>x \<in> set errors. ae_related_evidence_ids x = None" and "\<forall>s \<in> set ss. sd_fallback_from s = None"
  shows "result_references_are_valid (btc_document request status results ev ss errors run) = Inr ()"
proof -
  note refs = provenance_references [OF assms(1,2)]
  have errors: "distinct (map ae_error_id errors)"
  proof (cases errors)
    case (Cons x xs)
    with assms(5) show ?thesis by simp
  qed simp
  have "set (map ei_evidence_id ev) \<subseteq> set (concat (map ri_evidence_refs results))"
    using assms(6,7) by (cases results) auto
  then have used: "set (map ei_evidence_id ev) - referenced_evidence_ids (btc_document request status results ev ss errors run) = {}"
    by (auto simp: referenced_evidence_ids_def btc_document_def)
  have linked: "\<not> (case index_by sd_source_record_id ss (ei_source_record_ref e) of
      None \<Rightarrow> True | Some s \<Rightarrow> sd_source_id s \<noteq> ei_source_id e)" if "e \<in> set ev" for e
    using refs(3) [OF that] by auto
  show ?thesis
    unfolding result_references_are_valid_def Let_def all_checks_Inr
    using assms(3,4,6,8,9) refs(1,2) linked errors used
    by (auto simp: btc_document_def for_each_Inr raise_if_Inr require_unique_def require_known_def optional_known_def)
qed

lemma document_valid:
  assumes refs: "result_references_are_valid (btc_document request status results ev ss errors run) = Inr ()"
    and "analysis_id_ok (rq_analysis_id request)"
    and "\<forall>i \<in> set results. result_item_ok i \<and> raw_values_are_uint256 (ri_value i) = Inr ()"
    and "list_all (evidence_ok urls) ev" and "\<forall>e \<in> set ev. raw_values_are_uint256 (ei_decoded e) = Inr ()"
    and "list_all source_record_ok ss" and "list_all analysis_error_ok errors"
    and "\<forall>x \<in> set errors. ae_details x = None" and "run_ok run"
    and "status_lengths_ok status (btc_document request status results ev ss errors run)"
  shows "validate_analysis_result urls (btc_document request status results ev ss errors run) = Inr ()"
proof -
  let ?d = "btc_document request status results ev ss errors run"
  have "ends_with ''analysis-result.schema.json'' ''analysis-result.schema.json''" by (simp add: ends_with_def)
  then have "variant_accepts urls ?d"
    using assms(2-7,9,10)
    by (auto simp: variant_accepts_def btc_document_def list_all_iff exports_ok_def export_file_ok_def pending_export_def)
  moreover have "raw_values_are_valid ?d = Inr ()"
    unfolding raw_values_are_valid_def all_checks_Inr
    using assms(3,5,8) by (auto simp: btc_document_def for_each_Inr)
  ultimately show ?thesis using refs by (simp add: validate_analysis_result_def)
qed

lemma btc_run_ok: "run_ok (btc_run observed misses resumed checkpoint_id)"
  by (auto simp: btc_run_def run_ok_def finish_is_not_before_start_def optional_ok_def split: option.splits)

lemma btc_error_ok:
  assumes "error_id_ok eid" and "0 < length message" and "length message \<le> 1000" and "snake_pattern stage"
  shows "analysis_error_ok (btc_error eid code stage message)"
  using assms by (simp add: analysis_error_ok_def btc_error_def optional_ok_def Suc_le_eq)

lemma failed_document_valid:
  assumes "analysis_id_ok (rq_analysis_id request)" and "0 < length (bf_message f)" and "length (bf_message f) \<le> 1000"
    and "snake_pattern (bf_stage f)"
  shows "validate_analysis_result urls (btc_document request AN_FAILED [] [] []
      [btc_error ''ERR-BTC-ANALYSIS'' (bf_code f) (bf_stage f) (bf_message f)] (btc_run observed 0 False None)) = Inr ()"
proof (rule document_valid)
  have "error_id_ok ''ERR-BTC-ANALYSIS''" by code_simp
  then show "list_all analysis_error_ok [btc_error ''ERR-BTC-ANALYSIS'' (bf_code f) (bf_stage f) (bf_message f)]"
    using assms by (simp add: btc_error_ok)
qed (use assms btc_run_ok in \<open>simp_all add: btc_error_def btc_document_def document_references_ok [unfolded btc_document_def]\<close>)

lemma result_literals_ok:
  "result_id_ok ''RES-BTC-UTXO-SUMMARY''" "result_id_ok ''RES-BTC-HEURISTIC-ASSESSMENT''"
  "snake_pattern ''bitcoin_utxo_summary''" "snake_pattern ''bitcoin_heuristic_assessment''"
  "list_all tool_requirement_ok [''REQ-P0-BTC-001'']"
  "list_all fixture_requirement_ok [''REQ-BTC-PREVOUT'', ''REQ-BTC-FEE'']"
  "list_all fixture_requirement_ok [''REQ-BTC-HEURISTIC'']"
  by code_simp+

lemma btc_results_ok:
  assumes "list_all (evidence_ok urls) ev" and "ev \<noteq> []" and "distinct (map ei_evidence_id ev)"
    and "i \<in> set (btc_results request r ev)"
  shows "result_item_ok i" and "raw_values_are_uint256 (ri_value i) = Inr ()"
    and "ri_evidence_refs i = map ei_evidence_id ev"
proof -
  have ids: "list_all evidence_id_ok (map ei_evidence_id ev)"
    using assms(1) by (auto simp: list_all_iff evidence_ok_def)
  have shapes: "case reconstruct_bitcoin_facts r a b of JObj (_ # _) \<Rightarrow> True | _ \<Rightarrow> False"
    "case assess_bitcoin_heuristics r of JObj (_ # _) \<Rightarrow> True | _ \<Rightarrow> False" for a b
    by (simp_all add: reconstruct_bitcoin_facts_def assess_bitcoin_heuristics_def Let_def)
  show "result_item_ok i"
    using assms(2,3,4) ids shapes result_literals_ok
    by (auto simp: btc_results_def btc_result_item_def result_item_ok_def split: if_splits)
  show "raw_values_are_uint256 (ri_value i) = Inr ()"
    using assms(4) facts_raw heuristics_raw
    by (auto simp: btc_results_def btc_result_item_def split: if_splits)
  show "ri_evidence_refs i = map ei_evidence_id ev"
    using assms(4) by (auto simp: btc_results_def btc_result_item_def split: if_splits)
qed

end
