(* ===== verification/Bitcoin_Properties.thy ===== *)
theory Bitcoin_Properties
  imports Bitcoin_Utxo
begin

section \<open>Properties of Bitcoin UTXO replays\<close>

text \<open>
  What an accepted replay guarantees about values and about the chain of its spend path, which part
  of the path the recomputed facts report, and what the CoinJoin heuristic decides.
\<close>

subsection \<open>The spend path\<close>

text \<open>The transaction and the outputs that hop number \<open>i\<close> spends from.\<close>

definition hop_source :: "bitcoin_utxo_replay \<Rightarrow> nat \<Rightarrow> string \<times> bitcoin_output list" where
  "hop_source r i =
     (if i = 0 then (bt_transaction_id (br_transaction r), bt_outputs (br_transaction r))
      else (bh_spending_transaction_id (br_spend_path r ! (i - 1)), bh_created_outputs (br_spend_path r ! (i - 1))))"

definition spends_from :: "bitcoin_spend_hop \<Rightarrow> string \<times> bitcoin_output list \<Rightarrow> bool" where
  "spends_from hop src \<longleftrightarrow>
     bh_spent_transaction_id hop = fst src
     \<and> (\<exists>out \<in> set (snd src). bo_vout out = bh_spent_vout hop \<and> bo_value_sat out = bh_spent_value_sat hop)"

lemma bind_hops_Inr:
  assumes "bind_hops depth t outs hops = Inr ()" and "i < length hops"
  shows "bh_depth (hops ! i) = depth + int i
    \<and> spends_from (hops ! i) (if i = 0 then (t, outs)
        else (bh_spending_transaction_id (hops ! (i - 1)), bh_created_outputs (hops ! (i - 1))))"
  using assms
proof (induction hops arbitrary: depth t outs i)
  case (Cons h hops)
  from Cons.prems(1) have head: "bh_depth h = depth" "spends_from h (t, outs)"
    and rest: "bind_hops (depth + 1) (bh_spending_transaction_id h) (bh_created_outputs h) hops = Inr ()"
    by (auto simp: then_check_Inr raise_if_Inr spends_from_def find_Some_iff split: option.splits)
  show ?case
  proof (cases i)
    case 0
    with head show ?thesis by simp
  next
    case (Suc k)
    with Cons.IH [OF rest, of k] Cons.prems(2) show ?thesis by (cases k) auto
  qed
qed simp

lemma replay_accepted:
  assumes "validate_bitcoin_replay r = Inr ()"
  shows "validate_bitcoin_transaction (br_transaction r) = Inr ()"
    and "i < length (br_spend_path r) \<Longrightarrow> bh_depth (br_spend_path r ! i) = int i + 1"
    and "i < length (br_spend_path r) \<Longrightarrow> spends_from (br_spend_path r ! i) (hop_source r i)"
proof -
  show "validate_bitcoin_transaction (br_transaction r) = Inr ()"
    using assms by (simp add: validate_bitcoin_replay_def result_simps)
  have "bind_hops 1 (bt_transaction_id (br_transaction r)) (bt_outputs (br_transaction r)) (br_spend_path r) = Inr ()"
    using assms by (simp add: validate_bitcoin_replay_def replay_bindings_are_exact_def result_simps)
  note bound = bind_hops_Inr [OF this]
  show "i < length (br_spend_path r) \<Longrightarrow> bh_depth (br_spend_path r ! i) = int i + 1"
    using bound by simp
  show "i < length (br_spend_path r) \<Longrightarrow> spends_from (br_spend_path r ! i) (hop_source r i)"
    using bound by (simp add: hop_source_def)
qed

text \<open>With depths counted from one, selecting by depth is taking a prefix.\<close>

lemma filter_by_depth:
  assumes "\<And>i. i < length hops \<Longrightarrow> bh_depth (hops ! i) = k + int i"
  shows "filter (\<lambda>h. bh_depth h \<le> n) hops = take (nat (n - k + 1)) hops"
  using assms
proof (induction hops arbitrary: k)
  case (Cons h hops)
  have h: "bh_depth h = k" using Cons.prems [of 0] by simp
  have "bh_depth (hops ! i) = k + 1 + int i" if "i < length hops" for i
    using Cons.prems [of "Suc i"] that by simp
  note IH = Cons.IH [OF this]
  show ?case
  proof (cases "k \<le> n")
    case True
    then have "nat (n - k + 1) = Suc (nat (n - (k + 1) + 1))" by simp
    with True h IH show ?thesis by simp
  next
    case False
    with h IH show ?thesis by simp
  qed
qed simp

lemma selected_prefix:
  assumes "validate_bitcoin_replay r = Inr ()"
  shows "selected_hops r start_vout max_hops =
    (case br_spend_path r of
       [] \<Rightarrow> []
     | h # hs \<Rightarrow> if bh_spent_vout h = start_vout then take (nat max_hops) (br_spend_path r)
                else take (nat (max_hops - 1)) hs)"
proof (cases "br_spend_path r")
  case Nil
  then show ?thesis by (simp add: selected_hops_def)
next
  case (Cons h hs)
  have depth: "bh_depth (br_spend_path r ! i) = int i + 1" if "i < length (br_spend_path r)" for i
    using replay_accepted(2) [OF assms that] .
  have h: "bh_depth h = 1" using depth [of 0] Cons by simp
  have hs: "bh_depth (hs ! i) = 2 + int i" if "i < length hs" for i
    using depth [of "Suc i"] that Cons by simp
  then have "\<forall>x \<in> set hs. 1 < bh_depth x" by (auto simp: in_set_conv_nth)
  then have deep: "filter (\<lambda>x. bh_depth x \<le> max_hops \<and> (1 < bh_depth x \<or> bh_spent_vout x = start_vout)) hs
      = filter (\<lambda>x. bh_depth x \<le> max_hops) hs" by (intro filter_cong) auto
  have tail: "filter (\<lambda>x. bh_depth x \<le> max_hops) hs = take (nat (max_hops - 1)) hs"
    using filter_by_depth [of hs 2 max_hops] hs by simp
  show ?thesis
  proof (cases "1 \<le> max_hops")
    case True
    then have "nat max_hops = Suc (nat (max_hops - 1))" by simp
    with True Cons h deep tail show ?thesis by (simp add: selected_hops_def)
  next
    case False
    with Cons h deep tail show ?thesis by (simp add: selected_hops_def)
  qed
qed

subsection \<open>Counting equal outputs\<close>

lemma value_counts_get:
  "dict_get (value_counts outs) v 0 = int (count_if (\<lambda>out. bo_value_sat out = v) outs)"
proof -
  have "dict_get (fold (\<lambda>out counts. dict_set (bo_value_sat out) (dict_get counts (bo_value_sat out) 0 + 1) counts) outs d) v 0
      = dict_get d v 0 + int (count_if (\<lambda>out. bo_value_sat out = v) outs)" for d
    by (induction outs arbitrary: d) auto
  then show ?thesis by (simp add: value_counts_def dict_get_def)
qed

lemma value_counts_distinct: "distinct (map fst (value_counts outs))"
proof -
  have "distinct (map fst d) \<Longrightarrow> distinct (map fst
      (fold (\<lambda>out counts. dict_set (bo_value_sat out) (dict_get counts (bo_value_sat out) 0 + 1) counts) outs d))" for d :: "(int, int) dict"
    by (induction outs arbitrary: d) auto
  then show ?thesis by (simp add: value_counts_def)
qed

lemma equal_groups_iff:
  "(v, n) \<in> set (equal_groups outs) \<longleftrightarrow> n = int (count_if (\<lambda>out. bo_value_sat out = v) outs) \<and> 2 \<le> n"
proof -
  have "(v, n) \<in> set (value_counts outs) \<longleftrightarrow> map_of (value_counts outs) v = Some n"
    using value_counts_distinct by simp
  moreover have "map_of (value_counts outs) v = Some n \<longleftrightarrow> n = int (count_if (\<lambda>out. bo_value_sat out = v) outs)"
    if "2 \<le> n"
    using value_counts_get [of outs v] that by (auto simp: dict_get_def split: option.splits)
  ultimately show ?thesis by (auto simp: equal_groups_def)
qed

subsection \<open>Properties\<close>

text \<open>
  C27: An accepted replay conserves value and is connected: the inputs of the transaction pay for its
  outputs and a non-negative fee, no outpoint is spent twice, the hops are numbered from one, and each
  hop spends, at its recorded value, an output of the root transaction or of the hop before it. When
  the path starts at the requested output, the facts report its first \<^verbatim>\<open>max_hops\<close> hops.
\<close>

theorem accepted_replay_is_connected:
  assumes "validate_bitcoin_replay r = Inr ()"
  shows "btc_input_sum (br_transaction r) = btc_output_sum (br_transaction r) + bt_fee_sat (br_transaction r)
    \<and> 0 \<le> bt_fee_sat (br_transaction r)
    \<and> distinct (map outpoint_of (bt_inputs (br_transaction r)))
    \<and> (\<forall>i < length (br_spend_path r).
        bh_depth (br_spend_path r ! i) = int i + 1 \<and> spends_from (br_spend_path r ! i) (hop_source r i))
    \<and> ((\<forall>h hs. br_spend_path r = h # hs \<longrightarrow> bh_spent_vout h = start_vout) \<longrightarrow>
        selected_hops r start_vout max_hops = take (nat max_hops) (br_spend_path r))"
proof (intro conjI)
  note tx = replay_accepted(1) [OF assms]
  show "btc_input_sum (br_transaction r) = btc_output_sum (br_transaction r) + bt_fee_sat (br_transaction r)"
    "0 \<le> bt_fee_sat (br_transaction r)" "distinct (map outpoint_of (bt_inputs (br_transaction r)))"
    using tx
    by (auto simp: validate_bitcoin_transaction_def transaction_is_reconciled_def transaction_fields_ok_def result_simps)
  show "\<forall>i < length (br_spend_path r).
      bh_depth (br_spend_path r ! i) = int i + 1 \<and> spends_from (br_spend_path r ! i) (hop_source r i)"
    using replay_accepted(2,3) [OF assms] by blast
  show "(\<forall>h hs. br_spend_path r = h # hs \<longrightarrow> bh_spent_vout h = start_vout) \<longrightarrow>
      selected_hops r start_vout max_hops = take (nat max_hops) (br_spend_path r)"
    by (auto simp: selected_prefix [OF assms] split: list.splits)
qed

text \<open>
  C28: The facts for an output that the recorded path does not spend still report the path from its
  second hop on: the reported path begins at depth two, with the spending of an output that the
  omitted first hop created, and the frontier is that of the recorded path.
\<close>

theorem unspent_start_reports_foreign_path:
  assumes "validate_bitcoin_replay r = Inr ()" and "br_spend_path r = h # h2 # hs"
    and "bh_spent_vout h \<noteq> start_vout" and "2 \<le> max_hops"
  shows "(\<exists>facts. reconstruct_bitcoin_facts r start_vout max_hops = JObj facts
      \<and> map_of facts ''start_outpoint'' =
          Some (JObj [(''transaction_id'', JStr (bt_transaction_id (br_transaction r))), (''vout'', JInt start_vout)])
      \<and> map_of facts ''spend_path'' = Some (JArr (map hop_fact (h2 # take (nat (max_hops - 2)) hs))))
    \<and> bh_depth h2 = 2 \<and> bh_spent_transaction_id h2 = bh_spending_transaction_id h"
proof -
  have "nat (max_hops - 1) = Suc (nat (max_hops - 2))" using assms(4) by simp
  then have "selected_hops r start_vout max_hops = h2 # take (nat (max_hops - 2)) hs"
    using assms(2,3) by (simp add: selected_prefix [OF assms(1)])
  then have "\<exists>facts. reconstruct_bitcoin_facts r start_vout max_hops = JObj facts
      \<and> map_of facts ''start_outpoint'' =
          Some (JObj [(''transaction_id'', JStr (bt_transaction_id (br_transaction r))), (''vout'', JInt start_vout)])
      \<and> map_of facts ''spend_path'' = Some (JArr (map hop_fact (h2 # take (nat (max_hops - 2)) hs)))"
    by (simp add: reconstruct_bitcoin_facts_def Let_def)
  moreover have "bh_depth h2 = 2" using replay_accepted(2) [OF assms(1), of 1] assms(2) by simp
  moreover have "bh_spent_transaction_id h2 = bh_spending_transaction_id h"
    using replay_accepted(3) [OF assms(1), of 1] assms(2) by (simp add: hop_source_def spends_from_def)
  ultimately show ?thesis by blast
qed

text \<open>
  The CoinJoin heuristic, computed from a dictionary of output values, is the statement it
  stands for: at least three inputs and some value paid to at least three outputs; the reported
  groups are exactly the values paid more than once, each with its number of outputs.
\<close>

theorem coinjoin_heuristic_exact:
  "(coinjoin_candidate tx \<longleftrightarrow>
      3 \<le> length (bt_inputs tx)
      \<and> (\<exists>v. 3 \<le> count_if (\<lambda>out. bo_value_sat out = v) (bt_outputs tx)))
    \<and> set (equal_groups (bt_outputs tx)) =
        {(v, int n) | v n. n = count_if (\<lambda>out. bo_value_sat out = v) (bt_outputs tx) \<and> 2 \<le> n}"
proof
  have "(\<exists>x \<in> set (equal_groups (bt_outputs tx)). 3 \<le> snd x) \<longleftrightarrow>
      (\<exists>v. 3 \<le> count_if (\<lambda>out. bo_value_sat out = v) (bt_outputs tx))"
  proof
    assume "\<exists>x \<in> set (equal_groups (bt_outputs tx)). 3 \<le> snd x"
    then obtain v n where "(v, n) \<in> set (equal_groups (bt_outputs tx))" "3 \<le> n" by auto
    then have "3 \<le> count_if (\<lambda>out. bo_value_sat out = v) (bt_outputs tx)" by (simp add: equal_groups_iff)
    then show "\<exists>v. 3 \<le> count_if (\<lambda>out. bo_value_sat out = v) (bt_outputs tx)" by blast
  next
    assume "\<exists>v. 3 \<le> count_if (\<lambda>out. bo_value_sat out = v) (bt_outputs tx)"
    then obtain v where v: "3 \<le> count_if (\<lambda>out. bo_value_sat out = v) (bt_outputs tx)" by blast
    then have "(v, int (count_if (\<lambda>out. bo_value_sat out = v) (bt_outputs tx))) \<in> set (equal_groups (bt_outputs tx))"
      by (simp add: equal_groups_iff)
    with v show "\<exists>x \<in> set (equal_groups (bt_outputs tx)). 3 \<le> snd x" by force
  qed
  then show "coinjoin_candidate tx \<longleftrightarrow> 3 \<le> length (bt_inputs tx)
      \<and> (\<exists>v. 3 \<le> count_if (\<lambda>out. bo_value_sat out = v) (bt_outputs tx))"
    by (simp add: coinjoin_candidate_def list_ex_iff case_prod_beta)
  show "set (equal_groups (bt_outputs tx)) =
      {(v, int n) | v n. n = count_if (\<lambda>out. bo_value_sat out = v) (bt_outputs tx) \<and> 2 \<le> n}"
    by (auto simp: equal_groups_iff)
qed

subsection \<open>Witnesses\<close>

definition fx_txid :: "char \<Rightarrow> string" where
  "fx_txid c = replicate 64 c"

definition fx_output :: "int \<Rightarrow> int \<Rightarrow> bitcoin_output" where
  "fx_output n v = \<lparr>bo_vout = n, bo_value_sat = v, bo_script_type = ''v0_p2wpkh'', bo_address = ''bc1q''\<rparr>"

definition fx_providers :: "bitcoin_provider_observation list" where
  "fx_providers =
     [\<lparr>bv_provider_id = ''publicnode.bitcoin'', bv_role = ROLE_PRIMARY, bv_retrieved_at = 0,
       bv_artifact_file = ''a.json'', bv_artifact_sha256 = fx_txid (CHR ''a''), bv_decoded_match = True\<rparr>,
      \<lparr>bv_provider_id = ''mempool.space'', bv_role = ROLE_VERIFY, bv_retrieved_at = 0,
       bv_artifact_file = ''b.json'', bv_artifact_sha256 = fx_txid (CHR ''b''), bv_decoded_match = True\<rparr>]"

definition fx_hop :: "int \<Rightarrow> char \<Rightarrow> int \<Rightarrow> int \<Rightarrow> char \<Rightarrow> int \<Rightarrow> bitcoin_spend_hop" where
  "fx_hop depth spent vout v spending created =
     \<lparr>bh_depth = depth, bh_spent_transaction_id = fx_txid spent, bh_spent_vout = vout,
      bh_spent_value_sat = v, bh_spending_transaction_id = fx_txid spending, bh_spending_vin = 0,
      bh_block_height = 2, bh_fee_sat = 1, bh_created_outputs = [fx_output 0 created],
      bh_providers = fx_providers\<rparr>"

definition fx_replay :: bitcoin_utxo_replay where
  "fx_replay =
     \<lparr>br_replay_version = ''0.1'', br_fixture_id = ''FX-BTC-UTXO-001'', br_observations_complete = True,
      br_transaction =
        \<lparr>bt_transaction_id = fx_txid (CHR ''1''), bt_network = ''bitcoin_mainnet'', bt_block_height = 1,
         bt_block_hash = fx_txid (CHR ''0''), bt_block_time = 1, bt_fee_sat = 10,
         bt_inputs = [\<lparr>bi_prevout = \<lparr>bp_transaction_id = fx_txid (CHR ''9''), bp_vout = 0, bp_value_sat = 100,
           bp_script_type = ''v0_p2wpkh'', bp_address = ''bc1p''\<rparr>, bi_sequence = 0\<rparr>],
         bt_outputs = [fx_output 0 50, fx_output 1 40], bt_providers = fx_providers\<rparr>,
      br_spend_path = [fx_hop 1 (CHR ''1'') 0 50 (CHR ''2'') 49, fx_hop 2 (CHR ''2'') 0 49 (CHR ''3'') 48],
      br_source_ids = [''DS-BTC-NODE'', ''DS-BTC-API'']\<rparr>"

lemma fx_replay_ok: "validate_bitcoin_replay fx_replay = Inr ()"
  by code_simp

theorem accepted_replay_is_connected_witness:
  "selected_hops fx_replay 0 1 = [fx_hop 1 (CHR ''1'') 0 50 (CHR ''2'') 49]"
proof -
  have path: "br_spend_path fx_replay = [fx_hop 1 (CHR ''1'') 0 50 (CHR ''2'') 49, fx_hop 2 (CHR ''2'') 0 49 (CHR ''3'') 48]"
    by (simp add: fx_replay_def)
  have "bh_spent_vout (fx_hop 1 (CHR ''1'') 0 50 (CHR ''2'') 49) = 0" by (simp add: fx_hop_def)
  with accepted_replay_is_connected [OF fx_replay_ok, of 0 1] show ?thesis by (simp add: path)
qed

theorem unspent_start_reports_foreign_path_witness:
  "\<exists>facts. reconstruct_bitcoin_facts fx_replay 1 2 = JObj facts
     \<and> map_of facts ''spend_path'' = Some (JArr [hop_fact (fx_hop 2 (CHR ''2'') 0 49 (CHR ''3'') 48)])"
proof -
  have "br_spend_path fx_replay = [fx_hop 1 (CHR ''1'') 0 50 (CHR ''2'') 49, fx_hop 2 (CHR ''2'') 0 49 (CHR ''3'') 48]"
    by (simp add: fx_replay_def)
  moreover have "bh_spent_vout (fx_hop 1 (CHR ''1'') 0 50 (CHR ''2'') 49) \<noteq> 1" by (simp add: fx_hop_def)
  ultimately show ?thesis
    using unspent_start_reports_foreign_path [OF fx_replay_ok, of _ _ "[]" 1 2] by auto
qed

end
