(* ===== verification/Bitcoin_Analyzer_Properties.thy ===== *)
theory Bitcoin_Analyzer_Properties
  imports Bitcoin_Reports Bitcoin_Properties
begin

section \<open>Properties of the Bitcoin analyzer\<close>

text \<open>
  The analyzer against its specification: it reports exactly when every recorded answer of a provider
  says what the replay says (\<open>artifacts_agree\<close>), and everything it returns meets the analysis
  contract. Two theorems show where it does less: the second hop of a path can never be reconciled,
  and a malformed amount in a node's answer raises an exception that no branch catches.
\<close>

subsection \<open>Outcomes of the analyzer\<close>

definition failure_ok :: "btc_failure \<Rightarrow> bool" where
  "failure_ok f \<longleftrightarrow> 0 < length (bf_message f) \<and> length (bf_message f) \<le> 1000 \<and> snake_pattern (bf_stage f)"

lemma failures_ok:
  "failure_ok (Btc_Failure ERR_DECODE_FAILED ''Bitcoin replay is invalid.'' ''decode_replay'')"
  "binding_error request r = Some f \<Longrightarrow> failure_ok f"
  "artifact_error env r = Inr (Some f) \<Longrightarrow> failure_ok f"
proof -
  have stages: "list_all snake_pattern [''decode_replay'', ''rule_check'', ''fixture'', ''txid'', ''network'',
      ''start_outpoint'', ''source'', ''source_binding'', ''artifact_reconciliation'']" by code_simp
  then show "failure_ok (Btc_Failure ERR_DECODE_FAILED ''Bitcoin replay is invalid.'' ''decode_replay'')"
    by (simp add: failure_ok_def)
  show "binding_error request r = Some f \<Longrightarrow> failure_ok f"
    using stages by (auto simp: binding_error_def Let_def failure_ok_def split: if_splits)
  show "artifact_error env r = Inr (Some f) \<Longrightarrow> failure_ok f"
    using stages by (auto simp: artifact_error_def failure_ok_def split: sum.splits py_error.splits)
qed

definition failed_document :: "analysis_request \<Rightarrow> btc_failure \<Rightarrow> analysis_result" where
  "failed_document request f =
     btc_document request AN_FAILED [] [] []
       [btc_error ''ERR-BTC-ANALYSIS'' (bf_code f) (bf_stage f) (bf_message f)]
       (btc_run (rq_requested_at request) 0 False None)"

lemma btc_failed_returns:
  assumes "analysis_id_ok (rq_analysis_id request)" and "failure_ok f"
  shows "btc_failed urls request f = Inr (failed_document request f)"
    and "validate_analysis_result urls (failed_document request f) = Inr ()"
  using failed_document_valid [OF assms(1), of f urls "rq_requested_at request"] assms(2)
  by (simp_all add: btc_failed_def validated_def failed_document_def failure_ok_def)

lemma btc_failed_status: "btc_failed urls request f = Inr result \<Longrightarrow> rs_status result = AN_FAILED"
  by (auto simp: btc_failed_def validated_def btc_document_def split: sum.splits)

definition report_document ::
    "analysis_request \<Rightarrow> bitcoin_utxo_replay \<Rightarrow> source_record list \<Rightarrow> bool \<Rightarrow> string option \<Rightarrow> analysis_result" where
  "report_document request r sources resumed checkpoint_id =
     btc_document request (if br_spend_path r = [] then AN_PARTIAL else AN_COMPLETE)
       (btc_results request r (btc_evidence r)) (btc_evidence r) sources
       (if br_spend_path r = [] then [spend_evidence_error] else [])
       (btc_run (bv_retrieved_at (hd (bt_providers (br_transaction r)))) (length (btc_evidence r)) resumed checkpoint_id)"

lemma btc_result_report:
  "btc_result urls request r (btc_results request r (btc_evidence r)) (btc_evidence r) resumed checkpoint_id =
     and_then (uncaught (btc_sources r)) (\<lambda>sources. validated urls (report_document request r sources resumed checkpoint_id))"
  by (simp add: btc_result_def report_document_def Let_def)

lemma report_status: "rs_status (report_document request r sources resumed checkpoint_id) \<noteq> AN_FAILED"
  by (simp add: report_document_def btc_document_def)

lemma report_valid:
  assumes "validate_bitcoin_replay r = Inr ()" and "length (br_spend_path r) \<le> 10 ^ 50"
    and "analysis_id_ok (rq_analysis_id request)"
  obtains sources where "btc_sources r = Inr sources"
    "validate_analysis_result urls (report_document request r sources resumed checkpoint_id) = Inr ()"
    "set (map sd_source_id sources) \<subseteq> set required_source_ids"
proof -
  obtain ss where ss: "btc_sources r = Inr ss" "list_all source_record_ok ss"
      "\<forall>s \<in> set ss. sd_fallback_from s = None" "map provenance_of_source ss = map provenance_of_evidence (btc_evidence r)"
    using sources_of_accepted [OF assms(1,2)] by metis
  note ev = evidence_accepted [OF assms(1,2)] and distinct = evidence_distinct [of r]
  have results: "distinct (map ri_result_id (btc_results request r (btc_evidence r)))"
    "btc_results request r (btc_evidence r) \<noteq> []"
    by (simp_all add: btc_results_def btc_result_item_def)
  have "error_id_ok ''ERR-BTC-SPEND-EVIDENCE''" "snake_pattern ''spend_path''" by code_simp+
  then have error: "analysis_error_ok spend_evidence_error" "ae_related_evidence_ids spend_evidence_error = None"
    "ae_details spend_evidence_error = None"
    by (simp_all add: spend_evidence_error_def btc_error_ok) (simp_all add: btc_error_def)
  have sources: "ss \<noteq> []" using ss(4) ev(2) by (metis list.map_disc_iff)
  have decoded: "\<forall>e \<in> set (btc_evidence r). raw_values_are_uint256 (ei_decoded e) = Inr ()"
    by (auto simp: btc_evidence_def Let_def observation_evidence_def decoded_raw)
  note items = btc_results_ok [OF ev distinct(1)]
  have refs: "result_references_are_valid (report_document request r ss resumed checkpoint_id) = Inr ()"
    unfolding report_document_def
    by (rule document_references_ok [OF ss(4) distinct(2,1) results(1)])
      (use items results(2) error ss(3) in auto)
  have valid: "validate_analysis_result urls (report_document request r ss resumed checkpoint_id) = Inr ()"
    unfolding report_document_def
    by (rule document_valid [OF refs [unfolded report_document_def] assms(3)])
      (use items results(2) error ss(2) ev decoded sources btc_run_ok in \<open>auto simp: btc_document_def\<close>)
  have "set (map sd_source_id ss) = set (map ei_source_id (btc_evidence r))"
    by (rule provenance_references(4) [OF ss(4) distinct(2)])
  also have "\<dots> \<subseteq> set required_source_ids"
    using source_literals(3) by (auto simp: btc_evidence_def Let_def observation_evidence_def)
  finally show ?thesis using that ss(1) valid by blast
qed

lemma pair_valid:
  assumes "validate_request urls request = Inr ()" and "rq_analysis_type request = BITCOIN_UTXO"
    and "validate_analysis_result urls (btc_document request status results ev ss errors run) = Inr ()"
    and "set (map sd_source_id ss) \<subseteq> set (po_allowed_source_ids (rq_source_policy request))"
  shows "validate_analysis_pair urls request (btc_document request status results ev ss errors run) = Inr ()"
proof -
  have "rq_chain_id request = 0" "rq_schema_version request = ''0.2''"
    using assms(1,2) by (simp_all add: validate_request_def result_simps schema_version_literal_def)
  then show ?thesis using assms by (simp add: validate_analysis_pair_def) (auto simp: btc_document_def raise_if_def)
qed

lemma parse_accepted: "parse_bitcoin_utxo_replay env raw = Some r \<Longrightarrow> validate_bitcoin_replay r = Inr ()"
  by (auto simp: parse_bitcoin_utxo_replay_def bind_eq_Some_conv split: if_splits)

lemma bound_sources:
  "binding_error request r = None \<Longrightarrow> set required_source_ids \<subseteq> set (po_allowed_source_ids (rq_source_policy request))"
  by (auto simp: binding_error_def Let_def split: if_splits)

lemma artifact_error_cases:
  obtains "reconcile env r = Inr ()" "artifact_error env r = Inr None"
  | "reconcile env r = Inl Arithmetic_Error" "artifact_error env r = Inl Arithmetic_Error"
  | f where "\<not> is_ok (reconcile env r)" "artifact_error env r = Inr (Some f)"
proof (cases "reconcile env r")
  case (Inl e)
  then show ?thesis using that by (cases e) (auto simp: artifact_error_def)
next
  case (Inr u)
  then show ?thesis using that by (auto simp: artifact_error_def)
qed

subsection \<open>What the artifacts say\<close>

text \<open>
  The specification of the reconciliation. \<open>recorded env v fs\<close>: the artifact of an observation exists,
  has its digest and holds the object \<open>fs\<close>. \<open>root_agrees\<close> and \<open>hop_agrees\<close>: the object says of the
  transaction, or of a spending transaction, what the replay says.
\<close>

definition recorded :: "artifact_env \<Rightarrow> bitcoin_provider_observation \<Rightarrow> json_object \<Rightarrow> bool" where
  "recorded env v fs \<longleftrightarrow>
     (\<exists>body. af_files env (bv_artifact_file v) = Some body \<and> sha256_hex body = bv_artifact_sha256 v
        \<and> loads_bytes body = Some (JObj fs))"

definition root_agrees :: "artifact_env \<Rightarrow> bitcoin_utxo_replay \<Rightarrow> bitcoin_provider_observation \<Rightarrow> bool" where
  "root_agrees env r v \<longleftrightarrow>
     (\<exists>fs. recorded env v fs
        \<and> (if bv_role v = ROLE_PRIMARY
           then publicnode_projection (af_floats env) fs = Inr (publicnode_replay_projection r)
           else rest_transaction_projection (af_floats env) fs = Inr (replay_transaction_projection r)))"

definition hop_agrees ::
    "artifact_env \<Rightarrow> bitcoin_utxo_replay \<Rightarrow> bitcoin_spend_hop \<Rightarrow> bitcoin_provider_observation \<Rightarrow> bool" where
  "hop_agrees env r h v \<longleftrightarrow>
     (\<exists>fs. recorded env v fs
        \<and> (if bv_role v = ROLE_PRIMARY
           then \<exists>p. publicnode_hop_projection (af_floats env) fs r (bh_spent_transaction_id h) (bh_spent_vout h) = Inr p
                  \<and> publicnode_hop_comparable p = rest_hop_public_projection (replay_hop_projection h)
           else rest_hop_projection (af_floats env) fs (bh_spent_transaction_id h) (bh_spent_vout h)
                  = Inr (replay_hop_projection h)))"

definition artifacts_agree :: "artifact_env \<Rightarrow> bitcoin_utxo_replay \<Rightarrow> bool" where
  "artifacts_agree env r \<longleftrightarrow>
     (\<forall>v \<in> set (bt_providers (br_transaction r)). root_agrees env r v)
     \<and> (\<forall>h \<in> set (br_spend_path r). \<forall>v \<in> set (bh_providers h). hop_agrees env r h v)"

lemma recorded_iff: "read_provider_artifact env v = Inr fs \<longleftrightarrow> recorded env v fs"
  by (auto simp: read_provider_artifact_def recorded_def split: option.splits json.splits)

subsection \<open>Artifacts by provider\<close>

lemma artifacts_fold:
  assumes "fold_result (\<lambda>d v. and_then (read_provider_artifact env v) (\<lambda>body. Inr (dict_set (bv_provider_id v) body d)))
      d vs = Inr arts" and "distinct (map bv_provider_id vs)"
  shows "v \<in> set vs \<Longrightarrow> \<exists>fs. recorded env v fs \<and> map_of arts (bv_provider_id v) = Some fs"
    and "k \<notin> bv_provider_id ` set vs \<Longrightarrow> map_of arts k = map_of d k"
proof -
  have "(\<forall>v \<in> set vs. \<exists>fs. recorded env v fs \<and> map_of arts (bv_provider_id v) = Some fs)
      \<and> (\<forall>k. k \<notin> bv_provider_id ` set vs \<longrightarrow> map_of arts k = map_of d k)"
    using assms
  proof (induction vs arbitrary: d)
    case (Cons w vs)
    then obtain fs where fs: "read_provider_artifact env w = Inr fs" by (auto simp: result_simps)
    with Cons.IH [of "dict_set (bv_provider_id w) fs d"] Cons.prems show ?case by (auto simp: recorded_iff)
  qed simp
  then show "v \<in> set vs \<Longrightarrow> \<exists>fs. recorded env v fs \<and> map_of arts (bv_provider_id v) = Some fs"
    "k \<notin> bv_provider_id ` set vs \<Longrightarrow> map_of arts k = map_of d k" by blast+
qed

lemma provider_artifacts_Inr:
  assumes "provider_artifacts env vs = Inr arts" and "validate_provider_observations context vs = Inr ()"
  shows "v \<in> set vs \<Longrightarrow> \<exists>fs. recorded env v fs \<and> map_of arts (required_provider (bv_role v)) = Some fs"
    and "map_of arts k = Some fs \<Longrightarrow> \<exists>v \<in> set vs. bv_provider_id v = k \<and> recorded env v fs"
proof -
  note accepted = providers_accepted [OF assms(2)]
  note folded = artifacts_fold [OF assms(1) [unfolded provider_artifacts_def] accepted(3)]
  show "v \<in> set vs \<Longrightarrow> \<exists>fs. recorded env v fs \<and> map_of arts (required_provider (bv_role v)) = Some fs"
    using folded(1) accepted(2) by metis
  show "\<exists>v \<in> set vs. bv_provider_id v = k \<and> recorded env v fs" if "map_of arts k = Some fs"
  proof -
    have "k \<in> bv_provider_id ` set vs" using folded(2) [of k] that by (cases "k \<in> bv_provider_id ` set vs") auto
    then obtain v where "v \<in> set vs" "bv_provider_id v = k" by blast
    with folded(1) [of v] that show ?thesis by auto
  qed
qed

lemma provider_artifacts_total:
  assumes "\<forall>v \<in> set vs. \<exists>fs. recorded env v fs"
  shows "\<exists>arts. provider_artifacts env vs = Inr arts"
proof -
  have "\<exists>arts. fold_result (\<lambda>d v. and_then (read_provider_artifact env v) (\<lambda>body. Inr (dict_set (bv_provider_id v) body d)))
      d vs = Inr arts" for d
    using assms
  proof (induction vs arbitrary: d)
    case (Cons w vs)
    then obtain fs where "read_provider_artifact env w = Inr fs" by (auto simp: recorded_iff)
    with Cons show ?case by simp
  qed simp
  then show ?thesis by (simp add: provider_artifacts_def)
qed

text \<open>The roles of accepted providers: one primary, one verifying, and others that support.\<close>

lemma required_roles:
  assumes "validate_provider_observations context vs = Inr ()"
  obtains p q where "p \<in> set vs" "bv_role p = ROLE_PRIMARY" "q \<in> set vs" "bv_role q = ROLE_VERIFY"
proof -
  have "count_if (\<lambda>v. bv_role v = ROLE_PRIMARY) vs = 1" "count_if (\<lambda>v. bv_role v = ROLE_VERIFY) vs = 1"
    using assms by (auto simp: validate_provider_observations_def Let_def result_simps)
  then have "filter (\<lambda>v. bv_role v = ROLE_PRIMARY) vs \<noteq> []" "filter (\<lambda>v. bv_role v = ROLE_VERIFY) vs \<noteq> []"
    by (auto simp: count_if_def)
  then show ?thesis using that by (auto simp: filter_empty_conv)
qed

lemma recorded_unique: "recorded env v fs \<Longrightarrow> recorded env v fs' \<Longrightarrow> fs = fs'"
  by (auto simp: recorded_def)

text \<open>
  The shape shared by \<open>reconcile_root\<close> and \<open>reconcile_hop\<close>: what is required of the artifact of the node and of
  every explorer, in terms of the artifacts by provider.
\<close>

lemma artifacts_by_role:
  assumes "provider_artifacts env vs = Inr arts" and "validate_provider_observations context vs = Inr ()"
    and "map_of arts ''publicnode.bitcoin'' = Some p" and "map_of arts ''mempool.space'' = Some q"
  shows "(\<forall>v \<in> set vs. \<exists>fs. recorded env v fs \<and> (if bv_role v = ROLE_PRIMARY then P fs else Q fs))
    \<longleftrightarrow> P p \<and> Q q \<and> (\<forall>s. map_of arts ''blockstream.info'' = Some s \<longrightarrow> Q s)"
proof
  note named = provider_artifacts_Inr [OF assms(1,2)] and ids = providers_accepted(2) [OF assms(2)]
  assume all: "\<forall>v \<in> set vs. \<exists>fs. recorded env v fs \<and> (if bv_role v = ROLE_PRIMARY then P fs else Q fs)"
  have said: "if role = ROLE_PRIMARY then P fs else Q fs" if fs: "map_of arts (required_provider role) = Some fs" for role fs
  proof -
    obtain v where v: "v \<in> set vs" "bv_provider_id v = required_provider role" "recorded env v fs"
      using named(2) [OF fs] by blast
    then have "bv_role v = role" using ids [OF v(1)] by (cases "bv_role v"; cases role) simp_all
    with all v recorded_unique show ?thesis by metis
  qed
  show "P p \<and> Q q \<and> (\<forall>s. map_of arts ''blockstream.info'' = Some s \<longrightarrow> Q s)"
    using said [of ROLE_PRIMARY] said [of ROLE_VERIFY] said [of provider_role.ROLE_SUPPORTING] assms(3,4) by simp
next
  note named = provider_artifacts_Inr(1) [OF assms(1,2)]
  assume "P p \<and> Q q \<and> (\<forall>s. map_of arts ''blockstream.info'' = Some s \<longrightarrow> Q s)"
  then have "if role = ROLE_PRIMARY then P fs else Q fs" if "map_of arts (required_provider role) = Some fs" for role fs
    using that assms(3,4) by (cases role) simp_all
  with named show "\<forall>v \<in> set vs. \<exists>fs. recorded env v fs \<and> (if bv_role v = ROLE_PRIMARY then P fs else Q fs)" by blast
qed

lemma artifacts_named:
  assumes "provider_artifacts env vs = Inr arts" and "validate_provider_observations context vs = Inr ()"
  obtains p q where "map_of arts ''publicnode.bitcoin'' = Some p" "map_of arts ''mempool.space'' = Some q"
proof -
  obtain a b where "a \<in> set vs" "bv_role a = ROLE_PRIMARY" "b \<in> set vs" "bv_role b = ROLE_VERIFY"
    by (rule required_roles [OF assms(2)])
  then show ?thesis using provider_artifacts_Inr(1) [OF assms, of a] provider_artifacts_Inr(1) [OF assms, of b] that by auto
qed

subsection \<open>Reconciliation is agreement\<close>

lemma reconcile_root_iff:
  assumes "validate_provider_observations ''root'' (bt_providers (br_transaction r)) = Inr ()"
  shows "reconcile_root env r = Inr verified \<longleftrightarrow>
    verified = replay_transaction_projection r \<and> (\<forall>v \<in> set (bt_providers (br_transaction r)). root_agrees env r v)"
proof (cases "provider_artifacts env (bt_providers (br_transaction r))")
  case (Inl e)
  have "\<not> (\<forall>v \<in> set (bt_providers (br_transaction r)). root_agrees env r v)"
  proof
    assume "\<forall>v \<in> set (bt_providers (br_transaction r)). root_agrees env r v"
    then have "\<forall>v \<in> set (bt_providers (br_transaction r)). \<exists>fs. recorded env v fs" by (auto simp: root_agrees_def)
    with Inl show False using provider_artifacts_total by force
  qed
  with Inl show ?thesis by (simp add: reconcile_root_def Let_def)
next
  case (Inr arts)
  obtain p q where pq: "map_of arts ''publicnode.bitcoin'' = Some p" "map_of arts ''mempool.space'' = Some q"
    by (rule artifacts_named [OF Inr assms])
  show ?thesis
    unfolding root_agrees_def artifacts_by_role [OF Inr assms pq]
    using pq Inr
    by (auto simp: reconcile_root_def Let_def artifact_of_def result_simps split: option.splits)
qed

lemma reconcile_hop_iff:
  assumes "validate_provider_observations ''hop'' (bh_providers h) = Inr ()"
  shows "reconcile_hop env r h = Inr verified \<longleftrightarrow>
    verified = replay_hop_projection h \<and> (\<forall>v \<in> set (bh_providers h). hop_agrees env r h v)"
proof (cases "provider_artifacts env (bh_providers h)")
  case (Inl e)
  have "\<not> (\<forall>v \<in> set (bh_providers h). hop_agrees env r h v)"
  proof
    assume "\<forall>v \<in> set (bh_providers h). hop_agrees env r h v"
    then have "\<forall>v \<in> set (bh_providers h). \<exists>fs. recorded env v fs" by (auto simp: hop_agrees_def)
    with Inl show False using provider_artifacts_total by force
  qed
  with Inl show ?thesis by (simp add: reconcile_hop_def Let_def)
next
  case (Inr arts)
  obtain p q where pq: "map_of arts ''publicnode.bitcoin'' = Some p" "map_of arts ''mempool.space'' = Some q"
    by (rule artifacts_named [OF Inr assms])
  show ?thesis
    unfolding hop_agrees_def artifacts_by_role [OF Inr assms pq]
    using pq Inr
    by (auto simp: reconcile_hop_def Let_def artifact_of_def result_simps split: option.splits)
qed

subsection \<open>The artifact path\<close>

lemma rest_outputs_numbered:
  "map_result (rest_output fm) (enumerate n xs) = Inr outs \<Longrightarrow> map bo_vout outs = map int [n..<n + length xs]"
proof (induction xs arbitrary: n outs)
  case (Cons x xs)
  then obtain out rest where "rest_output fm (n, x) = Inr out" "map_result (rest_output fm) (enumerate (Suc n) xs) = Inr rest"
    "outs = out # rest" by (auto simp: result_simps)
  moreover from this(1) have "bo_vout out = int n" by (auto simp: rest_output_def result_simps)
  moreover have "[n..<n + length (x # xs)] = n # [Suc n..<Suc n + length xs]" by (subst upt_conv_Cons) simp_all
  ultimately show ?case using Cons.IH by (simp del: upt_Suc)
qed simp

lemma numbered_distinct: "map bo_vout outs = map int [n..<m] \<Longrightarrow> distinct (map bo_vout outs)"
  by (simp add: distinct_map inj_on_def)

lemma rest_outputs_distinct:
  "map_result (rest_output fm) (enumerate n xs) = Inr outs \<Longrightarrow> distinct (map bo_vout outs)"
  by (rule numbered_distinct) (rule rest_outputs_numbered)

lemma hop_outputs_distinct:
  "hop_agrees env r h v \<Longrightarrow> bv_role v \<noteq> ROLE_PRIMARY \<Longrightarrow> distinct (map bo_vout (bh_created_outputs h))"
  by (auto simp: hop_agrees_def rest_hop_projection_def replay_hop_projection_def result_simps
      dest: rest_outputs_distinct)

lemma filter_distinct_find:
  "distinct (map f xs) \<Longrightarrow> find (\<lambda>x. f x = a) xs = Some y \<Longrightarrow> filter (\<lambda>x. f x = a) xs = [y]"
  by (induction xs) (auto simp: filter_empty_conv image_iff split: if_splits)

lemma artifact_path_of_replay:
  assumes "bind_hops depth t outs hops = Inr ()" and "distinct (map bo_vout outs)"
    and "\<forall>h \<in> set hops. distinct (map bo_vout (bh_created_outputs h))"
  shows "artifact_path_from t outs (map replay_hop_projection hops) = Inr ()"
  using assms
proof (induction hops arbitrary: depth t outs)
  case (Cons h hops)
  then obtain out where "find (\<lambda>out. bo_vout out = bh_spent_vout h) outs = Some out" "bo_value_sat out = bh_spent_value_sat h"
    by (auto simp: result_simps split: option.splits)
  moreover from this(1) have "filter (\<lambda>out. bo_vout out = bh_spent_vout h) outs = [out]"
    by (rule filter_distinct_find [OF Cons.prems(2)])
  ultimately show ?case using Cons.prems Cons.IH [of "depth + 1" "bh_spending_transaction_id h" "bh_created_outputs h"]
    by (auto simp: result_simps replay_hop_projection_def)
qed simp

lemma accepted_parts:
  assumes "validate_bitcoin_replay r = Inr ()"
  shows "validate_provider_observations ''root'' (bt_providers (br_transaction r)) = Inr ()"
    and "h \<in> set (br_spend_path r) \<Longrightarrow> validate_provider_observations ''hop'' (bh_providers h) = Inr ()"
    and "distinct (map bo_vout (bt_outputs (br_transaction r)))"
    and "bind_hops 1 (bt_transaction_id (br_transaction r)) (bt_outputs (br_transaction r)) (br_spend_path r) = Inr ()"
proof -
  have tx: "transaction_is_reconciled (br_transaction r) = Inr ()"
    using assms by (simp add: validate_bitcoin_replay_def validate_bitcoin_transaction_def result_simps)
  then show "validate_provider_observations ''root'' (bt_providers (br_transaction r)) = Inr ()"
    by (simp add: transaction_is_reconciled_def result_simps)
  have "map bo_vout (bt_outputs (br_transaction r)) = map int [0..<length (bt_outputs (br_transaction r))]"
    using tx by (simp add: transaction_is_reconciled_def result_simps)
  then show "distinct (map bo_vout (bt_outputs (br_transaction r)))" by (rule numbered_distinct)
  show "h \<in> set (br_spend_path r) \<Longrightarrow> validate_provider_observations ''hop'' (bh_providers h) = Inr ()"
    using assms by (simp add: validate_bitcoin_replay_def validate_spend_hop_def result_simps)
  show "bind_hops 1 (bt_transaction_id (br_transaction r)) (bt_outputs (br_transaction r)) (br_spend_path r) = Inr ()"
    using assms by (simp add: validate_bitcoin_replay_def replay_bindings_are_exact_def result_simps)
qed

lemma reconcile_iff:
  assumes "validate_bitcoin_replay r = Inr ()"
  shows "reconcile env r = Inr () \<longleftrightarrow> artifacts_agree env r"
proof -
  note parts = accepted_parts [OF assms]
  have hops: "map_result (reconcile_hop env r) (br_spend_path r) = Inr derived \<longleftrightarrow>
      derived = map replay_hop_projection (br_spend_path r)
      \<and> (\<forall>h \<in> set (br_spend_path r). \<forall>v \<in> set (bh_providers h). hop_agrees env r h v)" for derived
  proof -
    have "map_result (reconcile_hop env r) hs = Inr derived \<longleftrightarrow>
        derived = map replay_hop_projection hs \<and> (\<forall>h \<in> set hs. \<forall>v \<in> set (bh_providers h). hop_agrees env r h v)"
      if "set hs \<subseteq> set (br_spend_path r)" for hs
      using that
    proof (induction hs arbitrary: derived)
      case (Cons h hs)
      then have "validate_provider_observations ''hop'' (bh_providers h) = Inr ()" using parts(2) by simp
      note head = reconcile_hop_iff [OF this, of env r]
      from Cons.prems have "set hs \<subseteq> set (br_spend_path r)" by simp
      note tail = Cons.IH [OF this]
      show ?case by (auto simp: and_then_Inr head tail)
    qed auto
    then show ?thesis by blast
  qed
  have path: "validate_artifact_path (replay_transaction_projection r) (map replay_hop_projection (br_spend_path r)) = Inr ()"
    if agree: "\<forall>h \<in> set (br_spend_path r). \<forall>v \<in> set (bh_providers h). hop_agrees env r h v"
  proof -
    have "distinct (map bo_vout (bh_created_outputs h))" if h: "h \<in> set (br_spend_path r)" for h
    proof -
      obtain p q where "q \<in> set (bh_providers h)" "bv_role q = ROLE_VERIFY"
        by (rule required_roles [OF parts(2) [OF h]])
      with agree h show ?thesis by (intro hop_outputs_distinct [of env r h q]) auto
    qed
    then show ?thesis
      using artifact_path_of_replay [OF parts(4,3)]
      by (simp add: validate_artifact_path_def replay_transaction_projection_def Let_def)
  qed
  show ?thesis
    unfolding reconcile_def artifacts_agree_def and_then_Inr reconcile_root_iff [OF parts(1)] hops
    using path by blast
qed

subsection \<open>Reports\<close>

text \<open>The five ways an analysis goes.\<close>

lemma outcome_cases:
  obtains "parse_bitcoin_utxo_replay env raw = None"
  | r f where "parse_bitcoin_utxo_replay env raw = Some r" "binding_error request r = Some f"
  | r where "parse_bitcoin_utxo_replay env raw = Some r" "binding_error request r = None" "artifacts_agree env r"
  | r where "parse_bitcoin_utxo_replay env raw = Some r" "binding_error request r = None"
      "reconcile env r = Inl Arithmetic_Error"
  | r f where "parse_bitcoin_utxo_replay env raw = Some r" "binding_error request r = None"
      "artifact_error env r = Inr (Some f)"
proof (cases "parse_bitcoin_utxo_replay env raw")
  case (Some r)
  show ?thesis
  proof (cases "binding_error request r")
    case None
    then show ?thesis
      by (cases rule: artifact_error_cases [of env r]) (use Some that reconcile_iff [OF parse_accepted [OF Some]] in blast)+
  qed (use Some that in blast)
qed (use that in blast)

lemma report_cases:
  assumes "analyze_bitcoin_utxo_replay urls env request raw resumed checkpoint_id = Inr result"
    and "rs_status result \<noteq> AN_FAILED"
  obtains r sources where "parse_bitcoin_utxo_replay env raw = Some r" "binding_error request r = None"
    "artifacts_agree env r" "result = report_document request r sources resumed checkpoint_id"
proof -
  obtain r where r: "parse_bitcoin_utxo_replay env raw = Some r"
    using assms btc_failed_status by (fastforce simp: analyze_bitcoin_utxo_replay_def split: option.splits)
  have bound: "binding_error request r = None"
    using assms r btc_failed_status by (fastforce simp: analyze_bitcoin_utxo_replay_def split: option.splits)
  show ?thesis
  proof (cases rule: artifact_error_cases [of env r])
    case 1
    then obtain ss where "result = report_document request r ss resumed checkpoint_id"
      using assms(1) r bound
      by (auto simp: analyze_bitcoin_utxo_replay_def uncaught_def btc_result_report validated_def Let_def result_simps
          split: sum.splits)
    with 1 r bound reconcile_iff [OF parse_accepted [OF r]] that show ?thesis by blast
  next
    case 2
    with assms(1) r bound show ?thesis by (simp add: analyze_bitcoin_utxo_replay_def uncaught_def)
  next
    case (3 f)
    with assms r bound btc_failed_status show ?thesis by (simp add: analyze_bitcoin_utxo_replay_def uncaught_def)
  qed
qed

lemma agreeing_replay_reported:
  assumes "parse_bitcoin_utxo_replay env raw = Some r" and "binding_error request r = None"
    and "artifacts_agree env r" and "length (br_spend_path r) \<le> 10 ^ 50" and "analysis_id_ok (rq_analysis_id request)"
  obtains sources where "analyze_bitcoin_utxo_replay urls env request raw resumed checkpoint_id
      = Inr (report_document request r sources resumed checkpoint_id)"
    "validate_analysis_result urls (report_document request r sources resumed checkpoint_id) = Inr ()"
    "set (map sd_source_id sources) \<subseteq> set required_source_ids"
proof -
  note valid = parse_accepted [OF assms(1)]
  obtain ss where ss: "btc_sources r = Inr ss"
    "validate_analysis_result urls (report_document request r ss resumed checkpoint_id) = Inr ()"
    "set (map sd_source_id ss) \<subseteq> set required_source_ids"
    by (rule report_valid [OF valid assms(4,5)])
  have "reconcile env r = Inr ()" using assms(3) by (simp only: reconcile_iff [OF valid])
  then have "artifact_error env r = Inr None" by (simp add: artifact_error_def)
  then have "analyze_bitcoin_utxo_replay urls env request raw resumed checkpoint_id
      = Inr (report_document request r ss resumed checkpoint_id)"
    using assms(1,2) ss
    by (simp add: analyze_bitcoin_utxo_replay_def uncaught_def btc_result_report validated_def Let_def)
  with ss that show ?thesis by blast
qed

lemma later_hop_disagrees:
  assumes "validate_bitcoin_replay r = Inr ()" and "h \<in> set (br_spend_path r)" and "artifacts_agree env r"
  shows "bh_spent_transaction_id h = bt_transaction_id (br_transaction r)"
proof -
  obtain p q where p: "p \<in> set (bh_providers h)" "bv_role p = ROLE_PRIMARY"
    by (rule required_roles [OF accepted_parts(2) [OF assms(1,2)]])
  with assms(2,3) have "hop_agrees env r h p" by (simp add: artifacts_agree_def)
  then obtain out where "root_output r (bh_spent_transaction_id h) (bh_spent_vout h) = Some out"
    using p(2) by (auto simp: hop_agrees_def publicnode_hop_projection_def result_simps split: option.splits)
  then show ?thesis by (auto simp: root_output_def find_Some_iff)
qed

lemma map_result_stops: "map_result f xs = Inr ys \<Longrightarrow> f x = Inl e \<Longrightarrow> map_result f (xs @ x # zs) = Inl e"
  by (induction xs arbitrary: ys) (auto simp: result_simps)

subsection \<open>Amounts\<close>

lemma decimal_value_bound: "list_all is_digit s \<Longrightarrow> decimal_value s < 10 ^ length s"
proof (induction s rule: rev_induct)
  case (snoc c s)
  have "\<forall>c \<in> set decimal_digits. digit_value c < 10" by code_simp
  then have "digit_value c < 10" using snoc.prems by (simp add: is_digit_def)
  with snoc show ?case by (simp add: decimal_value_snoc)
qed (simp add: decimal_value_def)

lemma number_of_digits_bounds:
  "n < 10 ^ k \<Longrightarrow> 0 < k \<Longrightarrow> number_of_digits n \<le> k" "n < 10 ^ number_of_digits n"
proof -
  show "n < 10 ^ k \<Longrightarrow> 0 < k \<Longrightarrow> number_of_digits n \<le> k" unfolding number_of_digits_def by (rule length_show_nat)
  have "list_all is_digit (show_nat n)" using show_nat_digits by (auto simp: is_digit_def list_all_iff)
  from decimal_value_bound [OF this] show "n < 10 ^ number_of_digits n" by (simp add: number_of_digits_def show_nat_value)
qed

definition amount_char :: "char \<Rightarrow> bool" where
  "amount_char c \<longleftrightarrow> is_digit c \<or> c = CHR ''.''"

lemma amount_chars: "amount_char c \<Longrightarrow> \<not> unicode_space c \<and> c \<noteq> CHR ''_'' \<and> to_lower c = c \<and> c \<notin> set ''+-ins''"
proof -
  have "\<forall>c \<in> set (CHR ''.'' # decimal_digits). \<not> unicode_space c \<and> c \<noteq> CHR ''_'' \<and> to_lower c = c \<and> c \<notin> set ''+-ins''"
    by code_simp
  then show "amount_char c \<Longrightarrow> \<not> unicode_space c \<and> c \<noteq> CHR ''_'' \<and> to_lower c = c \<and> c \<notin> set ''+-ins''"
    by (auto simp: amount_char_def is_digit_def)
qed

lemma strip_none:
  assumes "\<And>c. c \<in> set s \<Longrightarrow> \<not> P c"
  shows "strip P s = s"
proof -
  have "dropWhile P t = t" if "set t \<subseteq> set s" for t using that assms by (cases t) auto
  from this [of s] this [of "rev s"] show ?thesis by (simp add: strip_def)
qed

lemma parse_amount:
  assumes "list_all is_digit whole" and "whole \<noteq> []" and "list_all is_digit fraction"
    and "length whole + length fraction \<le> 20"
  shows "parse_decimal (whole @ ''.'' @ fraction) =
    Some (Finite False (decimal_value (whole @ fraction)) (- int (length fraction)))"
proof -
  let ?t = "whole @ ''.'' @ fraction"
  have chars: "\<forall>c \<in> set ?t. amount_char c" using assms(1,3) by (auto simp: amount_char_def list_all_iff)
  have "strip unicode_space ?t = ?t" using chars amount_chars by (intro strip_none) blast
  moreover have "filter (\<lambda>c. c \<noteq> CHR ''_'') ?t = ?t" using chars amount_chars by (intro filter_True) blast
  moreover have "map to_lower ?t = ?t" using chars amount_chars by (intro map_idI) blast
  ultimately have clean: "map to_lower (filter (\<lambda>c. c \<noteq> CHR ''_'') (strip unicode_space ?t)) = ?t" by (simp only:)
  obtain c cs where c: "?t = c # cs" using assms(2) by (cases ?t) auto
  then have "amount_char c" using chars by simp
  then have first: "c \<notin> set ''+-ins''" using amount_chars by blast
  then have signed: "signed_text ?t = (False, ?t)" unfolding c by (simp add: signed_text_def)
  have named: "?t \<noteq> ''inf''" "?t \<noteq> ''infinity''" "\<not> starts_with ''nan'' ?t" "\<not> starts_with ''snan'' ?t"
    using first unfolding c by (auto simp: starts_with_def)
  have dot: "\<not> is_digit (CHR ''.'')" by code_simp
  then have whole: "takeWhile is_digit ?t = whole" "dropWhile is_digit ?t = ''.'' @ fraction"
    using assms(1) by (auto simp: list_all_iff takeWhile_append dropWhile_append)
  have fraction: "takeWhile is_digit fraction = fraction" "dropWhile is_digit fraction = []"
    using assms(3) by (auto simp: list_all_iff takeWhile_eq_all_conv dropWhile_eq_Nil_conv)
  have finite: "parse_finite ?t = Some (decimal_value (whole @ fraction), - int (length fraction))"
    unfolding parse_finite_def Let_def whole using assms(2) by (simp add: parse_exponent_def fraction)
  have "list_all is_digit (whole @ fraction)" using assms(1,3) by simp
  then have "number_of_digits (decimal_value (whole @ fraction)) \<le> length (whole @ fraction)"
    by (intro number_of_digits_bounds decimal_value_bound) (use assms(2) in simp_all)
  then show ?thesis
    unfolding parse_decimal_def clean signed using named finite assms(4) by (simp add: Let_def)
qed

subsection \<open>Properties\<close>

text \<open>
  C18: Every document the Bitcoin analyzer returns for a valid request passes the contract validation of
  results and of the pair: identifiers, references, sources within the allowed ones and envelopes. The
  only exception that leaves it is an arithmetic one, raised while provider artifacts are read.
\<close>

theorem bitcoin_results_are_valid:
  assumes "validate_request urls request = Inr ()" and "rq_analysis_type request = BITCOIN_UTXO"
    and "\<forall>r. parse_bitcoin_utxo_replay env raw = Some r \<longrightarrow> length (br_spend_path r) \<le> 10 ^ 50"
  shows "(\<exists>result. analyze_bitcoin_utxo_replay urls env request raw resumed checkpoint_id = Inr result
        \<and> validate_analysis_pair urls request result = Inr ())
    \<or> (analyze_bitcoin_utxo_replay urls env request raw resumed checkpoint_id = Inl (Uncaught Arithmetic_Error)
        \<and> (\<exists>r. parse_bitcoin_utxo_replay env raw = Some r \<and> binding_error request r = None
            \<and> reconcile env r = Inl Arithmetic_Error))"
proof -
  have id: "analysis_id_ok (rq_analysis_id request)" using assms(1) by (simp add: validate_request_def result_simps)
  have failed: "\<exists>result. btc_failed urls request f = Inr result \<and> validate_analysis_pair urls request result = Inr ()"
    if "failure_ok f" for f
    using btc_failed_returns [OF id that, of urls] pair_valid [OF assms(1,2)]
    by (simp add: failed_document_def)
  show ?thesis
  proof (cases rule: outcome_cases [where env = env and raw = raw and request = request])
    case 1
    then show ?thesis using failed [OF failures_ok(1)] by (simp add: analyze_bitcoin_utxo_replay_def)
  next
    case (2 r f)
    then show ?thesis using failed [OF failures_ok(2) [OF 2(2)]] by (simp add: analyze_bitcoin_utxo_replay_def)
  next
    case (3 r)
    obtain ss where ss: "analyze_bitcoin_utxo_replay urls env request raw resumed checkpoint_id
          = Inr (report_document request r ss resumed checkpoint_id)"
        "validate_analysis_result urls (report_document request r ss resumed checkpoint_id) = Inr ()"
        "set (map sd_source_id ss) \<subseteq> set required_source_ids"
      by (rule agreeing_replay_reported [OF 3 assms(3) [rule_format, OF 3(1)] id])
    have "validate_analysis_pair urls request (report_document request r ss resumed checkpoint_id) = Inr ()"
      using ss(2,3) bound_sources [OF 3(2)] unfolding report_document_def
      by (intro pair_valid [OF assms(1,2)]) auto
    with ss(1) show ?thesis by blast
  next
    case (4 r)
    then show ?thesis by (simp add: analyze_bitcoin_utxo_replay_def artifact_error_def uncaught_def)
  next
    case (5 r f)
    then show ?thesis using failed [OF failures_ok(3) [OF 5(3)]]
      by (simp add: analyze_bitcoin_utxo_replay_def uncaught_def)
  qed
qed

text \<open>
  C17: Every analysis has one of three outcomes. If the replay is valid and bound to the request and all
  recorded answers agree with it (each artifact file exists, has the recorded digest and is a JSON
  object; the node and every explorer state the transaction and each spending transaction, with its
  inputs, outputs, amounts, fee and block, as the replay does), facts are reported: the result is
  complete, or partial when no output is spent. Otherwise the result is failed, except that an
  arithmetic error in the reading of an artifact leaves the analyzer, which then returns no result; this
  happens only to bound replays with which the answers do not agree.
\<close>

theorem report_iff_artifacts_agree:
  assumes "validate_request urls request = Inr ()"
    and "\<forall>r. parse_bitcoin_utxo_replay env raw = Some r \<longrightarrow> length (br_spend_path r) \<le> 10 ^ 50"
  shows "case analyze_bitcoin_utxo_replay urls env request raw resumed checkpoint_id of
      Inr result \<Rightarrow> rs_status result =
        (case parse_bitcoin_utxo_replay env raw of
           None \<Rightarrow> AN_FAILED
         | Some r \<Rightarrow>
             if binding_error request r = None \<and> artifacts_agree env r
             then (if br_spend_path r = [] then AN_PARTIAL else AN_COMPLETE) else AN_FAILED)
    | Inl e \<Rightarrow> e = Uncaught Arithmetic_Error
        \<and> (\<exists>r. parse_bitcoin_utxo_replay env raw = Some r \<and> binding_error request r = None
             \<and> reconcile env r = Inl Arithmetic_Error \<and> \<not> artifacts_agree env r)"
proof -
  have id: "analysis_id_ok (rq_analysis_id request)" using assms(1) by (simp add: validate_request_def result_simps)
  note failed = btc_failed_returns(1) [OF id, of _ urls] failures_ok
  show ?thesis
  proof (cases rule: outcome_cases [where env = env and raw = raw and request = request])
    case 1
    then show ?thesis using failed(1) [OF failed(2)]
      by (simp add: analyze_bitcoin_utxo_replay_def failed_document_def btc_document_def)
  next
    case (2 r f)
    then show ?thesis using failed(1) [OF failed(3) [OF 2(2)]]
      by (simp add: analyze_bitcoin_utxo_replay_def failed_document_def btc_document_def)
  next
    case (3 r)
    from 3(1) assms(2) have "length (br_spend_path r) \<le> 10 ^ 50" by blast
    from agreeing_replay_reported [OF 3 this id] obtain ss where
      "analyze_bitcoin_utxo_replay urls env request raw resumed checkpoint_id
        = Inr (report_document request r ss resumed checkpoint_id)" by blast
    with 3 show ?thesis by (simp add: report_document_def btc_document_def)
  next
    case (4 r)
    then have "\<not> artifacts_agree env r" using reconcile_iff [OF parse_accepted [OF 4(1)], of env] by simp
    with 4 show ?thesis by (simp add: analyze_bitcoin_utxo_replay_def artifact_error_def uncaught_def)
  next
    case (5 r f)
    then have "\<not> artifacts_agree env r"
      using reconcile_iff [OF parse_accepted [OF 5(1)], of env] by (auto simp: artifact_error_def)
    with 5 show ?thesis using failed(1) [OF failed(4) [OF 5(3)]]
      by (simp add: analyze_bitcoin_utxo_replay_def failed_document_def btc_document_def uncaught_def)
  qed
qed

text \<open>
  C29: A replay whose path goes on from another transaction after the first hop is never reconciled,
  whatever the provider artifacts are: the node projection looks for the spent output in the root transaction only. The analysis of such
  a replay, which the contract accepts, fails.
\<close>

theorem later_hop_is_never_reconciled:
  assumes "validate_bitcoin_replay r = Inr ()" and "br_spend_path r = h1 # h2 # hs"
    and "bh_spending_transaction_id h1 \<noteq> bt_transaction_id (br_transaction r)"
  shows "artifact_error env r \<noteq> Inr None
    \<and> (\<forall>urls request raw resumed checkpoint_id result.
         parse_bitcoin_utxo_replay env raw = Some r
         \<longrightarrow> analyze_bitcoin_utxo_replay urls env request raw resumed checkpoint_id = Inr result
         \<longrightarrow> rs_status result = AN_FAILED)"
proof -
  have "bh_spent_transaction_id h2 = bh_spending_transaction_id h1"
    using replay_accepted(3) [OF assms(1), of 1] assms(2) by (simp add: hop_source_def spends_from_def)
  then have disagree: "\<not> artifacts_agree env r" using later_hop_disagrees [OF assms(1), of h2 env] assms(2,3) by auto
  then have "\<not> reconcile env r = Inr ()" by (simp only: reconcile_iff [OF assms(1)] simp_thms)
  then have "artifact_error env r \<noteq> Inr None" by (cases rule: artifact_error_cases [of env r]) auto
  moreover have "rs_status result = AN_FAILED"
    if "parse_bitcoin_utxo_replay env raw = Some r"
      "analyze_bitcoin_utxo_replay urls env request raw resumed checkpoint_id = Inr result"
    for urls request raw resumed checkpoint_id result
    using report_cases [OF that(2)] that(1) disagree by (metis option.inject)
  ultimately show ?thesis by blast
qed

text \<open>
  C30: An amount in the node's answer that is no decimal number (a null, a word) is not a reconciliation
  failure: the conversion raises \<^verbatim>\<open>decimal.InvalidOperation\<close>, which is not among the exceptions the
  analyzer catches, and the analysis raises it.
\<close>

theorem unreadable_amount_escapes:
  assumes "object_item ''result'' body = Inr result"
    and "object_items ''vin'' result = Inr inputs" and "object_items ''vout'' result = Inr (before @ bad # after)"
    and "text_item fm ''txid'' result = Inr txid" and "text_item fm ''blockhash'' result = Inr block_hash"
    and "int_item fm ''blocktime'' result = Inr block_time" and "map_result (node_input fm) inputs = Inr ins"
    and "map_result (node_output fm) before = Inr outs" and "int_item fm ''n'' bad = Inr n"
    and "map_of bad ''value'' = Some v" and "parse_decimal (py_str fm v) = None"
  shows "publicnode_projection fm body = Inl Arithmetic_Error
    \<and> (\<forall>urls env request raw resumed checkpoint_id r artifacts.
         af_floats env = fm \<longrightarrow> parse_bitcoin_utxo_replay env raw = Some r \<longrightarrow> binding_error request r = None
         \<longrightarrow> provider_artifacts env (bt_providers (br_transaction r)) = Inr artifacts
         \<longrightarrow> map_of artifacts ''publicnode.bitcoin'' = Some body
         \<longrightarrow> analyze_bitcoin_utxo_replay urls env request raw resumed checkpoint_id = Inl (Uncaught Arithmetic_Error))"
proof -
  have "node_output fm bad = Inl Arithmetic_Error"
    using assms(9-11) by (simp add: node_output_def node_value_sat_def item_def satoshis_def)
  then have "map_result (node_output fm) (before @ bad # after) = Inl Arithmetic_Error"
    by (rule map_result_stops [OF assms(8)])
  with assms(1-7) have projection: "publicnode_projection fm body = Inl Arithmetic_Error"
    by (simp add: publicnode_projection_def)
  have "analyze_bitcoin_utxo_replay urls env request raw resumed checkpoint_id = Inl (Uncaught Arithmetic_Error)"
    if "af_floats env = fm" "parse_bitcoin_utxo_replay env raw = Some r" "binding_error request r = None"
      "provider_artifacts env (bt_providers (br_transaction r)) = Inr artifacts"
      "map_of artifacts ''publicnode.bitcoin'' = Some body" for urls env request raw resumed checkpoint_id r artifacts
  proof -
    have "reconcile env r = Inl Arithmetic_Error"
      using that(1,4,5) projection by (simp add: reconcile_def reconcile_root_def artifact_of_def Let_def)
    with that(2,3) show ?thesis by (simp add: analyze_bitcoin_utxo_replay_def artifact_error_def uncaught_def)
  qed
  with projection show ?thesis by blast
qed

text \<open>
  C31: Amounts in bitcoin are converted to satoshis exactly: a decimal text of at most twenty digits, at
  most eight of them after the point, denotes the integer without any rounding.
\<close>

theorem amounts_are_exact:
  assumes "list_all is_digit whole" and "whole \<noteq> []" and "list_all is_digit fraction"
    and "length fraction \<le> 8" and "length whole + length fraction \<le> 20"
  shows "satoshis (whole @ ''.'' @ fraction) = Inr (int (decimal_value (whole @ fraction) * 10 ^ (8 - length fraction)))"
proof -
  let ?c = "decimal_value (whole @ fraction)" and ?k = "length fraction"
  have "?c < 10 ^ length (whole @ fraction)" using assms(1,3) by (intro decimal_value_bound) simp
  also have "\<dots> \<le> 10 ^ 20" using assms(5) by (intro power_increasing) simp_all
  finally have "?c * 100000000 < 10 ^ 28" by simp
  then have digits: "number_of_digits (?c * 100000000) \<le> 28" by (rule number_of_digits_bounds(1)) simp
  then have kept: "round_coefficient (?c * 100000000) (- int ?k) = (?c * 100000000, - int ?k)"
    by (simp add: round_coefficient_def round_half_even_def Let_def)
  have "truncated (?c * 100000000) (- int ?k) = ?c * 10 ^ (8 - ?k)"
  proof (cases "?c = 0")
    case False
    have "(100000000 :: nat) \<le> ?c * 100000000" using False by simp
    also have "\<dots> < 10 ^ number_of_digits (?c * 100000000)" by (rule number_of_digits_bounds(2))
    finally have "(10 :: nat) ^ 8 < 10 ^ number_of_digits (?c * 100000000)" by simp
    then have "8 < number_of_digits (?c * 100000000)" by (rule power_less_imp_less_exp [rotated]) simp
    moreover have unit: "(100000000 :: nat) = 10 ^ (8 - ?k) * 10 ^ ?k"
      using assms(4) by (simp flip: power_add)
    have eq: "?c * 100000000 = ?c * 10 ^ (8 - ?k) * 10 ^ ?k" unfolding unit by (simp only: mult.assoc)
    have "?c * 100000000 div 10 ^ ?k = ?c * 10 ^ (8 - ?k)"
      unfolding eq by (rule nonzero_mult_div_cancel_right) simp
    ultimately show ?thesis using assms(4) by (simp add: truncated_def)
  qed (simp add: truncated_def)
  with kept digits parse_amount [OF assms(1-3,5)] show ?thesis by (simp add: satoshis_def Let_def)
qed

subsection \<open>Witnesses\<close>

definition fb_observation_json :: "string \<Rightarrow> string \<Rightarrow> string \<Rightarrow> string \<Rightarrow> json" where
  "fb_observation_json provider role file sha =
     JObj [(''artifact_file'', JStr file), (''artifact_sha256'', JStr sha), (''decoded_match'', JBool True),
       (''provider_id'', JStr provider), (''retrieved_at'', JStr ''t''), (''role'', JStr role)]"

definition fb_output_json :: "int \<Rightarrow> int \<Rightarrow> json" where
  "fb_output_json n v =
     JObj [(''address'', JStr ''bc1q''), (''script_type'', JStr ''v0_p2wpkh''), (''value_sat'', JInt v), (''vout'', JInt n)]"

definition fb_replay_json :: "string \<Rightarrow> string \<Rightarrow> json" where
  "fb_replay_json a b =
     JObj [(''fixture_id'', JStr ''FX-BTC-UTXO-001''), (''observations_complete'', JBool True),
       (''replay_version'', JStr ''0.1''), (''source_ids'', JArr [JStr ''DS-BTC-NODE'', JStr ''DS-BTC-API'']),
       (''spend_path'', JArr []),
       (''transaction'', JObj
         [(''block_hash'', JStr (fx_txid (CHR ''0''))), (''block_height'', JInt 1), (''block_time'', JInt 1), (''fee_sat'', JInt 10),
          (''inputs'', JArr [JObj [(''prevout'', JObj [(''address'', JStr ''bc1p''), (''script_type'', JStr ''v0_p2wpkh''),
             (''transaction_id'', JStr (fx_txid (CHR ''9''))), (''value_sat'', JInt 100), (''vout'', JInt 0)]), (''sequence'', JInt 0)]]),
          (''network'', JStr ''bitcoin_mainnet''),
          (''outputs'', JArr [fb_output_json 0 50, fb_output_json 1 40]),
          (''providers'', JArr [fb_observation_json ''publicnode.bitcoin'' ''primary'' ''a.json'' a,
             fb_observation_json ''mempool.space'' ''verify'' ''b.json'' b]),
          (''transaction_id'', JStr (fx_txid (CHR ''1'')))])]"

definition fb_replay :: "string \<Rightarrow> string \<Rightarrow> bitcoin_utxo_replay" where
  "fb_replay a b = fx_replay\<lparr>br_spend_path := [], br_transaction := (br_transaction fx_replay)\<lparr>bt_providers :=
     [\<lparr>bv_provider_id = ''publicnode.bitcoin'', bv_role = ROLE_PRIMARY, bv_retrieved_at = 0,
       bv_artifact_file = ''a.json'', bv_artifact_sha256 = a, bv_decoded_match = True\<rparr>,
      \<lparr>bv_provider_id = ''mempool.space'', bv_role = ROLE_VERIFY, bv_retrieved_at = 0,
       bv_artifact_file = ''b.json'', bv_artifact_sha256 = b, bv_decoded_match = True\<rparr>]\<rparr>\<rparr>"

definition fb_env :: "(string \<Rightarrow> bytes option) \<Rightarrow> artifact_env" where
  "fb_env files =
     \<lparr>af_read_time = (\<lambda>j. Some 0), af_floats = \<lparr>fl_text = (\<lambda>t. t), fl_int = (\<lambda>_. Inl Value_Error)\<rparr>,
      af_files = files\<rparr>"

lemma fb_json: "json_ok (fb_replay_json a b)" "float_free (fb_replay_json a b)" "sorted_json (fb_replay_json a b) = fb_replay_json a b"
  by code_simp+

lemma fb_read: "read_btc_replay (fb_env files) (fb_replay_json a b) = Some (fb_replay a b)"
  by code_simp

lemma fb_root_valid: "validate_bitcoin_replay (fx_replay\<lparr>br_spend_path := []\<rparr>) = Inr ()"
  by code_simp

lemma fb_valid:
  assumes "sha256_pattern a" and "sha256_pattern b" and "a \<noteq> b"
  shows "validate_bitcoin_replay (fb_replay a b) = Inr ()"
proof -
  let ?tx = "br_transaction (fb_replay a b)"
  have "provider_pattern ''publicnode.bitcoin''" "provider_pattern ''mempool.space''" by code_simp+
  then have "list_all observation_ok (bt_providers ?tx)"
    using assms(1,2) by (simp add: fb_replay_def observation_ok_def)
  moreover have "validate_provider_observations ''root'' (bt_providers ?tx) = Inr ()"
    using assms(3) by (simp add: fb_replay_def validate_provider_observations_def provider_of_def provider_differs_def
        result_simps Let_def)
  ultimately show ?thesis
    using fb_root_valid
    by (simp add: fb_replay_def validate_bitcoin_replay_def validate_bitcoin_transaction_def transaction_fields_ok_def
        transaction_is_reconciled_def btc_input_sum_def btc_output_sum_def replay_bindings_are_exact_def result_simps)
qed

definition fb_node_json :: json where
  "fb_node_json =
     JObj [(''result'', JObj
       [(''blockhash'', JStr (fx_txid (CHR ''0''))), (''blocktime'', JInt 1), (''txid'', JStr (fx_txid (CHR ''1''))),
        (''vin'', JArr [JObj [(''sequence'', JInt 0), (''txid'', JStr (fx_txid (CHR ''9''))), (''vout'', JInt 0)]]),
        (''vout'', JArr
          [JObj [(''n'', JInt 0), (''scriptPubKey'', JObj [(''address'', JStr ''bc1q'')]), (''value'', JStr ''0.00000050'')],
           JObj [(''n'', JInt 1), (''scriptPubKey'', JObj [(''address'', JStr ''bc1q'')]), (''value'', JStr ''0.00000040'')]])])]"

definition fb_rest_output :: "int \<Rightarrow> json" where
  "fb_rest_output v =
     JObj [(''scriptpubkey_address'', JStr ''bc1q''), (''scriptpubkey_type'', JStr ''v0_p2wpkh''), (''value'', JInt v)]"

definition fb_rest_json :: json where
  "fb_rest_json =
     JObj [(''fee'', JInt 10),
       (''status'', JObj [(''block_hash'', JStr (fx_txid (CHR ''0''))), (''block_height'', JInt 1), (''block_time'', JInt 1)]),
       (''txid'', JStr (fx_txid (CHR ''1''))),
       (''vin'', JArr [JObj
         [(''prevout'', JObj [(''scriptpubkey_address'', JStr ''bc1p''), (''scriptpubkey_type'', JStr ''v0_p2wpkh''),
            (''value'', JInt 100)]),
          (''sequence'', JInt 0), (''txid'', JStr (fx_txid (CHR ''9''))), (''vout'', JInt 0)]]),
       (''vout'', JArr [fb_rest_output 50, fb_rest_output 40])]"

lemma fb_answers:
  "json_ok fb_node_json" "float_free fb_node_json" "sorted_json fb_node_json = fb_node_json"
  "json_ok fb_rest_json" "float_free fb_rest_json" "sorted_json fb_rest_json = fb_rest_json"
  by code_simp+

lemma fb_digits: "number_of_digits 5000000000 = 10" "number_of_digits 4000000000 = 10"
proof -
  have "number_of_digits n = 10" if "10 ^ 9 \<le> n" "n < 10 ^ 10" for n
  proof -
    have "number_of_digits n \<le> 10" by (rule number_of_digits_bounds(1)) (use that in simp_all)
    moreover have "(10 :: nat) ^ 9 < 10 ^ number_of_digits n" using that(1) number_of_digits_bounds(2) by (rule le_less_trans)
    then have "9 < number_of_digits n" by (rule power_less_imp_less_exp [rotated]) simp
    ultimately show ?thesis by simp
  qed
  then show "number_of_digits 5000000000 = 10" "number_of_digits 4000000000 = 10" by simp_all
qed
lemma fb_amounts: "satoshis ''0.00000050'' = Inr 50" "satoshis ''0.00000040'' = Inr 40"
proof -
  have d: "digit_value (CHR ''5'') = 5" "digit_value (CHR ''4'') = 4" "digit_value (CHR ''0'') = 0" by code_simp+
  have "parse_decimal ''0.00000050'' = Some (Finite False 50 (- 8))"
    using parse_amount [of "''0''" "''00000050''"] d by (simp add: is_digit_def decimal_digits_def decimal_value_def)
  moreover have "parse_decimal ''0.00000040'' = Some (Finite False 40 (- 8))"
    using parse_amount [of "''0''" "''00000040''"] d by (simp add: is_digit_def decimal_digits_def decimal_value_def)
  ultimately show "satoshis ''0.00000050'' = Inr 50" "satoshis ''0.00000040'' = Inr 40"
    by (simp_all add: satoshis_def fb_digits round_coefficient_def round_half_even_def truncated_def Let_def)
qed

lemma fb_projections:
  "publicnode_projection (af_floats (fb_env files)) (case fb_node_json of JObj fs \<Rightarrow> fs)
     = Inr (publicnode_replay_projection (fb_replay a b))"
  "rest_transaction_projection (af_floats (fb_env files)) (case fb_rest_json of JObj fs \<Rightarrow> fs)
     = Inr (replay_transaction_projection (fb_replay a b))"
proof -
  show "publicnode_projection (af_floats (fb_env files)) (case fb_node_json of JObj fs \<Rightarrow> fs)
     = Inr (publicnode_replay_projection (fb_replay a b))"
    by (simp add: fb_node_json_def publicnode_projection_def object_item_def object_items_def item_def as_object_def
        as_list_def text_item_def int_item_def py_str_def node_input_def node_output_def node_value_sat_def
        fb_amounts publicnode_replay_projection_def fb_replay_def fx_replay_def fx_output_def fb_env_def Let_def)
  show "rest_transaction_projection (af_floats (fb_env files)) (case fb_rest_json of JObj fs \<Rightarrow> fs)
     = Inr (replay_transaction_projection (fb_replay a b))"
    by (simp add: fb_rest_json_def fb_rest_output_def rest_transaction_projection_def object_item_def object_items_def item_def as_object_def
        as_list_def text_item_def int_item_def py_str_def rest_input_def rest_prevout_def rest_output_def
        replay_transaction_projection_def fb_replay_def fx_replay_def fx_output_def fb_env_def Let_def)
qed


lemma fb_parsed:
  "sha256_pattern a \<Longrightarrow> sha256_pattern b \<Longrightarrow> a \<noteq> b
    \<Longrightarrow> parse_bitcoin_utxo_replay (fb_env files) (dumps (fb_replay_json a b)) = Some (fb_replay a b)"
  using loads_bytes_dumps [OF fb_json(1,2), of a b]
  by (simp add: parse_bitcoin_utxo_replay_def fb_json(3) fb_read fb_valid)

definition fb_request :: analysis_request where
  "fb_request =
     \<lparr>rq_schema_uri = ''analysis-request.schema.json'', rq_schema_version = ''0.2'',
      rq_analysis_id = ''AN-BTC'', rq_chain_id = 0, rq_fixture_id = None, rq_requested_at = 0,
      rq_source_policy = \<lparr>po_rule_status = STATUS_ALLOWED, po_allowed_source_ids = [''DS-BTC-NODE'', ''DS-BTC-API''],
        po_source_order = [''DS-BTC-NODE''], po_allow_fallback = False, po_offline_mode = True\<rparr>,
      rq_analysis_type = BITCOIN_UTXO, rq_query_kind = Some ''summarize_transaction'',
      rq_inputs = JObj [(''transaction_id'', JStr (fx_txid (CHR ''1''))), (''network'', JStr ''bitcoin_mainnet''),
        (''start_vout'', JInt 0), (''max_hops'', JInt 1)]\<rparr>"

lemma fb_bound:
  "validate_request Some fb_request = Inr ()" "rq_analysis_type fb_request = BITCOIN_UTXO"
  "binding_error fb_request (fb_replay a b) = None"
  by code_simp+

text \<open>
  Both outcomes of the comparison occur. Two answers that state the root transaction as the replay does
  are reported, whenever their digests differ, as the contract of the replay requires; a replay whose
  artifacts are missing fails.
\<close>

lemma agreeing_answers_reported:
  defines "node \<equiv> dumps fb_node_json" and "rest \<equiv> dumps fb_rest_json"
  assumes "sha256_hex node \<noteq> sha256_hex rest"
  shows "\<exists>result. analyze_bitcoin_utxo_replay Some (fb_env [''a.json'' \<mapsto> node, ''b.json'' \<mapsto> rest]) fb_request
      (dumps (fb_replay_json (sha256_hex node) (sha256_hex rest))) False None = Inr result \<and> rs_status result = AN_PARTIAL"
proof -
  let ?env = "fb_env [''a.json'' \<mapsto> node, ''b.json'' \<mapsto> rest]" and ?r = "fb_replay (sha256_hex node) (sha256_hex rest)"
  note parsed = fb_parsed [OF sha256_hex_pattern sha256_hex_pattern assms(3), of "[''a.json'' \<mapsto> node, ''b.json'' \<mapsto> rest]"]
  have "recorded ?env v (case (if bv_role v = ROLE_PRIMARY then fb_node_json else fb_rest_json) of JObj fs \<Rightarrow> fs)"
    if "v \<in> set (bt_providers (br_transaction ?r))" for v
  proof -
    have "loads_bytes node = Some fb_node_json" "loads_bytes rest = Some fb_rest_json"
      unfolding assms(1,2) using loads_bytes_dumps fb_answers by metis+
    with that show ?thesis
      by (auto simp: recorded_def fb_replay_def fb_env_def fb_node_json_def fb_rest_json_def)
  qed
  note recorded = this
  have "root_agrees ?env ?r v" if "v \<in> set (bt_providers (br_transaction ?r))" for v
  proof (cases "bv_role v = ROLE_PRIMARY")
    case True
    show ?thesis unfolding root_agrees_def if_P [OF True]
      using recorded [OF that, unfolded if_P [OF True]] fb_projections(1) by blast
  next
    case False
    show ?thesis unfolding root_agrees_def if_not_P [OF False]
      using recorded [OF that, unfolded if_not_P [OF False]] fb_projections(2) by blast
  qed
  moreover have "br_spend_path ?r = []" by (simp add: fb_replay_def)
  ultimately have agree: "artifacts_agree ?env ?r" by (simp add: artifacts_agree_def)
  have "analysis_id_ok (rq_analysis_id fb_request)" using fb_bound(1) by (simp add: validate_request_def result_simps)
  moreover have "length (br_spend_path ?r) \<le> 10 ^ 50" using \<open>br_spend_path ?r = []\<close> by simp
  ultimately obtain ss where "analyze_bitcoin_utxo_replay Some ?env fb_request
      (dumps (fb_replay_json (sha256_hex node) (sha256_hex rest))) False None
      = Inr (report_document fb_request ?r ss False None)"
    using agreeing_replay_reported [OF parsed fb_bound(3) agree, of Some False None] by metis
  with \<open>br_spend_path ?r = []\<close> show ?thesis by (simp add: report_document_def btc_document_def)
qed

definition fb_raw :: bytes where
  "fb_raw = dumps (fb_replay_json (fx_txid (CHR ''a'')) (fx_txid (CHR ''b'')))"

lemma fb_missing:
  "parse_bitcoin_utxo_replay (fb_env files) fb_raw = Some (fb_replay (fx_txid (CHR ''a'')) (fx_txid (CHR ''b'')))"
  "reconcile (fb_env Map.empty) (fb_replay a b) = Inl Value_Error"
proof -
  have "sha256_pattern (fx_txid (CHR ''a''))" "sha256_pattern (fx_txid (CHR ''b''))"
    "fx_txid (CHR ''a'') \<noteq> fx_txid (CHR ''b'')" by code_simp+
  then show "parse_bitcoin_utxo_replay (fb_env files) fb_raw = Some (fb_replay (fx_txid (CHR ''a'')) (fx_txid (CHR ''b'')))"
    unfolding fb_raw_def by (rule fb_parsed)
  show "reconcile (fb_env Map.empty) (fb_replay a b) = Inl Value_Error"
    by (simp add: reconcile_def reconcile_root_def provider_artifacts_def read_provider_artifact_def fb_env_def
        fb_replay_def Let_def)
qed

lemma fb_hops: "\<forall>r. parse_bitcoin_utxo_replay (fb_env files) fb_raw = Some r \<longrightarrow> length (br_spend_path r) \<le> 10 ^ 50"
  by (simp add: fb_missing(1) fb_replay_def)

theorem bitcoin_results_are_valid_witness:
  "\<exists>result. analyze_bitcoin_utxo_replay Some (fb_env Map.empty) fb_request fb_raw False None = Inr result
     \<and> validate_analysis_pair Some fb_request result = Inr ()"
  using bitcoin_results_are_valid [OF fb_bound(1,2) fb_hops, of Map.empty False None] by (simp add: fb_missing)

theorem report_iff_artifacts_agree_witness:
  "\<exists>result. analyze_bitcoin_utxo_replay Some (fb_env Map.empty) fb_request fb_raw False None = Inr result
     \<and> rs_status result = AN_FAILED"
proof -
  have "validate_bitcoin_replay (fb_replay (fx_txid (CHR ''a'')) (fx_txid (CHR ''b''))) = Inr ()"
    using parse_accepted [OF fb_missing(1)] .
  from reconcile_iff [OF this, of "fb_env Map.empty"]
  have "\<not> artifacts_agree (fb_env Map.empty) (fb_replay (fx_txid (CHR ''a'')) (fx_txid (CHR ''b'')))"
    by (simp add: fb_missing(2))
  with report_iff_artifacts_agree [OF fb_bound(1) fb_hops, of Map.empty False None] show ?thesis
    by (auto simp: fb_missing split: sum.splits)
qed

theorem later_hop_is_never_reconciled_witness: "\<forall>env. artifact_error env fx_replay \<noteq> Inr None"
proof
  have path: "br_spend_path fx_replay = [fx_hop 1 (CHR ''1'') 0 50 (CHR ''2'') 49, fx_hop 2 (CHR ''2'') 0 49 (CHR ''3'') 48]"
    by (simp add: fx_replay_def)
  have "bh_spending_transaction_id (fx_hop 1 (CHR ''1'') 0 50 (CHR ''2'') 49) \<noteq> bt_transaction_id (br_transaction fx_replay)"
    by (simp add: fx_hop_def fx_replay_def fx_txid_def)
  then show "artifact_error env fx_replay \<noteq> Inr None" for env
    using later_hop_is_never_reconciled [OF fx_replay_ok path, of env] by blast
qed

definition fb_node_body :: json_object where
  "fb_node_body =
     [(''result'', JObj [(''vin'', JArr []), (''vout'', JArr [JObj [(''n'', JInt 0), (''value'', JNull)]]),
        (''txid'', JStr ''t''), (''blockhash'', JStr ''b''), (''blocktime'', JInt 1)])]"

theorem unreadable_amount_escapes_witness:
  "publicnode_projection (af_floats (fb_env Map.empty)) fb_node_body = Inl Arithmetic_Error"
proof -
  have "parse_decimal (py_str fm JNull) = None" for fm by (simp add: py_str_def) code_simp
  then show ?thesis
    using unreadable_amount_escapes [of fb_node_body
        "[(''vin'', JArr []), (''vout'', JArr [JObj [(''n'', JInt 0), (''value'', JNull)]]),
          (''txid'', JStr ''t''), (''blockhash'', JStr ''b''), (''blocktime'', JInt 1)]"
        "[]" "[]" "[(''n'', JInt 0), (''value'', JNull)]" "[]" "af_floats (fb_env Map.empty)" "''t''" "''b''" 1 "[]" "[]" 0 JNull]
    by (simp add: fb_node_body_def object_item_def object_items_def text_item_def int_item_def item_def
        as_object_def as_list_def py_str_def)
qed

theorem amounts_are_exact_witness: "satoshis ''20.1'' = Inr 2010000000"
proof -
  have "digit_value (CHR ''2'') = 2" "digit_value (CHR ''0'') = 0" "digit_value (CHR ''1'') = 1" by code_simp+
  then show ?thesis
    using amounts_are_exact [of "''20''" "''1''"] by (simp add: is_digit_def decimal_digits_def decimal_value_def)
qed

end
