(* ===== verification/Artifact_Store.thy ===== *)
theory Artifact_Store
  imports Sha256
begin

section \<open>The artifact store\<close>

text \<open>
  \<^verbatim>\<open>adapters/artifacts.py\<close> and the \<^verbatim>\<open>ArtifactRecord\<close> of \<^verbatim>\<open>domain/storage.py\<close>: bytes stored under the name
  of their SHA-256. The files under the store's root are a map from relative paths to contents. A
  write that finds no file may be overtaken by another process before it links its own; what the
  others do in between is \<open>av_between\<close>. The temporary file a write makes and unlinks is not part of
  the map, and failures of the operating system are not modelled.
\<close>

record artifact_record =
  ar_sha256 :: string
  ar_byte_length :: int
  ar_media_type :: string
  ar_relative_path :: string
  ar_artifact_kind :: string
  ar_redaction_status :: string
  ar_license_status :: string
  ar_created_at :: instant
  ar_source_id :: "string option"
  ar_retrieved_at :: "instant option"

definition artifact_uri :: "artifact_record \<Rightarrow> string" where
  "artifact_uri r = ''artifact://sha256/'' @ ar_sha256 r"

datatype artifact_error = Artifact_Integrity_Error string | Artifact_Guard_Error guard_error

type_synonym files = "string \<rightharpoonup> bytes"

record artifact_env =
  av_forbidden :: "string list"
  av_clock :: instant
  av_between :: "files \<Rightarrow> files"

definition verify_file :: "files \<Rightarrow> string \<Rightarrow> string \<Rightarrow> int \<Rightarrow> artifact_error + unit" where
  "verify_file files path expected_sha256 expected_length =
     (case files path of
        None \<Rightarrow> Inl (Artifact_Integrity_Error ''artifact file is missing'')
      | Some body \<Rightarrow>
          raise_if (int (length body) \<noteq> expected_length \<or> sha256_hex body \<noteq> expected_sha256)
            (Artifact_Integrity_Error ''artifact content does not match its metadata''))"

definition atomic_write ::
    "(files \<Rightarrow> files) \<Rightarrow> files \<Rightarrow> string \<Rightarrow> bytes \<Rightarrow> (artifact_error + unit) \<times> files" where
  "atomic_write between files destination body =
     (let files1 = between files in
      case files1 destination of
        Some _ \<Rightarrow> (verify_file files1 destination (sha256_hex body) (int (length body)), files1)
      | None \<Rightarrow> (Inr (), files1(destination \<mapsto> body)))"

definition artifact_path :: "string \<Rightarrow> string" where
  "artifact_path sha256 = ''artifacts/'' @ take 2 sha256 @ ''/'' @ sha256"

definition artifact_write ::
    "artifact_env \<Rightarrow> bytes \<Rightarrow> string \<Rightarrow> string \<Rightarrow> string \<Rightarrow> string \<Rightarrow> string option \<Rightarrow> instant option
      \<Rightarrow> files \<Rightarrow> (artifact_error + artifact_record) \<times> files" where
  "artifact_write env body media_type kind redaction license source_id retrieved_at files =
     (case check_bytes (av_forbidden env) body of
        Inl e \<Rightarrow> (Inl (Artifact_Guard_Error e), files)
      | Inr _ \<Rightarrow>
          let sha256 = sha256_hex body; destination = artifact_path sha256;
              (written, files') =
                (if files destination \<noteq> None
                 then (verify_file files destination sha256 (int (length body)), files)
                 else atomic_write (av_between env) files destination body) in
          (and_then written (\<lambda>_. Inr
             \<lparr>ar_sha256 = sha256, ar_byte_length = int (length body), ar_media_type = media_type,
              ar_relative_path = destination, ar_artifact_kind = kind, ar_redaction_status = redaction,
              ar_license_status = license, ar_created_at = av_clock env, ar_source_id = source_id,
              ar_retrieved_at = retrieved_at\<rparr>), files'))"

definition artifact_read :: "files \<Rightarrow> artifact_record \<Rightarrow> artifact_error + bytes" where
  "artifact_read files record =
     and_then (verify_file files (ar_relative_path record) (ar_sha256 record) (ar_byte_length record))
       (\<lambda>_. case files (ar_relative_path record) of
              Some body \<Rightarrow> Inr body
            | None \<Rightarrow> Inl (Artifact_Integrity_Error ''artifact file is missing''))"

subsection \<open>What a read and a write guarantee\<close>

lemma verify_file_Inr [result_simps]:
  "verify_file files path sha n = Inr u \<longleftrightarrow>
     (\<exists>body. files path = Some body \<and> int (length body) = n \<and> sha256_hex body = sha)"
  by (auto simp: verify_file_def result_simps split: option.splits)

lemma artifact_read_Inr [result_simps]:
  "artifact_read files r = Inr body \<longleftrightarrow>
     files (ar_relative_path r) = Some body \<and> int (length body) = ar_byte_length r
     \<and> sha256_hex body = ar_sha256 r"
  by (auto simp: artifact_read_def result_simps split: option.splits)

lemma atomic_write_Inr:
  assumes "atomic_write between files path body = (Inr u, files')"
  shows "\<exists>b. files' path = Some b \<and> length b = length body \<and> sha256_hex b = sha256_hex body"
  using assms by (auto simp: atomic_write_def Let_def result_simps split: option.splits)

lemma artifact_write_Inr:
  assumes "artifact_write env body media kind red lic src ret files = (Inr r, files')"
  shows "ar_sha256 r = sha256_hex body" and "ar_byte_length r = int (length body)"
    and "ar_relative_path r = artifact_path (sha256_hex body)"
    and "ar_media_type r = media" and "ar_source_id r = src" and "ar_retrieved_at r = ret"
    and "check_bytes (av_forbidden env) body = Inr ()"
    and "\<exists>b. files' (ar_relative_path r) = Some b \<and> length b = length body \<and> sha256_hex b = sha256_hex body"
  using assms
  by (auto simp: artifact_write_def Let_def result_simps split: sum.splits if_splits prod.splits
      dest!: atomic_write_Inr)

lemma artifact_write_fresh:
  assumes "files (artifact_path (sha256_hex body)) = None"
    and "av_between env files (artifact_path (sha256_hex body)) = None"
    and "check_bytes (av_forbidden env) body = Inr ()"
  shows "\<exists>r. artifact_write env body media kind red lic src ret files
    = (Inr r, (av_between env files)(artifact_path (sha256_hex body) \<mapsto> body))"
  using assms by (simp add: artifact_write_def atomic_write_def Let_def)

end
