(* ===== verification/Sqlite_Storage.thy ===== *)
theory Sqlite_Storage
  imports Artifact_Store Analysis_Result Json_Text
begin

section \<open>The workspace database\<close>

text \<open>
  \<^verbatim>\<open>adapters/sqlite_storage.py\<close> and the records of \<^verbatim>\<open>domain/storage.py\<close>. A table is the list of its rows in
  insertion order and the database is a record of its tables. An \<^verbatim>\<open>INSERT\<close> checks, in SQLite's order,
  the \<^verbatim>\<open>CHECK\<close> constraints of the DDL, its uniqueness constraints and its foreign keys; \<^verbatim>\<open>ON CONFLICT(k)
  DO NOTHING\<close> skips a row whose key \<^verbatim>\<open>k\<close> is taken. \<^verbatim>\<open>with self._connection\<close> is \<open>transaction\<close>: an exception in its
  body leaves the database as it was. Operations of several transactions return the database beside
  the exception.

  A column of JSON text holds the text \<open>dumps\<close> prints and is read with \<open>loads\<close>. A timestamp column holds
  the ISO text of an instant, and is modelled by the instant: the order of two texts is that of their
  instants when both are written in one time zone, as the UTC times of the services are. The integers
  bound by this schema version are taken to fit the 64 bits of a column. Truth values are the integers 0 and 1. \<open>sg_legacy\<close> tells whether the table of runs was
  created by the earlier DDL, which admits chain 1 only. Errors of the database system itself (a busy
  or full disk) are not modelled.
\<close>

subsection \<open>Rows\<close>

record run_row =
  ur_analysis_id :: string
  ur_analysis_type :: string
  ur_chain_id :: int
  ur_fixture_id :: "string option"
  ur_status :: string
  ur_schema_version :: string
  ur_tool_version :: string
  ur_request_artifact_sha256 :: string
  ur_started_at :: "instant option"
  ur_finished_at :: "instant option"
  ur_created_at :: instant
  ur_updated_at :: instant

record policy_row =
  uo_analysis_id :: string
  uo_rule_status :: string
  uo_allowed_source_ids_json :: string
  uo_source_order_json :: string
  uo_allow_fallback :: int
  uo_offline_mode :: int
  uo_rules_snapshot_ref :: "string option"
  uo_canonical_sha256 :: string

record attempt_row =
  ua_source_attempt_id :: string
  ua_analysis_id :: string
  ua_source_record_id :: "string option"
  ua_source_id :: string
  ua_provider_id :: string
  ua_capability :: string
  ua_method :: string
  ua_request_fingerprint :: string
  ua_block_tag :: "string option"
  ua_attempt_number :: nat
  ua_outcome :: string
  ua_failure_kind :: "string option"
  ua_http_status :: "int option"
  ua_retryable :: int
  ua_wait_seconds :: "rat option"
  ua_raw_sha256 :: "string option"
  ua_started_at :: instant
  ua_finished_at :: instant
  ua_artifact_sha256 :: "string option"

record cache_row =
  uc_cache_key :: string
  uc_source_id :: string
  uc_provider_id :: string
  uc_capability :: string
  uc_block_tag :: "string option"
  uc_artifact_sha256 :: string
  uc_immutability :: string
  uc_created_at :: instant
  uc_expires_at :: "instant option"
  uc_last_verified_at :: "instant option"
  uc_endpoint_host :: string
  uc_endpoint_path :: string
  uc_status_code :: int
  uc_media_type :: "string option"
  uc_retrieved_at :: instant
  uc_fallback_from_json :: string

record source_row =
  us_source_record_id :: string
  us_analysis_id :: string
  us_source_id :: string
  us_provider_id :: string
  us_role :: string
  us_required :: int
  us_capability :: string
  us_endpoint_host :: string
  us_retrieved_at :: instant
  us_fallback_from :: "string option"

record result_row =
  ut_result_id :: string
  ut_analysis_id :: string
  ut_result_type :: string
  ut_classification :: string
  ut_requirement_ids_json :: string
  ut_fixture_requirement_ids_json :: string
  ut_value_json :: string
  ut_value_sha256 :: string
  ut_created_at :: instant

record evidence_row =
  ue_evidence_id :: string
  ue_analysis_id :: string
  ue_evidence_type :: string
  ue_source_id :: string
  ue_source_record_id :: string
  ue_source_attempt_id :: "string option"
  ue_method :: string
  ue_locator_json :: string
  ue_decoded_json :: string
  ue_artifact_sha256 :: "string option"
  ue_retrieved_at :: instant

record link_row =
  ul_result_id :: string
  ul_evidence_id :: string
  ul_analysis_id :: string
  ul_role :: string
  ul_created_at :: instant

record checkpoint_row =
  uk_checkpoint_id :: string
  uk_analysis_id :: string
  uk_stage :: string
  uk_revision :: nat
  uk_cursor_json :: string
  uk_completed_evidence_ids_json :: string
  uk_state_sha256 :: string
  uk_created_at :: instant

record export_row =
  ux_export_id :: string
  ux_analysis_id :: string
  ux_export_type :: string
  ux_artifact_sha256 :: string
  ux_schema_version :: string
  ux_created_at :: instant

record storage =
  sg_legacy :: bool
  sg_artifacts :: "artifact_record list"
  sg_runs :: "run_row list"
  sg_policies :: "policy_row list"
  sg_attempts :: "attempt_row list"
  sg_cache :: "cache_row list"
  sg_sources :: "source_row list"
  sg_results :: "result_row list"
  sg_evidence :: "evidence_row list"
  sg_links :: "link_row list"
  sg_checkpoints :: "checkpoint_row list"
  sg_exports :: "export_row list"

definition empty_storage :: storage where
  "empty_storage =
     \<lparr>sg_legacy = False, sg_artifacts = [], sg_runs = [], sg_policies = [], sg_attempts = [], sg_cache = [],
      sg_sources = [], sg_results = [], sg_evidence = [], sg_links = [], sg_checkpoints = [], sg_exports = []\<rparr>"

subsection \<open>Constraints of the tables\<close>

text \<open>\<^verbatim>\<open>length(x)\<close> of SQLite counts the characters before the first NUL.\<close>

definition sql_length :: "string \<Rightarrow> nat" where
  "sql_length s = length (takeWhile (\<lambda>c. c \<noteq> CHR 0x00) s)"

definition artifact_checks :: "artifact_record \<Rightarrow> bool" where
  "artifact_checks r \<longleftrightarrow>
     sql_length (ar_sha256 r) = 64 \<and> 0 \<le> ar_byte_length r \<and> take 1 (ar_relative_path r) \<noteq> ''/''"

definition result_statuses :: "string list" where
  "result_statuses = [''complete'', ''partial'', ''failed'', ''interrupted'', ''restricted'']"

definition run_checks :: "bool \<Rightarrow> run_row \<Rightarrow> bool" where
  "run_checks legacy r \<longleftrightarrow>
     (if legacy then ur_chain_id r = 1 else ur_chain_id r \<in> {0, 1})
     \<and> (ur_status r \<in> set result_statuses \<and> ur_finished_at r \<noteq> None
        \<or> ur_status r \<in> {''queued'', ''running''} \<and> ur_finished_at r = None)"

definition policy_checks :: "policy_row \<Rightarrow> bool" where
  "policy_checks r \<longleftrightarrow>
     uo_allow_fallback r \<in> {0, 1} \<and> uo_offline_mode r \<in> {0, 1} \<and> sql_length (uo_canonical_sha256 r) = 64"

definition attempt_checks :: "attempt_row \<Rightarrow> bool" where
  "attempt_checks r \<longleftrightarrow>
     1 \<le> ua_attempt_number r \<and> ua_outcome r \<in> {''success'', ''failed''} \<and> ua_retryable r \<in> {0, 1}
     \<and> (case ua_wait_seconds r of None \<Rightarrow> True | Some w \<Rightarrow> 0 \<le> w)
     \<and> (case ua_raw_sha256 r of None \<Rightarrow> True | Some s \<Rightarrow> sql_length s = 64)"

definition cache_checks :: "cache_row \<Rightarrow> bool" where
  "cache_checks r \<longleftrightarrow>
     sql_length (uc_cache_key r) = 64
     \<and> (uc_immutability r = ''immutable'' \<and> uc_expires_at r = None
        \<or> uc_immutability r \<in> {''ttl'', ''negative''} \<and> uc_expires_at r \<noteq> None)"

definition checkpoint_checks :: "checkpoint_row \<Rightarrow> bool" where
  "checkpoint_checks r \<longleftrightarrow> 1 \<le> uk_revision r \<and> sql_length (uk_state_sha256 r) = 64"

definition export_checks :: "export_row \<Rightarrow> bool" where
  "export_checks r \<longleftrightarrow> ux_export_type r \<in> {''result_json'', ''evidence_markdown''}"

definition attempt_key :: "attempt_row \<Rightarrow> string \<times> string \<times> string \<times> nat" where
  "attempt_key r = (ua_analysis_id r, ua_request_fingerprint r, ua_provider_id r, ua_attempt_number r)"

definition checkpoint_key :: "checkpoint_row \<Rightarrow> string \<times> string \<times> nat" where
  "checkpoint_key r = (uk_analysis_id r, uk_stage r, uk_revision r)"

definition run_exists :: "storage \<Rightarrow> string \<Rightarrow> bool" where
  "run_exists db i \<longleftrightarrow> i \<in> set (map ur_analysis_id (sg_runs db))"

definition artifact_exists :: "storage \<Rightarrow> string \<Rightarrow> bool" where
  "artifact_exists db s \<longleftrightarrow> s \<in> set (map ar_sha256 (sg_artifacts db))"

definition attempt_refs :: "storage \<Rightarrow> attempt_row \<Rightarrow> bool" where
  "attempt_refs db r \<longleftrightarrow>
     run_exists db (ua_analysis_id r)
     \<and> (case ua_artifact_sha256 r of None \<Rightarrow> True | Some s \<Rightarrow> artifact_exists db s)"

definition evidence_refs_ok :: "storage \<Rightarrow> evidence_row \<Rightarrow> bool" where
  "evidence_refs_ok db r \<longleftrightarrow>
     run_exists db (ue_analysis_id r)
     \<and> (case ue_source_attempt_id r of None \<Rightarrow> True
        | Some a \<Rightarrow> a \<in> set (map ua_source_attempt_id (sg_attempts db)))
     \<and> (ue_source_record_id r, ue_analysis_id r)
        \<in> set (map (\<lambda>s. (us_source_record_id s, us_analysis_id s)) (sg_sources db))"

definition link_refs :: "storage \<Rightarrow> link_row \<Rightarrow> bool" where
  "link_refs db r \<longleftrightarrow>
     (ul_result_id r, ul_analysis_id r) \<in> set (map (\<lambda>t. (ut_result_id t, ut_analysis_id t)) (sg_results db))
     \<and> (ul_evidence_id r, ul_analysis_id r)
        \<in> set (map (\<lambda>e. (ue_evidence_id e, ue_analysis_id e)) (sg_evidence db))"

definition export_refs :: "storage \<Rightarrow> export_row \<Rightarrow> bool" where
  "export_refs db r \<longleftrightarrow> run_exists db (ux_analysis_id r) \<and> artifact_exists db (ux_artifact_sha256 r)"

subsection \<open>Statements and transactions\<close>

datatype storage_error =
    Storage_Value_Error string | Storage_Key_Error string | Integrity_Error string
  | Sensitive_Data_Error guard_error | Json_Decode_Error

type_synonym 'a action = "storage \<Rightarrow> (storage_error + 'a) \<times> storage"

definition transaction :: "(storage \<Rightarrow> storage_error + 'a \<times> storage) \<Rightarrow> 'a action" where
  "transaction body db = (case body db of Inl e \<Rightarrow> (Inl e, db) | Inr (x, db') \<Rightarrow> (Inr x, db'))"

definition reading :: "storage_error + 'a \<Rightarrow> 'a action" where
  "reading r db = (r, db)"

definition act_then :: "'a action \<Rightarrow> ('a \<Rightarrow> 'b action) \<Rightarrow> 'b action" where
  "act_then m f db = (case m db of (Inl e, db') \<Rightarrow> (Inl e, db') | (Inr x, db') \<Rightarrow> f x db')"

definition constrained :: "bool \<Rightarrow> bool \<Rightarrow> bool \<Rightarrow> storage \<Rightarrow> storage_error + storage" where
  "constrained checks unique refs db =
     and_then
       (all_checks
         [raise_if (\<not> checks) (Integrity_Error ''CHECK constraint failed''),
          raise_if (\<not> unique) (Integrity_Error ''UNIQUE constraint failed''),
          raise_if (\<not> refs) (Integrity_Error ''FOREIGN KEY constraint failed'')])
       (\<lambda>_. Inr db)"

definition insert_artifact :: "artifact_record \<Rightarrow> storage \<Rightarrow> storage_error + storage" where
  "insert_artifact r db =
     (if artifact_checks r \<and> artifact_exists db (ar_sha256 r) then Inr db
      else constrained (artifact_checks r)
        (ar_relative_path r \<notin> set (map ar_relative_path (sg_artifacts db))) True
        (db\<lparr>sg_artifacts := sg_artifacts db @ [r]\<rparr>))"

definition insert_run :: "run_row \<Rightarrow> storage \<Rightarrow> storage_error + storage" where
  "insert_run r db =
     constrained (run_checks (sg_legacy db) r) (\<not> run_exists db (ur_analysis_id r))
       (artifact_exists db (ur_request_artifact_sha256 r)) (db\<lparr>sg_runs := sg_runs db @ [r]\<rparr>)"

definition insert_policy :: "policy_row \<Rightarrow> storage \<Rightarrow> storage_error + storage" where
  "insert_policy r db =
     constrained (policy_checks r) (uo_analysis_id r \<notin> set (map uo_analysis_id (sg_policies db)))
       (run_exists db (uo_analysis_id r)) (db\<lparr>sg_policies := sg_policies db @ [r]\<rparr>)"

definition insert_attempt :: "attempt_row \<Rightarrow> storage \<Rightarrow> storage_error + storage" where
  "insert_attempt r db =
     constrained (attempt_checks r)
       (ua_source_attempt_id r \<notin> set (map ua_source_attempt_id (sg_attempts db))
        \<and> attempt_key r \<notin> set (map attempt_key (sg_attempts db)))
       (attempt_refs db r) (db\<lparr>sg_attempts := sg_attempts db @ [r]\<rparr>)"

definition insert_cache :: "cache_row \<Rightarrow> storage \<Rightarrow> storage_error + storage" where
  "insert_cache r db =
     (if cache_checks r \<and> uc_cache_key r \<in> set (map uc_cache_key (sg_cache db)) then Inr db
      else constrained (cache_checks r) True (artifact_exists db (uc_artifact_sha256 r))
        (db\<lparr>sg_cache := sg_cache db @ [r]\<rparr>))"

definition insert_source :: "source_row \<Rightarrow> storage \<Rightarrow> storage_error + storage" where
  "insert_source r db =
     constrained (us_required r \<in> {0, 1})
       (us_source_record_id r \<notin> set (map us_source_record_id (sg_sources db)))
       (run_exists db (us_analysis_id r)) (db\<lparr>sg_sources := sg_sources db @ [r]\<rparr>)"

definition insert_result :: "result_row \<Rightarrow> storage \<Rightarrow> storage_error + storage" where
  "insert_result r db =
     constrained (sql_length (ut_value_sha256 r) = 64)
       (ut_result_id r \<notin> set (map ut_result_id (sg_results db)))
       (run_exists db (ut_analysis_id r)) (db\<lparr>sg_results := sg_results db @ [r]\<rparr>)"

definition insert_evidence :: "evidence_row \<Rightarrow> storage \<Rightarrow> storage_error + storage" where
  "insert_evidence r db =
     constrained True (ue_evidence_id r \<notin> set (map ue_evidence_id (sg_evidence db)))
       (evidence_refs_ok db r) (db\<lparr>sg_evidence := sg_evidence db @ [r]\<rparr>)"

definition insert_link :: "link_row \<Rightarrow> storage \<Rightarrow> storage_error + storage" where
  "insert_link r db =
     constrained True
       ((ul_result_id r, ul_evidence_id r) \<notin> set (map (\<lambda>l. (ul_result_id l, ul_evidence_id l)) (sg_links db)))
       (link_refs db r) (db\<lparr>sg_links := sg_links db @ [r]\<rparr>)"

definition insert_checkpoint :: "checkpoint_row \<Rightarrow> storage \<Rightarrow> storage_error + storage" where
  "insert_checkpoint r db =
     constrained (checkpoint_checks r)
       (uk_checkpoint_id r \<notin> set (map uk_checkpoint_id (sg_checkpoints db))
        \<and> checkpoint_key r \<notin> set (map checkpoint_key (sg_checkpoints db)))
       (run_exists db (uk_analysis_id r)) (db\<lparr>sg_checkpoints := sg_checkpoints db @ [r]\<rparr>)"

definition insert_export :: "export_row \<Rightarrow> storage \<Rightarrow> storage_error + storage" where
  "insert_export r db =
     (if export_checks r \<and> ux_export_id r \<in> set (map ux_export_id (sg_exports db)) then Inr db
      else constrained (export_checks r)
        ((ux_analysis_id r, ux_export_type r) \<notin> set (map (\<lambda>x. (ux_analysis_id x, ux_export_type x)) (sg_exports db)))
        (export_refs db r) (db\<lparr>sg_exports := sg_exports db @ [r]\<rparr>))"

text \<open>\<^verbatim>\<open>UPDATE analysis_runs SET ... WHERE analysis_id = ?\<close>, with the number of rows it changed.\<close>

definition update_run :: "string \<Rightarrow> (run_row \<Rightarrow> run_row) \<Rightarrow> storage \<Rightarrow> storage_error + nat \<times> storage" where
  "update_run i f db =
     (let rows = map (\<lambda>r. if ur_analysis_id r = i then f r else r) (sg_runs db) in
      and_then
        (raise_if (\<not> list_all (\<lambda>r. ur_analysis_id r = i \<longrightarrow> run_checks (sg_legacy db) r) rows) (Integrity_Error ''CHECK constraint failed''))
        (\<lambda>_. Inr (count_if (\<lambda>r. ur_analysis_id r = i) (sg_runs db), db\<lparr>sg_runs := rows\<rparr>)))"

subsection \<open>Text of enumerations and shared helpers\<close>

fun rule_status_value :: "rule_status \<Rightarrow> string" where
  "rule_status_value STATUS_UNCONFIRMED = ''unconfirmed''"
| "rule_status_value STATUS_ALLOWED = ''allowed''"
| "rule_status_value STATUS_RESTRICTED = ''restricted''"

fun failure_kind_value :: "source_failure_kind \<Rightarrow> string" where
  "failure_kind_value FAIL_TIMEOUT = ''timeout''"
| "failure_kind_value FAIL_RATE_LIMITED = ''rate_limited''"
| "failure_kind_value FAIL_TRANSIENT = ''transient''"
| "failure_kind_value FAIL_UNAVAILABLE = ''unavailable''"
| "failure_kind_value FAIL_INVALID_RESPONSE = ''invalid_response''"
| "failure_kind_value FAIL_PERMANENT = ''permanent''"

fun attempt_outcome_value :: "source_attempt_outcome \<Rightarrow> string" where
  "attempt_outcome_value ATTEMPT_SUCCESS = ''success''"
| "attempt_outcome_value ATTEMPT_FAILED = ''failed''"

fun analysis_type_value :: "analysis_type \<Rightarrow> string" where
  "analysis_type_value DEX_SWAP = ''dex_swap''"
| "analysis_type_value AUTH_CONSUMPTION = ''auth_consumption''"
| "analysis_type_value ADDRESS_FREEZE = ''address_freeze''"
| "analysis_type_value EVM_CORE = ''evm_core''"
| "analysis_type_value EVM_SPECIAL = ''evm_special''"
| "analysis_type_value FLOW_PATH = ''flow_path''"
| "analysis_type_value INTEL_CONTEXT = ''intel_context''"
| "analysis_type_value BRIDGE_TRANSFER = ''bridge_transfer''"
| "analysis_type_value BITCOIN_UTXO = ''bitcoin_utxo''"
| "analysis_type_value CEX_CLUSTER = ''cex_cluster''"
| "analysis_type_value MIXER_FLOW = ''mixer_flow''"
| "analysis_type_value DEFI_LENDING = ''defi_lending''"
| "analysis_type_value CASE_RECONCILIATION = ''case_reconciliation''"

fun analysis_status_value :: "analysis_status \<Rightarrow> string" where
  "analysis_status_value AN_COMPLETE = ''complete''"
| "analysis_status_value AN_PARTIAL = ''partial''"
| "analysis_status_value AN_FAILED = ''failed''"

fun classification_value :: "classification \<Rightarrow> string" where
  "classification_value CONFIRMED_FACT = ''confirmed_fact''"
| "classification_value EXTERNAL_CONTEXT = ''external_context''"
| "classification_value HEURISTIC = ''heuristic''"
| "classification_value NOT_ASSESSED = ''not_assessed''"

fun evidence_type_value :: "evidence_type \<Rightarrow> string" where
  "evidence_type_value EVIDENCE_EVENT = ''event''"
| "evidence_type_value EVIDENCE_CALL = ''call''"
| "evidence_type_value EVIDENCE_STATE = ''state''"
| "evidence_type_value EVIDENCE_CONTEXT = ''context''"

fun source_role_value :: "source_role \<Rightarrow> string" where
  "source_role_value ROLE_SCORING = ''scoring''"
| "source_role_value ROLE_CONTEXT = ''context''"
| "source_role_value ROLE_SUPPORTING = ''supporting''"

definition canonical_sha256 :: "json \<Rightarrow> string" where
  "canonical_sha256 v = sha256_hex (encode (dumps v))"

definition build_cache_key :: "int \<Rightarrow> source_request \<Rightarrow> string" where
  "build_cache_key chain_id request =
     canonical_sha256
       (JObj [(''chain_id'', JInt chain_id), (''request_fingerprint'', JStr (source_request_fingerprint request))])"

definition json_texts :: "string list \<Rightarrow> json" where
  "json_texts xs = JArr (map JStr xs)"

definition json_opt_text :: "string option \<Rightarrow> json" where
  "json_opt_text t = (case t of None \<Rightarrow> JNull | Some s \<Rightarrow> JStr s)"

text \<open>\<^verbatim>\<open>tuple(json.loads(text))\<close> of a column that holds a list of strings.\<close>

definition load_texts :: "string \<Rightarrow> storage_error + string list" where
  "load_texts t =
     (case loads t of
        Some (JArr js) \<Rightarrow>
          if list_all (\<lambda>j. case j of JStr _ \<Rightarrow> True | _ \<Rightarrow> False) js
          then Inr (map (\<lambda>j. case j of JStr s \<Rightarrow> s | _ \<Rightarrow> []) js) else Inl Json_Decode_Error
      | _ \<Rightarrow> Inl Json_Decode_Error)"

text \<open>
  The guard's forbidden values, the contract dictionaries of a request and a result as the validation
  library dumps them, and its normal form of a URL.
\<close>

record storage_env =
  se_forbidden :: "string list"
  se_request_dict :: "analysis_request \<Rightarrow> json"
  se_result_dict :: "analysis_result \<Rightarrow> json"
  se_urls :: "string \<Rightarrow> string option"

definition storage_guard :: "storage_env \<Rightarrow> json \<Rightarrow> storage_error + unit" where
  "storage_guard env document =
     (case check_text (se_forbidden env) (dumps document) of
        Inl e \<Rightarrow> Inl (Sensitive_Data_Error e) | Inr _ \<Rightarrow> Inr ())"

text \<open>
  \<^verbatim>\<open>_initialize\<close> on a file with the given version and tables (a missing table has no rows): \<^verbatim>\<open>CREATE TABLE IF
  NOT EXISTS\<close> keeps what is there.
\<close>

definition sqlite_initialize :: "int \<Rightarrow> storage \<Rightarrow> storage_error + int \<times> storage" where
  "sqlite_initialize version db =
     and_then
       (raise_if (version \<notin> {0, 1})
          (Storage_Value_Error (''unsupported SQLite schema version: '' @ show_int version)))
       (\<lambda>_. Inr (1, db))"

subsection \<open>Artifacts and runs\<close>

definition record_artifact :: "artifact_record \<Rightarrow> unit action" where
  "record_artifact r =
     transaction (\<lambda>db.
       and_then (insert_artifact r db) (\<lambda>db1.
       and_then
         (case find (\<lambda>a. ar_sha256 a = ar_sha256 r) (sg_artifacts db1) of
            None \<Rightarrow> Inr ()
          | Some a \<Rightarrow>
              raise_if (ar_byte_length a \<noteq> ar_byte_length r \<or> ar_relative_path a \<noteq> ar_relative_path r)
                (Storage_Value_Error ''artifact metadata conflicts with an existing hash''))
         (\<lambda>_. Inr ((), db1))))"

definition get_artifact :: "storage \<Rightarrow> string \<Rightarrow> artifact_record option" where
  "get_artifact db sha256 = find (\<lambda>a. ar_sha256 a = sha256) (sg_artifacts db)"

definition get_run_artifact :: "storage \<Rightarrow> string \<Rightarrow> string \<Rightarrow> storage_error + artifact_record option" where
  "get_run_artifact db analysis_id kind =
     and_then
       (if kind = ''request'' then
          Inr (map_option ur_request_artifact_sha256
            (find (\<lambda>r. ur_analysis_id r = analysis_id) (sg_runs db)))
        else if kind \<in> {''result_json'', ''evidence_markdown''} then
          Inr (map_option ux_artifact_sha256
            (find (\<lambda>x. ux_analysis_id x = analysis_id \<and> ux_export_type x = kind) (sg_exports db)))
        else Inl (Storage_Value_Error ''unsupported run artifact kind''))
       (\<lambda>row. Inr (case row of None \<Rightarrow> None | Some s \<Rightarrow> get_artifact db s))"

definition finish_run :: "string \<Rightarrow> string \<Rightarrow> instant \<Rightarrow> unit action" where
  "finish_run analysis_id status t =
     act_then
       (reading (raise_if (status \<notin> {''failed'', ''interrupted'', ''restricted''})
          (Storage_Value_Error ''finish_run only accepts non-result terminal statuses''))) (\<lambda>_.
     act_then
       (transaction (update_run analysis_id (\<lambda>r. r
          \<lparr>ur_status := status,
           ur_started_at := (case ur_started_at r of None \<Rightarrow> Some t | Some s \<Rightarrow> Some s),
           ur_finished_at := Some t, ur_updated_at := t\<rparr>))) (\<lambda>rowcount.
     reading (raise_if (rowcount \<noteq> 1) (Storage_Key_Error ''analysis run not found''))))"

definition policy_dump :: "source_policy \<Rightarrow> json" where
  "policy_dump p =
     JObj [(''rule_status'', JStr (rule_status_value (po_rule_status p))),
           (''allowed_source_ids'', json_texts (po_allowed_source_ids p)),
           (''source_order'', json_texts (po_source_order p)),
           (''allow_fallback'', JBool (po_allow_fallback p)), (''offline_mode'', JBool (po_offline_mode p))]"

definition queued_run :: "analysis_request \<Rightarrow> string \<Rightarrow> string \<Rightarrow> instant \<Rightarrow> run_row" where
  "queued_run run sha256 tool_version t =
     \<lparr>ur_analysis_id = rq_analysis_id run, ur_analysis_type = analysis_type_value (rq_analysis_type run),
      ur_chain_id = rq_chain_id run, ur_fixture_id = rq_fixture_id run, ur_status = ''queued'',
      ur_schema_version = rq_schema_version run, ur_tool_version = tool_version,
      ur_request_artifact_sha256 = sha256, ur_started_at = None, ur_finished_at = None,
      ur_created_at = t, ur_updated_at = t\<rparr>"

definition run_policy :: "analysis_request \<Rightarrow> policy_row" where
  "run_policy run =
     (let p = rq_source_policy run in
      \<lparr>uo_analysis_id = rq_analysis_id run, uo_rule_status = rule_status_value (po_rule_status p),
       uo_allowed_source_ids_json = dumps (json_texts (po_allowed_source_ids p)),
       uo_source_order_json = dumps (json_texts (po_source_order p)),
       uo_allow_fallback = of_bool (po_allow_fallback p), uo_offline_mode = of_bool (po_offline_mode p),
       uo_rules_snapshot_ref = None, uo_canonical_sha256 = canonical_sha256 (policy_dump p)\<rparr>)"

definition assert_chain_id_supported :: "int \<Rightarrow> storage \<Rightarrow> storage_error + unit" where
  "assert_chain_id_supported chain_id db =
     raise_if (chain_id = 0 \<and> sg_legacy db)
       (Storage_Value_Error ''legacy SQLite v1 permits only chain_id=1; use a new database or an explicitly approved backup-and-migration flow for Bitcoin'')"

definition create_run ::
    "storage_env \<Rightarrow> analysis_request \<Rightarrow> artifact_record \<Rightarrow> string \<Rightarrow> instant \<Rightarrow> unit action" where
  "create_run env run request_artifact tool_version t =
     act_then (\<lambda>db. (assert_chain_id_supported (rq_chain_id run) db, db)) (\<lambda>_.
     act_then (record_artifact request_artifact) (\<lambda>_.
     act_then (reading (storage_guard env (se_request_dict env run))) (\<lambda>_.
     act_then (reading (storage_guard env (policy_dump (rq_source_policy run)))) (\<lambda>_.
     transaction (\<lambda>db.
       and_then (insert_run (queued_run run (ar_sha256 request_artifact) tool_version t) db) (\<lambda>db1.
       and_then (insert_policy (run_policy run) db1) (\<lambda>db2. Inr ((), db2))))))))"

subsection \<open>Source attempts\<close>

definition request_capability :: "source_request \<Rightarrow> string" where
  "request_capability r = (case r of Json_Rpc q \<Rightarrow> jq_capability q | Rest q \<Rightarrow> rq_capability q)"

definition request_method :: "source_request \<Rightarrow> string" where
  "request_method r = (case r of Json_Rpc q \<Rightarrow> jq_method q | Rest q \<Rightarrow> http_method_value (rq_method q))"

definition request_block_tag :: "source_request \<Rightarrow> string option" where
  "request_block_tag r =
     (case (case r of Json_Rpc q \<Rightarrow> jq_block_tag q | Rest q \<Rightarrow> rq_block_tag q) of
        Tag_None \<Rightarrow> None | Tag_Name s \<Rightarrow> Some s | Tag_Number n \<Rightarrow> Some (show_int n))"

definition last_attempt_number :: "storage \<Rightarrow> string \<Rightarrow> string \<Rightarrow> string \<Rightarrow> nat" where
  "last_attempt_number db analysis_id fingerprint provider_id =
     foldr max
       (map ua_attempt_number
         (filter (\<lambda>r. ua_analysis_id r = analysis_id \<and> ua_request_fingerprint r = fingerprint
            \<and> ua_provider_id r = provider_id) (sg_attempts db))) 0"

fun number_attempts ::
    "storage \<Rightarrow> string \<Rightarrow> string \<Rightarrow> (string, nat) dict \<Rightarrow> source_attempt list \<Rightarrow> source_attempt list" where
  "number_attempts db analysis_id fingerprint offsets [] = []"
| "number_attempts db analysis_id fingerprint offsets (a # attempts) =
     (let p = sa_provider_id a;
          offsets1 =
            (if p \<in> set (map fst offsets) then offsets
             else dict_set p (last_attempt_number db analysis_id fingerprint p) offsets) in
      a\<lparr>sa_attempt_number := dict_get offsets1 p 0 + sa_attempt_number a\<rparr>
        # number_attempts db analysis_id fingerprint offsets1 attempts)"

definition stable_attempt_id :: "string \<Rightarrow> string \<Rightarrow> source_attempt \<Rightarrow> string" where
  "stable_attempt_id analysis_id fingerprint a =
     ''ATT-'' @ take 24 (canonical_sha256
       (JObj [(''analysis_id'', JStr analysis_id), (''request_fingerprint'', JStr fingerprint),
              (''provider_id'', JStr (sa_provider_id a)), (''attempt_number'', JInt (int (sa_attempt_number a)))]))"

definition attempt_row_for ::
    "string \<Rightarrow> source_request \<Rightarrow> string option \<Rightarrow> source_attempt \<Rightarrow> attempt_row" where
  "attempt_row_for analysis_id request artifact_sha256 a =
     (let fingerprint = source_request_fingerprint request in
      \<lparr>ua_source_attempt_id = stable_attempt_id analysis_id fingerprint a, ua_analysis_id = analysis_id,
       ua_source_record_id = None, ua_source_id = sa_source_id a, ua_provider_id = sa_provider_id a,
       ua_capability = request_capability request, ua_method = request_method request,
       ua_request_fingerprint = fingerprint, ua_block_tag = request_block_tag request,
       ua_attempt_number = sa_attempt_number a, ua_outcome = attempt_outcome_value (sa_outcome a),
       ua_failure_kind = map_option failure_kind_value (sa_failure_kind a),
       ua_http_status = sa_status_code a, ua_retryable = of_bool (sa_retryable a),
       ua_wait_seconds = sa_wait_seconds a, ua_raw_sha256 = sa_raw_sha256 a,
       ua_started_at = sa_started_at a, ua_finished_at = sa_finished_at a,
       ua_artifact_sha256 = (if sa_outcome a = ATTEMPT_SUCCESS then artifact_sha256 else None)\<rparr>)"

definition save_attempts ::
    "storage_env \<Rightarrow> string \<Rightarrow> source_request \<Rightarrow> source_attempt list \<Rightarrow> string option
      \<Rightarrow> (source_attempt list) action" where
  "save_attempts env analysis_id request attempts artifact_sha256 =
     act_then
       (reading (storage_guard env
          (JObj [(''analysis_id'', JStr analysis_id), (''capability'', JStr (request_capability request)),
                 (''method'', JStr (request_method request)),
                 (''block_tag'', json_opt_text (request_block_tag request))]))) (\<lambda>_ db.
     let persisted = number_attempts db analysis_id (source_request_fingerprint request) [] attempts in
     transaction (\<lambda>db.
       and_then
         (fold_result (\<lambda>d a. insert_attempt (attempt_row_for analysis_id request artifact_sha256 a) d) db persisted)
         (\<lambda>db1. Inr (persisted, db1))) db)"

definition list_source_attempts :: "storage \<Rightarrow> string \<Rightarrow> attempt_row list" where
  "list_source_attempts db analysis_id =
     sort_key ua_started_at (sort_key ua_provider_id (sort_key ua_attempt_number
       (filter (\<lambda>r. ua_analysis_id r = analysis_id) (sg_attempts db))))"

subsection \<open>The response cache\<close>

record cache_record =
  cr_cache_key :: string
  cr_source_id :: string
  cr_provider_id :: string
  cr_capability :: string
  cr_block_tag :: "string option"
  cr_artifact_sha256 :: string
  cr_immutability :: string
  cr_created_at :: instant
  cr_expires_at :: "instant option"
  cr_endpoint_host :: string
  cr_endpoint_path :: string
  cr_status_code :: int
  cr_media_type :: "string option"
  cr_retrieved_at :: instant
  cr_fallback_from :: "string list"

definition cache_row_for :: "cache_record \<Rightarrow> cache_row" where
  "cache_row_for r =
     \<lparr>uc_cache_key = cr_cache_key r, uc_source_id = cr_source_id r, uc_provider_id = cr_provider_id r,
      uc_capability = cr_capability r, uc_block_tag = cr_block_tag r,
      uc_artifact_sha256 = cr_artifact_sha256 r, uc_immutability = cr_immutability r,
      uc_created_at = cr_created_at r, uc_expires_at = cr_expires_at r, uc_last_verified_at = None,
      uc_endpoint_host = cr_endpoint_host r, uc_endpoint_path = cr_endpoint_path r,
      uc_status_code = cr_status_code r, uc_media_type = cr_media_type r,
      uc_retrieved_at = cr_retrieved_at r, uc_fallback_from_json = dumps (json_texts (cr_fallback_from r))\<rparr>"

definition cache_record_of :: "cache_row \<Rightarrow> string list \<Rightarrow> cache_record" where
  "cache_record_of r fallback_from =
     \<lparr>cr_cache_key = uc_cache_key r, cr_source_id = uc_source_id r, cr_provider_id = uc_provider_id r,
      cr_capability = uc_capability r, cr_block_tag = uc_block_tag r,
      cr_artifact_sha256 = uc_artifact_sha256 r, cr_immutability = uc_immutability r,
      cr_created_at = uc_created_at r, cr_expires_at = uc_expires_at r,
      cr_endpoint_host = uc_endpoint_host r, cr_endpoint_path = uc_endpoint_path r,
      cr_status_code = uc_status_code r, cr_media_type = uc_media_type r,
      cr_retrieved_at = uc_retrieved_at r, cr_fallback_from = fallback_from\<rparr>"

definition put_cache :: "storage_env \<Rightarrow> cache_record \<Rightarrow> unit action" where
  "put_cache env r =
     act_then
       (reading (all_checks
          [raise_if (cr_immutability r = ''immutable''
                     \<and> (cr_block_tag r = None \<or> cr_block_tag r \<in> {Some ''latest'', Some ''pending''}))
             (Storage_Value_Error ''immutable cache requires a fixed historical block tag''),
           raise_if (cr_immutability r \<noteq> ''immutable'' \<and> cr_expires_at r = None)
             (Storage_Value_Error ''ttl and negative cache entries require expires_at''),
           storage_guard env
             (JObj [(''source_id'', JStr (cr_source_id r)), (''provider_id'', JStr (cr_provider_id r)),
                    (''capability'', JStr (cr_capability r)), (''block_tag'', json_opt_text (cr_block_tag r)),
                    (''endpoint_host'', JStr (cr_endpoint_host r)),
                    (''endpoint_path'', JStr (cr_endpoint_path r))])])) (\<lambda>_.
     transaction (\<lambda>db.
       and_then (insert_cache (cache_row_for r) db) (\<lambda>db1.
       and_then
         (case find (\<lambda>c. uc_cache_key c = cr_cache_key r) (sg_cache db1) of
            None \<Rightarrow> Inr ()
          | Some c \<Rightarrow>
              raise_if (uc_source_id c \<noteq> cr_source_id r \<or> uc_provider_id c \<noteq> cr_provider_id r
                        \<or> uc_artifact_sha256 c \<noteq> cr_artifact_sha256 r)
                (Storage_Value_Error ''cache key conflicts with existing provenance''))
         (\<lambda>_. Inr ((), db1)))))"

definition get_cache ::
    "storage \<Rightarrow> string \<Rightarrow> string list \<Rightarrow> instant \<Rightarrow> storage_error + cache_record option" where
  "get_cache db cache_key allowed_source_ids t =
     (case find (\<lambda>c. uc_cache_key c = cache_key) (sg_cache db) of
        None \<Rightarrow> Inr None
      | Some c \<Rightarrow>
          if uc_source_id c \<notin> set allowed_source_ids then Inr None
          else if (case uc_expires_at c of None \<Rightarrow> False | Some x \<Rightarrow> x \<le> t) then Inr None
          else and_then (load_texts (uc_fallback_from_json c)) (\<lambda>fs. Inr (Some (cache_record_of c fs))))"

subsection \<open>Checkpoints\<close>

record checkpoint_record =
  kp_checkpoint_id :: string
  kp_analysis_id :: string
  kp_stage :: string
  kp_revision :: nat
  kp_cursor :: json
  kp_completed_evidence_ids :: "string list"
  kp_state_sha256 :: string
  kp_created_at :: instant

definition checkpoint_state :: "string \<Rightarrow> string \<Rightarrow> json \<Rightarrow> string list \<Rightarrow> json" where
  "checkpoint_state analysis_id stage cursor completed =
     JObj [(''analysis_id'', JStr analysis_id), (''stage'', JStr stage), (''cursor'', cursor),
           (''completed_evidence_ids'', json_texts completed)]"

definition stage_checkpoints :: "storage \<Rightarrow> string \<Rightarrow> string \<Rightarrow> checkpoint_row list" where
  "stage_checkpoints db analysis_id stage =
     filter (\<lambda>r. uk_analysis_id r = analysis_id \<and> uk_stage r = stage) (sg_checkpoints db)"

definition next_revision :: "storage \<Rightarrow> string \<Rightarrow> string \<Rightarrow> nat" where
  "next_revision db analysis_id stage =
     foldr max (map uk_revision (stage_checkpoints db analysis_id stage)) 0 + 1"

definition checkpoint_row_for :: "checkpoint_record \<Rightarrow> checkpoint_row" where
  "checkpoint_row_for k =
     \<lparr>uk_checkpoint_id = kp_checkpoint_id k, uk_analysis_id = kp_analysis_id k, uk_stage = kp_stage k,
      uk_revision = kp_revision k, uk_cursor_json = dumps (kp_cursor k),
      uk_completed_evidence_ids_json = dumps (json_texts (kp_completed_evidence_ids k)),
      uk_state_sha256 = kp_state_sha256 k, uk_created_at = kp_created_at k\<rparr>"

definition next_checkpoint ::
    "storage \<Rightarrow> string \<Rightarrow> string \<Rightarrow> json \<Rightarrow> string list \<Rightarrow> instant \<Rightarrow> checkpoint_record" where
  "next_checkpoint db analysis_id stage cursor completed t =
     (let revision = next_revision db analysis_id stage;
          sha = canonical_sha256 (checkpoint_state analysis_id stage cursor completed) in
      \<lparr>kp_checkpoint_id = ''CP-'' @ take 24 sha @ ''-'' @ show_nat revision, kp_analysis_id = analysis_id,
       kp_stage = stage, kp_revision = revision, kp_cursor = cursor,
       kp_completed_evidence_ids = completed, kp_state_sha256 = sha, kp_created_at = t\<rparr>)"

definition save_checkpoint ::
    "storage_env \<Rightarrow> string \<Rightarrow> string \<Rightarrow> json \<Rightarrow> string list \<Rightarrow> instant \<Rightarrow> checkpoint_record action" where
  "save_checkpoint env analysis_id stage cursor completed t =
     act_then (reading (storage_guard env (checkpoint_state analysis_id stage cursor completed))) (\<lambda>_ db.
     let checkpoint = next_checkpoint db analysis_id stage cursor completed t in
     transaction (\<lambda>db.
       and_then (insert_checkpoint (checkpoint_row_for checkpoint) db) (\<lambda>db1. Inr (checkpoint, db1))) db)"

definition latest_checkpoint :: "storage \<Rightarrow> string \<Rightarrow> string \<Rightarrow> storage_error + checkpoint_record option" where
  "latest_checkpoint db analysis_id stage =
     (case rev (sort_key uk_revision (stage_checkpoints db analysis_id stage)) of
        [] \<Rightarrow> Inr None
      | r # _ \<Rightarrow>
          (case loads (uk_cursor_json r) of
             None \<Rightarrow> Inl Json_Decode_Error
           | Some cursor \<Rightarrow>
               and_then (load_texts (uk_completed_evidence_ids_json r)) (\<lambda>completed. Inr (Some
                 \<lparr>kp_checkpoint_id = uk_checkpoint_id r, kp_analysis_id = uk_analysis_id r,
                  kp_stage = uk_stage r, kp_revision = uk_revision r, kp_cursor = cursor,
                  kp_completed_evidence_ids = completed, kp_state_sha256 = uk_state_sha256 r,
                  kp_created_at = uk_created_at r\<rparr>))))"

subsection \<open>Results, links and exports\<close>

definition source_row_for :: "string \<Rightarrow> source_record \<Rightarrow> source_row" where
  "source_row_for analysis_id s =
     \<lparr>us_source_record_id = sd_source_record_id s, us_analysis_id = analysis_id,
      us_source_id = sd_source_id s, us_provider_id = sd_provider_id s,
      us_role = source_role_value (sd_role s), us_required = of_bool (sd_required s),
      us_capability = sd_capability s, us_endpoint_host = sd_endpoint_host s,
      us_retrieved_at = sd_retrieved_at s, us_fallback_from = sd_fallback_from s\<rparr>"

definition result_row_for :: "string \<Rightarrow> instant \<Rightarrow> result_item \<Rightarrow> result_row" where
  "result_row_for analysis_id t r =
     \<lparr>ut_result_id = ri_result_id r, ut_analysis_id = analysis_id, ut_result_type = ri_result_type r,
      ut_classification = classification_value (ri_classification r),
      ut_requirement_ids_json = dumps (json_texts (ri_tool_requirement_ids r)),
      ut_fixture_requirement_ids_json = dumps (json_texts (ri_fixture_requirement_ids r)),
      ut_value_json = dumps (ri_value r), ut_value_sha256 = canonical_sha256 (ri_value r),
      ut_created_at = t\<rparr>"

definition locator_dump :: "(string \<Rightarrow> string option) \<Rightarrow> evidence_locator \<Rightarrow> json" where
  "locator_dump urls l =
     (let field = \<lambda>k to v. (case v of None \<Rightarrow> [] | Some x \<Rightarrow> [(k, to x)]);
          number = \<lambda>k v. (case v of None \<Rightarrow> [] | Some x \<Rightarrow> [(k, JInt x)]) in
      JObj (number ''chain_id'' (el_chain_id l) @ number ''block_number'' (el_block_number l)
        @ field ''transaction_hash'' JStr (el_transaction_hash l) @ number ''log_index'' (el_log_index l)
        @ (case el_trace_address l of None \<Rightarrow> [] | Some xs \<Rightarrow> [(''trace_address'', JArr (map JInt xs))])
        @ field ''url'' (\<lambda>u. JStr (case urls u of Some v \<Rightarrow> v | None \<Rightarrow> u)) (el_url l)))"

definition evidence_row_for :: "storage_env \<Rightarrow> string \<Rightarrow> evidence \<Rightarrow> evidence_row" where
  "evidence_row_for env analysis_id e =
     \<lparr>ue_evidence_id = ei_evidence_id e, ue_analysis_id = analysis_id,
      ue_evidence_type = evidence_type_value (ei_evidence_type e), ue_source_id = ei_source_id e,
      ue_source_record_id = ei_source_record_ref e, ue_source_attempt_id = None, ue_method = ei_method e,
      ue_locator_json = dumps (locator_dump (se_urls env) (ei_locator e)),
      ue_decoded_json = dumps (ei_decoded e), ue_artifact_sha256 = ra_sha256 (ei_raw_artifact e),
      ue_retrieved_at = ei_retrieved_at e\<rparr>"

definition save_sources :: "analysis_result \<Rightarrow> storage \<Rightarrow> storage_error + storage" where
  "save_sources doc db =
     fold_result (\<lambda>d s. insert_source (source_row_for (rs_analysis_id doc) s) d) db (rs_sources doc)"

definition save_result_items :: "analysis_result \<Rightarrow> instant \<Rightarrow> storage \<Rightarrow> storage_error + storage" where
  "save_result_items doc t db =
     fold_result (\<lambda>d r. insert_result (result_row_for (rs_analysis_id doc) t r) d) db (rs_results doc)"

definition save_evidence :: "storage_env \<Rightarrow> analysis_result \<Rightarrow> storage \<Rightarrow> storage_error + storage" where
  "save_evidence env doc db =
     fold_result (\<lambda>d e. insert_evidence (evidence_row_for env (rs_analysis_id doc) e) d) db (rs_evidence doc)"

definition save_result_evidence_links ::
    "analysis_result \<Rightarrow> instant \<Rightarrow> storage \<Rightarrow> storage_error + storage" where
  "save_result_evidence_links doc t db =
     fold_result
       (\<lambda>d r. fold_result
          (\<lambda>d i. insert_link
             \<lparr>ul_result_id = ri_result_id r, ul_evidence_id = i, ul_analysis_id = rs_analysis_id doc,
              ul_role = ''scoring'', ul_created_at = t\<rparr> d) d (ri_evidence_refs r))
       db (rs_results doc)"

definition save_result :: "storage_env \<Rightarrow> analysis_result \<Rightarrow> instant \<Rightarrow> unit action" where
  "save_result env doc t =
     act_then (reading (storage_guard env (se_result_dict env doc))) (\<lambda>_.
     transaction (\<lambda>db.
       and_then (save_sources doc db) (\<lambda>db1.
       and_then (save_result_items doc t db1) (\<lambda>db2.
       and_then (save_evidence env doc db2) (\<lambda>db3.
       and_then (save_result_evidence_links doc t db3) (\<lambda>db4.
       and_then (update_run (rs_analysis_id doc) (\<lambda>r. r
          \<lparr>ur_status := analysis_status_value (rs_status doc),
           ur_started_at := Some (rn_started_at (rs_run doc)),
           ur_finished_at := Some (rn_finished_at (rs_run doc)), ur_updated_at := t\<rparr>) db4)
         (\<lambda>(_, db5). Inr ((), db5))))))))"

record export_record =
  xr_export_id :: string
  xr_analysis_id :: string
  xr_export_type :: string
  xr_artifact :: artifact_record
  xr_schema_version :: string
  xr_created_at :: instant

definition record_export :: "export_record \<Rightarrow> unit action" where
  "record_export x =
     act_then (record_artifact (xr_artifact x)) (\<lambda>_.
     transaction (\<lambda>db.
       and_then (insert_export
           \<lparr>ux_export_id = xr_export_id x, ux_analysis_id = xr_analysis_id x,
            ux_export_type = xr_export_type x, ux_artifact_sha256 = ar_sha256 (xr_artifact x),
            ux_schema_version = xr_schema_version x, ux_created_at = xr_created_at x\<rparr> db) (\<lambda>db1.
       and_then
         (case find (\<lambda>r. ux_export_id r = xr_export_id x) (sg_exports db1) of
            None \<Rightarrow> Inr ()
          | Some r \<Rightarrow>
              raise_if (ux_artifact_sha256 r \<noteq> ar_sha256 (xr_artifact x)
                        \<or> ux_schema_version r \<noteq> xr_schema_version x)
                (Storage_Value_Error ''export ID conflicts with an existing artifact''))
         (\<lambda>_. Inr ((), db1)))))"

definition link_result_evidence ::
    "string \<Rightarrow> string \<Rightarrow> string \<Rightarrow> string \<Rightarrow> instant \<Rightarrow> unit action" where
  "link_result_evidence analysis_id result_id evidence_id role t =
     transaction (\<lambda>db.
       and_then (insert_link
           \<lparr>ul_result_id = result_id, ul_evidence_id = evidence_id, ul_analysis_id = analysis_id,
            ul_role = role, ul_created_at = t\<rparr> db) (\<lambda>db1. Inr ((), db1)))"

definition count_rows :: "storage \<Rightarrow> string \<Rightarrow> storage_error + nat" where
  "count_rows db table =
     (case map_of
        [(''analysis_runs'', length (sg_runs db)), (''run_source_policies'', length (sg_policies db)),
         (''source_attempts'', length (sg_attempts db)), (''artifacts'', length (sg_artifacts db)),
         (''cache_entries'', length (sg_cache db)), (''source_records'', length (sg_sources db)),
         (''results'', length (sg_results db)), (''evidence_records'', length (sg_evidence db)),
         (''result_evidence_links'', length (sg_links db)), (''checkpoints'', length (sg_checkpoints db)),
         (''exports'', length (sg_exports db))] table of
        None \<Rightarrow> Inl (Storage_Value_Error ''unsupported table name'')
      | Some n \<Rightarrow> Inr n)"

end
