(* ===== verification/Storage_Orchestration.thy ===== *)
theory Storage_Orchestration
  imports Sqlite_Storage
begin

section \<open>Cache-first source reads and resumable stages\<close>

text \<open>
  \<^verbatim>\<open>application/storage_orchestration.py\<close>: \<^verbatim>\<open>CachedSourceExecutor\<close> looks a request up in the response
  cache before it asks the source orchestrator, and records what it got; \<^verbatim>\<open>CheckpointRunner\<close> runs a
  stage unless a checkpoint of it exists. The state is the database, the artifact files and what has
  been asked of the sources. When an adapter raises, the calls made up to then are not tracked.
\<close>

datatype executor_error =
    Executor_Storage storage_error | Executor_Artifact artifact_error | Executor_Source source_error
  | Executor_Value_Error string

record executor_env =
  xe_storage :: storage_env
  xe_artifacts :: artifact_env
  xe_sources :: source_env
  xe_retry :: retry_policy
  xe_adapters :: "string \<rightharpoonup> source_adapter"
  xe_read_clock :: instant
  xe_put_clock :: instant

record executor_state =
  xs_storage :: storage
  xs_files :: files
  xs_sources :: source_state

type_synonym 'a execution = "executor_state \<Rightarrow> (executor_error + 'a) \<times> executor_state"

definition exec_then :: "'a execution \<Rightarrow> ('a \<Rightarrow> 'b execution) \<Rightarrow> 'b execution" where
  "exec_then m f st = (case m st of (Inl e, st') \<Rightarrow> (Inl e, st') | (Inr x, st') \<Rightarrow> f x st')"

definition lift_result :: "('e \<Rightarrow> executor_error) \<Rightarrow> 'e + 'a \<Rightarrow> executor_error + 'a" where
  "lift_result wrap r = (case r of Inl e \<Rightarrow> Inl (wrap e) | Inr x \<Rightarrow> Inr x)"

definition on_storage :: "'a action \<Rightarrow> 'a execution" where
  "on_storage m st =
     (let (r, db) = m (xs_storage st) in (lift_result Executor_Storage r, st\<lparr>xs_storage := db\<rparr>))"

definition on_files :: "(files \<Rightarrow> (artifact_error + 'a) \<times> files) \<Rightarrow> 'a execution" where
  "on_files m st = (let (r, fs) = m (xs_files st) in (lift_result Executor_Artifact r, st\<lparr>xs_files := fs\<rparr>))"

definition on_sources :: "(source_state \<Rightarrow> source_error + 'a \<times> source_state) \<Rightarrow> 'a execution" where
  "on_sources m st =
     (case m (xs_sources st) of
        Inl e \<Rightarrow> (Inl (Executor_Source e), st)
      | Inr (x, ss) \<Rightarrow> (Inr x, st\<lparr>xs_sources := ss\<rparr>))"

definition cached_execution ::
    "cache_record \<Rightarrow> source_request \<Rightarrow> executor_state \<Rightarrow> executor_error + source_execution" where
  "cached_execution cached request st =
     (case get_artifact (xs_storage st) (cr_artifact_sha256 cached) of
        None \<Rightarrow> Inl (Executor_Value_Error ''cache entry references a missing artifact'')
      | Some artifact \<Rightarrow>
          and_then (lift_result Executor_Artifact (artifact_read (xs_files st) artifact)) (\<lambda>raw_bytes.
          lift_result Executor_Source (source_execution_init
            \<lparr>so_response = Some
               \<lparr>sre_source_id = cr_source_id cached, sre_provider_id = cr_provider_id cached,
                sre_request_fingerprint = source_request_fingerprint request,
                sre_payload =
                  \<lparr>sp_raw_bytes = raw_bytes, sp_status_code = cr_status_code cached,
                   sp_media_type = cr_media_type cached, sp_endpoint_host = cr_endpoint_host cached,
                   sp_endpoint_path = cr_endpoint_path cached, sp_retrieved_at = cr_retrieved_at cached\<rparr>,
                sre_attempts = [], sre_fallback_from = cr_fallback_from cached,
                sre_cache_status = CACHE_HIT\<rparr>,
             so_attempts = [], so_error = None\<rparr>)))"

definition cache_entry_for ::
    "executor_env \<Rightarrow> string \<Rightarrow> source_request \<Rightarrow> source_response \<Rightarrow> artifact_record \<Rightarrow> cache_record" where
  "cache_entry_for env cache_key request response artifact =
     (let payload = sre_payload response in
      \<lparr>cr_cache_key = cache_key, cr_source_id = sre_source_id response,
       cr_provider_id = sre_provider_id response, cr_capability = request_capability request,
       cr_block_tag = request_block_tag request, cr_artifact_sha256 = ar_sha256 artifact,
       cr_immutability = ''immutable'', cr_created_at = xe_put_clock env, cr_expires_at = None,
       cr_endpoint_host = sp_endpoint_host payload, cr_endpoint_path = sp_endpoint_path payload,
       cr_status_code = sp_status_code payload, cr_media_type = sp_media_type payload,
       cr_retrieved_at = sp_retrieved_at payload, cr_fallback_from = sre_fallback_from response\<rparr>)"

definition persist_success ::
    "executor_env \<Rightarrow> string \<Rightarrow> source_request \<Rightarrow> string \<Rightarrow> source_response \<Rightarrow> source_attempt list
      \<Rightarrow> source_execution execution" where
  "persist_success env analysis_id request cache_key response attempts =
     (let payload = sre_payload response in
      exec_then
        (on_files (artifact_write (xe_artifacts env) (sp_raw_bytes payload)
           (case sp_media_type payload of
              None \<Rightarrow> ''application/octet-stream''
            | Some m \<Rightarrow> if m = [] then ''application/octet-stream'' else m)
           ''raw_response'' ''not_required'' ''unknown'' (Some (sre_source_id response))
           (Some (sp_retrieved_at payload)))) (\<lambda>artifact.
      exec_then (on_storage (record_artifact artifact)) (\<lambda>_.
      exec_then
        (on_storage (save_attempts (xe_storage env) analysis_id request attempts (Some (ar_sha256 artifact))))
        (\<lambda>persisted.
      exec_then
        (if request_block_tag request \<notin> {None, Some ''latest'', Some ''pending''}
         then on_storage (put_cache (xe_storage env) (cache_entry_for env cache_key request response artifact))
         else (\<lambda>st. (Inr (), st))) (\<lambda>_ st.
      (lift_result Executor_Source (source_execution_init
         \<lparr>so_response = Some (response\<lparr>sre_attempts := persisted, sre_cache_status := CACHE_MISS\<rparr>),
          so_attempts = persisted, so_error = None\<rparr>), st))))))"

definition cached_execute ::
    "executor_env \<Rightarrow> string \<Rightarrow> int \<Rightarrow> source_request \<Rightarrow> source_policy \<Rightarrow> source_execution execution" where
  "cached_execute env analysis_id chain_id request policy st =
     (let cache_key = build_cache_key chain_id request in
      case get_cache (xs_storage st) cache_key (po_allowed_source_ids policy) (xe_read_clock env) of
        Inl e \<Rightarrow> (Inl (Executor_Storage e), st)
      | Inr (Some cached) \<Rightarrow> (cached_execution cached request st, st)
      | Inr None \<Rightarrow>
          exec_then
            (on_sources (source_execute (xe_sources env) (xe_retry env) (xe_adapters env) request policy))
            (\<lambda>execution.
               case so_response execution of
                 None \<Rightarrow>
                   exec_then
                     (on_storage (save_attempts (xe_storage env) analysis_id request (so_attempts execution) None))
                     (\<lambda>persisted st.
                       (lift_result Executor_Source (source_execution_init
                          \<lparr>so_response = None, so_attempts = persisted, so_error = so_error execution\<rparr>), st))
               | Some response \<Rightarrow>
                   persist_success env analysis_id request cache_key response (so_attempts execution)) st)"

subsection \<open>Stages\<close>

record stage_execution =
  sx_checkpoint :: checkpoint_record
  sx_resumed :: bool

text \<open>The operation of a stage may work on the database and may raise.\<close>

definition run_once ::
    "storage_env \<Rightarrow> string \<Rightarrow> string \<Rightarrow> (json \<times> string list) action \<Rightarrow> instant \<Rightarrow> stage_execution action" where
  "run_once env analysis_id stage operation t =
     act_then (\<lambda>db. (latest_checkpoint db analysis_id stage, db)) (\<lambda>latest.
     case latest of
       Some checkpoint \<Rightarrow> reading (Inr \<lparr>sx_checkpoint = checkpoint, sx_resumed = True\<rparr>)
     | None \<Rightarrow>
         act_then operation (\<lambda>(cursor, completed).
         act_then (save_checkpoint env analysis_id stage cursor completed t) (\<lambda>checkpoint.
         reading (Inr \<lparr>sx_checkpoint = checkpoint, sx_resumed = False\<rparr>))))"

end
