(* ===== verification/Storage_Invariant.thy ===== *)
theory Storage_Invariant
  imports Storage_Orchestration "HOL-Library.Sublist"
begin

section \<open>Integrity of the workspace database\<close>

text \<open>
  What the DDL declares, as a predicate on the whole database (\<open>storage_ok\<close>), and the order in which
  the database only grows (\<open>storage_grows\<close>). Every statement keeps the one and respects the other; so does
  every operation, whether it returns or raises.
\<close>

subsection \<open>The declared constraints\<close>

definition artifacts_ok :: "storage \<Rightarrow> bool" where
  "artifacts_ok db \<longleftrightarrow>
     list_all artifact_checks (sg_artifacts db) \<and> distinct (map ar_sha256 (sg_artifacts db))
     \<and> distinct (map ar_relative_path (sg_artifacts db))"

definition runs_ok :: "storage \<Rightarrow> bool" where
  "runs_ok db \<longleftrightarrow>
     list_all (run_checks (sg_legacy db)) (sg_runs db) \<and> distinct (map ur_analysis_id (sg_runs db))
     \<and> list_all (\<lambda>r. artifact_exists db (ur_request_artifact_sha256 r)) (sg_runs db)"

definition policies_ok :: "storage \<Rightarrow> bool" where
  "policies_ok db \<longleftrightarrow>
     list_all policy_checks (sg_policies db) \<and> distinct (map uo_analysis_id (sg_policies db))
     \<and> list_all (\<lambda>r. run_exists db (uo_analysis_id r)) (sg_policies db)"

definition attempts_ok :: "storage \<Rightarrow> bool" where
  "attempts_ok db \<longleftrightarrow>
     list_all attempt_checks (sg_attempts db) \<and> distinct (map ua_source_attempt_id (sg_attempts db))
     \<and> distinct (map attempt_key (sg_attempts db)) \<and> list_all (attempt_refs db) (sg_attempts db)"

definition cache_ok :: "storage \<Rightarrow> bool" where
  "cache_ok db \<longleftrightarrow>
     list_all cache_checks (sg_cache db) \<and> distinct (map uc_cache_key (sg_cache db))
     \<and> list_all (\<lambda>r. artifact_exists db (uc_artifact_sha256 r)) (sg_cache db)"

definition sources_ok :: "storage \<Rightarrow> bool" where
  "sources_ok db \<longleftrightarrow>
     list_all (\<lambda>r. us_required r \<in> {0, 1}) (sg_sources db) \<and> distinct (map us_source_record_id (sg_sources db))
     \<and> list_all (\<lambda>r. run_exists db (us_analysis_id r)) (sg_sources db)"

definition results_ok :: "storage \<Rightarrow> bool" where
  "results_ok db \<longleftrightarrow>
     list_all (\<lambda>r. sql_length (ut_value_sha256 r) = 64) (sg_results db)
     \<and> distinct (map ut_result_id (sg_results db))
     \<and> list_all (\<lambda>r. run_exists db (ut_analysis_id r)) (sg_results db)"

definition evidence_table_ok :: "storage \<Rightarrow> bool" where
  "evidence_table_ok db \<longleftrightarrow>
     distinct (map ue_evidence_id (sg_evidence db)) \<and> list_all (evidence_refs_ok db) (sg_evidence db)"

definition links_ok :: "storage \<Rightarrow> bool" where
  "links_ok db \<longleftrightarrow>
     distinct (map (\<lambda>l. (ul_result_id l, ul_evidence_id l)) (sg_links db)) \<and> list_all (link_refs db) (sg_links db)"

definition checkpoints_ok :: "storage \<Rightarrow> bool" where
  "checkpoints_ok db \<longleftrightarrow>
     list_all checkpoint_checks (sg_checkpoints db) \<and> distinct (map uk_checkpoint_id (sg_checkpoints db))
     \<and> distinct (map checkpoint_key (sg_checkpoints db))
     \<and> list_all (\<lambda>r. run_exists db (uk_analysis_id r)) (sg_checkpoints db)"

definition export_table_ok :: "storage \<Rightarrow> bool" where
  "export_table_ok db \<longleftrightarrow>
     list_all export_checks (sg_exports db) \<and> distinct (map ux_export_id (sg_exports db))
     \<and> distinct (map (\<lambda>x. (ux_analysis_id x, ux_export_type x)) (sg_exports db))
     \<and> list_all (export_refs db) (sg_exports db)"

definition storage_ok :: "storage \<Rightarrow> bool" where
  "storage_ok db \<longleftrightarrow>
     artifacts_ok db \<and> runs_ok db \<and> policies_ok db \<and> attempts_ok db \<and> cache_ok db \<and> sources_ok db
     \<and> results_ok db \<and> evidence_table_ok db \<and> links_ok db \<and> checkpoints_ok db \<and> export_table_ok db"

lemmas table_defs =
  artifacts_ok_def runs_ok_def policies_ok_def attempts_ok_def cache_ok_def sources_ok_def results_ok_def
  evidence_table_ok_def links_ok_def checkpoints_ok_def export_table_ok_def

lemmas reference_defs =
  run_exists_def artifact_exists_def attempt_refs_def evidence_refs_ok_def link_refs_def export_refs_def

subsection \<open>Growth\<close>

text \<open>A run keeps everything but its status and the times that go with it.\<close>

definition run_identity :: "run_row \<Rightarrow> run_row" where
  "run_identity r = r\<lparr>ur_status := [], ur_started_at := None, ur_finished_at := None, ur_updated_at := 0\<rparr>"

definition storage_grows :: "storage \<Rightarrow> storage \<Rightarrow> bool" where
  "storage_grows db db' \<longleftrightarrow>
     sg_legacy db' = sg_legacy db \<and> prefix (sg_artifacts db) (sg_artifacts db')
     \<and> prefix (map run_identity (sg_runs db)) (map run_identity (sg_runs db'))
     \<and> prefix (sg_policies db) (sg_policies db') \<and> prefix (sg_attempts db) (sg_attempts db')
     \<and> prefix (sg_cache db) (sg_cache db') \<and> prefix (sg_sources db) (sg_sources db')
     \<and> prefix (sg_results db) (sg_results db') \<and> prefix (sg_evidence db) (sg_evidence db')
     \<and> prefix (sg_links db) (sg_links db') \<and> prefix (sg_checkpoints db) (sg_checkpoints db')
     \<and> prefix (sg_exports db) (sg_exports db')"

lemma storage_grows_refl [simp]: "storage_grows db db"
  by (simp add: storage_grows_def)

lemma storage_grows_trans: "storage_grows a b \<Longrightarrow> storage_grows b c \<Longrightarrow> storage_grows a c"
  unfolding storage_grows_def by (intro conjI; elim conjE; (simp | (rule prefix_order.trans; assumption)))

definition sound_step :: "storage \<Rightarrow> storage \<Rightarrow> bool" where
  "sound_step db db' \<longleftrightarrow> storage_grows db db' \<and> (storage_ok db \<longrightarrow> storage_ok db')"

lemma sound_step_refl [simp, intro]: "sound_step db db"
  by (simp add: sound_step_def)

lemma sound_step_trans: "sound_step a b \<Longrightarrow> sound_step b c \<Longrightarrow> sound_step a c"
  using storage_grows_trans by (auto simp: sound_step_def)

subsection \<open>Statements\<close>

lemma constrained_Inr [result_simps]:
  "constrained c u r db = Inr db' \<longleftrightarrow> c \<and> u \<and> r \<and> db' = db"
  by (auto simp: constrained_def result_simps)

lemmas insert_defs =
  insert_artifact_def insert_run_def insert_policy_def insert_attempt_def insert_cache_def insert_source_def
  insert_result_def insert_evidence_def insert_link_def insert_checkpoint_def insert_export_def

lemma insert_grows:
  "insert_artifact a db = Inr db' \<Longrightarrow> storage_grows db db'"
  "insert_run r db = Inr db' \<Longrightarrow> storage_grows db db'"
  "insert_policy p db = Inr db' \<Longrightarrow> storage_grows db db'"
  "insert_attempt t db = Inr db' \<Longrightarrow> storage_grows db db'"
  "insert_cache c db = Inr db' \<Longrightarrow> storage_grows db db'"
  "insert_source s db = Inr db' \<Longrightarrow> storage_grows db db'"
  "insert_result i db = Inr db' \<Longrightarrow> storage_grows db db'"
  "insert_evidence e db = Inr db' \<Longrightarrow> storage_grows db db'"
  "insert_link l db = Inr db' \<Longrightarrow> storage_grows db db'"
  "insert_checkpoint k db = Inr db' \<Longrightarrow> storage_grows db db'"
  "insert_export x db = Inr db' \<Longrightarrow> storage_grows db db'"
  by (auto simp: insert_defs storage_grows_def result_simps split: if_splits)

lemma run_identity_keeps [simp]:
  "ur_analysis_id (run_identity r) = ur_analysis_id r"
  "ur_request_artifact_sha256 (run_identity r) = ur_request_artifact_sha256 r"
  by (simp_all add: run_identity_def)

text \<open>A foreign key that finds its row finds it in every later database.\<close>

lemma run_identities: "map ur_analysis_id rs = map ur_analysis_id (map run_identity rs)"
  by (simp add: comp_def)

lemma references_mono:
  assumes "storage_grows db db'"
  shows "artifact_exists db sha \<Longrightarrow> artifact_exists db' sha" "run_exists db i \<Longrightarrow> run_exists db' i"
    "attempt_refs db t \<Longrightarrow> attempt_refs db' t" "evidence_refs_ok db e \<Longrightarrow> evidence_refs_ok db' e"
    "link_refs db l \<Longrightarrow> link_refs db' l" "export_refs db x \<Longrightarrow> export_refs db' x"
proof -
  have sub: "set (sg_artifacts db) \<subseteq> set (sg_artifacts db')" "set (sg_attempts db) \<subseteq> set (sg_attempts db')"
    "set (sg_sources db) \<subseteq> set (sg_sources db')" "set (sg_results db) \<subseteq> set (sg_results db')"
    "set (sg_evidence db) \<subseteq> set (sg_evidence db')"
    "set (map run_identity (sg_runs db)) \<subseteq> set (map run_identity (sg_runs db'))"
    using assms by (auto simp only: storage_grows_def dest: set_mono_prefix)
  have art: "artifact_exists db s \<Longrightarrow> artifact_exists db' s" for s
    using sub(1) by (auto simp: artifact_exists_def)
  have run: "run_exists db j \<Longrightarrow> run_exists db' j" for j
    using sub(6) unfolding run_exists_def run_identities [of "sg_runs _"] by (auto simp del: run_identity_keeps)
  show "artifact_exists db sha \<Longrightarrow> artifact_exists db' sha" "run_exists db i \<Longrightarrow> run_exists db' i"
    by (fact art run)+
  show "attempt_refs db t \<Longrightarrow> attempt_refs db' t" "export_refs db x \<Longrightarrow> export_refs db' x"
    using art run by (auto simp: attempt_refs_def export_refs_def split: option.splits)
  show "evidence_refs_ok db e \<Longrightarrow> evidence_refs_ok db' e"
    using run sub(2,3) by (auto simp: evidence_refs_ok_def split: option.splits)
  show "link_refs db l \<Longrightarrow> link_refs db' l"
    using sub(4,5) by (auto simp: link_refs_def)
qed

lemma grown_ok:
  assumes g: "storage_grows db db'" and ok: "storage_ok db"
    and "sg_artifacts db' = sg_artifacts db \<or> (artifacts_ok db \<longrightarrow> artifacts_ok db')"
    and "sg_runs db' = sg_runs db \<or> (runs_ok db \<longrightarrow> runs_ok db')"
    and "sg_policies db' = sg_policies db \<or> (policies_ok db \<longrightarrow> policies_ok db')"
    and "sg_attempts db' = sg_attempts db \<or> (attempts_ok db \<longrightarrow> attempts_ok db')"
    and "sg_cache db' = sg_cache db \<or> (cache_ok db \<longrightarrow> cache_ok db')"
    and "sg_sources db' = sg_sources db \<or> (sources_ok db \<longrightarrow> sources_ok db')"
    and "sg_results db' = sg_results db \<or> (results_ok db \<longrightarrow> results_ok db')"
    and "sg_evidence db' = sg_evidence db \<or> (evidence_table_ok db \<longrightarrow> evidence_table_ok db')"
    and "sg_links db' = sg_links db \<or> (links_ok db \<longrightarrow> links_ok db')"
    and "sg_checkpoints db' = sg_checkpoints db \<or> (checkpoints_ok db \<longrightarrow> checkpoints_ok db')"
    and "sg_exports db' = sg_exports db \<or> (export_table_ok db \<longrightarrow> export_table_ok db')"
  shows "storage_ok db'"
proof -
  note mono = references_mono [OF g]
  have legacy: "sg_legacy db' = sg_legacy db" using g by (simp add: storage_grows_def)
  have "artifacts_ok db'" using assms(3) ok unfolding storage_ok_def artifacts_ok_def by auto
  have "runs_ok db'" using assms(4) ok mono legacy unfolding storage_ok_def runs_ok_def list_all_iff by auto
  have "policies_ok db'" using assms(5) ok mono legacy unfolding storage_ok_def policies_ok_def list_all_iff by auto
  have "attempts_ok db'" using assms(6) ok mono legacy unfolding storage_ok_def attempts_ok_def list_all_iff by auto
  have "cache_ok db'" using assms(7) ok mono legacy unfolding storage_ok_def cache_ok_def list_all_iff by auto
  have "sources_ok db'" using assms(8) ok mono legacy unfolding storage_ok_def sources_ok_def list_all_iff by auto
  have "results_ok db'" using assms(9) ok mono legacy unfolding storage_ok_def results_ok_def list_all_iff by auto
  have "evidence_table_ok db'" using assms(10) ok mono legacy unfolding storage_ok_def evidence_table_ok_def list_all_iff by auto
  have "links_ok db'" using assms(11) ok mono legacy unfolding storage_ok_def links_ok_def list_all_iff by auto
  have "checkpoints_ok db'" using assms(12) ok mono legacy unfolding storage_ok_def checkpoints_ok_def list_all_iff by auto
  have "export_table_ok db'" using assms(13) ok mono legacy unfolding storage_ok_def export_table_ok_def list_all_iff by auto
  show ?thesis
    unfolding storage_ok_def by (intro conjI) fact+
qed

lemma insert_ok:
  "storage_ok db \<Longrightarrow> insert_artifact a db = Inr db' \<Longrightarrow> storage_ok db'"
  "storage_ok db \<Longrightarrow> insert_run r db = Inr db' \<Longrightarrow> storage_ok db'"
  "storage_ok db \<Longrightarrow> insert_policy p db = Inr db' \<Longrightarrow> storage_ok db'"
  "storage_ok db \<Longrightarrow> insert_attempt t db = Inr db' \<Longrightarrow> storage_ok db'"
  "storage_ok db \<Longrightarrow> insert_cache c db = Inr db' \<Longrightarrow> storage_ok db'"
  "storage_ok db \<Longrightarrow> insert_source s db = Inr db' \<Longrightarrow> storage_ok db'"
  "storage_ok db \<Longrightarrow> insert_result i db = Inr db' \<Longrightarrow> storage_ok db'"
  "storage_ok db \<Longrightarrow> insert_evidence e db = Inr db' \<Longrightarrow> storage_ok db'"
  "storage_ok db \<Longrightarrow> insert_link l db = Inr db' \<Longrightarrow> storage_ok db'"
  "storage_ok db \<Longrightarrow> insert_checkpoint k db = Inr db' \<Longrightarrow> storage_ok db'"
  "storage_ok db \<Longrightarrow> insert_export x db = Inr db' \<Longrightarrow> storage_ok db'"
  by ((rule grown_ok, erule insert_grows, assumption, (auto simp: insert_defs result_simps table_defs
      reference_defs list_all_iff split: if_splits option.splits)) [1])+

lemma insert_sound:
  "insert_artifact a db = Inr db' \<Longrightarrow> sound_step db db'"
  "insert_run r db = Inr db' \<Longrightarrow> sound_step db db'"
  "insert_policy p db = Inr db' \<Longrightarrow> sound_step db db'"
  "insert_attempt t db = Inr db' \<Longrightarrow> sound_step db db'"
  "insert_cache c db = Inr db' \<Longrightarrow> sound_step db db'"
  "insert_source s db = Inr db' \<Longrightarrow> sound_step db db'"
  "insert_result i db = Inr db' \<Longrightarrow> sound_step db db'"
  "insert_evidence e db = Inr db' \<Longrightarrow> sound_step db db'"
  "insert_link l db = Inr db' \<Longrightarrow> sound_step db db'"
  "insert_checkpoint k db = Inr db' \<Longrightarrow> sound_step db db'"
  "insert_export x db = Inr db' \<Longrightarrow> sound_step db db'"
  by (simp_all add: sound_step_def insert_grows) (blast intro: insert_ok)+

lemma update_run_sound:
  assumes "update_run i f db = Inr (n, db')"
    and "\<And>r. run_identity (f r) = run_identity r"
  shows "sound_step db db'"
proof -
  let ?g = "\<lambda>r. if ur_analysis_id r = i then f r else r"
  from assms(1) have db': "db' = db\<lparr>sg_runs := map ?g (sg_runs db)\<rparr>"
    and checks: "\<forall>r \<in> set (sg_runs db). ur_analysis_id (?g r) = i \<longrightarrow> run_checks (sg_legacy db) (?g r)"
    by (auto simp: update_run_def Let_def result_simps list_all_iff)
  have same: "run_identity (?g r) = run_identity r" for r using assms(2) by simp
  then have keep: "ur_analysis_id (?g r) = ur_analysis_id r"
      "ur_request_artifact_sha256 (?g r) = ur_request_artifact_sha256 r" for r
    by (metis run_identity_keeps)+
  have ids: "map ur_analysis_id (map ?g (sg_runs db)) = map ur_analysis_id (sg_runs db)"
    using keep(1) by simp
  have grows: "storage_grows db db'" using same by (simp add: storage_grows_def db' comp_def)
  have "runs_ok db \<longrightarrow> runs_ok db'"
  proof
    assume ok: "runs_ok db"
    have "run_checks (sg_legacy db) (?g r)" if "r \<in> set (sg_runs db)" for r
    proof (cases "ur_analysis_id r = i")
      case True
      with checks keep(1) that show ?thesis by metis
    next
      case False
      with ok that show ?thesis by (simp add: runs_ok_def list_all_iff)
    qed
    moreover have "artifact_exists db' (ur_request_artifact_sha256 (?g r))" if "r \<in> set (sg_runs db)" for r
      using ok that keep(2) by (simp add: runs_ok_def list_all_iff db' artifact_exists_def)
    moreover have "distinct (map ur_analysis_id (sg_runs db'))" using ok ids by (simp add: runs_ok_def db' del: map_map)
    ultimately show "runs_ok db'" by (simp add: runs_ok_def db' list.pred_map) (simp add: list_all_iff)
  qed
  then have "storage_ok db \<longrightarrow> storage_ok db'" using grown_ok [OF grows] by (simp add: db')
  with grows show ?thesis by (simp add: sound_step_def)
qed

lemma fold_result_sound:
  assumes "fold_result f db xs = Inr db'" and "\<And>d x d'. x \<in> set xs \<Longrightarrow> f d x = Inr d' \<Longrightarrow> sound_step d d'"
  shows "sound_step db db'"
  by (rule fold_result_invariant [OF assms(1), of "sound_step db"]) (use assms(2) sound_step_trans in auto)

subsection \<open>Operations\<close>

text \<open>\<open>sound m\<close>: whatever the outcome of \<open>m\<close>, the database it leaves has grown and is as sound as before.\<close>

definition sound :: "'a action \<Rightarrow> bool" where
  "sound m \<longleftrightarrow> (\<forall>db. sound_step db (snd (m db)))"

lemma sound_transaction:
  "(\<And>db x db'. body db = Inr (x, db') \<Longrightarrow> sound_step db db') \<Longrightarrow> sound (transaction body)"
  by (auto simp: sound_def transaction_def split: sum.splits)

lemma sound_reading [simp]: "sound (reading r)"
  by (simp add: sound_def reading_def)

lemma sound_query [simp]: "sound (\<lambda>db. (q db, db))"
  by (simp add: sound_def)

lemma sound_act_then: "sound m \<Longrightarrow> (\<And>x. sound (f x)) \<Longrightarrow> sound (act_then m f)"
proof -
  assume m: "sound m" and f: "\<And>x. sound (f x)"
  have "sound_step db (snd (act_then m f db))" for db
  proof (cases "m db")
    case (Pair r db')
    with m have "sound_step db db'" by (metis sound_def snd_conv)
    moreover have "sound_step db' (snd (f x db'))" for x using f by (simp add: sound_def)
    ultimately show ?thesis using Pair sound_step_trans by (cases r) (auto simp: act_then_def)
  qed
  then show ?thesis by (simp add: sound_def)
qed

lemma record_artifact_sound: "sound (record_artifact r)"
  unfolding record_artifact_def
  by (rule sound_transaction) (auto simp: result_simps insert_sound)

lemma finish_run_sound: "sound (finish_run i status t)"
  unfolding finish_run_def
  by (intro sound_act_then sound_reading sound_transaction) (auto elim: update_run_sound simp: run_identity_def)

lemma create_run_sound: "sound (create_run env run a v t)"
  unfolding create_run_def
  by (intro sound_act_then sound_reading sound_query record_artifact_sound sound_transaction)
    (auto simp: result_simps intro: sound_step_trans insert_sound)

lemma save_attempts_sound: "sound (save_attempts env i request attempts sha)"
proof -
  have "sound (transaction (\<lambda>d. and_then
      (fold_result (\<lambda>d a. insert_attempt (attempt_row_for i request sha a) d) d p) (\<lambda>d1. Inr (p, d1))))" for p
    by (rule sound_transaction) (auto simp: result_simps intro: fold_result_sound insert_sound)
  then have "sound (\<lambda>db. transaction (\<lambda>d. and_then
      (fold_result (\<lambda>d a. insert_attempt (attempt_row_for i request sha a) d) d (p db)) (\<lambda>d1. Inr (p db, d1))) db)"
    for p :: "storage \<Rightarrow> source_attempt list"
    by (simp add: sound_def)
  then show ?thesis unfolding save_attempts_def Let_def by (intro sound_act_then sound_reading) auto
qed

lemma put_cache_sound: "sound (put_cache env r)"
  unfolding put_cache_def
  by (intro sound_act_then sound_reading sound_transaction) (auto simp: result_simps insert_sound)

lemma save_checkpoint_sound: "sound (save_checkpoint env i stage cursor completed t)"
proof -
  have "sound_step db (snd (transaction (\<lambda>d. and_then (insert_checkpoint (checkpoint_row_for k) d) (\<lambda>db1. Inr (k, db1))) db))"
    for k db
    using insert_sound(10) by (auto simp: transaction_def result_simps split: sum.splits)
  then have "sound (\<lambda>db. transaction (\<lambda>d. and_then (insert_checkpoint (checkpoint_row_for (k db)) d)
      (\<lambda>db1. Inr (k db, db1))) db)" for k :: "storage \<Rightarrow> checkpoint_record"
    by (simp add: sound_def)
  then show ?thesis unfolding save_checkpoint_def Let_def by (intro sound_act_then sound_reading) auto
qed

lemma save_result_sound: "sound (save_result env doc t)"
proof -
  have steps:
    "save_sources doc db = Inr db' \<Longrightarrow> sound_step db db'"
    "save_result_items doc t db = Inr db' \<Longrightarrow> sound_step db db'"
    "save_evidence env doc db = Inr db' \<Longrightarrow> sound_step db db'"
    "save_result_evidence_links doc t db = Inr db' \<Longrightarrow> sound_step db db'" for db db'
    unfolding save_sources_def save_result_items_def save_evidence_def save_result_evidence_links_def
    by (rule fold_result_sound, assumption, (erule insert_sound | (erule fold_result_sound, erule insert_sound)))+
  have update: "update_run i (\<lambda>r. r\<lparr>ur_status := st, ur_started_at := a, ur_finished_at := b, ur_updated_at := c\<rparr>) db
      = Inr (n, db') \<Longrightarrow> sound_step db db'" for i st a b c db n db'
    by (erule update_run_sound) (simp add: run_identity_def)
  show ?thesis
    unfolding save_result_def
    by (intro sound_act_then sound_reading sound_transaction)
      (auto simp: result_simps dest!: steps update, meson sound_step_trans)
qed

lemma link_result_evidence_sound: "sound (link_result_evidence i r e role t)"
  unfolding link_result_evidence_def
  by (rule sound_transaction) (auto simp: result_simps insert_sound)

lemma record_export_sound: "sound (record_export x)"
  unfolding record_export_def
  by (intro sound_act_then record_artifact_sound sound_transaction) (auto simp: result_simps insert_sound)

subsection \<open>Histories\<close>

text \<open>
  One call of an operation that writes, with its result ignored; a stage of the checkpoint runner is
  the calls its operation makes, and the save of its checkpoint.
\<close>

inductive storage_step :: "storage_env \<Rightarrow> storage \<Rightarrow> storage \<Rightarrow> bool" for env where
  step_artifact: "storage_step env db (snd (record_artifact a db))"
| step_create: "storage_step env db (snd (create_run env run a v t db))"
| step_finish: "storage_step env db (snd (finish_run i status t db))"
| step_attempts: "storage_step env db (snd (save_attempts env i request attempts sha db))"
| step_cache: "storage_step env db (snd (put_cache env c db))"
| step_checkpoint: "storage_step env db (snd (save_checkpoint env i stage cursor completed t db))"
| step_result: "storage_step env db (snd (save_result env doc t db))"
| step_export: "storage_step env db (snd (record_export x db))"
| step_link: "storage_step env db (snd (link_result_evidence i r e role t db))"

inductive storage_reachable :: "storage_env \<Rightarrow> storage \<Rightarrow> bool" for env where
  fresh: "storage_reachable env empty_storage"
| more: "storage_reachable env db \<Longrightarrow> storage_step env db db' \<Longrightarrow> storage_reachable env db'"

lemmas operations_sound =
  record_artifact_sound create_run_sound finish_run_sound save_attempts_sound put_cache_sound
  save_checkpoint_sound save_result_sound record_export_sound link_result_evidence_sound

lemma storage_step_sound: "storage_step env db db' \<Longrightarrow> sound_step db db'"
  by (induction rule: storage_step.induct) (use operations_sound in \<open>auto simp: sound_def\<close>)

lemma storage_steps_sound: "(storage_step env)\<^sup>*\<^sup>* db db' \<Longrightarrow> sound_step db db'"
  by (induction rule: rtranclp_induct) (auto intro: sound_step_trans storage_step_sound)

lemma empty_storage_ok: "storage_ok empty_storage"
  by (simp add: storage_ok_def table_defs empty_storage_def)

lemma storage_reachable_ok: "storage_reachable env db \<Longrightarrow> storage_ok db"
proof (induction rule: storage_reachable.induct)
  case fresh
  show ?case by (rule empty_storage_ok)
next
  case (more db db')
  then show ?case using storage_step_sound by (auto simp: sound_step_def)
qed

end
