(* ===== verification/Write_Once.thy ===== *)
theory Write_Once
  imports Storage_Invariant
begin

section \<open>Write-once tables\<close>

text \<open>
  Artifacts, cache entries and exports share a contract: the first row of a key stays, a later record
  of the key is accepted when it agrees with that row on what the code compares, and raises
  otherwise. The locale states the contract; it is interpreted on the three operations.
\<close>

locale write_once =
  fixes put :: "'r \<Rightarrow> 's \<Rightarrow> ('e + unit) \<times> 's"
    and lookup :: "'s \<Rightarrow> 'k \<Rightarrow> 'row option"
    and key :: "'r \<Rightarrow> 'k"
    and agrees :: "'r \<Rightarrow> 'row \<Rightarrow> bool"
  assumes put_found: "put r s = (Inr (), s') \<Longrightarrow> \<exists>row. lookup s' (key r) = Some row \<and> agrees r row"
    and put_keeps: "lookup s k = Some row \<Longrightarrow> lookup (snd (put r s)) k = Some row"
    and put_other: "k \<noteq> key r \<Longrightarrow> lookup (snd (put r s)) k = lookup s k"
begin

lemma conflict_raises:
  assumes "lookup s (key r) = Some row" and "\<not> agrees r row"
  shows "\<exists>e. fst (put r s) = Inl e"
proof (cases "fst (put r s)")
  case (Inr u)
  then have "put r s = (Inr (), snd (put r s))" by (metis old.unit.exhaust prod.collapse)
  from put_found [OF this] put_keeps [OF assms(1)] assms(2) show ?thesis by auto
qed simp

lemma puts_keep:
  "lookup s k = Some row \<Longrightarrow> lookup (fold (\<lambda>r s. snd (put r s)) rs s) k = Some row"
  by (induction rs arbitrary: s) (auto intro: put_keeps)

lemma puts_other:
  "k \<notin> key ` set rs \<Longrightarrow> lookup (fold (\<lambda>r s. snd (put r s)) rs s) k = lookup s k"
  by (induction rs arbitrary: s) (auto simp: put_other)

lemma puts_agree:
  assumes "put r s = (Inr (), s1)" and "s2 = fold (\<lambda>r s. snd (put r s)) rs s1"
    and "put r' s2 = (Inr (), s3)" and "key r' = key r"
  shows "\<exists>row. lookup s1 (key r) = Some row \<and> lookup s3 (key r) = Some row \<and> agrees r row \<and> agrees r' row"
proof -
  from put_found [OF assms(1)] obtain row where row: "lookup s1 (key r) = Some row" "agrees r row" by blast
  then have "lookup s2 (key r) = Some row" using puts_keep assms(2) by blast
  then have "lookup s3 (key r) = Some row" using put_keeps [of s2 "key r" row r'] assms(3) by simp
  with put_found [OF assms(3)] assms(4) row show ?thesis by auto
qed

end

subsection \<open>The three tables\<close>

lemma find_append: "find P (xs @ ys) = (case find P xs of None \<Rightarrow> find P ys | Some x \<Rightarrow> Some x)"
  by (induction xs) auto

lemma find_prefix: "prefix xs ys \<Longrightarrow> find P xs = Some x \<Longrightarrow> find P ys = Some x"
  by (auto simp: prefix_def find_append)

lemma find_key: "k \<in> set (map key xs) \<Longrightarrow> \<exists>x. find (\<lambda>x. key x = k) xs = Some x \<and> key x = k"
  by (induction xs) auto

lemma find_keyD: "find (\<lambda>x. key x = k) xs = Some x \<Longrightarrow> x \<in> set xs \<and> key x = k"
  by (auto simp: find_Some_iff)

definition find_cache :: "storage \<Rightarrow> string \<Rightarrow> cache_row option" where
  "find_cache db k = find (\<lambda>c. uc_cache_key c = k) (sg_cache db)"

definition find_export :: "storage \<Rightarrow> string \<Rightarrow> export_row option" where
  "find_export db k = find (\<lambda>x. ux_export_id x = k) (sg_exports db)"

definition artifact_agrees :: "artifact_record \<Rightarrow> artifact_record \<Rightarrow> bool" where
  "artifact_agrees r a \<longleftrightarrow> ar_byte_length a = ar_byte_length r \<and> ar_relative_path a = ar_relative_path r"

definition cache_agrees :: "cache_record \<Rightarrow> cache_row \<Rightarrow> bool" where
  "cache_agrees r c \<longleftrightarrow>
     uc_source_id c = cr_source_id r \<and> uc_provider_id c = cr_provider_id r
     \<and> uc_artifact_sha256 c = cr_artifact_sha256 r"

definition export_agrees :: "export_record \<Rightarrow> export_row \<Rightarrow> bool" where
  "export_agrees x r \<longleftrightarrow>
     ux_artifact_sha256 r = ar_sha256 (xr_artifact x) \<and> ux_schema_version r = xr_schema_version x"

lemma act_then_cases:
  "act_then m f db = (case fst (m db) of Inl e \<Rightarrow> (Inl e, snd (m db)) | Inr x \<Rightarrow> f x (snd (m db)))"
  by (auto simp: act_then_def split: prod.splits sum.splits)

lemma transaction_simps:
  "fst (transaction body db) = Inr x \<longleftrightarrow> (\<exists>db'. body db = Inr (x, db'))"
  "body db = Inr (x, db') \<Longrightarrow> transaction body db = (Inr x, db')"
  "body db = Inl e \<Longrightarrow> transaction body db = (Inl e, db)"
  by (auto simp: transaction_def split: sum.splits)

lemma transaction_eq_Inr: "transaction body db = (Inr x, db') \<longleftrightarrow> body db = Inr (x, db')"
  by (auto simp: transaction_def split: sum.splits)

lemma transaction_eq_Inl: "transaction body db = (Inl e, db') \<longleftrightarrow> body db = Inl e \<and> db' = db"
  by (auto simp: transaction_def split: sum.splits)

lemma act_then_eq_Inr:
  "act_then m f db = (Inr y, db') \<longleftrightarrow> (\<exists>x db1. m db = (Inr x, db1) \<and> f x db1 = (Inr y, db'))"
  by (auto simp: act_then_def split: prod.splits sum.splits)

lemma reading_eq: "reading r db = (r', db') \<longleftrightarrow> r = r' \<and> db' = db"
  by (auto simp: reading_def)

lemmas action_simps = transaction_eq_Inr transaction_eq_Inl act_then_eq_Inr reading_eq

lemma sound_grows: "sound m \<Longrightarrow> storage_grows db (snd (m db))"
  by (simp add: sound_def sound_step_def)

lemma lookups_grow:
  assumes "storage_grows db db'"
  shows "get_artifact db k = Some a \<Longrightarrow> get_artifact db' k = Some a"
    and "find_cache db k = Some c \<Longrightarrow> find_cache db' k = Some c"
    and "find_export db k = Some x \<Longrightarrow> find_export db' k = Some x"
  using assms
  by (auto simp: storage_grows_def get_artifact_def find_cache_def find_export_def elim: find_prefix)

lemma insert_found:
  "insert_artifact r db = Inr db' \<Longrightarrow> \<exists>a. get_artifact db' (ar_sha256 r) = Some a"
  "insert_cache c db = Inr db' \<Longrightarrow> \<exists>a. find_cache db' (uc_cache_key c) = Some a"
  "insert_export x db = Inr db' \<Longrightarrow> \<exists>a. find_export db' (ux_export_id x) = Some a"
proof -
  assume "insert_artifact r db = Inr db'"
  then have "ar_sha256 r \<in> set (map ar_sha256 (sg_artifacts db'))"
    by (auto simp: insert_artifact_def artifact_exists_def result_simps split: if_splits)
  from find_key [OF this] show "\<exists>a. get_artifact db' (ar_sha256 r) = Some a" by (auto simp: get_artifact_def)
next
  assume "insert_cache c db = Inr db'"
  then have "uc_cache_key c \<in> set (map uc_cache_key (sg_cache db'))"
    by (auto simp: insert_cache_def result_simps split: if_splits)
  from find_key [OF this] show "\<exists>a. find_cache db' (uc_cache_key c) = Some a" by (auto simp: find_cache_def)
next
  assume "insert_export x db = Inr db'"
  then have "ux_export_id x \<in> set (map ux_export_id (sg_exports db'))"
    by (auto simp: insert_export_def result_simps split: if_splits)
  from find_key [OF this] show "\<exists>a. find_export db' (ux_export_id x) = Some a" by (auto simp: find_export_def)
qed

lemma record_artifact_Inr:
  "record_artifact r db = (Inr (), db') \<longleftrightarrow>
     insert_artifact r db = Inr db' \<and> (\<exists>a. get_artifact db' (ar_sha256 r) = Some a \<and> artifact_agrees r a)"
  unfolding record_artifact_def action_simps get_artifact_def [symmetric]
  by (auto simp: result_simps artifact_agrees_def dest: insert_found(1) split: option.splits)

lemma transaction_keeps:
  "P db \<Longrightarrow> (\<And>x db'. body db = Inr (x, db') \<Longrightarrow> P db') \<Longrightarrow> P (snd (transaction body db))"
  by (auto simp: transaction_def split: sum.split)

lemma act_then_keeps:
  "P (snd (m db)) \<Longrightarrow> (\<And>x. P (snd (f x (snd (m db))))) \<Longrightarrow> P (snd (act_then m f db))"
  by (auto simp: act_then_cases split: sum.split)

lemma insert_other:
  "insert_artifact r db = Inr db' \<Longrightarrow> k \<noteq> ar_sha256 r \<Longrightarrow> get_artifact db' k = get_artifact db k"
  "insert_cache c db = Inr db' \<Longrightarrow> k \<noteq> uc_cache_key c \<Longrightarrow> find_cache db' k = find_cache db k"
  "insert_export x db = Inr db' \<Longrightarrow> k \<noteq> ux_export_id x \<Longrightarrow> find_export db' k = find_export db k"
  by (auto simp: insert_artifact_def insert_cache_def insert_export_def get_artifact_def find_cache_def
      find_export_def result_simps find_append split: if_splits option.splits)

lemma record_artifact_other:
  "k \<noteq> ar_sha256 r \<Longrightarrow> get_artifact (snd (record_artifact r db)) k = get_artifact db k"
  unfolding record_artifact_def
  by (rule transaction_keeps [of "\<lambda>d. get_artifact d k = get_artifact db k"]) (auto simp: result_simps insert_other)

lemma record_artifact_exports: "find_export (snd (record_artifact r db)) k = find_export db k"
  unfolding record_artifact_def
  by (rule transaction_keeps [of "\<lambda>d. find_export d k = find_export db k"])
    (auto simp: result_simps insert_artifact_def find_export_def split: if_splits)

interpretation artifacts: write_once record_artifact get_artifact ar_sha256 artifact_agrees
  by unfold_locales
    (auto simp: record_artifact_Inr record_artifact_other intro: lookups_grow sound_grows record_artifact_sound)

lemma put_cache_Inr:
  "put_cache env r db = (Inr (), db') \<longleftrightarrow>
     (cr_immutability r = ''immutable'' \<longrightarrow> cr_block_tag r \<notin> {None, Some ''latest'', Some ''pending''})
     \<and> (cr_immutability r \<noteq> ''immutable'' \<longrightarrow> cr_expires_at r \<noteq> None)
     \<and> storage_guard env
         (JObj [(''source_id'', JStr (cr_source_id r)), (''provider_id'', JStr (cr_provider_id r)),
                (''capability'', JStr (cr_capability r)), (''block_tag'', json_opt_text (cr_block_tag r)),
                (''endpoint_host'', JStr (cr_endpoint_host r)),
                (''endpoint_path'', JStr (cr_endpoint_path r))]) = Inr ()
     \<and> insert_cache (cache_row_for r) db = Inr db'
     \<and> (\<exists>c. find_cache db' (cr_cache_key r) = Some c \<and> cache_agrees r c)"
proof -
  have "\<exists>c. find_cache db' (cr_cache_key r) = Some c" if "insert_cache (cache_row_for r) db = Inr db'"
    using insert_found(2) [OF that] by (simp add: cache_row_for_def)
  then show ?thesis
    unfolding put_cache_def act_then_eq_Inr reading_eq transaction_eq_Inr find_cache_def [symmetric]
    by (auto simp: result_simps cache_agrees_def split: option.splits)
qed

lemma put_cache_other:
  "k \<noteq> cr_cache_key r \<Longrightarrow> find_cache (snd (put_cache env r db)) k = find_cache db k"
  unfolding put_cache_def
  by (rule act_then_keeps [of "\<lambda>d. find_cache d k = find_cache db k"], simp add: reading_def,
      rule transaction_keeps [of "\<lambda>d. find_cache d k = find_cache db k"])
    (auto simp: reading_def result_simps insert_other cache_row_for_def)

interpretation cache: write_once "put_cache env" find_cache cr_cache_key cache_agrees for env
  by unfold_locales
    (auto simp: put_cache_Inr put_cache_other intro: lookups_grow sound_grows put_cache_sound)

lemma record_export_Inr:
  assumes "record_export x db = (Inr (), db')"
  shows "\<exists>r. find_export db' (xr_export_id x) = Some r \<and> export_agrees x r"
proof -
  from assms obtain db1 where ins: "insert_export
      \<lparr>ux_export_id = xr_export_id x, ux_analysis_id = xr_analysis_id x, ux_export_type = xr_export_type x,
       ux_artifact_sha256 = ar_sha256 (xr_artifact x), ux_schema_version = xr_schema_version x,
       ux_created_at = xr_created_at x\<rparr> db1 = Inr db'"
    and agree: "case find_export db' (xr_export_id x) of None \<Rightarrow> True | Some r \<Rightarrow> export_agrees x r"
    unfolding record_export_def act_then_eq_Inr transaction_eq_Inr find_export_def [symmetric]
    by (auto simp: result_simps export_agrees_def split: option.splits)
  from insert_found(3) [OF ins] have "find_export db' (xr_export_id x) \<noteq> None" by simp
  with agree show ?thesis by (auto split: option.splits)
qed

lemma record_export_other:
  "k \<noteq> xr_export_id x \<Longrightarrow> find_export (snd (record_export x db)) k = find_export db k"
  unfolding record_export_def
  by (rule act_then_keeps [of "\<lambda>d. find_export d k = find_export db k"],
      simp add: record_artifact_exports,
      rule transaction_keeps [of "\<lambda>d. find_export d k = find_export db k"])
    (auto simp: result_simps insert_other record_artifact_exports)

interpretation exports: write_once record_export find_export xr_export_id export_agrees
  by unfold_locales
    (auto simp: record_export_other intro: record_export_Inr lookups_grow sound_grows record_export_sound)

end
