(* ===== verification/Storage_Properties.thy ===== *)
theory Storage_Properties
  imports Write_Once Evidence_Properties
begin

section \<open>What the stores guarantee\<close>

text \<open>
  Properties of the workspace database and of the artifact store: integrity, write-once provenance,
  checkpoints and resumed stages, stored results.
\<close>

subsection \<open>Columns\<close>

lemma load_texts_dumps [simp]: "load_texts (dumps (json_texts xs)) = Inr xs"
proof -
  have "json_ok (json_texts xs)" by (simp add: json_texts_def list_all_iff)
  moreover have "sorted_json (json_texts xs) = json_texts xs" by (simp add: json_texts_def)
  ultimately have "loads (dumps (json_texts xs)) = Some (json_texts xs)" using loads_dumps by metis
  then show ?thesis by (simp add: load_texts_def json_texts_def list_all_iff comp_def)
qed

lemma foldr_max_ge: "x \<in> set xs \<Longrightarrow> x \<le> foldr max xs (n::nat)"
  by (induction xs) auto

lemma sql_length_hex [simp]: "sql_length (sha256_hex m) = 64"
proof -
  have "\<forall>c \<in> set (sha256_hex m). c \<noteq> CHR 0x00"
    using sha256_hex_digits [of m] by (auto simp: hex_digits_def)
  then show ?thesis by (simp add: sql_length_def takeWhile_eq_all_conv [THEN iffD2])
qed

lemma sql_length_canonical [simp]: "sql_length (canonical_sha256 v) = 64"
  by (simp add: canonical_sha256_def)

subsection \<open>Checkpoints\<close>

lemma save_checkpoint_Inr:
  "save_checkpoint env i stage cursor completed t db = (Inr k, db') \<longleftrightarrow>
     storage_guard env (checkpoint_state i stage cursor completed) = Inr ()
     \<and> k = next_checkpoint db i stage cursor completed t
     \<and> insert_checkpoint (checkpoint_row_for k) db = Inr db'"
  by (auto simp: save_checkpoint_def Let_def action_simps result_simps)

lemma next_checkpoint_fields [simp]:
  "kp_analysis_id (next_checkpoint db i stage cursor completed t) = i"
  "kp_stage (next_checkpoint db i stage cursor completed t) = stage"
  "kp_revision (next_checkpoint db i stage cursor completed t) = next_revision db i stage"
  "kp_cursor (next_checkpoint db i stage cursor completed t) = cursor"
  "kp_completed_evidence_ids (next_checkpoint db i stage cursor completed t) = completed"
  by (simp_all add: next_checkpoint_def Let_def)

lemma revisions_below: "r \<in> set (stage_checkpoints db i stage) \<Longrightarrow> uk_revision r < next_revision db i stage"
  using foldr_max_ge [of "uk_revision r" "map uk_revision (stage_checkpoints db i stage)" 0]
  by (simp add: next_revision_def)

lemma sort_key_greatest:
  assumes "\<And>x. x \<in> set xs \<Longrightarrow> f x < (f y :: nat)"
  shows "sort_key f (xs @ [y]) = sort_key f xs @ [y]"
proof -
  have "insort_key f x (ys @ [y]) = insort_key f x ys @ [y]" if "f x < f y" for x ys
    using that by (induction ys) auto
  with assms show ?thesis by (induction xs) auto
qed

lemma latest_after_save:
  assumes "save_checkpoint env i stage cursor completed t db = (Inr k, db')" and "json_ok cursor"
  shows "latest_checkpoint db' i stage = Inr (Some (k\<lparr>kp_cursor := sorted_json cursor\<rparr>))"
proof -
  let ?row = "checkpoint_row_for k"
  from assms(1) have k: "k = next_checkpoint db i stage cursor completed t"
    and db': "db' = db\<lparr>sg_checkpoints := sg_checkpoints db @ [?row]\<rparr>"
    by (auto simp: save_checkpoint_Inr insert_checkpoint_def result_simps)
  have "stage_checkpoints db' i stage = stage_checkpoints db i stage @ [?row]"
    by (simp add: stage_checkpoints_def db' checkpoint_row_for_def k)
  moreover have "uk_revision r < uk_revision ?row" if "r \<in> set (stage_checkpoints db i stage)" for r
    using revisions_below [OF that] by (simp add: checkpoint_row_for_def k)
  ultimately have "rev (sort_key uk_revision (stage_checkpoints db' i stage))
      = ?row # rev (sort_key uk_revision (stage_checkpoints db i stage))"
    using sort_key_greatest [of "stage_checkpoints db i stage" uk_revision ?row] by simp
  moreover have "loads (uk_cursor_json ?row) = Some (sorted_json cursor)"
    using loads_dumps [OF assms(2)] by (simp add: checkpoint_row_for_def k)
  moreover have "load_texts (uk_completed_evidence_ids_json ?row) = Inr completed"
    by (simp add: checkpoint_row_for_def k)
  ultimately show ?thesis by (simp add: latest_checkpoint_def checkpoint_row_for_def k)
qed

text \<open>
  Checkpoints of a stage form a history. A saved checkpoint has a revision above all earlier ones
  of its stage, and is what a resume reads back, with the fields of its cursor sorted; what was
  completed is read back as it was.
\<close>

theorem checkpoint_round_trip:
  assumes "save_checkpoint env i stage cursor completed t db = (Inr k, db')" and "json_ok cursor"
  shows "latest_checkpoint db' i stage = Inr (Some (k\<lparr>kp_cursor := sorted_json cursor\<rparr>))
    \<and> kp_completed_evidence_ids k = completed \<and> kp_cursor k = cursor
    \<and> (\<forall>r \<in> set (stage_checkpoints db i stage). uk_revision r < kp_revision k)"
  using latest_after_save [OF assms] assms(1) revisions_below by (auto simp: save_checkpoint_Inr)

lemma stage_checkpoints_grow:
  "storage_grows db db' \<Longrightarrow> stage_checkpoints db i stage \<noteq> [] \<Longrightarrow> stage_checkpoints db' i stage \<noteq> []"
  by (auto simp: storage_grows_def prefix_def stage_checkpoints_def)

lemma run_once_resumes:
  assumes "stage_checkpoints db i stage \<noteq> []"
  shows "run_once env i stage operation t db =
     (case latest_checkpoint db i stage of
        Inr (Some k) \<Rightarrow> Inr \<lparr>sx_checkpoint = k, sx_resumed = True\<rparr> | _ \<Rightarrow> Inl Json_Decode_Error, db)"
proof -
  obtain r rs where r: "rev (sort_key uk_revision (stage_checkpoints db i stage)) = r # rs"
    using assms by (metis list.exhaust rev_is_Nil_conv sort_key_simps(1) set_empty set_sort)
  have "latest_checkpoint db i stage = Inl Json_Decode_Error \<or> (\<exists>k. latest_checkpoint db i stage = Inr (Some k))"
    by (cases "load_texts (uk_completed_evidence_ids_json r)")
      (auto simp: latest_checkpoint_def r load_texts_def split: option.splits json.splits if_splits)
  then show ?thesis by (auto simp: run_once_def act_then_def reading_def)
qed

text \<open>
  C16: A stage runs once. When a run of a stage has returned, every later run of the stage, after any
  operations on the database, leaves the database alone and returns something that does not depend on
  the stage's operation; right after it, this is the checkpoint of the first run, as resumed.
\<close>

theorem stage_runs_once:
  assumes "run_once env i stage operation t db = (Inr x, db1)" and "(storage_step env)\<^sup>*\<^sup>* db1 db2"
  shows "(\<exists>r. \<forall>operation' t'. run_once env i stage operation' t' db2 = (r, db2))
    \<and> (\<not> sx_resumed x \<and> json_ok (kp_cursor (sx_checkpoint x)) \<longrightarrow>
        run_once env i stage operation' t' db1
          = (Inr \<lparr>sx_checkpoint = (sx_checkpoint x)\<lparr>kp_cursor := sorted_json (kp_cursor (sx_checkpoint x))\<rparr>,
                  sx_resumed = True\<rparr>, db1))"
proof -
  have latest: "sx_resumed x \<and> db1 = db \<and> latest_checkpoint db i stage = Inr (Some (sx_checkpoint x))
    \<or> \<not> sx_resumed x \<and> (\<exists>cursor completed d. save_checkpoint env i stage cursor completed t d = (Inr (sx_checkpoint x), db1))"
    using assms(1) by (auto simp: run_once_def act_then_eq_Inr reading_eq split: option.splits prod.splits)
  then have "stage_checkpoints db1 i stage \<noteq> []"
    by (auto simp: latest_checkpoint_def stage_checkpoints_def save_checkpoint_Inr insert_checkpoint_def
        result_simps checkpoint_row_for_def split: list.splits)
  moreover have "storage_grows db1 db2" using storage_steps_sound [OF assms(2)] by (simp add: sound_step_def)
  ultimately have later: "stage_checkpoints db2 i stage \<noteq> []" and now: "stage_checkpoints db1 i stage \<noteq> []"
    using stage_checkpoints_grow by blast+
  have "run_once env i stage operation' t' db1
      = (Inr \<lparr>sx_checkpoint = (sx_checkpoint x)\<lparr>kp_cursor := sorted_json (kp_cursor (sx_checkpoint x))\<rparr>,
              sx_resumed = True\<rparr>, db1)"
    if fresh: "\<not> sx_resumed x" and ok: "json_ok (kp_cursor (sx_checkpoint x))"
  proof -
    from latest fresh obtain cursor completed d
      where save: "save_checkpoint env i stage cursor completed t d = (Inr (sx_checkpoint x), db1)" by blast
    then have "kp_cursor (sx_checkpoint x) = cursor" by (auto simp: save_checkpoint_Inr)
    with latest_after_save [OF save] ok run_once_resumes [OF now] show ?thesis by simp
  qed
  with run_once_resumes [OF later] show ?thesis by blast
qed

subsection \<open>Results\<close>

text \<open>
  A loop of inserts appends the rows of its items when every insert finds its constraints met after
  the ones before it. \<open>g pre\<close> is the database with the rows of \<open>pre\<close>.
\<close>

lemma fold_inserts:
  assumes "\<And>pre x post. xs = pre @ x # post \<Longrightarrow> f (g pre) x = Inr (g (pre @ [x]))"
  shows "fold_result f (g []) xs = Inr (g xs)"
proof -
  have "fold_result f (g pre) post = Inr (g xs)" if "xs = pre @ post" for pre post
    using that
  proof (induction post arbitrary: pre)
    case (Cons x post)
    with assms show ?case by simp
  qed simp
  from this [of "[]"] show ?thesis by simp
qed

lemma save_sources_appends:
  assumes "run_exists db (rs_analysis_id doc)" and "distinct (map sd_source_record_id (rs_sources doc))"
    and "set (map sd_source_record_id (rs_sources doc)) \<inter> set (map us_source_record_id (sg_sources db)) = {}"
  shows "save_sources doc db
    = Inr (db\<lparr>sg_sources := sg_sources db @ map (source_row_for (rs_analysis_id doc)) (rs_sources doc)\<rparr>)"
proof -
  let ?g = "\<lambda>xs. db\<lparr>sg_sources := sg_sources db @ map (source_row_for (rs_analysis_id doc)) xs\<rparr>"
  have "fold_result (\<lambda>d s. insert_source (source_row_for (rs_analysis_id doc) s) d) (?g []) (rs_sources doc)
      = Inr (?g (rs_sources doc))"
    by (rule fold_inserts)
      (use assms in \<open>auto simp: insert_source_def constrained_def source_row_for_def run_exists_def\<close>)
  then show ?thesis by (simp add: save_sources_def)
qed

lemma save_results_appends:
  assumes "run_exists db (rs_analysis_id doc)" and "distinct (map ri_result_id (rs_results doc))"
    and "set (map ri_result_id (rs_results doc)) \<inter> set (map ut_result_id (sg_results db)) = {}"
  shows "save_result_items doc t db
    = Inr (db\<lparr>sg_results := sg_results db @ map (result_row_for (rs_analysis_id doc) t) (rs_results doc)\<rparr>)"
proof -
  let ?g = "\<lambda>xs. db\<lparr>sg_results := sg_results db @ map (result_row_for (rs_analysis_id doc) t) xs\<rparr>"
  have "fold_result (\<lambda>d r. insert_result (result_row_for (rs_analysis_id doc) t r) d) (?g []) (rs_results doc)
      = Inr (?g (rs_results doc))"
    by (rule fold_inserts)
      (use assms in \<open>auto simp: insert_result_def constrained_def result_row_for_def run_exists_def\<close>)
  then show ?thesis by (simp add: save_result_items_def)
qed

lemma save_evidence_appends:
  assumes "run_exists db (rs_analysis_id doc)" and "distinct (map ei_evidence_id (rs_evidence doc))"
    and "set (map ei_evidence_id (rs_evidence doc)) \<inter> set (map ue_evidence_id (sg_evidence db)) = {}"
    and "\<forall>e \<in> set (rs_evidence doc). (ei_source_record_ref e, rs_analysis_id doc)
        \<in> set (map (\<lambda>s. (us_source_record_id s, us_analysis_id s)) (sg_sources db))"
  shows "save_evidence env doc db
    = Inr (db\<lparr>sg_evidence := sg_evidence db @ map (evidence_row_for env (rs_analysis_id doc)) (rs_evidence doc)\<rparr>)"
proof -
  let ?g = "\<lambda>xs. db\<lparr>sg_evidence := sg_evidence db @ map (evidence_row_for env (rs_analysis_id doc)) xs\<rparr>"
  have "fold_result (\<lambda>d e. insert_evidence (evidence_row_for env (rs_analysis_id doc) e) d) (?g []) (rs_evidence doc)
      = Inr (?g (rs_evidence doc))"
    by (rule fold_inserts)
      (use assms in \<open>auto simp: insert_evidence_def constrained_def evidence_row_for_def run_exists_def
        evidence_refs_ok_def\<close>)
  then show ?thesis by (simp add: save_evidence_def)
qed

definition scoring_link :: "string \<Rightarrow> instant \<Rightarrow> string \<times> string \<Rightarrow> link_row" where
  "scoring_link i t = (\<lambda>(r, e).
     \<lparr>ul_result_id = r, ul_evidence_id = e, ul_analysis_id = i, ul_role = ''scoring'', ul_created_at = t\<rparr>)"

definition scored_pairs :: "analysis_result \<Rightarrow> (string \<times> string) list" where
  "scored_pairs doc = concat (map (\<lambda>r. map (Pair (ri_result_id r)) (ri_evidence_refs r)) (rs_results doc))"

lemma links_flat:
  "save_result_evidence_links doc t db
     = fold_result (\<lambda>d p. insert_link (scoring_link (rs_analysis_id doc) t p) d) db (scored_pairs doc)"
proof -
  have "fold_result (\<lambda>d r. fold_result (\<lambda>d e. insert_link (scoring_link i t (ri_result_id r, e)) d) d (ri_evidence_refs r)) db rs
      = fold_result (\<lambda>d p. insert_link (scoring_link i t p) d) db
          (concat (map (\<lambda>r. map (Pair (ri_result_id r)) (ri_evidence_refs r)) rs))" for i rs
    by (induction rs arbitrary: db) (simp_all add: fold_result_append fold_result_map)
  then show ?thesis by (simp add: save_result_evidence_links_def scored_pairs_def scoring_link_def)
qed

lemma save_links_appends:
  assumes "distinct (scored_pairs doc)"
    and "set (scored_pairs doc) \<inter> set (map (\<lambda>l. (ul_result_id l, ul_evidence_id l)) (sg_links db)) = {}"
    and "\<forall>p \<in> set (scored_pairs doc). link_refs db (scoring_link (rs_analysis_id doc) t p)"
  shows "save_result_evidence_links doc t db
    = Inr (db\<lparr>sg_links := sg_links db @ map (scoring_link (rs_analysis_id doc) t) (scored_pairs doc)\<rparr>)"
proof -
  let ?g = "\<lambda>ps. db\<lparr>sg_links := sg_links db @ map (scoring_link (rs_analysis_id doc) t) ps\<rparr>"
  have "fold_result (\<lambda>d p. insert_link (scoring_link (rs_analysis_id doc) t p) d) (?g []) (scored_pairs doc)
      = Inr (?g (scored_pairs doc))"
  proof (rule fold_inserts)
    fix pre p post assume ps: "scored_pairs doc = pre @ p # post"
    have "map (\<lambda>l. (ul_result_id l, ul_evidence_id l)) (map (scoring_link (rs_analysis_id doc) t) pre) = pre"
      by (simp add: scoring_link_def comp_def split_def)
    moreover have "(ul_result_id (scoring_link (rs_analysis_id doc) t p), ul_evidence_id (scoring_link (rs_analysis_id doc) t p)) = p"
      by (simp add: scoring_link_def split_def)
    ultimately show "insert_link (scoring_link (rs_analysis_id doc) t p) (?g pre) = Inr (?g (pre @ [p]))"
      using assms ps by (simp add: insert_link_def constrained_def link_refs_def comp_def del: Pair_inject)
  qed
  then show ?thesis by (simp add: links_flat)
qed

subsection \<open>Storing an accepted result\<close>

definition fresh_ids :: "analysis_result \<Rightarrow> storage \<Rightarrow> bool" where
  "fresh_ids doc db \<longleftrightarrow>
     set (map sd_source_record_id (rs_sources doc)) \<inter> set (map us_source_record_id (sg_sources db)) = {}
     \<and> set (map ri_result_id (rs_results doc)) \<inter> set (map ut_result_id (sg_results db)) = {}
     \<and> set (map ei_evidence_id (rs_evidence doc)) \<inter> set (map ue_evidence_id (sg_evidence db)) = {}"

definition finished_run :: "analysis_result \<Rightarrow> instant \<Rightarrow> run_row \<Rightarrow> run_row" where
  "finished_run doc t r =
     (if ur_analysis_id r = rs_analysis_id doc
      then r\<lparr>ur_status := analysis_status_value (rs_status doc),
             ur_started_at := Some (rn_started_at (rs_run doc)),
             ur_finished_at := Some (rn_finished_at (rs_run doc)), ur_updated_at := t\<rparr>
      else r)"

definition stored_result :: "storage_env \<Rightarrow> analysis_result \<Rightarrow> instant \<Rightarrow> storage \<Rightarrow> storage" where
  "stored_result env doc t db =
     db\<lparr>sg_sources := sg_sources db @ map (source_row_for (rs_analysis_id doc)) (rs_sources doc),
        sg_results := sg_results db @ map (result_row_for (rs_analysis_id doc) t) (rs_results doc),
        sg_evidence := sg_evidence db @ map (evidence_row_for env (rs_analysis_id doc)) (rs_evidence doc),
        sg_links := sg_links db @ map (scoring_link (rs_analysis_id doc) t) (scored_pairs doc),
        sg_runs := map (finished_run doc t) (sg_runs db)\<rparr>"

lemma finish_update:
  assumes "list_all (run_checks (sg_legacy db)) (sg_runs db)"
  shows "\<exists>n. update_run (rs_analysis_id doc) (\<lambda>r. r
          \<lparr>ur_status := analysis_status_value (rs_status doc),
           ur_started_at := Some (rn_started_at (rs_run doc)),
           ur_finished_at := Some (rn_finished_at (rs_run doc)), ur_updated_at := t\<rparr>) db
    = Inr (n, db\<lparr>sg_runs := map (finished_run doc t) (sg_runs db)\<rparr>)"
proof -
  have "analysis_status_value st \<in> set result_statuses" for st
    by (cases st) (simp_all add: result_statuses_def)
  with assms show ?thesis
    by (auto simp: update_run_def Let_def finished_run_def [abs_def] raise_if_def list_all_iff run_checks_def)
qed

lemma scored_pairs_distinct:
  assumes "distinct (map ri_result_id (rs_results doc))" and "\<forall>r \<in> set (rs_results doc). distinct (ri_evidence_refs r)"
  shows "distinct (scored_pairs doc)"
proof -
  have "distinct (concat (map (\<lambda>r. map (Pair (ri_result_id r)) (ri_evidence_refs r)) rs))"
    if "distinct (map ri_result_id rs)" "\<forall>r \<in> set rs. distinct (ri_evidence_refs r)" for rs
    using that by (induction rs) (auto simp: distinct_map inj_on_def)
  with assms show ?thesis by (simp add: scored_pairs_def)
qed

lemma validated_result:
  assumes "validate_analysis_result urls doc = Inr ()"
  shows "distinct (map ri_result_id (rs_results doc))" "distinct (map ei_evidence_id (rs_evidence doc))"
    "distinct (map sd_source_record_id (rs_sources doc))"
    "\<forall>r \<in> set (rs_results doc). distinct (ri_evidence_refs r) \<and> set (ri_evidence_refs r) \<subseteq> set (map ei_evidence_id (rs_evidence doc))"
    "\<forall>e \<in> set (rs_evidence doc). ei_source_record_ref e \<in> set (map sd_source_record_id (rs_sources doc))"
proof -
  have refs: "result_references_are_valid doc = Inr ()" and items: "list_all result_item_ok (rs_results doc)"
    using assms by (simp_all add: validate_analysis_result_def variant_accepts_def result_simps)
  then show "distinct (map ri_result_id (rs_results doc))" "distinct (map ei_evidence_id (rs_evidence doc))"
    "distinct (map sd_source_record_id (rs_sources doc))"
    "\<forall>r \<in> set (rs_results doc). distinct (ri_evidence_refs r) \<and> set (ri_evidence_refs r) \<subseteq> set (map ei_evidence_id (rs_evidence doc))"
    by (simp_all add: result_references_are_valid_def Let_def require_unique_def require_known_def result_simps
        list_all_iff result_item_ok_def)
  have "\<forall>e \<in> set (rs_evidence doc).
      \<not> (case index_by sd_source_record_id (rs_sources doc) (ei_source_record_ref e) of
          None \<Rightarrow> True | Some s \<Rightarrow> sd_source_id s \<noteq> ei_source_id e)"
    using refs by (simp add: result_references_are_valid_def Let_def result_simps)
  then have "\<forall>e \<in> set (rs_evidence doc). index_by sd_source_record_id (rs_sources doc) (ei_source_record_ref e) \<noteq> None"
    by (auto split: option.splits)
  then show "\<forall>e \<in> set (rs_evidence doc). ei_source_record_ref e \<in> set (map sd_source_record_id (rs_sources doc))"
    by (auto simp: index_by_None)
qed

text \<open>
  C15: What the analysis contract accepts, the database can hold. Saving a validated result of a run that
  exists, with identifiers not used before, has exactly two outcomes. If the guard finds a forbidden
  value or a local path in the serialised result, the save raises the error of the guard and nothing is
  written; otherwise the result is stored: exactly its sources, results, evidence and links are added and
  the run takes its status. And any save that raises, for whatever reason, changes nothing.
\<close>

theorem valid_result_is_stored:
  assumes "storage_ok db" and "validate_analysis_result urls doc = Inr ()"
    and "run_exists db (rs_analysis_id doc)" and "fresh_ids doc db"
  shows "save_result env doc t db =
      (case storage_guard env (se_result_dict env doc) of
         Inl e \<Rightarrow> (Inl e, db)
       | Inr _ \<Rightarrow> (Inr (), stored_result env doc t db))
    \<and> (\<forall>env' doc' t' d e d'. save_result env' doc' t' d = (Inl e, d') \<longrightarrow> d' = d)"
proof -
  note v = validated_result [OF assms(2)]
  let ?i = "rs_analysis_id doc"
  let ?d1 = "db\<lparr>sg_sources := sg_sources db @ map (source_row_for ?i) (rs_sources doc)\<rparr>"
  let ?d2 = "?d1\<lparr>sg_results := sg_results ?d1 @ map (result_row_for ?i t) (rs_results doc)\<rparr>"
  let ?d3 = "?d2\<lparr>sg_evidence := sg_evidence ?d2 @ map (evidence_row_for env ?i) (rs_evidence doc)\<rparr>"
  let ?d4 = "?d3\<lparr>sg_links := sg_links ?d3 @ map (scoring_link ?i t) (scored_pairs doc)\<rparr>"
  have s1: "save_sources doc db = Inr ?d1"
    using assms(3,4) v(3) by (intro save_sources_appends) (auto simp: fresh_ids_def)
  have s2: "save_result_items doc t ?d1 = Inr ?d2"
    using assms(3,4) v(1) by (intro save_results_appends) (auto simp: fresh_ids_def run_exists_def)
  have s3: "save_evidence env doc ?d2 = Inr ?d3"
  proof (rule save_evidence_appends)
    show "\<forall>e \<in> set (rs_evidence doc). (ei_source_record_ref e, ?i)
        \<in> set (map (\<lambda>s. (us_source_record_id s, us_analysis_id s)) (sg_sources ?d2))"
      using v(5) by (fastforce simp: source_row_for_def image_iff)
  qed (use assms(3,4) v(2) in \<open>auto simp: fresh_ids_def run_exists_def\<close>)
  have pairs: "\<exists>r \<in> set (rs_results doc). ri_result_id r = fst p \<and> snd p \<in> ei_evidence_id ` set (rs_evidence doc)"
    if "p \<in> set (scored_pairs doc)" for p
    using that v(4) by (fastforce simp: scored_pairs_def)
  have s4: "save_result_evidence_links doc t ?d3 = Inr ?d4"
  proof (rule save_links_appends)
    show "distinct (scored_pairs doc)" using v(1,4) by (intro scored_pairs_distinct) auto
    have "ul_result_id l \<in> set (map ut_result_id (sg_results db))" if "l \<in> set (sg_links db)" for l
      using assms(1) that by (fastforce simp: storage_ok_def links_ok_def link_refs_def list_all_iff)
    then show "set (scored_pairs doc) \<inter> set (map (\<lambda>l. (ul_result_id l, ul_evidence_id l)) (sg_links ?d3)) = {}"
      using assms(4) pairs by (fastforce simp: fresh_ids_def)
    show "\<forall>p \<in> set (scored_pairs doc). link_refs ?d3 (scoring_link ?i t p)"
      using pairs
      by (fastforce simp: link_refs_def scoring_link_def result_row_for_def evidence_row_for_def image_iff split_def)
  qed
  have "list_all (run_checks (sg_legacy ?d4)) (sg_runs ?d4)" using assms(1) by (simp add: storage_ok_def runs_ok_def)
  from finish_update [OF this, of doc t] obtain n where
    s5: "update_run ?i (\<lambda>r. r\<lparr>ur_status := analysis_status_value (rs_status doc),
           ur_started_at := Some (rn_started_at (rs_run doc)),
           ur_finished_at := Some (rn_finished_at (rs_run doc)), ur_updated_at := t\<rparr>) ?d4
      = Inr (n, ?d4\<lparr>sg_runs := map (finished_run doc t) (sg_runs ?d4)\<rparr>)" by blast
  have "save_result env doc t db = (Inr (), ?d4\<lparr>sg_runs := map (finished_run doc t) (sg_runs ?d4)\<rparr>)"
    if "storage_guard env (se_result_dict env doc) = Inr ()"
    unfolding save_result_def act_then_eq_Inr reading_eq transaction_eq_Inr
    using s1 s2 s3 s4 s5 that by simp
  moreover have "?d4\<lparr>sg_runs := map (finished_run doc t) (sg_runs ?d4)\<rparr> = stored_result env doc t db"
    by (simp add: stored_result_def)
  moreover have "save_result env doc t db = (Inl e, db)" if "storage_guard env (se_result_dict env doc) = Inl e" for e
    using that by (simp add: save_result_def act_then_def reading_def)
  moreover have "d' = d" if "save_result env' doc' t' d = (Inl e, d')" for env' doc' t' d e d'
    using that by (auto simp: save_result_def act_then_cases reading_def transaction_def split: sum.splits prod.splits)
  ultimately show ?thesis by (simp split: sum.split)
qed

subsection \<open>Integrity and provenance\<close>

text \<open>
  C13: Whatever operations run on a new database, and whether they return or raise, every table meets
  the constraints its DDL declares (checks, keys and foreign keys), and nothing recorded is lost or
  altered: each table of an earlier database is a prefix of the later one, except that a run may take
  another status and the times that go with it.
\<close>

theorem storage_integrity:
  assumes "storage_reachable env db" and "(storage_step env)\<^sup>*\<^sup>* db db'"
  shows "storage_ok db' \<and> storage_grows db db'"
  using storage_reachable_ok [OF assms(1)] storage_steps_sound [OF assms(2)] by (simp add: sound_step_def)

text \<open>
  The provenance of a cached response is written once. Of two successful writes of a cache key,
  with any operations on the database in between, the second names the same source, provider and
  artifact as the first, and what a lookup of the key finds is still the row the first one left.
\<close>

theorem provenance_is_write_once:
  assumes "put_cache env r db = (Inr (), db1)" and "(storage_step env')\<^sup>*\<^sup>* db1 db2"
    and "put_cache env r' db2 = (Inr (), db3)" and "cr_cache_key r' = cr_cache_key r"
  shows "cr_source_id r' = cr_source_id r \<and> cr_provider_id r' = cr_provider_id r
    \<and> cr_artifact_sha256 r' = cr_artifact_sha256 r
    \<and> find_cache db3 (cr_cache_key r) = find_cache db1 (cr_cache_key r)"
proof -
  obtain row where row: "find_cache db1 (cr_cache_key r) = Some row" "cache_agrees r row"
    using cache.put_found [OF assms(1)] by blast
  have "storage_grows db1 db2" using storage_steps_sound [OF assms(2)] by (simp add: sound_step_def)
  then have "find_cache db2 (cr_cache_key r) = Some row" using row(1) lookups_grow(2) by blast
  then have "find_cache db3 (cr_cache_key r) = Some row"
    using cache.put_keeps [of db2 "cr_cache_key r" row env r'] assms(3) by simp
  with cache.put_found [OF assms(3)] row assms(4) show ?thesis by (auto simp: cache_agrees_def)
qed

text \<open>
  What is written can be read, and what is read is what was recorded. A write that returns leaves
  a file that the returned record reads back, with the length and the SHA-256 of the bytes written,
  and the very bytes when no other process made the file; and no read, of any record in any state of
  the files, returns bytes whose length or SHA-256 is not the recorded one.
\<close>

theorem artifact_round_trip:
  assumes "artifact_write env body media kind red lic src ret files = (Inr r, files')"
  shows "(\<exists>b. artifact_read files' r = Inr b \<and> sha256_hex b = sha256_hex body \<and> length b = length body
        \<and> (files (ar_relative_path r) = None \<and> av_between env files (ar_relative_path r) = None \<longrightarrow> b = body))
    \<and> (\<forall>fs q b. artifact_read fs q = Inr b \<longrightarrow> sha256_hex b = ar_sha256 q \<and> int (length b) = ar_byte_length q)"
proof -
  note w = artifact_write_Inr [OF assms]
  obtain b where b: "files' (ar_relative_path r) = Some b" "length b = length body" "sha256_hex b = sha256_hex body"
    using w(8) by blast
  have "artifact_read files' r = Inr b" using b w(1,2) by (simp add: artifact_read_Inr)
  moreover have "b = body" if "files (ar_relative_path r) = None" "av_between env files (ar_relative_path r) = None"
    using artifact_write_fresh [of files body env media kind red lic src ret] that w(3,7) assms b(1) by auto
  ultimately show ?thesis using b by (auto simp: artifact_read_Inr)
qed

subsection \<open>Witnesses\<close>

definition fs_env :: storage_env where
  "fs_env = \<lparr>se_forbidden = [''secret''], se_request_dict = (\<lambda>_. JNull), se_result_dict = (\<lambda>_. JNull), se_urls = Some\<rparr>"

definition fs_artifact :: artifact_record where
  "fs_artifact =
     \<lparr>ar_sha256 = fx_sha, ar_byte_length = 2, ar_media_type = ''m'', ar_relative_path = ''a'',
      ar_artifact_kind = ''request'', ar_redaction_status = ''r'', ar_license_status = ''l'',
      ar_created_at = 0, ar_source_id = None, ar_retrieved_at = None\<rparr>"

definition fs_run :: run_row where
  "fs_run =
     \<lparr>ur_analysis_id = ''AN-AAA'', ur_analysis_type = ''dex_swap'', ur_chain_id = 1, ur_fixture_id = None,
      ur_status = ''queued'', ur_schema_version = ''0.1'', ur_tool_version = ''v'',
      ur_request_artifact_sha256 = fx_sha, ur_started_at = None, ur_finished_at = None,
      ur_created_at = 0, ur_updated_at = 0\<rparr>"

definition fs_db :: storage where
  "fs_db = empty_storage\<lparr>sg_artifacts := [fs_artifact], sg_runs := [fs_run]\<rparr>"

definition fs_entry :: cache_record where
  "fs_entry =
     \<lparr>cr_cache_key = fx_sha, cr_source_id = ''DS-A'', cr_provider_id = ''pa'', cr_capability = ''logs'',
      cr_block_tag = Some ''17'', cr_artifact_sha256 = fx_sha, cr_immutability = ''immutable'',
      cr_created_at = 0, cr_expires_at = None, cr_endpoint_host = ''h'', cr_endpoint_path = ''/p'',
      cr_status_code = 200, cr_media_type = None, cr_retrieved_at = 0, cr_fallback_from = []\<rparr>"

lemmas fs_defs = fs_env_def fs_artifact_def fs_run_def fs_db_def fs_entry_def empty_storage_def

lemma fx_sha_length: "sql_length fx_sha = 64"
  by (simp add: sql_length_def fx_sha_def)

lemma fs_db_ok: "storage_ok fs_db"
  using fx_sha_length
  by (simp add: storage_ok_def table_defs fs_defs artifact_checks_def run_checks_def artifact_exists_def)

theorem storage_integrity_witness:
  "storage_ok (snd (record_artifact fs_artifact empty_storage))
   \<and> storage_grows empty_storage (snd (record_artifact fs_artifact empty_storage))"
proof -
  have "storage_step fs_env empty_storage (snd (record_artifact fs_artifact empty_storage))" by (rule step_artifact)
  then have "(storage_step fs_env)\<^sup>*\<^sup>* empty_storage (snd (record_artifact fs_artifact empty_storage))"
    by (rule r_into_rtranclp)
  with storage_integrity [OF storage_reachable.fresh, of fs_env] show ?thesis by blast
qed

lemma fs_put:
  "put_cache fs_env fs_entry fs_db = (Inr (), fs_db\<lparr>sg_cache := [cache_row_for fs_entry]\<rparr>)"
  "put_cache fs_env fs_entry (fs_db\<lparr>sg_cache := [cache_row_for fs_entry]\<rparr>)
     = (Inr (), fs_db\<lparr>sg_cache := [cache_row_for fs_entry]\<rparr>)"
proof -
  have g: "storage_guard fs_env
      (JObj [(''source_id'', JStr ''DS-A''), (''provider_id'', JStr ''pa''), (''capability'', JStr ''logs''),
        (''block_tag'', JStr ''17''), (''endpoint_host'', JStr ''h''), (''endpoint_path'', JStr ''/p'')]) = Inr ()"
    by code_simp
  show "put_cache fs_env fs_entry fs_db = (Inr (), fs_db\<lparr>sg_cache := [cache_row_for fs_entry]\<rparr>)"
    "put_cache fs_env fs_entry (fs_db\<lparr>sg_cache := [cache_row_for fs_entry]\<rparr>)
      = (Inr (), fs_db\<lparr>sg_cache := [cache_row_for fs_entry]\<rparr>)"
    unfolding put_cache_Inr using g fx_sha_length
    by (simp_all add: fs_entry_def json_opt_text_def)
      (simp_all add: fs_defs insert_cache_def constrained_def cache_checks_def cache_row_for_def artifact_exists_def
        find_cache_def cache_agrees_def)
qed

theorem provenance_is_write_once_witness:
  "\<exists>db1 db3. put_cache fs_env fs_entry fs_db = (Inr (), db1) \<and> put_cache fs_env fs_entry db1 = (Inr (), db3)
    \<and> find_cache db3 (cr_cache_key fs_entry) = find_cache db1 (cr_cache_key fs_entry)"
  using fs_put provenance_is_write_once [OF fs_put(1) rtranclp.rtrancl_refl fs_put(2) refl] by blast

theorem artifact_round_trip_witness:
  "\<exists>r. artifact_write \<lparr>av_forbidden = [], av_clock = 0, av_between = id\<rparr> ''ab'' ''m'' ''k'' ''r'' ''l'' None None Map.empty
      = (Inr r, [artifact_path (sha256_hex ''ab'') \<mapsto> ''ab''])
    \<and> artifact_read [artifact_path (sha256_hex ''ab'') \<mapsto> ''ab''] r = Inr ''ab''"
proof -
  let ?env = "\<lparr>av_forbidden = [], av_clock = 0, av_between = id\<rparr> :: artifact_env"
  have "check_bytes [] ''ab'' = Inr ()" by code_simp
  then obtain r where r: "artifact_write ?env ''ab'' ''m'' ''k'' ''r'' ''l'' None None Map.empty
      = (Inr r, [artifact_path (sha256_hex ''ab'') \<mapsto> ''ab''])"
    using artifact_write_fresh [of Map.empty "''ab''" ?env "''m''" "''k''" "''r''" "''l''" None None] by auto
  from artifact_round_trip [OF r] have "artifact_read [artifact_path (sha256_hex ''ab'') \<mapsto> ''ab''] r = Inr ''ab''"
    by auto
  with r show ?thesis by blast
qed

lemma fs_save:
  "\<exists>k db. save_checkpoint fs_env ''AN-AAA'' ''fetch'' (JObj [(''page'', JInt 2)]) [''EV-AAA''] 7 fs_db = (Inr k, db)"
proof -
  have g: "storage_guard fs_env (checkpoint_state ''AN-AAA'' ''fetch'' (JObj [(''page'', JInt 2)]) [''EV-AAA'']) = Inr ()"
    by code_simp
  show ?thesis
    unfolding save_checkpoint_Inr using g
    by (simp add: insert_checkpoint_def constrained_def checkpoint_checks_def checkpoint_row_for_def
        next_checkpoint_def Let_def run_exists_def next_revision_def fs_defs)
qed

theorem checkpoint_round_trip_witness:
  "\<exists>k db. save_checkpoint fs_env ''AN-AAA'' ''fetch'' (JObj [(''page'', JInt 2)]) [''EV-AAA''] 7 fs_db = (Inr k, db)
    \<and> latest_checkpoint db ''AN-AAA'' ''fetch'' = Inr (Some (k\<lparr>kp_cursor := JObj [(''page'', JInt 2)]\<rparr>))"
proof -
  obtain k db where k: "save_checkpoint fs_env ''AN-AAA'' ''fetch'' (JObj [(''page'', JInt 2)]) [''EV-AAA''] 7 fs_db = (Inr k, db)"
    using fs_save by blast
  from checkpoint_round_trip [OF k] k show ?thesis by auto
qed

theorem stage_runs_once_witness:
  "\<exists>x db1. run_once fs_env ''AN-AAA'' ''fetch'' (reading (Inr (JObj [(''page'', JInt 2)], [''EV-AAA'']))) 7 fs_db = (Inr x, db1)
    \<and> (\<exists>r. \<forall>operation t. run_once fs_env ''AN-AAA'' ''fetch'' operation t db1 = (r, db1))"
proof -
  obtain k db1 where k: "save_checkpoint fs_env ''AN-AAA'' ''fetch'' (JObj [(''page'', JInt 2)]) [''EV-AAA''] 7 fs_db = (Inr k, db1)"
    using fs_save by blast
  have "latest_checkpoint fs_db ''AN-AAA'' ''fetch'' = Inr None"
    by (simp add: latest_checkpoint_def stage_checkpoints_def fs_defs)
  then have r: "run_once fs_env ''AN-AAA'' ''fetch'' (reading (Inr (JObj [(''page'', JInt 2)], [''EV-AAA'']))) 7 fs_db
      = (Inr \<lparr>sx_checkpoint = k, sx_resumed = False\<rparr>, db1)"
    using k by (simp add: run_once_def act_then_def reading_def)
  from stage_runs_once [OF r rtranclp.rtrancl_refl] r show ?thesis by blast
qed

text \<open>One result in both cases: its serialised form is harmless, or names a forbidden value.\<close>

theorem valid_result_is_stored_witness:
  "let doc = fx_result AN_COMPLETE [] in
     save_result fs_env doc 9 fs_db = (Inr (), stored_result fs_env doc 9 fs_db)
     \<and> (\<exists>e. save_result (fs_env\<lparr>se_result_dict := \<lambda>_. JStr ''a secret''\<rparr>) doc 9 fs_db = (Inl e, fs_db))"
proof -
  let ?leak = "fs_env\<lparr>se_result_dict := \<lambda>_. JStr ''a secret''\<rparr>"
  have v: "validate_analysis_result Some (fx_result AN_COMPLETE []) = Inr ()" by code_simp
  have g: "storage_guard fs_env (se_result_dict fs_env (fx_result AN_COMPLETE [])) = Inr ()" by code_simp
  have "\<not> is_ok (storage_guard ?leak (se_result_dict ?leak (fx_result AN_COMPLETE [])))" by code_simp
  then obtain e where e: "storage_guard ?leak (se_result_dict ?leak (fx_result AN_COMPLETE [])) = Inl e"
    by (cases "storage_guard ?leak (se_result_dict ?leak (fx_result AN_COMPLETE []))") auto
  have "run_exists fs_db (rs_analysis_id (fx_result AN_COMPLETE []))" "fresh_ids (fx_result AN_COMPLETE []) fs_db"
    by (simp_all add: run_exists_def fresh_ids_def fs_defs fx_result_def)
  note saved = valid_result_is_stored [OF fs_db_ok v this]
  from saved [of fs_env 9] saved [of ?leak 9] g e show ?thesis by (simp add: Let_def)
qed

end
