(* ===== verification/Executor_Properties.thy ===== *)
theory Executor_Properties
  imports Storage_Properties
begin

section \<open>What cache-first reads guarantee\<close>

text \<open>
  Properties of \<^verbatim>\<open>CachedSourceExecutor\<close>, over the database, the artifact store and the source
  orchestrator together.
\<close>

subsection \<open>Cache-first reads\<close>

lemma exec_then_eq_Inr:
  "exec_then m f st = (Inr y, st') \<longleftrightarrow> (\<exists>x st1. m st = (Inr x, st1) \<and> f x st1 = (Inr y, st'))"
  by (auto simp: exec_then_def split: prod.splits sum.splits)

lemma lift_result_Inr [simp]: "lift_result w r = Inr x \<longleftrightarrow> r = Inr x"
  by (cases r) (auto simp: lift_result_def)

lemma on_storage_eq_Inr:
  "on_storage m st = (Inr x, st') \<longleftrightarrow> (\<exists>db. m (xs_storage st) = (Inr x, db) \<and> st' = st\<lparr>xs_storage := db\<rparr>)"
  by (auto simp: on_storage_def split: prod.splits)

lemma on_files_eq_Inr:
  "on_files m st = (Inr x, st') \<longleftrightarrow> (\<exists>fs. m (xs_files st) = (Inr x, fs) \<and> st' = st\<lparr>xs_files := fs\<rparr>)"
  by (auto simp: on_files_def split: prod.splits)

lemma on_sources_eq_Inr:
  "on_sources m st = (Inr x, st') \<longleftrightarrow> (\<exists>ss. m (xs_sources st) = Inr (x, ss) \<and> st' = st\<lparr>xs_sources := ss\<rparr>)"
  by (auto simp: on_sources_def split: sum.splits)

lemma source_execution_init_Inr [result_simps]:
  "source_execution_init x = Inr y \<longleftrightarrow> y = x \<and> (so_response x = None) \<noteq> (so_error x = None)"
  by (auto simp: source_execution_init_def result_simps)

lemmas executor_simps = exec_then_eq_Inr on_storage_eq_Inr on_files_eq_Inr on_sources_eq_Inr

definition cacheable :: "source_request \<Rightarrow> bool" where
  "cacheable request \<longleftrightarrow> request_block_tag request \<notin> {None, Some ''latest'', Some ''pending''}"

text \<open>The steps of a successful persist, each on the state the one before left.\<close>

lemma persist_success_Inr:
  assumes "persist_success env i request key response attempts st = (Inr x, st')"
  obtains media artifact fs db1 persisted db2 where
    "artifact_write (xe_artifacts env) (sp_raw_bytes (sre_payload response)) media ''raw_response'' ''not_required''
       ''unknown'' (Some (sre_source_id response)) (Some (sp_retrieved_at (sre_payload response))) (xs_files st)
     = (Inr artifact, fs)"
    "record_artifact artifact (xs_storage st) = (Inr (), db1)"
    "save_attempts (xe_storage env) i request attempts (Some (ar_sha256 artifact)) db1 = (Inr persisted, db2)"
    "if cacheable request
     then put_cache (xe_storage env) (cache_entry_for env key request response artifact) db2 = (Inr (), xs_storage st')
     else xs_storage st' = db2"
    "st' = st\<lparr>xs_files := fs, xs_storage := xs_storage st'\<rparr>"
    "x = \<lparr>so_response = Some (response\<lparr>sre_attempts := persisted, sre_cache_status := CACHE_MISS\<rparr>),
          so_attempts = persisted, so_error = None\<rparr>"
  using assms
  by (fastforce simp: persist_success_def Let_def executor_simps result_simps cacheable_def split: if_splits)

lemma get_cache_miss: "find_cache db key = None \<Longrightarrow> get_cache db key allowed t = Inr None"
  by (simp add: get_cache_def find_cache_def)

lemma get_cache_hit:
  assumes "find_cache db key = Some (cache_row_for entry)" and "cr_source_id entry \<in> set allowed"
    and "cr_expires_at entry = None"
  shows "get_cache db key allowed t = Inr (Some entry)"
  using assms by (simp add: get_cache_def find_cache_def [symmetric] cache_row_for_def cache_record_of_def)

lemma put_cache_new:
  assumes "put_cache env r db = (Inr (), db')" and "find_cache db (cr_cache_key r) = None"
  shows "find_cache db' (cr_cache_key r) = Some (cache_row_for r)"
proof -
  from assms have "db' = db\<lparr>sg_cache := sg_cache db @ [cache_row_for r]\<rparr>"
    by (auto simp: put_cache_Inr insert_cache_def find_cache_def find_None_iff cache_row_for_def result_simps
        split: if_splits)
  with assms(2) show ?thesis by (simp add: find_cache_def find_append cache_row_for_def)
qed

text \<open>Recording attempts and cache entries adds no artifact; recording attempts adds no cache entry.\<close>

lemma record_artifact_cache: "record_artifact a db = (Inr (), db') \<Longrightarrow> sg_cache db' = sg_cache db"
  by (auto simp: record_artifact_Inr insert_artifact_def result_simps split: if_splits)

lemma fold_attempts_cache:
  assumes "fold_result (\<lambda>d a. insert_attempt (row a) d) db xs = Inr db'"
  shows "sg_cache db' = sg_cache db"
  by (rule fold_result_invariant [OF assms, of "\<lambda>d. sg_cache d = sg_cache db"])
    (auto simp: insert_attempt_def result_simps)

lemma save_attempts_Inr:
  "save_attempts env i request attempts sha db = (Inr persisted, db') \<longleftrightarrow>
     storage_guard env
       (JObj [(''analysis_id'', JStr i), (''capability'', JStr (request_capability request)),
              (''method'', JStr (request_method request)), (''block_tag'', json_opt_text (request_block_tag request))])
       = Inr ()
     \<and> persisted = number_attempts db i (source_request_fingerprint request) [] attempts
     \<and> fold_result (\<lambda>d a. insert_attempt (attempt_row_for i request sha a) d) db persisted = Inr db'"
  by (auto simp: save_attempts_def Let_def action_simps result_simps)

lemma save_attempts_cache:
  "save_attempts env i request attempts sha db = (Inr persisted, db') \<Longrightarrow> sg_cache db' = sg_cache db"
  by (auto simp: save_attempts_Inr intro: fold_attempts_cache)

lemma cached_execute_miss:
  assumes "find_cache (xs_storage st) (build_cache_key chain request) = None"
    and "cached_execute env i chain request policy st = (Inr x, st1)" and "so_response x = Some r"
  obtains response attempts ss where
    "persist_success env i request (build_cache_key chain request) response attempts (st\<lparr>xs_sources := ss\<rparr>) = (Inr x, st1)"
  using assms(2,3) that
  by (auto simp: cached_execute_def Let_def get_cache_miss [OF assms(1)] executor_simps result_simps split: option.splits)

text \<open>What was written and recorded is found and read back from every later state of the database.\<close>

lemma persisted_artifact_reads:
  assumes "artifact_write env body media kind redaction license source retrieved files = (Inr artifact, fs)"
    and "record_artifact artifact db = (Inr (), db1)" and "storage_grows db1 db2"
  obtains a bytes where "get_artifact db2 (ar_sha256 artifact) = Some a" "artifact_read fs a = Inr bytes"
    "length bytes = length body" "sha256_hex bytes = sha256_hex body"
proof -
  from assms(2) obtain a where a: "get_artifact db1 (ar_sha256 artifact) = Some a" "artifact_agrees artifact a"
    by (auto simp: record_artifact_Inr)
  note w = artifact_write_Inr [OF assms(1)]
  from w(8) obtain bytes where b: "fs (ar_relative_path artifact) = Some bytes"
      "length bytes = length body" "sha256_hex bytes = sha256_hex body" by blast
  have "ar_sha256 a = ar_sha256 artifact" using a(1) find_keyD by (fastforce simp: get_artifact_def)
  then have "artifact_read fs a = Inr bytes"
    using b w(1,2) a(2) by (simp add: artifact_read_Inr artifact_agrees_def)
  then show thesis using that b a(1) lookups_grow(1) [OF assms(3)] by blast
qed

text \<open>
  C14: A historical read is made once. When the first read of a request at a fixed block has returned
  a response, every later read of it under a policy that allows the response's source, by any
  analysis, with any sources behind it, returns the recorded response from the cache: the same
  source, provider and metadata, bytes of the same length and SHA-256, and no source is asked, no
  attempt made and nothing written.
\<close>

theorem historical_reads_are_cached:
  assumes "find_cache (xs_storage st) (build_cache_key chain request) = None" and "cacheable request"
    and "cached_execute env i chain request policy st = (Inr x, st1)" and "so_response x = Some r"
    and "sre_source_id r \<in> set (po_allowed_source_ids policy')"
  shows "\<exists>bytes. cached_execute env' i' chain request policy' st1
      = (Inr \<lparr>so_response = Some (r\<lparr>sre_request_fingerprint := source_request_fingerprint request,
                 sre_payload := (sre_payload r)\<lparr>sp_raw_bytes := bytes\<rparr>, sre_attempts := [],
                 sre_cache_status := CACHE_HIT\<rparr>),
              so_attempts = [], so_error = None\<rparr>, st1)
    \<and> sha256_hex bytes = raw_sha256 (sre_payload r) \<and> length bytes = length (sp_raw_bytes (sre_payload r))"
proof -
  let ?key = "build_cache_key chain request"
  obtain response attempts ss where
    persist: "persist_success env i request ?key response attempts (st\<lparr>xs_sources := ss\<rparr>) = (Inr x, st1)"
    by (rule cached_execute_miss [OF assms(1,3,4)])
  obtain media artifact fs db1 persisted db2 where
    wr: "artifact_write (xe_artifacts env) (sp_raw_bytes (sre_payload response)) media ''raw_response'' ''not_required''
       ''unknown'' (Some (sre_source_id response)) (Some (sp_retrieved_at (sre_payload response)))
       (xs_files (st\<lparr>xs_sources := ss\<rparr>)) = (Inr artifact, fs)"
    and rec: "record_artifact artifact (xs_storage (st\<lparr>xs_sources := ss\<rparr>)) = (Inr (), db1)"
    and att: "save_attempts (xe_storage env) i request attempts (Some (ar_sha256 artifact)) db1 = (Inr persisted, db2)"
    and put: "if cacheable request
      then put_cache (xe_storage env) (cache_entry_for env ?key request response artifact) db2 = (Inr (), xs_storage st1)
      else xs_storage st1 = db2"
    and st1: "st1 = st\<lparr>xs_sources := ss\<rparr>\<lparr>xs_files := fs, xs_storage := xs_storage st1\<rparr>"
    and x: "x = \<lparr>so_response = Some (response\<lparr>sre_attempts := persisted, sre_cache_status := CACHE_MISS\<rparr>),
          so_attempts = persisted, so_error = None\<rparr>"
    by (rule persist_success_Inr [OF persist])
  let ?entry = "cache_entry_for env ?key request response artifact"
  have r: "r = response\<lparr>sre_attempts := persisted, sre_cache_status := CACHE_MISS\<rparr>" using x assms(4) by simp
  have put': "put_cache (xe_storage env) ?entry db2 = (Inr (), xs_storage st1)" using put assms(2) by simp
  have "sg_cache db2 = sg_cache (xs_storage st)"
    using record_artifact_cache [OF rec] save_attempts_cache [OF att] by simp
  then have "find_cache db2 ?key = None" using assms(1) by (simp add: find_cache_def)
  then have "find_cache (xs_storage st1) ?key = Some (cache_row_for ?entry)"
    using put_cache_new [OF put'] by (simp add: cache_entry_for_def Let_def)
  then have hit: "get_cache (xs_storage st1) ?key (po_allowed_source_ids policy') (xe_read_clock env') = Inr (Some ?entry)"
    using assms(5) r by (intro get_cache_hit) (simp_all add: cache_entry_for_def Let_def)
  have "storage_grows db1 db2" "storage_grows db2 (xs_storage st1)"
    using sound_grows [OF save_attempts_sound, of db1] att sound_grows [OF put_cache_sound, of db2] put' by (metis snd_conv)+
  then obtain a bytes where a: "get_artifact (xs_storage st1) (ar_sha256 artifact) = Some a"
      "artifact_read fs a = Inr bytes" "length bytes = length (sp_raw_bytes (sre_payload response))"
      "sha256_hex bytes = sha256_hex (sp_raw_bytes (sre_payload response))"
    using persisted_artifact_reads [OF wr rec] storage_grows_trans by metis
  have "xs_files st1 = fs" by (subst st1) simp
  then have "cached_execute env' i' chain request policy' st1
      = (Inr \<lparr>so_response = Some (r\<lparr>sre_request_fingerprint := source_request_fingerprint request,
                 sre_payload := (sre_payload r)\<lparr>sp_raw_bytes := bytes\<rparr>, sre_attempts := [],
                 sre_cache_status := CACHE_HIT\<rparr>),
              so_attempts = [], so_error = None\<rparr>, st1)"
    using hit a r
    by (simp add: cached_execute_def Let_def cached_execution_def cache_entry_for_def lift_result_def
        source_execution_init_def)
  with a r show ?thesis by (auto simp: raw_sha256_def)
qed

text \<open>
  C38: A cached response of a source the current policy does not allow makes the request fail for good.
  Such an entry is not returned, but its key is taken: a live read of the same request then succeeds
  at an allowed source and is stored, and the call raises on the entry's provenance instead of
  returning the response.
\<close>

theorem foreign_cache_entry_blocks_request:
  assumes "find_cache (xs_storage st) (build_cache_key chain request) = Some c"
    and "uc_source_id c \<notin> set (po_allowed_source_ids policy)" and "cacheable request"
    and "source_execute (xe_sources env) (xe_retry env) (xe_adapters env) request policy (xs_sources st) = Inr (x, ss)"
    and "so_response x = Some r" and "sre_source_id r \<in> set (po_allowed_source_ids policy)"
  shows "\<exists>e. fst (cached_execute env i chain request policy st) = Inl e"
proof (rule ccontr)
  assume "\<not> ?thesis"
  then obtain y st1 where ok: "cached_execute env i chain request policy st = (Inr y, st1)"
    by (metis old.sum.exhaust prod.collapse)
  let ?key = "build_cache_key chain request"
  have "get_cache (xs_storage st) ?key (po_allowed_source_ids policy) (xe_read_clock env) = Inr None"
    using assms(1,2) by (simp add: get_cache_def find_cache_def)
  with ok assms(4,5) have
    persist: "persist_success env i request ?key r (so_attempts x) (st\<lparr>xs_sources := ss\<rparr>) = (Inr y, st1)"
    by (simp add: cached_execute_def Let_def exec_then_def on_sources_def)
  obtain media artifact fs db1 persisted db2 where
    rec: "record_artifact artifact (xs_storage (st\<lparr>xs_sources := ss\<rparr>)) = (Inr (), db1)"
    and att: "save_attempts (xe_storage env) i request (so_attempts x) (Some (ar_sha256 artifact)) db1 = (Inr persisted, db2)"
    and put: "if cacheable request
      then put_cache (xe_storage env) (cache_entry_for env ?key request r artifact) db2 = (Inr (), xs_storage st1)
      else xs_storage st1 = db2"
    by (rule persist_success_Inr [OF persist])
  have "find_cache db2 ?key = Some c"
    using assms(1) record_artifact_cache [OF rec] save_attempts_cache [OF att] by (simp add: find_cache_def)
  moreover have "\<not> cache_agrees (cache_entry_for env ?key request r artifact) c"
    using assms(2,6) by (auto simp: cache_agrees_def cache_entry_for_def Let_def)
  ultimately have "\<exists>e. fst (put_cache (xe_storage env) (cache_entry_for env ?key request r artifact) db2) = Inl e"
    by (intro cache.conflict_raises) (simp_all add: cache_entry_for_def Let_def)
  with put assms(3) show False by auto
qed

subsection \<open>Attempts\<close>

lemma number_attempts_map:
  assumes "\<forall>p \<in> set (map fst offsets). dict_get offsets p 0 = last_attempt_number db i fp p"
  shows "number_attempts db i fp offsets attempts
    = map (\<lambda>a. a\<lparr>sa_attempt_number := last_attempt_number db i fp (sa_provider_id a) + sa_attempt_number a\<rparr>) attempts"
  using assms
proof (induction attempts arbitrary: offsets)
  case (Cons a attempts)
  let ?o = "if sa_provider_id a \<in> set (map fst offsets) then offsets
    else dict_set (sa_provider_id a) (last_attempt_number db i fp (sa_provider_id a)) offsets"
  have o: "\<forall>p \<in> set (map fst ?o). dict_get ?o p 0 = last_attempt_number db i fp p"
    using Cons.prems by (auto simp: keys_dict_set simp flip: set_map)
  moreover have "sa_provider_id a \<in> set (map fst ?o)"
    by (simp add: keys_dict_set del: set_map)
  ultimately have "dict_get ?o (sa_provider_id a) 0 = last_attempt_number db i fp (sa_provider_id a)" by blast
  with Cons.IH [OF o] show ?case by (simp add: Let_def)
qed simp

lemma saved_attempts:
  "number_attempts db i fp [] attempts
    = map (\<lambda>a. a\<lparr>sa_attempt_number := last_attempt_number db i fp (sa_provider_id a) + sa_attempt_number a\<rparr>) attempts"
  by (rule number_attempts_map) simp

lemma fold_attempts_distinct:
  assumes "fold_result (\<lambda>d a. insert_attempt (row a) d) db xs = Inr db'"
  shows "distinct (map (attempt_key \<circ> row) xs)
    \<and> set (map (attempt_key \<circ> row) xs) \<inter> set (map attempt_key (sg_attempts db)) = {}
    \<and> sg_attempts db' = sg_attempts db @ map row xs"
  using assms
proof (induction xs arbitrary: db)
  case (Cons x xs)
  from Cons.prems obtain d where d: "insert_attempt (row x) db = Inr d"
    and rest: "fold_result (\<lambda>d a. insert_attempt (row a) d) d xs = Inr db'" by (auto simp: result_simps)
  from d have "attempt_key (row x) \<notin> set (map attempt_key (sg_attempts db))"
    "sg_attempts d = sg_attempts db @ [row x]" by (auto simp: insert_attempt_def result_simps)
  with Cons.IH [OF rest] show ?case by auto
qed simp

lemma save_attempts_history:
  assumes "save_attempts env i request attempts sha db = (Inr persisted, db')"
  shows "persisted = map (\<lambda>a. a\<lparr>sa_attempt_number :=
          last_attempt_number db i (source_request_fingerprint request) (sa_provider_id a) + sa_attempt_number a\<rparr>) attempts"
    and "sg_attempts db' = sg_attempts db @ map (attempt_row_for i request sha) persisted"
    and "distinct (map (\<lambda>a. (sa_provider_id a, sa_attempt_number a)) attempts)"
proof -
  let ?fp = "source_request_fingerprint request"
  from assms have p: "persisted = number_attempts db i ?fp [] attempts"
    and f: "fold_result (\<lambda>d a. insert_attempt (attempt_row_for i request sha a) d) db persisted = Inr db'"
    by (auto simp: save_attempts_Inr)
  note d = fold_attempts_distinct [OF f]
  have "map (attempt_key \<circ> attempt_row_for i request sha) persisted
      = map (\<lambda>(q, n). (i, ?fp, q, last_attempt_number db i ?fp q + n))
          (map (\<lambda>a. (sa_provider_id a, sa_attempt_number a)) attempts)"
    by (simp add: p saved_attempts attempt_key_def attempt_row_for_def Let_def)
  with d have "distinct (map (\<lambda>(q, n). (i, ?fp, q, last_attempt_number db i ?fp q + n))
      (map (\<lambda>a. (sa_provider_id a, sa_attempt_number a)) attempts))" by simp
  then show "distinct (map (\<lambda>a. (sa_provider_id a, sa_attempt_number a)) attempts)"
    by (rule distinct_map [THEN iffD1, THEN conjunct1])
  show "persisted = map (\<lambda>a. a\<lparr>sa_attempt_number :=
          last_attempt_number db i ?fp (sa_provider_id a) + sa_attempt_number a\<rparr>) attempts"
    by (simp add: p saved_attempts)
  show "sg_attempts db' = sg_attempts db @ map (attempt_row_for i request sha) persisted" using d by blast
qed

text \<open>
  The history of attempts goes on where it stopped. Saved attempts keep their order and get the
  number they had plus the highest number recorded before for their analysis, request and provider;
  they are added after what is there, all or none of them.
\<close>

theorem attempts_are_numbered_on:
  assumes "save_attempts env i request attempts sha db = (r, db')"
  shows "case r of
      Inl _ \<Rightarrow> db' = db
    | Inr persisted \<Rightarrow>
        persisted = map (\<lambda>a. a\<lparr>sa_attempt_number :=
          last_attempt_number db i (source_request_fingerprint request) (sa_provider_id a) + sa_attempt_number a\<rparr>) attempts
        \<and> sg_attempts db' = sg_attempts db @ map (attempt_row_for i request sha) persisted"
proof (cases r)
  case (Inl e)
  with assms show ?thesis
    by (auto simp: save_attempts_def Let_def act_then_cases reading_def transaction_def split: sum.splits)
next
  case (Inr persisted)
  with assms save_attempts_history show ?thesis by auto
qed

text \<open>
  The executions in which a source fails for good and the next one answers.
\<close>

definition second_answers ::
    "executor_env \<Rightarrow> source_request \<Rightarrow> source_policy \<Rightarrow> source_state \<Rightarrow> source_adapter \<Rightarrow> source_adapter \<Rightarrow> source_payload
      \<Rightarrow> bool" where
  "second_answers env request policy ss a b payload \<longleftrightarrow>
     source_policy_error policy = None \<and> take 2 (source_ids_to_try policy) = [ad_source_id a, ad_source_id b]
     \<and> {ad_source_id a, ad_source_id b} \<subseteq> set (po_allowed_source_ids policy)
     \<and> xe_adapters env (ad_source_id a) = Some a \<and> xe_adapters env (ad_source_id b) = Some b
     \<and> 1 \<le> rt_max_attempts (xe_retry env)
     \<and> (\<exists>f. sv_reply (xe_sources env) (length (st_calls ss)) (ad_source_id a) request = Reply_Failure f
          \<and> sf_kind f \<notin> retryable_failures)
     \<and> sv_reply (xe_sources env) (Suc (length (st_calls ss))) (ad_source_id b) request = Reply_Payload payload"

lemma second_answers_execution:
  assumes "second_answers env request policy ss a b payload"
  shows "\<exists>x ss'. source_execute (xe_sources env) (xe_retry env) (xe_adapters env) request policy ss = Inr (x, ss')
    \<and> (\<exists>r. so_response x = Some r \<and> sre_payload r = payload)
    \<and> map (\<lambda>t. (sa_provider_id t, sa_attempt_number t)) (so_attempts x) = [(ad_provider_id a, 1), (ad_provider_id b, 1)]"
proof -
  from assms obtain f rest where e: "source_policy_error policy = None"
    "source_ids_to_try policy = ad_source_id a # ad_source_id b # rest"
    "ad_source_id a \<in> set (po_allowed_source_ids policy)" "ad_source_id b \<in> set (po_allowed_source_ids policy)"
    "xe_adapters env (ad_source_id a) = Some a" "xe_adapters env (ad_source_id b) = Some b"
    "1 \<le> rt_max_attempts (xe_retry env)"
    "sv_reply (xe_sources env) (length (st_calls ss)) (ad_source_id a) request = Reply_Failure f"
    "sf_kind f \<notin> retryable_failures"
    "sv_reply (xe_sources env) (Suc (length (st_calls ss))) (ad_source_id b) request = Reply_Payload payload"
    by (auto simp: second_answers_def take_Suc_conv_app_nth numeral_2_eq_2 neq_Nil_conv split: if_splits)
      (metis append_take_drop_id append_Cons append_Nil)
  obtain ns where ns: "attempt_numbers (xe_retry env) = 1 # ns"
    using e(7) by (simp add: attempt_numbers_def upt_conv_Cons del: upt_Suc)
  show ?thesis
    using e by (simp add: source_execute_def execute_source_def ns Let_def source_execution_init_def
        source_response_for_def failed_attempt_def successful_attempt_def fallback_start_def)
qed

text \<open>
  C39: Fallback between two sources of one provider loses the response. When a source fails for good
  and the next one, of the same provider, answers, the two attempts carry the same provider and
  number; recording them breaks the uniqueness of attempts, so the call raises and the answer is
  not returned.
\<close>

theorem shared_provider_fallback_is_lost:
  assumes "find_cache (xs_storage st) (build_cache_key chain request) = None"
    and "second_answers env request policy (xs_sources st) a b payload" and "ad_provider_id a = ad_provider_id b"
  shows "\<exists>e. fst (cached_execute env i chain request policy st) = Inl e"
proof (rule ccontr)
  assume "\<not> ?thesis"
  then obtain y st1 where ok: "cached_execute env i chain request policy st = (Inr y, st1)"
    by (metis old.sum.exhaust prod.collapse)
  obtain x ss r where
    x: "source_execute (xe_sources env) (xe_retry env) (xe_adapters env) request policy (xs_sources st) = Inr (x, ss)"
    and r: "so_response x = Some r"
    and keys: "map (\<lambda>t. (sa_provider_id t, sa_attempt_number t)) (so_attempts x) = [(ad_provider_id a, 1), (ad_provider_id b, 1)]"
    using second_answers_execution [OF assms(2)] by (elim exE conjE) (rule that)
  have "persist_success env i request (build_cache_key chain request) r (so_attempts x) (st\<lparr>xs_sources := ss\<rparr>) = (Inr y, st1)"
    using ok x r by (simp add: cached_execute_def Let_def get_cache_miss [OF assms(1)] exec_then_def on_sources_def)
  then obtain sha d p d' where "save_attempts (xe_storage env) i request (so_attempts x) sha d = (Inr p, d')"
    by (rule persist_success_Inr) blast
  from save_attempts_history(3) [OF this] keys assms(3) show False by simp
qed

subsection \<open>Witnesses\<close>

definition fe_payload :: source_payload where
  "fe_payload =
     \<lparr>sp_raw_bytes = ''ab'', sp_status_code = 200, sp_media_type = None, sp_endpoint_host = ''h'',
      sp_endpoint_path = ''/p'', sp_retrieved_at = 3\<rparr>"

definition fe_request :: source_request where
  "fe_request = Json_Rpc \<lparr>jq_capability = ''logs'', jq_method = ''get'', jq_params = JArr [],
     jq_block_tag = Tag_Number 17\<rparr>"

definition fe_policy :: "string list \<Rightarrow> source_policy" where
  "fe_policy order =
     \<lparr>po_rule_status = STATUS_ALLOWED, po_allowed_source_ids = order, po_source_order = order,
      po_allow_fallback = True, po_offline_mode = False\<rparr>"

definition fe_adapter :: "string \<Rightarrow> source_adapter" where
  "fe_adapter s = \<lparr>ad_source_id = s, ad_provider_id = ''pp''\<rparr>"

definition fe_env :: executor_env where
  "fe_env =
     \<lparr>xe_storage = fs_env, xe_artifacts = \<lparr>av_forbidden = [], av_clock = 0, av_between = id\<rparr>,
      xe_sources =
        \<lparr>sv_reply = (\<lambda>_ s _. if s = ''DS-A''
            then Reply_Failure \<lparr>sf_kind = FAIL_PERMANENT, sf_status_code = None, sf_retry_after = None, sf_raw_bytes = None\<rparr>
            else Reply_Payload fe_payload),
         sv_clock = int, sv_random = (\<lambda>_. 0), sv_float = (\<lambda>_. None), sv_date = (\<lambda>_. None)\<rparr>,
      xe_retry = default_retry_policy,
      xe_adapters = index_by ad_source_id [fe_adapter ''DS-A'', fe_adapter ''DS-B''],
      xe_read_clock = 5, xe_put_clock = 6\<rparr>"

definition fe_state :: "cache_row list \<Rightarrow> executor_state" where
  "fe_state rows = \<lparr>xs_storage = fs_db\<lparr>sg_artifacts := [], sg_cache := rows\<rparr>, xs_files = Map.empty, xs_sources = source_start\<rparr>"

lemmas fe_defs = fe_payload_def fe_request_def fe_policy_def fe_adapter_def fe_env_def fe_state_def

lemma fe_attempt_numbers: "attempt_numbers default_retry_policy = [1, 2, 3]"
  by (simp add: attempt_numbers_def default_retry_policy_def upt_rec eval_nat_numeral)

definition fe_answer :: source_execution where
  "fe_answer =
     (let a = successful_attempt (fe_adapter ''DS-B'') 1 0 1 fe_payload in
      \<lparr>so_response = Some (source_response_for (fe_adapter ''DS-B'') fe_request fe_payload [a] []),
       so_attempts = [a], so_error = None\<rparr>)"

lemma fe_source:
  "\<exists>ss. source_execute (xe_sources fe_env) (xe_retry fe_env) (xe_adapters fe_env) fe_request
      (fe_policy [''DS-B'']) source_start = Inr (fe_answer, ss)"
  by (simp add: fe_env_def fe_policy_def source_execute_def source_policy_error_def source_ids_to_try_def
      fe_adapter_def execute_source_def fe_attempt_numbers Let_def source_execution_init_def fallback_start_def
      source_start_def fe_answer_def)

theorem foreign_cache_entry_blocks_request_witness:
  "\<exists>e. fst (cached_execute fe_env ''AN-AAA'' 1 fe_request (fe_policy [''DS-B''])
      (fe_state [(cache_row_for fs_entry)\<lparr>uc_cache_key := build_cache_key 1 fe_request\<rparr>])) = Inl e"
proof -
  obtain ss where ss: "source_execute (xe_sources fe_env) (xe_retry fe_env) (xe_adapters fe_env) fe_request
      (fe_policy [''DS-B'']) source_start = Inr (fe_answer, ss)" using fe_source by blast
  let ?c = "(cache_row_for fs_entry)\<lparr>uc_cache_key := build_cache_key 1 fe_request\<rparr>"
  show ?thesis
  proof (rule foreign_cache_entry_blocks_request)
    show "find_cache (xs_storage (fe_state [?c])) (build_cache_key 1 fe_request) = Some ?c"
      by (simp add: find_cache_def fe_state_def)
    show "uc_source_id ?c \<notin> set (po_allowed_source_ids (fe_policy [''DS-B'']))"
      by (simp add: cache_row_for_def fs_entry_def fe_policy_def)
    show "cacheable fe_request"
      by (simp add: cacheable_def request_block_tag_def fe_request_def show_int_def show_nat.simps decimal_digits_def)
    show "source_execute (xe_sources fe_env) (xe_retry fe_env) (xe_adapters fe_env) fe_request (fe_policy [''DS-B''])
        (xs_sources (fe_state [?c])) = Inr (fe_answer, ss)" using ss by (simp add: fe_state_def)
    show "so_response fe_answer = Some (source_response_for (fe_adapter ''DS-B'') fe_request fe_payload (so_attempts fe_answer) [])"
      by (simp add: fe_answer_def Let_def)
    show "sre_source_id (source_response_for (fe_adapter ''DS-B'') fe_request fe_payload (so_attempts fe_answer) [])
        \<in> set (po_allowed_source_ids (fe_policy [''DS-B'']))"
      by (simp add: source_response_for_def fe_adapter_def fe_policy_def)
  qed
qed

theorem shared_provider_fallback_is_lost_witness:
  "\<exists>e. fst (cached_execute fe_env ''AN-AAA'' 1 fe_request (fe_policy [''DS-A'', ''DS-B'']) (fe_state [])) = Inl e"
proof (rule shared_provider_fallback_is_lost)
  show "find_cache (xs_storage (fe_state [])) (build_cache_key 1 fe_request) = None"
    by (simp add: find_cache_def fe_state_def)
  show "second_answers fe_env fe_request (fe_policy [''DS-A'', ''DS-B'']) (xs_sources (fe_state []))
      (fe_adapter ''DS-A'') (fe_adapter ''DS-B'') fe_payload"
    by (simp add: second_answers_def fe_env_def fe_policy_def fe_adapter_def source_policy_error_def
        source_ids_to_try_def default_retry_policy_def retryable_failures_def)
  show "ad_provider_id (fe_adapter ''DS-A'') = ad_provider_id (fe_adapter ''DS-B'')"
    by (simp add: fe_adapter_def)
qed

text \<open>The first read of the request, at a source that answers.\<close>

lemma fe_guards:
  "storage_guard fs_env
     (JObj [(''analysis_id'', JStr ''AN-AAA''), (''capability'', JStr (request_capability fe_request)),
            (''method'', JStr (request_method fe_request)), (''block_tag'', json_opt_text (request_block_tag fe_request))])
     = Inr ()"
  "storage_guard fs_env
     (JObj [(''source_id'', JStr ''DS-B''), (''provider_id'', JStr ''pp''), (''capability'', JStr (request_capability fe_request)),
            (''block_tag'', json_opt_text (request_block_tag fe_request)), (''endpoint_host'', JStr ''h''),
            (''endpoint_path'', JStr ''/p'')]) = Inr ()"
  "cacheable fe_request" "check_bytes [] ''ab'' = Inr ()"
  by code_simp+

lemma fe_persists:
  "\<exists>x st1. persist_success fe_env ''AN-AAA'' fe_request (build_cache_key 1 fe_request)
      (source_response_for (fe_adapter ''DS-B'') fe_request fe_payload (so_attempts fe_answer) [])
      (so_attempts fe_answer) ((fe_state [])\<lparr>xs_sources := ss\<rparr>) = (Inr x, st1)
    \<and> so_response x \<noteq> None"
proof -
  let ?st = "(fe_state [])\<lparr>xs_sources := ss\<rparr>" and ?key = "build_cache_key 1 fe_request"
  let ?r = "source_response_for (fe_adapter ''DS-B'') fe_request fe_payload (so_attempts fe_answer) []"
  have payload: "sre_payload ?r = fe_payload" "sre_source_id ?r = ''DS-B''" "sre_provider_id ?r = ''pp''"
    by (simp_all add: source_response_for_def fe_adapter_def)
  obtain a where wr: "artifact_write (xe_artifacts fe_env) ''ab'' ''application/octet-stream'' ''raw_response'' ''not_required''
      ''unknown'' (Some ''DS-B'') (Some 3) Map.empty = (Inr a, [artifact_path (sha256_hex ''ab'') \<mapsto> ''ab''])"
    using artifact_write_fresh [of Map.empty "''ab''" "xe_artifacts fe_env" "''application/octet-stream''" "''raw_response''"
        "''not_required''" "''unknown''" "Some ''DS-B''" "Some 3"] fe_guards(4) by (auto simp: fe_env_def)
  note a = artifact_write_Inr [OF wr]
  let ?d1 = "(xs_storage ?st)\<lparr>sg_artifacts := [a]\<rparr>"
  have "artifact_checks a" using a(1-3) by (simp add: artifact_checks_def artifact_path_def)
  then have rec: "record_artifact a (xs_storage ?st) = (Inr (), ?d1)"
    by (simp add: record_artifact_Inr insert_artifact_def constrained_def artifact_exists_def fe_state_def
        get_artifact_def artifact_agrees_def)
  let ?p = "so_attempts fe_answer"
  have attempts: "number_attempts ?d1 i fp [] ?p = ?p" for i fp
    by (simp add: saved_attempts fe_answer_def Let_def last_attempt_number_def fe_state_def fs_defs successful_attempt_def dict_get_def)
  let ?d2 = "?d1\<lparr>sg_attempts := map (attempt_row_for ''AN-AAA'' fe_request (Some (ar_sha256 a))) ?p\<rparr>"
  have "fold_result (\<lambda>d a'. insert_attempt (attempt_row_for ''AN-AAA'' fe_request (Some (ar_sha256 a)) a') d) ?d1 ?p = Inr ?d2"
    by (simp add: fe_answer_def Let_def insert_attempt_def constrained_def attempt_checks_def attempt_row_for_def
        successful_attempt_def attempt_refs_def run_exists_def artifact_exists_def fe_state_def fs_defs raw_sha256_def)
  moreover have "xe_storage fe_env = fs_env" by (simp add: fe_env_def)
  ultimately have att: "save_attempts (xe_storage fe_env) ''AN-AAA'' fe_request ?p (Some (ar_sha256 a)) ?d1 = (Inr ?p, ?d2)"
    unfolding save_attempts_Inr attempts using fe_guards(1) by simp
  let ?entry = "cache_entry_for fe_env ?key fe_request ?r a"
  have e: "cr_cache_key ?entry = ?key" "cr_source_id ?entry = ''DS-B''" "cr_provider_id ?entry = ''pp''"
      "cr_capability ?entry = request_capability fe_request" "cr_block_tag ?entry = request_block_tag fe_request"
      "cr_immutability ?entry = ''immutable''" "cr_endpoint_host ?entry = ''h''" "cr_endpoint_path ?entry = ''/p''"
      "cr_artifact_sha256 ?entry = ar_sha256 a" "cr_expires_at ?entry = None"
    by (simp_all add: cache_entry_for_def Let_def source_response_for_def fe_adapter_def fe_payload_def)
  have "sql_length ?key = 64" by (simp add: build_cache_key_def)
  then have "insert_cache (cache_row_for ?entry) ?d2 = Inr (?d2\<lparr>sg_cache := [cache_row_for ?entry]\<rparr>)"
    by (simp add: insert_cache_def constrained_def cache_checks_def cache_row_for_def e artifact_exists_def fe_state_def
        fs_defs)
  moreover have "find_cache (?d2\<lparr>sg_cache := [cache_row_for ?entry]\<rparr>) ?key = Some (cache_row_for ?entry)"
    "cache_agrees ?entry (cache_row_for ?entry)"
    by (simp_all add: find_cache_def cache_agrees_def cache_row_for_def e)
  moreover have "xe_storage fe_env = fs_env" by (simp add: fe_env_def)
  ultimately have put: "put_cache (xe_storage fe_env) ?entry ?d2 = (Inr (), ?d2\<lparr>sg_cache := [cache_row_for ?entry]\<rparr>)"
    unfolding put_cache_Inr e using fe_guards(2,3) by (simp add: cacheable_def)
  show ?thesis
    unfolding persist_success_def Let_def executor_simps payload
    using wr rec att put fe_guards(3)
    by (simp add: fe_payload_def cacheable_def executor_simps lift_result_def source_execution_init_def fe_state_def)
qed

theorem historical_reads_are_cached_witness:
  "\<exists>x st1 y. cached_execute fe_env ''AN-AAA'' 1 fe_request (fe_policy [''DS-B'']) (fe_state []) = (Inr x, st1)
    \<and> cached_execute fe_env ''AN-BBB'' 1 fe_request (fe_policy [''DS-B'']) st1 = (Inr y, st1) \<and> so_attempts y = []"
proof -
  obtain ss where ss: "source_execute (xe_sources fe_env) (xe_retry fe_env) (xe_adapters fe_env) fe_request
      (fe_policy [''DS-B'']) source_start = Inr (fe_answer, ss)" using fe_source by blast
  obtain x st1 where x: "persist_success fe_env ''AN-AAA'' fe_request (build_cache_key 1 fe_request)
      (source_response_for (fe_adapter ''DS-B'') fe_request fe_payload (so_attempts fe_answer) [])
      (so_attempts fe_answer) ((fe_state [])\<lparr>xs_sources := ss\<rparr>) = (Inr x, st1)" "so_response x \<noteq> None"
    using fe_persists by blast
  have none: "find_cache (xs_storage (fe_state [])) (build_cache_key 1 fe_request) = None"
    by (simp add: find_cache_def fe_state_def)
  have run: "cached_execute fe_env ''AN-AAA'' 1 fe_request (fe_policy [''DS-B'']) (fe_state []) = (Inr x, st1)"
    using x(1) ss by (simp add: cached_execute_def Let_def get_cache_miss [OF none] exec_then_def on_sources_def)
      (simp add: fe_answer_def Let_def fe_state_def)
  obtain r where r: "so_response x = Some r" using x(2) by blast
  have "sre_source_id r \<in> set (po_allowed_source_ids (fe_policy [''DS-B'']))"
  proof -
    obtain persisted where "x = \<lparr>so_response = Some ((source_response_for (fe_adapter ''DS-B'') fe_request fe_payload (so_attempts fe_answer) [])
        \<lparr>sre_attempts := persisted, sre_cache_status := CACHE_MISS\<rparr>), so_attempts = persisted, so_error = None\<rparr>"
      by (rule persist_success_Inr [OF x(1)])
    with r show ?thesis by (simp add: source_response_for_def fe_adapter_def fe_policy_def) auto
  qed
  from historical_reads_are_cached [OF none fe_guards(3) run r this, of fe_env "''AN-BBB''"] run
  show ?thesis by auto
qed

end
