(* ===== verification/Operations_Json.thy ===== *)
theory Operations_Json
  imports Planner Operations_Snapshot Sqlite_Storage Json_Fields
begin

section \<open>Operations documents as JSON\<close>

text \<open>
  \<^verbatim>\<open>OperationsDocument.to_contract_dict\<close> and \<^verbatim>\<open>OperationsDocument.model_validate\<close> of
  \<^verbatim>\<open>domain/operations.py\<close>: for every record of the operations contract, the dictionary it is dumped to
  (a field that is \<^verbatim>\<open>MISSING\<close> is left out) and the reading of such a dictionary, which refuses unknown
  and missing fields and values of another type, and is followed by the validators. What the
  validation library does below the fields is a parameter: its text of a UTC timestamp, its reading
  of a timestamp and its normal form of a URL.
\<close>

record dump_env =
  de_time_text :: "instant \<Rightarrow> string"
  de_read_time :: "json \<Rightarrow> instant option"
  de_urls :: "string \<Rightarrow> string option"

subsection \<open>Wire values\<close>

fun competition_phase_value :: "competition_phase \<Rightarrow> string" where
  "competition_phase_value QUALIFIER = ''qualifier''"
| "competition_phase_value FINAL = ''final''"

fun competition_status_value :: "competition_status \<Rightarrow> string" where
  "competition_status_value COMP_SETUP = ''setup''"
| "competition_status_value COMP_ACTIVE = ''active''"
| "competition_status_value COMP_PAUSED = ''paused''"
| "competition_status_value COMP_CLOSED = ''closed''"

fun environment_value :: "competition_environment \<Rightarrow> string" where
  "environment_value ENV_LIVE = ''live''"
| "environment_value ENV_SYNTHETIC_TEST = ''synthetic_test''"

fun priority_value :: "problem_priority \<Rightarrow> string" where
  "priority_value PRIO_CRITICAL = ''critical''"
| "priority_value PRIO_HIGH = ''high''"
| "priority_value PRIO_NORMAL = ''normal''"
| "priority_value PRIO_DEFERRED = ''deferred''"

fun priority_source_value :: "priority_source \<Rightarrow> string" where
  "priority_source_value PRIO_HUMAN = ''human''"
| "priority_source_value PRIO_DERIVED = ''derived''"

fun recommendation_value :: "recommendation \<Rightarrow> string" where
  "recommendation_value HOLD = ''hold''"
| "recommendation_value INVESTIGATE = ''investigate''"
| "recommendation_value SUBMIT = ''submit''"

fun error_stage_value :: "operation_error_stage \<Rightarrow> string" where
  "error_stage_value STAGE_OPERATIONS_INPUT = ''operations_input''"
| "error_stage_value STAGE_AI_MODE_POLICY = ''ai_mode_policy''"
| "error_stage_value STAGE_PLANNER = ''planner''"
| "error_stage_value STAGE_SCHEDULER = ''scheduler''"
| "error_stage_value STAGE_EVIDENCE_WORKER = ''evidence_worker''"
| "error_stage_value STAGE_VERIFICATION = ''verification''"
| "error_stage_value STAGE_SUBMISSION_RECORD = ''submission_record''"

subsection \<open>Timestamps and URLs\<close>

definition time_json :: "dump_env \<Rightarrow> instant \<Rightarrow> json" where
  "time_json env t = JStr (de_time_text env t)"

definition read_url :: "dump_env \<Rightarrow> json \<Rightarrow> string option" where
  "read_url env j = Option.bind (read_text j) (de_urls env)"

subsection \<open>Records\<close>

text \<open>The members of the enumerations, in the order of their classes.\<close>

definition all_competition_phase :: "competition_phase list" where
  "all_competition_phase = [QUALIFIER, FINAL]"

definition all_competition_status :: "competition_status list" where
  "all_competition_status = [COMP_SETUP, COMP_ACTIVE, COMP_PAUSED, COMP_CLOSED]"

definition all_competition_environment :: "competition_environment list" where
  "all_competition_environment = [ENV_LIVE, ENV_SYNTHETIC_TEST]"

definition all_problem_priority :: "problem_priority list" where
  "all_problem_priority = [PRIO_CRITICAL, PRIO_HIGH, PRIO_NORMAL, PRIO_DEFERRED]"

definition all_priority_source :: "priority_source list" where
  "all_priority_source = [PRIO_HUMAN, PRIO_DERIVED]"

definition all_problem_status :: "problem_status list" where
  "all_problem_status = [PROB_CAPTURED, PROB_TRIAGED, PROB_QUEUED, PROB_RUNNING, PROB_PARTIAL,
     PROB_VERIFYING, PROB_REVIEW_REQUIRED, PROB_SUBMISSION_READY, PROB_SUBMITTED]"

definition all_adapter_kind :: "adapter_kind list" where
  "all_adapter_kind = [FAKE_QA, LOCAL_ADAPTER, EXTERNAL_ADAPTER]"

definition all_data_boundary :: "data_boundary list" where
  "all_data_boundary = [SYNTHETIC_ONLY, LOCAL_ONLY, REDACTED_EXTERNAL, APPROVED_PROBLEM_DATA]"

definition all_ai_tool_mode :: "ai_tool_mode list" where
  "all_ai_tool_mode = [PLANNING_ONLY, PLANNING_AND_APPROVED_TOOLS]"

definition all_ai_rule_state :: "ai_rule_state list" where
  "all_ai_rule_state = [AI_ALLOWED, AI_RULES_GATED, AI_RULE_RESTRICTED]"

definition all_plan_status :: "plan_status list" where
  "all_plan_status = [PLAN_RULES_GATED, PLAN_PROPOSED, PLAN_APPROVED, PLAN_REJECTED, PLAN_SUPERSEDED]"

definition all_job_role :: "job_role list" where
  "all_job_role = [PLANNER, EVIDENCE, VERIFIER, REPORTER]"

definition all_job_status :: "job_status list" where
  "all_job_status = [JOB_QUEUED, JOB_RUNNING, JOB_WAITING, JOB_COMPLETE, JOB_PARTIAL, JOB_FAILED,
     JOB_CANCELLED]"

definition all_verification_status :: "verification_status list" where
  "all_verification_status = [VER_QUEUED, VER_RUNNING, VER_PASS, VER_FAIL, VER_CONFLICT, VER_INCOMPLETE]"

definition all_candidate_status :: "candidate_status list" where
  "all_candidate_status = [CAND_DRAFT, CAND_REVIEW_REQUIRED, CAND_SUBMISSION_READY, CAND_SUBMITTED,
     CAND_REJECTED]"

definition all_recommendation :: "recommendation list" where
  "all_recommendation = [HOLD, INVESTIGATE, SUBMIT]"

definition all_submission_response :: "submission_response list" where
  "all_submission_response = [RESP_CORRECT, RESP_INCORRECT, RESP_UNKNOWN]"

definition all_actor_type :: "actor_type list" where
  "all_actor_type = [OPERATOR, AI_ACTOR, WORKER, SYSTEM]"

definition all_operation_error_stage :: "operation_error_stage list" where
  "all_operation_error_stage = [STAGE_OPERATIONS_INPUT, STAGE_AI_MODE_POLICY, STAGE_PLANNER,
     STAGE_SCHEDULER, STAGE_EVIDENCE_WORKER, STAGE_VERIFICATION, STAGE_SUBMISSION_RECORD]"

definition all_operation_error_code :: "operation_error_code list" where
  "all_operation_error_code = [INVALID_OPERATIONS_INPUT, RULES_GATED, RULE_RESTRICTED, PLANNER_FAILED,
     DEPENDENCY_CYCLE, BUDGET_EXHAUSTED, EVIDENCE_WORKER_FAILED, VERIFICATION_FAILED,
     SUBMISSION_RECORD_FAILED]"

definition all_analysis_type :: "analysis_type list" where
  "all_analysis_type = [DEX_SWAP, AUTH_CONSUMPTION, ADDRESS_FREEZE, EVM_CORE, EVM_SPECIAL, FLOW_PATH,
     INTEL_CONTEXT, BRIDGE_TRANSFER, BITCOIN_UTXO, CEX_CLUSTER, MIXER_FLOW, DEFI_LENDING,
     CASE_RECONCILIATION]"

definition provided_file_dump :: "provided_file_artifact \<Rightarrow> json" where
  "provided_file_dump r = JObj (defined
     [(''filename'', Some (JStr (pf_filename r))), (''sha256'', Some (JStr (pf_sha256 r))),
      (''media_type'', Some (JStr (pf_media_type r)))])"

definition read_provided_file :: "json \<Rightarrow> provided_file_artifact option" where
  "read_provided_file j =
     Option.bind (only_fields
       [''filename'', ''sha256'', ''media_type''] j) (\<lambda>fs.
     Option.bind (field ''filename'' read_text fs) (\<lambda>filename.
     Option.bind (field ''sha256'' read_text fs) (\<lambda>sha256.
     Option.bind (field ''media_type'' read_text fs) (\<lambda>media_type.
     Some \<lparr>pf_filename = filename, pf_sha256 = sha256, pf_media_type = media_type\<rparr>))))"

definition manifest_dump :: "dump_env \<Rightarrow> competition_manifest \<Rightarrow> json" where
  "manifest_dump env r = JObj (defined
     [(''competition_id'', Some (JStr (mf_competition_id r))),
      (''operations_schema_version'', Some (JStr (mf_operations_schema_version r))),
      (''name'', Some (JStr (mf_name r))),
      (''phase'', Some (JStr (competition_phase_value (mf_phase r)))),
      (''environment'', Some (JStr (environment_value (mf_environment r)))),
      (''rules_snapshot_ref'', Some (JStr (mf_rules_snapshot_ref r))),
      (''status'', Some (JStr (competition_status_value (mf_status r)))),
      (''created_at'', Some (time_json env (mf_created_at r))),
      (''updated_at'', Some (time_json env (mf_updated_at r)))])"

definition read_manifest :: "dump_env \<Rightarrow> json \<Rightarrow> competition_manifest option" where
  "read_manifest env j =
     Option.bind (only_fields
       [''competition_id'', ''operations_schema_version'', ''name'', ''phase'', ''environment'',
        ''rules_snapshot_ref'', ''status'', ''created_at'', ''updated_at''] j) (\<lambda>fs.
     Option.bind (field ''competition_id'' read_text fs) (\<lambda>competition_id.
     Option.bind (field ''operations_schema_version'' read_text fs) (\<lambda>operations_schema_version.
     Option.bind (field ''name'' read_text fs) (\<lambda>title.
     Option.bind (field ''phase'' (read_enum competition_phase_value all_competition_phase) fs) (\<lambda>phase.
     Option.bind (field ''environment'' (read_enum environment_value all_competition_environment) fs) (\<lambda>environment.
     Option.bind (field ''rules_snapshot_ref'' read_text fs) (\<lambda>rules_snapshot_ref.
     Option.bind (field ''status'' (read_enum competition_status_value all_competition_status) fs) (\<lambda>status.
     Option.bind (field ''created_at'' (de_read_time env) fs) (\<lambda>created_at.
     Option.bind (field ''updated_at'' (de_read_time env) fs) (\<lambda>updated_at.
     Some \<lparr>mf_competition_id = competition_id,
       mf_operations_schema_version = operations_schema_version, mf_name = title, mf_phase = phase,
       mf_environment = environment, mf_rules_snapshot_ref = rules_snapshot_ref, mf_status = status,
       mf_created_at = created_at, mf_updated_at = updated_at\<rparr>))))))))))"

definition problem_dump :: "dump_env \<Rightarrow> problem_record \<Rightarrow> json" where
  "problem_dump env r = JObj (defined
     [(''problem_id'', Some (JStr (pr_problem_id r))),
      (''competition_id'', Some (JStr (pr_competition_id r))), (''title'', Some (JStr (pr_title r))),
      (''original_text_artifact'', Some (JStr (pr_original_text_artifact r))),
      (''provided_urls'', Some (json_texts (pr_provided_urls r))),
      (''provided_file_artifacts'', Some (JArr (map provided_file_dump (pr_provided_file_artifacts r)))),
      (''score'', Some (JInt (pr_score r))), (''answer_format'', Some (JStr (pr_answer_format r))),
      (''priority'', Some (JStr (priority_value (pr_priority r)))),
      (''priority_source'', Some (JStr (priority_source_value (pr_priority_source r)))),
      (''status'', Some (JStr (problem_status_value (pr_status r)))),
      (''active_plan_id'', map_option JStr (pr_active_plan_id r)),
      (''created_at'', Some (time_json env (pr_created_at r))),
      (''updated_at'', Some (time_json env (pr_updated_at r)))])"

definition read_problem :: "dump_env \<Rightarrow> json \<Rightarrow> problem_record option" where
  "read_problem env j =
     Option.bind (only_fields
       [''problem_id'', ''competition_id'', ''title'', ''original_text_artifact'', ''provided_urls'',
        ''provided_file_artifacts'', ''score'', ''answer_format'', ''priority'', ''priority_source'',
        ''status'', ''active_plan_id'', ''created_at'', ''updated_at''] j) (\<lambda>fs.
     Option.bind (field ''problem_id'' read_text fs) (\<lambda>problem_id.
     Option.bind (field ''competition_id'' read_text fs) (\<lambda>competition_id.
     Option.bind (field ''title'' read_text fs) (\<lambda>title.
     Option.bind (field ''original_text_artifact'' read_text fs) (\<lambda>original_text_artifact.
     Option.bind (field ''provided_urls'' (read_items (read_url env)) fs) (\<lambda>provided_urls.
     Option.bind (field ''provided_file_artifacts'' (read_items read_provided_file) fs) (\<lambda>provided_file_artifacts.
     Option.bind (field ''score'' read_int fs) (\<lambda>score.
     Option.bind (field ''answer_format'' read_text fs) (\<lambda>answer_format.
     Option.bind (field ''priority'' (read_enum priority_value all_problem_priority) fs) (\<lambda>priority.
     Option.bind (field ''priority_source'' (read_enum priority_source_value all_priority_source) fs) (\<lambda>priority_source.
     Option.bind (field ''status'' (read_enum problem_status_value all_problem_status) fs) (\<lambda>status.
     Option.bind (opt_field ''active_plan_id'' read_text fs) (\<lambda>active_plan_id.
     Option.bind (field ''created_at'' (de_read_time env) fs) (\<lambda>created_at.
     Option.bind (field ''updated_at'' (de_read_time env) fs) (\<lambda>updated_at.
     Some \<lparr>pr_problem_id = problem_id, pr_competition_id = competition_id, pr_title = title,
       pr_original_text_artifact = original_text_artifact, pr_provided_urls = provided_urls,
       pr_provided_file_artifacts = provided_file_artifacts, pr_score = score,
       pr_answer_format = answer_format, pr_priority = priority, pr_priority_source = priority_source,
       pr_status = status, pr_active_plan_id = active_plan_id, pr_created_at = created_at,
       pr_updated_at = updated_at\<rparr>)))))))))))))))"

definition mode_dump :: "dump_env \<Rightarrow> ai_execution_mode \<Rightarrow> json" where
  "mode_dump env r = JObj (defined
     [(''mode_id'', Some (JStr (am_mode_id r))),
      (''competition_id'', Some (JStr (am_competition_id r))),
      (''provider_id'', map_option JStr (am_provider_id r)),
      (''model_id'', map_option JStr (am_model_id r)),
      (''adapter_kind'', Some (JStr (adapter_kind_value (am_adapter_kind r)))),
      (''data_boundary'', Some (JStr (data_boundary_value (am_data_boundary r)))),
      (''tool_mode'', Some (JStr (tool_mode_value (am_tool_mode r)))),
      (''rule_state'', Some (JStr (rule_state_value (am_rule_state r)))),
      (''affected_rule_ids'', Some (json_texts (am_affected_rule_ids r))),
      (''rules_snapshot_ref'', Some (JStr (am_rules_snapshot_ref r))),
      (''created_at'', Some (time_json env (am_created_at r)))])"

definition read_mode :: "dump_env \<Rightarrow> json \<Rightarrow> ai_execution_mode option" where
  "read_mode env j =
     Option.bind (only_fields
       [''mode_id'', ''competition_id'', ''provider_id'', ''model_id'', ''adapter_kind'',
        ''data_boundary'', ''tool_mode'', ''rule_state'', ''affected_rule_ids'',
        ''rules_snapshot_ref'', ''created_at''] j) (\<lambda>fs.
     Option.bind (field ''mode_id'' read_text fs) (\<lambda>mode_id.
     Option.bind (field ''competition_id'' read_text fs) (\<lambda>competition_id.
     Option.bind (opt_field ''provider_id'' read_text fs) (\<lambda>provider_id.
     Option.bind (opt_field ''model_id'' read_text fs) (\<lambda>model_id.
     Option.bind (field ''adapter_kind'' (read_enum adapter_kind_value all_adapter_kind) fs) (\<lambda>adapter_kind.
     Option.bind (field ''data_boundary'' (read_enum data_boundary_value all_data_boundary) fs) (\<lambda>data_boundary.
     Option.bind (field ''tool_mode'' (read_enum tool_mode_value all_ai_tool_mode) fs) (\<lambda>tool_mode.
     Option.bind (field ''rule_state'' (read_enum rule_state_value all_ai_rule_state) fs) (\<lambda>rule_state.
     Option.bind (field ''affected_rule_ids'' (read_items read_text) fs) (\<lambda>affected_rule_ids.
     Option.bind (field ''rules_snapshot_ref'' read_text fs) (\<lambda>rules_snapshot_ref.
     Option.bind (field ''created_at'' (de_read_time env) fs) (\<lambda>created_at.
     Some \<lparr>am_mode_id = mode_id, am_competition_id = competition_id,
       am_provider_id = provider_id, am_model_id = model_id, am_adapter_kind = adapter_kind,
       am_data_boundary = data_boundary, am_tool_mode = tool_mode, am_rule_state = rule_state,
       am_affected_rule_ids = affected_rule_ids, am_rules_snapshot_ref = rules_snapshot_ref,
       am_created_at = created_at\<rparr>))))))))))))"

definition leaf_dump :: "leaf_job_spec \<Rightarrow> json" where
  "leaf_dump r = JObj (defined
     [(''leaf_job_id'', Some (JStr (lf_leaf_job_id r))),
      (''role'', Some (JStr (job_role_value (lf_role r)))), (''purpose'', Some (JStr (lf_purpose r))),
      (''analysis_type'', Some (JStr (analysis_type_value (lf_analysis_type r)))),
      (''inputs_projection'', Some (lf_inputs_projection r)),
      (''depends_on'', Some (json_texts (lf_depends_on r))),
      (''required_capabilities'', Some (json_texts (lf_required_capabilities r))),
      (''expected_output'', Some (JStr (lf_expected_output r)))])"

definition read_leaf :: "json \<Rightarrow> leaf_job_spec option" where
  "read_leaf j =
     Option.bind (only_fields
       [''leaf_job_id'', ''role'', ''purpose'', ''analysis_type'', ''inputs_projection'',
        ''depends_on'', ''required_capabilities'', ''expected_output''] j) (\<lambda>fs.
     Option.bind (field ''leaf_job_id'' read_text fs) (\<lambda>leaf_job_id.
     Option.bind (field ''role'' (read_enum job_role_value all_job_role) fs) (\<lambda>role.
     Option.bind (field ''purpose'' read_text fs) (\<lambda>purpose.
     Option.bind (field ''analysis_type'' (read_enum analysis_type_value all_analysis_type) fs) (\<lambda>analysis_type.
     Option.bind (field ''inputs_projection'' read_object fs) (\<lambda>inputs_projection.
     Option.bind (field ''depends_on'' (read_items read_text) fs) (\<lambda>depends_on.
     Option.bind (field ''required_capabilities'' (read_items read_text) fs) (\<lambda>required_capabilities.
     Option.bind (field ''expected_output'' read_text fs) (\<lambda>expected_output.
     Some \<lparr>lf_leaf_job_id = leaf_job_id, lf_role = role, lf_purpose = purpose,
       lf_analysis_type = analysis_type, lf_inputs_projection = inputs_projection,
       lf_depends_on = depends_on, lf_required_capabilities = required_capabilities,
       lf_expected_output = expected_output\<rparr>)))))))))"

definition plan_dump :: "dump_env \<Rightarrow> plan_hypothesis \<Rightarrow> json" where
  "plan_dump env r = JObj (defined
     [(''plan_id'', Some (JStr (pl_plan_id r))), (''problem_id'', Some (JStr (pl_problem_id r))),
      (''mode_id'', Some (JStr (pl_mode_id r))),
      (''planner_job_id'', Some (JStr (pl_planner_job_id r))),
      (''status'', Some (JStr (plan_status_value (pl_status r)))),
      (''problem_type_hypothesis'', Some (JStr (pl_problem_type_hypothesis r))),
      (''method_hypothesis'', Some (JStr (pl_method_hypothesis r))),
      (''assumptions'', Some (json_texts (pl_assumptions r))),
      (''missing_inputs'', Some (json_texts (pl_missing_inputs r))),
      (''leaf_job_specs'', Some (JArr (map leaf_dump (pl_leaf_job_specs r)))),
      (''raw_output_artifact'', map_option JStr (pl_raw_output_artifact r)),
      (''created_at'', Some (time_json env (pl_created_at r))),
      (''decided_at'', map_option (time_json env) (pl_decided_at r))])"

definition read_plan :: "dump_env \<Rightarrow> json \<Rightarrow> plan_hypothesis option" where
  "read_plan env j =
     Option.bind (only_fields
       [''plan_id'', ''problem_id'', ''mode_id'', ''planner_job_id'', ''status'',
        ''problem_type_hypothesis'', ''method_hypothesis'', ''assumptions'', ''missing_inputs'',
        ''leaf_job_specs'', ''raw_output_artifact'', ''created_at'', ''decided_at''] j) (\<lambda>fs.
     Option.bind (field ''plan_id'' read_text fs) (\<lambda>plan_id.
     Option.bind (field ''problem_id'' read_text fs) (\<lambda>problem_id.
     Option.bind (field ''mode_id'' read_text fs) (\<lambda>mode_id.
     Option.bind (field ''planner_job_id'' read_text fs) (\<lambda>planner_job_id.
     Option.bind (field ''status'' (read_enum plan_status_value all_plan_status) fs) (\<lambda>status.
     Option.bind (field ''problem_type_hypothesis'' read_text fs) (\<lambda>problem_type_hypothesis.
     Option.bind (field ''method_hypothesis'' read_text fs) (\<lambda>method_hypothesis.
     Option.bind (field ''assumptions'' (read_items read_text) fs) (\<lambda>assumptions.
     Option.bind (field ''missing_inputs'' (read_items read_text) fs) (\<lambda>missing_inputs.
     Option.bind (field ''leaf_job_specs'' (read_items read_leaf) fs) (\<lambda>leaf_job_specs.
     Option.bind (opt_field ''raw_output_artifact'' read_text fs) (\<lambda>raw_output_artifact.
     Option.bind (field ''created_at'' (de_read_time env) fs) (\<lambda>created_at.
     Option.bind (opt_field ''decided_at'' (de_read_time env) fs) (\<lambda>decided_at.
     Some \<lparr>pl_plan_id = plan_id, pl_problem_id = problem_id, pl_mode_id = mode_id,
       pl_planner_job_id = planner_job_id, pl_status = status,
       pl_problem_type_hypothesis = problem_type_hypothesis, pl_method_hypothesis = method_hypothesis,
       pl_assumptions = assumptions, pl_missing_inputs = missing_inputs,
       pl_leaf_job_specs = leaf_job_specs, pl_raw_output_artifact = raw_output_artifact,
       pl_created_at = created_at, pl_decided_at = decided_at\<rparr>))))))))))))))"

definition job_dump :: "dump_env \<Rightarrow> job_record \<Rightarrow> json" where
  "job_dump env r = JObj (defined
     [(''job_id'', Some (JStr (jb_job_id r))), (''problem_id'', Some (JStr (jb_problem_id r))),
      (''plan_id'', Some (JStr (jb_plan_id r))), (''role'', Some (JStr (job_role_value (jb_role r)))),
      (''job_type'', Some (JStr (jb_job_type r))),
      (''status'', Some (JStr (job_status_value (jb_status r)))),
      (''priority'', Some (JStr (priority_value (jb_priority r)))),
      (''idempotency_key'', Some (JStr (jb_idempotency_key r))),
      (''analysis_id'', map_option JStr (jb_analysis_id r)), (''attempt'', Some (JInt (jb_attempt r))),
      (''max_attempts'', Some (JInt (jb_max_attempts r))),
      (''assigned_worker_id'', map_option JStr (jb_assigned_worker_id r)),
      (''error_code'', map_option JStr (jb_error_code r)),
      (''checkpoint_ref'', map_option JStr (jb_checkpoint_ref r)),
      (''queued_at'', Some (time_json env (jb_queued_at r))),
      (''started_at'', map_option (time_json env) (jb_started_at r)),
      (''finished_at'', map_option (time_json env) (jb_finished_at r))])"

definition read_job :: "dump_env \<Rightarrow> json \<Rightarrow> job_record option" where
  "read_job env j =
     Option.bind (only_fields
       [''job_id'', ''problem_id'', ''plan_id'', ''role'', ''job_type'', ''status'', ''priority'',
        ''idempotency_key'', ''analysis_id'', ''attempt'', ''max_attempts'', ''assigned_worker_id'',
        ''error_code'', ''checkpoint_ref'', ''queued_at'', ''started_at'', ''finished_at''] j) (\<lambda>fs.
     Option.bind (field ''job_id'' read_text fs) (\<lambda>job_id.
     Option.bind (field ''problem_id'' read_text fs) (\<lambda>problem_id.
     Option.bind (field ''plan_id'' read_text fs) (\<lambda>plan_id.
     Option.bind (field ''role'' (read_enum job_role_value all_job_role) fs) (\<lambda>role.
     Option.bind (field ''job_type'' read_text fs) (\<lambda>job_type.
     Option.bind (field ''status'' (read_enum job_status_value all_job_status) fs) (\<lambda>status.
     Option.bind (field ''priority'' (read_enum priority_value all_problem_priority) fs) (\<lambda>priority.
     Option.bind (field ''idempotency_key'' read_text fs) (\<lambda>idempotency_key.
     Option.bind (opt_field ''analysis_id'' read_text fs) (\<lambda>analysis_id.
     Option.bind (field ''attempt'' read_int fs) (\<lambda>attempt.
     Option.bind (field ''max_attempts'' read_int fs) (\<lambda>max_attempts.
     Option.bind (opt_field ''assigned_worker_id'' read_text fs) (\<lambda>assigned_worker_id.
     Option.bind (opt_field ''error_code'' read_text fs) (\<lambda>error_code.
     Option.bind (opt_field ''checkpoint_ref'' read_text fs) (\<lambda>checkpoint_ref.
     Option.bind (field ''queued_at'' (de_read_time env) fs) (\<lambda>queued_at.
     Option.bind (opt_field ''started_at'' (de_read_time env) fs) (\<lambda>started_at.
     Option.bind (opt_field ''finished_at'' (de_read_time env) fs) (\<lambda>finished_at.
     Some \<lparr>jb_job_id = job_id, jb_problem_id = problem_id, jb_plan_id = plan_id, jb_role = role,
       jb_job_type = job_type, jb_status = status, jb_priority = priority,
       jb_idempotency_key = idempotency_key, jb_analysis_id = analysis_id, jb_attempt = attempt,
       jb_max_attempts = max_attempts, jb_assigned_worker_id = assigned_worker_id,
       jb_error_code = error_code, jb_checkpoint_ref = checkpoint_ref, jb_queued_at = queued_at,
       jb_started_at = started_at, jb_finished_at = finished_at\<rparr>))))))))))))))))))"

definition check_dump :: "verification_check \<Rightarrow> json" where
  "check_dump r = JObj (defined
     [(''check'', Some (JStr (vc_check r))), (''passed'', Some (JBool (vc_passed r))),
      (''result_refs'', Some (json_texts (vc_result_refs r))),
      (''evidence_refs'', Some (json_texts (vc_evidence_refs r)))])"

definition read_check :: "json \<Rightarrow> verification_check option" where
  "read_check j =
     Option.bind (only_fields
       [''check'', ''passed'', ''result_refs'', ''evidence_refs''] j) (\<lambda>fs.
     Option.bind (field ''check'' read_text fs) (\<lambda>check_name.
     Option.bind (field ''passed'' read_bool fs) (\<lambda>passed.
     Option.bind (field ''result_refs'' (read_items read_text) fs) (\<lambda>result_refs.
     Option.bind (field ''evidence_refs'' (read_items read_text) fs) (\<lambda>evidence_refs.
     Some \<lparr>vc_check = check_name, vc_passed = passed, vc_result_refs = result_refs,
       vc_evidence_refs = evidence_refs\<rparr>)))))"

definition verification_dump :: "dump_env \<Rightarrow> verification_record \<Rightarrow> json" where
  "verification_dump env r = JObj (defined
     [(''verification_id'', Some (JStr (vr_verification_id r))),
      (''problem_id'', Some (JStr (vr_problem_id r))),
      (''candidate_id'', Some (JStr (vr_candidate_id r))),
      (''verifier_job_id'', Some (JStr (vr_verifier_job_id r))),
      (''status'', Some (JStr (verification_status_value (vr_status r)))),
      (''required_checks'', Some (json_texts (vr_required_checks r))),
      (''check_results'', Some (JArr (map check_dump (vr_check_results r)))),
      (''independent_from_job_ids'', Some (json_texts (vr_independent_from_job_ids r))),
      (''conflicts'', Some (json_texts (vr_conflicts r))),
      (''missing_evidence'', Some (json_texts (vr_missing_evidence r))),
      (''created_at'', Some (time_json env (vr_created_at r))),
      (''finished_at'', map_option (time_json env) (vr_finished_at r))])"

definition read_verification :: "dump_env \<Rightarrow> json \<Rightarrow> verification_record option" where
  "read_verification env j =
     Option.bind (only_fields
       [''verification_id'', ''problem_id'', ''candidate_id'', ''verifier_job_id'', ''status'',
        ''required_checks'', ''check_results'', ''independent_from_job_ids'', ''conflicts'',
        ''missing_evidence'', ''created_at'', ''finished_at''] j) (\<lambda>fs.
     Option.bind (field ''verification_id'' read_text fs) (\<lambda>verification_id.
     Option.bind (field ''problem_id'' read_text fs) (\<lambda>problem_id.
     Option.bind (field ''candidate_id'' read_text fs) (\<lambda>candidate_id.
     Option.bind (field ''verifier_job_id'' read_text fs) (\<lambda>verifier_job_id.
     Option.bind (field ''status'' (read_enum verification_status_value all_verification_status) fs) (\<lambda>status.
     Option.bind (field ''required_checks'' (read_items read_text) fs) (\<lambda>required_checks.
     Option.bind (field ''check_results'' (read_items read_check) fs) (\<lambda>check_results.
     Option.bind (field ''independent_from_job_ids'' (read_items read_text) fs) (\<lambda>independent_from_job_ids.
     Option.bind (field ''conflicts'' (read_items read_text) fs) (\<lambda>conflicts.
     Option.bind (field ''missing_evidence'' (read_items read_text) fs) (\<lambda>missing_evidence.
     Option.bind (field ''created_at'' (de_read_time env) fs) (\<lambda>created_at.
     Option.bind (opt_field ''finished_at'' (de_read_time env) fs) (\<lambda>finished_at.
     Some \<lparr>vr_verification_id = verification_id, vr_problem_id = problem_id,
       vr_candidate_id = candidate_id, vr_verifier_job_id = verifier_job_id, vr_status = status,
       vr_required_checks = required_checks, vr_check_results = check_results,
       vr_independent_from_job_ids = independent_from_job_ids, vr_conflicts = conflicts,
       vr_missing_evidence = missing_evidence, vr_created_at = created_at, vr_finished_at = finished_at\<rparr>)))))))))))))"

definition candidate_dump :: "dump_env \<Rightarrow> candidate_record \<Rightarrow> json" where
  "candidate_dump env r = JObj (defined
     [(''candidate_id'', Some (JStr (cd_candidate_id r))),
      (''problem_id'', Some (JStr (cd_problem_id r))),
      (''answer_format'', Some (JStr (cd_answer_format r))),
      (''answer_value'', Some (JStr (cd_answer_value r))),
      (''status'', Some (JStr (candidate_status_value (cd_status r)))),
      (''result_refs'', Some (json_texts (cd_result_refs r))),
      (''evidence_refs'', Some (json_texts (cd_evidence_refs r))),
      (''verification_refs'', Some (json_texts (cd_verification_refs r))),
      (''confidence'', Some (JInt (cd_confidence r))),
      (''confidence_basis'', Some (JStr (cd_confidence_basis r))),
      (''uncertainties'', Some (json_texts (cd_uncertainties r))),
      (''recommendation'', Some (JStr (recommendation_value (cd_recommendation r)))),
      (''created_by_job_id'', Some (JStr (cd_created_by_job_id r))),
      (''created_at'', Some (time_json env (cd_created_at r))),
      (''updated_at'', Some (time_json env (cd_updated_at r)))])"

definition read_candidate :: "dump_env \<Rightarrow> json \<Rightarrow> candidate_record option" where
  "read_candidate env j =
     Option.bind (only_fields
       [''candidate_id'', ''problem_id'', ''answer_format'', ''answer_value'', ''status'',
        ''result_refs'', ''evidence_refs'', ''verification_refs'', ''confidence'',
        ''confidence_basis'', ''uncertainties'', ''recommendation'', ''created_by_job_id'',
        ''created_at'', ''updated_at''] j) (\<lambda>fs.
     Option.bind (field ''candidate_id'' read_text fs) (\<lambda>candidate_id.
     Option.bind (field ''problem_id'' read_text fs) (\<lambda>problem_id.
     Option.bind (field ''answer_format'' read_text fs) (\<lambda>answer_format.
     Option.bind (field ''answer_value'' read_text fs) (\<lambda>answer_value.
     Option.bind (field ''status'' (read_enum candidate_status_value all_candidate_status) fs) (\<lambda>status.
     Option.bind (field ''result_refs'' (read_items read_text) fs) (\<lambda>result_refs.
     Option.bind (field ''evidence_refs'' (read_items read_text) fs) (\<lambda>evidence_refs.
     Option.bind (field ''verification_refs'' (read_items read_text) fs) (\<lambda>verification_refs.
     Option.bind (field ''confidence'' read_int fs) (\<lambda>confidence.
     Option.bind (field ''confidence_basis'' read_text fs) (\<lambda>confidence_basis.
     Option.bind (field ''uncertainties'' (read_items read_text) fs) (\<lambda>uncertainties.
     Option.bind (field ''recommendation'' (read_enum recommendation_value all_recommendation) fs) (\<lambda>recommendation.
     Option.bind (field ''created_by_job_id'' read_text fs) (\<lambda>created_by_job_id.
     Option.bind (field ''created_at'' (de_read_time env) fs) (\<lambda>created_at.
     Option.bind (field ''updated_at'' (de_read_time env) fs) (\<lambda>updated_at.
     Some \<lparr>cd_candidate_id = candidate_id, cd_problem_id = problem_id,
       cd_answer_format = answer_format, cd_answer_value = answer_value, cd_status = status,
       cd_result_refs = result_refs, cd_evidence_refs = evidence_refs,
       cd_verification_refs = verification_refs, cd_confidence = confidence,
       cd_confidence_basis = confidence_basis, cd_uncertainties = uncertainties,
       cd_recommendation = recommendation, cd_created_by_job_id = created_by_job_id,
       cd_created_at = created_at, cd_updated_at = updated_at\<rparr>))))))))))))))))"

definition submission_dump :: "dump_env \<Rightarrow> submission_record \<Rightarrow> json" where
  "submission_dump env r = JObj (defined
     [(''submission_id'', Some (JStr (sb_submission_id r))),
      (''candidate_id'', Some (JStr (sb_candidate_id r))),
      (''operator_confirmed'', Some (JBool (sb_operator_confirmed r))),
      (''response'', Some (JStr (submission_response_value (sb_response r)))),
      (''submitted_at'', Some (time_json env (sb_submitted_at r))),
      (''note_artifact'', map_option JStr (sb_note_artifact r))])"

definition read_submission :: "dump_env \<Rightarrow> json \<Rightarrow> submission_record option" where
  "read_submission env j =
     Option.bind (only_fields
       [''submission_id'', ''candidate_id'', ''operator_confirmed'', ''response'', ''submitted_at'',
        ''note_artifact''] j) (\<lambda>fs.
     Option.bind (field ''submission_id'' read_text fs) (\<lambda>submission_id.
     Option.bind (field ''candidate_id'' read_text fs) (\<lambda>candidate_id.
     Option.bind (field ''operator_confirmed'' read_bool fs) (\<lambda>operator_confirmed.
     Option.bind (field ''response'' (read_enum submission_response_value all_submission_response) fs) (\<lambda>response.
     Option.bind (field ''submitted_at'' (de_read_time env) fs) (\<lambda>submitted_at.
     Option.bind (opt_field ''note_artifact'' read_text fs) (\<lambda>note_artifact.
     Some \<lparr>sb_submission_id = submission_id, sb_candidate_id = candidate_id,
       sb_operator_confirmed = operator_confirmed, sb_response = response,
       sb_submitted_at = submitted_at, sb_note_artifact = note_artifact\<rparr>)))))))"

definition event_dump :: "dump_env \<Rightarrow> operation_event \<Rightarrow> json" where
  "event_dump env r = JObj (defined
     [(''event_id'', Some (JStr (ev_event_id r))),
      (''competition_id'', Some (JStr (ev_competition_id r))),
      (''problem_id'', map_option JStr (ev_problem_id r)),
      (''entity_type'', Some (JStr (ev_entity_type r))), (''entity_id'', Some (JStr (ev_entity_id r))),
      (''event_type'', Some (JStr (ev_event_type r))),
      (''actor_type'', Some (JStr (actor_type_value (ev_actor_type r)))),
      (''actor_id'', Some (JStr (ev_actor_id r))),
      (''from_status'', map_option JStr (ev_from_status r)),
      (''to_status'', map_option JStr (ev_to_status r)),
      (''safe_details_json'', Some (ev_safe_details_json r)),
      (''created_at'', Some (time_json env (ev_created_at r)))])"

definition read_event :: "dump_env \<Rightarrow> json \<Rightarrow> operation_event option" where
  "read_event env j =
     Option.bind (only_fields
       [''event_id'', ''competition_id'', ''problem_id'', ''entity_type'', ''entity_id'',
        ''event_type'', ''actor_type'', ''actor_id'', ''from_status'', ''to_status'',
        ''safe_details_json'', ''created_at''] j) (\<lambda>fs.
     Option.bind (field ''event_id'' read_text fs) (\<lambda>event_id.
     Option.bind (field ''competition_id'' read_text fs) (\<lambda>competition_id.
     Option.bind (opt_field ''problem_id'' read_text fs) (\<lambda>problem_id.
     Option.bind (field ''entity_type'' read_text fs) (\<lambda>entity_type.
     Option.bind (field ''entity_id'' read_text fs) (\<lambda>entity_id.
     Option.bind (field ''event_type'' read_text fs) (\<lambda>event_type.
     Option.bind (field ''actor_type'' (read_enum actor_type_value all_actor_type) fs) (\<lambda>actor_type.
     Option.bind (field ''actor_id'' read_text fs) (\<lambda>actor_id.
     Option.bind (opt_field ''from_status'' read_text fs) (\<lambda>from_status.
     Option.bind (opt_field ''to_status'' read_text fs) (\<lambda>to_status.
     Option.bind (field ''safe_details_json'' read_object fs) (\<lambda>safe_details_json.
     Option.bind (field ''created_at'' (de_read_time env) fs) (\<lambda>created_at.
     Some \<lparr>ev_event_id = event_id, ev_competition_id = competition_id,
       ev_problem_id = problem_id, ev_entity_type = entity_type, ev_entity_id = entity_id,
       ev_event_type = event_type, ev_actor_type = actor_type, ev_actor_id = actor_id,
       ev_from_status = from_status, ev_to_status = to_status,
       ev_safe_details_json = safe_details_json, ev_created_at = created_at\<rparr>)))))))))))))"

definition error_dump :: "operation_error \<Rightarrow> json" where
  "error_dump r = JObj (defined
     [(''error_id'', Some (JStr (oe_error_id r))),
      (''code'', Some (JStr (operation_error_code_value (oe_code r)))),
      (''message'', Some (JStr (oe_message r))),
      (''stage'', Some (JStr (error_stage_value (oe_stage r)))),
      (''retryable'', Some (JBool (oe_retryable r))),
      (''problem_id'', map_option JStr (oe_problem_id r)), (''job_id'', map_option JStr (oe_job_id r)),
      (''details'', Some (oe_details r))])"

definition read_error :: "json \<Rightarrow> operation_error option" where
  "read_error j =
     Option.bind (only_fields
       [''error_id'', ''code'', ''message'', ''stage'', ''retryable'', ''problem_id'', ''job_id'',
        ''details''] j) (\<lambda>fs.
     Option.bind (field ''error_id'' read_text fs) (\<lambda>error_id.
     Option.bind (field ''code'' (read_enum operation_error_code_value all_operation_error_code) fs) (\<lambda>code.
     Option.bind (field ''message'' read_text fs) (\<lambda>msg.
     Option.bind (field ''stage'' (read_enum error_stage_value all_operation_error_stage) fs) (\<lambda>error_stage.
     Option.bind (field ''retryable'' read_bool fs) (\<lambda>retryable.
     Option.bind (opt_field ''problem_id'' read_text fs) (\<lambda>problem_id.
     Option.bind (opt_field ''job_id'' read_text fs) (\<lambda>job_id.
     Option.bind (field ''details'' read_object fs) (\<lambda>details.
     Some \<lparr>oe_error_id = error_id, oe_code = code, oe_message = msg, oe_stage = error_stage,
       oe_retryable = retryable, oe_problem_id = problem_id, oe_job_id = job_id, oe_details = details\<rparr>)))))))))"

subsection \<open>Documents\<close>

definition bundle_fields :: "dump_env \<Rightarrow> operations_bundle \<Rightarrow> (string \<times> json) list" where
  "bundle_fields env b =
     [(''$schema'', JStr (ob_schema_uri b)),
      (''operations_schema_version'', JStr (ob_operations_schema_version b)),
      (''manifest'', manifest_dump env (ob_manifest b)),
      (''problems'', JArr (map (problem_dump env) (ob_problems b))),
      (''ai_modes'', JArr (map (mode_dump env) (ob_ai_modes b))),
      (''plans'', JArr (map (plan_dump env) (ob_plans b))),
      (''jobs'', JArr (map (job_dump env) (ob_jobs b))),
      (''verifications'', JArr (map (verification_dump env) (ob_verifications b))),
      (''candidates'', JArr (map (candidate_dump env) (ob_candidates b))),
      (''submissions'', JArr (map (submission_dump env) (ob_submissions b))),
      (''events'', JArr (map (event_dump env) (ob_events b))),
      (''errors'', JArr (map error_dump (ob_errors b)))]"

definition to_contract_dict :: "dump_env \<Rightarrow> operations_bundle \<Rightarrow> json" where
  "to_contract_dict env b = JObj (bundle_fields env b)"

definition read_bundle :: "dump_env \<Rightarrow> json \<Rightarrow> operations_bundle option" where
  "read_bundle env j =
     Option.bind (only_fields
       [''$schema'', ''operations_schema_version'', ''manifest'', ''problems'', ''ai_modes'', ''plans'',
        ''jobs'', ''verifications'', ''candidates'', ''submissions'', ''events'', ''errors''] j) (\<lambda>fs.
     Option.bind (field ''$schema'' read_text fs) (\<lambda>schema_uri.
     Option.bind (field ''operations_schema_version'' read_text fs) (\<lambda>version.
     Option.bind (field ''manifest'' (read_manifest env) fs) (\<lambda>manifest.
     Option.bind (field ''problems'' (read_items (read_problem env)) fs) (\<lambda>problems.
     Option.bind (field ''ai_modes'' (read_items (read_mode env)) fs) (\<lambda>ai_modes.
     Option.bind (field ''plans'' (read_items (read_plan env)) fs) (\<lambda>plans.
     Option.bind (field ''jobs'' (read_items (read_job env)) fs) (\<lambda>jobs.
     Option.bind (field ''verifications'' (read_items (read_verification env)) fs) (\<lambda>verifications.
     Option.bind (field ''candidates'' (read_items (read_candidate env)) fs) (\<lambda>candidates.
     Option.bind (field ''submissions'' (read_items (read_submission env)) fs) (\<lambda>submissions.
     Option.bind (field ''events'' (read_items (read_event env)) fs) (\<lambda>events.
     Option.bind (field ''errors'' (read_items read_error) fs) (\<lambda>errors.
     Some \<lparr>ob_schema_uri = schema_uri, ob_operations_schema_version = version, ob_manifest = manifest, ob_problems = problems,
       ob_ai_modes = ai_modes, ob_plans = plans, ob_jobs = jobs, ob_verifications = verifications, ob_candidates = candidates,
       ob_submissions = submissions, ob_events = events, ob_errors = errors\<rparr>)))))))))))))"

definition model_validate :: "dump_env \<Rightarrow> json \<Rightarrow> contract_error + operations_bundle" where
  "model_validate env j =
     (case read_bundle env j of
        None \<Rightarrow> Inl field_errors
      | Some b \<Rightarrow> and_then (validate_operations_document b) (\<lambda>_. Inr b))"

subsection \<open>Timestamps and URLs of a document\<close>

definition option_list :: "'a option \<Rightarrow> 'a list" where
  "option_list v = (case v of None \<Rightarrow> [] | Some x \<Rightarrow> [x])"

definition manifest_times :: "competition_manifest \<Rightarrow> instant list" where
  "manifest_times r = [mf_created_at r, mf_updated_at r]"

definition problem_times :: "problem_record \<Rightarrow> instant list" where
  "problem_times r = [pr_created_at r, pr_updated_at r]"

definition mode_times :: "ai_execution_mode \<Rightarrow> instant list" where
  "mode_times r = [am_created_at r]"

definition plan_times :: "plan_hypothesis \<Rightarrow> instant list" where
  "plan_times r = [pl_created_at r] @ option_list (pl_decided_at r)"

definition job_times :: "job_record \<Rightarrow> instant list" where
  "job_times r = [jb_queued_at r] @ option_list (jb_started_at r) @ option_list (jb_finished_at r)"

definition verification_times :: "verification_record \<Rightarrow> instant list" where
  "verification_times r = [vr_created_at r] @ option_list (vr_finished_at r)"

definition candidate_times :: "candidate_record \<Rightarrow> instant list" where
  "candidate_times r = [cd_created_at r, cd_updated_at r]"

definition submission_times :: "submission_record \<Rightarrow> instant list" where
  "submission_times r = [sb_submitted_at r]"

definition event_times :: "operation_event \<Rightarrow> instant list" where
  "event_times r = [ev_created_at r]"

definition document_times :: "operations_bundle \<Rightarrow> instant list" where
  "document_times b =
     manifest_times (ob_manifest b) @ concat (map problem_times (ob_problems b))
     @ concat (map mode_times (ob_ai_modes b)) @ concat (map plan_times (ob_plans b))
     @ concat (map job_times (ob_jobs b)) @ concat (map verification_times (ob_verifications b))
     @ concat (map candidate_times (ob_candidates b)) @ concat (map submission_times (ob_submissions b))
     @ concat (map event_times (ob_events b))"

definition document_urls :: "operations_bundle \<Rightarrow> string list" where
  "document_urls b = concat (map pr_provided_urls (ob_problems b))"

text \<open>The timestamp is read back from its own text.\<close>

definition time_ok :: "dump_env \<Rightarrow> instant \<Rightarrow> bool" where
  "time_ok env t \<longleftrightarrow> de_read_time env (time_json env t) = Some t"

subsection \<open>A dictionary reads back as its record\<close>

definition orelse :: "'a option \<Rightarrow> 'a option \<Rightarrow> 'a option" where
  "orelse a b = (case a of None \<Rightarrow> b | Some x \<Rightarrow> Some x)"

lemma orelse_simps [simp]: "orelse (Some x) b = Some x" "orelse None b = b" "orelse a None = a"
  by (simp_all add: orelse_def split: option.split)

lemma map_of_defined:
  "map_of (defined []) k' = None"
  "map_of (defined ((k, v) # fs)) k' =
     (if k = k' then orelse v (map_of (defined fs) k') else map_of (defined fs) k')"
  by (cases v; simp)+

lemma keys_defined: "fst ` set (defined fs) \<subseteq> fst ` set fs"
  by (induction fs rule: defined.induct) auto

lemma only_fields_defined:
  "set (map fst fs) \<subseteq> set names \<Longrightarrow> only_fields names (JObj (defined fs)) = Some (defined fs)"
  using keys_defined [of fs] by (auto simp: only_fields_def)

lemma those_map: "(\<And>x. x \<in> set xs \<Longrightarrow> r (f x) = Some (g x)) \<Longrightarrow> those (map r (map f xs)) = Some (map g xs)"
  by (induction xs) auto

lemma read_items_back:
  "(\<And>x. x \<in> set xs \<Longrightarrow> r (f x) = Some (g x)) \<Longrightarrow> read_items r (JArr (map f xs)) = Some (map g xs)"
  using those_map [of xs r f g] by simp

lemma read_texts_back: "read_items read_text (json_texts xs) = Some xs"
  using read_items_back [of xs read_text JStr id] by (simp add: json_texts_def)

lemma read_urls_back:
  "(\<And>u. u \<in> set us \<Longrightarrow> de_urls env u = Some u) \<Longrightarrow> read_items (read_url env) (json_texts us) = Some us"
  using read_items_back [of us "read_url env" JStr id] by (simp add: json_texts_def read_url_def)

lemma read_optional_back:
  "(\<And>x. v = Some x \<Longrightarrow> r (f x) = Some x) \<Longrightarrow> read_optional r (map_option f v) = Some v"
  by (cases v) (simp_all add: read_optional_def)

lemma read_optional_text: "read_optional read_text (map_option JStr v) = Some v"
  by (rule read_optional_back) simp

lemma read_optional_time:
  "list_all (time_ok env) (option_list v)
    \<Longrightarrow> read_optional (de_read_time env) (map_option (time_json env) v) = Some v"
  by (rule read_optional_back) (simp add: time_ok_def option_list_def)

lemma read_object_back: "is_json_object j \<Longrightarrow> read_object j = Some j"
  by (cases j) (simp_all add: is_json_object_def)

lemma read_competition_phase: "read_enum competition_phase_value all_competition_phase (JStr (competition_phase_value x)) = Some x"
  by (cases x) (simp_all add: read_enum_def all_competition_phase_def)

lemma read_competition_status: "read_enum competition_status_value all_competition_status (JStr (competition_status_value x)) = Some x"
  by (cases x) (simp_all add: read_enum_def all_competition_status_def)

lemma read_competition_environment: "read_enum environment_value all_competition_environment (JStr (environment_value x)) = Some x"
  by (cases x) (simp_all add: read_enum_def all_competition_environment_def)

lemma read_problem_priority: "read_enum priority_value all_problem_priority (JStr (priority_value x)) = Some x"
  by (cases x) (simp_all add: read_enum_def all_problem_priority_def)

lemma read_priority_source: "read_enum priority_source_value all_priority_source (JStr (priority_source_value x)) = Some x"
  by (cases x) (simp_all add: read_enum_def all_priority_source_def)

lemma read_problem_status: "read_enum problem_status_value all_problem_status (JStr (problem_status_value x)) = Some x"
  by (cases x) (simp_all add: read_enum_def all_problem_status_def)

lemma read_adapter_kind: "read_enum adapter_kind_value all_adapter_kind (JStr (adapter_kind_value x)) = Some x"
  by (cases x) (simp_all add: read_enum_def all_adapter_kind_def)

lemma read_data_boundary: "read_enum data_boundary_value all_data_boundary (JStr (data_boundary_value x)) = Some x"
  by (cases x) (simp_all add: read_enum_def all_data_boundary_def)

lemma read_ai_tool_mode: "read_enum tool_mode_value all_ai_tool_mode (JStr (tool_mode_value x)) = Some x"
  by (cases x) (simp_all add: read_enum_def all_ai_tool_mode_def)

lemma read_ai_rule_state: "read_enum rule_state_value all_ai_rule_state (JStr (rule_state_value x)) = Some x"
  by (cases x) (simp_all add: read_enum_def all_ai_rule_state_def)

lemma read_plan_status: "read_enum plan_status_value all_plan_status (JStr (plan_status_value x)) = Some x"
  by (cases x) (simp_all add: read_enum_def all_plan_status_def)

lemma read_job_role: "read_enum job_role_value all_job_role (JStr (job_role_value x)) = Some x"
  by (cases x) (simp_all add: read_enum_def all_job_role_def)

lemma read_job_status: "read_enum job_status_value all_job_status (JStr (job_status_value x)) = Some x"
  by (cases x) (simp_all add: read_enum_def all_job_status_def)

lemma read_verification_status: "read_enum verification_status_value all_verification_status (JStr (verification_status_value x)) = Some x"
  by (cases x) (simp_all add: read_enum_def all_verification_status_def)

lemma read_candidate_status: "read_enum candidate_status_value all_candidate_status (JStr (candidate_status_value x)) = Some x"
  by (cases x) (simp_all add: read_enum_def all_candidate_status_def)

lemma read_recommendation: "read_enum recommendation_value all_recommendation (JStr (recommendation_value x)) = Some x"
  by (cases x) (simp_all add: read_enum_def all_recommendation_def)

lemma read_submission_response: "read_enum submission_response_value all_submission_response (JStr (submission_response_value x)) = Some x"
  by (cases x) (simp_all add: read_enum_def all_submission_response_def)

lemma read_actor_type: "read_enum actor_type_value all_actor_type (JStr (actor_type_value x)) = Some x"
  by (cases x) (simp_all add: read_enum_def all_actor_type_def)

lemma read_operation_error_stage: "read_enum error_stage_value all_operation_error_stage (JStr (error_stage_value x)) = Some x"
  by (cases x) (simp_all add: read_enum_def all_operation_error_stage_def)

lemma read_operation_error_code: "read_enum operation_error_code_value all_operation_error_code (JStr (operation_error_code_value x)) = Some x"
  by (cases x) (simp_all add: read_enum_def all_operation_error_code_def)

lemma read_analysis_type: "read_enum analysis_type_value all_analysis_type (JStr (analysis_type_value x)) = Some x"
  by (cases x) (simp_all add: read_enum_def all_analysis_type_def)

lemmas enum_reads = read_competition_phase  read_competition_status  read_competition_environment
   read_problem_priority  read_priority_source  read_problem_status  read_adapter_kind
   read_data_boundary  read_ai_tool_mode  read_ai_rule_state  read_plan_status  read_job_role
   read_job_status  read_verification_status  read_candidate_status  read_recommendation
   read_submission_response  read_actor_type  read_operation_error_stage  read_operation_error_code
   read_analysis_type

lemmas read_simps =
  only_fields_defined field_def opt_field_def map_of_defined read_texts_back read_urls_back
  read_optional_text read_optional_time read_object_back enum_reads

lemma read_provided_file_dump:
  "read_provided_file (provided_file_dump r) = Some r"
  by (simp add: read_provided_file_def provided_file_dump_def read_simps del: defined.simps)

lemma read_manifest_dump:
  assumes "list_all (time_ok env) (manifest_times r)"
  shows "read_manifest env (manifest_dump env r) = Some r"
  using assms by (simp add: read_manifest_def manifest_dump_def manifest_times_def time_ok_def read_simps del: defined.simps)

lemma read_problem_dump:
  assumes "list_all (time_ok env) (problem_times r)"
    and "\<And>u. u \<in> set (pr_provided_urls r) \<Longrightarrow> de_urls env u = Some u"
  shows "read_problem env (problem_dump env r) = Some r"
proof -
  have "read_items read_provided_file (JArr (map provided_file_dump (pr_provided_file_artifacts r))) = Some (pr_provided_file_artifacts r)"
    using read_items_back [of "pr_provided_file_artifacts r" read_provided_file provided_file_dump id] by (simp add: read_provided_file_dump)
  then show ?thesis
    using assms by (simp add: read_problem_def problem_dump_def problem_times_def time_ok_def read_simps del: defined.simps)
qed

lemma read_mode_dump:
  assumes "list_all (time_ok env) (mode_times r)"
  shows "read_mode env (mode_dump env r) = Some r"
  using assms by (simp add: read_mode_def mode_dump_def mode_times_def time_ok_def read_simps del: defined.simps)

lemma read_leaf_dump:
  assumes "is_json_object (lf_inputs_projection r)"
  shows "read_leaf (leaf_dump r) = Some r"
  using assms by (simp add: read_leaf_def leaf_dump_def read_simps del: defined.simps)

lemma read_plan_dump:
  assumes "list_all (time_ok env) (plan_times r)"
    and "\<And>l. l \<in> set (pl_leaf_job_specs r) \<Longrightarrow> is_json_object (lf_inputs_projection l)"
  shows "read_plan env (plan_dump env r) = Some r"
proof -
  have "read_items read_leaf (JArr (map leaf_dump (pl_leaf_job_specs r))) = Some (pl_leaf_job_specs r)"
    using read_items_back [of "pl_leaf_job_specs r" read_leaf leaf_dump id] assms by (simp add: read_leaf_dump)
  then show ?thesis
    using assms by (simp add: read_plan_def plan_dump_def plan_times_def time_ok_def read_simps del: defined.simps)
qed

lemma read_job_dump:
  assumes "list_all (time_ok env) (job_times r)"
  shows "read_job env (job_dump env r) = Some r"
  using assms by (simp add: read_job_def job_dump_def job_times_def time_ok_def read_simps del: defined.simps)

lemma read_check_dump:
  "read_check (check_dump r) = Some r"
  by (simp add: read_check_def check_dump_def read_simps del: defined.simps)

lemma read_verification_dump:
  assumes "list_all (time_ok env) (verification_times r)"
  shows "read_verification env (verification_dump env r) = Some r"
proof -
  have "read_items read_check (JArr (map check_dump (vr_check_results r))) = Some (vr_check_results r)"
    using read_items_back [of "vr_check_results r" read_check check_dump id] by (simp add: read_check_dump)
  then show ?thesis
    using assms by (simp add: read_verification_def verification_dump_def verification_times_def time_ok_def read_simps del: defined.simps)
qed

lemma read_candidate_dump:
  assumes "list_all (time_ok env) (candidate_times r)"
  shows "read_candidate env (candidate_dump env r) = Some r"
  using assms by (simp add: read_candidate_def candidate_dump_def candidate_times_def time_ok_def read_simps del: defined.simps)

lemma read_submission_dump:
  assumes "list_all (time_ok env) (submission_times r)"
  shows "read_submission env (submission_dump env r) = Some r"
  using assms by (simp add: read_submission_def submission_dump_def submission_times_def time_ok_def read_simps del: defined.simps)

lemma read_event_dump:
  assumes "list_all (time_ok env) (event_times r)"
    and "is_json_object (ev_safe_details_json r)"
  shows "read_event env (event_dump env r) = Some r"
  using assms by (simp add: read_event_def event_dump_def event_times_def time_ok_def read_simps del: defined.simps)

lemma read_error_dump:
  assumes "is_json_object (oe_details r)"
  shows "read_error (error_dump r) = Some r"
  using assms by (simp add: read_error_def error_dump_def read_simps del: defined.simps)

end
