(* ===== verification/Sqlite_Operations.thy ===== *)
theory Sqlite_Operations
  imports Operations_Json Submission Storage_Invariant
begin

section \<open>The operations database\<close>

text \<open>
  \<^verbatim>\<open>adapters/sqlite_operations.py\<close>: the second version of the workspace database, which holds operations
  documents beside the tables of the first version (\<open>od_v1\<close>). As there, a table is the list of its rows in
  insertion order, an \<^verbatim>\<open>INSERT\<close> checks the constraints of the DDL, and \<^verbatim>\<open>with self._connection\<close> is a
  transaction; the foreign keys declared \<^verbatim>\<open>DEFERRABLE INITIALLY DEFERRED\<close> are checked when it commits.
  Columns hold what the code binds: wire values, JSON text, and the text of timestamps, by which
  the queries sort. An integer outside 64 bits cannot be bound. Rows of events are never updated or
  deleted, so the triggers that forbid it have no counterpart. Errors of the database system itself
  are not modelled.
\<close>

subsection \<open>Rows\<close>

record competition_row =
  kc_competition_id :: string
  kc_operations_schema_version :: string
  kc_name :: string
  kc_phase :: string
  kc_environment :: string
  kc_rules_snapshot_ref :: string
  kc_status :: string
  kc_created_at :: string
  kc_updated_at :: string

record mode_row =
  km_mode_id :: string
  km_competition_id :: string
  km_provider_id :: "string option"
  km_model_id :: "string option"
  km_adapter_kind :: string
  km_data_boundary :: string
  km_tool_mode :: string
  km_rule_state :: string
  km_affected_rule_ids_json :: string
  km_rules_snapshot_ref :: string
  km_created_at :: string

record problem_db_row =
  kp_problem_id :: string
  kp_competition_id :: string
  kp_title :: string
  kp_provided_urls_json :: string
  kp_score :: int
  kp_answer_format :: string
  kp_priority :: string
  kp_priority_source :: string
  kp_status :: string
  kp_active_plan_id :: "string option"
  kp_created_at :: string
  kp_updated_at :: string

record problem_artifact_row =
  ka_problem_id :: string
  ka_artifact_sha256 :: string
  ka_role :: string
  ka_filename :: "string option"
  ka_media_type :: "string option"

record plan_row =
  kl_plan_id :: string
  kl_problem_id :: string
  kl_mode_id :: string
  kl_planner_job_id :: string
  kl_status :: string
  kl_problem_type_hypothesis :: string
  kl_method_hypothesis :: string
  kl_assumptions_json :: string
  kl_missing_inputs_json :: string
  kl_leaf_job_specs_json :: string
  kl_raw_output_artifact_sha256 :: "string option"
  kl_created_at :: string
  kl_decided_at :: "string option"

record job_row =
  kj_job_id :: string
  kj_problem_id :: string
  kj_plan_id :: string
  kj_role :: string
  kj_job_type :: string
  kj_status :: string
  kj_priority :: string
  kj_idempotency_key :: string
  kj_analysis_id :: "string option"
  kj_attempt :: int
  kj_max_attempts :: int
  kj_assigned_worker_id :: "string option"
  kj_error_code :: "string option"
  kj_checkpoint_ref :: "string option"
  kj_queued_at :: string
  kj_started_at :: "string option"
  kj_finished_at :: "string option"

record analysis_link_row =
  kk_problem_id :: string
  kk_analysis_id :: string
  kk_role :: string
  kk_job_id :: string

record candidate_row =
  kd_candidate_id :: string
  kd_problem_id :: string
  kd_answer_format :: string
  kd_answer_value :: string
  kd_status :: string
  kd_verification_refs_json :: string
  kd_confidence :: int
  kd_confidence_basis :: string
  kd_uncertainties_json :: string
  kd_recommendation :: string
  kd_created_by_job_id :: string
  kd_created_at :: string
  kd_updated_at :: string

record candidate_link_row =
  kr_candidate_id :: string
  kr_analysis_id :: string
  kr_ref_type :: string
  kr_ref_id :: string

record verification_db_row =
  kv_verification_id :: string
  kv_problem_id :: string
  kv_candidate_id :: string
  kv_verifier_job_id :: string
  kv_status :: string
  kv_required_checks_json :: string
  kv_independent_from_job_ids_json :: string
  kv_conflicts_json :: string
  kv_missing_evidence_json :: string
  kv_created_at :: string
  kv_finished_at :: "string option"

record check_row =
  kx_verification_id :: string
  kx_check_name :: string
  kx_passed :: int
  kx_result_refs_json :: string
  kx_evidence_refs_json :: string

record submission_db_row =
  ks_submission_id :: string
  ks_candidate_id :: string
  ks_operator_confirmed :: int
  ks_response :: string
  ks_submitted_at :: string
  ks_note_artifact_sha256 :: "string option"

record event_row =
  ke_event_id :: string
  ke_competition_id :: string
  ke_problem_id :: "string option"
  ke_entity_type :: string
  ke_entity_id :: string
  ke_event_type :: string
  ke_actor_type :: string
  ke_actor_id :: string
  ke_from_status :: "string option"
  ke_to_status :: "string option"
  ke_safe_details_json :: string
  ke_created_at :: string

record error_row =
  kf_error_id :: string
  kf_competition_id :: string
  kf_code :: string
  kf_message :: string
  kf_stage :: string
  kf_retryable :: int
  kf_problem_id :: "string option"
  kf_job_id :: "string option"
  kf_details_json :: string

record operations_db =
  od_v1 :: storage
  od_competitions :: "competition_row list"
  od_modes :: "mode_row list"
  od_problems :: "problem_db_row list"
  od_problem_artifacts :: "problem_artifact_row list"
  od_plans :: "plan_row list"
  od_jobs :: "job_row list"
  od_dependencies :: "(string \<times> string) list"
  od_analysis_links :: "analysis_link_row list"
  od_candidates :: "candidate_row list"
  od_candidate_links :: "candidate_link_row list"
  od_verifications :: "verification_db_row list"
  od_checks :: "check_row list"
  od_submissions :: "submission_db_row list"
  od_events :: "event_row list"
  od_errors :: "error_row list"

text \<open>What the DDL of the second version creates beside the tables of the first.\<close>

definition empty_operations :: "storage \<Rightarrow> operations_db" where
  "empty_operations v1 =
     \<lparr>od_v1 = v1, od_competitions = [], od_modes = [], od_problems = [], od_problem_artifacts = [], od_plans = [],
      od_jobs = [], od_dependencies = [], od_analysis_links = [], od_candidates = [], od_candidate_links = [],
      od_verifications = [], od_checks = [], od_submissions = [], od_events = [], od_errors = []\<rparr>"

subsection \<open>Statements and transactions\<close>

datatype operations_error =
    Ops_Value_Error string | Ops_Integrity_Error string | Ops_Overflow_Error | Ops_Database_Error string
  | Ops_File_Error string | Ops_Guard_Error guard_error | Ops_Validation_Error contract_error
  | Ops_Json_Error | Ops_Storage_Error storage_error

type_synonym 'a ops_action = "operations_db \<Rightarrow> (operations_error + 'a) \<times> operations_db"

text \<open>The foreign keys that may be broken inside a transaction.\<close>

definition deferred_refs :: "operations_db \<Rightarrow> bool" where
  "deferred_refs db \<longleftrightarrow>
     list_all (\<lambda>p. optional_ok (\<lambda>i. i \<in> set (map kl_plan_id (od_plans db))) (kp_active_plan_id p)) (od_problems db)
     \<and> list_all (\<lambda>p. kl_planner_job_id p \<in> set (map kj_job_id (od_jobs db))) (od_plans db)
     \<and> list_all (\<lambda>j. kj_plan_id j \<in> set (map kl_plan_id (od_plans db))) (od_jobs db)"

definition ops_transaction :: "(operations_db \<Rightarrow> operations_error + 'a \<times> operations_db) \<Rightarrow> 'a ops_action" where
  "ops_transaction body db =
     (case body db of
        Inl e \<Rightarrow> (Inl e, db)
      | Inr (x, db') \<Rightarrow>
          if deferred_refs db' then (Inr x, db')
          else (Inl (Ops_Integrity_Error ''FOREIGN KEY constraint failed''), db))"

definition ops_constrained :: "bool \<Rightarrow> bool \<Rightarrow> bool \<Rightarrow> operations_db \<Rightarrow> operations_error + operations_db" where
  "ops_constrained checks unique refs db =
     and_then
       (all_checks
         [raise_if (\<not> checks) (Ops_Integrity_Error ''CHECK constraint failed''),
          raise_if (\<not> unique) (Ops_Integrity_Error ''UNIQUE constraint failed''),
          raise_if (\<not> refs) (Ops_Integrity_Error ''FOREIGN KEY constraint failed'')])
       (\<lambda>_. Inr db)"

text \<open>The integers that SQLite stores.\<close>

definition int64 :: "int \<Rightarrow> bool" where
  "int64 i \<longleftrightarrow> - (2 ^ 63) \<le> i \<and> i < 2 ^ 63"

definition bindable :: "int list \<Rightarrow> operations_error + unit" where
  "bindable is = raise_if (\<not> list_all int64 is) Ops_Overflow_Error"

definition competition_known :: "operations_db \<Rightarrow> string \<Rightarrow> bool" where
  "competition_known db i \<longleftrightarrow> i \<in> set (map kc_competition_id (od_competitions db))"

definition problem_known :: "operations_db \<Rightarrow> string \<Rightarrow> bool" where
  "problem_known db i \<longleftrightarrow> i \<in> set (map kp_problem_id (od_problems db))"

definition job_known :: "operations_db \<Rightarrow> string \<Rightarrow> bool" where
  "job_known db i \<longleftrightarrow> i \<in> set (map kj_job_id (od_jobs db))"

definition candidate_known :: "operations_db \<Rightarrow> string \<Rightarrow> bool" where
  "candidate_known db i \<longleftrightarrow> i \<in> set (map kd_candidate_id (od_candidates db))"

definition plan_row_refs :: "operations_db \<Rightarrow> plan_row \<Rightarrow> bool" where
  "plan_row_refs db r \<longleftrightarrow>
     problem_known db (kl_problem_id r) \<and> kl_mode_id r \<in> set (map km_mode_id (od_modes db))
     \<and> optional_ok (artifact_exists (od_v1 db)) (kl_raw_output_artifact_sha256 r)"

definition job_row_checks :: "job_row \<Rightarrow> bool" where
  "job_row_checks r \<longleftrightarrow>
     sql_length (kj_idempotency_key r) = 64 \<and> 0 \<le> kj_attempt r \<and> 1 \<le> kj_max_attempts r
     \<and> kj_attempt r \<le> kj_max_attempts r"

definition job_row_refs :: "operations_db \<Rightarrow> job_row \<Rightarrow> bool" where
  "job_row_refs db r \<longleftrightarrow> problem_known db (kj_problem_id r) \<and> optional_ok (run_exists (od_v1 db)) (kj_analysis_id r)"

definition problem_artifact_key :: "problem_artifact_row \<Rightarrow> string \<times> string \<times> string" where
  "problem_artifact_key r = (ka_problem_id r, ka_artifact_sha256 r, ka_role r)"

text \<open>The primary key and the partial index \<^verbatim>\<open>problem_original_artifact\<close>.\<close>

definition problem_artifact_unique :: "operations_db \<Rightarrow> problem_artifact_row \<Rightarrow> bool" where
  "problem_artifact_unique db r \<longleftrightarrow>
     problem_artifact_key r \<notin> set (map problem_artifact_key (od_problem_artifacts db))
     \<and> (ka_role r = ''original_text'' \<longrightarrow>
          \<not> list_ex (\<lambda>a. ka_role a = ''original_text'' \<and> ka_problem_id a = ka_problem_id r) (od_problem_artifacts db))"

definition verification_row_refs :: "operations_db \<Rightarrow> verification_db_row \<Rightarrow> bool" where
  "verification_row_refs db r \<longleftrightarrow>
     problem_known db (kv_problem_id r) \<and> candidate_known db (kv_candidate_id r)
     \<and> job_known db (kv_verifier_job_id r)"

definition insert_competition :: "competition_row \<Rightarrow> operations_db \<Rightarrow> operations_error + operations_db" where
  "insert_competition r db =
     ops_constrained (kc_operations_schema_version r = ''0.1'')
       (\<not> competition_known db (kc_competition_id r)) True
       (db\<lparr>od_competitions := od_competitions db @ [r]\<rparr>)"

definition insert_mode_row :: "mode_row \<Rightarrow> operations_db \<Rightarrow> operations_error + operations_db" where
  "insert_mode_row r db =
     ops_constrained True (km_mode_id r \<notin> set (map km_mode_id (od_modes db)))
       (competition_known db (km_competition_id r)) (db\<lparr>od_modes := od_modes db @ [r]\<rparr>)"

definition insert_problem_row :: "problem_db_row \<Rightarrow> operations_db \<Rightarrow> operations_error + operations_db" where
  "insert_problem_row r db =
     and_then (bindable [kp_score r]) (\<lambda>_.
     ops_constrained (0 \<le> kp_score r) (\<not> problem_known db (kp_problem_id r))
       (competition_known db (kp_competition_id r)) (db\<lparr>od_problems := od_problems db @ [r]\<rparr>))"

definition insert_problem_artifact ::
    "problem_artifact_row \<Rightarrow> operations_db \<Rightarrow> operations_error + operations_db" where
  "insert_problem_artifact r db =
     ops_constrained (ka_role r \<in> {''original_text'', ''provided_file''}) (problem_artifact_unique db r)
       (problem_known db (ka_problem_id r) \<and> artifact_exists (od_v1 db) (ka_artifact_sha256 r))
       (db\<lparr>od_problem_artifacts := od_problem_artifacts db @ [r]\<rparr>)"

definition insert_plan_row :: "plan_row \<Rightarrow> operations_db \<Rightarrow> operations_error + operations_db" where
  "insert_plan_row r db =
     ops_constrained True (kl_plan_id r \<notin> set (map kl_plan_id (od_plans db)))
       (plan_row_refs db r) (db\<lparr>od_plans := od_plans db @ [r]\<rparr>)"

definition insert_job_row :: "job_row \<Rightarrow> operations_db \<Rightarrow> operations_error + operations_db" where
  "insert_job_row r db =
     and_then (bindable [kj_attempt r, kj_max_attempts r]) (\<lambda>_.
     ops_constrained (job_row_checks r) (\<not> job_known db (kj_job_id r)) (job_row_refs db r)
       (db\<lparr>od_jobs := od_jobs db @ [r]\<rparr>))"

definition insert_analysis_link :: "analysis_link_row \<Rightarrow> operations_db \<Rightarrow> operations_error + operations_db" where
  "insert_analysis_link r db =
     ops_constrained True
       ((kk_problem_id r, kk_analysis_id r, kk_job_id r)
          \<notin> set (map (\<lambda>l. (kk_problem_id l, kk_analysis_id l, kk_job_id l)) (od_analysis_links db)))
       (problem_known db (kk_problem_id r) \<and> run_exists (od_v1 db) (kk_analysis_id r)
        \<and> job_known db (kk_job_id r))
       (db\<lparr>od_analysis_links := od_analysis_links db @ [r]\<rparr>)"

definition insert_dependency :: "string \<times> string \<Rightarrow> operations_db \<Rightarrow> operations_error + operations_db" where
  "insert_dependency r db =
     ops_constrained (fst r \<noteq> snd r) (r \<notin> set (od_dependencies db))
       (job_known db (fst r) \<and> job_known db (snd r)) (db\<lparr>od_dependencies := od_dependencies db @ [r]\<rparr>)"

definition insert_candidate_row :: "candidate_row \<Rightarrow> operations_db \<Rightarrow> operations_error + operations_db" where
  "insert_candidate_row r db =
     and_then (bindable [kd_confidence r]) (\<lambda>_.
     ops_constrained (0 \<le> kd_confidence r \<and> kd_confidence r \<le> 100) (\<not> candidate_known db (kd_candidate_id r))
       (problem_known db (kd_problem_id r) \<and> job_known db (kd_created_by_job_id r))
       (db\<lparr>od_candidates := od_candidates db @ [r]\<rparr>))"

definition insert_candidate_link ::
    "candidate_link_row \<Rightarrow> operations_db \<Rightarrow> operations_error + operations_db" where
  "insert_candidate_link r db =
     ops_constrained (kr_ref_type r \<in> {''result'', ''evidence''})
       ((kr_candidate_id r, kr_ref_type r, kr_ref_id r)
          \<notin> set (map (\<lambda>l. (kr_candidate_id l, kr_ref_type l, kr_ref_id l)) (od_candidate_links db)))
       (candidate_known db (kr_candidate_id r) \<and> run_exists (od_v1 db) (kr_analysis_id r))
       (db\<lparr>od_candidate_links := od_candidate_links db @ [r]\<rparr>)"

definition insert_verification_row ::
    "verification_db_row \<Rightarrow> operations_db \<Rightarrow> operations_error + operations_db" where
  "insert_verification_row r db =
     ops_constrained True (kv_verification_id r \<notin> set (map kv_verification_id (od_verifications db)))
       (verification_row_refs db r) (db\<lparr>od_verifications := od_verifications db @ [r]\<rparr>)"

definition insert_check_row :: "check_row \<Rightarrow> operations_db \<Rightarrow> operations_error + operations_db" where
  "insert_check_row r db =
     ops_constrained (kx_passed r \<in> {0, 1})
       ((kx_verification_id r, kx_check_name r)
          \<notin> set (map (\<lambda>c. (kx_verification_id c, kx_check_name c)) (od_checks db)))
       (kx_verification_id r \<in> set (map kv_verification_id (od_verifications db)))
       (db\<lparr>od_checks := od_checks db @ [r]\<rparr>)"

definition insert_submission_row :: "submission_db_row \<Rightarrow> operations_db \<Rightarrow> operations_error + operations_db" where
  "insert_submission_row r db =
     ops_constrained (ks_operator_confirmed r = 1)
       (ks_submission_id r \<notin> set (map ks_submission_id (od_submissions db)))
       (candidate_known db (ks_candidate_id r)
        \<and> optional_ok (artifact_exists (od_v1 db)) (ks_note_artifact_sha256 r))
       (db\<lparr>od_submissions := od_submissions db @ [r]\<rparr>)"

definition insert_event_row :: "event_row \<Rightarrow> operations_db \<Rightarrow> operations_error + operations_db" where
  "insert_event_row r db =
     ops_constrained True (ke_event_id r \<notin> set (map ke_event_id (od_events db)))
       (competition_known db (ke_competition_id r) \<and> optional_ok (problem_known db) (ke_problem_id r))
       (db\<lparr>od_events := od_events db @ [r]\<rparr>)"

definition insert_error_row :: "error_row \<Rightarrow> operations_db \<Rightarrow> operations_error + operations_db" where
  "insert_error_row r db =
     ops_constrained (kf_retryable r \<in> {0, 1}) (kf_error_id r \<notin> set (map kf_error_id (od_errors db)))
       (competition_known db (kf_competition_id r) \<and> optional_ok (problem_known db) (kf_problem_id r)
        \<and> optional_ok (job_known db) (kf_job_id r))
       (db\<lparr>od_errors := od_errors db @ [r]\<rparr>)"

subsection \<open>Rows of a document\<close>

definition artifact_prefix :: string where
  "artifact_prefix = ''artifact://sha256/''"

definition artifact_sha :: "string \<Rightarrow> operations_error + string" where
  "artifact_sha uri =
     and_then (raise_if (\<not> starts_with artifact_prefix uri) (Ops_Value_Error ''unsupported artifact URI''))
       (\<lambda>_. Inr (drop (length artifact_prefix) uri))"

definition artifact_uri_text :: "string \<Rightarrow> string" where
  "artifact_uri_text sha256 = artifact_prefix @ sha256"

definition require_artifact :: "operations_db \<Rightarrow> string \<Rightarrow> operations_error + unit" where
  "require_artifact db sha256 =
     raise_if (\<not> artifact_exists (od_v1 db) sha256)
       (Ops_Value_Error ''operations artifact must already exist in v1 artifacts'')"

definition competition_row_for :: "dump_env \<Rightarrow> competition_manifest \<Rightarrow> competition_row" where
  "competition_row_for env r =
     \<lparr>kc_competition_id = mf_competition_id r,
      kc_operations_schema_version = mf_operations_schema_version r, kc_name = mf_name r,
      kc_phase = competition_phase_value (mf_phase r),
      kc_environment = environment_value (mf_environment r),
      kc_rules_snapshot_ref = mf_rules_snapshot_ref r,
      kc_status = competition_status_value (mf_status r),
      kc_created_at = de_time_text env (mf_created_at r),
      kc_updated_at = de_time_text env (mf_updated_at r)\<rparr>"

definition mode_row_for :: "dump_env \<Rightarrow> ai_execution_mode \<Rightarrow> mode_row" where
  "mode_row_for env r =
     \<lparr>km_mode_id = am_mode_id r, km_competition_id = am_competition_id r,
      km_provider_id = am_provider_id r, km_model_id = am_model_id r,
      km_adapter_kind = adapter_kind_value (am_adapter_kind r),
      km_data_boundary = data_boundary_value (am_data_boundary r),
      km_tool_mode = tool_mode_value (am_tool_mode r),
      km_rule_state = rule_state_value (am_rule_state r),
      km_affected_rule_ids_json = dumps (json_texts (am_affected_rule_ids r)),
      km_rules_snapshot_ref = am_rules_snapshot_ref r,
      km_created_at = de_time_text env (am_created_at r)\<rparr>"

definition problem_row_for :: "dump_env \<Rightarrow> problem_record \<Rightarrow> problem_db_row" where
  "problem_row_for env r =
     \<lparr>kp_problem_id = pr_problem_id r, kp_competition_id = pr_competition_id r,
      kp_title = pr_title r, kp_provided_urls_json = dumps (json_texts (pr_provided_urls r)),
      kp_score = pr_score r, kp_answer_format = pr_answer_format r,
      kp_priority = priority_value (pr_priority r),
      kp_priority_source = priority_source_value (pr_priority_source r),
      kp_status = problem_status_value (pr_status r), kp_active_plan_id = pr_active_plan_id r,
      kp_created_at = de_time_text env (pr_created_at r),
      kp_updated_at = de_time_text env (pr_updated_at r)\<rparr>"

definition original_row_for :: "problem_record \<Rightarrow> string \<Rightarrow> problem_artifact_row" where
  "original_row_for r sha256 =
     \<lparr>ka_problem_id = pr_problem_id r, ka_artifact_sha256 = sha256, ka_role = ''original_text'',
      ka_filename = None, ka_media_type = None\<rparr>"

definition file_row_for :: "problem_record \<Rightarrow> provided_file_artifact \<Rightarrow> problem_artifact_row" where
  "file_row_for r f =
     \<lparr>ka_problem_id = pr_problem_id r, ka_artifact_sha256 = pf_sha256 f,
      ka_role = ''provided_file'', ka_filename = Some (pf_filename f),
      ka_media_type = Some (pf_media_type f)\<rparr>"

definition plan_row_for :: "dump_env \<Rightarrow> plan_hypothesis \<Rightarrow> string option \<Rightarrow> plan_row" where
  "plan_row_for env r raw_sha =
     \<lparr>kl_plan_id = pl_plan_id r, kl_problem_id = pl_problem_id r, kl_mode_id = pl_mode_id r,
      kl_planner_job_id = pl_planner_job_id r, kl_status = plan_status_value (pl_status r),
      kl_problem_type_hypothesis = pl_problem_type_hypothesis r,
      kl_method_hypothesis = pl_method_hypothesis r,
      kl_assumptions_json = dumps (json_texts (pl_assumptions r)),
      kl_missing_inputs_json = dumps (json_texts (pl_missing_inputs r)),
      kl_leaf_job_specs_json = dumps (JArr (map leaf_dump (pl_leaf_job_specs r))),
      kl_raw_output_artifact_sha256 = raw_sha, kl_created_at = de_time_text env (pl_created_at r),
      kl_decided_at = map_option (de_time_text env) (pl_decided_at r)\<rparr>"

definition job_row_for :: "dump_env \<Rightarrow> job_record \<Rightarrow> job_row" where
  "job_row_for env r =
     \<lparr>kj_job_id = jb_job_id r, kj_problem_id = jb_problem_id r, kj_plan_id = jb_plan_id r,
      kj_role = job_role_value (jb_role r), kj_job_type = jb_job_type r,
      kj_status = job_status_value (jb_status r), kj_priority = priority_value (jb_priority r),
      kj_idempotency_key = jb_idempotency_key r, kj_analysis_id = jb_analysis_id r,
      kj_attempt = jb_attempt r, kj_max_attempts = jb_max_attempts r,
      kj_assigned_worker_id = jb_assigned_worker_id r, kj_error_code = jb_error_code r,
      kj_checkpoint_ref = jb_checkpoint_ref r, kj_queued_at = de_time_text env (jb_queued_at r),
      kj_started_at = map_option (de_time_text env) (jb_started_at r),
      kj_finished_at = map_option (de_time_text env) (jb_finished_at r)\<rparr>"

definition candidate_row_for :: "dump_env \<Rightarrow> candidate_record \<Rightarrow> candidate_row" where
  "candidate_row_for env r =
     \<lparr>kd_candidate_id = cd_candidate_id r, kd_problem_id = cd_problem_id r,
      kd_answer_format = cd_answer_format r, kd_answer_value = cd_answer_value r,
      kd_status = candidate_status_value (cd_status r),
      kd_verification_refs_json = dumps (json_texts (cd_verification_refs r)),
      kd_confidence = cd_confidence r, kd_confidence_basis = cd_confidence_basis r,
      kd_uncertainties_json = dumps (json_texts (cd_uncertainties r)),
      kd_recommendation = recommendation_value (cd_recommendation r),
      kd_created_by_job_id = cd_created_by_job_id r,
      kd_created_at = de_time_text env (cd_created_at r),
      kd_updated_at = de_time_text env (cd_updated_at r)\<rparr>"

definition verification_row_for :: "dump_env \<Rightarrow> verification_record \<Rightarrow> verification_db_row" where
  "verification_row_for env r =
     \<lparr>kv_verification_id = vr_verification_id r, kv_problem_id = vr_problem_id r,
      kv_candidate_id = vr_candidate_id r, kv_verifier_job_id = vr_verifier_job_id r,
      kv_status = verification_status_value (vr_status r),
      kv_required_checks_json = dumps (json_texts (vr_required_checks r)),
      kv_independent_from_job_ids_json = dumps (json_texts (vr_independent_from_job_ids r)),
      kv_conflicts_json = dumps (json_texts (vr_conflicts r)),
      kv_missing_evidence_json = dumps (json_texts (vr_missing_evidence r)),
      kv_created_at = de_time_text env (vr_created_at r),
      kv_finished_at = map_option (de_time_text env) (vr_finished_at r)\<rparr>"

definition check_row_for :: "verification_record \<Rightarrow> verification_check \<Rightarrow> check_row" where
  "check_row_for v c =
     \<lparr>kx_verification_id = vr_verification_id v, kx_check_name = vc_check c,
      kx_passed = of_bool (vc_passed c), kx_result_refs_json = dumps (json_texts (vc_result_refs c)),
      kx_evidence_refs_json = dumps (json_texts (vc_evidence_refs c))\<rparr>"

definition submission_row_for :: "dump_env \<Rightarrow> submission_record \<Rightarrow> string option \<Rightarrow> submission_db_row" where
  "submission_row_for env r note_sha =
     \<lparr>ks_submission_id = sb_submission_id r, ks_candidate_id = sb_candidate_id r,
      ks_operator_confirmed = of_bool (sb_operator_confirmed r),
      ks_response = submission_response_value (sb_response r),
      ks_submitted_at = de_time_text env (sb_submitted_at r), ks_note_artifact_sha256 = note_sha\<rparr>"

definition event_row_for :: "dump_env \<Rightarrow> operation_event \<Rightarrow> event_row" where
  "event_row_for env r =
     \<lparr>ke_event_id = ev_event_id r, ke_competition_id = ev_competition_id r,
      ke_problem_id = ev_problem_id r, ke_entity_type = ev_entity_type r,
      ke_entity_id = ev_entity_id r, ke_event_type = ev_event_type r,
      ke_actor_type = actor_type_value (ev_actor_type r), ke_actor_id = ev_actor_id r,
      ke_from_status = ev_from_status r, ke_to_status = ev_to_status r,
      ke_safe_details_json = dumps (ev_safe_details_json r),
      ke_created_at = de_time_text env (ev_created_at r)\<rparr>"

definition error_row_for :: "string \<Rightarrow> operation_error \<Rightarrow> error_row" where
  "error_row_for competition_id r =
     \<lparr>kf_error_id = oe_error_id r, kf_competition_id = competition_id,
      kf_code = operation_error_code_value (oe_code r), kf_message = oe_message r,
      kf_stage = error_stage_value (oe_stage r), kf_retryable = of_bool (oe_retryable r),
      kf_problem_id = oe_problem_id r, kf_job_id = oe_job_id r, kf_details_json = dumps (oe_details r)\<rparr>"

subsection \<open>Writing a document\<close>

text \<open>A reference to an artifact that may be missing, checked before the row that holds it.\<close>

definition optional_artifact :: "operations_db \<Rightarrow> string option \<Rightarrow> operations_error + string option" where
  "optional_artifact db uri =
     (case uri of
        None \<Rightarrow> Inr None
      | Some u \<Rightarrow>
          and_then (artifact_sha u) (\<lambda>sha256.
          and_then (require_artifact db sha256) (\<lambda>_. Inr (Some sha256))))"

definition insert_file :: "problem_record \<Rightarrow> operations_db \<Rightarrow> provided_file_artifact \<Rightarrow> operations_error + operations_db" where
  "insert_file r db f =
     and_then (require_artifact db (pf_sha256 f)) (\<lambda>_. insert_problem_artifact (file_row_for r f) db)"

definition insert_problem :: "dump_env \<Rightarrow> operations_db \<Rightarrow> problem_record \<Rightarrow> operations_error + operations_db" where
  "insert_problem env db r =
     and_then (insert_problem_row (problem_row_for env r) db) (\<lambda>db1.
     and_then (artifact_sha (pr_original_text_artifact r)) (\<lambda>original_sha.
     and_then (require_artifact db1 original_sha) (\<lambda>_.
     and_then (insert_problem_artifact (original_row_for r original_sha) db1) (\<lambda>db2.
     fold_result (insert_file r) db2 (pr_provided_file_artifacts r)))))"

definition insert_plan :: "dump_env \<Rightarrow> operations_db \<Rightarrow> plan_hypothesis \<Rightarrow> operations_error + operations_db" where
  "insert_plan env db r =
     and_then (optional_artifact db (pl_raw_output_artifact r)) (\<lambda>raw_sha.
     insert_plan_row (plan_row_for env r raw_sha) db)"

definition insert_job :: "dump_env \<Rightarrow> operations_db \<Rightarrow> job_record \<Rightarrow> operations_error + operations_db" where
  "insert_job env db r =
     and_then (insert_job_row (job_row_for env r) db) (\<lambda>db1.
     case jb_analysis_id r of
       None \<Rightarrow> Inr db1
     | Some analysis_id \<Rightarrow>
         insert_analysis_link
           \<lparr>kk_problem_id = jb_problem_id r, kk_analysis_id = analysis_id, kk_role = jb_job_type r,
            kk_job_id = jb_job_id r\<rparr> db1)"

text \<open>The dependencies between leaves that have a job, in the order of the plans.\<close>

definition job_dependency_pairs :: "operations_bundle \<Rightarrow> (string \<times> string) list" where
  "job_dependency_pairs b =
     (let job_ids = map jb_job_id (ob_jobs b) in
      concat (map (\<lambda>plan.
        concat (map (\<lambda>leaf.
          if lf_leaf_job_id leaf \<notin> set job_ids then []
          else map (\<lambda>d. (lf_leaf_job_id leaf, d)) (filter (\<lambda>d. d \<in> set job_ids) (lf_depends_on leaf)))
          (pl_leaf_job_specs plan))) (ob_plans b)))"

definition insert_job_dependencies :: "operations_bundle \<Rightarrow> operations_db \<Rightarrow> operations_error + operations_db" where
  "insert_job_dependencies b db = fold_result (\<lambda>d r. insert_dependency r d) db (job_dependency_pairs b)"

definition reference_run :: "operations_db \<Rightarrow> string \<Rightarrow> string \<Rightarrow> string option" where
  "reference_run db ref_type ref_id =
     (if ref_type = ''result''
      then map_option ut_analysis_id (find (\<lambda>r. ut_result_id r = ref_id) (sg_results (od_v1 db)))
      else map_option ue_analysis_id (find (\<lambda>r. ue_evidence_id r = ref_id) (sg_evidence (od_v1 db))))"

definition insert_reference ::
    "candidate_record \<Rightarrow> string \<Rightarrow> operations_db \<Rightarrow> string \<Rightarrow> operations_error + operations_db" where
  "insert_reference r ref_type db ref_id =
     (case reference_run db ref_type ref_id of
        None \<Rightarrow> Inl (Ops_Value_Error (''unknown '' @ ref_type @ '' reference''))
      | Some analysis_id \<Rightarrow>
          insert_candidate_link
            \<lparr>kr_candidate_id = cd_candidate_id r, kr_analysis_id = analysis_id, kr_ref_type = ref_type,
             kr_ref_id = ref_id\<rparr> db)"

definition insert_candidate :: "dump_env \<Rightarrow> operations_db \<Rightarrow> candidate_record \<Rightarrow> operations_error + operations_db" where
  "insert_candidate env db r =
     and_then (insert_candidate_row (candidate_row_for env r) db) (\<lambda>db1.
     and_then (fold_result (insert_reference r ''result'') db1 (cd_result_refs r)) (\<lambda>db2.
     fold_result (insert_reference r ''evidence'') db2 (cd_evidence_refs r)))"

definition insert_verification ::
    "dump_env \<Rightarrow> operations_db \<Rightarrow> verification_record \<Rightarrow> operations_error + operations_db" where
  "insert_verification env db r =
     and_then (insert_verification_row (verification_row_for env r) db) (\<lambda>db1.
     fold_result (\<lambda>d c. insert_check_row (check_row_for r c) d) db1 (vr_check_results r))"

definition insert_submission :: "dump_env \<Rightarrow> operations_db \<Rightarrow> submission_record \<Rightarrow> operations_error + operations_db" where
  "insert_submission env db r =
     and_then (optional_artifact db (sb_note_artifact r)) (\<lambda>note_sha.
     insert_submission_row (submission_row_for env r note_sha) db)"

definition insert_event :: "dump_env \<Rightarrow> operations_db \<Rightarrow> operation_event \<Rightarrow> operations_error + operations_db" where
  "insert_event env db r = insert_event_row (event_row_for env r) db"

definition insert_document :: "dump_env \<Rightarrow> operations_bundle \<Rightarrow> operations_db \<Rightarrow> operations_error + operations_db" where
  "insert_document env b db =
     and_then (insert_competition (competition_row_for env (ob_manifest b)) db) (\<lambda>db1.
     and_then (fold_result (\<lambda>d r. insert_mode_row (mode_row_for env r) d) db1 (ob_ai_modes b)) (\<lambda>db2.
     and_then (fold_result (insert_problem env) db2 (ob_problems b)) (\<lambda>db3.
     and_then (fold_result (insert_plan env) db3 (ob_plans b)) (\<lambda>db4.
     and_then (fold_result (insert_job env) db4 (ob_jobs b)) (\<lambda>db5.
     and_then (insert_job_dependencies b db5) (\<lambda>db6.
     and_then (fold_result (insert_candidate env) db6 (ob_candidates b)) (\<lambda>db7.
     and_then (fold_result (insert_verification env) db7 (ob_verifications b)) (\<lambda>db8.
     and_then (fold_result (insert_submission env) db8 (ob_submissions b)) (\<lambda>db9.
     and_then (fold_result (insert_event env) db9 (ob_events b)) (\<lambda>db10.
     fold_result (\<lambda>d r. insert_error_row (error_row_for (mf_competition_id (ob_manifest b)) r) d)
       db10 (ob_errors b)))))))))))"

record operations_env =
  oz_forbidden :: "string list"
  oz_dump :: dump_env

definition operations_guard :: "operations_env \<Rightarrow> json \<Rightarrow> operations_error + unit" where
  "operations_guard env payload =
     (case check_text (oz_forbidden env) (dumps payload) of
        Inl e \<Rightarrow> Inl (Ops_Guard_Error e) | Inr _ \<Rightarrow> Inr ())"

definition save_document :: "operations_env \<Rightarrow> operations_bundle \<Rightarrow> unit ops_action" where
  "save_document env b db =
     (case operations_guard env (to_contract_dict (oz_dump env) b) of
        Inl e \<Rightarrow> (Inl e, db)
      | Inr _ \<Rightarrow>
          ops_transaction (\<lambda>d. and_then (insert_document (oz_dump env) b d) (\<lambda>d'. Inr ((), d'))) db)"

definition append_event :: "operations_env \<Rightarrow> operation_event \<Rightarrow> unit ops_action" where
  "append_event env event db =
     (case operations_guard env (event_dump (oz_dump env) event) of
        Inl e \<Rightarrow> (Inl e, db)
      | Inr _ \<Rightarrow>
          ops_transaction (\<lambda>d. and_then (insert_event (oz_dump env) d event) (\<lambda>d'. Inr ((), d'))) db)"

subsection \<open>Reading a document\<close>

definition load_json :: "string \<Rightarrow> operations_error + json" where
  "load_json t = (case loads t of None \<Rightarrow> Inl Ops_Json_Error | Some j \<Rightarrow> Inr j)"

text \<open>The problems of a competition; the other records are joined to it through their problem.\<close>

definition competition_of :: "operations_db \<Rightarrow> string \<Rightarrow> string \<Rightarrow> bool" where
  "competition_of db competition_id problem_id \<longleftrightarrow>
     list_ex (\<lambda>p. kp_problem_id p = problem_id \<and> kp_competition_id p = competition_id) (od_problems db)"

definition load_manifest :: "competition_row \<Rightarrow> json" where
  "load_manifest r = JObj (defined
     [(''competition_id'', Some (JStr (kc_competition_id r))),
      (''operations_schema_version'', Some (JStr (kc_operations_schema_version r))),
      (''name'', Some (JStr (kc_name r))), (''phase'', Some (JStr (kc_phase r))),
      (''environment'', Some (JStr (kc_environment r))),
      (''rules_snapshot_ref'', Some (JStr (kc_rules_snapshot_ref r))),
      (''status'', Some (JStr (kc_status r))), (''created_at'', Some (JStr (kc_created_at r))),
      (''updated_at'', Some (JStr (kc_updated_at r)))])"

definition file_dict :: "problem_artifact_row \<Rightarrow> json" where
  "file_dict a = JObj
     [(''filename'', json_opt_text (ka_filename a)), (''sha256'', JStr (ka_artifact_sha256 a)),
      (''media_type'', json_opt_text (ka_media_type a))]"

definition load_problem :: "operations_db \<Rightarrow> problem_db_row \<Rightarrow> operations_error + json" where
  "load_problem db r =
     (let artifacts = filter (\<lambda>a. ka_problem_id a = kp_problem_id r) (od_problem_artifacts db) in
      and_then (load_json (kp_provided_urls_json r)) (\<lambda>provided_urls.
      case find (\<lambda>a. ka_role a = ''original_text'') artifacts of
        None \<Rightarrow> Inl (Ops_Value_Error ''problem original artifact is missing'')
      | Some original \<Rightarrow> Inr (JObj (defined
         [(''problem_id'', Some (JStr (kp_problem_id r))),
          (''competition_id'', Some (JStr (kp_competition_id r))), (''title'', Some (JStr (kp_title r))),
          (''score'', Some (JInt (kp_score r))), (''answer_format'', Some (JStr (kp_answer_format r))),
          (''priority'', Some (JStr (kp_priority r))),
          (''priority_source'', Some (JStr (kp_priority_source r))),
          (''status'', Some (JStr (kp_status r))),
          (''active_plan_id'', map_option JStr (kp_active_plan_id r)),
          (''created_at'', Some (JStr (kp_created_at r))), (''updated_at'', Some (JStr (kp_updated_at r))),
          (''provided_urls'', Some provided_urls),
          (''original_text_artifact'', Some (JStr (artifact_uri_text (ka_artifact_sha256 original)))),
          (''provided_file_artifacts'', Some (JArr (map file_dict
             (sort_key ka_artifact_sha256 (filter (\<lambda>a. ka_role a = ''provided_file'') artifacts)))))]))))"

definition load_problems :: "operations_db \<Rightarrow> string \<Rightarrow> operations_error + json list" where
  "load_problems db competition_id =
     map_result (load_problem db)
       (sort_key kp_problem_id (filter (\<lambda>r. kp_competition_id r = competition_id) (od_problems db)))"

definition load_mode :: "mode_row \<Rightarrow> operations_error + json" where
  "load_mode r =
     and_then (load_json (km_affected_rule_ids_json r)) (\<lambda>affected_rule_ids. Inr (JObj (defined
       [(''mode_id'', Some (JStr (km_mode_id r))), (''competition_id'', Some (JStr (km_competition_id r))),
        (''provider_id'', map_option JStr (km_provider_id r)), (''model_id'', map_option JStr (km_model_id r)),
        (''adapter_kind'', Some (JStr (km_adapter_kind r))),
        (''data_boundary'', Some (JStr (km_data_boundary r))), (''tool_mode'', Some (JStr (km_tool_mode r))),
        (''rule_state'', Some (JStr (km_rule_state r))),
        (''rules_snapshot_ref'', Some (JStr (km_rules_snapshot_ref r))),
        (''created_at'', Some (JStr (km_created_at r))), (''affected_rule_ids'', Some affected_rule_ids)])))"

definition load_modes :: "operations_db \<Rightarrow> string \<Rightarrow> operations_error + json list" where
  "load_modes db competition_id =
     map_result load_mode
       (sort_key (\<lambda>r. (km_created_at r, km_mode_id r))
         (filter (\<lambda>r. km_competition_id r = competition_id) (od_modes db)))"

definition load_plan :: "plan_row \<Rightarrow> operations_error + json" where
  "load_plan r =
     and_then (load_json (kl_assumptions_json r)) (\<lambda>assumptions.
     and_then (load_json (kl_missing_inputs_json r)) (\<lambda>missing_inputs.
     and_then (load_json (kl_leaf_job_specs_json r)) (\<lambda>leaf_job_specs. Inr (JObj (defined
       [(''plan_id'', Some (JStr (kl_plan_id r))), (''problem_id'', Some (JStr (kl_problem_id r))),
        (''mode_id'', Some (JStr (kl_mode_id r))), (''planner_job_id'', Some (JStr (kl_planner_job_id r))),
        (''status'', Some (JStr (kl_status r))),
        (''problem_type_hypothesis'', Some (JStr (kl_problem_type_hypothesis r))),
        (''method_hypothesis'', Some (JStr (kl_method_hypothesis r))),
        (''created_at'', Some (JStr (kl_created_at r))),
        (''decided_at'', map_option JStr (kl_decided_at r)),
        (''assumptions'', Some assumptions), (''missing_inputs'', Some missing_inputs),
        (''leaf_job_specs'', Some leaf_job_specs),
        (''raw_output_artifact'', map_option (\<lambda>s. JStr (artifact_uri_text s)) (kl_raw_output_artifact_sha256 r))])))))"

definition load_plans :: "operations_db \<Rightarrow> string \<Rightarrow> operations_error + json list" where
  "load_plans db competition_id =
     map_result load_plan
       (sort_key (\<lambda>r. (kl_created_at r, kl_plan_id r))
         (filter (\<lambda>r. competition_of db competition_id (kl_problem_id r)) (od_plans db)))"

definition load_job :: "job_row \<Rightarrow> json" where
  "load_job r = JObj (defined
     [(''job_id'', Some (JStr (kj_job_id r))), (''problem_id'', Some (JStr (kj_problem_id r))),
      (''plan_id'', Some (JStr (kj_plan_id r))), (''role'', Some (JStr (kj_role r))),
      (''job_type'', Some (JStr (kj_job_type r))), (''status'', Some (JStr (kj_status r))),
      (''priority'', Some (JStr (kj_priority r))), (''idempotency_key'', Some (JStr (kj_idempotency_key r))),
      (''analysis_id'', map_option JStr (kj_analysis_id r)), (''attempt'', Some (JInt (kj_attempt r))),
      (''max_attempts'', Some (JInt (kj_max_attempts r))),
      (''assigned_worker_id'', map_option JStr (kj_assigned_worker_id r)),
      (''error_code'', map_option JStr (kj_error_code r)),
      (''checkpoint_ref'', map_option JStr (kj_checkpoint_ref r)),
      (''queued_at'', Some (JStr (kj_queued_at r))), (''started_at'', map_option JStr (kj_started_at r)),
      (''finished_at'', map_option JStr (kj_finished_at r))])"

definition load_jobs :: "operations_db \<Rightarrow> string \<Rightarrow> json list" where
  "load_jobs db competition_id =
     map load_job
       (sort_key (\<lambda>r. (kj_queued_at r, kj_job_id r))
         (filter (\<lambda>r. competition_of db competition_id (kj_problem_id r)) (od_jobs db)))"

definition candidate_refs :: "operations_db \<Rightarrow> string \<Rightarrow> string \<Rightarrow> string list" where
  "candidate_refs db candidate_id ref_type =
     map kr_ref_id
       (filter (\<lambda>l. kr_ref_type l = ref_type)
         (filter (\<lambda>l. kr_candidate_id l = candidate_id) (od_candidate_links db)))"

definition load_candidate :: "operations_db \<Rightarrow> candidate_row \<Rightarrow> operations_error + json" where
  "load_candidate db r =
     and_then (load_json (kd_verification_refs_json r)) (\<lambda>verification_refs.
     and_then (load_json (kd_uncertainties_json r)) (\<lambda>uncertainties. Inr (JObj (defined
       [(''candidate_id'', Some (JStr (kd_candidate_id r))), (''problem_id'', Some (JStr (kd_problem_id r))),
        (''answer_format'', Some (JStr (kd_answer_format r))),
        (''answer_value'', Some (JStr (kd_answer_value r))), (''status'', Some (JStr (kd_status r))),
        (''confidence'', Some (JInt (kd_confidence r))),
        (''confidence_basis'', Some (JStr (kd_confidence_basis r))),
        (''recommendation'', Some (JStr (kd_recommendation r))),
        (''created_by_job_id'', Some (JStr (kd_created_by_job_id r))),
        (''created_at'', Some (JStr (kd_created_at r))), (''updated_at'', Some (JStr (kd_updated_at r))),
        (''verification_refs'', Some verification_refs), (''uncertainties'', Some uncertainties),
        (''result_refs'', Some (json_texts (candidate_refs db (kd_candidate_id r) ''result''))),
        (''evidence_refs'', Some (json_texts (candidate_refs db (kd_candidate_id r) ''evidence'')))]))))"

definition load_candidates :: "operations_db \<Rightarrow> string \<Rightarrow> operations_error + json list" where
  "load_candidates db competition_id =
     map_result (load_candidate db)
       (sort_key (\<lambda>r. (kd_created_at r, kd_candidate_id r))
         (filter (\<lambda>r. competition_of db competition_id (kd_problem_id r)) (od_candidates db)))"

definition load_check :: "check_row \<Rightarrow> operations_error + json" where
  "load_check r =
     and_then (load_json (kx_result_refs_json r)) (\<lambda>result_refs.
     and_then (load_json (kx_evidence_refs_json r)) (\<lambda>evidence_refs. Inr (JObj (defined
       [(''check'', Some (JStr (kx_check_name r))), (''passed'', Some (JBool (kx_passed r \<noteq> 0))),
        (''result_refs'', Some result_refs), (''evidence_refs'', Some evidence_refs)]))))"

definition load_verification :: "operations_db \<Rightarrow> verification_db_row \<Rightarrow> operations_error + json" where
  "load_verification db r =
     and_then (load_json (kv_required_checks_json r)) (\<lambda>required_checks.
     and_then (load_json (kv_independent_from_job_ids_json r)) (\<lambda>independent_from_job_ids.
     and_then (load_json (kv_conflicts_json r)) (\<lambda>conflicts.
     and_then (load_json (kv_missing_evidence_json r)) (\<lambda>missing_evidence.
     and_then (map_result load_check (sort_key kx_check_name
         (filter (\<lambda>c. kx_verification_id c = kv_verification_id r) (od_checks db)))) (\<lambda>check_results.
     Inr (JObj (defined
       [(''verification_id'', Some (JStr (kv_verification_id r))),
        (''problem_id'', Some (JStr (kv_problem_id r))), (''candidate_id'', Some (JStr (kv_candidate_id r))),
        (''verifier_job_id'', Some (JStr (kv_verifier_job_id r))), (''status'', Some (JStr (kv_status r))),
        (''created_at'', Some (JStr (kv_created_at r))),
        (''finished_at'', map_option JStr (kv_finished_at r)),
        (''required_checks'', Some required_checks),
        (''independent_from_job_ids'', Some independent_from_job_ids), (''conflicts'', Some conflicts),
        (''missing_evidence'', Some missing_evidence), (''check_results'', Some (JArr check_results))])))))))"

definition load_verifications :: "operations_db \<Rightarrow> string \<Rightarrow> operations_error + json list" where
  "load_verifications db competition_id =
     map_result (load_verification db)
       (sort_key (\<lambda>r. (kv_created_at r, kv_verification_id r))
         (filter (\<lambda>r. competition_of db competition_id (kv_problem_id r)) (od_verifications db)))"

definition load_submission :: "submission_db_row \<Rightarrow> json" where
  "load_submission r = JObj (defined
     [(''submission_id'', Some (JStr (ks_submission_id r))),
      (''candidate_id'', Some (JStr (ks_candidate_id r))),
      (''operator_confirmed'', Some (JBool (ks_operator_confirmed r \<noteq> 0))),
      (''response'', Some (JStr (ks_response r))), (''submitted_at'', Some (JStr (ks_submitted_at r))),
      (''note_artifact'', map_option (\<lambda>s. JStr (artifact_uri_text s)) (ks_note_artifact_sha256 r))])"

definition load_submissions :: "operations_db \<Rightarrow> string \<Rightarrow> json list" where
  "load_submissions db competition_id =
     map load_submission
       (sort_key (\<lambda>r. (ks_submitted_at r, ks_submission_id r))
         (filter (\<lambda>r. list_ex (\<lambda>c. kd_candidate_id c = ks_candidate_id r
              \<and> competition_of db competition_id (kd_problem_id c)) (od_candidates db)) (od_submissions db)))"

definition list_events :: "operations_db \<Rightarrow> string \<Rightarrow> event_row list" where
  "list_events db competition_id =
     sort_key (\<lambda>r. (ke_created_at r, ke_event_id r))
       (filter (\<lambda>r. ke_competition_id r = competition_id) (od_events db))"

definition load_event :: "event_row \<Rightarrow> operations_error + json" where
  "load_event r =
     and_then (load_json (ke_safe_details_json r)) (\<lambda>safe_details_json. Inr (JObj (defined
       [(''event_id'', Some (JStr (ke_event_id r))), (''competition_id'', Some (JStr (ke_competition_id r))),
        (''problem_id'', map_option JStr (ke_problem_id r)), (''entity_type'', Some (JStr (ke_entity_type r))),
        (''entity_id'', Some (JStr (ke_entity_id r))), (''event_type'', Some (JStr (ke_event_type r))),
        (''actor_type'', Some (JStr (ke_actor_type r))), (''actor_id'', Some (JStr (ke_actor_id r))),
        (''from_status'', map_option JStr (ke_from_status r)), (''to_status'', map_option JStr (ke_to_status r)),
        (''created_at'', Some (JStr (ke_created_at r))), (''safe_details_json'', Some safe_details_json)])))"

definition load_events :: "operations_db \<Rightarrow> string \<Rightarrow> operations_error + json list" where
  "load_events db competition_id = map_result load_event (list_events db competition_id)"

definition load_error :: "error_row \<Rightarrow> operations_error + json" where
  "load_error r =
     and_then (load_json (kf_details_json r)) (\<lambda>details. Inr (JObj (defined
       [(''error_id'', Some (JStr (kf_error_id r))), (''code'', Some (JStr (kf_code r))),
        (''message'', Some (JStr (kf_message r))), (''stage'', Some (JStr (kf_stage r))),
        (''retryable'', Some (JBool (kf_retryable r \<noteq> 0))),
        (''problem_id'', map_option JStr (kf_problem_id r)), (''job_id'', map_option JStr (kf_job_id r)),
        (''details'', Some details)])))"

definition load_errors :: "operations_db \<Rightarrow> string \<Rightarrow> operations_error + json list" where
  "load_errors db competition_id =
     map_result load_error
       (sort_key kf_error_id (filter (\<lambda>r. kf_competition_id r = competition_id) (od_errors db)))"

definition operations_schema_uri :: string where
  "operations_schema_uri = ''../../schemas/operations-contract.schema.json''"

definition load_payload :: "operations_db \<Rightarrow> competition_row \<Rightarrow> operations_error + json" where
  "load_payload db manifest =
     (let competition_id = kc_competition_id manifest in
      and_then (load_problems db competition_id) (\<lambda>problems.
      and_then (load_modes db competition_id) (\<lambda>ai_modes.
      and_then (load_plans db competition_id) (\<lambda>plans.
      and_then (load_verifications db competition_id) (\<lambda>verifications.
      and_then (load_candidates db competition_id) (\<lambda>candidates.
      and_then (load_events db competition_id) (\<lambda>events.
      and_then (load_errors db competition_id) (\<lambda>errors.
      Inr (JObj
        [(''$schema'', JStr operations_schema_uri),
         (''operations_schema_version'', JStr (kc_operations_schema_version manifest)),
         (''manifest'', load_manifest manifest), (''problems'', JArr problems), (''ai_modes'', JArr ai_modes),
         (''plans'', JArr plans), (''jobs'', JArr (load_jobs db competition_id)),
         (''verifications'', JArr verifications), (''candidates'', JArr candidates),
         (''submissions'', JArr (load_submissions db competition_id)), (''events'', JArr events),
         (''errors'', JArr errors)])))))))))"

definition load_document ::
    "operations_env \<Rightarrow> operations_db \<Rightarrow> string \<Rightarrow> operations_error + operations_bundle option" where
  "load_document env db competition_id =
     (case find (\<lambda>r. kc_competition_id r = competition_id) (od_competitions db) of
        None \<Rightarrow> Inr None
      | Some manifest \<Rightarrow>
          and_then (load_payload db manifest) (\<lambda>payload.
          and_then (operations_guard env payload) (\<lambda>_.
          case model_validate (oz_dump env) payload of
            Inl e \<Rightarrow> Inl (Ops_Validation_Error e)
          | Inr document \<Rightarrow> Inr (Some document))))"

subsection \<open>Recording a submission\<close>

text \<open>Two events are equal when their fields are, with their details compared as dictionaries.\<close>

definition same_event :: "operation_event \<Rightarrow> operation_event \<Rightarrow> bool" where
  "same_event a b \<longleftrightarrow>
     a\<lparr>ev_safe_details_json := JNull\<rparr> = b\<lparr>ev_safe_details_json := JNull\<rparr>
     \<and> py_equal (ev_safe_details_json a) (ev_safe_details_json b)"

definition validate_submission_transition ::
    "operations_bundle \<Rightarrow> submission_record \<Rightarrow> operation_event \<Rightarrow> candidate_record \<Rightarrow> problem_record
      \<Rightarrow> operations_error + unit" where
  "validate_submission_transition b submission event candidate problem =
     (let expected_time = sb_submitted_at submission in
      all_checks
       [raise_if (cd_status candidate \<noteq> CAND_SUBMITTED) (Ops_Value_Error ''submission candidate is not submitted''),
        raise_if (pr_status problem \<noteq> PROB_SUBMITTED) (Ops_Value_Error ''submission problem is not submitted''),
        raise_if
          (ev_competition_id event \<noteq> mf_competition_id (ob_manifest b)
           \<or> ev_problem_id event \<noteq> Some (pr_problem_id problem) \<or> ev_entity_type event \<noteq> ''submission''
           \<or> ev_entity_id event \<noteq> sb_submission_id submission
           \<or> ev_event_type event \<noteq> ''submission_recorded'' \<or> ev_actor_type event \<noteq> OPERATOR
           \<or> ev_from_status event \<noteq> Some (candidate_status_value CAND_SUBMISSION_READY)
           \<or> ev_to_status event \<noteq> Some (candidate_status_value CAND_SUBMITTED))
          (Ops_Value_Error ''submission event does not match transition''),
        raise_if
          (\<not> py_equal (ev_safe_details_json event)
             (JObj [(''candidate_id'', JStr (cd_candidate_id candidate)),
                    (''response'', JStr (submission_response_value (sb_response submission))),
                    (''external_submission'', JStr ''human_confirmed'')]))
          (Ops_Value_Error ''submission event details do not match transition''),
        raise_if
          (ev_created_at event \<noteq> expected_time \<or> cd_updated_at candidate \<noteq> expected_time
           \<or> pr_updated_at problem \<noteq> expected_time \<or> mf_updated_at (ob_manifest b) \<noteq> expected_time)
          (Ops_Value_Error ''submission transition timestamps do not match'')])"

text \<open>The three \<^verbatim>\<open>UPDATE\<close> statements, with the number of rows each one changed.\<close>

definition update_rows :: "('a \<Rightarrow> bool) \<Rightarrow> ('a \<Rightarrow> 'a) \<Rightarrow> 'a list \<Rightarrow> nat \<times> 'a list" where
  "update_rows P f xs = (count_if P xs, map (\<lambda>x. if P x then f x else x) xs)"

definition update_candidate :: "candidate_record \<Rightarrow> operations_db \<Rightarrow> nat \<times> operations_db" where
  "update_candidate candidate db =
     (let (n, rows) = update_rows
        (\<lambda>r. kd_candidate_id r = cd_candidate_id candidate \<and> kd_status r = ''submission_ready'')
        (\<lambda>r. r\<lparr>kd_status := candidate_status_value (cd_status candidate),
               kd_updated_at := isoformat (cd_updated_at candidate)\<rparr>) (od_candidates db) in
      (n, db\<lparr>od_candidates := rows\<rparr>))"

definition update_problem :: "problem_record \<Rightarrow> operations_db \<Rightarrow> nat \<times> operations_db" where
  "update_problem problem db =
     (let (n, rows) = update_rows
        (\<lambda>r. kp_problem_id r = pr_problem_id problem \<and> kp_status r = ''submission_ready'')
        (\<lambda>r. r\<lparr>kp_status := problem_status_value (pr_status problem),
               kp_updated_at := isoformat (pr_updated_at problem)\<rparr>) (od_problems db) in
      (n, db\<lparr>od_problems := rows\<rparr>))"

definition update_competition :: "competition_manifest \<Rightarrow> operations_db \<Rightarrow> nat \<times> operations_db" where
  "update_competition manifest db =
     (let (n, rows) = update_rows
        (\<lambda>r. kc_competition_id r = mf_competition_id manifest \<and> kc_status r = ''active'')
        (\<lambda>r. r\<lparr>kc_updated_at := isoformat (mf_updated_at manifest)\<rparr>) (od_competitions db) in
      (n, db\<lparr>od_competitions := rows\<rparr>))"

definition submission_scope ::
    "operations_bundle \<Rightarrow> submission_record \<Rightarrow> operation_event
      \<Rightarrow> operations_error + candidate_record \<times> problem_record" where
  "submission_scope b submission event =
     and_then
       (raise_if (submission \<notin> set (ob_submissions b) \<or> \<not> list_ex (same_event event) (ob_events b))
          (Ops_Value_Error ''submission transition records are outside the validated document'')) (\<lambda>_.
     case find (\<lambda>c. cd_candidate_id c = sb_candidate_id submission) (ob_candidates b) of
       None \<Rightarrow> Inl (Ops_Value_Error ''submission candidate is outside the validated document'')
     | Some candidate \<Rightarrow>
         (case find (\<lambda>p. pr_problem_id p = cd_problem_id candidate) (ob_problems b) of
            None \<Rightarrow> Inl (Ops_Value_Error ''submission problem is outside the validated document'')
          | Some problem \<Rightarrow> Inr (candidate, problem)))"

definition submission_body ::
    "operations_env \<Rightarrow> operations_bundle \<Rightarrow> submission_record \<Rightarrow> operation_event \<Rightarrow> candidate_record
      \<Rightarrow> problem_record \<Rightarrow> operations_db \<Rightarrow> operations_error + operations_bundle \<times> operations_db" where
  "submission_body env b submission event candidate problem db =
     (let (candidates, db1) = update_candidate candidate db;
          (problems, db2) = update_problem problem db1;
          (manifests, db3) = update_competition (ob_manifest b) db2 in
      and_then
        (raise_if (candidates \<noteq> 1 \<or> problems \<noteq> 1 \<or> manifests \<noteq> 1)
          (Ops_Integrity_Error ''submission transition precondition failed'')) (\<lambda>_.
      and_then (insert_submission (oz_dump env) db3 submission) (\<lambda>db4.
      and_then (insert_event (oz_dump env) db4 event) (\<lambda>db5.
      and_then (load_document env db5 (mf_competition_id (ob_manifest b))) (\<lambda>loaded.
      case loaded of
        None \<Rightarrow> Inl (Ops_Integrity_Error ''persisted submission does not match validated document'')
      | Some document \<Rightarrow>
          if py_equal (to_contract_dict (oz_dump env) document) (to_contract_dict (oz_dump env) b)
          then Inr (document, db5)
          else Inl (Ops_Integrity_Error ''persisted submission does not match validated document''))))))"

definition apply_submission ::
    "operations_env \<Rightarrow> operations_bundle \<Rightarrow> submission_record \<Rightarrow> operation_event \<Rightarrow> operations_bundle ops_action" where
  "apply_submission env b submission event db =
     (case
        and_then (submission_scope b submission event) (\<lambda>(candidate, problem).
        and_then (validate_submission_transition b submission event candidate problem) (\<lambda>_.
        and_then (operations_guard env (to_contract_dict (oz_dump env) b)) (\<lambda>_. Inr (candidate, problem)))) of
        Inl e \<Rightarrow> (Inl e, db)
      | Inr (candidate, problem) \<Rightarrow>
          ops_transaction (submission_body env b submission event candidate problem) db)"

subsection \<open>Artifacts, counts and migration\<close>

definition ops_record_artifact :: "artifact_record \<Rightarrow> unit ops_action" where
  "ops_record_artifact r =
     ops_transaction (\<lambda>db.
       case insert_artifact r (od_v1 db) of
         Inl e \<Rightarrow> Inl (Ops_Storage_Error e)
       | Inr v1 \<Rightarrow>
           and_then
             (case get_artifact v1 (ar_sha256 r) of
                None \<Rightarrow> Inr ()
              | Some existing \<Rightarrow>
                  raise_if
                    (ar_byte_length existing \<noteq> ar_byte_length r \<or> ar_media_type existing \<noteq> ar_media_type r
                     \<or> ar_relative_path existing \<noteq> ar_relative_path r
                     \<or> ar_artifact_kind existing \<noteq> ar_artifact_kind r
                     \<or> ar_redaction_status existing \<noteq> ar_redaction_status r
                     \<or> ar_license_status existing \<noteq> ar_license_status r)
                    (Ops_Value_Error ''artifact hash conflicts with existing metadata''))
             (\<lambda>_. Inr ((), db\<lparr>od_v1 := v1\<rparr>)))"

definition ops_tables :: "(string \<times> (operations_db \<Rightarrow> nat)) list" where
  "ops_tables =
     [(''competitions'', \<lambda>db. length (od_competitions db)), (''operation_ai_modes'', \<lambda>db. length (od_modes db)),
      (''problems'', \<lambda>db. length (od_problems db)),
      (''problem_artifacts'', \<lambda>db. length (od_problem_artifacts db)), (''plans'', \<lambda>db. length (od_plans db)),
      (''jobs'', \<lambda>db. length (od_jobs db)), (''job_dependencies'', \<lambda>db. length (od_dependencies db)),
      (''problem_analysis_links'', \<lambda>db. length (od_analysis_links db)),
      (''candidates'', \<lambda>db. length (od_candidates db)),
      (''candidate_result_links'', \<lambda>db. length (od_candidate_links db)),
      (''verifications'', \<lambda>db. length (od_verifications db)),
      (''verification_checks'', \<lambda>db. length (od_checks db)),
      (''submissions'', \<lambda>db. length (od_submissions db)), (''operation_events'', \<lambda>db. length (od_events db)),
      (''operation_errors'', \<lambda>db. length (od_errors db))]"

definition ops_count :: "operations_db \<Rightarrow> string \<Rightarrow> operations_error + nat" where
  "ops_count db table =
     (case map_of ops_tables table of
        None \<Rightarrow> Inl (Ops_Value_Error ''unknown operations table'')
      | Some n \<Rightarrow> Inr (n db))"

text \<open>
  A database file: its version and its tables. A file of version 1 has no tables of version 2.
  Resolved paths name the files; a missing or an empty file is \<open>None\<close>. \<^verbatim>\<open>PRAGMA integrity_check\<close> is a parameter; \<^verbatim>\<open>foreign_key_check\<close>
  looks at the rows.
\<close>

record database =
  da_version :: int
  da_tables :: operations_db

definition foreign_keys_hold :: "storage \<Rightarrow> bool" where
  "foreign_keys_hold db \<longleftrightarrow>
     list_all (\<lambda>r. artifact_exists db (ur_request_artifact_sha256 r)) (sg_runs db)
     \<and> list_all (\<lambda>r. run_exists db (uo_analysis_id r)) (sg_policies db)
     \<and> list_all (attempt_refs db) (sg_attempts db)
     \<and> list_all (\<lambda>r. artifact_exists db (uc_artifact_sha256 r)) (sg_cache db)
     \<and> list_all (\<lambda>r. run_exists db (us_analysis_id r)) (sg_sources db)
     \<and> list_all (\<lambda>r. run_exists db (ut_analysis_id r)) (sg_results db)
     \<and> list_all (evidence_refs_ok db) (sg_evidence db) \<and> list_all (link_refs db) (sg_links db)
     \<and> list_all (\<lambda>r. run_exists db (uk_analysis_id r)) (sg_checkpoints db)
     \<and> list_all (export_refs db) (sg_exports db)"

definition require_integrity :: "(database \<Rightarrow> bool) \<Rightarrow> string \<Rightarrow> database \<Rightarrow> operations_error + unit" where
  "require_integrity integrity label d =
     raise_if (\<not> integrity d) (Ops_Database_Error (''SQLite '' @ label @ '' failed integrity_check''))"

text \<open>\<^verbatim>\<open>_backup_database\<close> writes the copy before it checks it.\<close>

definition backup_database ::
    "(database \<Rightarrow> bool) \<Rightarrow> database \<Rightarrow> string \<Rightarrow> (string \<rightharpoonup> database)
      \<Rightarrow> (operations_error + unit) \<times> (string \<rightharpoonup> database)" where
  "backup_database integrity d destination files =
     (then_check (require_integrity integrity ''backup'' d)
        (raise_if (da_version d \<noteq> 1) (Ops_Database_Error ''SQLite backup is not schema version 1'')),
      files(destination \<mapsto> d))"

definition migrated :: "database \<Rightarrow> database" where
  "migrated d = \<lparr>da_version = 2, da_tables = empty_operations (od_v1 (da_tables d))\<rparr>"

definition migrate_operations_database ::
    "(database \<Rightarrow> bool) \<Rightarrow> string \<Rightarrow> string \<Rightarrow> (string \<rightharpoonup> database)
      \<Rightarrow> (operations_error + unit) \<times> (string \<rightharpoonup> database)" where
  "migrate_operations_database integrity path backup_path files =
     (case files path of
        None \<Rightarrow> (Inl (Ops_File_Error ''SQLite source database does not exist''), files)
      | Some d \<Rightarrow>
          (case all_checks
             [raise_if (backup_path = path)
                (Ops_Value_Error ''backup destination must differ from the source database''),
              raise_if (files backup_path \<noteq> None) (Ops_File_Error ''backup destination already exists''),
              raise_if (da_version d \<noteq> 1)
                (Ops_Value_Error (''expected SQLite schema version 1, got '' @ show_int (da_version d))),
              require_integrity integrity ''source'' d] of
             Inl e \<Rightarrow> (Inl e, files)
           | Inr _ \<Rightarrow>
               (case backup_database integrity d backup_path files of
                  (Inl e, files1) \<Rightarrow> (Inl e, files1)
                | (Inr _, files1) \<Rightarrow>
                    if \<not> foreign_keys_hold (od_v1 (da_tables d))
                    then (Inl (Ops_Integrity_Error ''SQLite migration failed foreign_key_check''), files1)
                    else (require_integrity integrity ''migrated database'' (migrated d),
                          files1(path \<mapsto> migrated d)))))"

definition initialize_operations_database ::
    "(database \<Rightarrow> bool) \<Rightarrow> string \<Rightarrow> string \<Rightarrow> (string \<rightharpoonup> database)
      \<Rightarrow> (operations_error + unit) \<times> (string \<rightharpoonup> database)" where
  "initialize_operations_database integrity path backup_path files =
     migrate_operations_database integrity path backup_path
       (case files path of
          None \<Rightarrow> files(path \<mapsto> \<lparr>da_version = 1, da_tables = empty_operations empty_storage\<rparr>)
        | Some _ \<Rightarrow> files)"

definition open_repository :: "(database \<Rightarrow> bool) \<Rightarrow> database \<Rightarrow> operations_error + operations_db" where
  "open_repository integrity d =
     and_then
       (raise_if (da_version d \<noteq> 2)
         (Ops_Value_Error (''expected SQLite schema version 2, got '' @ show_int (da_version d)))) (\<lambda>_.
     and_then (require_integrity integrity ''operations database'' d) (\<lambda>_. Inr (da_tables d)))"

end

