(* ===== verification/Operations_Integrity.thy ===== *)
theory Operations_Integrity
  imports Sqlite_Operations
begin

section \<open>Integrity of the operations database\<close>

text \<open>
  The constraints of the second version's DDL as a predicate on the whole database (\<open>ops_ok\<close>) and the
  order in which it grows (\<open>ops_grows\<close>): rows are only added, and a competition, a problem or a
  candidate may only take another status and update time. Every operation keeps both, whether it
  returns or raises.
\<close>

subsection \<open>The declared constraints\<close>

definition ops_competitions_ok :: "operations_db \<Rightarrow> bool" where
  "ops_competitions_ok db \<longleftrightarrow>
     list_all (\<lambda>r. kc_operations_schema_version r = ''0.1'') (od_competitions db)
     \<and> distinct (map kc_competition_id (od_competitions db))"

definition ops_modes_ok :: "operations_db \<Rightarrow> bool" where
  "ops_modes_ok db \<longleftrightarrow>
     distinct (map km_mode_id (od_modes db))
     \<and> list_all (\<lambda>r. competition_known db (km_competition_id r)) (od_modes db)"

definition ops_problems_ok :: "operations_db \<Rightarrow> bool" where
  "ops_problems_ok db \<longleftrightarrow>
     list_all (\<lambda>r. 0 \<le> kp_score r) (od_problems db)
     \<and> distinct (map kp_problem_id (od_problems db))
     \<and> list_all (\<lambda>r. competition_known db (kp_competition_id r)) (od_problems db)"

definition ops_problem_artifacts_ok :: "operations_db \<Rightarrow> bool" where
  "ops_problem_artifacts_ok db \<longleftrightarrow>
     list_all (\<lambda>r. ka_role r \<in> {''original_text'', ''provided_file''}) (od_problem_artifacts db)
     \<and> distinct (map problem_artifact_key (od_problem_artifacts db))
     \<and> distinct (map ka_problem_id (filter (\<lambda>r. ka_role r = ''original_text'') (od_problem_artifacts db)))
     \<and> list_all (\<lambda>r. problem_known db (ka_problem_id r) \<and> artifact_exists (od_v1 db) (ka_artifact_sha256 r)) (od_problem_artifacts db)"

definition ops_plans_ok :: "operations_db \<Rightarrow> bool" where
  "ops_plans_ok db \<longleftrightarrow>
     distinct (map kl_plan_id (od_plans db))
     \<and> list_all (plan_row_refs db) (od_plans db)"

definition ops_jobs_ok :: "operations_db \<Rightarrow> bool" where
  "ops_jobs_ok db \<longleftrightarrow>
     list_all job_row_checks (od_jobs db)
     \<and> distinct (map kj_job_id (od_jobs db))
     \<and> list_all (job_row_refs db) (od_jobs db)"

definition ops_dependencies_ok :: "operations_db \<Rightarrow> bool" where
  "ops_dependencies_ok db \<longleftrightarrow>
     list_all (\<lambda>(a, b). a \<noteq> b) (od_dependencies db)
     \<and> distinct (od_dependencies db)
     \<and> list_all (\<lambda>(a, b). job_known db a \<and> job_known db b) (od_dependencies db)"

definition ops_analysis_links_ok :: "operations_db \<Rightarrow> bool" where
  "ops_analysis_links_ok db \<longleftrightarrow>
     distinct (map (\<lambda>l. (kk_problem_id l, kk_analysis_id l, kk_job_id l)) (od_analysis_links db))
     \<and> list_all (\<lambda>r. problem_known db (kk_problem_id r) \<and> run_exists (od_v1 db) (kk_analysis_id r) \<and> job_known db (kk_job_id r)) (od_analysis_links db)"

definition ops_candidates_ok :: "operations_db \<Rightarrow> bool" where
  "ops_candidates_ok db \<longleftrightarrow>
     list_all (\<lambda>r. 0 \<le> kd_confidence r \<and> kd_confidence r \<le> 100) (od_candidates db)
     \<and> distinct (map kd_candidate_id (od_candidates db))
     \<and> list_all (\<lambda>r. problem_known db (kd_problem_id r) \<and> job_known db (kd_created_by_job_id r)) (od_candidates db)"

definition ops_candidate_links_ok :: "operations_db \<Rightarrow> bool" where
  "ops_candidate_links_ok db \<longleftrightarrow>
     list_all (\<lambda>r. kr_ref_type r \<in> {''result'', ''evidence''}) (od_candidate_links db)
     \<and> distinct (map (\<lambda>l. (kr_candidate_id l, kr_ref_type l, kr_ref_id l)) (od_candidate_links db))
     \<and> list_all (\<lambda>r. candidate_known db (kr_candidate_id r) \<and> run_exists (od_v1 db) (kr_analysis_id r)) (od_candidate_links db)"

definition ops_verifications_ok :: "operations_db \<Rightarrow> bool" where
  "ops_verifications_ok db \<longleftrightarrow>
     distinct (map kv_verification_id (od_verifications db))
     \<and> list_all (verification_row_refs db) (od_verifications db)"

definition ops_checks_ok :: "operations_db \<Rightarrow> bool" where
  "ops_checks_ok db \<longleftrightarrow>
     list_all (\<lambda>r. kx_passed r \<in> {0, 1}) (od_checks db)
     \<and> distinct (map (\<lambda>c. (kx_verification_id c, kx_check_name c)) (od_checks db))
     \<and> list_all (\<lambda>r. kx_verification_id r \<in> set (map kv_verification_id (od_verifications db))) (od_checks db)"

definition ops_submissions_ok :: "operations_db \<Rightarrow> bool" where
  "ops_submissions_ok db \<longleftrightarrow>
     list_all (\<lambda>r. ks_operator_confirmed r = 1) (od_submissions db)
     \<and> distinct (map ks_submission_id (od_submissions db))
     \<and> list_all (\<lambda>r. candidate_known db (ks_candidate_id r) \<and> optional_ok (artifact_exists (od_v1 db)) (ks_note_artifact_sha256 r)) (od_submissions db)"

definition ops_events_ok :: "operations_db \<Rightarrow> bool" where
  "ops_events_ok db \<longleftrightarrow>
     distinct (map ke_event_id (od_events db))
     \<and> list_all (\<lambda>r. competition_known db (ke_competition_id r) \<and> optional_ok (problem_known db) (ke_problem_id r)) (od_events db)"

definition ops_errors_ok :: "operations_db \<Rightarrow> bool" where
  "ops_errors_ok db \<longleftrightarrow>
     list_all (\<lambda>r. kf_retryable r \<in> {0, 1}) (od_errors db)
     \<and> distinct (map kf_error_id (od_errors db))
     \<and> list_all (\<lambda>r. competition_known db (kf_competition_id r) \<and> optional_ok (problem_known db) (kf_problem_id r) \<and> optional_ok (job_known db) (kf_job_id r)) (od_errors db)"

definition ops_rows_ok :: "operations_db \<Rightarrow> bool" where
  "ops_rows_ok db \<longleftrightarrow>
     storage_ok (od_v1 db) \<and> ops_competitions_ok db \<and> ops_modes_ok db \<and> ops_problems_ok db \<and> ops_problem_artifacts_ok db \<and> ops_plans_ok db
     \<and> ops_jobs_ok db \<and> ops_dependencies_ok db \<and> ops_analysis_links_ok db \<and> ops_candidates_ok db \<and> ops_candidate_links_ok db
     \<and> ops_verifications_ok db \<and> ops_checks_ok db \<and> ops_submissions_ok db \<and> ops_events_ok db \<and> ops_errors_ok db"

definition ops_ok :: "operations_db \<Rightarrow> bool" where
  "ops_ok db \<longleftrightarrow> ops_rows_ok db \<and> deferred_refs db"

lemmas ops_table_defs =
  ops_competitions_ok_def ops_modes_ok_def ops_problems_ok_def ops_problem_artifacts_ok_def ops_plans_ok_def
  ops_jobs_ok_def ops_dependencies_ok_def ops_analysis_links_ok_def ops_candidates_ok_def ops_candidate_links_ok_def
  ops_verifications_ok_def ops_checks_ok_def ops_submissions_ok_def ops_events_ok_def ops_errors_ok_def

subsection \<open>Growth\<close>

definition competition_identity :: "competition_row \<Rightarrow> competition_row" where
  "competition_identity r = r\<lparr>kc_status := [], kc_updated_at := []\<rparr>"

definition problem_identity :: "problem_db_row \<Rightarrow> problem_db_row" where
  "problem_identity r = r\<lparr>kp_status := [], kp_updated_at := []\<rparr>"

definition candidate_identity :: "candidate_row \<Rightarrow> candidate_row" where
  "candidate_identity r = r\<lparr>kd_status := [], kd_updated_at := []\<rparr>"

definition ops_grows :: "operations_db \<Rightarrow> operations_db \<Rightarrow> bool" where
  "ops_grows db db' \<longleftrightarrow>
     storage_grows (od_v1 db) (od_v1 db')
     \<and> prefix (map competition_identity (od_competitions db)) (map competition_identity (od_competitions db'))
     \<and> prefix (od_modes db) (od_modes db')
     \<and> prefix (map problem_identity (od_problems db)) (map problem_identity (od_problems db'))
     \<and> prefix (od_problem_artifacts db) (od_problem_artifacts db')
     \<and> prefix (od_plans db) (od_plans db')
     \<and> prefix (od_jobs db) (od_jobs db')
     \<and> prefix (od_dependencies db) (od_dependencies db')
     \<and> prefix (od_analysis_links db) (od_analysis_links db')
     \<and> prefix (map candidate_identity (od_candidates db)) (map candidate_identity (od_candidates db'))
     \<and> prefix (od_candidate_links db) (od_candidate_links db')
     \<and> prefix (od_verifications db) (od_verifications db')
     \<and> prefix (od_checks db) (od_checks db')
     \<and> prefix (od_submissions db) (od_submissions db')
     \<and> prefix (od_events db) (od_events db')
     \<and> prefix (od_errors db) (od_errors db')"

lemma ops_grows_refl [simp]: "ops_grows db db"
  by (simp add: ops_grows_def)

lemma ops_grows_trans: "ops_grows a b \<Longrightarrow> ops_grows b c \<Longrightarrow> ops_grows a c"
  unfolding ops_grows_def
  by (intro conjI; elim conjE; (rule storage_grows_trans | rule prefix_order.trans); assumption)

definition ops_step :: "operations_db \<Rightarrow> operations_db \<Rightarrow> bool" where
  "ops_step db db' \<longleftrightarrow> ops_grows db db' \<and> (ops_rows_ok db \<longrightarrow> ops_rows_ok db')"

lemma ops_step_refl [simp, intro]: "ops_step db db"
  by (simp add: ops_step_def)

lemma ops_step_trans: "ops_step a b \<Longrightarrow> ops_step b c \<Longrightarrow> ops_step a c"
  using ops_grows_trans by (auto simp: ops_step_def)

lemma identity_keeps [simp]:
  "kc_competition_id (competition_identity c) = kc_competition_id c"
  "kp_problem_id (problem_identity p) = kp_problem_id p"
  "kd_candidate_id (candidate_identity d) = kd_candidate_id d"
  by (simp_all add: competition_identity_def problem_identity_def candidate_identity_def)

lemma keys_kept:
  assumes "set (map f xs) \<subseteq> set (map f ys)" and "\<And>x. k (f x) = k x" and "i \<in> set (map k xs)"
  shows "i \<in> set (map k ys)"
proof -
  from assms(3) obtain x where x: "x \<in> set xs" "i = k x" by auto
  with assms(1) obtain y where "y \<in> set ys" "f y = f x" by auto
  with x assms(2) show ?thesis by (metis image_eqI set_map)
qed

text \<open>A foreign key that finds its row finds it in every later database.\<close>

lemma known_mono:
  assumes "ops_grows db db'"
  shows "competition_known db i \<Longrightarrow> competition_known db' i" "problem_known db i \<Longrightarrow> problem_known db' i"
    "candidate_known db i \<Longrightarrow> candidate_known db' i" "job_known db i \<Longrightarrow> job_known db' i"
proof -
  have sub: "set (map competition_identity (od_competitions db)) \<subseteq> set (map competition_identity (od_competitions db'))"
    "set (map problem_identity (od_problems db)) \<subseteq> set (map problem_identity (od_problems db'))"
    "set (map candidate_identity (od_candidates db)) \<subseteq> set (map candidate_identity (od_candidates db'))"
    "set (od_jobs db) \<subseteq> set (od_jobs db')"
    using assms by (auto simp only: ops_grows_def dest: set_mono_prefix)
  show "competition_known db i \<Longrightarrow> competition_known db' i"
    unfolding competition_known_def by (rule keys_kept [OF sub(1)]) simp_all
  show "problem_known db i \<Longrightarrow> problem_known db' i"
    unfolding problem_known_def by (rule keys_kept [OF sub(2)]) simp_all
  show "candidate_known db i \<Longrightarrow> candidate_known db' i"
    unfolding candidate_known_def by (rule keys_kept [OF sub(3)]) simp_all
  show "job_known db i \<Longrightarrow> job_known db' i" using sub(4) by (auto simp: job_known_def)
qed

lemma optional_ok_mono: "(\<And>x. P x \<Longrightarrow> Q x) \<Longrightarrow> optional_ok P v \<Longrightarrow> optional_ok Q v"
  by (cases v) auto

lemma row_refs_mono:
  assumes g: "ops_grows db db'"
  shows "plan_row_refs db p \<Longrightarrow> plan_row_refs db' p" "job_row_refs db j \<Longrightarrow> job_row_refs db' j"
    "verification_row_refs db v \<Longrightarrow> verification_row_refs db' v"
proof -
  have "storage_grows (od_v1 db) (od_v1 db')" and modes: "set (od_modes db) \<subseteq> set (od_modes db')"
    using g by (auto simp only: ops_grows_def dest: set_mono_prefix)
  note v1 = references_mono [OF this(1)]
  show "plan_row_refs db p \<Longrightarrow> plan_row_refs db' p"
    using known_mono [OF g] modes optional_ok_mono [OF v1(1)] by (auto simp: plan_row_refs_def)
  show "job_row_refs db j \<Longrightarrow> job_row_refs db' j"
    using known_mono [OF g] optional_ok_mono [OF v1(2)] by (auto simp: job_row_refs_def)
  show "verification_row_refs db v \<Longrightarrow> verification_row_refs db' v"
    using known_mono [OF g] by (auto simp: verification_row_refs_def)
qed

lemma ops_grown_ok:
  assumes g: "ops_grows db db'" and ok: "ops_rows_ok db"
    and "od_v1 db' = od_v1 db \<or> storage_ok (od_v1 db')"
    and "od_competitions db' = od_competitions db \<or> (ops_competitions_ok db \<longrightarrow> ops_competitions_ok db')"
    and "od_modes db' = od_modes db \<or> (ops_modes_ok db \<longrightarrow> ops_modes_ok db')"
    and "od_problems db' = od_problems db \<or> (ops_problems_ok db \<longrightarrow> ops_problems_ok db')"
    and "od_problem_artifacts db' = od_problem_artifacts db \<or> (ops_problem_artifacts_ok db \<longrightarrow> ops_problem_artifacts_ok db')"
    and "od_plans db' = od_plans db \<or> (ops_plans_ok db \<longrightarrow> ops_plans_ok db')"
    and "od_jobs db' = od_jobs db \<or> (ops_jobs_ok db \<longrightarrow> ops_jobs_ok db')"
    and "od_dependencies db' = od_dependencies db \<or> (ops_dependencies_ok db \<longrightarrow> ops_dependencies_ok db')"
    and "od_analysis_links db' = od_analysis_links db \<or> (ops_analysis_links_ok db \<longrightarrow> ops_analysis_links_ok db')"
    and "od_candidates db' = od_candidates db \<or> (ops_candidates_ok db \<longrightarrow> ops_candidates_ok db')"
    and "od_candidate_links db' = od_candidate_links db \<or> (ops_candidate_links_ok db \<longrightarrow> ops_candidate_links_ok db')"
    and "od_verifications db' = od_verifications db \<or> (ops_verifications_ok db \<longrightarrow> ops_verifications_ok db')"
    and "od_checks db' = od_checks db \<or> (ops_checks_ok db \<longrightarrow> ops_checks_ok db')"
    and "od_submissions db' = od_submissions db \<or> (ops_submissions_ok db \<longrightarrow> ops_submissions_ok db')"
    and "od_events db' = od_events db \<or> (ops_events_ok db \<longrightarrow> ops_events_ok db')"
    and "od_errors db' = od_errors db \<or> (ops_errors_ok db \<longrightarrow> ops_errors_ok db')"
  shows "ops_rows_ok db'"
proof -
  have v1: "storage_grows (od_v1 db) (od_v1 db')" and vers: "set (od_verifications db) \<subseteq> set (od_verifications db')"
    using g by (auto simp only: ops_grows_def dest: set_mono_prefix)
  note mono = known_mono [OF g] row_refs_mono [OF g] references_mono [OF v1]
  note opt = optional_ok_mono [OF mono(2)] optional_ok_mono [OF mono(4)] optional_ok_mono [OF references_mono(1) [OF v1]]
  have "storage_ok (od_v1 db')" using assms(3) ok by (auto simp: ops_rows_ok_def)
  have "ops_competitions_ok db'" using assms(4) ok unfolding ops_rows_ok_def ops_competitions_ok_def list_all_iff by (auto intro: mono opt)
  have "ops_modes_ok db'" using assms(5) ok unfolding ops_rows_ok_def ops_modes_ok_def list_all_iff by (auto intro: mono opt)
  have "ops_problems_ok db'" using assms(6) ok unfolding ops_rows_ok_def ops_problems_ok_def list_all_iff by (auto intro: mono opt)
  have "ops_problem_artifacts_ok db'" using assms(7) ok unfolding ops_rows_ok_def ops_problem_artifacts_ok_def list_all_iff by (auto intro: mono opt)
  have "ops_plans_ok db'" using assms(8) ok unfolding ops_rows_ok_def ops_plans_ok_def list_all_iff by (auto intro: mono opt)
  have "ops_jobs_ok db'" using assms(9) ok unfolding ops_rows_ok_def ops_jobs_ok_def list_all_iff by (auto intro: mono opt)
  have "ops_dependencies_ok db'" using assms(10) ok unfolding ops_rows_ok_def ops_dependencies_ok_def list_all_iff by (fastforce intro: mono opt)
  have "ops_analysis_links_ok db'" using assms(11) ok unfolding ops_rows_ok_def ops_analysis_links_ok_def list_all_iff by (auto intro: mono opt)
  have "ops_candidates_ok db'" using assms(12) ok unfolding ops_rows_ok_def ops_candidates_ok_def list_all_iff by (auto intro: mono opt)
  have "ops_candidate_links_ok db'" using assms(13) ok unfolding ops_rows_ok_def ops_candidate_links_ok_def list_all_iff by (auto intro: mono opt)
  have "ops_verifications_ok db'" using assms(14) ok unfolding ops_rows_ok_def ops_verifications_ok_def list_all_iff by (auto intro: mono opt)
  have "ops_checks_ok db'" using assms(15) ok vers unfolding ops_rows_ok_def ops_checks_ok_def list_all_iff by (fastforce intro: mono opt)
  have "ops_submissions_ok db'" using assms(16) ok unfolding ops_rows_ok_def ops_submissions_ok_def list_all_iff by (auto intro: mono opt)
  have "ops_events_ok db'" using assms(17) ok unfolding ops_rows_ok_def ops_events_ok_def list_all_iff by (auto intro: mono opt)
  have "ops_errors_ok db'" using assms(18) ok unfolding ops_rows_ok_def ops_errors_ok_def list_all_iff by (auto intro: mono opt)
  show ?thesis
    unfolding ops_rows_ok_def by (intro conjI) fact+
qed

subsection \<open>Statements\<close>

lemma ops_constrained_Inr [result_simps]:
  "ops_constrained c u r db = Inr db' \<longleftrightarrow> c \<and> u \<and> r \<and> db' = db"
  by (auto simp: ops_constrained_def result_simps)

lemma bindable_Inr [result_simps]: "bindable is = Inr u \<longleftrightarrow> list_all int64 is"
  by (auto simp: bindable_def result_simps)

lemmas ops_insert_defs =
  insert_competition_def insert_mode_row_def insert_problem_row_def insert_problem_artifact_def
  insert_plan_row_def insert_job_row_def insert_analysis_link_def insert_dependency_def
  insert_candidate_row_def insert_candidate_link_def insert_verification_row_def insert_check_row_def
  insert_submission_row_def insert_event_row_def insert_error_row_def

lemma ops_insert_grows:
  "insert_competition c db = Inr db' \<Longrightarrow> ops_grows db db'"
  "insert_mode_row m db = Inr db' \<Longrightarrow> ops_grows db db'"
  "insert_problem_row p db = Inr db' \<Longrightarrow> ops_grows db db'"
  "insert_problem_artifact a db = Inr db' \<Longrightarrow> ops_grows db db'"
  "insert_plan_row l db = Inr db' \<Longrightarrow> ops_grows db db'"
  "insert_job_row j db = Inr db' \<Longrightarrow> ops_grows db db'"
  "insert_analysis_link k db = Inr db' \<Longrightarrow> ops_grows db db'"
  "insert_dependency d db = Inr db' \<Longrightarrow> ops_grows db db'"
  "insert_candidate_row cd db = Inr db' \<Longrightarrow> ops_grows db db'"
  "insert_candidate_link r db = Inr db' \<Longrightarrow> ops_grows db db'"
  "insert_verification_row v db = Inr db' \<Longrightarrow> ops_grows db db'"
  "insert_check_row x db = Inr db' \<Longrightarrow> ops_grows db db'"
  "insert_submission_row s db = Inr db' \<Longrightarrow> ops_grows db db'"
  "insert_event_row e db = Inr db' \<Longrightarrow> ops_grows db db'"
  "insert_error_row f db = Inr db' \<Longrightarrow> ops_grows db db'"
  by (auto simp: ops_insert_defs ops_grows_def result_simps)

lemma known_unaffected:
  "problem_known (db\<lparr>od_events := es\<rparr>) = problem_known db" "problem_known (db\<lparr>od_errors := fs\<rparr>) = problem_known db"
  "job_known (db\<lparr>od_errors := fs\<rparr>) = job_known db"
  by (simp_all add: fun_eq_iff problem_known_def job_known_def)

lemma ops_insert_ok:
  "ops_rows_ok db \<Longrightarrow> insert_competition c db = Inr db' \<Longrightarrow> ops_rows_ok db'"
  "ops_rows_ok db \<Longrightarrow> insert_mode_row m db = Inr db' \<Longrightarrow> ops_rows_ok db'"
  "ops_rows_ok db \<Longrightarrow> insert_problem_row p db = Inr db' \<Longrightarrow> ops_rows_ok db'"
  "ops_rows_ok db \<Longrightarrow> insert_problem_artifact a db = Inr db' \<Longrightarrow> ops_rows_ok db'"
  "ops_rows_ok db \<Longrightarrow> insert_plan_row l db = Inr db' \<Longrightarrow> ops_rows_ok db'"
  "ops_rows_ok db \<Longrightarrow> insert_job_row j db = Inr db' \<Longrightarrow> ops_rows_ok db'"
  "ops_rows_ok db \<Longrightarrow> insert_analysis_link k db = Inr db' \<Longrightarrow> ops_rows_ok db'"
  "ops_rows_ok db \<Longrightarrow> insert_dependency d db = Inr db' \<Longrightarrow> ops_rows_ok db'"
  "ops_rows_ok db \<Longrightarrow> insert_candidate_row cd db = Inr db' \<Longrightarrow> ops_rows_ok db'"
  "ops_rows_ok db \<Longrightarrow> insert_candidate_link r db = Inr db' \<Longrightarrow> ops_rows_ok db'"
  "ops_rows_ok db \<Longrightarrow> insert_verification_row v db = Inr db' \<Longrightarrow> ops_rows_ok db'"
  "ops_rows_ok db \<Longrightarrow> insert_check_row x db = Inr db' \<Longrightarrow> ops_rows_ok db'"
  "ops_rows_ok db \<Longrightarrow> insert_submission_row s db = Inr db' \<Longrightarrow> ops_rows_ok db'"
  "ops_rows_ok db \<Longrightarrow> insert_event_row e db = Inr db' \<Longrightarrow> ops_rows_ok db'"
  "ops_rows_ok db \<Longrightarrow> insert_error_row f db = Inr db' \<Longrightarrow> ops_rows_ok db'"
  by ((rule ops_grown_ok, erule ops_insert_grows, assumption,
      (auto simp: known_unaffected ops_insert_defs result_simps ops_table_defs competition_known_def problem_known_def job_known_def
        candidate_known_def plan_row_refs_def job_row_refs_def verification_row_refs_def problem_artifact_unique_def
        list_all_iff list_ex_iff)) [1])+

lemma ops_insert_step:
  "insert_competition c db = Inr db' \<Longrightarrow> ops_step db db'"
  "insert_mode_row m db = Inr db' \<Longrightarrow> ops_step db db'"
  "insert_problem_row p db = Inr db' \<Longrightarrow> ops_step db db'"
  "insert_problem_artifact a db = Inr db' \<Longrightarrow> ops_step db db'"
  "insert_plan_row l db = Inr db' \<Longrightarrow> ops_step db db'"
  "insert_job_row j db = Inr db' \<Longrightarrow> ops_step db db'"
  "insert_analysis_link k db = Inr db' \<Longrightarrow> ops_step db db'"
  "insert_dependency d db = Inr db' \<Longrightarrow> ops_step db db'"
  "insert_candidate_row cd db = Inr db' \<Longrightarrow> ops_step db db'"
  "insert_candidate_link r db = Inr db' \<Longrightarrow> ops_step db db'"
  "insert_verification_row v db = Inr db' \<Longrightarrow> ops_step db db'"
  "insert_check_row x db = Inr db' \<Longrightarrow> ops_step db db'"
  "insert_submission_row s db = Inr db' \<Longrightarrow> ops_step db db'"
  "insert_event_row e db = Inr db' \<Longrightarrow> ops_step db db'"
  "insert_error_row f db = Inr db' \<Longrightarrow> ops_step db db'"
  by (simp_all add: ops_step_def ops_insert_grows) (blast intro: ops_insert_ok)+


lemma fold_ops_step:
  assumes "fold_result f db xs = Inr db'" and "\<And>d x d'. x \<in> set xs \<Longrightarrow> f d x = Inr d' \<Longrightarrow> ops_step d d'"
  shows "ops_step db db'"
  by (rule fold_result_invariant [OF assms(1), of "ops_step db"]) (use assms(2) ops_step_trans in auto)

lemma insert_file_step: "insert_file r db f = Inr db' \<Longrightarrow> ops_step db db'"
  by (auto simp: insert_file_def result_simps ops_insert_step)

lemma insert_problem_step: "insert_problem env db r = Inr db' \<Longrightarrow> ops_step db db'"
  by (auto simp: insert_problem_def result_simps dest!: ops_insert_step fold_ops_step [OF _ insert_file_step])
    (meson ops_step_trans)

lemma insert_plan_step: "insert_plan env db r = Inr db' \<Longrightarrow> ops_step db db'"
  by (auto simp: insert_plan_def result_simps ops_insert_step)

lemma insert_job_step: "insert_job env db r = Inr db' \<Longrightarrow> ops_step db db'"
  by (auto simp: insert_job_def result_simps split: option.splits dest!: ops_insert_step) (meson ops_step_trans)

lemma insert_reference_step: "insert_reference r t db i = Inr db' \<Longrightarrow> ops_step db db'"
  by (auto simp: insert_reference_def ops_insert_step split: option.splits)

lemma insert_candidate_step: "insert_candidate env db r = Inr db' \<Longrightarrow> ops_step db db'"
  by (auto simp: insert_candidate_def result_simps dest!: ops_insert_step fold_ops_step [OF _ insert_reference_step])
    (meson ops_step_trans)

lemma insert_checks_step:
  "fold_result (\<lambda>d c. insert_check_row (check_row_for r c) d) db cs = Inr db' \<Longrightarrow> ops_step db db'"
  by (erule fold_ops_step, erule ops_insert_step)

lemma insert_verification_step: "insert_verification env db r = Inr db' \<Longrightarrow> ops_step db db'"
  by (auto simp: insert_verification_def result_simps dest!: ops_insert_step insert_checks_step)
    (meson ops_step_trans)

lemma insert_submission_step: "insert_submission env db r = Inr db' \<Longrightarrow> ops_step db db'"
  by (auto simp: insert_submission_def result_simps ops_insert_step)

lemma insert_event_step: "insert_event env db r = Inr db' \<Longrightarrow> ops_step db db'"
  by (simp add: insert_event_def ops_insert_step)

lemma and_then_step:
  assumes "and_then m f = Inr db'" and "\<And>x. m = Inr x \<Longrightarrow> ops_step db x" and "\<And>x. f x = Inr db' \<Longrightarrow> ops_step x db'"
  shows "ops_step db db'"
  using assms ops_step_trans by (auto simp: and_then_Inr)

lemmas record_steps =
  ops_insert_step insert_problem_step insert_plan_step insert_job_step insert_candidate_step
  insert_verification_step insert_submission_step insert_event_step

lemma document_folds:
  "fold_result (\<lambda>d r. insert_mode_row (f r) d) db ms = Inr db' \<Longrightarrow> ops_step db db'"
  "fold_result (insert_problem env) db ps = Inr db' \<Longrightarrow> ops_step db db'"
  "fold_result (insert_plan env) db ls = Inr db' \<Longrightarrow> ops_step db db'"
  "fold_result (insert_job env) db js = Inr db' \<Longrightarrow> ops_step db db'"
  "insert_job_dependencies b db = Inr db' \<Longrightarrow> ops_step db db'"
  "fold_result (insert_candidate env) db cs = Inr db' \<Longrightarrow> ops_step db db'"
  "fold_result (insert_verification env) db vs = Inr db' \<Longrightarrow> ops_step db db'"
  "fold_result (insert_submission env) db ss = Inr db' \<Longrightarrow> ops_step db db'"
  "fold_result (insert_event env) db es = Inr db' \<Longrightarrow> ops_step db db'"
  "fold_result (\<lambda>d r. insert_error_row (g r) d) db xs = Inr db' \<Longrightarrow> ops_step db db'"
  unfolding insert_job_dependencies_def by (erule fold_ops_step, erule record_steps)+

lemma insert_document_step: "insert_document env b db = Inr db' \<Longrightarrow> ops_step db db'"
  unfolding insert_document_def
  by ((erule and_then_step, erule ops_insert_step(1) document_folds)+) (erule document_folds)

subsection \<open>Updates\<close>

text \<open>Rows that differ in their status and update time alone satisfy the same constraints.\<close>

lemma identity_fields:
  "kc_operations_schema_version (competition_identity c) = kc_operations_schema_version c"
  "kp_score (problem_identity p) = kp_score p" "kp_competition_id (problem_identity p) = kp_competition_id p"
  "kp_active_plan_id (problem_identity p) = kp_active_plan_id p"
  "kd_confidence (candidate_identity d) = kd_confidence d" "kd_problem_id (candidate_identity d) = kd_problem_id d"
  "kd_created_by_job_id (candidate_identity d) = kd_created_by_job_id d"
  by (simp_all add: competition_identity_def problem_identity_def candidate_identity_def)

lemma competitions_updated:
  assumes "\<And>r. competition_identity (g r) = competition_identity r"
  shows "ops_step db (db\<lparr>od_competitions := map g (od_competitions db)\<rparr>)"
proof -
  have keep: "kc_competition_id (g r) = kc_competition_id r"
    "kc_operations_schema_version (g r) = kc_operations_schema_version r" for r
    using assms identity_keeps(1) identity_fields(1) by metis+
  have grows: "ops_grows db (db\<lparr>od_competitions := map g (od_competitions db)\<rparr>)"
    using assms by (simp add: ops_grows_def comp_def)
  moreover have "ops_rows_ok (db\<lparr>od_competitions := map g (od_competitions db)\<rparr>)" if "ops_rows_ok db"
    by (rule ops_grown_ok [OF grows that]) (auto simp: ops_competitions_ok_def keep comp_def list_all_iff)
  ultimately show ?thesis by (simp add: ops_step_def)
qed

lemma problems_updated:
  assumes "\<And>r. problem_identity (g r) = problem_identity r"
  shows "ops_step db (db\<lparr>od_problems := map g (od_problems db)\<rparr>)"
proof -
  have keep: "kp_problem_id (g r) = kp_problem_id r" "kp_score (g r) = kp_score r"
    "kp_competition_id (g r) = kp_competition_id r" for r
    using assms identity_keeps(2) identity_fields(2,3) by metis+
  have grows: "ops_grows db (db\<lparr>od_problems := map g (od_problems db)\<rparr>)"
    using assms by (simp add: ops_grows_def comp_def)
  moreover have "ops_rows_ok (db\<lparr>od_problems := map g (od_problems db)\<rparr>)" if "ops_rows_ok db"
    by (rule ops_grown_ok [OF grows that])
      (auto simp: ops_problems_ok_def keep comp_def list_all_iff competition_known_def)
  ultimately show ?thesis by (simp add: ops_step_def)
qed

lemma candidates_updated:
  assumes "\<And>r. candidate_identity (g r) = candidate_identity r"
  shows "ops_step db (db\<lparr>od_candidates := map g (od_candidates db)\<rparr>)"
proof -
  have keep: "kd_candidate_id (g r) = kd_candidate_id r" "kd_confidence (g r) = kd_confidence r"
    "kd_problem_id (g r) = kd_problem_id r" "kd_created_by_job_id (g r) = kd_created_by_job_id r" for r
    using assms identity_keeps(3) identity_fields(5-7) by metis+
  have grows: "ops_grows db (db\<lparr>od_candidates := map g (od_candidates db)\<rparr>)"
    using assms by (simp add: ops_grows_def comp_def)
  moreover have "ops_rows_ok (db\<lparr>od_candidates := map g (od_candidates db)\<rparr>)" if "ops_rows_ok db"
    by (rule ops_grown_ok [OF grows that])
      (auto simp: ops_candidates_ok_def keep comp_def list_all_iff problem_known_def job_known_def)
  ultimately show ?thesis by (simp add: ops_step_def)
qed

lemma update_steps:
  "ops_step db (snd (update_candidate c db))" "ops_step db (snd (update_problem p db))"
  "ops_step db (snd (update_competition m db))"
  by (simp_all add: update_candidate_def update_problem_def update_competition_def update_rows_def Let_def
      candidates_updated problems_updated competitions_updated candidate_identity_def problem_identity_def
      competition_identity_def)

subsection \<open>Operations\<close>

text \<open>\<open>ops_sound m\<close>: whatever the outcome of \<open>m\<close>, the database it leaves has grown and is as sound as before.\<close>

definition ops_sound :: "'a ops_action \<Rightarrow> bool" where
  "ops_sound m \<longleftrightarrow> (\<forall>db. ops_grows db (snd (m db)) \<and> (ops_ok db \<longrightarrow> ops_ok (snd (m db))))"

lemma sound_ops_transaction:
  "(\<And>db x db'. body db = Inr (x, db') \<Longrightarrow> ops_step db db') \<Longrightarrow> ops_sound (ops_transaction body)"
  by (auto simp: ops_sound_def ops_transaction_def ops_step_def ops_ok_def split: sum.splits)

lemma ops_sound_if: "ops_sound m \<Longrightarrow> ops_sound (\<lambda>db. case r of Inl e \<Rightarrow> (Inl e, db) | Inr y \<Rightarrow> m db)"
  by (cases r) (simp_all add: ops_sound_def)

lemma save_document_sound: "ops_sound (save_document env b)"
  unfolding save_document_def [abs_def]
  by (intro ops_sound_if sound_ops_transaction) (auto simp: result_simps insert_document_step)

lemma append_event_sound: "ops_sound (append_event env e)"
  unfolding append_event_def [abs_def]
  by (intro ops_sound_if sound_ops_transaction) (auto simp: result_simps insert_event_step)

lemma submission_body_step:
  assumes "submission_body env b s e c p db = Inr (x, db')"
  shows "ops_step db db'"
proof -
  obtain n1 db1 n2 db2 n3 db3 where u: "update_candidate c db = (n1, db1)" "update_problem p db1 = (n2, db2)"
      "update_competition (ob_manifest b) db2 = (n3, db3)"
    by (metis surj_pair)
  have "ops_step db db3" using update_steps ops_step_trans u by (metis snd_conv)
  moreover have "ops_step db3 db'"
    using assms u
    by (auto simp: submission_body_def result_simps split: option.splits if_splits
        dest!: insert_submission_step insert_event_step intro: ops_step_trans)
  ultimately show ?thesis by (rule ops_step_trans)
qed

lemma apply_submission_sound: "ops_sound (apply_submission env b s e)"
proof -
  have "ops_sound (ops_transaction (submission_body env b s e c p))" for c p
    by (rule sound_ops_transaction) (rule submission_body_step)
  then show ?thesis
    by (auto simp: ops_sound_def apply_submission_def split: sum.splits)
qed

lemma ops_record_artifact_sound: "ops_sound (ops_record_artifact r)"
  unfolding ops_record_artifact_def
proof (rule sound_ops_transaction)
  fix db :: operations_db and x db'
  assume a: "(case insert_artifact r (od_v1 db) of Inl e \<Rightarrow> Inl (Ops_Storage_Error e)
       | Inr v1 \<Rightarrow> and_then (case get_artifact v1 (ar_sha256 r) of None \<Rightarrow> Inr ()
           | Some existing \<Rightarrow> raise_if
                (ar_byte_length existing \<noteq> ar_byte_length r \<or> ar_media_type existing \<noteq> ar_media_type r
                 \<or> ar_relative_path existing \<noteq> ar_relative_path r
                 \<or> ar_artifact_kind existing \<noteq> ar_artifact_kind r
                 \<or> ar_redaction_status existing \<noteq> ar_redaction_status r
                 \<or> ar_license_status existing \<noteq> ar_license_status r)
                (Ops_Value_Error ''artifact hash conflicts with existing metadata''))
          (\<lambda>_. Inr ((), db\<lparr>od_v1 := v1\<rparr>))) = Inr (x, db')"
  then obtain v1 where v1: "insert_artifact r (od_v1 db) = Inr v1" "db' = db\<lparr>od_v1 := v1\<rparr>"
    by (auto simp: result_simps split: sum.splits)
  then have "sound_step (od_v1 db) v1" by (simp add: insert_sound)
  with v1 have "ops_grows db db'" "storage_ok (od_v1 db) \<longrightarrow> storage_ok (od_v1 db')"
    by (simp_all add: ops_grows_def sound_step_def)
  then show "ops_step db db'"
    using ops_grown_ok [OF \<open>ops_grows db db'\<close>] v1 by (auto simp: ops_step_def ops_rows_ok_def)
qed

subsection \<open>Histories\<close>

inductive operations_step :: "operations_env \<Rightarrow> operations_db \<Rightarrow> operations_db \<Rightarrow> bool" for env where
  save: "operations_step env db (snd (save_document env b db))"
| append: "operations_step env db (snd (append_event env e db))"
| submit: "operations_step env db (snd (apply_submission env b s e db))"
| artifact: "operations_step env db (snd (ops_record_artifact r db))"

text \<open>The databases of version 2: a sound database of version 1, migrated, and what follows.\<close>

inductive operations_reachable :: "operations_env \<Rightarrow> operations_db \<Rightarrow> bool" for env where
  migrated: "storage_ok v1 \<Longrightarrow> operations_reachable env (empty_operations v1)"
| more: "operations_reachable env db \<Longrightarrow> operations_step env db db' \<Longrightarrow> operations_reachable env db'"

lemma operations_step_sound:
  "operations_step env db db' \<Longrightarrow> ops_grows db db' \<and> (ops_ok db \<longrightarrow> ops_ok db')"
  by (induction rule: operations_step.induct)
    (use save_document_sound append_event_sound apply_submission_sound ops_record_artifact_sound
     in \<open>auto simp: ops_sound_def\<close>)

lemma operations_steps_grow: "(operations_step env)\<^sup>*\<^sup>* db db' \<Longrightarrow> ops_grows db db'"
  by (induction rule: rtranclp_induct) (auto intro: ops_grows_trans dest: operations_step_sound)

lemma empty_operations_ok: "storage_ok v1 \<Longrightarrow> ops_ok (empty_operations v1)"
  by (simp add: ops_ok_def ops_rows_ok_def ops_table_defs empty_operations_def deferred_refs_def)

lemma operations_reachable_ok: "operations_reachable env db \<Longrightarrow> ops_ok db"
  by (induction rule: operations_reachable.induct) (auto dest: operations_step_sound empty_operations_ok)


end
