(* ===== verification/Document_Rows.thy ===== *)
theory Document_Rows
  imports Operations_Integrity
begin

section \<open>The rows of a saved document\<close>

text \<open>
  What a successful \<^verbatim>\<open>save_document\<close> adds to each table, which identifiers it found free, and that the
  queries of \<^verbatim>\<open>load_document\<close> select exactly these rows again.
\<close>

subsection \<open>What is inserted\<close>

definition stored_sha :: "string \<Rightarrow> string" where
  "stored_sha uri = drop (length artifact_prefix) uri"

definition problem_artifact_rows :: "problem_record \<Rightarrow> problem_artifact_row list" where
  "problem_artifact_rows p =
     original_row_for p (stored_sha (pr_original_text_artifact p))
       # map (file_row_for p) (pr_provided_file_artifacts p)"

definition plan_row_of :: "dump_env \<Rightarrow> plan_hypothesis \<Rightarrow> plan_row" where
  "plan_row_of env p = plan_row_for env p (map_option stored_sha (pl_raw_output_artifact p))"

definition submission_row_of :: "dump_env \<Rightarrow> submission_record \<Rightarrow> submission_db_row" where
  "submission_row_of env s = submission_row_for env s (map_option stored_sha (sb_note_artifact s))"

definition analysis_links :: "job_record \<Rightarrow> analysis_link_row list" where
  "analysis_links j =
     (case jb_analysis_id j of
        None \<Rightarrow> []
      | Some a \<Rightarrow> [\<lparr>kk_problem_id = jb_problem_id j, kk_analysis_id = a, kk_role = jb_job_type j, kk_job_id = jb_job_id j\<rparr>])"

definition reference_row :: "storage \<Rightarrow> candidate_record \<Rightarrow> string \<Rightarrow> string \<Rightarrow> candidate_link_row" where
  "reference_row v1 c t i =
     \<lparr>kr_candidate_id = cd_candidate_id c, kr_analysis_id = the (reference_run (empty_operations v1) t i),
      kr_ref_type = t, kr_ref_id = i\<rparr>"

definition reference_rows :: "storage \<Rightarrow> candidate_record \<Rightarrow> candidate_link_row list" where
  "reference_rows v1 c =
     map (reference_row v1 c ''result'') (cd_result_refs c) @ map (reference_row v1 c ''evidence'') (cd_evidence_refs c)"

text \<open>A loop whose steps are functional updates is their composition.\<close>

lemma fold_result_foldl:
  "fold_result f d xs = Inr d' \<Longrightarrow> (\<And>d x d'. f d x = Inr d' \<Longrightarrow> d' = g d x) \<Longrightarrow> d' = foldl g d xs"
  by (induction xs arbitrary: d) (auto simp: result_simps)

lemma optional_artifact_Inr:
  "optional_artifact db uri = Inr s \<Longrightarrow> s = map_option stored_sha uri"
  by (auto simp: optional_artifact_def artifact_sha_def stored_sha_def result_simps split: option.splits)

lemma insert_files_Inr:
  assumes "fold_result (insert_file r) db fs = Inr db'"
  shows "db' = db\<lparr>od_problem_artifacts := od_problem_artifacts db @ map (file_row_for r) fs\<rparr>"
proof -
  have "db' = foldl (\<lambda>d x. d\<lparr>od_problem_artifacts := od_problem_artifacts d @ [file_row_for r x]\<rparr>) db fs"
    using assms by (rule fold_result_foldl) (auto simp: insert_file_def insert_problem_artifact_def result_simps)
  also have "\<dots> = db\<lparr>od_problem_artifacts := od_problem_artifacts db @ map (file_row_for r) fs\<rparr>"
    by (induction fs arbitrary: db) simp_all
  finally show ?thesis .
qed

lemma insert_problem_Inr:
  assumes "insert_problem env db p = Inr db'"
  shows "\<not> problem_known db (pr_problem_id p)"
    and "db' = db\<lparr>od_problems := od_problems db @ [problem_row_for env p],
      od_problem_artifacts := od_problem_artifacts db @ problem_artifact_rows p\<rparr>"
proof -
  from assms obtain db1 sha db2 where
    "insert_problem_row (problem_row_for env p) db = Inr db1" "artifact_sha (pr_original_text_artifact p) = Inr sha"
    "insert_problem_artifact (original_row_for p sha) db1 = Inr db2"
    "fold_result (insert_file p) db2 (pr_provided_file_artifacts p) = Inr db'"
    by (auto simp: insert_problem_def result_simps)
  then show "\<not> problem_known db (pr_problem_id p)"
    "db' = db\<lparr>od_problems := od_problems db @ [problem_row_for env p],
      od_problem_artifacts := od_problem_artifacts db @ problem_artifact_rows p\<rparr>"
    by (auto simp: insert_problem_row_def insert_problem_artifact_def artifact_sha_def result_simps
        problem_artifact_rows_def stored_sha_def problem_row_for_def dest!: insert_files_Inr)
qed

lemma insert_problems_Inr:
  "fold_result (insert_problem env) db ps = Inr db' \<Longrightarrow>
     db' = db\<lparr>od_problems := od_problems db @ map (problem_row_for env) ps,
       od_problem_artifacts := od_problem_artifacts db @ concat (map problem_artifact_rows ps)\<rparr>
     \<and> (\<forall>p \<in> set ps. \<not> problem_known db (pr_problem_id p))"
proof (induction ps arbitrary: db)
  case (Cons p ps)
  then obtain d where d: "insert_problem env db p = Inr d" "fold_result (insert_problem env) d ps = Inr db'"
    by (auto simp: result_simps)
  note i = insert_problem_Inr [OF d(1)]
  from Cons.IH [OF d(2)] i show ?case by (auto simp: problem_known_def)
qed simp

lemma insert_modes_Inr:
  assumes "fold_result (\<lambda>d r. insert_mode_row (mode_row_for env r) d) db ms = Inr db'"
  shows "db' = db\<lparr>od_modes := od_modes db @ map (mode_row_for env) ms\<rparr>"
proof -
  have "db' = foldl (\<lambda>d x. d\<lparr>od_modes := od_modes d @ [mode_row_for env x]\<rparr>) db ms"
    using assms by (rule fold_result_foldl) (auto simp: insert_mode_row_def result_simps)
  also have "\<dots> = db\<lparr>od_modes := od_modes db @ map (mode_row_for env) ms\<rparr>"
    by (induction ms arbitrary: db) simp_all
  finally show ?thesis .
qed

lemma insert_plans_Inr:
  assumes "fold_result (insert_plan env) db ps = Inr db'"
  shows "db' = db\<lparr>od_plans := od_plans db @ map (plan_row_of env) ps\<rparr>"
proof -
  have "db' = foldl (\<lambda>d x. d\<lparr>od_plans := od_plans d @ [plan_row_of env x]\<rparr>) db ps"
    using assms by (rule fold_result_foldl) (auto simp: insert_plan_def insert_plan_row_def plan_row_of_def result_simps dest!: optional_artifact_Inr)
  also have "\<dots> = db\<lparr>od_plans := od_plans db @ map (plan_row_of env) ps\<rparr>"
    by (induction ps arbitrary: db) simp_all
  finally show ?thesis .
qed

lemma insert_job_Inr:
  "insert_job env db j = Inr db' \<Longrightarrow>
     db' = db\<lparr>od_jobs := od_jobs db @ [job_row_for env j],
       od_analysis_links := od_analysis_links db @ analysis_links j\<rparr>"
  by (auto simp: insert_job_def insert_job_row_def insert_analysis_link_def analysis_links_def result_simps
      split: option.splits)

lemma insert_jobs_Inr:
  assumes "fold_result (insert_job env) db js = Inr db'"
  shows "db' = db\<lparr>od_jobs := od_jobs db @ map (job_row_for env) js,
      od_analysis_links := od_analysis_links db @ concat (map analysis_links js)\<rparr>"
proof -
  have "db' = foldl (\<lambda>d x. d\<lparr>od_jobs := od_jobs d @ [job_row_for env x],
      od_analysis_links := od_analysis_links d @ analysis_links x\<rparr>) db js"
    using assms by (rule fold_result_foldl) (auto simp: insert_job_Inr result_simps)
  also have "\<dots> = db\<lparr>od_jobs := od_jobs db @ map (job_row_for env) js,
      od_analysis_links := od_analysis_links db @ concat (map analysis_links js)\<rparr>"
    by (induction js arbitrary: db) simp_all
  finally show ?thesis .
qed

lemma insert_dependencies_Inr:
  assumes "fold_result (\<lambda>d r. insert_dependency r d) db ds = Inr db'"
  shows "db' = db\<lparr>od_dependencies := od_dependencies db @ ds\<rparr>"
proof -
  have "db' = foldl (\<lambda>d x. d\<lparr>od_dependencies := od_dependencies d @ [x]\<rparr>) db ds"
    using assms by (rule fold_result_foldl) (auto simp: insert_dependency_def result_simps)
  also have "\<dots> = db\<lparr>od_dependencies := od_dependencies db @ ds\<rparr>"
    by (induction ds arbitrary: db) simp_all
  finally show ?thesis .
qed

lemma insert_references_Inr:
  "fold_result (insert_reference c t) db is = Inr db' \<Longrightarrow>
     db' = db\<lparr>od_candidate_links := od_candidate_links db @ map (reference_row (od_v1 db) c t) is\<rparr>"
proof (induction "is" arbitrary: db)
  case (Cons i "is")
  then obtain d where d: "insert_reference c t db i = Inr d" "fold_result (insert_reference c t) d is = Inr db'"
    by (auto simp: result_simps)
  have "reference_run db t i = reference_run (empty_operations (od_v1 db)) t i"
    by (simp add: reference_run_def empty_operations_def)
  with d(1) have "d = db\<lparr>od_candidate_links := od_candidate_links db @ [reference_row (od_v1 db) c t i]\<rparr>"
    by (auto simp: insert_reference_def insert_candidate_link_def result_simps reference_row_def split: option.splits)
  with Cons.IH [OF d(2)] show ?case by simp
qed simp

lemma insert_candidate_Inr:
  "insert_candidate env db c = Inr db' \<Longrightarrow> \<not> candidate_known db (cd_candidate_id c) \<and>
     db' = db\<lparr>od_candidates := od_candidates db @ [candidate_row_for env c],
       od_candidate_links := od_candidate_links db @ reference_rows (od_v1 db) c\<rparr>"
  by (auto simp: insert_candidate_def insert_candidate_row_def result_simps reference_rows_def candidate_row_for_def
      dest!: insert_references_Inr)

lemma insert_candidates_Inr:
  "fold_result (insert_candidate env) db cs = Inr db' \<Longrightarrow>
     db' = db\<lparr>od_candidates := od_candidates db @ map (candidate_row_for env) cs,
       od_candidate_links := od_candidate_links db @ concat (map (reference_rows (od_v1 db)) cs)\<rparr>
     \<and> (\<forall>c \<in> set cs. \<not> candidate_known db (cd_candidate_id c))"
proof (induction cs arbitrary: db)
  case (Cons c cs)
  then obtain d where d: "insert_candidate env db c = Inr d" "fold_result (insert_candidate env) d cs = Inr db'"
    by (auto simp: result_simps)
  from Cons.IH [OF d(2)] insert_candidate_Inr [OF d(1)] show ?case by (auto simp: candidate_known_def)
qed simp

lemma insert_checks_Inr:
  assumes "fold_result (\<lambda>d c. insert_check_row (check_row_for v c) d) db cs = Inr db'"
  shows "db' = db\<lparr>od_checks := od_checks db @ map (check_row_for v) cs\<rparr>"
proof -
  have "db' = foldl (\<lambda>d x. d\<lparr>od_checks := od_checks d @ [check_row_for v x]\<rparr>) db cs"
    using assms by (rule fold_result_foldl) (auto simp: insert_check_row_def result_simps)
  also have "\<dots> = db\<lparr>od_checks := od_checks db @ map (check_row_for v) cs\<rparr>"
    by (induction cs arbitrary: db) simp_all
  finally show ?thesis .
qed

lemma insert_verification_Inr:
  "insert_verification env db v = Inr db' \<Longrightarrow> vr_verification_id v \<notin> set (map kv_verification_id (od_verifications db)) \<and>
     db' = db\<lparr>od_verifications := od_verifications db @ [verification_row_for env v],
       od_checks := od_checks db @ map (check_row_for v) (vr_check_results v)\<rparr>"
  by (auto simp: insert_verification_def insert_verification_row_def result_simps verification_row_for_def
      dest!: insert_checks_Inr)

lemma insert_verifications_Inr:
  "fold_result (insert_verification env) db vs = Inr db' \<Longrightarrow>
     db' = db\<lparr>od_verifications := od_verifications db @ map (verification_row_for env) vs,
       od_checks := od_checks db @ concat (map (\<lambda>v. map (check_row_for v) (vr_check_results v)) vs)\<rparr>
     \<and> (\<forall>v \<in> set vs. vr_verification_id v \<notin> set (map kv_verification_id (od_verifications db)))"
proof (induction vs arbitrary: db)
  case (Cons v vs)
  then obtain d where d: "insert_verification env db v = Inr d" "fold_result (insert_verification env) d vs = Inr db'"
    by (auto simp: result_simps)
  from Cons.IH [OF d(2)] insert_verification_Inr [OF d(1)] show ?case by auto
qed simp

lemma insert_submissions_Inr:
  assumes "fold_result (insert_submission env) db ss = Inr db'"
  shows "db' = db\<lparr>od_submissions := od_submissions db @ map (submission_row_of env) ss\<rparr>"
proof -
  have "db' = foldl (\<lambda>d x. d\<lparr>od_submissions := od_submissions d @ [submission_row_of env x]\<rparr>) db ss"
    using assms by (rule fold_result_foldl) (auto simp: insert_submission_def insert_submission_row_def submission_row_of_def result_simps dest!: optional_artifact_Inr)
  also have "\<dots> = db\<lparr>od_submissions := od_submissions db @ map (submission_row_of env) ss\<rparr>"
    by (induction ss arbitrary: db) simp_all
  finally show ?thesis .
qed

lemma insert_events_Inr:
  assumes "fold_result (insert_event env) db es = Inr db'"
  shows "db' = db\<lparr>od_events := od_events db @ map (event_row_for env) es\<rparr>"
proof -
  have "db' = foldl (\<lambda>d x. d\<lparr>od_events := od_events d @ [event_row_for env x]\<rparr>) db es"
    using assms by (rule fold_result_foldl) (auto simp: insert_event_def insert_event_row_def result_simps)
  also have "\<dots> = db\<lparr>od_events := od_events db @ map (event_row_for env) es\<rparr>"
    by (induction es arbitrary: db) simp_all
  finally show ?thesis .
qed

lemma insert_errors_Inr:
  assumes "fold_result (\<lambda>d r. insert_error_row (error_row_for i r) d) db es = Inr db'"
  shows "db' = db\<lparr>od_errors := od_errors db @ map (error_row_for i) es\<rparr>"
proof -
  have "db' = foldl (\<lambda>d x. d\<lparr>od_errors := od_errors d @ [error_row_for i x]\<rparr>) db es"
    using assms by (rule fold_result_foldl) (auto simp: insert_error_row_def result_simps)
  also have "\<dots> = db\<lparr>od_errors := od_errors db @ map (error_row_for i) es\<rparr>"
    by (induction es arbitrary: db) simp_all
  finally show ?thesis .
qed

text \<open>The database after a document has been inserted, and the identifiers that were free before.\<close>

definition with_document :: "dump_env \<Rightarrow> operations_bundle \<Rightarrow> operations_db \<Rightarrow> operations_db" where
  "with_document env b db = db
     \<lparr>od_competitions := od_competitions db @ [competition_row_for env (ob_manifest b)],
      od_modes := od_modes db @ map (mode_row_for env) (ob_ai_modes b),
      od_problems := od_problems db @ map (problem_row_for env) (ob_problems b),
      od_problem_artifacts := od_problem_artifacts db @ concat (map problem_artifact_rows (ob_problems b)),
      od_plans := od_plans db @ map (plan_row_of env) (ob_plans b),
      od_jobs := od_jobs db @ map (job_row_for env) (ob_jobs b),
      od_dependencies := od_dependencies db @ job_dependency_pairs b,
      od_analysis_links := od_analysis_links db @ concat (map analysis_links (ob_jobs b)),
      od_candidates := od_candidates db @ map (candidate_row_for env) (ob_candidates b),
      od_candidate_links := od_candidate_links db @ concat (map (reference_rows (od_v1 db)) (ob_candidates b)),
      od_verifications := od_verifications db @ map (verification_row_for env) (ob_verifications b),
      od_checks := od_checks db @ concat (map (\<lambda>v. map (check_row_for v) (vr_check_results v)) (ob_verifications b)),
      od_submissions := od_submissions db @ map (submission_row_of env) (ob_submissions b),
      od_events := od_events db @ map (event_row_for env) (ob_events b),
      od_errors := od_errors db @ map (error_row_for (mf_competition_id (ob_manifest b))) (ob_errors b)\<rparr>"

definition document_fresh :: "operations_bundle \<Rightarrow> operations_db \<Rightarrow> bool" where
  "document_fresh b db \<longleftrightarrow>
     \<not> competition_known db (mf_competition_id (ob_manifest b))
     \<and> (\<forall>p \<in> set (ob_problems b). \<not> problem_known db (pr_problem_id p))
     \<and> (\<forall>c \<in> set (ob_candidates b). \<not> candidate_known db (cd_candidate_id c))
     \<and> (\<forall>v \<in> set (ob_verifications b). vr_verification_id v \<notin> set (map kv_verification_id (od_verifications db)))"

lemma insert_competition_Inr:
  "insert_competition r db = Inr db' \<longleftrightarrow>
     kc_operations_schema_version r = ''0.1'' \<and> \<not> competition_known db (kc_competition_id r)
     \<and> db' = db\<lparr>od_competitions := od_competitions db @ [r]\<rparr>"
  by (auto simp: insert_competition_def result_simps)

lemma insert_document_Inr:
  assumes "insert_document env b db = Inr db'"
  shows "db' = with_document env b db" and "document_fresh b db"
proof -
  from assms obtain db1 db2 db3 db4 db5 db6 db7 db8 db9 db10 where
    "insert_competition (competition_row_for env (ob_manifest b)) db = Inr db1"
    "fold_result (\<lambda>d r. insert_mode_row (mode_row_for env r) d) db1 (ob_ai_modes b) = Inr db2"
    "fold_result (insert_problem env) db2 (ob_problems b) = Inr db3"
    "fold_result (insert_plan env) db3 (ob_plans b) = Inr db4"
    "fold_result (insert_job env) db4 (ob_jobs b) = Inr db5"
    "insert_job_dependencies b db5 = Inr db6"
    "fold_result (insert_candidate env) db6 (ob_candidates b) = Inr db7"
    "fold_result (insert_verification env) db7 (ob_verifications b) = Inr db8"
    "fold_result (insert_submission env) db8 (ob_submissions b) = Inr db9"
    "fold_result (insert_event env) db9 (ob_events b) = Inr db10"
    "fold_result (\<lambda>d r. insert_error_row (error_row_for (mf_competition_id (ob_manifest b)) r) d) db10 (ob_errors b) = Inr db'"
    by (auto simp: insert_document_def and_then_Inr)
  note steps = this(1) [unfolded insert_competition_Inr] this(2) [THEN insert_modes_Inr] this(3) [THEN insert_problems_Inr]
    this(4) [THEN insert_plans_Inr] this(5) [THEN insert_jobs_Inr]
    this(6) [unfolded insert_job_dependencies_def, THEN insert_dependencies_Inr]
    this(7) [THEN insert_candidates_Inr] this(8) [THEN insert_verifications_Inr] this(9) [THEN insert_submissions_Inr]
    this(10) [THEN insert_events_Inr] this(11) [THEN insert_errors_Inr]
  then show "db' = with_document env b db" by (simp add: with_document_def)
  show "document_fresh b db"
    using steps by (simp add: document_fresh_def problem_known_def candidate_known_def competition_row_for_def)
qed

subsection \<open>What is selected\<close>

definition problem_ids :: "operations_bundle \<Rightarrow> string set" where
  "problem_ids b = set (map pr_problem_id (ob_problems b))"

lemma index_by_known: "index_by k xs i = Some x \<Longrightarrow> i \<in> set (map k xs)"
  by (auto dest!: index_by_SomeD)

lemma document_scope:
  assumes "validate_operations_document b = Inr ()"
  shows "\<forall>p \<in> set (ob_problems b). pr_competition_id p = mf_competition_id (ob_manifest b)"
    and "\<forall>m \<in> set (ob_ai_modes b). am_competition_id m = mf_competition_id (ob_manifest b)"
    and "\<forall>e \<in> set (ob_events b). ev_competition_id e = mf_competition_id (ob_manifest b)"
    and "\<forall>p \<in> set (ob_plans b). pl_problem_id p \<in> problem_ids b"
    and "\<forall>j \<in> set (ob_jobs b). jb_problem_id j \<in> problem_ids b"
    and "\<forall>c \<in> set (ob_candidates b). cd_problem_id c \<in> problem_ids b"
    and "\<forall>v \<in> set (ob_verifications b). vr_problem_id v \<in> problem_ids b"
    and "\<forall>s \<in> set (ob_submissions b). sb_candidate_id s \<in> set (map cd_candidate_id (ob_candidates b))"
    and "distinct (map pr_problem_id (ob_problems b))" "distinct (map cd_candidate_id (ob_candidates b))"
      "distinct (map vr_verification_id (ob_verifications b))"
proof -
  from assms have v: "references_are_valid b = Inr ()" by (simp add: result_simps)
  note r = v [unfolded references_are_valid_Inr]
  show "\<forall>p \<in> set (ob_problems b). pr_competition_id p = mf_competition_id (ob_manifest b)"
    "\<forall>m \<in> set (ob_ai_modes b). am_competition_id m = mf_competition_id (ob_manifest b)"
    using r by (auto simp: check_competitions_def result_simps)
  show "\<forall>e \<in> set (ob_events b). ev_competition_id e = mf_competition_id (ob_manifest b)"
    using r by (simp add: check_event_refs_Inr)
  show "\<forall>p \<in> set (ob_plans b). pl_problem_id p \<in> problem_ids b"
    using r by (auto simp: check_plan_refs_def result_simps problem_ids_def dest!: index_by_known)
  show "\<forall>j \<in> set (ob_jobs b). jb_problem_id j \<in> problem_ids b"
    using r by (auto simp: check_job_refs_def result_simps problem_ids_def dest!: index_by_known)
  show c: "\<forall>c \<in> set (ob_candidates b). cd_problem_id c \<in> problem_ids b"
    using r by (fastforce simp: check_candidate_refs_Inr problem_ids_def dest!: index_by_known)
  show "\<forall>v \<in> set (ob_verifications b). vr_problem_id v \<in> problem_ids b"
    using r c by (fastforce simp: check_verification_refs_Inr dest: index_by_SomeD)
  show "\<forall>s \<in> set (ob_submissions b). sb_candidate_id s \<in> set (map cd_candidate_id (ob_candidates b))"
    using r by (fastforce simp: check_submission_refs_Inr dest!: index_by_known)
  show "distinct (map pr_problem_id (ob_problems b))" "distinct (map cd_candidate_id (ob_candidates b))"
      "distinct (map vr_verification_id (ob_verifications b))"
    using r by simp_all
qed

lemma filter_added:
  "(\<And>r. r \<in> set old \<Longrightarrow> \<not> P r) \<Longrightarrow> (\<And>r. r \<in> set added \<Longrightarrow> P r) \<Longrightarrow> filter P (old @ added) = added"
  by simp

lemma filter_owned:
  assumes "distinct (map key xs)" and "x \<in> set xs" and "\<And>y r. r \<in> set (rows y) \<Longrightarrow> own r = key y"
  shows "filter (\<lambda>r. own r = key x) (concat (map rows xs)) = rows x"
  using assms(1,2)
proof (induction xs)
  case (Cons y ys)
  have mine: "filter (\<lambda>r. own r = key y) (rows y) = rows y" using assms(3) by (simp add: filter_id_conv)
  have other: "filter (\<lambda>r. own r = key z) (rows y) = []" if "key z \<noteq> key y" for z
    using assms(3) that by (auto simp: filter_empty_conv)
  show ?case
  proof (cases "x = y")
    case True
    have "filter (\<lambda>r. own r = key y) (concat (map rows ys)) = []"
      using Cons.prems(1) assms(3) by (auto simp: filter_empty_conv) (metis image_eqI)
    with True mine show ?thesis by simp
  next
    case False
    with Cons.prems have "key x \<noteq> key y" by (metis distinct.simps(2) image_eqI list.simps(9) set_ConsD set_map)
    with Cons False other show ?thesis by simp
  qed
qed simp

text \<open>A valid document that was inserted into a sound database under free identifiers.\<close>

definition inserted :: "operations_bundle \<Rightarrow> operations_db \<Rightarrow> bool" where
  "inserted b db \<longleftrightarrow> validate_operations_document b = Inr () \<and> ops_rows_ok db \<and> document_fresh b db"

lemma insertedD:
  assumes "inserted b db"
  shows "validate_operations_document b = Inr ()" "ops_rows_ok db" "document_fresh b db"
  using assms by (simp_all add: inserted_def)

lemma old_rows_other_competition:
  assumes "inserted b db"
  shows "r \<in> set (od_problems db) \<Longrightarrow> kp_competition_id r \<noteq> mf_competition_id (ob_manifest b)"
    and "m \<in> set (od_modes db) \<Longrightarrow> km_competition_id m \<noteq> mf_competition_id (ob_manifest b)"
    and "e \<in> set (od_events db) \<Longrightarrow> ke_competition_id e \<noteq> mf_competition_id (ob_manifest b)"
    and "f \<in> set (od_errors db) \<Longrightarrow> kf_competition_id f \<noteq> mf_competition_id (ob_manifest b)"
  using insertedD [OF assms]
  by (auto simp: ops_rows_ok_def ops_problems_ok_def ops_modes_ok_def ops_events_ok_def ops_errors_ok_def
      document_fresh_def list_all_iff)

lemma competition_rows:
  fixes env :: dump_env
  assumes "inserted b db"
  defines "cid \<equiv> mf_competition_id (ob_manifest b)" and "db' \<equiv> with_document env b db"
  shows "filter (\<lambda>r. kp_competition_id r = cid) (od_problems db') = map (problem_row_for env) (ob_problems b)"
    and "filter (\<lambda>r. km_competition_id r = cid) (od_modes db') = map (mode_row_for env) (ob_ai_modes b)"
    and "filter (\<lambda>r. ke_competition_id r = cid) (od_events db') = map (event_row_for env) (ob_events b)"
    and "filter (\<lambda>r. kf_competition_id r = cid) (od_errors db') = map (error_row_for cid) (ob_errors b)"
  unfolding db'_def cid_def
  using old_rows_other_competition [OF assms(1)] document_scope(1-3) [OF insertedD(1) [OF assms(1)]]
  by (auto simp: with_document_def problem_row_for_def mode_row_for_def event_row_for_def error_row_for_def
      filter_empty_conv filter_id_conv)

lemma competition_of_inserted:
  assumes "inserted b db"
  shows "competition_of (with_document env b db) (mf_competition_id (ob_manifest b)) i \<longleftrightarrow> i \<in> problem_ids b"
proof -
  have row: "kp_problem_id (problem_row_for env p) = pr_problem_id p"
    "kp_competition_id (problem_row_for env p) = pr_competition_id p" for p
    by (simp_all add: problem_row_for_def)
  show ?thesis
    using old_rows_other_competition(1) [OF assms] document_scope(1) [OF insertedD(1) [OF assms]]
    by (auto simp: competition_of_def with_document_def list_ex_iff problem_ids_def row bex_Un)
qed

lemma old_problem_ids:
  assumes "inserted b db"
  shows "problem_known db i \<Longrightarrow> i \<notin> problem_ids b"
  using insertedD(3) [OF assms] by (auto simp: document_fresh_def problem_ids_def)

lemma joined_rows:
  fixes env :: dump_env
  assumes "inserted b db"
  defines "cid \<equiv> mf_competition_id (ob_manifest b)" and "db' \<equiv> with_document env b db"
  shows "filter (\<lambda>r. competition_of db' cid (kl_problem_id r)) (od_plans db') = map (plan_row_of env) (ob_plans b)"
    and "filter (\<lambda>r. competition_of db' cid (kj_problem_id r)) (od_jobs db') = map (job_row_for env) (ob_jobs b)"
    and "filter (\<lambda>r. competition_of db' cid (kd_problem_id r)) (od_candidates db')
      = map (candidate_row_for env) (ob_candidates b)"
    and "filter (\<lambda>r. competition_of db' cid (kv_problem_id r)) (od_verifications db')
      = map (verification_row_for env) (ob_verifications b)"
proof -
  note of_iff = competition_of_inserted [OF assms(1)]
  note scope = document_scope(4-7) [OF insertedD(1) [OF assms(1)]]
  note old = old_problem_ids [OF assms(1)]
  have known: "r \<in> set (od_plans db) \<Longrightarrow> problem_known db (kl_problem_id r)"
    "j \<in> set (od_jobs db) \<Longrightarrow> problem_known db (kj_problem_id j)"
    "c \<in> set (od_candidates db) \<Longrightarrow> problem_known db (kd_problem_id c)"
    "v \<in> set (od_verifications db) \<Longrightarrow> problem_known db (kv_problem_id v)" for r j c v
    using insertedD(2) [OF assms(1)]
    by (auto simp: ops_rows_ok_def ops_plans_ok_def ops_jobs_ok_def ops_candidates_ok_def ops_verifications_ok_def
        plan_row_refs_def job_row_refs_def verification_row_refs_def list_all_iff)
  show "filter (\<lambda>r. competition_of db' cid (kl_problem_id r)) (od_plans db') = map (plan_row_of env) (ob_plans b)"
    unfolding db'_def cid_def of_iff using known(1) old scope(1)
    by (auto simp: with_document_def filter_empty_conv filter_id_conv plan_row_of_def plan_row_for_def)
  show "filter (\<lambda>r. competition_of db' cid (kj_problem_id r)) (od_jobs db') = map (job_row_for env) (ob_jobs b)"
    unfolding db'_def cid_def of_iff using known(2) old scope(2)
    by (auto simp: with_document_def filter_empty_conv filter_id_conv job_row_for_def)
  show "filter (\<lambda>r. competition_of db' cid (kd_problem_id r)) (od_candidates db')
      = map (candidate_row_for env) (ob_candidates b)"
    unfolding db'_def cid_def of_iff using known(3) old scope(3)
    by (auto simp: with_document_def filter_empty_conv filter_id_conv candidate_row_for_def)
  show "filter (\<lambda>r. competition_of db' cid (kv_problem_id r)) (od_verifications db')
      = map (verification_row_for env) (ob_verifications b)"
    unfolding db'_def cid_def of_iff using known(4) old scope(4)
    by (auto simp: with_document_def filter_empty_conv filter_id_conv verification_row_for_def)
qed

lemma submission_rows:
  fixes env :: dump_env
  assumes "inserted b db"
  defines "cid \<equiv> mf_competition_id (ob_manifest b)" and "db' \<equiv> with_document env b db"
  shows "filter (\<lambda>r. list_ex (\<lambda>c. kd_candidate_id c = ks_candidate_id r \<and> competition_of db' cid (kd_problem_id c))
      (od_candidates db')) (od_submissions db') = map (submission_row_of env) (ob_submissions b)"
proof -
  have "list_ex (\<lambda>c. kd_candidate_id c = i \<and> competition_of db' cid (kd_problem_id c)) (od_candidates db')
      \<longleftrightarrow> (\<exists>c \<in> set (filter (\<lambda>c. competition_of db' cid (kd_problem_id c)) (od_candidates db')). kd_candidate_id c = i)" for i
    by (auto simp: list_ex_iff)
  then have sel: "list_ex (\<lambda>c. kd_candidate_id c = i \<and> competition_of db' cid (kd_problem_id c)) (od_candidates db')
      \<longleftrightarrow> i \<in> set (map cd_candidate_id (ob_candidates b))" for i
    unfolding db'_def cid_def joined_rows(3) [OF assms(1)] by (auto simp: candidate_row_for_def)
  have "ks_candidate_id r \<notin> set (map cd_candidate_id (ob_candidates b))" if "r \<in> set (od_submissions db)" for r
    using insertedD [OF assms(1)] that
    by (auto simp: ops_rows_ok_def ops_submissions_ok_def list_all_iff document_fresh_def)
  then show ?thesis
    unfolding sel using document_scope(8) [OF insertedD(1) [OF assms(1)]]
    by (auto simp: db'_def with_document_def filter_empty_conv filter_id_conv submission_row_of_def submission_row_for_def)
qed

lemma problem_rows:
  assumes "inserted b db" and "p \<in> set (ob_problems b)"
  shows "filter (\<lambda>a. ka_problem_id a = pr_problem_id p) (od_problem_artifacts (with_document env b db))
    = problem_artifact_rows p"
proof -
  have "\<forall>a \<in> set (od_problem_artifacts db). ka_problem_id a \<noteq> pr_problem_id p"
    using insertedD [OF assms(1)] assms(2)
    by (auto simp: ops_rows_ok_def ops_problem_artifacts_ok_def list_all_iff document_fresh_def)
  moreover have "filter (\<lambda>a. ka_problem_id a = pr_problem_id p) (concat (map problem_artifact_rows (ob_problems b)))
      = problem_artifact_rows p"
    by (rule filter_owned [OF document_scope(9) [OF insertedD(1) [OF assms(1)]] assms(2)])
      (auto simp: problem_artifact_rows_def original_row_for_def file_row_for_def)
  ultimately show ?thesis by (simp add: with_document_def filter_empty_conv)
qed

lemma candidate_refs_inserted:
  assumes "inserted b db" and "c \<in> set (ob_candidates b)"
  shows "candidate_refs (with_document env b db) (cd_candidate_id c) ''result'' = cd_result_refs c"
    and "candidate_refs (with_document env b db) (cd_candidate_id c) ''evidence'' = cd_evidence_refs c"
proof -
  have "\<forall>l \<in> set (od_candidate_links db). kr_candidate_id l \<noteq> cd_candidate_id c"
    using insertedD [OF assms(1)] assms(2)
    by (auto simp: ops_rows_ok_def ops_candidate_links_ok_def list_all_iff document_fresh_def)
  moreover have "filter (\<lambda>l. kr_candidate_id l = cd_candidate_id c) (concat (map (reference_rows (od_v1 db)) (ob_candidates b)))
      = reference_rows (od_v1 db) c"
    by (rule filter_owned [OF document_scope(10) [OF insertedD(1) [OF assms(1)]] assms(2)])
      (auto simp: reference_rows_def reference_row_def)
  ultimately have links: "filter (\<lambda>l. kr_candidate_id l = cd_candidate_id c) (od_candidate_links (with_document env b db))
      = reference_rows (od_v1 db) c"
    by (simp add: with_document_def filter_empty_conv)
  show "candidate_refs (with_document env b db) (cd_candidate_id c) ''result'' = cd_result_refs c"
    "candidate_refs (with_document env b db) (cd_candidate_id c) ''evidence'' = cd_evidence_refs c"
    by (simp_all add: candidate_refs_def links reference_rows_def reference_row_def comp_def filter_map)
qed

lemma check_rows:
  assumes "inserted b db" and "v \<in> set (ob_verifications b)"
  shows "filter (\<lambda>c. kx_verification_id c = vr_verification_id v) (od_checks (with_document env b db))
    = map (check_row_for v) (vr_check_results v)"
proof -
  have "\<forall>c \<in> set (od_checks db). kx_verification_id c \<noteq> vr_verification_id v"
    using insertedD [OF assms(1)] assms(2)
    unfolding ops_rows_ok_def ops_checks_ok_def list_all_iff document_fresh_def by metis
  moreover have "filter (\<lambda>c. kx_verification_id c = vr_verification_id v)
      (concat (map (\<lambda>v. map (check_row_for v) (vr_check_results v)) (ob_verifications b)))
      = map (check_row_for v) (vr_check_results v)"
    by (rule filter_owned [OF document_scope(11) [OF insertedD(1) [OF assms(1)]] assms(2)])
      (auto simp: check_row_for_def)
  ultimately show ?thesis by (simp add: with_document_def filter_empty_conv)
qed

end
