(* ===== verification/Canonical_Document.thy ===== *)
theory Canonical_Document
  imports Document_Rows
begin

section \<open>The order of a loaded document\<close>

text \<open>
  A document is loaded in the order of the queries and with the fields of its JSON columns sorted. This
  normal form of a document is as valid as the document.
\<close>

subsection \<open>Normal forms\<close>

definition canonical_problem :: "problem_record \<Rightarrow> problem_record" where
  "canonical_problem p = p\<lparr>pr_provided_file_artifacts := sort_key pf_sha256 (pr_provided_file_artifacts p)\<rparr>"

definition canonical_leaf :: "leaf_job_spec \<Rightarrow> leaf_job_spec" where
  "canonical_leaf l = l\<lparr>lf_inputs_projection := sorted_json (lf_inputs_projection l)\<rparr>"

definition canonical_plan :: "plan_hypothesis \<Rightarrow> plan_hypothesis" where
  "canonical_plan p = p\<lparr>pl_leaf_job_specs := map canonical_leaf (pl_leaf_job_specs p)\<rparr>"

definition canonical_verification :: "verification_record \<Rightarrow> verification_record" where
  "canonical_verification v = v\<lparr>vr_check_results := sort_key vc_check (vr_check_results v)\<rparr>"

definition canonical_event :: "operation_event \<Rightarrow> operation_event" where
  "canonical_event e = e\<lparr>ev_safe_details_json := sorted_json (ev_safe_details_json e)\<rparr>"

definition canonical_error :: "operation_error \<Rightarrow> operation_error" where
  "canonical_error e = e\<lparr>oe_details := sorted_json (oe_details e)\<rparr>"

text \<open>The document in the order in which its competition is loaded: by identifier or by the text of a time.\<close>

definition canonical :: "dump_env \<Rightarrow> operations_bundle \<Rightarrow> operations_bundle" where
  "canonical env b = b
     \<lparr>ob_schema_uri := operations_schema_uri,
      ob_problems := map canonical_problem (sort_key pr_problem_id (ob_problems b)),
      ob_ai_modes := sort_key (\<lambda>m. (de_time_text env (am_created_at m), am_mode_id m)) (ob_ai_modes b),
      ob_plans := map canonical_plan (sort_key (\<lambda>p. (de_time_text env (pl_created_at p), pl_plan_id p)) (ob_plans b)),
      ob_jobs := sort_key (\<lambda>j. (de_time_text env (jb_queued_at j), jb_job_id j)) (ob_jobs b),
      ob_verifications := map canonical_verification
        (sort_key (\<lambda>v. (de_time_text env (vr_created_at v), vr_verification_id v)) (ob_verifications b)),
      ob_candidates := sort_key (\<lambda>c. (de_time_text env (cd_created_at c), cd_candidate_id c)) (ob_candidates b),
      ob_submissions := sort_key (\<lambda>s. (de_time_text env (sb_submitted_at s), sb_submission_id s)) (ob_submissions b),
      ob_events := map canonical_event
        (sort_key (\<lambda>e. (de_time_text env (ev_created_at e), ev_event_id e)) (ob_events b)),
      ob_errors := map canonical_error (sort_key oe_error_id (ob_errors b))\<rparr>"

subsection \<open>Validity\<close>

lemma index_by_sorted:
  assumes "distinct (map key xs)" and "\<And>x. key (f x) = key x"
  shows "index_by key (map f (sort_key g xs)) = (\<lambda>k. map_option f (index_by key xs k))"
proof
  fix k
  have "distinct (map key (sort_key g xs))" using assms(1) by (simp add: distinct_map)
  then have "index_by key (sort_key g xs) k = Some x \<longleftrightarrow> index_by key xs k = Some x" for x
    using assms(1) by (simp add: index_by_iff)
  then have "index_by key (sort_key g xs) k = index_by key xs k" by (metis option.exhaust)
  then show "index_by key (map f (sort_key g xs)) k = map_option f (index_by key xs k)"
    by (simp add: index_by_map assms(2))
qed

lemma safe_json_items_iff: "safe_json_items js = Inr u \<longleftrightarrow> (\<forall>j \<in> set js. safe_json j = Inr ())"
  by (induction js) (auto simp: result_simps)

lemma safe_sorted_json: "safe_json j = Inr () \<Longrightarrow> safe_json (sorted_json j) = Inr ()"
proof (induction j rule: sorted_json.induct)
  case (1 items)
  then show ?case by (simp add: safe_json_items_iff)
next
  case (2 kvs)
  from 2(2) have fields: "\<forall>f \<in> set kvs. plain_key (fst f) \<and> safe_json (snd f) = Inr ()"
    by (simp only: safe_json_object_iff) (auto simp: list_all_iff)
  then have "\<forall>f \<in> set kvs. safe_json (sorted_json (snd f)) = Inr ()" using 2(1) by blast
  with fields show ?case
    unfolding sorted_json.simps safe_json_object_iff by (auto simp: list_all_iff)
qed simp_all

lemma safe_sorted_object: "safe_json_object j \<Longrightarrow> safe_json_object (sorted_json j)"
  using safe_sorted_json [of j] by (cases j) (simp_all add: safe_json_object_def is_json_object_def)

lemma leaf_canonical: "validate_leaf l = Inr () \<Longrightarrow> validate_leaf (canonical_leaf l) = Inr ()"
  by (simp add: validate_leaf_def leaf_fields_ok_def canonical_leaf_def result_simps safe_sorted_object)

lemma plan_normal_valid: "validate_plan p = Inr () \<Longrightarrow> validate_plan (canonical_plan p) = Inr ()"
proof -
  assume p: "validate_plan p = Inr ()"
  have ids: "map lf_leaf_job_id (pl_leaf_job_specs (canonical_plan p)) = map lf_leaf_job_id (pl_leaf_job_specs p)"
    by (simp add: canonical_plan_def canonical_leaf_def)
  have "plan_lifecycle_fields_match_status (canonical_plan p) = plan_lifecycle_fields_match_status p"
    unfolding plan_lifecycle_fields_match_status_def ids by (simp add: canonical_plan_def canonical_leaf_def)
  with p show ?thesis
    by (auto simp: validate_plan_def plan_fields_ok_def result_simps canonical_plan_def leaf_canonical)
qed

lemma problem_canonical: "validate_problem p = Inr () \<Longrightarrow> validate_problem (canonical_problem p) = Inr ()"
  by (simp add: validate_problem_def problem_fields_ok_def canonical_problem_def result_simps list_all_iff)

lemma verification_canonical: "validate_verification v = Inr () \<Longrightarrow> validate_verification (canonical_verification v) = Inr ()"
proof -
  assume v: "validate_verification v = Inr ()"
  then have d: "distinct (map vc_check (vr_check_results v))"
    by (simp add: validate_verification_def verification_lifecycle_fields_match_status_def result_simps)
  have names: "distinct (map vc_check (sort_key vc_check (vr_check_results v)))" using d by (simp add: distinct_map)
  have "map_of (map (\<lambda>c. (vc_check c, vc_passed c)) cs) = (\<lambda>k. map_option vc_passed (index_by vc_check cs k))" for cs
    by (induction cs) (auto simp: fun_eq_iff)
  then have passed: "checks_passed v = (\<lambda>k. map_option vc_passed (index_by vc_check (vr_check_results v) k))" for v
    by (simp add: checks_passed_def)
  have "checks_passed (canonical_verification v) = checks_passed v"
    using index_by_sorted [OF d, of id vc_check] by (simp add: passed canonical_verification_def option.map_id)
  with v names show ?thesis
    by (simp add: validate_verification_def verification_fields_ok_def verification_lifecycle_fields_match_status_def
        canonical_verification_def result_simps list_all_iff split: option.splits if_splits)
qed

lemma event_canonical: "validate_event e = Inr () \<Longrightarrow> validate_event (canonical_event e) = Inr ()"
  by (simp add: validate_event_def canonical_event_def result_simps safe_sorted_object)

lemma error_canonical: "validate_error e = Inr () \<Longrightarrow> validate_error (canonical_error e) = Inr ()"
  by (simp add: validate_error_def code_matches_stage_def canonical_error_def result_simps safe_sorted_object)

lemma records_canonical: "validate_records b = Inr () \<Longrightarrow> validate_records (canonical env b) = Inr ()"
  unfolding validate_records_Inr
  by (auto simp: canonical_def operations_schema_uri_def ends_with_def problem_canonical plan_normal_valid
      verification_canonical event_canonical error_canonical)

text \<open>The checks look at keys, statuses and references, which the normal form keeps.\<close>

lemma canonical_keeps [simp]:
  "pr_problem_id (canonical_problem p) = pr_problem_id p" "pr_competition_id (canonical_problem p) = pr_competition_id p"
  "pr_active_plan_id (canonical_problem p) = pr_active_plan_id p"
  "pl_plan_id (canonical_plan l) = pl_plan_id l" "pl_problem_id (canonical_plan l) = pl_problem_id l"
  "pl_mode_id (canonical_plan l) = pl_mode_id l" "pl_planner_job_id (canonical_plan l) = pl_planner_job_id l"
  "pl_status (canonical_plan l) = pl_status l"
  "vr_verification_id (canonical_verification v) = vr_verification_id v"
  "vr_problem_id (canonical_verification v) = vr_problem_id v" "vr_status (canonical_verification v) = vr_status v"
  "vr_candidate_id (canonical_verification v) = vr_candidate_id v"
  "vr_verifier_job_id (canonical_verification v) = vr_verifier_job_id v"
  "vr_independent_from_job_ids (canonical_verification v) = vr_independent_from_job_ids v"
  "ev_event_id (canonical_event e) = ev_event_id e" "ev_competition_id (canonical_event e) = ev_competition_id e"
  "ev_problem_id (canonical_event e) = ev_problem_id e"
  "oe_error_id (canonical_error f) = oe_error_id f" "oe_problem_id (canonical_error f) = oe_problem_id f"
  "oe_job_id (canonical_error f) = oe_job_id f"
  by (simp_all add: canonical_problem_def canonical_plan_def canonical_verification_def canonical_event_def
      canonical_error_def)

lemma canonical_lists:
  "ob_manifest (canonical env b) = ob_manifest b"
  "ob_operations_schema_version (canonical env b) = ob_operations_schema_version b"
  "set (ob_problems (canonical env b)) = canonical_problem ` set (ob_problems b)"
  "set (ob_ai_modes (canonical env b)) = set (ob_ai_modes b)"
  "set (ob_plans (canonical env b)) = canonical_plan ` set (ob_plans b)"
  "set (ob_jobs (canonical env b)) = set (ob_jobs b)"
  "set (ob_verifications (canonical env b)) = canonical_verification ` set (ob_verifications b)"
  "set (ob_candidates (canonical env b)) = set (ob_candidates b)"
  "set (ob_submissions (canonical env b)) = set (ob_submissions b)"
  "set (ob_events (canonical env b)) = canonical_event ` set (ob_events b)"
  "set (ob_errors (canonical env b)) = canonical_error ` set (ob_errors b)"
  by (simp_all add: canonical_def)

lemma distinct_sorted_key: "distinct (map key (sort_key g xs)) \<longleftrightarrow> distinct (map key xs)"
  by (simp add: distinct_map)

lemma canonical_distinct:
  "distinct (map pr_problem_id (ob_problems (canonical env b))) \<longleftrightarrow> distinct (map pr_problem_id (ob_problems b))"
  "distinct (map am_mode_id (ob_ai_modes (canonical env b))) \<longleftrightarrow> distinct (map am_mode_id (ob_ai_modes b))"
  "distinct (map pl_plan_id (ob_plans (canonical env b))) \<longleftrightarrow> distinct (map pl_plan_id (ob_plans b))"
  "distinct (map jb_job_id (ob_jobs (canonical env b))) \<longleftrightarrow> distinct (map jb_job_id (ob_jobs b))"
  "distinct (map vr_verification_id (ob_verifications (canonical env b)))
    \<longleftrightarrow> distinct (map vr_verification_id (ob_verifications b))"
  "distinct (map cd_candidate_id (ob_candidates (canonical env b))) \<longleftrightarrow> distinct (map cd_candidate_id (ob_candidates b))"
  "distinct (map sb_submission_id (ob_submissions (canonical env b)))
    \<longleftrightarrow> distinct (map sb_submission_id (ob_submissions b))"
  "distinct (map ev_event_id (ob_events (canonical env b))) \<longleftrightarrow> distinct (map ev_event_id (ob_events b))"
  "distinct (map oe_error_id (ob_errors (canonical env b))) \<longleftrightarrow> distinct (map oe_error_id (ob_errors b))"
  by (simp_all add: canonical_def comp_def distinct_sorted_key)

lemma canonical_indexes:
  assumes "references_are_valid b = Inr ()"
  shows "bundle_problems (canonical env b) = (\<lambda>k. map_option canonical_problem (bundle_problems b k))"
    and "bundle_modes (canonical env b) = bundle_modes b"
    and "bundle_plans (canonical env b) = (\<lambda>k. map_option canonical_plan (bundle_plans b k))"
    and "bundle_jobs (canonical env b) = bundle_jobs b"
    and "bundle_verifications (canonical env b) = (\<lambda>k. map_option canonical_verification (bundle_verifications b k))"
    and "bundle_candidates (canonical env b) = bundle_candidates b"
proof -
  note d = assms [unfolded references_are_valid_Inr]
  have same: "index_by key (sort_key g xs) = index_by key xs"
    if "distinct (map key xs)" for key :: "'x \<Rightarrow> string" and g :: "'x \<Rightarrow> string \<times> string" and xs
    using index_by_sorted [OF that, of id g] by (simp add: option.map_id)
  show "bundle_problems (canonical env b) = (\<lambda>k. map_option canonical_problem (bundle_problems b k))"
    "bundle_plans (canonical env b) = (\<lambda>k. map_option canonical_plan (bundle_plans b k))"
    "bundle_verifications (canonical env b) = (\<lambda>k. map_option canonical_verification (bundle_verifications b k))"
    using d by (simp_all add: canonical_def index_by_sorted)
  show "bundle_modes (canonical env b) = bundle_modes b" "bundle_jobs (canonical env b) = bundle_jobs b"
    "bundle_candidates (canonical env b) = bundle_candidates b"
    using d by (simp_all add: canonical_def same)
qed

lemma canonical_checks:
  "check_problem_refs (\<lambda>k. map_option canonical_plan (plans k)) (canonical_problem p) = Inr ()
    \<longleftrightarrow> check_problem_refs plans p = Inr ()"
  "check_plan_refs (\<lambda>k. map_option canonical_problem (problems k)) modes jobs (canonical_plan l) = Inr ()
    \<longleftrightarrow> check_plan_refs problems modes jobs l = Inr ()"
  "check_job_refs (\<lambda>k. map_option canonical_problem (problems k)) (\<lambda>k. map_option canonical_plan (plans k)) j = Inr ()
    \<longleftrightarrow> check_job_refs problems plans j = Inr ()"
  "check_candidate_refs (\<lambda>k. map_option canonical_problem (problems k)) jobs
      (\<lambda>k. map_option canonical_verification (verifications k)) c = Inr ()
    \<longleftrightarrow> check_candidate_refs problems jobs verifications c = Inr ()"
  "check_verification_refs candidates jobs (canonical_verification v) = Inr ()
    \<longleftrightarrow> check_verification_refs candidates jobs v = Inr ()"
  "check_event_refs i (\<lambda>k. map_option canonical_problem (problems k)) (canonical_event e) = Inr ()
    \<longleftrightarrow> check_event_refs i problems e = Inr ()"
  "check_error_refs (\<lambda>k. map_option canonical_problem (problems k)) jobs (canonical_error f) = Inr ()
    \<longleftrightarrow> check_error_refs problems jobs f = Inr ()"
proof -
  show "check_problem_refs (\<lambda>k. map_option canonical_plan (plans k)) (canonical_problem p) = Inr ()
    \<longleftrightarrow> check_problem_refs plans p = Inr ()"
    by (auto simp: check_problem_refs_def result_simps split: option.splits)
  show "check_plan_refs (\<lambda>k. map_option canonical_problem (problems k)) modes jobs (canonical_plan l) = Inr ()
    \<longleftrightarrow> check_plan_refs problems modes jobs l = Inr ()"
    by (auto simp: check_plan_refs_def result_simps)
  show "check_job_refs (\<lambda>k. map_option canonical_problem (problems k)) (\<lambda>k. map_option canonical_plan (plans k)) j = Inr ()
    \<longleftrightarrow> check_job_refs problems plans j = Inr ()"
    by (auto simp: check_job_refs_def result_simps)
  show "check_candidate_refs (\<lambda>k. map_option canonical_problem (problems k)) jobs
      (\<lambda>k. map_option canonical_verification (verifications k)) c = Inr ()
    \<longleftrightarrow> check_candidate_refs problems jobs verifications c = Inr ()"
    by (fastforce simp: check_candidate_refs_Inr)
  show "check_verification_refs candidates jobs (canonical_verification v) = Inr ()
    \<longleftrightarrow> check_verification_refs candidates jobs v = Inr ()"
    by (simp add: check_verification_refs_Inr)
  show "check_event_refs i (\<lambda>k. map_option canonical_problem (problems k)) (canonical_event e) = Inr ()
    \<longleftrightarrow> check_event_refs i problems e = Inr ()"
    by (simp add: check_event_refs_Inr)
  show "check_error_refs (\<lambda>k. map_option canonical_problem (problems k)) jobs (canonical_error f) = Inr ()
    \<longleftrightarrow> check_error_refs problems jobs f = Inr ()"
    by (auto simp: check_error_refs_def result_simps split: option.splits)
qed

lemma references_canonical:
  assumes "references_are_valid b = Inr ()"
  shows "references_are_valid (canonical env b) = Inr ()"
proof -
  note r = assms [unfolded references_are_valid_Inr]
  have "check_competitions (canonical env b) = Inr ()" "check_fake_modes (canonical env b) = Inr ()"
    using r by (auto simp: check_competitions_def check_fake_modes_def result_simps canonical_lists)
  with r show ?thesis
    unfolding references_are_valid_Inr canonical_indexes [OF assms] canonical_distinct canonical_lists
    by (simp add: canonical_checks)
qed

lemma canonical_valid:
  "validate_operations_document b = Inr () \<Longrightarrow> validate_operations_document (canonical env b) = Inr ()"
  by (simp add: result_simps records_canonical references_canonical)

end
