(* ===== verification/Document_Load.thy ===== *)
theory Document_Load
  imports Canonical_Document
begin

section \<open>Loading a saved document\<close>

text \<open>
  The dictionaries that \<^verbatim>\<open>load_document\<close> builds from the rows of a document read back as its records, in
  the order of the queries and with the fields of their JSON columns sorted (\<open>canonical\<close>).
\<close>

subsection \<open>Tables of records\<close>

text \<open>
  The contract between the rows of a table and the validation of what is loaded from them: a record
  that was stored is read back, up to a normal form. It lifts to the sorted result of a query.
\<close>

lemma sort_key_map: "sort_key k (map g xs) = map g (sort_key (\<lambda>x. k (g x)) xs)"
proof -
  have "insort_key k (g x) (map g ys) = map g (insort_key (\<lambda>x. k (g x)) x ys)" for x ys
    by (induction ys) auto
  then show ?thesis by (induction xs) simp_all
qed

locale stored_table =
  fixes row :: "'a \<Rightarrow> 'r" and load :: "'r \<Rightarrow> operations_error + json" and read :: "json \<Rightarrow> 'a option"
    and normal :: "'a \<Rightarrow> 'a" and ok :: "'a \<Rightarrow> bool"
  assumes reads_back: "ok x \<Longrightarrow> \<exists>j. load (row x) = Inr j \<and> read j = Some (normal x)"
begin

lemma reads_all:
  "list_all ok xs \<Longrightarrow> \<exists>js. map_result load (map row xs) = Inr js \<and> read_items read (JArr js) = Some (map normal xs)"
proof (induction xs)
  case (Cons x xs)
  from Cons.prems obtain j where "load (row x) = Inr j" "read j = Some (normal x)" using reads_back by auto
  with Cons show ?case by auto
qed simp

lemma reads_query:
  fixes key :: "'r \<Rightarrow> 'k :: linorder"
  assumes "list_all ok xs"
  shows "\<exists>js. map_result load (sort_key key (map row xs)) = Inr js
    \<and> read_items read (JArr js) = Some (map normal (sort_key (\<lambda>x. key (row x)) xs))"
  using reads_all [of "sort_key (\<lambda>x. key (row x)) xs"] assms by (simp add: sort_key_map list_all_iff)

end

subsection \<open>Reading JSON columns\<close>

lemma load_texts_column: "load_json (dumps (json_texts xs)) = Inr (json_texts xs)"
proof -
  have "json_ok (json_texts xs)" "sorted_json (json_texts xs) = json_texts xs"
    by (simp_all add: json_texts_def list_all_iff comp_def)
  then show ?thesis by (simp add: load_json_def loads_dumps)
qed

lemma load_object_column: "json_ok j \<Longrightarrow> load_json (dumps j) = Inr (sorted_json j)"
  by (simp add: load_json_def loads_dumps)

lemma map_of_sorted:
  assumes "distinct (map fst fs)"
  shows "map_of (sort_key fst (map (\<lambda>f. (fst f, g (snd f))) fs)) k = map_option g (map_of fs k)"
proof -
  have "map_of (sort_key fst fs) k = map_of fs k" for k
  proof -
    have "distinct (map fst (sort_key fst fs))" using assms by (metis distinct_map distinct_sort inj_on_cong set_sort sort_key_map_values)
    with assms show ?thesis by (intro map_of_eqI [THEN fun_cong]) (auto simp: map_of_inject_set)
  qed
  moreover have "map_of (map (\<lambda>f. (fst f, g (snd f))) xs) k = map_option g (map_of xs k)" for xs
    by (induction xs) auto
  ultimately show ?thesis by (simp add: sort_key_map_values)
qed

lemma sorted_texts: "sorted_json (json_texts xs) = json_texts xs"
  by (simp add: json_texts_def comp_def)

lemma sorted_object_ok: "is_json_object j \<Longrightarrow> read_object (sorted_json j) = Some (sorted_json j)"
  by (cases j) (simp_all add: is_json_object_def)

lemma read_leaf_sorted:
  assumes "is_json_object (lf_inputs_projection l)"
  shows "read_leaf (sorted_json (leaf_dump l)) = Some (canonical_leaf l)"
proof -
  obtain fs where fs: "leaf_dump l = JObj fs" and fields: "fs =
     [(''leaf_job_id'', JStr (lf_leaf_job_id l)), (''role'', JStr (job_role_value (lf_role l))),
      (''purpose'', JStr (lf_purpose l)), (''analysis_type'', JStr (analysis_type_value (lf_analysis_type l))),
      (''inputs_projection'', lf_inputs_projection l), (''depends_on'', json_texts (lf_depends_on l)),
      (''required_capabilities'', json_texts (lf_required_capabilities l)),
      (''expected_output'', JStr (lf_expected_output l))]"
    by (simp add: leaf_dump_def)
  let ?sorted = "sort_key fst (map (\<lambda>f. (fst f, sorted_json (snd f))) fs)"
  have look: "map_of ?sorted k = map_option sorted_json (map_of fs k)" for k
    by (rule map_of_sorted) (simp add: fields)
  have keys: "only_fields
     [''leaf_job_id'', ''role'', ''purpose'', ''analysis_type'', ''inputs_projection'', ''depends_on'',
      ''required_capabilities'', ''expected_output''] (JObj ?sorted) = Some ?sorted"
    by (simp add: only_fields_def fields image_image)
  show ?thesis
    unfolding fs sorted_json.simps read_leaf_def keys
    using assms by (simp add: field_def look fields sorted_texts read_texts_back enum_reads sorted_object_ok canonical_leaf_def)
qed

lemma load_leaves_column:
  assumes "list_all (\<lambda>l. json_ok (lf_inputs_projection l) \<and> is_json_object (lf_inputs_projection l)) ls"
  shows "\<exists>j. load_json (dumps (JArr (map leaf_dump ls))) = Inr j \<and> read_items read_leaf j = Some (map canonical_leaf ls)"
proof -
  have "json_ok (leaf_dump l)" if "l \<in> set ls" for l
    using assms that by (auto simp: leaf_dump_def list_all_iff json_texts_def)
  then have "json_ok (JArr (map leaf_dump ls))" by (simp add: list_all_iff)
  from load_object_column [OF this]
  have "load_json (dumps (JArr (map leaf_dump ls))) = Inr (JArr (map (\<lambda>l. sorted_json (leaf_dump l)) ls))"
    by (simp add: comp_def del: dumps.simps)
  moreover have "read_items read_leaf (JArr (map (\<lambda>l. sorted_json (leaf_dump l)) ls)) = Some (map canonical_leaf ls)"
    by (rule read_items_back) (use assms in \<open>auto simp: list_all_iff read_leaf_sorted\<close>)
  ultimately show ?thesis by simp
qed

subsection \<open>The tables\<close>

lemma artifact_uri_back:
  assumes "artifact_uri_pattern u"
  shows "artifact_uri_text (stored_sha u) = u"
proof -
  have "take (length artifact_prefix) u = artifact_prefix"
    using assms unfolding artifact_uri_pattern_def starts_with_def artifact_prefix_def by blast
  then show ?thesis
    unfolding artifact_uri_text_def stored_sha_def artifact_prefix_def [symmetric] by (metis append_take_drop_id)
qed

lemma optional_uri_back:
  "optional_ok artifact_uri_pattern v \<Longrightarrow>
     read_optional read_text (map_option (\<lambda>s. JStr (artifact_uri_text s)) (map_option stored_sha v)) = Some v"
  by (cases v) (simp_all add: read_optional_def artifact_uri_back)

lemma optional_time_text:
  "list_all (time_ok env) (option_list v) \<Longrightarrow>
     read_optional (de_read_time env) (map_option JStr (map_option (de_time_text env) v)) = Some v"
  by (cases v) (simp_all add: read_optional_def option_list_def time_ok_def time_json_def)

lemmas load_simps =
  only_fields_defined field_def opt_field_def map_of_defined read_texts_back read_urls_back read_optional_text
  enum_reads load_texts_column optional_uri_back optional_time_text time_json_def

lemma loaded_and_read: "load r = Inr j \<Longrightarrow> read j = Some x \<Longrightarrow> \<exists>j. load r = Inr j \<and> read j = Some x"
  by blast

interpretation modes: stored_table "mode_row_for env" load_mode "read_mode env" id
  "\<lambda>m. list_all (time_ok env) (mode_times m)" for env
  by unfold_locales (rule loaded_and_read,
    simp add: load_mode_def mode_row_for_def load_texts_column del: defined.simps,
    simp add: read_mode_def mode_times_def time_ok_def load_simps del: defined.simps)

interpretation jobs: stored_table "job_row_for env" "\<lambda>r. Inr (load_job r)" "read_job env" id
  "\<lambda>j. list_all (time_ok env) (job_times j)" for env
  by unfold_locales (rule loaded_and_read,
    simp add: load_job_def job_row_for_def del: defined.simps,
    simp add: read_job_def job_times_def time_ok_def load_simps del: defined.simps)

interpretation events: stored_table "event_row_for env" load_event "read_event env" canonical_event
  "\<lambda>e. list_all (time_ok env) (event_times e) \<and> json_ok (ev_safe_details_json e)
     \<and> is_json_object (ev_safe_details_json e)" for env
  by unfold_locales (rule loaded_and_read,
    simp add: load_event_def event_row_for_def load_object_column del: defined.simps,
    simp add: read_event_def event_times_def time_ok_def load_simps sorted_object_ok canonical_event_def
      del: defined.simps)

interpretation errors: stored_table "error_row_for i" load_error read_error canonical_error
  "\<lambda>e. json_ok (oe_details e) \<and> is_json_object (oe_details e)" for i
  by unfold_locales (rule loaded_and_read,
    simp add: load_error_def error_row_for_def load_object_column del: defined.simps,
    simp add: read_error_def load_simps sorted_object_ok canonical_error_def del: defined.simps)

interpretation submissions: stored_table "submission_row_of env" "\<lambda>r. Inr (load_submission r)" "read_submission env" id
  "\<lambda>s. list_all (time_ok env) (submission_times s) \<and> optional_ok artifact_uri_pattern (sb_note_artifact s)" for env
  by unfold_locales (rule loaded_and_read,
    simp add: load_submission_def submission_row_of_def submission_row_for_def del: defined.simps,
    simp add: read_submission_def submission_times_def time_ok_def load_simps del: defined.simps)

interpretation checks: stored_table "check_row_for v" load_check read_check id "\<lambda>c. True" for v
  by unfold_locales (rule loaded_and_read,
    simp add: load_check_def check_row_for_def load_texts_column del: defined.simps,
    simp add: read_check_def load_simps del: defined.simps)

interpretation plans: stored_table "plan_row_of env" load_plan "read_plan env" canonical_plan
  "\<lambda>p. list_all (time_ok env) (plan_times p) \<and> optional_ok artifact_uri_pattern (pl_raw_output_artifact p)
     \<and> list_all (\<lambda>l. json_ok (lf_inputs_projection l) \<and> is_json_object (lf_inputs_projection l)) (pl_leaf_job_specs p)" for env
proof unfold_locales
  fix env and p :: plan_hypothesis
  assume ok: "list_all (time_ok env) (plan_times p) \<and> optional_ok artifact_uri_pattern (pl_raw_output_artifact p)
    \<and> list_all (\<lambda>l. json_ok (lf_inputs_projection l) \<and> is_json_object (lf_inputs_projection l)) (pl_leaf_job_specs p)"
  obtain leaves where leaves: "load_json (dumps (JArr (map leaf_dump (pl_leaf_job_specs p)))) = Inr leaves"
    "read_items read_leaf leaves = Some (map canonical_leaf (pl_leaf_job_specs p))"
    using load_leaves_column ok by blast
  show "\<exists>j. load_plan (plan_row_of env p) = Inr j \<and> read_plan env j = Some (canonical_plan p)"
    by (rule loaded_and_read,
      simp add: load_plan_def plan_row_of_def plan_row_for_def load_texts_column leaves del: defined.simps dumps.simps,
      use ok in \<open>simp add: read_plan_def plan_times_def time_ok_def load_simps leaves canonical_plan_def del: defined.simps\<close>)
qed

interpretation candidates: stored_table "candidate_row_for env" "load_candidate (with_document env b db)"
  "read_candidate env" id
  "\<lambda>c. inserted b db \<and> c \<in> set (ob_candidates b) \<and> list_all (time_ok env) (candidate_times c)" for env b db
  by unfold_locales (rule loaded_and_read,
    simp add: load_candidate_def candidate_row_for_def load_texts_column candidate_refs_inserted del: defined.simps,
    simp add: read_candidate_def candidate_times_def time_ok_def load_simps del: defined.simps)

lemma loaded_files:
  "read_items read_provided_file (JArr (map file_dict (sort_key ka_artifact_sha256
     (filter (\<lambda>a. ka_role a = ''provided_file'') (problem_artifact_rows p)))))
   = Some (sort_key pf_sha256 (pr_provided_file_artifacts p))"
proof -
  have "filter (\<lambda>a. ka_role a = ''provided_file'') (problem_artifact_rows p)
      = map (file_row_for p) (pr_provided_file_artifacts p)"
    by (simp add: problem_artifact_rows_def original_row_for_def file_row_for_def comp_def filter_map)
  moreover have "file_dict (file_row_for p f) = provided_file_dump f" for f
    by (simp add: file_dict_def file_row_for_def provided_file_dump_def json_opt_text_def)
  ultimately show ?thesis
    using read_items_back [of "sort_key pf_sha256 (pr_provided_file_artifacts p)" read_provided_file provided_file_dump id]
    by (simp add: sort_key_map comp_def file_row_for_def read_provided_file_dump)
qed

interpretation problems: stored_table "problem_row_for env" "load_problem (with_document env b db)"
  "read_problem env" canonical_problem
  "\<lambda>p. inserted b db \<and> p \<in> set (ob_problems b) \<and> list_all (time_ok env) (problem_times p)
     \<and> list_all (\<lambda>u. de_urls env u = Some u) (pr_provided_urls p)
     \<and> artifact_uri_pattern (pr_original_text_artifact p)" for env b db
proof unfold_locales
  fix env b db and p :: problem_record
  assume ok: "inserted b db \<and> p \<in> set (ob_problems b) \<and> list_all (time_ok env) (problem_times p)
    \<and> list_all (\<lambda>u. de_urls env u = Some u) (pr_provided_urls p) \<and> artifact_uri_pattern (pr_original_text_artifact p)"
  then have urls: "read_items (read_url env) (json_texts (pr_provided_urls p)) = Some (pr_provided_urls p)"
    by (intro read_urls_back) (simp add: list_all_iff)
  have rows: "filter (\<lambda>a. ka_problem_id a = pr_problem_id p) (od_problem_artifacts (with_document env b db))
      = problem_artifact_rows p"
    using ok problem_rows by blast
  have original: "find (\<lambda>a. ka_role a = ''original_text'') (problem_artifact_rows p)
      = Some (original_row_for p (stored_sha (pr_original_text_artifact p)))"
    by (simp add: problem_artifact_rows_def original_row_for_def)
  have ids: "kp_problem_id (problem_row_for env p) = pr_problem_id p"
    "kp_provided_urls_json (problem_row_for env p) = dumps (json_texts (pr_provided_urls p))"
    by (simp_all add: problem_row_for_def)
  obtain files where files: "map file_dict (sort_key ka_artifact_sha256
      (filter (\<lambda>a. ka_role a = ''provided_file'') (problem_artifact_rows p))) = files"
    "those (map read_provided_file files) = Some (sort_key pf_sha256 (pr_provided_file_artifacts p))"
    using loaded_files [of p] by simp
  show "\<exists>j. load_problem (with_document env b db) (problem_row_for env p) = Inr j
      \<and> read_problem env j = Some (canonical_problem p)"
    by (rule loaded_and_read,
      simp only: load_problem_def Let_def ids rows original load_texts_column and_then_simps option.case files(1),
      use ok in \<open>simp add: problem_row_for_def original_row_for_def read_problem_def problem_times_def time_ok_def load_simps
        urls files(2) artifact_uri_back canonical_problem_def del: defined.simps\<close>)
qed

interpretation verifications: stored_table "verification_row_for env" "load_verification (with_document env b db)"
  "read_verification env" canonical_verification
  "\<lambda>v. inserted b db \<and> v \<in> set (ob_verifications b) \<and> list_all (time_ok env) (verification_times v)" for env b db
proof unfold_locales
  fix env b db and v :: verification_record
  assume ok: "inserted b db \<and> v \<in> set (ob_verifications b) \<and> list_all (time_ok env) (verification_times v)"
  obtain cs where cs: "map_result load_check (sort_key kx_check_name (map (check_row_for v) (vr_check_results v))) = Inr cs"
    "read_items read_check (JArr cs) = Some (map id (sort_key (\<lambda>c. kx_check_name (check_row_for v c)) (vr_check_results v)))"
    using checks.reads_query [of "vr_check_results v" kx_check_name v] by (auto simp: list_all_iff)
  then have read: "those (map read_check cs) = Some (sort_key vc_check (vr_check_results v))"
    by (simp add: check_row_for_def)
  have ids: "kv_verification_id (verification_row_for env v) = vr_verification_id v" by (simp add: verification_row_for_def)
  have rows: "filter (\<lambda>c. kx_verification_id c = vr_verification_id v) (od_checks (with_document env b db))
      = map (check_row_for v) (vr_check_results v)"
    using ok check_rows by blast
  show "\<exists>j. load_verification (with_document env b db) (verification_row_for env v) = Inr j
      \<and> read_verification env j = Some (canonical_verification v)"
    by (rule loaded_and_read,
      simp add: load_verification_def verification_row_for_def rows cs load_texts_column del: defined.simps,
      use ok in \<open>simp add: read_verification_def verification_times_def time_ok_def load_simps
        read canonical_verification_def del: defined.simps\<close>)
qed

subsection \<open>The whole document\<close>

text \<open>
  What the timestamps, URLs and JSON objects of a document must satisfy to be read back: the reader of timestamps
  accepts their text, URLs are in normal form, and no object repeats a key.
\<close>

definition document_objects :: "operations_bundle \<Rightarrow> json list" where
  "document_objects b =
     concat (map (\<lambda>p. map lf_inputs_projection (pl_leaf_job_specs p)) (ob_plans b))
     @ map ev_safe_details_json (ob_events b) @ map oe_details (ob_errors b)"

definition document_readable :: "dump_env \<Rightarrow> operations_bundle \<Rightarrow> bool" where
  "document_readable env b \<longleftrightarrow>
     list_all (time_ok env) (document_times b) \<and> list_all (\<lambda>u. de_urls env u = Some u) (document_urls b)
     \<and> list_all json_ok (document_objects b)"

lemma readable_times:
  assumes "document_readable env b"
  shows "list_all (time_ok env) (manifest_times (ob_manifest b))"
    and "list_all (\<lambda>p. list_all (time_ok env) (problem_times p) \<and> list_all (\<lambda>u. de_urls env u = Some u) (pr_provided_urls p))
      (ob_problems b)"
    and "list_all (\<lambda>m. list_all (time_ok env) (mode_times m)) (ob_ai_modes b)"
    and "list_all (\<lambda>j. list_all (time_ok env) (job_times j)) (ob_jobs b)"
    and "list_all (\<lambda>v. list_all (time_ok env) (verification_times v)) (ob_verifications b)"
    and "list_all (\<lambda>c. list_all (time_ok env) (candidate_times c)) (ob_candidates b)"
    and "list_all (\<lambda>s. list_all (time_ok env) (submission_times s)) (ob_submissions b)"
    and "list_all (\<lambda>e. list_all (time_ok env) (event_times e) \<and> json_ok (ev_safe_details_json e)) (ob_events b)"
    and "list_all (\<lambda>e. json_ok (oe_details e)) (ob_errors b)"
    and "list_all (\<lambda>p. list_all (time_ok env) (plan_times p)
      \<and> list_all (\<lambda>l. json_ok (lf_inputs_projection l)) (pl_leaf_job_specs p)) (ob_plans b)"
  using assms
  by (auto simp: document_readable_def document_times_def document_urls_def document_objects_def list_all_iff ball_Un)

lemma valid_fields:
  assumes "validate_operations_document b = Inr ()"
  shows "list_all (\<lambda>p. artifact_uri_pattern (pr_original_text_artifact p)) (ob_problems b)"
    and "list_all (\<lambda>p. optional_ok artifact_uri_pattern (pl_raw_output_artifact p)
      \<and> list_all (\<lambda>l. is_json_object (lf_inputs_projection l)) (pl_leaf_job_specs p)) (ob_plans b)"
    and "list_all (\<lambda>s. optional_ok artifact_uri_pattern (sb_note_artifact s)) (ob_submissions b)"
    and "list_all (\<lambda>e. is_json_object (ev_safe_details_json e)) (ob_events b)"
    and "list_all (\<lambda>e. is_json_object (oe_details e)) (ob_errors b)"
proof -
  from assms have r: "validate_records b = Inr ()" by (simp add: result_simps)
  note r = r [unfolded validate_records_Inr]
  show "list_all (\<lambda>p. artifact_uri_pattern (pr_original_text_artifact p)) (ob_problems b)"
    using r by (auto simp: list_all_iff validate_problem_def problem_fields_ok_def result_simps)
  show "list_all (\<lambda>p. optional_ok artifact_uri_pattern (pl_raw_output_artifact p)
      \<and> list_all (\<lambda>l. is_json_object (lf_inputs_projection l)) (pl_leaf_job_specs p)) (ob_plans b)"
    using r by (auto simp: list_all_iff validate_plan_def plan_fields_ok_def validate_leaf_def leaf_fields_ok_def
        safe_json_object_def result_simps)
  show "list_all (\<lambda>s. optional_ok artifact_uri_pattern (sb_note_artifact s)) (ob_submissions b)"
    using r by (auto simp: list_all_iff validate_submission_def result_simps)
  show "list_all (\<lambda>e. is_json_object (ev_safe_details_json e)) (ob_events b)"
    using r by (auto simp: list_all_iff validate_event_def safe_json_object_def result_simps)
  show "list_all (\<lambda>e. is_json_object (oe_details e)) (ob_errors b)"
    using r by (auto simp: list_all_iff validate_error_def safe_json_object_def result_simps)
qed

lemma manifest_reads_back:
  "list_all (time_ok env) (manifest_times m) \<Longrightarrow> read_manifest env (load_manifest (competition_row_for env m)) = Some m"
  by (simp add: load_manifest_def competition_row_for_def read_manifest_def manifest_times_def time_ok_def load_simps
      del: defined.simps)

lemma loaded_problems:
  assumes "inserted b db" and "document_readable env b"
  shows "\<exists>js. load_problems (with_document env b db) (mf_competition_id (ob_manifest b)) = Inr js
    \<and> read_items (read_problem env) (JArr js) = Some (ob_problems (canonical env b))"
  using problems.reads_query [where xs = "ob_problems b" and key = kp_problem_id and env = env and b = b and db = db]
    readable_times(2) [OF assms(2)] valid_fields(1) [OF insertedD(1) [OF assms(1)]] assms(1)
  by (auto simp: load_problems_def competition_rows [OF assms(1)] list_all_iff canonical_def problem_row_for_def simp del: read_items.simps)

lemma loaded_modes:
  assumes "inserted b db" and "document_readable env b"
  shows "\<exists>js. load_modes (with_document env b db) (mf_competition_id (ob_manifest b)) = Inr js
    \<and> read_items (read_mode env) (JArr js) = Some (ob_ai_modes (canonical env b))"
  using modes.reads_query [where xs = "ob_ai_modes b" and key = "\<lambda>r. (km_created_at r, km_mode_id r)" and env = env]
    readable_times(3) [OF assms(2)] assms(1)
  by (auto simp: load_modes_def competition_rows [OF assms(1)] list_all_iff canonical_def mode_row_for_def simp del: read_items.simps)

lemma loaded_plans:
  assumes "inserted b db" and "document_readable env b"
  shows "\<exists>js. load_plans (with_document env b db) (mf_competition_id (ob_manifest b)) = Inr js
    \<and> read_items (read_plan env) (JArr js) = Some (ob_plans (canonical env b))"
  using plans.reads_query [where xs = "ob_plans b" and key = "\<lambda>r. (kl_created_at r, kl_plan_id r)" and env = env]
    readable_times(10) [OF assms(2)] valid_fields(2) [OF insertedD(1) [OF assms(1)]] assms(1)
  by (auto simp: load_plans_def joined_rows [OF assms(1)] list_all_iff canonical_def plan_row_of_def plan_row_for_def simp del: read_items.simps)

lemma loaded_jobs:
  assumes "inserted b db" and "document_readable env b"
  shows "read_items (read_job env) (JArr (load_jobs (with_document env b db) (mf_competition_id (ob_manifest b))))
    = Some (ob_jobs (canonical env b))"
  using jobs.reads_query [where xs = "ob_jobs b" and key = "\<lambda>r. (kj_queued_at r, kj_job_id r)" and env = env]
    readable_times(4) [OF assms(2)]
  by (simp add: load_jobs_def joined_rows [OF assms(1)] map_result_total list_all_iff canonical_def job_row_for_def del: read_items.simps)

lemma loaded_verifications:
  assumes "inserted b db" and "document_readable env b"
  shows "\<exists>js. load_verifications (with_document env b db) (mf_competition_id (ob_manifest b)) = Inr js
    \<and> read_items (read_verification env) (JArr js) = Some (ob_verifications (canonical env b))"
  using verifications.reads_query [where xs = "ob_verifications b" and key = "\<lambda>r. (kv_created_at r, kv_verification_id r)" and env = env and b = b and db = db]
    readable_times(5) [OF assms(2)] assms(1)
  by (auto simp: load_verifications_def joined_rows [OF assms(1)] list_all_iff canonical_def verification_row_for_def simp del: read_items.simps)

lemma loaded_candidates:
  assumes "inserted b db" and "document_readable env b"
  shows "\<exists>js. load_candidates (with_document env b db) (mf_competition_id (ob_manifest b)) = Inr js
    \<and> read_items (read_candidate env) (JArr js) = Some (ob_candidates (canonical env b))"
  using candidates.reads_query [where xs = "ob_candidates b" and key = "\<lambda>r. (kd_created_at r, kd_candidate_id r)" and env = env and b = b and db = db]
    readable_times(6) [OF assms(2)] assms(1)
  by (auto simp: load_candidates_def joined_rows [OF assms(1)] list_all_iff canonical_def candidate_row_for_def simp del: read_items.simps)

lemma loaded_submissions:
  assumes "inserted b db" and "document_readable env b"
  shows "read_items (read_submission env) (JArr (load_submissions (with_document env b db) (mf_competition_id (ob_manifest b))))
    = Some (ob_submissions (canonical env b))"
  using submissions.reads_query [where xs = "ob_submissions b" and key = "\<lambda>r. (ks_submitted_at r, ks_submission_id r)" and env = env]
    readable_times(7) [OF assms(2)] valid_fields(3) [OF insertedD(1) [OF assms(1)]]
  by (simp add: load_submissions_def submission_rows [OF assms(1)] map_result_total list_all_iff canonical_def submission_row_of_def submission_row_for_def del: read_items.simps)

lemma loaded_events:
  assumes "inserted b db" and "document_readable env b"
  shows "\<exists>js. load_events (with_document env b db) (mf_competition_id (ob_manifest b)) = Inr js
    \<and> read_items (read_event env) (JArr js) = Some (ob_events (canonical env b))"
  using events.reads_query [where xs = "ob_events b" and key = "\<lambda>r. (ke_created_at r, ke_event_id r)" and env = env]
    readable_times(8) [OF assms(2)] valid_fields(4) [OF insertedD(1) [OF assms(1)]] assms(1)
  by (auto simp: load_events_def list_events_def competition_rows [OF assms(1)] list_all_iff canonical_def event_row_for_def simp del: read_items.simps)

lemma loaded_errors:
  assumes "inserted b db" and "document_readable env b"
  shows "\<exists>js. load_errors (with_document env b db) (mf_competition_id (ob_manifest b)) = Inr js
    \<and> read_items read_error (JArr js) = Some (ob_errors (canonical env b))"
  using errors.reads_query [where xs = "ob_errors b" and key = kf_error_id and i = "mf_competition_id (ob_manifest b)"]
    readable_times(9) [OF assms(2)] valid_fields(5) [OF insertedD(1) [OF assms(1)]] assms(1)
  by (auto simp: load_errors_def competition_rows [OF assms(1)] list_all_iff canonical_def error_row_for_def simp del: read_items.simps)

lemma saved_payload:
  assumes ins: "inserted b db" and ok: "document_readable env b"
  shows "\<exists>payload. load_payload (with_document env b db) (competition_row_for env (ob_manifest b)) = Inr payload
    \<and> read_bundle env payload = Some (canonical env b)"
proof -
  let ?db = "with_document env b db" and ?cid = "mf_competition_id (ob_manifest b)"
  from loaded_problems [OF ins ok] loaded_modes [OF ins ok] loaded_plans [OF ins ok] loaded_verifications [OF ins ok]
    loaded_candidates [OF ins ok] loaded_events [OF ins ok] loaded_errors [OF ins ok]
  obtain problems modes plans verifications candidates events errors where loaded:
    "load_problems ?db ?cid = Inr problems" "load_modes ?db ?cid = Inr modes" "load_plans ?db ?cid = Inr plans"
    "load_verifications ?db ?cid = Inr verifications" "load_candidates ?db ?cid = Inr candidates"
    "load_events ?db ?cid = Inr events" "load_errors ?db ?cid = Inr errors"
    and reads: "read_items (read_problem env) (JArr problems) = Some (ob_problems (canonical env b))"
    "read_items (read_mode env) (JArr modes) = Some (ob_ai_modes (canonical env b))"
    "read_items (read_plan env) (JArr plans) = Some (ob_plans (canonical env b))"
    "read_items (read_verification env) (JArr verifications) = Some (ob_verifications (canonical env b))"
    "read_items (read_candidate env) (JArr candidates) = Some (ob_candidates (canonical env b))"
    "read_items (read_event env) (JArr events) = Some (ob_events (canonical env b))"
    "read_items read_error (JArr errors) = Some (ob_errors (canonical env b))"
    by blast
  note reads = reads loaded_jobs [OF ins ok] loaded_submissions [OF ins ok]
    manifest_reads_back [OF readable_times(1) [OF ok]]
  have row: "kc_competition_id (competition_row_for env (ob_manifest b)) = ?cid"
    "kc_operations_schema_version (competition_row_for env (ob_manifest b)) = mf_operations_schema_version (ob_manifest b)"
    by (simp_all add: competition_row_for_def)
  have version: "mf_operations_schema_version (ob_manifest b) = ob_operations_schema_version b"
    using insertedD(1) [OF ins] by (auto simp: result_simps references_are_valid_Inr)
  show ?thesis
    by (rule loaded_and_read,
      simp only: load_payload_def Let_def row loaded and_then_simps,
      simp add: read_bundle_def only_fields_def field_def reads [simplified] version,
      simp add: canonical_def)
qed

end
