(* ===== verification/Operations_Store_Properties.thy ===== *)
theory Operations_Store_Properties
  imports Document_Load Storage_Properties
begin

section \<open>What the operations store guarantees\<close>

text \<open>
  Properties of \<^verbatim>\<open>adapters/sqlite_operations.py\<close> over all histories of a database of the second version: its
  integrity, what is loaded after a document was saved, the submission transition and the migration.
\<close>

subsection \<open>Saving and loading\<close>

lemma ops_transaction_Inr:
  "ops_transaction body db = (Inr x, db') \<longleftrightarrow> body db = Inr (x, db') \<and> deferred_refs db'"
  by (auto simp: ops_transaction_def split: sum.splits prod.splits if_splits)

lemma save_document_Inr:
  "save_document env b db = (Inr u, db') \<longleftrightarrow>
     operations_guard env (to_contract_dict (oz_dump env) b) = Inr ()
     \<and> insert_document (oz_dump env) b db = Inr db' \<and> deferred_refs db'"
  by (auto simp: save_document_def ops_transaction_Inr result_simps split: sum.splits)

lemma competition_found:
  assumes "document_fresh b db"
  shows "find (\<lambda>r. kc_competition_id r = mf_competition_id (ob_manifest b)) (od_competitions (with_document env b db))
    = Some (competition_row_for env (ob_manifest b))"
proof -
  have "find (\<lambda>r. kc_competition_id r = mf_competition_id (ob_manifest b)) (od_competitions db) = None"
    using assms by (force simp: document_fresh_def competition_known_def find_None_iff)
  then show ?thesis by (simp add: with_document_def find_append competition_row_for_def)
qed

text \<open>
  C11: a valid document that was saved, into any database the operations can reach, is loaded again: the
  payload built from the rows is checked by the guard and, if it passes, the document is returned in the
  order of the queries and with sorted JSON columns, provided the validation library reads back the
  timestamps it printed, keeps the document's URLs, and no JSON object has two equal keys.
\<close>

theorem saved_document_loads:
  assumes "operations_reachable env db" and "save_document env b db = (Inr (), db')"
    and "validate_operations_document b = Inr ()" and "document_readable (oz_dump env) b"
  shows "\<exists>payload. load_payload db' (competition_row_for (oz_dump env) (ob_manifest b)) = Inr payload
    \<and> load_document env db' (mf_competition_id (ob_manifest b))
      = and_then (operations_guard env payload) (\<lambda>_. Inr (Some (canonical (oz_dump env) b)))"
proof -
  note saved = assms(2) [unfolded save_document_Inr]
  then have db': "db' = with_document (oz_dump env) b db" and fresh: "document_fresh b db"
    using insert_document_Inr by blast+
  have "inserted b db"
    using operations_reachable_ok [OF assms(1)] assms(3) fresh by (simp add: inserted_def ops_ok_def)
  then obtain payload where payload: "load_payload db' (competition_row_for (oz_dump env) (ob_manifest b)) = Inr payload"
    "read_bundle (oz_dump env) payload = Some (canonical (oz_dump env) b)"
    using saved_payload assms(4) db' by blast
  then have "model_validate (oz_dump env) payload = Inr (canonical (oz_dump env) b)"
    using canonical_valid [OF assms(3)] by (simp add: model_validate_def)
  with payload show ?thesis
    by (simp add: load_document_def db' competition_found [OF fresh])
qed

subsection \<open>A concrete document\<close>

definition fo_text :: "instant \<Rightarrow> string" where
  "fo_text t = ''2026-01-01T00:00:0'' @ show_int t @ ''Z''"

definition fo_env :: operations_env where
  "fo_env = \<lparr>oz_forbidden = [''secret#1''],
     oz_dump = \<lparr>de_time_text = fo_text,
       de_read_time = (\<lambda>j. Option.bind (read_text j) (\<lambda>s. find (\<lambda>t. fo_text t = s) [0, 1, 2])), de_urls = Some\<rparr>\<rparr>"

definition fo_event :: "string \<Rightarrow> instant \<Rightarrow> operation_event" where
  "fo_event i t = \<lparr>ev_event_id = i, ev_competition_id = ''COMP-AAA'', ev_problem_id = None,
     ev_entity_type = ''competition'', ev_entity_id = ''COMP-AAA'', ev_event_type = ''noted'', ev_actor_type = OPERATOR,
     ev_actor_id = ''a'', ev_from_status = None, ev_to_status = Some ''active'',
     ev_safe_details_json = JObj [(''b'', JInt 1), (''a'', JInt 2)], ev_created_at = t\<rparr>"

definition fo_bundle :: operations_bundle where
  "fo_bundle = \<lparr>ob_schema_uri = ''operations-contract.schema.json'', ob_operations_schema_version = ''0.1'',
     ob_manifest = fx_manifest, ob_problems = [], ob_ai_modes = [fx_mode], ob_plans = [], ob_jobs = [],
     ob_verifications = [], ob_candidates = [], ob_submissions = [],
     ob_events = [fo_event ''OEV-AAA'' 2, fo_event ''OEV-BBB'' 1], ob_errors = []\<rparr>"

definition fo_db :: operations_db where
  "fo_db = with_document (oz_dump fo_env) fo_bundle (empty_operations fs_db)"

text \<open>A text without slashes holds no local path, and one without a character none that has it.\<close>

definition path_free :: "char \<Rightarrow> bool" where
  "path_free c \<longleftrightarrow> (of_char c :: nat) < 128 \<and> c \<noteq> CHR ''/'' \<and> c \<noteq> CHR 0x5C \<and> c \<noteq> CHR ''#''"

lemma path_free_guard:
  assumes "list_all path_free t" and "CHR ''#'' \<in> set f"
  shows "check_text [f] t = Inr ()"
proof -
  have plain: "encode t = t" using assms(1) by (induction t) (simp_all add: encode_def utf8_char_def path_free_def)
  have no_path: "\<not> has_local_path s" if "list_all path_free s" for s
    using that
  proof (induction s)
    case (Cons c s)
    have "\<not> starts_with ([CHR '':'', CHR 0x5C] @ ''Users'' @ [CHR 0x5C]) s"
      using Cons.prems by (cases s; cases "tl s") (auto simp: starts_with_def path_free_def)
    then have "\<not> local_path_at (c # s)"
      using Cons.prems by (auto simp: local_path_at_def starts_with_def path_free_def)
    with Cons show ?case by simp
  qed (simp add: local_path_at_def starts_with_def)
  have sub: "contains_text g s \<Longrightarrow> set g \<subseteq> set s" for g s
  proof (induction s)
    case (Cons c s)
    then show ?case using set_take_subset [of "length g" "c # s"] unfolding starts_with_def contains_text.simps
      by (metis set_subset_Cons subset_trans)
  qed (simp add: starts_with_def)
  have "CHR ''#'' \<in> set (encode f)" using assms(2) by (auto simp: encode_def utf8_char_def intro!: bexI)
  moreover have "CHR ''#'' \<notin> set t" using assms(1) by (auto simp: list_all_iff path_free_def)
  ultimately have "\<not> contains_text (encode f) t" using sub by blast
  then show ?thesis
    using no_path [OF assms(1)] by (simp add: check_text_def check_bytes_Inr plain)
qed

lemma fo_valid: "validate_operations_document fo_bundle = Inr ()"
  by code_simp

text \<open>The text of a document of such strings is such a text.\<close>

definition plain_char :: "char \<Rightarrow> bool" where
  "plain_char c \<longleftrightarrow> path_free c \<and> escape_char c = [c]"

fun plain_json :: "json \<Rightarrow> bool"
  and plain_items :: "json list \<Rightarrow> bool"
  and plain_fields :: "(string \<times> json) list \<Rightarrow> bool" where
  "plain_json (JStr s) = list_all plain_char s"
| "plain_json (JBool b) = True"
| "plain_json JNull = True"
| "plain_json (JInt i) = list_all path_free (show_int i)"
| "plain_json (JFloat t) = list_all path_free t"
| "plain_json (JArr js) = plain_items js"
| "plain_json (JObj fs) = plain_fields fs"
| "plain_items [] = True"
| "plain_items (j # js) = (plain_json j \<and> plain_items js)"
| "plain_fields [] = True"
| "plain_fields ((k, j) # fs) = (list_all plain_char k \<and> plain_json j \<and> plain_fields fs)"

lemma plain_string: "list_all plain_char s \<Longrightarrow> list_all path_free (dumps_string s)"
proof -
  assume s: "list_all plain_char s"
  then have "concat (map escape_char s) = s" by (induction s) (simp_all add: plain_char_def)
  with s show ?thesis by (simp add: dumps_string_def list_all_iff plain_char_def) (simp add: path_free_def)
qed

lemma plain_joined:
  "list_all path_free sep \<Longrightarrow> (\<And>t. t \<in> set ts \<Longrightarrow> list_all path_free t) \<Longrightarrow> list_all path_free (join_with sep ts)"
  by (induction sep ts rule: join_with.induct) auto

lemma path_free_marks [simp]:
  "path_free (CHR '','')" "path_free (CHR '':'')" "path_free (CHR 0x22)" "path_free (CHR ''['')" "path_free (CHR '']'')"
  "path_free (CHR ''{'')" "path_free (CHR ''}'')"
  by (simp_all add: path_free_def)

lemma plain_dumps:
  "plain_json j \<Longrightarrow> list_all path_free (dumps j)"
  "plain_items js \<Longrightarrow> \<forall>t \<in> set (dumps_items js). list_all path_free t"
  "plain_fields fs \<Longrightarrow> \<forall>f \<in> set (dumps_fields fs). list_all plain_char (fst f) \<and> list_all path_free (snd f)"
proof (induction j and js and fs rule: plain_json_plain_items_plain_fields.induct)
  case (6 js)
  then have "list_all path_free (join_with '','' (dumps_items js))"
    by (intro plain_joined) simp_all
  then show ?case by simp
next
  case (7 fs)
  then have "list_all path_free (join_with '','' (map (\<lambda>(k, t). dumps_string k @ '':'' @ t) (sort_key fst (dumps_fields fs))))"
    by (intro plain_joined) (auto simp: plain_string)
  then show ?case by (simp add: render_fields_def)
qed (auto simp: plain_string, auto simp: path_free_def)

lemma fo_text_free: "list_all path_free (dumps (to_contract_dict (oz_dump fo_env) fo_bundle))"
  by (rule plain_dumps(1)) code_simp

lemma fo_insert: "insert_document (oz_dump fo_env) fo_bundle (empty_operations fs_db) = Inr fo_db"
  by code_simp

lemma fo_refs: "deferred_refs fo_db"
  by code_simp

lemma fo_readable: "document_readable (oz_dump fo_env) fo_bundle"
  by code_simp

lemma fo_saved: "save_document fo_env fo_bundle (empty_operations fs_db) = (Inr (), fo_db)"
proof -
  have "check_text (oz_forbidden fo_env) (dumps (to_contract_dict (oz_dump fo_env) fo_bundle)) = Inr ()"
    unfolding fo_env_def [THEN arg_cong [where f = oz_forbidden], simplified]
    by (rule path_free_guard [OF fo_text_free]) simp
  then show ?thesis
    by (simp add: save_document_Inr operations_guard_def fo_insert fo_refs)
qed

theorem saved_document_loads_witness:
  "(\<exists>payload. load_payload fo_db (competition_row_for (oz_dump fo_env) fx_manifest) = Inr payload
      \<and> load_document fo_env fo_db ''COMP-AAA''
        = and_then (operations_guard fo_env payload) (\<lambda>_. Inr (Some (canonical (oz_dump fo_env) fo_bundle))))
    \<and> map ev_event_id (ob_events (canonical (oz_dump fo_env) fo_bundle)) = [''OEV-BBB'', ''OEV-AAA'']"
proof
  have manifest: "ob_manifest fo_bundle = fx_manifest" "mf_competition_id fx_manifest = ''COMP-AAA''"
    by (simp_all add: fo_bundle_def fx_manifest_def)
  have "operations_reachable fo_env (empty_operations fs_db)" by (rule operations_reachable.migrated) (rule fs_db_ok)
  from saved_document_loads [OF this fo_saved fo_valid fo_readable]
  show "\<exists>payload. load_payload fo_db (competition_row_for (oz_dump fo_env) fx_manifest) = Inr payload
      \<and> load_document fo_env fo_db ''COMP-AAA''
        = and_then (operations_guard fo_env payload) (\<lambda>_. Inr (Some (canonical (oz_dump fo_env) fo_bundle)))"
    by (simp only: manifest)
  show "map ev_event_id (ob_events (canonical (oz_dump fo_env) fo_bundle)) = [''OEV-BBB'', ''OEV-AAA'']"
    by code_simp
qed

end
