(* ===== verification/Operations_History.thy ===== *)
theory Operations_History
  imports Operations_Store_Properties
begin

section \<open>Histories of the operations store\<close>

text \<open>
  Integrity and growth over all sequences of operations, the submission transition, which a candidate takes at
  most once, the dictionaries of documents, documents that cannot be stored, and the migration.
\<close>

subsection \<open>Integrity\<close>

text \<open>
  C12: every database that the operations can reach from a migrated one, raising or not, meets every CHECK, key
  and foreign-key constraint of the DDL, and whatever follows only extends it: events, submissions,
  verifications and links are never changed, and a competition, a problem or a candidate changes in its
  status and update time alone.
\<close>

theorem operations_store_integrity:
  assumes "operations_reachable env db" and "(operations_step env)\<^sup>*\<^sup>* db db'"
  shows "ops_ok db' \<and> ops_grows db db' \<and> prefix (od_events db) (od_events db')
    \<and> prefix (od_submissions db) (od_submissions db')"
proof -
  have "operations_reachable env db'"
    using assms(2,1) by (induction rule: rtranclp_induct) (auto intro: operations_reachable.more)
  then show ?thesis
    using operations_reachable_ok operations_steps_grow [OF assms(2)] by (auto simp: ops_grows_def)
qed

lemma fo_reachable: "operations_reachable fo_env (empty_operations fs_db)"
  by (rule operations_reachable.migrated) (rule fs_db_ok)

lemma fo_step: "operations_step fo_env (empty_operations fs_db) fo_db"
  using operations_step.save [of fo_env "empty_operations fs_db" fo_bundle] by (simp add: fo_saved)

theorem operations_store_integrity_witness:
  "ops_ok fo_db \<and> ops_grows (empty_operations fs_db) fo_db"
  using operations_store_integrity [OF fo_reachable r_into_rtranclp [of "operations_step fo_env", OF fo_step]] by blast

subsection \<open>Dictionaries of documents\<close>

lemma list_all_concat: "list_all P (concat xss) \<longleftrightarrow> list_all (list_all P) xss"
  by (induction xss) auto

lemma times_parts:
  assumes "list_all (time_ok env) (document_times b)"
  shows "list_all (time_ok env) (manifest_times (ob_manifest b))"
    and "p \<in> set (ob_problems b) \<Longrightarrow> list_all (time_ok env) (problem_times p)"
    and "m \<in> set (ob_ai_modes b) \<Longrightarrow> list_all (time_ok env) (mode_times m)"
    and "l \<in> set (ob_plans b) \<Longrightarrow> list_all (time_ok env) (plan_times l)"
    and "j \<in> set (ob_jobs b) \<Longrightarrow> list_all (time_ok env) (job_times j)"
    and "v \<in> set (ob_verifications b) \<Longrightarrow> list_all (time_ok env) (verification_times v)"
    and "c \<in> set (ob_candidates b) \<Longrightarrow> list_all (time_ok env) (candidate_times c)"
    and "s \<in> set (ob_submissions b) \<Longrightarrow> list_all (time_ok env) (submission_times s)"
    and "e \<in> set (ob_events b) \<Longrightarrow> list_all (time_ok env) (event_times e)"
  using assms unfolding document_times_def
  by (simp_all add: list_all_concat list.pred_map comp_def) (auto simp: list_all_iff)

text \<open>
  A valid document is what the validation reads back from the dictionary it is dumped to, provided
  the validation library reads back the timestamps it printed and keeps the document's URLs.
\<close>

theorem document_dictionary_round_trip:
  assumes valid: "validate_operations_document b = Inr ()"
    and times: "list_all (time_ok env) (document_times b)"
    and urls: "list_all (\<lambda>u. de_urls env u = Some u) (document_urls b)"
  shows "model_validate env (to_contract_dict env b) = Inr b"
proof -
  note v = valid_fields [OF valid]
  note t = times_parts [OF times]
  have us: "u \<in> set (pr_provided_urls p) \<Longrightarrow> de_urls env u = Some u" if "p \<in> set (ob_problems b)" for p u
    using urls that by (auto simp: document_urls_def list_all_iff)
  have leaves: "l \<in> set (pl_leaf_job_specs p) \<Longrightarrow> is_json_object (lf_inputs_projection l)" if "p \<in> set (ob_plans b)" for p l
    using v(2) that by (auto simp: list_all_iff)
  have objects: "e \<in> set (ob_events b) \<Longrightarrow> is_json_object (ev_safe_details_json e)"
    "f \<in> set (ob_errors b) \<Longrightarrow> is_json_object (oe_details f)" for e f
    using v(4,5) by (auto simp: list_all_iff)
  have "read_items (read_problem env) (JArr (map (problem_dump env) (ob_problems b))) = Some (map id (ob_problems b))"
    by (rule read_items_back) (simp add: read_problem_dump t(2) us)
  moreover have "read_items (read_mode env) (JArr (map (mode_dump env) (ob_ai_modes b))) = Some (map id (ob_ai_modes b))"
    by (rule read_items_back) (simp add: read_mode_dump t(3))
  moreover have "read_items (read_plan env) (JArr (map (plan_dump env) (ob_plans b))) = Some (map id (ob_plans b))"
    by (rule read_items_back) (simp add: read_plan_dump t(4) leaves)
  moreover have "read_items (read_job env) (JArr (map (job_dump env) (ob_jobs b))) = Some (map id (ob_jobs b))"
    by (rule read_items_back) (simp add: read_job_dump t(5))
  moreover have "read_items (read_verification env) (JArr (map (verification_dump env) (ob_verifications b))) = Some (map id (ob_verifications b))"
    by (rule read_items_back) (simp add: read_verification_dump t(6))
  moreover have "read_items (read_candidate env) (JArr (map (candidate_dump env) (ob_candidates b))) = Some (map id (ob_candidates b))"
    by (rule read_items_back) (simp add: read_candidate_dump t(7))
  moreover have "read_items (read_submission env) (JArr (map (submission_dump env) (ob_submissions b))) = Some (map id (ob_submissions b))"
    by (rule read_items_back) (simp add: read_submission_dump t(8))
  moreover have "read_items (read_event env) (JArr (map (event_dump env) (ob_events b))) = Some (map id (ob_events b))"
    by (rule read_items_back) (simp add: read_event_dump t(9) objects)
  moreover have "read_items read_error (JArr (map error_dump (ob_errors b))) = Some (map id (ob_errors b))"
    by (rule read_items_back) (simp add: read_error_dump objects)
  moreover have "read_manifest env (manifest_dump env (ob_manifest b)) = Some (ob_manifest b)"
    by (rule read_manifest_dump) (rule t(1))
  ultimately have "read_bundle env (to_contract_dict env b) = Some b"
    by (simp add: read_bundle_def to_contract_dict_def bundle_fields_def only_fields_def field_def)
  then show ?thesis by (simp add: model_validate_def valid)
qed

theorem document_dictionary_round_trip_witness:
  "model_validate (oz_dump fo_env) (to_contract_dict (oz_dump fo_env) fo_bundle) = Inr fo_bundle"
  using fo_readable by (intro document_dictionary_round_trip fo_valid) (simp_all add: document_readable_def)

subsection \<open>The submission transition\<close>

text \<open>A known candidate that is not, or no longer, ready for submission.\<close>

definition not_ready :: "operations_db \<Rightarrow> string \<Rightarrow> bool" where
  "not_ready db i \<longleftrightarrow>
     candidate_known db i
     \<and> list_all (\<lambda>r. kd_candidate_id r = i \<longrightarrow> kd_status r \<noteq> ''submission_ready'') (od_candidates db)"

lemma not_ready_same: "od_candidates db' = od_candidates db \<Longrightarrow> not_ready db' i = not_ready db i"
  by (simp add: not_ready_def candidate_known_def)

lemma insert_submission_Inr:
  "insert_submission env db s = Inr db' \<Longrightarrow> db' = db\<lparr>od_submissions := od_submissions db @ [submission_row_of env s]\<rparr>"
  by (auto simp: insert_submission_def insert_submission_row_def result_simps submission_row_of_def dest!: optional_artifact_Inr)

lemma insert_event_Inr:
  "insert_event env db e = Inr db' \<Longrightarrow> db' = db\<lparr>od_events := od_events db @ [event_row_for env e]\<rparr>"
  by (auto simp: insert_event_def insert_event_row_def result_simps)

lemma submission_body_Inr:
  assumes "submission_body env b s e c p db = Inr (d, db')"
  shows "\<exists>db1 db2 db3. update_candidate c db = (1, db1) \<and> update_problem p db1 = (1, db2)
      \<and> update_competition (ob_manifest b) db2 = (1, db3)
      \<and> db' = db3\<lparr>od_submissions := od_submissions db3 @ [submission_row_of (oz_dump env) s],
          od_events := od_events db3 @ [event_row_for (oz_dump env) e]\<rparr>
      \<and> load_document env db' (mf_competition_id (ob_manifest b)) = Inr (Some d)
      \<and> py_equal (to_contract_dict (oz_dump env) d) (to_contract_dict (oz_dump env) b)"
proof -
  obtain n1 db1 n2 db2 n3 db3 where u: "update_candidate c db = (n1, db1)" "update_problem p db1 = (n2, db2)"
      "update_competition (ob_manifest b) db2 = (n3, db3)"
    by (metis surj_pair)
  note unfolded = assms [unfolded submission_body_def Let_def u prod.case]
  then have counts: "n1 = 1" "n2 = 1" "n3 = 1" by (simp_all add: result_simps)
  from unfolded obtain db4 loaded where
    steps: "insert_submission (oz_dump env) db3 s = Inr db4" "insert_event (oz_dump env) db4 e = Inr db'"
    and loaded: "load_document env db' (mf_competition_id (ob_manifest b)) = Inr (Some d)"
      "py_equal (to_contract_dict (oz_dump env) d) (to_contract_dict (oz_dump env) b)"
    by (simp only: and_then_Inr) (fastforce split: option.splits if_splits)
  from insert_submission_Inr [OF steps(1)] insert_event_Inr [OF steps(2)]
  have "db' = db3\<lparr>od_submissions := od_submissions db3 @ [submission_row_of (oz_dump env) s],
      od_events := od_events db3 @ [event_row_for (oz_dump env) e]\<rparr>"
    by simp
  with u counts loaded show ?thesis by blast
qed

lemma update_candidate_known: "candidate_known (snd (update_candidate c db)) i = candidate_known db i"
proof -
  have "map kd_candidate_id (od_candidates (snd (update_candidate c db))) = map kd_candidate_id (od_candidates db)"
    by (simp add: update_candidate_def update_rows_def Let_def)
  then show ?thesis unfolding candidate_known_def by simp
qed

lemma update_keeps_not_ready:
  assumes "not_ready db i"
  shows "not_ready (snd (update_candidate c db)) i" "not_ready (snd (update_problem p db)) i"
    "not_ready (snd (update_competition m db)) i"
  using assms
  by (auto simp: not_ready_def update_candidate_def update_problem_def update_competition_def update_rows_def Let_def
      candidate_known_def list_all_iff)

lemma apply_submission_Inr:
  assumes "apply_submission env b s e db = (Inr d, db')"
  shows "\<exists>c p. submission_scope b s e = Inr (c, p) \<and> validate_submission_transition b s e c p = Inr ()
    \<and> submission_body env b s e c p db = Inr (d, db')"
  using assms
  by (auto simp: apply_submission_def ops_transaction_Inr result_simps split: sum.splits prod.splits)

text \<open>What follows never makes a candidate ready that was known and not ready.\<close>

lemma ops_transaction_snd:
  "snd (ops_transaction body db) = db \<or> (\<exists>x. body db = Inr (x, snd (ops_transaction body db)))"
  by (cases "body db") (auto simp: ops_transaction_def split: prod.split)

lemma save_document_snd:
  "snd (save_document env b db) = db \<or> insert_document (oz_dump env) b db = Inr (snd (save_document env b db))"
  using ops_transaction_snd [of "\<lambda>d. and_then (insert_document (oz_dump env) b d) (\<lambda>d'. Inr ((), d'))" db]
  by (cases "operations_guard env (to_contract_dict (oz_dump env) b)") (auto simp: save_document_def and_then_Inr)

lemma append_event_snd:
  "snd (append_event env e db) = db \<or> insert_event (oz_dump env) db e = Inr (snd (append_event env e db))"
  using ops_transaction_snd [of "\<lambda>d. and_then (insert_event (oz_dump env) d e) (\<lambda>d'. Inr ((), d'))" db]
  by (cases "operations_guard env (event_dump (oz_dump env) e)") (auto simp: append_event_def and_then_Inr)

lemma save_keeps_not_ready: "not_ready db i \<Longrightarrow> not_ready (snd (save_document env b db)) i"
  using save_document_snd [of env b db]
proof
  assume n: "not_ready db i" and ins: "insert_document (oz_dump env) b db = Inr (snd (save_document env b db))"
  note added = insert_document_Inr [OF ins]
  have "cd_candidate_id c \<noteq> i" if "c \<in> set (ob_candidates b)" for c
    using added(2) n that by (auto simp: document_fresh_def not_ready_def)
  moreover have "od_candidates (snd (save_document env b db))
      = od_candidates db @ map (candidate_row_for (oz_dump env)) (ob_candidates b)"
    by (subst added(1)) (simp add: with_document_def)
  ultimately show ?thesis
    using n by (auto simp: not_ready_def candidate_known_def list_all_iff candidate_row_for_def)
qed simp

lemma append_keeps_not_ready: "not_ready db i \<Longrightarrow> not_ready (snd (append_event env e db)) i"
  using append_event_snd [of env e db]
proof
  assume n: "not_ready db i" and ins: "insert_event (oz_dump env) db e = Inr (snd (append_event env e db))"
  have "od_candidates (snd (append_event env e db)) = od_candidates db"
    by (subst insert_event_Inr [OF ins]) simp
  with n show ?thesis using not_ready_same by blast
qed simp

lemma artifact_keeps_not_ready: "not_ready db i \<Longrightarrow> not_ready (snd (ops_record_artifact r db)) i"
proof -
  assume n: "not_ready db i"
  have "od_candidates (snd (ops_record_artifact r db)) = od_candidates db"
    unfolding ops_record_artifact_def ops_transaction_def
    by (cases "insert_artifact r (od_v1 db)") (auto simp: and_then_def split: sum.split)
  with n show ?thesis using not_ready_same by blast
qed

lemma apply_submission_changes:
  assumes "apply_submission env b s e db = (r, db')"
  shows "db' = db \<or> (\<exists>d c p. r = Inr d \<and> submission_scope b s e = Inr (c, p)
     \<and> validate_submission_transition b s e c p = Inr () \<and> submission_body env b s e c p db = Inr (d, db'))"
proof (cases r)
  case (Inr d)
  then show ?thesis using apply_submission_Inr assms by blast
next
  case (Inl err)
  let ?checks = "and_then (submission_scope b s e) (\<lambda>(candidate, problem).
      and_then (validate_submission_transition b s e candidate problem) (\<lambda>_.
      and_then (operations_guard env (to_contract_dict (oz_dump env) b)) (\<lambda>_. Inr (candidate, problem))))"
  have "snd (apply_submission env b s e db) = db"
  proof (cases ?checks)
    case (Inr y)
    obtain c p where "y = (c, p)" by (cases y)
    with Inr Inl assms show ?thesis
      using ops_transaction_snd [of "submission_body env b s e c p" db]
      by (auto simp: apply_submission_def ops_transaction_def split: if_splits)
  qed (simp add: apply_submission_def)
  with assms show ?thesis by simp
qed

lemma apply_keeps_not_ready: "not_ready db i \<Longrightarrow> not_ready (snd (apply_submission env b s e db)) i"
proof (cases "apply_submission env b s e db")
  case (Pair r db')
  assume n: "not_ready db i"
  show ?thesis
    using apply_submission_changes [OF Pair]
  proof (elim disjE exE conjE)
    fix d c p assume "submission_body env b s e c p db = Inr (d, db')"
    from submission_body_Inr [OF this] obtain db1 db2 db3 where u: "update_candidate c db = (1, db1)"
      "update_problem p db1 = (1, db2)" "update_competition (ob_manifest b) db2 = (1, db3)"
      and c: "od_candidates db' = od_candidates db3"
      by auto
    have "not_ready db3 i" using n update_keeps_not_ready u by (metis snd_conv)
    with c Pair show ?thesis using not_ready_same by (metis snd_conv)
  qed (use n Pair in simp)
qed

lemma steps_keep_not_ready:
  "(operations_step env)\<^sup>*\<^sup>* db db' \<Longrightarrow> not_ready db i \<Longrightarrow> not_ready db' i"
proof (induction rule: rtranclp_induct)
  case (step y z)
  from step.hyps(2) step.IH [OF step.prems] show ?case
    by (induction rule: operations_step.induct)
      (auto intro: save_keeps_not_ready append_keeps_not_ready apply_keeps_not_ready artifact_keeps_not_ready)
qed

lemma scope_candidate:
  "submission_scope b s e = Inr (c, p) \<Longrightarrow> cd_candidate_id c = sb_candidate_id s \<and> pr_problem_id p = cd_problem_id c
     \<and> c \<in> set (ob_candidates b)"
  by (auto simp: submission_scope_def result_simps find_Some_iff split: option.splits)

lemma update_candidate_one:
  assumes "update_candidate c db = (1, db1)" and "cd_status c = CAND_SUBMITTED"
  shows "not_ready db1 (cd_candidate_id c)"
proof -
  have one: "count_if (\<lambda>r. kd_candidate_id r = cd_candidate_id c \<and> kd_status r = ''submission_ready'') (od_candidates db) = 1"
    using assms(1) by (simp add: update_candidate_def update_rows_def Let_def)
  have "\<exists>r \<in> set (od_candidates db). kd_candidate_id r = cd_candidate_id c"
  proof (rule ccontr)
    assume "\<not> ?thesis"
    then have "filter (\<lambda>r. kd_candidate_id r = cd_candidate_id c \<and> kd_status r = ''submission_ready'') (od_candidates db) = []"
      by (auto simp: filter_empty_conv)
    with one show False by (simp add: count_if_def)
  qed
  then have "candidate_known db (cd_candidate_id c)" by (force simp: candidate_known_def)
  then have "candidate_known db1 (cd_candidate_id c)"
    using update_candidate_known [of c db "cd_candidate_id c"] assms(1) by simp
  then show ?thesis
    using assms by (auto simp: not_ready_def update_candidate_def update_rows_def Let_def list_all_iff)
qed

text \<open>
  C21: a submission is recorded as a whole or not at all. When it is applied, exactly one row of its candidate
  was ready for submission, that candidate is ready no more, one submission and one event were added, and
  the document loaded back equals the validated one; otherwise the database is unchanged.
\<close>

theorem submission_is_atomic:
  "case apply_submission env b s e db of
     (Inl err, db') \<Rightarrow> db' = db
   | (Inr d, db') \<Rightarrow>
       count_if (\<lambda>r. kd_candidate_id r = sb_candidate_id s \<and> kd_status r = ''submission_ready'') (od_candidates db) = 1
       \<and> not_ready db' (sb_candidate_id s)
       \<and> od_submissions db' = od_submissions db @ [submission_row_of (oz_dump env) s]
       \<and> od_events db' = od_events db @ [event_row_for (oz_dump env) e]
       \<and> load_document env db' (mf_competition_id (ob_manifest b)) = Inr (Some d)
       \<and> py_equal (to_contract_dict (oz_dump env) d) (to_contract_dict (oz_dump env) b)"
proof (cases "apply_submission env b s e db")
  case (Pair r db')
  show ?thesis
  proof (cases r)
    case (Inl err)
    with Pair apply_submission_changes [OF Pair] show ?thesis by simp
  next
    case (Inr d)
    then obtain c p where scope: "submission_scope b s e = Inr (c, p)" "validate_submission_transition b s e c p = Inr ()"
      and body: "submission_body env b s e c p db = Inr (d, db')"
      using apply_submission_Inr Pair by blast
    from submission_body_Inr [OF body] obtain u1 u2 u3 where u: "update_candidate c db = (1, u1)"
      "update_problem p u1 = (1, u2)" "update_competition (ob_manifest b) u2 = (1, u3)"
      and db': "db' = u3\<lparr>od_submissions := od_submissions u3 @ [submission_row_of (oz_dump env) s],
          od_events := od_events u3 @ [event_row_for (oz_dump env) e]\<rparr>"
      and loaded: "load_document env db' (mf_competition_id (ob_manifest b)) = Inr (Some d)"
        "py_equal (to_contract_dict (oz_dump env) d) (to_contract_dict (oz_dump env) b)"
      by blast
    note id = scope_candidate [OF scope(1), THEN conjunct1]
    have same: "od_submissions u3 = od_submissions db" "od_events u3 = od_events db" "od_candidates db' = od_candidates u1"
      using u db' by (auto simp: update_candidate_def update_problem_def update_competition_def update_rows_def Let_def)
    have "cd_status c = CAND_SUBMITTED" using scope(2) by (simp add: validate_submission_transition_def Let_def result_simps)
    from update_candidate_one [OF u(1) this] have "not_ready db' (sb_candidate_id s)"
      using not_ready_same [OF same(3)] id by simp
    moreover have "count_if (\<lambda>r. kd_candidate_id r = sb_candidate_id s \<and> kd_status r = ''submission_ready'') (od_candidates db) = 1"
      using u(1) id by (simp add: update_candidate_def update_rows_def Let_def)
    ultimately show ?thesis using Pair Inr same db' loaded by simp
  qed
qed

text \<open>
  C22: a candidate that the database holds in another status than ready, a submitted one for example, is never
  submitted afterwards: whatever operations follow, every submission transition for it raises and leaves the database
  as it was.
\<close>

theorem settled_candidate_is_never_submitted:
  assumes "not_ready db (sb_candidate_id s)" and "(operations_step env)\<^sup>*\<^sup>* db db'"
  shows "\<exists>err. apply_submission env b s e db' = (Inl err, db')"
proof (cases "apply_submission env b s e db'")
  case (Pair r db2)
  have stays: "not_ready db' (sb_candidate_id s)" using steps_keep_not_ready assms by blast
  have "r \<noteq> Inr x" for x
  proof
    assume "r = Inr x"
    with Pair obtain c p where "submission_scope b s e = Inr (c, p)" "submission_body env b s e c p db' = Inr (x, db2)"
      using apply_submission_Inr by blast
    then obtain u where "update_candidate c db' = (1, u)" "cd_candidate_id c = sb_candidate_id s"
      using submission_body_Inr scope_candidate by metis
    with stays show False
      by (auto simp: not_ready_def update_candidate_def update_rows_def Let_def list_all_iff count_if_def filter_empty_conv)
  qed
  with Pair show ?thesis using apply_submission_changes [OF Pair] by (cases r) auto
qed

definition fo_drafted :: operations_db where
  "fo_drafted = (empty_operations fs_db)\<lparr>od_candidates := [candidate_row_for (oz_dump fo_env) (fx_candidate ''CAND-AAA'' CAND_DRAFT)]\<rparr>"

lemma fo_drafted_not_ready: "not_ready fo_drafted (sb_candidate_id fx_submission)"
  by code_simp

theorem settled_candidate_is_never_submitted_witness:
  "\<exists>err. apply_submission fo_env fx_submitted fx_submission (fo_event ''OEV-AAA'' 2) (snd (append_event fo_env (fo_event ''OEV-AAA'' 2) fo_drafted))
     = (Inl err, snd (append_event fo_env (fo_event ''OEV-AAA'' 2) fo_drafted))"
  using settled_candidate_is_never_submitted [OF fo_drafted_not_ready
      r_into_rtranclp [of "operations_step fo_env", OF operations_step.append]] by blast

subsection \<open>Valid documents that cannot be stored\<close>

lemma saved_is_ok:
  assumes "operations_reachable env db" and "insert_document (oz_dump env) b db = Inr db'"
  shows "ops_rows_ok db'"
  using operations_reachable_ok [OF assms(1)] insert_document_step [OF assms(2)] by (simp add: ops_ok_def ops_step_def)

lemma distinct_concat_part: "distinct (concat xss) \<Longrightarrow> xs \<in> set xss \<Longrightarrow> distinct xs"
  by (auto simp: distinct_concat_iff)

text \<open>
  C34: a document in which a problem has two provided files with the same content (under two names), or in which two
  plans share a dependency between their leaf jobs, is never stored, although the contract accepts it: saving raises
  and leaves the database as it was.
\<close>

theorem repeated_file_or_dependency_is_refused:
  assumes "operations_reachable env db"
    and "(\<exists>p \<in> set (ob_problems b). \<not> distinct (map pf_sha256 (pr_provided_file_artifacts p)))
      \<or> \<not> distinct (job_dependency_pairs b)"
  shows "\<exists>err. save_document env b db = (Inl err, db)"
proof -
  have "insert_document (oz_dump env) b db \<noteq> Inr db'" for db'
  proof
    assume ins: "insert_document (oz_dump env) b db = Inr db'"
    note rows = saved_is_ok [OF assms(1) ins, unfolded insert_document_Inr(1) [OF ins]]
    have "distinct (concat (map (\<lambda>p. map problem_artifact_key (problem_artifact_rows p)) (ob_problems b)))"
      using rows by (simp add: ops_rows_ok_def ops_problem_artifacts_ok_def with_document_def map_concat comp_def)
    from distinct_concat_part [OF this]
    have "distinct (map problem_artifact_key (problem_artifact_rows p))" if "p \<in> set (ob_problems b)" for p
      using that by simp
    then have "distinct (map (\<lambda>f. problem_artifact_key (file_row_for p f)) (pr_provided_file_artifacts p))"
      if "p \<in> set (ob_problems b)" for p
      using that by (simp add: problem_artifact_rows_def comp_def)
    then have "distinct (map pf_sha256 (pr_provided_file_artifacts p))" if "p \<in> set (ob_problems b)" for p
      using that by (auto simp: distinct_map inj_on_def problem_artifact_key_def file_row_for_def)
    moreover have "distinct (job_dependency_pairs b)"
      using rows by (simp add: ops_rows_ok_def ops_dependencies_ok_def with_document_def)
    ultimately show False using assms(2) by blast
  qed
  then obtain err where err: "insert_document (oz_dump env) b db = Inl err" by (cases "insert_document (oz_dump env) b db") auto
  show ?thesis
    by (cases "operations_guard env (to_contract_dict (oz_dump env) b)")
      (simp_all add: save_document_def ops_transaction_def err)
qed

definition fo_file :: "string \<Rightarrow> provided_file_artifact" where
  "fo_file n = \<lparr>pf_filename = n, pf_sha256 = fx_sha, pf_media_type = ''m''\<rparr>"

definition fo_twice :: operations_bundle where
  "fo_twice = fo_bundle\<lparr>ob_problems := [fx_problem\<lparr>pr_status := PROB_CAPTURED, pr_active_plan_id := None,
     pr_provided_file_artifacts := [fo_file ''a'', fo_file ''b'']\<rparr>]\<rparr>"

lemma fo_twice_valid: "validate_operations_document fo_twice = Inr ()"
  by code_simp

lemma fo_twice_repeats: "\<exists>p \<in> set (ob_problems fo_twice). \<not> distinct (map pf_sha256 (pr_provided_file_artifacts p))"
  by code_simp

theorem repeated_file_or_dependency_is_refused_witness:
  "validate_operations_document fo_twice = Inr ()
    \<and> (\<exists>err. save_document fo_env fo_twice (empty_operations fs_db) = (Inl err, empty_operations fs_db))"
  using repeated_file_or_dependency_is_refused [OF fo_reachable disjI1 [OF fo_twice_repeats]] fo_twice_valid by blast

subsection \<open>Migration\<close>

text \<open>
  When the migration returns, the backup, which did not exist, holds the database as it was, the database has
  version 2 with the rows of the first version it had and empty new tables, and the repository opens it; no other file changes.
  When it raises, nothing changed, or only the backup was written, or the database is migrated with its backup written but
  failed the last integrity check; an existing backup is never overwritten.
\<close>

theorem migration_keeps_first_version:
  "case migrate_operations_database integrity path backup files of
     (Inr _, files') \<Rightarrow>
       (\<exists>d. files path = Some d \<and> da_version d = 1 \<and> files backup = None \<and> backup \<noteq> path
          \<and> foreign_keys_hold (od_v1 (da_tables d)) \<and> files' = files(backup \<mapsto> d, path \<mapsto> migrated d)
          \<and> open_repository integrity (migrated d) = Inr (empty_operations (od_v1 (da_tables d))))
   | (Inl _, files') \<Rightarrow>
       files' = files
       \<or> (\<exists>d. files path = Some d \<and> da_version d = 1 \<and> files backup = None \<and> backup \<noteq> path
            \<and> (files' = files(backup \<mapsto> d)
               \<or> files' = files(backup \<mapsto> d, path \<mapsto> migrated d) \<and> \<not> integrity (migrated d)))"
proof (cases "files path")
  case None
  then show ?thesis by (simp add: migrate_operations_database_def)
next
  case (Some d)
  have version: "da_version (migrated d) = 2" "da_tables (migrated d) = empty_operations (od_v1 (da_tables d))"
    by (simp_all add: migrated_def)
  show ?thesis
    by (simp add: migrate_operations_database_def Some backup_database_def require_integrity_def open_repository_def version
        raise_if_def and_then_def then_check_def split: sum.split option.split)
qed

end
