(* ===== verification/Spec2Isabelle.thy ===== *)
theory Spec2Isabelle
  imports Scheduler_Properties Contract_Properties Request_Pool Source_Properties
    Submission_Properties Planner_Properties Analysis_Properties Verifier_Properties Snapshot_Properties
    Bitcoin_Analyzer_Properties Executor_Properties Operations_History
begin

text \<open>
  Verification library of SCAN, an evidence-first tool for blockchain forensics competitions
  (Python, \<^verbatim>\<open>src/src/scan_tool\<close>; the paths below are relative to it).

  \<^bold>\<open>The program.\<close> A competition is an \<^emph>\<open>operations document\<close>: a manifest with problems, AI modes,
  plans, jobs, candidates, verifications, submissions, events and errors (\<^verbatim>\<open>domain/operations.py\<close>).
  A planner, behind a policy gate, proposes a plan of leaf jobs (\<^verbatim>\<open>application/planner.py\<close>). The bounded
  scheduler runs the jobs of a queue under limits, dependencies, retries and deduplication
  (\<^verbatim>\<open>application/scheduler.py\<close>); identical reads of a source share one request (\<^verbatim>\<open>InFlightRequestPool\<close>),
  and a source read is gated, retried and passed on to fallback sources
  (\<^verbatim>\<open>application/source_orchestration.py\<close>). Around it, a cache-first executor keeps what was read as
  content-addressed files (\<^verbatim>\<open>adapters/artifacts.py\<close>) and rows of a SQLite workspace
  (\<^verbatim>\<open>adapters/sqlite_storage.py\<close>), and a checkpoint runner resumes completed stages
  (\<^verbatim>\<open>application/storage_orchestration.py\<close>). An evidence worker replays approved bytes through an
  analysis adapter and checks what comes back against the analysis contract
  (\<^verbatim>\<open>application/evidence_worker.py\<close>, \<^verbatim>\<open>domain/analysis_request.py\<close>, \<^verbatim>\<open>domain/analysis_result.py\<close>). A
  candidate answer is built from the results, verified by an independent replay and promoted
  (\<^verbatim>\<open>application/candidate_verifier.py\<close>); an operator's submission of it is recorded in the document
  (\<^verbatim>\<open>application/submission.py\<close>). Documents are kept in the second version of the workspace database
  (\<^verbatim>\<open>adapters/sqlite_operations.py\<close>), which a migration adds to the first one.

  \<^bold>\<open>Theories.\<close> Each component has a theory for its model and, where there is much to prove, one
  for its properties.

  \<^item> \<open>Prelude\<close>: results as sums (\<open>Inl\<close> is an exception), loops that raise, dictionaries in insertion
    order, ordered sets, indexing by a key; the collections \<open>result_simps\<close> and \<open>contract_simps\<close>.
  \<^item> \<open>Contract_Types\<close>: \<^verbatim>\<open>domain/_types.py\<close> and \<^verbatim>\<open>application/security.py\<close>: identifier patterns, JSON
    values, \<^verbatim>\<open>uint256\<close> text, the raw-value and safe-JSON checks, the sensitive-data guard.
  \<^item> \<open>Operations\<close>, \<open>Operations_Validation\<close>, \<open>Operations_Bundle\<close>: the records of the operations
    document, the validator of each record, and the references between them. \<open>Lifecycle\<close>: the
    transition tables as a step relation. \<open>Contract_Properties\<close>: what accepted documents guarantee.
  \<^item> \<open>Dependency_Graph\<close>, \<open>Scheduler\<close>: the recursive cycle check and the scheduler's rounds.
    \<open>Scheduler_Invariant\<close>, \<open>Scheduler_Run\<close>, \<open>Scheduler_Plan\<close>, \<open>Scheduler_Outcome\<close> and \<open>Scheduler_Steps\<close>
    carry the invariant from one operation to a round, a run and every interleaving;
    \<open>Scheduler_Properties\<close> states what follows. \<open>Request_Pool\<close>: the pool as a step relation.
  \<^item> \<open>Sha256\<close>: the hash function of the standard library on byte strings, on 32-bit words.
  \<^item> \<open>Source_Orchestration\<close>, \<open>Source_Properties\<close>: policy gate, retries, delays, fallback.
  \<^item> \<open>Planner\<close>, \<open>Planner_Properties\<close>: the gate in front of the planner adapter, the checks on its
    output, the persisted artifact, events and errors.
  \<^item> \<open>Analysis_Request\<close>, \<open>Analysis_Result\<close>: the request classes as schemas, results with their
    references, pair validation. \<open>Evidence_Worker\<close>: policy, integrity checks, executions, the queue
    executor. \<open>Evidence_Properties\<close> and \<open>Analysis_Properties\<close>: what they guarantee.
  \<^item> \<open>Candidate_Verifier\<close>, \<open>Verifier_Properties\<close>: build, verify and promote, and their abstract
    specifications (\<open>verdict\<close>, \<open>promotable\<close>).
  \<^item> \<open>Submission\<close>, \<open>Submission_Properties\<close>: recording a submission. \<open>Operations_Snapshot\<close>,
    \<open>Snapshot_Properties\<close>: the board, a projection of the document (\<^verbatim>\<open>application/operations_snapshot.py\<close>).
  \<^item> \<open>Bitcoin_Utxo\<close>, \<open>Bitcoin_Properties\<close>: \<^verbatim>\<open>domain/bitcoin_utxo.py\<close>, the replay contract, facts and
    heuristics. \<open>Bitcoin_Artifacts\<close>, \<open>Bitcoin_Analyzer\<close>: \<^verbatim>\<open>slices/bitcoin_utxo.py\<close>, the reconciliation of a
    replay with the recorded answers of the providers, and the analyzer with its documents.
    \<open>Bitcoin_Reports\<close>: its documents meet the contract. \<open>Bitcoin_Analyzer_Properties\<close>: the analyzer against
    its specification (\<open>artifacts_agree\<close>). \<open>Python_Values\<close>: \<^verbatim>\<open>int()\<close>, \<^verbatim>\<open>str()\<close> and \<^verbatim>\<open>Decimal\<close> on decoded JSON.
  \<^item> \<open>Json_Text\<close>: the parser of \<^verbatim>\<open>json.loads\<close> and its round trip with canonical text;
    \<open>Json_Fields\<close>: the fields of a model read from a decoded value.
    \<open>Artifact_Store\<close>: the files, with what another process may do between two calls.
    \<open>Sqlite_Storage\<close>: the tables of the DDL as lists of rows, each statement with its CHECK, key and
    foreign-key constraints, the operations with their transactions. \<open>Storage_Orchestration\<close>: the
    cache-first executor over database, files and sources, and the checkpoint runner.
    \<open>Storage_Invariant\<close>: the constraints as an invariant and the growth of the tables over all
    operations. \<open>Storage_Properties\<close>, \<open>Executor_Properties\<close>: what they guarantee.
  \<^item> \<open>Operations_Json\<close>: the dictionaries of documents and their reading. \<open>Sqlite_Operations\<close>: the tables of the
    second version, saving, loading, the submission transition and the migration. \<open>Operations_Integrity\<close>: its
    constraints as an invariant, the growth of its tables and the histories of operations. \<open>Document_Rows\<close>:
    what saving inserts and the queries select again. \<open>Canonical_Document\<close>: the order in which a document is
    loaded. \<open>Document_Load\<close>: the locale \<open>stored_table\<close>, the contract between the rows of a table and
    what is validated from them, interpreted on the ten tables of records. \<open>Operations_Store_Properties\<close>,
    \<open>Operations_History\<close>: what the store guarantees.
  \<^item> \<open>Write_Once\<close>: the interface of the tables that are written with
    \<^verbatim>\<open>ON CONFLICT DO NOTHING\<close> and compared afterwards, as a locale, interpreted on artifacts, cache
    entries and exports.
  \<^item> \<open>Gated_Service\<close>: the interface the planner, the evidence worker and the verifier
    share as locales: a refused command makes no adapter call, an accepted one at most those its budget
    allows. \<open>Fixtures\<close>: one small competition on which the properties are instantiated.

  \<^bold>\<open>How code is read.\<close> A frozen dataclass or pydantic model is a record and its validators are a
  function to \<open>contract_error + unit\<close>; an optional field that may be \<^verbatim>\<open>MISSING\<close> is an \<open>option\<close>; an enum is a
  datatype; a service is a function from its environment and a command to \<open>error + execution\<close>, where
  \<open>Inl\<close> is an exception that leaves the method and caught exceptions are branches. Ports
  (adapters, artifact stores, clocks, random numbers, URL normalisation) are fields of the environment;
  the theorems hold for every behaviour of them, and what they need of it (for the event loop: that a
  set enumeration is a permutation and a wait returns a non-empty part of the active tasks) is a
  named hypothesis. Instants are integers (microseconds); seconds and delays are rationals, so the
  rounding of floats is not modelled. Python integers are \<open>int\<close>; SHA-256 runs on words.

  \<^bold>\<open>What is shown.\<close>

  \<^item> Verification refines an abstract verdict on freshly replayed documents, promotion is exact with
    respect to an abstract condition, and build, verify and promote compose.
  \<^item> The worker calls its adapter only on approved, unaltered, guarded bytes of an approved plan; every
    execution of a well-formed command reports; accepted results are traceable to allowed sources;
    the input classes of a request never overlap.
  \<^item> The scheduler returns on every accepted queue, keeps every limit in every reachable state,
    respects dependencies, bounds attempts, runs duplicates once, completes every job that
    recovers, and its reports do not depend on the schedule.
  \<^item> Submissions of an accepted document are verified; lifecycles, raw values, safe JSON and the guard
    do what they promise; recording a submission succeeds exactly under its conditions, changes
    nothing else and happens once per candidate.
  \<^item> The board of an accepted document is built whenever its own arguments are well formed, and its
    counts, candidate states, alerts and activity agree with the document.
  \<^item> Accepted Bitcoin replays conserve value and are connected; the CoinJoin heuristic is exact. The
    Bitcoin analyzer reports exactly when every provider artifact agrees with the replay and fails
    otherwise, unless an arithmetic error leaves it; each of its documents is valid for the request;
    amounts are converted exactly.
  \<^item> The workspace database meets every constraint of its DDL in every reachable state and its tables
    only grow; a valid result is stored whole unless the
    guard refuses it, and then nothing is; artifacts, checkpoints and cached reads
    come back as they were written; provenance is written once; a completed stage never runs again.
  \<^item> The operations database meets every constraint of its DDL in every reachable state and its events are
    append-only; a saved document is loaded again, in a normal form that is as valid; a submission
    transition happens as a whole and at most once per candidate; the migration keeps the first version.
  \<^item> Planner and source orchestration: gates, checks, bounded waits, errors on every branch.

  Some theorems show where the code does not do what it means to: a document is accepted whichever candidate
  the verifications that a candidate names have verified, a retryable partial result is lost, a path-like model id
  is never reported, a leaf with a block window is refused, the final rate-limit error overstates,
  promotion out of review leaves the lifecycle, duplicate ids among replays are not caught, the
  facts of an unspent Bitcoin output report the path of another one, a cache entry of another source
  makes a live read raise, the second hop of a Bitcoin path is never reconciled, a malformed amount
  escapes the Bitcoin analyzer, a fallback between two sources of one provider is lost, and a valid
  document with one file under two names or a dependency shared by two plans cannot be stored.

  \<^bold>\<open>Fuel.\<close> The cycle check recurses with fuel and the scheduler loops with \<open>run_fuel\<close> (twice the sum of
  \<^verbatim>\<open>max_attempts\<close>, plus one): every round with an active job completes an attempt, so the weight
  of the state falls, and both are proved never to run out (\<open>Scheduler_Properties\<close>). The JSON parser
  takes the length of the text as fuel, which is enough for every text it accepts with more
  (\<open>Json_Text\<close>). Everything else is
  total by structural recursion.

  \<^bold>\<open>Not modelled.\<close> The other analyzers (\<^verbatim>\<open>slices/\<close> and the domain models only they use), which turn a
  provider document into results as the Bitcoin analyzer does, and the input source adapters: they fit the
  schemas, results and adapter port modelled here and none of the modelled components depends on them. The
  interpreter's limits on nested documents and on the length of integer text are not modelled; a float
  is its text, and its printing and truncation are parameters; numbers are compared by their texts, so
  the equality of \<^verbatim>\<open>-0.0\<close> with 0, of a float in exponent notation with an integer and the inequality of
  NaN with itself are outside the model. The HTTP adapter is I/O on systems
  outside the repository, and so are the backup and the pragmas of the workspace database; the command
  line, the terminal views and the exports format text; the \<^verbatim>\<open>task_*\<close> oracles and \<^verbatim>\<open>scripts/\<close> are
  checks of single recorded fixtures.
\<close>

end
